(* ===== verification/Pn_Prelude.thy ===== *)
theory Pn_Prelude
  imports Main "HOL-Library.Word" "HOL-Library.Monad_Syntax"
begin

text \<open>
  Shared vocabulary of the development: the machine integer types of the C sources, the
  collections of rewrite rules that the component proofs use, and generic lemmas on lists,
  options and words.
\<close>

unbundle bit_operations_syntax

section \<open>Types\<close>

type_synonym u8 = "8 word"
type_synonym u16 = "16 word"
type_synonym u32 = "32 word"

text \<open>
  Addresses of code and of static strings are only copied and compared by the sources, so
  they are numbers. A C array index that is stored in a \<^verbatim>\<open>uint32_t\<close> and never
  computed with is a \<open>nat\<close>.
\<close>

type_synonym ptr = nat

definition UINT32_MAX :: u32 where
  "UINT32_MAX = 4294967295"

named_theorems arr_simps \<open>reads and writes of arrays\<close>
named_theorems word_rng \<open>bounds of machine words\<close>

section \<open>Lists as arrays and chains\<close>

text \<open>The head of a chain, or the end marker; the last element of a chain, or its anchor.\<close>

definition hd_or :: "'a \<Rightarrow> 'a list \<Rightarrow> 'a" where
  "hd_or d xs = (case xs of [] \<Rightarrow> d | x # _ \<Rightarrow> x)"

definition last_or :: "'a \<Rightarrow> 'a list \<Rightarrow> 'a" where
  "last_or d xs = (if xs = [] then d else last xs)"

lemma hd_or_simps [simp]:
  "hd_or d [] = d" "hd_or d (x # xs) = x"
  by (simp_all add: hd_or_def)

lemma hd_or_append [simp]: "hd_or d (xs @ ys) = hd_or (hd_or d ys) xs"
  by (cases xs) simp_all

lemma last_or_simps [simp]:
  "last_or d [] = d" "last_or d (x # xs) = last_or x xs"
  by (simp_all add: last_or_def)

lemma last_or_append [simp]: "last_or d (xs @ ys) = last_or (last_or d xs) ys"
  by (auto simp: last_or_def)

lemma last_or_in: "xs \<noteq> [] \<Longrightarrow> last_or d xs \<in> set xs"
  by (simp add: last_or_def)

lemma hd_or_in: "xs \<noteq> [] \<Longrightarrow> hd_or d xs \<in> set xs"
  by (cases xs) simp_all

lemma nth_list_update_if [arr_simps]:
  "(xs[i := v]) ! j = (if i = j \<and> i < length xs then v else xs ! j)"
  by (metis nth_list_update_eq nth_list_update_neq list_update_beyond not_less)

lemma insort_key_takeWhile:
  "insort_key f x xs = takeWhile (\<lambda>y. f y < f x) xs @ x # dropWhile (\<lambda>y. f y < f x) xs"
  by (induction xs) (auto simp: not_le)

lemma distinct_length_le_card:
  assumes "distinct xs" and "set xs \<subseteq> {..<n}"
  shows "length xs \<le> n"
  using assms card_mono [of "{..<n}" "set xs"] by (simp add: distinct_card)

text \<open>The index of the first element that satisfies \<open>P\<close>, the length of the list if there is none.\<close>

fun index_where :: "('a \<Rightarrow> bool) \<Rightarrow> 'a list \<Rightarrow> nat" where
  "index_where P [] = 0"
| "index_where P (x # xs) = (if P x then 0 else Suc (index_where P xs))"

lemma index_where_le: "index_where P xs \<le> length xs"
  by (induction xs) auto

lemma index_where_sat: "index_where P xs < length xs \<Longrightarrow> P (xs ! index_where P xs)"
  by (induction xs) (auto split: if_splits)

lemma index_where_least: "i < index_where P xs \<Longrightarrow> \<not> P (xs ! i)"
  by (induction xs arbitrary: i) (auto simp: nth_Cons' split: if_splits)

lemma index_where_found: "index_where P xs < length xs \<longleftrightarrow> (\<exists>x \<in> set xs. P x)"
  by (induction xs) auto

lemma index_where_eqI:
  assumes "i < length xs" and "P (xs ! i)" and "\<And>j. j < i \<Longrightarrow> \<not> P (xs ! j)"
  shows "index_where P xs = i"
  using assms index_where_least [of _ P xs] index_where_sat [of P xs]
  by (metis (full_types) linorder_neqE_nat order.strict_trans)

text \<open>A loop over an array whose body may fail.\<close>

fun fold_m :: "('i \<Rightarrow> 's \<Rightarrow> 's option) \<Rightarrow> 'i list \<Rightarrow> 's \<Rightarrow> 's option" where
  "fold_m f [] s = Some s"
| "fold_m f (i # is) s = do { s \<leftarrow> f i s; fold_m f is s }"

lemma fold_m_append: "fold_m f (is @ js) s = do { s \<leftarrow> fold_m f is s; fold_m f js s }"
  by (induction "is" arbitrary: s) (auto split: Option.bind_splits)

text \<open>The search loops of the sources: the first index, if there is one.\<close>

definition find_ix :: "('a \<Rightarrow> bool) \<Rightarrow> 'a list \<Rightarrow> nat option" where
  "find_ix P xs = (let i = index_where P xs in if i < length xs then Some i else None)"

lemma find_ix_Some: "find_ix P xs = Some i \<Longrightarrow> i < length xs \<and> P (xs ! i)"
  by (auto simp: find_ix_def Let_def index_where_sat split: if_splits)

lemma find_ix_None: "find_ix P xs = None \<longleftrightarrow> (\<forall>x \<in> set xs. \<not> P x)"
  using index_where_found [of P xs] by (auto simp: find_ix_def Let_def)

lemma find_ix_eqI:
  assumes "i < length xs" and "P (xs ! i)" and "\<And>j. j < i \<Longrightarrow> \<not> P (xs ! j)"
  shows "find_ix P xs = Some i"
  using index_where_eqI [of i xs P, OF assms] assms(1) by (simp add: find_ix_def)

text \<open>
  The search for an element among the first \<open>n\<close> of an array; \<open>None\<close> if the loop leaves the
  array.
\<close>

definition find_upto :: "nat \<Rightarrow> ('a \<Rightarrow> bool) \<Rightarrow> 'a list \<Rightarrow> nat option option" where
  "find_upto n P xs = (let i = index_where P (take n xs) in
     if i = n then Some None else if i < length xs then Some (Some i) else None)"

text \<open>At most one element that satisfies \<open>P\<close> has a given key.\<close>

definition unique_by :: "('a \<Rightarrow> 'k) \<Rightarrow> ('a \<Rightarrow> bool) \<Rightarrow> 'a list \<Rightarrow> bool" where
  "unique_by f P xs \<longleftrightarrow> (\<forall>i < length xs. \<forall>j < length xs.
     P (xs ! i) \<longrightarrow> P (xs ! j) \<longrightarrow> f (xs ! i) = f (xs ! j) \<longrightarrow> i = j)"

lemma unique_by_find_ix:
  assumes "unique_by f P xs" and "i < length xs" and "P (xs ! i)"
  shows "find_ix (\<lambda>x. P x \<and> f x = f (xs ! i)) xs = Some i"
proof (rule find_ix_eqI)
  fix j assume "j < i"
  then show "\<not> (P (xs ! j) \<and> f (xs ! j) = f (xs ! i))"
    using assms unfolding unique_by_def by (metis order.strict_trans less_irrefl)
qed (use assms in auto)

lemma unique_by_new:
  assumes "unique_by f P xs" and "\<forall>y \<in> set xs. \<not> (P y \<and> f y = f x)"
  shows "unique_by f P (xs[i := x])"
  using assms by (auto simp: unique_by_def nth_list_update_if all_set_conv_all_nth)

lemma unique_by_same:
  assumes "unique_by f P xs" and "f x = f (xs ! i)" and "P x \<Longrightarrow> P (xs ! i)"
  shows "unique_by f P (xs[i := x])"
  using assms by (auto simp: unique_by_def nth_list_update_if)

section \<open>Signed readings of word differences\<close>

text \<open>
  The code compares times by the sign of the difference of two unsigned words. Inside a
  window of half the word range that comparison is the order of the distances from the
  start of the window.
\<close>

lemma sint_diff_in_half:
  fixes u v :: u32
  assumes "unat u < 2 ^ 31" and "unat v < 2 ^ 31"
  shows "sint (u - v) = int (unat u) - int (unat v)"
proof -
  define i j where "i = int (unat u)" and "j = int (unat v)"
  have "0 \<le> i" "0 \<le> j"
    by (simp_all add: i_def j_def)
  moreover have "i < 2 ^ 31" "j < 2 ^ 31"
    unfolding i_def j_def using assms by (metis of_nat_less_iff of_nat_power of_nat_numeral)+
  ultimately have "sint (word_of_int (i - j) :: u32) = i - j"
    by (subst sint_sbintrunc') (rule signed_take_bit_int_eq_self, simp_all)
  moreover have "u - v = word_of_int (i - j)"
    by (simp add: i_def j_def word_of_int_minus)
  ultimately show ?thesis by (simp only: i_def j_def)
qed

lemma uint_less_half:
  fixes w :: u32
  assumes "uint w < 2 ^ 31"
  shows "unat w < 2 ^ 31"
proof -
  have "int (unat w) < int (2 ^ 31)"
    using assms by (simp only: uint_nat of_nat_power of_nat_numeral)
  then show ?thesis by (simp only: of_nat_less_iff)
qed

lemma sint_le_window:
  fixes a b c :: u32
  assumes "unat (a - c) < 2 ^ 31" and "unat (b - c) < 2 ^ 31"
  shows "sint (a - b) \<le> 0 \<longleftrightarrow> unat (a - c) \<le> unat (b - c)"
proof -
  have "a - b = (a - c) - (b - c)" by simp
  then have "sint (a - b) = int (unat (a - c)) - int (unat (b - c))"
    using sint_diff_in_half [OF assms] by metis
  then show ?thesis by linarith
qed

section \<open>Additions that do not wrap\<close>

lemma unat_add_le [word_rng]:
  fixes p n l :: "'a::len word"
  assumes "unat p + unat n \<le> unat l"
  shows "unat (p + n) = unat p + unat n"
  using assms le_less_trans [OF assms unsigned_less] unat_add_lem [of p n] by blast

lemma unat_inc_less [word_rng]:
  fixes p l :: "'a::len word"
  assumes "unat p < unat l"
  shows "unat (p + 1) = unat p + 1"
  using unat_add_le [of p 1 l] assms by simp

end
