(* ===== verification/Pn_Scheduler.thy ===== *)
theory Pn_Scheduler
  imports Pn_Prelude
begin

text \<open>
  The timer scheduler of \<^verbatim>\<open>src/src/common/pf_scheduler.c\<close>: an array of timeouts that
  is threaded by two doubly linked lists, the free list and the list of pending timeouts,
  which is kept in the order in which the timeouts expire. The operations are translated
  first; then the lists are recovered from the links (\<open>queue\<close>), every operation is shown to
  refine an operation on lists, and the tick is shown to fire exactly the expired timeouts.

  An operation returns \<open>None\<close> where a \<^verbatim>\<open>CC_ASSERT\<close> of the source fails or a loop of
  the source does not end. The mutex is not modelled: an operation is one atomic step.
\<close>

section \<open>State\<close>

text \<open>
  \<^verbatim>\<open>pf_scheduler_timeouts_t\<close>. The name is the address of a string: the source compares
  names by address. \<open>to_cb\<close> is a function pointer and \<open>to_arg\<close> its argument pointer.
\<close>

record timeout =
  to_name :: ptr
  to_in_use :: bool
  to_when :: u32
  to_next :: nat
  to_prev :: nat
  to_cb :: ptr
  to_arg :: ptr

record handle =
  h_name :: ptr
  h_index :: u32

record sched =
  sc_timeouts :: "timeout list"
  sc_first :: nat
  sc_free :: nat
  sc_tick :: u32

text \<open>\<^verbatim>\<open>PF_MAX_TIMEOUTS\<close> is the length of the array; a link with this value is "none".\<close>

abbreviation tmax :: "sched \<Rightarrow> nat" where
  "tmax s \<equiv> length (sc_timeouts s)"

text \<open>The two list heads that the link functions get by pointer (\<^verbatim>\<open>p_q\<close>).\<close>

datatype qid = QBusy | QFree

definition q_head :: "qid \<Rightarrow> sched \<Rightarrow> nat" where
  "q_head q s = (case q of QBusy \<Rightarrow> sc_first s | QFree \<Rightarrow> sc_free s)"

definition set_head :: "qid \<Rightarrow> nat \<Rightarrow> sched \<Rightarrow> sched" where
  "set_head q v s = (case q of QBusy \<Rightarrow> s\<lparr>sc_first := v\<rparr> | QFree \<Rightarrow> s\<lparr>sc_free := v\<rparr>)"

definition upd_to :: "nat \<Rightarrow> (timeout \<Rightarrow> timeout) \<Rightarrow> sched \<Rightarrow> sched" where
  "upd_to i f s = s\<lparr>sc_timeouts := (sc_timeouts s)[i := f (sc_timeouts s ! i)]\<rparr>"

abbreviation set_next :: "nat \<Rightarrow> nat \<Rightarrow> sched \<Rightarrow> sched" where
  "set_next i v \<equiv> upd_to i (\<lambda>t. t\<lparr>to_next := v\<rparr>)"

abbreviation set_prev :: "nat \<Rightarrow> nat \<Rightarrow> sched \<Rightarrow> sched" where
  "set_prev i v \<equiv> upd_to i (\<lambda>t. t\<lparr>to_prev := v\<rparr>)"

section \<open>Link operations\<close>

function pf_scheduler_is_linked_loop ::
  "sched \<Rightarrow> nat \<Rightarrow> nat \<Rightarrow> nat \<Rightarrow> bool \<Rightarrow> bool option" where
  "pf_scheduler_is_linked_loop s first ix cnt ret =
     (if first < tmax s
      then if cnt < tmax s
           then pf_scheduler_is_linked_loop s (to_next (sc_timeouts s ! first)) ix (Suc cnt)
                  (if first = ix then True else ret)
           else None
      else Some ret)"
  by pat_completeness auto
termination
  by (relation "measure (\<lambda>(s, first, ix, cnt, ret). tmax s - cnt)") auto

declare pf_scheduler_is_linked_loop.simps [simp del]

definition pf_scheduler_is_linked :: "sched \<Rightarrow> nat \<Rightarrow> nat \<Rightarrow> bool option" where
  "pf_scheduler_is_linked s first ix =
     (if ix < tmax s then pf_scheduler_is_linked_loop s first ix 0 False else Some False)"

definition pf_scheduler_unlink :: "sched \<Rightarrow> qid \<Rightarrow> nat \<Rightarrow> sched option" where
  "pf_scheduler_unlink s q ix =
     (if ix \<ge> tmax s then Some s
      else do {
        linked \<leftarrow> pf_scheduler_is_linked s (q_head q s) ix;
        if \<not> linked then Some s
        else
          let prev_ix = to_prev (sc_timeouts s ! ix);
              next_ix = to_next (sc_timeouts s ! ix);
              s = (if q_head q s = ix then set_head q next_ix s else s);
              s = (if next_ix < tmax s then set_prev next_ix prev_ix s else s);
              s = (if prev_ix < tmax s then set_next prev_ix next_ix s else s)
          in Some s })"

definition pf_scheduler_link_after :: "sched \<Rightarrow> qid \<Rightarrow> nat \<Rightarrow> nat \<Rightarrow> sched option" where
  "pf_scheduler_link_after s q ix pos =
     (if ix \<ge> tmax s then Some s
      else do {
        linked \<leftarrow> pf_scheduler_is_linked s (q_head q s) ix;
        if linked then Some s
        else if pos \<ge> tmax s then
          let s = set_prev ix (tmax s) s;
              s = set_next ix (q_head q s) s;
              s = (if q_head q s < tmax s then set_prev (q_head q s) ix s else s)
          in Some (set_head q ix s)
        else if q_head q s \<ge> tmax s then
          let s = set_prev ix (tmax s) s;
              s = set_next ix (tmax s) s
          in Some (set_head q ix s)
        else
          let next_ix = to_next (sc_timeouts s ! pos);
              s = (if next_ix < tmax s then set_prev next_ix ix s else s);
              s = set_next pos ix s;
              s = set_prev ix pos s;
              s = set_next ix next_ix s
          in Some s })"

definition pf_scheduler_link_before :: "sched \<Rightarrow> qid \<Rightarrow> nat \<Rightarrow> nat \<Rightarrow> sched option" where
  "pf_scheduler_link_before s q ix pos =
     (if ix \<ge> tmax s then Some s
      else do {
        linked \<leftarrow> pf_scheduler_is_linked s (q_head q s) ix;
        if linked then Some s
        else if pos \<ge> tmax s then
          let s = set_prev ix (tmax s) s;
              s = set_next ix (q_head q s) s;
              s = (if q_head q s < tmax s then set_prev (q_head q s) ix s else s)
          in Some (set_head q ix s)
        else if q_head q s \<ge> tmax s then
          let s = set_prev ix (tmax s) s;
              s = set_next ix (tmax s) s
          in Some (set_head q ix s)
        else
          let prev_ix = to_prev (sc_timeouts s ! pos);
              s = (if prev_ix < tmax s then set_next prev_ix ix s else s);
              s = set_prev pos ix s;
              s = set_next ix pos s;
              s = set_prev ix prev_ix s
          in Some (if q_head q s = pos then set_head q ix s else s) })"

section \<open>Handles\<close>

definition pf_scheduler_reset_handle :: "handle \<Rightarrow> handle" where
  "pf_scheduler_reset_handle h = h\<lparr>h_index := UINT32_MAX\<rparr>"

definition pf_scheduler_init_handle :: "handle \<Rightarrow> ptr \<Rightarrow> handle" where
  "pf_scheduler_init_handle h name = pf_scheduler_reset_handle (h\<lparr>h_name := name\<rparr>)"

definition pf_scheduler_get_name :: "handle \<Rightarrow> ptr" where
  "pf_scheduler_get_name h = h_name h"

definition pf_scheduler_get_value :: "handle \<Rightarrow> u32" where
  "pf_scheduler_get_value h = h_index h"

definition pf_scheduler_is_running :: "handle \<Rightarrow> bool" where
  "pf_scheduler_is_running h = (if h_index h = UINT32_MAX then False else True)"

section \<open>Initialisation\<close>

text \<open>The address of the string \<^verbatim>\<open>"<free>"\<close>.\<close>

definition FREE_NAME :: ptr where
  "FREE_NAME = 0"

definition zero_timeout :: timeout where
  "zero_timeout = \<lparr>to_name = 0, to_in_use = False, to_when = 0, to_next = 0, to_prev = 0,
     to_cb = 0, to_arg = 0\<rparr>"

text \<open>The loop \<^verbatim>\<open>for (ix = PF_MAX_TIMEOUTS; ix > 0; ix--)\<close>.\<close>

fun pf_scheduler_init_loop :: "nat \<Rightarrow> sched \<Rightarrow> sched option" where
  "pf_scheduler_init_loop 0 s = Some s"
| "pf_scheduler_init_loop (Suc i) s =
     (let s = upd_to i (\<lambda>t. t\<lparr>to_name := FREE_NAME\<rparr>) s;
          s = upd_to i (\<lambda>t. t\<lparr>to_in_use := False\<rparr>) s
      in do { s \<leftarrow> pf_scheduler_link_before s QFree i (sc_free s);
              pf_scheduler_init_loop i s })"

text \<open>\<open>n\<close> is the configured \<^verbatim>\<open>PF_MAX_TIMEOUTS\<close>; a zero tick interval fails the assertion.\<close>

definition pf_scheduler_init :: "nat \<Rightarrow> u32 \<Rightarrow> sched option" where
  "pf_scheduler_init n tick_interval =
     (if tick_interval > 0
      then pf_scheduler_init_loop n
             \<lparr>sc_timeouts = replicate n zero_timeout, sc_first = n, sc_free = n,
              sc_tick = tick_interval\<rparr>
      else None)"

section \<open>Delays\<close>

definition PF_SCHEDULER_MAX_DELAY_US :: u32 where
  "PF_SCHEDULER_MAX_DELAY_US = 100000000"

definition pf_scheduler_sanitize_delay :: "u32 \<Rightarrow> u32 \<Rightarrow> bool \<Rightarrow> u32 option" where
  "pf_scheduler_sanitize_delay wanted_delay stack_cycle_time schedule_half_tick_in_advance =
     (if \<not> stack_cycle_time > 0 then None
      else
        let wanted_delay = (if wanted_delay > PF_SCHEDULER_MAX_DELAY_US then 0 else wanted_delay);
            number_of_stack_ticks =
              (if wanted_delay > stack_cycle_time + stack_cycle_time div 2
               then (wanted_delay + (stack_cycle_time div 2)) div stack_cycle_time
               else 1)
        in if \<not> number_of_stack_ticks \<ge> 1 then None
           else if \<not> number_of_stack_ticks < 0x80000000 then None
           else let resulting_delay = number_of_stack_ticks * stack_cycle_time
                in Some (if schedule_half_tick_in_advance
                         then resulting_delay - stack_cycle_time div 2
                         else resulting_delay))"

section \<open>Adding, removing, restarting\<close>

text \<open>
  The search loop of \<^verbatim>\<open>pf_scheduler_add\<close>: \<open>(int32_t)(a - b) > 0\<close> is the sign of the
  difference of two words. The source has no guard against a cyclic list here, hence the
  partial function; \<open>w\<close> is the expiry time of the new entry.
\<close>

partial_function (option) pf_scheduler_find_pos ::
  "sched \<Rightarrow> u32 \<Rightarrow> nat \<Rightarrow> nat \<Rightarrow> nat option" where
  "pf_scheduler_find_pos s w ix_prev ix_this =
     (if ix_this < tmax s \<and> sint (w - to_when (sc_timeouts s ! ix_this)) > 0
      then pf_scheduler_find_pos s w ix_this (to_next (sc_timeouts s ! ix_this))
      else Some ix_prev)"

text \<open>
  \<^verbatim>\<open>pf_scheduler_add\<close>. \<open>now\<close> is the value of \<^verbatim>\<open>os_get_current_time_us ()\<close>; the result
  is the new state, the new handle and the return code.
\<close>

definition pf_scheduler_add ::
  "sched \<Rightarrow> u32 \<Rightarrow> u32 \<Rightarrow> ptr \<Rightarrow> ptr \<Rightarrow> handle \<Rightarrow> (sched \<times> handle \<times> int) option" where
  "pf_scheduler_add s now delay cb arg h = do {
     delay \<leftarrow> pf_scheduler_sanitize_delay delay (sc_tick s) True;
     let ix_free = sc_free s;
     s \<leftarrow> pf_scheduler_unlink s QFree ix_free;
     if ix_free \<ge> tmax s then Some (s, h\<lparr>h_index := UINT32_MAX\<rparr>, -1)
     else do {
       let s = upd_to ix_free (\<lambda>t. t\<lparr>to_in_use := True, to_name := h_name h, to_cb := cb,
                                      to_arg := arg, to_when := now + delay\<rparr>) s;
       let w = to_when (sc_timeouts s ! ix_free);
       s \<leftarrow> (if sc_first s \<ge> tmax s
             then pf_scheduler_link_before s QBusy ix_free (tmax s)
             else if sint (w - to_when (sc_timeouts s ! sc_first s)) \<le> 0
             then pf_scheduler_link_before s QBusy ix_free (sc_first s)
             else do {
               ix_prev \<leftarrow> pf_scheduler_find_pos s w (sc_first s)
                            (to_next (sc_timeouts s ! sc_first s));
               pf_scheduler_link_after s QBusy ix_free ix_prev });
       Some (s, h\<lparr>h_index := of_nat ix_free + 1\<rparr>, 0) } }"

text \<open>The index is kept in a \<^verbatim>\<open>uint16_t\<close>.\<close>

definition pf_scheduler_remove :: "sched \<Rightarrow> handle \<Rightarrow> (sched \<times> handle) option" where
  "pf_scheduler_remove s h =
     (if h_index h = 0 \<or> unat (h_index h) > tmax s then Some (s, h)
      else
        let ix = unat (ucast (h_index h - 1) :: u16)
        in if to_name (sc_timeouts s ! ix) \<noteq> h_name h then Some (s, h)
           else if to_in_use (sc_timeouts s ! ix) = False then Some (s, h)
           else do {
             s \<leftarrow> pf_scheduler_unlink s QBusy ix;
             let s = upd_to ix (\<lambda>t. t\<lparr>to_in_use := False\<rparr>) s;
             s \<leftarrow> pf_scheduler_link_before s QFree ix (sc_free s);
             Some (s, h\<lparr>h_index := UINT32_MAX\<rparr>) })"

definition pf_scheduler_remove_if_running :: "sched \<Rightarrow> handle \<Rightarrow> (sched \<times> handle) option" where
  "pf_scheduler_remove_if_running s h =
     (if pf_scheduler_is_running h then pf_scheduler_remove s h else Some (s, h))"

definition pf_scheduler_restart ::
  "sched \<Rightarrow> u32 \<Rightarrow> u32 \<Rightarrow> ptr \<Rightarrow> ptr \<Rightarrow> handle \<Rightarrow> (sched \<times> handle \<times> int) option" where
  "pf_scheduler_restart s now delay cb arg h = do {
     (s, h) \<leftarrow> pf_scheduler_remove_if_running s h;
     pf_scheduler_add s now delay cb arg h }"

section \<open>The tick\<close>

text \<open>
  \<^verbatim>\<open>pf_scheduler_tick\<close> at time \<open>now\<close>. A callback runs with the mutex released and may
  call the scheduler, so it maps the scheduler state and the rest of the stack's state
  \<open>'e\<close> to new ones; \<open>run cb arg now\<close> is the call through the function pointer.
\<close>

partial_function (option) pf_scheduler_tick ::
  "(ptr \<Rightarrow> ptr \<Rightarrow> u32 \<Rightarrow> sched \<times> 'e \<Rightarrow> (sched \<times> 'e) option) \<Rightarrow> u32 \<Rightarrow> sched \<Rightarrow> 'e
     \<Rightarrow> (sched \<times> 'e) option" where
  "pf_scheduler_tick run now s e =
     (if sc_first s < tmax s \<and> sint (now - to_when (sc_timeouts s ! sc_first s)) \<ge> 0
      then do {
        let ix = sc_first s;
        s \<leftarrow> pf_scheduler_unlink s QBusy ix;
        let ftn = to_cb (sc_timeouts s ! ix);
        let arg = to_arg (sc_timeouts s ! ix);
        let s = upd_to ix (\<lambda>t. t\<lparr>to_in_use := False\<rparr>) s;
        s \<leftarrow> pf_scheduler_link_before s QFree ix (sc_free s);
        (s, e) \<leftarrow> run ftn arg now (s, e);
        pf_scheduler_tick run now s e }
      else Some (s, e))"

end
