(* ===== verification/Pn_Interfaces.thy ===== *)
theory Pn_Interfaces
  imports Pn_Prelude
begin

text \<open>
  The interfaces between components, as locales: what a client calls, and the laws that the
  provider promises. Each is interpreted on the model's definitions in the theory of the
  component that provides it.
\<close>

section \<open>One-shot timers\<close>

text \<open>
  The scheduler as its clients see it. \<open>owns s h\<close> says that the handle \<open>h\<close> refers to a
  pending timeout, \<open>room s\<close> is the number of timeouts that can still be started, and \<open>key\<close>
  identifies the timeout a handle refers to. A start may fail for lack of room only.
\<close>

locale timer_service =
  fixes wf :: "'s \<Rightarrow> bool" and room :: "'s \<Rightarrow> nat" and owns :: "'s \<Rightarrow> 'h \<Rightarrow> bool"
    and key :: "'h \<Rightarrow> 'k" and running :: "'h \<Rightarrow> bool"
    and start :: "'s \<Rightarrow> 'c \<Rightarrow> 'h \<Rightarrow> ('s \<times> 'h \<times> int) option"
    and stop :: "'s \<Rightarrow> 'h \<Rightarrow> ('s \<times> 'h) option"
  assumes start_room: "wf s \<Longrightarrow> 0 < room s \<Longrightarrow>
      \<exists>s' h'. start s c h = Some (s', h', 0) \<and> wf s' \<and> owns s' h' \<and> room s = Suc (room s')
        \<and> (\<forall>k. owns s k \<longrightarrow> owns s' k \<and> key k \<noteq> key h')"
    and start_full: "wf s \<Longrightarrow> room s = 0 \<Longrightarrow>
      \<exists>h'. start s c h = Some (s, h', -1) \<and> \<not> running h'"
    and stop_owned: "wf s \<Longrightarrow> owns s h \<Longrightarrow>
      \<exists>s' h'. stop s h = Some (s', h') \<and> wf s' \<and> \<not> running h' \<and> room s' = Suc (room s)
        \<and> (\<forall>k. owns s k \<longrightarrow> key k \<noteq> key h \<longrightarrow> owns s' k)"
    and owned_running: "wf s \<Longrightarrow> owns s h \<Longrightarrow> running h"
begin

text \<open>A start never aborts, and reports failure exactly when there is no room.\<close>

lemma start_cases:
  assumes "wf s"
  obtains s' h' r where "start s c h = Some (s', h', r)" and "wf s'" and "r = 0 \<longleftrightarrow> 0 < room s"
    and "r = 0 \<or> r = -1" and "r = 0 \<longrightarrow> running h'" and "r \<noteq> 0 \<longrightarrow> s' = s \<and> \<not> running h'"
    and "\<And>k. owns s k \<Longrightarrow> owns s' k"
proof (cases "room s")
  case 0
  with start_full [OF assms, of c h] that assms show thesis by fastforce
next
  case (Suc n)
  with start_room [OF assms, of c h] that owned_running show thesis by (metis zero_less_Suc)
qed

text \<open>
  Restarting a running timer cannot fail: the entry it gives back is there for the new start.
  No other client's timer is disturbed.
\<close>

lemma restart_owned:
  assumes "wf s" and "owns s h"
  obtains s' h' where "Option.bind (stop s h) (\<lambda>(s, h). start s c h) = Some (s', h', 0)"
    and "wf s'" and "owns s' h'" and "room s' = room s"
    and "\<And>k. owns s k \<Longrightarrow> key k \<noteq> key h \<Longrightarrow> owns s' k"
proof -
  obtain s1 h1 where 1: "stop s h = Some (s1, h1)" "wf s1" "room s1 = Suc (room s)"
    "\<forall>k. owns s k \<longrightarrow> key k \<noteq> key h \<longrightarrow> owns s1 k"
    using stop_owned [OF assms] by blast
  then obtain s' h' where "start s1 c h1 = Some (s', h', 0)" "wf s'" "owns s' h'"
    "room s1 = Suc (room s')" "\<forall>k. owns s1 k \<longrightarrow> owns s' k"
    using start_room [of s1 c h1] by auto
  with 1 that show thesis by simp
qed

end

section \<open>Bounded queues\<close>

text \<open>
  A queue with room for \<open>cap q\<close> elements. A failing \<open>post\<close> or \<open>fetch\<close> returns a value other than
  zero and leaves the queue as it is; \<open>fetch\<close> gets the old value of the variable it fills.
\<close>

datatype 'a queue_op = Post 'a | Fetch

fun queue_run :: "('q \<Rightarrow> 'a \<Rightarrow> int \<times> 'q) \<Rightarrow> ('q \<Rightarrow> 'a \<Rightarrow> int \<times> 'a \<times> 'q) \<Rightarrow> 'a
    \<Rightarrow> 'a queue_op list \<Rightarrow> 'q \<Rightarrow> 'a list \<times> 'a list \<times> 'q" where
  "queue_run post fetch d [] q = ([], [], q)"
| "queue_run post fetch d (Post x # ops) q =
     (let (r, q) = post q x; (ins, outs, q) = queue_run post fetch d ops q
      in (if r = 0 then x # ins else ins, outs, q))"
| "queue_run post fetch d (Fetch # ops) q =
     (let (r, x, q) = fetch q d; (ins, outs, q) = queue_run post fetch d ops q
      in (ins, if r = 0 then x # outs else outs, q))"

locale bounded_queue =
  fixes ok :: "'q \<Rightarrow> bool" and cap :: "'q \<Rightarrow> nat" and contents :: "'q \<Rightarrow> 'a list"
    and post :: "'q \<Rightarrow> 'a \<Rightarrow> int \<times> 'q" and fetch :: "'q \<Rightarrow> 'a \<Rightarrow> int \<times> 'a \<times> 'q"
  assumes post_room: "ok q \<Longrightarrow> length (contents q) < cap q \<Longrightarrow>
      \<exists>q'. post q x = (0, q') \<and> ok q' \<and> cap q' = cap q \<and> contents q' = contents q @ [x]"
    and post_full: "ok q \<Longrightarrow> cap q \<le> length (contents q) \<Longrightarrow> post q x = (-1, q)"
    and fetch_some: "ok q \<Longrightarrow> contents q = x # xs \<Longrightarrow>
      \<exists>q'. fetch q y = (0, x, q') \<and> ok q' \<and> cap q' = cap q \<and> contents q' = xs"
    and fetch_none: "ok q \<Longrightarrow> contents q = [] \<Longrightarrow> fetch q y = (-1, y, q)"
begin

text \<open>A post stores the element or changes nothing; a fetch takes the oldest one.\<close>

lemma post_cases:
  assumes "ok q" and "post q x = (r, q')"
  shows "ok q' \<and> cap q' = cap q \<and>
    (if r = 0 then contents q' = contents q @ [x] else q' = q \<and> cap q \<le> length (contents q))"
proof (cases "length (contents q) < cap q")
  case True
  with post_room [OF assms(1), of x] assms(2) show ?thesis by fastforce
next
  case False
  with post_full [OF assms(1), of x] assms show ?thesis by simp
qed

lemma fetch_cases:
  assumes "ok q" and "fetch q y = (r, x, q')"
  shows "ok q' \<and> cap q' = cap q \<and>
    (if r = 0 then contents q = x # contents q' else x = y \<and> q' = q \<and> contents q = [])"
proof (cases "contents q")
  case Nil
  with fetch_none [OF assms(1), of y] assms show ?thesis by simp
next
  case (Cons a xs)
  with fetch_some [OF assms(1) Cons, of y] assms(2) show ?thesis by auto
qed

text \<open>
  First in, first out: over any history, what was accepted after the old contents is what was
  handed out followed by the new contents.
\<close>

lemma run_fifo:
  assumes "ok q" and "queue_run post fetch d ops q = (ins, outs, q')"
  shows "ok q' \<and> cap q' = cap q \<and> contents q @ ins = outs @ contents q'"
  using assms
proof (induction ops arbitrary: q ins outs)
  case Nil
  then show ?case by simp
next
  case (Cons a ops)
  show ?case
  proof (cases a)
    case (Post x)
    obtain r q1 where p: "post q x = (r, q1)" by fastforce
    obtain ins1 outs1 where "queue_run post fetch d ops q1 = (ins1, outs1, q')"
      "ins = (if r = 0 then x # ins1 else ins1)" "outs = outs1"
      using Cons.prems(2) Post p by (auto simp: Let_def split: prod.splits)
    then show ?thesis using Cons.IH [of q1] post_cases [OF Cons.prems(1) p] by (auto split: if_splits)
  next
    case Fetch
    obtain r x q1 where p: "fetch q d = (r, x, q1)" by (metis prod_cases3)
    obtain ins1 outs1 where "queue_run post fetch d ops q1 = (ins1, outs1, q')"
      "outs = (if r = 0 then x # outs1 else outs1)" "ins = ins1"
      using Cons.prems(2) Fetch p by (auto simp: Let_def split: prod.splits)
    then show ?thesis using Cons.IH [of q1] fetch_cases [OF Cons.prems(1) p] by (auto split: if_splits)
  qed
qed

end

end
