(* ===== verification/Pn_Scheduler_Correct.thy ===== *)
theory Pn_Scheduler_Correct
  imports Pn_Scheduler Pn_Interfaces
begin

text \<open>
  Correctness of the scheduler model. \<open>chain\<close> reads a doubly linked list off the array,
  \<open>queue\<close> says that a list head denotes a list of array indices, and \<open>sched_ok\<close> is the
  invariant of the scheduler: the free and the pending list partition the array. Each link
  operation is first shown to implement one list operation; the operations of the interface
  then refine an ordered list of pending timeouts.
\<close>

section \<open>Chains of links\<close>

fun chain :: "timeout list \<Rightarrow> nat \<Rightarrow> nat list \<Rightarrow> nat \<Rightarrow> bool" where
  "chain ts p [] n = True"
| "chain ts p (x # xs) n =
     (x < length ts \<and> to_prev (ts ! x) = p \<and> to_next (ts ! x) = hd_or n xs \<and> chain ts x xs n)"

lemma chain_bound: "chain ts p xs n \<Longrightarrow> x \<in> set xs \<Longrightarrow> x < length ts"
  by (induction xs arbitrary: p) auto

lemma chain_append:
  "chain ts p (xs @ ys) n \<longleftrightarrow> chain ts p xs (hd_or n ys) \<and> chain ts (last_or p xs) ys n"
  by (induction xs arbitrary: p) auto

lemma chain_frame:
  assumes "chain ts p xs n" and "length ts' = length ts"
    and "\<And>x. x \<in> set xs \<Longrightarrow> to_prev (ts' ! x) = to_prev (ts ! x) \<and> to_next (ts' ! x) = to_next (ts ! x)"
  shows "chain ts' p xs n"
  using assms by (induction xs arbitrary: p) auto

lemma chain_skip_update [simp]:
  "i \<notin> set xs \<Longrightarrow> chain (ts[i := t]) p xs n = chain ts p xs n"
  by (induction xs arbitrary: p) (auto simp: arr_simps)

lemma chain_relink_head:
  assumes "chain ts p xs n" and "distinct xs" and "n = length ts"
  shows "chain (if hd_or n xs < length ts
                then ts[hd_or n xs := (ts ! hd_or n xs)\<lparr>to_prev := p'\<rparr>] else ts) p' xs n"
  using assms by (cases xs) (simp_all add: arr_simps)

lemma chain_relink_last:
  assumes "chain ts p xs n" and "distinct xs" and "p = length ts"
  shows "chain (if last_or p xs < length ts
                then ts[last_or p xs := (ts ! last_or p xs)\<lparr>to_next := n'\<rparr>] else ts) p xs n'"
proof (cases xs rule: rev_cases)
  case Nil
  then show ?thesis by simp
next
  case (snoc ys y)
  with assms show ?thesis by (auto simp: chain_append arr_simps)
qed

lemma chain_length:
  assumes "chain ts p xs n" and "distinct xs"
  shows "length xs \<le> length ts"
  using assms by (intro distinct_length_le_card) (auto dest: chain_bound)

section \<open>Queues\<close>

definition queue :: "sched \<Rightarrow> qid \<Rightarrow> nat list \<Rightarrow> bool" where
  "queue s q xs \<longleftrightarrow> distinct xs \<and> q_head q s = hd_or (tmax s) xs
     \<and> chain (sc_timeouts s) (tmax s) xs (tmax s)"

lemma queue_bound: "queue s q xs \<Longrightarrow> x \<in> set xs \<Longrightarrow> x < tmax s"
  by (auto simp: queue_def dest: chain_bound)

lemma queue_head_less [simp]: "queue s q xs \<Longrightarrow> q_head q s < tmax s \<longleftrightarrow> xs \<noteq> []"
  by (cases xs) (auto simp: queue_def)

lemma queue_head: "queue s q (x # xs) \<Longrightarrow> q_head q s = x"
  by (simp add: queue_def)

text \<open>What the link functions leave alone: the other list head and everything but the links.\<close>

definition contents_of :: "timeout \<Rightarrow> timeout" where
  "contents_of t = t\<lparr>to_next := 0, to_prev := 0\<rparr>"

definition relinked :: "qid \<Rightarrow> nat set \<Rightarrow> sched \<Rightarrow> sched \<Rightarrow> bool" where
  "relinked q A s s' \<longleftrightarrow> tmax s' = tmax s \<and> sc_tick s' = sc_tick s
     \<and> (\<forall>q'. q' \<noteq> q \<longrightarrow> q_head q' s' = q_head q' s)
     \<and> (\<forall>i. contents_of (sc_timeouts s' ! i) = contents_of (sc_timeouts s ! i))
     \<and> (\<forall>i. i \<notin> A \<longrightarrow> sc_timeouts s' ! i = sc_timeouts s ! i)"

lemma payload_sel:
  "to_name (contents_of t) = to_name t" "to_in_use (contents_of t) = to_in_use t"
  "to_when (contents_of t) = to_when t" "to_cb (contents_of t) = to_cb t" "to_arg (contents_of t) = to_arg t"
  by (simp_all add: contents_of_def)

lemma payload_eqD:
  assumes "contents_of t = contents_of u"
  shows "to_name t = to_name u" "to_in_use t = to_in_use u" "to_when t = to_when u"
    "to_cb t = to_cb u" "to_arg t = to_arg u"
  using assms by (metis payload_sel)+

lemma payload_links [simp]:
  "contents_of (t\<lparr>to_next := v\<rparr>) = contents_of t" "contents_of (t\<lparr>to_prev := v\<rparr>) = contents_of t"
  by (simp_all add: contents_of_def)

lemma links_swap: "t\<lparr>to_next := a, to_prev := b\<rparr> = t\<lparr>to_prev := b, to_next := a\<rparr>"
  by (cases t) simp

lemma q_head_set_head [simp]:
  "q_head q (set_head q' v s) = (if q = q' then v else q_head q s)"
  by (cases q; cases q') (simp_all add: q_head_def set_head_def)

lemma set_head_fields [simp]:
  "sc_timeouts (set_head q v s) = sc_timeouts s" "sc_tick (set_head q v s) = sc_tick s"
  by (cases q; simp add: set_head_def)+

lemma upd_to_fields [simp]:
  "sc_timeouts (upd_to i f s) = (sc_timeouts s)[i := f (sc_timeouts s ! i)]"
  "sc_tick (upd_to i f s) = sc_tick s" "q_head q (upd_to i f s) = q_head q s"
  "sc_first (upd_to i f s) = sc_first s" "sc_free (upd_to i f s) = sc_free s"
  by (cases q; simp add: upd_to_def q_head_def)+

lemma q_head_timeouts [simp]: "q_head q (s\<lparr>sc_timeouts := ts\<rparr>) = q_head q s"
  by (cases q) (simp_all add: q_head_def)

lemma queue_other:
  assumes q: "queue s q' ys" and r: "relinked q A s s'" and "q' \<noteq> q" and A: "A \<inter> set ys = {}"
  shows "queue s' q' ys"
proof -
  have len: "tmax s' = tmax s" and hd: "q_head q' s' = q_head q' s"
    using r \<open>q' \<noteq> q\<close> by (simp_all add: relinked_def)
  have same: "sc_timeouts s' ! x = sc_timeouts s ! x" if "x \<in> set ys" for x
    using r A that by (auto simp only: relinked_def)
  have "chain (sc_timeouts s) (tmax s) ys (tmax s)"
    using q by (simp add: queue_def)
  then have "chain (sc_timeouts s') (tmax s) ys (tmax s)"
    by (rule chain_frame) (simp_all add: len same)
  with q show ?thesis by (simp add: queue_def len hd)
qed

subsection \<open>Membership\<close>

lemma is_linked_loop:
  assumes "chain (sc_timeouts s) p xs (tmax s)" and "cnt + length xs \<le> tmax s"
  shows "pf_scheduler_is_linked_loop s (hd_or (tmax s) xs) ix cnt ret
           = Some (ret \<or> ix \<in> set xs)"
  using assms
proof (induction xs arbitrary: p cnt ret)
  case Nil
  then show ?case by (simp add: pf_scheduler_is_linked_loop.simps)
next
  case (Cons x xs)
  then show ?case by (subst pf_scheduler_is_linked_loop.simps) auto
qed

lemma is_linked:
  assumes "queue s q xs"
  shows "pf_scheduler_is_linked s (q_head q s) ix = Some (ix \<in> set xs)"
proof -
  have "length xs \<le> tmax s"
    using assms by (auto simp: queue_def dest: chain_length)
  with assms have "pf_scheduler_is_linked_loop s (q_head q s) ix 0 False = Some (ix \<in> set xs)"
    using is_linked_loop [of s "tmax s" xs 0 ix False] by (simp add: queue_def)
  then show ?thesis
    using queue_bound [OF assms] by (auto simp: pf_scheduler_is_linked_def)
qed

subsection \<open>Unlinking\<close>

lemma unlink:
  assumes q: "queue s q (as @ ix # bs)"
  obtains s' where "pf_scheduler_unlink s q ix = Some s'" and "queue s' q (as @ bs)"
    and "relinked q (set as \<union> set bs) s s'"
proof -
  let ?M = "tmax s" and ?ts = "sc_timeouts s"
  define nx pv where "nx = hd_or ?M bs" and "pv = last_or ?M as"
  define ts2 where "ts2 = (if nx < ?M then ?ts[nx := (?ts ! nx)\<lparr>to_prev := pv\<rparr>] else ?ts)"
  define ts3 where "ts3 = (if pv < ?M then ts2[pv := (ts2 ! pv)\<lparr>to_next := nx\<rparr>] else ts2)"
  define s1 where "s1 = (if q_head q s = ix then set_head q nx s else s)"
  define s2 where "s2 = (if nx < ?M then set_prev nx pv s1 else s1)"
  define s3 where "s3 = (if pv < ?M then set_next pv nx s2 else s2)"
  have c: "chain ?ts ?M as ix" "chain ?ts ix bs ?M" "ix < ?M"
    "to_prev (?ts ! ix) = pv" "to_next (?ts ! ix) = nx"
    and d: "distinct as" "distinct bs" "ix \<notin> set as" "ix \<notin> set bs" "set as \<inter> set bs = {}"
    and h: "q_head q s = hd_or ix as"
    using q by (auto simp: queue_def chain_append nx_def pv_def)
  have nx_in: "nx < ?M \<Longrightarrow> nx \<in> set bs" and pv_in: "pv < ?M \<Longrightarrow> pv \<in> set as"
    by (cases bs; simp add: nx_def) (cases as; auto simp: pv_def last_or_def)
  have nx_as: "nx < ?M \<Longrightarrow> nx \<notin> set as"
    using nx_in d(5) by (auto simp only: disjoint_iff)
  have len: "length ts2 = ?M" "length ts3 = ?M"
    by (simp_all add: ts2_def ts3_def)
  have "chain ts2 pv bs ?M"
    unfolding ts2_def nx_def using c(2) d(2) by (rule chain_relink_head) simp
  moreover have as2: "chain ts2 ?M as ix"
    using c(1) nx_as by (cases "nx < ?M") (simp_all add: ts2_def)
  moreover have "chain ts3 ?M as nx"
    using chain_relink_last [OF as2 d(1) len(1) [symmetric], of nx]
    by (simp only: ts3_def pv_def len(1))
  moreover have "pv < ?M \<Longrightarrow> pv \<notin> set bs"
    using pv_in d(5) by (auto simp only: disjoint_iff)
  ultimately have "chain ts3 pv bs ?M" "chain ts3 ?M as nx"
    by (cases "pv < ?M"; simp add: ts3_def)+
  then have "chain ts3 ?M (as @ bs) ?M"
    by (simp add: chain_append nx_def pv_def)
  moreover have f: "sc_timeouts s3 = ts3" "sc_tick s3 = sc_tick s" "tmax s3 = ?M"
    "q_head q s3 = hd_or ?M (as @ bs)" "\<And>q'. q' \<noteq> q \<Longrightarrow> q_head q' s3 = q_head q' s"
    using h d(3) by (cases as; auto simp: s3_def s2_def s1_def ts3_def ts2_def nx_def len)+
  ultimately have "queue s3 q (as @ bs)"
    using d by (simp add: queue_def)
  moreover have "relinked q (set as \<union> set bs) s s3"
    using f nx_in pv_in by (auto simp: relinked_def ts3_def ts2_def arr_simps)
  moreover have "pf_scheduler_unlink s q ix = Some s3"
    using c(3-5) is_linked [OF q, of ix]
    by (simp add: pf_scheduler_unlink_def Let_def s3_def s2_def s1_def)
  ultimately show thesis using that by blast
qed

lemma unlink_outside:
  assumes "queue s q xs" and "ix \<notin> set xs"
  shows "pf_scheduler_unlink s q ix = Some s"
  using is_linked [OF assms(1), of ix] assms(2) by (simp add: pf_scheduler_unlink_def)

subsection \<open>Linking\<close>

lemma link_before_front:
  assumes q: "queue s q xs" and ix: "ix \<notin> set xs" "ix < tmax s"
    and pos: "pos = q_head q s \<or> pos = tmax s"
  obtains s' where "pf_scheduler_link_before s q ix pos = Some s'" and "queue s' q (ix # xs)"
    and "relinked q (insert ix (set xs)) s s'"
proof -
  let ?M = "tmax s" and ?ts = "sc_timeouts s"
  define nx where "nx = hd_or ?M xs"
  define t where "t = (?ts ! ix)\<lparr>to_prev := ?M, to_next := nx\<rparr>"
  define ts2 where "ts2 = (if nx < ?M then ?ts[nx := (?ts ! nx)\<lparr>to_prev := ix\<rparr>] else ?ts)"
  define s' where "s' = set_head q ix (s\<lparr>sc_timeouts := ts2[ix := t]\<rparr>)"
  have h: "q_head q s = nx" and c: "chain ?ts ?M xs ?M" and d: "distinct xs"
    using q by (simp_all add: queue_def nx_def)
  have nx_in: "nx < ?M \<Longrightarrow> nx \<in> set xs" and nx_pv: "nx < ?M \<Longrightarrow> to_prev (?ts ! nx) = ?M"
    using c by (cases xs; simp add: nx_def)+
  have nx_ge: "\<not> nx < ?M \<Longrightarrow> nx = ?M"
    using c by (cases xs) (simp_all add: nx_def)
  have "chain ts2 ix xs ?M"
    unfolding ts2_def nx_def using c d by (rule chain_relink_head) simp
  then have "queue s' q (ix # xs)"
    using ix d by (auto simp: queue_def s'_def t_def ts2_def nx_def arr_simps)
  moreover have "relinked q (insert ix (set xs)) s s'"
    using ix nx_in by (auto simp: relinked_def s'_def t_def ts2_def arr_simps)
  moreover have "pf_scheduler_link_before s q ix pos = Some s'"
  proof (cases "nx < ?M")
    case True
    then have "ix \<noteq> nx" using ix nx_in by blast
    note swap = list_update_swap [OF this]
    show ?thesis
      using True is_linked [OF q, of ix] ix pos h nx_pv \<open>ix \<noteq> nx\<close>
      by (cases q) (elim disjE; simp add: pf_scheduler_link_before_def Let_def s'_def t_def
          ts2_def set_head_def upd_to_def q_head_def arr_simps swap links_swap)+
  next
    case False
    then show ?thesis
      using is_linked [OF q, of ix] ix pos h nx_ge
      by (cases q) (auto simp: pf_scheduler_link_before_def Let_def s'_def t_def ts2_def
          set_head_def upd_to_def q_head_def)
  qed
  ultimately show thesis using that by blast
qed

lemma link_after:
  assumes q: "queue s q (as @ pos # bs)" and ix: "ix \<notin> set (as @ pos # bs)" "ix < tmax s"
  obtains s' where "pf_scheduler_link_after s q ix pos = Some s'"
    and "queue s' q (as @ pos # ix # bs)"
    and "relinked q (insert ix (set (as @ pos # bs))) s s'"
proof -
  let ?M = "tmax s" and ?ts = "sc_timeouts s"
  define nx where "nx = hd_or ?M bs"
  define t where "t = (?ts ! ix)\<lparr>to_prev := pos, to_next := nx\<rparr>"
  define ts2 where "ts2 = (if nx < ?M then ?ts[nx := (?ts ! nx)\<lparr>to_prev := ix\<rparr>] else ?ts)"
  define ts3 where "ts3 = ts2[pos := (?ts ! pos)\<lparr>to_next := ix\<rparr>]"
  define s' where "s' = s\<lparr>sc_timeouts := ts3[ix := t]\<rparr>"
  have c: "chain ?ts ?M as pos" "chain ?ts pos bs ?M" "pos < ?M"
    "to_prev (?ts ! pos) = last_or ?M as" "to_next (?ts ! pos) = nx"
    and d: "distinct as" "distinct bs" "pos \<notin> set as" "pos \<notin> set bs" "set as \<inter> set bs = {}"
    and h: "q_head q s = hd_or pos as"
    using q by (auto simp: queue_def chain_append nx_def)
  have nx_in: "nx < ?M \<Longrightarrow> nx \<in> set bs"
    by (cases bs) (simp_all add: nx_def)
  then have nx_ne: "nx < ?M \<Longrightarrow> nx \<notin> set as" "nx < ?M \<Longrightarrow> nx \<noteq> pos" "nx < ?M \<Longrightarrow> nx \<noteq> ix"
    using d ix(1) by (auto simp only: disjoint_iff set_append list.set Un_iff insert_iff)
  have len: "length ts2 = ?M" "length ts3 = ?M" by (simp_all add: ts2_def ts3_def)
  have "chain ts2 ix bs ?M"
    unfolding ts2_def nx_def using c(2) d(2) by (rule chain_relink_head) simp
  then have "chain (ts3[ix := t]) ix bs ?M"
    using d(4) ix(1) by (simp add: ts3_def)
  moreover have "chain ts2 ?M as pos"
    using c(1) nx_ne(1) by (cases "nx < ?M") (simp_all add: ts2_def)
  then have "chain (ts3[ix := t]) ?M as pos"
    using d(3) ix(1) by (simp add: ts3_def)
  moreover have "chain (ts3[ix := t]) (last_or ?M as) (pos # ix # bs) ?M"
    using c(3,4) ix nx_ne(2) calculation(1)
    by (auto simp: ts3_def ts2_def t_def nx_def arr_simps)
  ultimately have "queue s' q (as @ pos # ix # bs)"
    using d ix(1) h by (auto simp: queue_def chain_append s'_def len)
  moreover have "relinked q (insert ix (set (as @ pos # bs))) s s'"
    using nx_in by (auto simp: relinked_def s'_def ts3_def ts2_def t_def arr_simps)
  moreover have "pf_scheduler_link_after s q ix pos = Some s'"
  proof (cases "nx < ?M")
    case True
    then show ?thesis
      using is_linked [OF q, of ix] queue_head_less [OF q] ix c(3,5) nx_ne
      by (simp add: pf_scheduler_link_after_def Let_def s'_def ts3_def ts2_def t_def
          upd_to_def arr_simps)
  next
    case False
    then show ?thesis
      using is_linked [OF q, of ix] queue_head_less [OF q] ix c(3,5)
      by (simp add: pf_scheduler_link_after_def Let_def s'_def ts3_def ts2_def t_def
          upd_to_def arr_simps)
  qed
  ultimately show thesis using that by blast
qed

section \<open>The invariant\<close>

text \<open>The list that a head denotes, computed by following the links at most \<open>n\<close> times.\<close>

fun walk :: "nat \<Rightarrow> timeout list \<Rightarrow> nat \<Rightarrow> nat list" where
  "walk 0 ts i = []"
| "walk (Suc n) ts i = (if i < length ts then i # walk n ts (to_next (ts ! i)) else [])"

definition queue_list :: "qid \<Rightarrow> sched \<Rightarrow> nat list" where
  "queue_list q s = walk (tmax s) (sc_timeouts s) (q_head q s)"

abbreviation busy :: "sched \<Rightarrow> nat list" where
  "busy \<equiv> queue_list QBusy"

abbreviation free :: "sched \<Rightarrow> nat list" where
  "free \<equiv> queue_list QFree"

lemma walk_chain:
  "chain ts p xs n \<Longrightarrow> length xs \<le> k \<Longrightarrow> n = length ts \<Longrightarrow> walk k ts (hd_or n xs) = xs"
proof (induction xs arbitrary: p k)
  case Nil
  then show ?case by (cases k) simp_all
next
  case (Cons x xs)
  then show ?case by (cases k) auto
qed

lemma queue_list_eq: "queue s q xs \<Longrightarrow> queue_list q s = xs"
  using chain_length walk_chain by (fastforce simp: queue_def queue_list_def)

definition sched_ok :: "sched \<Rightarrow> bool" where
  "sched_ok s \<longleftrightarrow> queue s QFree (free s) \<and> queue s QBusy (busy s)
     \<and> set (free s) \<inter> set (busy s) = {} \<and> set (free s) \<union> set (busy s) = set [0..<tmax s]
     \<and> int (tmax s) < 2 ^ 16 \<and> sc_tick s > 0
     \<and> (\<forall>i\<in>set (busy s). to_in_use (sc_timeouts s ! i))
     \<and> (\<forall>i\<in>set (free s). \<not> to_in_use (sc_timeouts s ! i))"

lemma sched_okI:
  assumes "queue s QFree fs" and "queue s QBusy bs" and "set fs \<inter> set bs = {}"
    and "set fs \<union> set bs = {..<tmax s}" and "int (tmax s) < 2 ^ 16" and "sc_tick s > 0"
    and "\<forall>i\<in>set bs. to_in_use (sc_timeouts s ! i)"
    and "\<forall>i\<in>set fs. \<not> to_in_use (sc_timeouts s ! i)"
  shows "sched_ok s \<and> free s = fs \<and> busy s = bs"
  using assms queue_list_eq [OF assms(1)] queue_list_eq [OF assms(2)]
  by (auto simp: sched_ok_def atLeast0LessThan)

lemma sched_okD:
  assumes "sched_ok s"
  shows "queue s QFree (free s)" and "queue s QBusy (busy s)" and "set (free s) \<inter> set (busy s) = {}"
    and "set (free s) \<union> set (busy s) = {..<tmax s}" and "int (tmax s) < 2 ^ 16" and "sc_tick s > 0"
    and "i \<in> set (busy s) \<Longrightarrow> to_in_use (sc_timeouts s ! i)"
    and "i \<in> set (free s) \<Longrightarrow> \<not> to_in_use (sc_timeouts s ! i)"
  using assms by (auto simp: sched_ok_def atLeast0LessThan)

lemma queue_upd_to:
  assumes "\<And>t. to_next (f t) = to_next t \<and> to_prev (f t) = to_prev t"
  shows "queue (upd_to i f s) q xs = queue s q xs"
proof -
  have links: "to_next ((ts[i := f (ts ! i)]) ! j) = to_next (ts ! j)
      \<and> to_prev ((ts[i := f (ts ! i)]) ! j) = to_prev (ts ! j)" for ts :: "timeout list" and j
    using assms by (simp add: arr_simps)
  have "chain (ts[i := f (ts ! i)]) p ys n = chain ts p ys n" for ts p ys n
    by (induction ys arbitrary: p) (simp_all add: links)
  then show ?thesis by (simp add: queue_def)
qed

subsection \<open>Initialisation\<close>

lemma init_loop:
  assumes "queue s QFree [i..<tmax s]" and "i \<le> tmax s" and "sc_first s = tmax s"
    and "\<And>j. i \<le> j \<Longrightarrow> j < tmax s \<Longrightarrow> \<not> to_in_use (sc_timeouts s ! j)"
  obtains s' where "pf_scheduler_init_loop i s = Some s'" and "queue s' QFree [0..<tmax s]"
    and "tmax s' = tmax s" and "sc_first s' = tmax s" and "sc_tick s' = sc_tick s"
    and "\<And>j. j < tmax s \<Longrightarrow> \<not> to_in_use (sc_timeouts s' ! j)"
  using assms
proof (induction i arbitrary: s thesis)
  case 0
  show ?case
    by (rule "0.prems"(1) [of s]) (simp_all only: pf_scheduler_init_loop.simps "0.prems"(2-5) le0
        not_False_eq_True)
next
  case (Suc i)
  define u where "u = upd_to i (\<lambda>t. t\<lparr>to_in_use := False\<rparr>) (upd_to i (\<lambda>t. t\<lparr>to_name := FREE_NAME\<rparr>) s)"
  have u: "queue u QFree [Suc i..<tmax u]" "tmax u = tmax s" "sc_first u = tmax s"
    "sc_tick u = sc_tick s"
    using Suc.prems(2,4) by (simp_all add: u_def queue_upd_to)
  have use: "\<not> to_in_use (sc_timeouts u ! j)" if "i \<le> j" "j < tmax s" for j
    using that Suc.prems(5) [of j] by (auto simp: u_def arr_simps)
  obtain v where v: "pf_scheduler_link_before u QFree i (q_head QFree u) = Some v"
    "queue v QFree (i # [Suc i..<tmax u])" "relinked QFree (insert i (set [Suc i..<tmax u])) u v"
    using link_before_front [OF u(1), of i "q_head QFree u"] Suc.prems(3) u(2) by auto
  have vv: "tmax v = tmax s" "sc_first v = tmax s" "sc_tick v = sc_tick s"
    using v(3) u by (auto simp: relinked_def q_head_def split: qid.splits)
  have v_use: "\<not> to_in_use (sc_timeouts v ! j)" if "i \<le> j" "j < tmax s" for j
    using use [OF that] v(3) payload_eqD(2) [of "sc_timeouts v ! j" "sc_timeouts u ! j"]
    by (simp add: relinked_def)
  have "i # [Suc i..<tmax u] = [i..<tmax v]"
    using Suc.prems(3) u(2) vv(1) by (simp add: upt_conv_Cons)
  then obtain s' where s': "pf_scheduler_init_loop i v = Some s'" "queue s' QFree [0..<tmax v]"
    "tmax s' = tmax v" "sc_first s' = tmax v" "sc_tick s' = sc_tick v"
    "\<And>j. j < tmax v \<Longrightarrow> \<not> to_in_use (sc_timeouts s' ! j)"
    using Suc.IH [of v] Suc.prems(3) v(2) vv v_use by (metis Suc_leD)
  have "sc_free u = sc_free s" by (simp add: u_def)
  then have "pf_scheduler_init_loop (Suc i) s = Some s'"
    using v(1) s'(1) by (simp add: u_def [symmetric] q_head_def)
  with Suc.prems(1) s' vv show ?case by metis
qed

lemma init_ok:
  assumes "int n < 2 ^ 16" and "tick > 0"
  obtains s where "pf_scheduler_init n tick = Some s" and "sched_ok s"
    and "free s = [0..<n]" and "busy s = []" and "tmax s = n" and "sc_tick s = tick"
proof -
  let ?z = "\<lparr>sc_timeouts = replicate n zero_timeout, sc_first = n, sc_free = n, sc_tick = tick\<rparr>"
  have z: "queue ?z QFree [n..<tmax ?z]" by (simp add: queue_def q_head_def)
  obtain s where s: "pf_scheduler_init_loop n ?z = Some s" "queue s QFree [0..<n]"
    "tmax s = n" "sc_first s = n" "sc_tick s = tick"
    "\<And>j. j < n \<Longrightarrow> \<not> to_in_use (sc_timeouts s ! j)"
    using init_loop [OF z] by auto
  have "queue s QBusy []"
    using s(3,4) by (simp add: queue_def q_head_def)
  then have "sched_ok s \<and> free s = [0..<n] \<and> busy s = []"
    by (rule sched_okI [OF s(2)]) (use s assms in \<open>auto simp: atLeast0LessThan\<close>)
  with s assms that [of s] show thesis by (simp add: pf_scheduler_init_def)
qed

subsection \<open>Insertion in the order of expiry\<close>

definition due :: "u32 \<Rightarrow> sched \<Rightarrow> nat \<Rightarrow> nat" where
  "due b s i = unat (to_when (sc_timeouts s ! i) - b)"

text \<open>All times lie in one half of the clock's range, counted from \<open>b\<close>.\<close>

definition in_window :: "u32 \<Rightarrow> sched \<Rightarrow> nat set \<Rightarrow> bool" where
  "in_window b s A \<longleftrightarrow> (\<forall>i\<in>A. uint (to_when (sc_timeouts s ! i) - b) < 2 ^ 31)"

lemma in_windowD:
  assumes "in_window b s A" and "i \<in> A"
  shows "due b s i < 2 ^ 31"
proof -
  have "uint (to_when (sc_timeouts s ! i) - b) < 2 ^ 31"
    using assms by (auto simp: in_window_def)
  then show ?thesis unfolding due_def by (rule uint_less_half)
qed

lemma later_iff_due:
  assumes "in_window b s A" and "i \<in> A" and "j \<in> A"
  shows "0 < sint (to_when (sc_timeouts s ! i) - to_when (sc_timeouts s ! j)) \<longleftrightarrow> due b s j < due b s i"
  using sint_le_window in_windowD [OF assms(1,2)] in_windowD [OF assms(1,3)]
  by (simp add: due_def not_le [symmetric])

lemma find_pos:
  assumes "chain (sc_timeouts s) p xs (tmax s)"
  shows "pf_scheduler_find_pos s w pv (hd_or (tmax s) xs)
    = Some (last_or pv (takeWhile (\<lambda>y. 0 < sint (w - to_when (sc_timeouts s ! y))) xs))"
  using assms
proof (induction xs arbitrary: p pv)
  case Nil
  then show ?case by (simp add: pf_scheduler_find_pos.simps)
next
  case (Cons x xs)
  then show ?case by (subst pf_scheduler_find_pos.simps) auto
qed

text \<open>The place where the search loop puts an entry that expires at \<open>w\<close>.\<close>

definition sched_insert :: "sched \<Rightarrow> u32 \<Rightarrow> nat \<Rightarrow> nat list \<Rightarrow> nat list" where
  "sched_insert s w ix bs =
     takeWhile (\<lambda>y. 0 < sint (w - to_when (sc_timeouts s ! y))) bs
     @ ix # dropWhile (\<lambda>y. 0 < sint (w - to_when (sc_timeouts s ! y))) bs"

lemma set_sched_insert [simp]: "set (sched_insert s w ix bs) = insert ix (set bs)"
  by (metis sched_insert_def takeWhile_dropWhile_id set_append list.set(2) Un_insert_right)

lemma sched_insert_cong:
  assumes "\<And>i. i \<in> set bs \<Longrightarrow> to_when (sc_timeouts s ! i) = to_when (sc_timeouts s' ! i)"
  shows "sched_insert s w ix bs = sched_insert s' w ix bs"
  using assms by (simp add: sched_insert_def cong: takeWhile_cong dropWhile_cong)

lemma sched_insert_insort:
  assumes win: "in_window b s (insert ix (set bs))" and w: "w = to_when (sc_timeouts s ! ix)"
  shows "sched_insert s w ix bs = insort_key (due b s) ix bs"
proof -
  have "0 < sint (w - to_when (sc_timeouts s ! y)) \<longleftrightarrow> due b s y < due b s ix" if "y \<in> set bs" for y
    using later_iff_due [OF win, of ix y] that w by simp
  then show ?thesis
    by (simp add: sched_insert_def insort_key_takeWhile cong: takeWhile_cong dropWhile_cong)
qed

lemma insert_busy:
  assumes q: "queue s QBusy bs" and ix: "ix \<notin> set bs" "ix < tmax s"
  obtains s' where
    "(if sc_first s \<ge> tmax s
      then pf_scheduler_link_before s QBusy ix (tmax s)
      else if sint (w - to_when (sc_timeouts s ! sc_first s)) \<le> 0
      then pf_scheduler_link_before s QBusy ix (sc_first s)
      else do {
        ix_prev \<leftarrow> pf_scheduler_find_pos s w (sc_first s) (to_next (sc_timeouts s ! sc_first s));
        pf_scheduler_link_after s QBusy ix ix_prev }) = Some s'"
    and "queue s' QBusy (sched_insert s w ix bs)"
    and "relinked QBusy (insert ix (set bs)) s s'"
proof (cases bs)
  case Nil
  with q have "sc_first s = tmax s" by (simp add: queue_def q_head_def)
  with link_before_front [OF q ix, of "tmax s"] Nil that show thesis by (auto simp: sched_insert_def)
next
  case (Cons x xs)
  have first: "sc_first s = x" "x < tmax s"
    using queue_bound [OF q] q Cons by (simp_all add: queue_def q_head_def)
  let ?P = "\<lambda>y. 0 < sint (w - to_when (sc_timeouts s ! y))"
  show thesis
  proof (cases "?P x")
    case False
    then have "sched_insert s w ix bs = ix # bs"
      using Cons by (simp add: sched_insert_def)
    with link_before_front [OF q ix, of x] first False that Cons show thesis
      by (auto simp: q_head_def)
  next
    case True
    define T D where "T = takeWhile ?P bs" and "D = dropWhile ?P bs"
    have ins: "sched_insert s w ix bs = T @ ix # D"
      by (simp add: sched_insert_def T_def D_def)
    have T: "T = x # takeWhile ?P xs" using True Cons by (simp add: T_def)
    define pos where "pos = last T"
    have T': "T = butlast T @ [pos]"
      using T by (simp add: pos_def)
    moreover have "bs = T @ D" by (simp add: T_def D_def)
    ultimately have bs: "bs = butlast T @ pos # D" by simp
    have "chain (sc_timeouts s) x xs (tmax s)" "to_next (sc_timeouts s ! x) = hd_or (tmax s) xs"
      using q Cons by (simp_all add: queue_def)
    then have "pf_scheduler_find_pos s w x (to_next (sc_timeouts s ! x)) = Some pos"
      using find_pos [of s x xs w x] T by (simp add: pos_def last_or_def)
    moreover obtain s' where "pf_scheduler_link_after s QBusy ix pos = Some s'"
      "queue s' QBusy (butlast T @ pos # ix # D)" "relinked QBusy (insert ix (set bs)) s s'"
      using link_after [of s QBusy "butlast T" pos D ix] q ix bs by metis
    moreover have "butlast T @ pos # ix # D = sched_insert s w ix bs"
      using ins T' by (metis append.assoc append_Cons append_Nil)
    ultimately show thesis using that [of s'] first True by simp
  qed
qed

lemma in_window_cong:
  assumes "\<And>i. i \<in> A \<Longrightarrow> to_when (sc_timeouts s ! i) = to_when (sc_timeouts s' ! i)"
  shows "in_window b s A = in_window b s' A"
  using assms by (simp add: in_window_def)

lemma add_spec:
  assumes ok: "sched_ok s" and fr: "free s = ix # fs"
    and d: "pf_scheduler_sanitize_delay delay (sc_tick s) True = Some d"
  obtains s' where
    "pf_scheduler_add s now delay cb arg h = Some (s', h\<lparr>h_index := of_nat ix + 1\<rparr>, 0)"
    and "sched_ok s'" and "free s' = fs" and "tmax s' = tmax s" and "sc_tick s' = sc_tick s"
    and "busy s' = sched_insert s (now + d) ix (busy s)"
    and "contents_of (sc_timeouts s' ! ix) = \<lparr>to_name = h_name h, to_in_use = True,
           to_when = now + d, to_next = 0, to_prev = 0, to_cb = cb, to_arg = arg\<rparr>"
    and "\<And>i. i \<noteq> ix \<Longrightarrow> contents_of (sc_timeouts s' ! i) = contents_of (sc_timeouts s ! i)"
proof -
  note D = sched_okD [OF ok]
  have qf: "queue s QFree ([] @ ix # fs)" using D(1) fr by simp
  have ix: "ix < tmax s" "ix \<notin> set fs" "ix \<notin> set (busy s)" and hd: "sc_free s = ix"
    using qf D(3) fr queue_bound [OF qf] by (auto simp: queue_def q_head_def)
  obtain s1 where s1: "pf_scheduler_unlink s QFree ix = Some s1" "queue s1 QFree fs"
    "relinked QFree (set fs) s s1"
    using unlink [OF qf] by auto
  define s2 where "s2 = upd_to ix (\<lambda>t. t\<lparr>to_in_use := True, to_name := h_name h, to_cb := cb,
                                      to_arg := arg, to_when := now + d\<rparr>) s1"
  have t2: "tmax s2 = tmax s" "sc_tick s2 = sc_tick s" "tmax s1 = tmax s"
    using s1(3) by (simp_all add: s2_def relinked_def)
  have pay2: "contents_of (sc_timeouts s2 ! i) = contents_of (sc_timeouts s ! i)" if "i \<noteq> ix" for i
    using s1(3) that by (simp add: s2_def relinked_def arr_simps)
  have new2: "contents_of (sc_timeouts s2 ! ix) = \<lparr>to_name = h_name h, to_in_use = True,
           to_when = now + d, to_next = 0, to_prev = 0, to_cb = cb, to_arg = arg\<rparr>"
    using t2(3) ix(1) by (cases "sc_timeouts s1 ! ix") (simp add: s2_def contents_of_def arr_simps)
  have w2: "to_when (sc_timeouts s2 ! ix) = now + d"
    using t2(3) ix(1) by (simp add: s2_def arr_simps)
  have "queue s1 QBusy (busy s)"
    using D(3) fr by (intro queue_other [OF D(2) s1(3)]) auto
  then have q2: "queue s2 QFree fs" "queue s2 QBusy (busy s)"
    using s1(2) by (simp_all add: s2_def queue_upd_to)
  have ins: "sched_insert s2 (now + d) ix (busy s) = sched_insert s (now + d) ix (busy s)"
    using pay2 ix(3) by (intro sched_insert_cong) (metis payload_eqD(3))
  have ix2: "ix < tmax s2" using ix(1) t2(1) by simp
  obtain s3 where s3: "(if sc_first s2 \<ge> tmax s2
      then pf_scheduler_link_before s2 QBusy ix (tmax s2)
      else if sint (to_when (sc_timeouts s2 ! ix) - to_when (sc_timeouts s2 ! sc_first s2)) \<le> 0
      then pf_scheduler_link_before s2 QBusy ix (sc_first s2)
      else do {
        ix_prev \<leftarrow> pf_scheduler_find_pos s2 (to_when (sc_timeouts s2 ! ix)) (sc_first s2)
                     (to_next (sc_timeouts s2 ! sc_first s2));
        pf_scheduler_link_after s2 QBusy ix ix_prev }) = Some s3"
    and q3: "queue s3 QBusy (sched_insert s (now + d) ix (busy s))"
    and r3: "relinked QBusy (insert ix (set (busy s))) s2 s3"
    using insert_busy [OF q2(2) ix(3) ix2, of "now + d"] unfolding w2 ins by blast
  have same: "contents_of (sc_timeouts s3 ! i) = contents_of (sc_timeouts s2 ! i)" for i
    using r3 by (simp add: relinked_def)
  have t3: "tmax s3 = tmax s" "sc_tick s3 = sc_tick s"
    using r3 t2 by (simp_all add: relinked_def)
  have q3f: "queue s3 QFree fs"
    using D(3) fr ix(2) by (intro queue_other [OF q2(1) r3]) auto
  have used: "to_in_use (sc_timeouts s3 ! i) = (if i = ix then True else to_in_use (sc_timeouts s ! i))" for i
    using payload_eqD(2) [OF same, of i] payload_eqD(2) [OF pay2, of i] t2(3) ix(1)
    by (auto simp: s2_def arr_simps)
  have sets: "set fs \<inter> set (sched_insert s (now + d) ix (busy s)) = {}"
    "set fs \<union> set (sched_insert s (now + d) ix (busy s)) = {..<tmax s3}"
    using D(3,4) fr ix t3(1) by auto
  have "sched_ok s3 \<and> free s3 = fs \<and> busy s3 = sched_insert s (now + d) ix (busy s)"
    by (rule sched_okI [OF q3f q3 sets]) (use D(5-8) fr ix t3 in \<open>auto simp: used\<close>)
  moreover have "pf_scheduler_add s now delay cb arg h = Some (s3, h\<lparr>h_index := of_nat ix + 1\<rparr>, 0)"
    using s1(1) ix(1) t2(3) s3
    by (auto simp add: pf_scheduler_add_def d hd Let_def s2_def [symmetric] bind_eq_Some_conv
        simp del: upd_to_fields split: if_splits)
  ultimately show thesis
    using that [of s3] t3 same pay2 new2 by simp
qed

lemma add_full:
  assumes ok: "sched_ok s" and fr: "free s = []"
    and d: "pf_scheduler_sanitize_delay delay (sc_tick s) True = Some d"
  shows "pf_scheduler_add s now delay cb arg h = Some (s, h\<lparr>h_index := UINT32_MAX\<rparr>, -1)"
proof -
  have "sc_free s = tmax s"
    using sched_okD(1) [OF ok] fr by (simp add: queue_def q_head_def)
  then show ?thesis
    by (simp add: pf_scheduler_add_def d pf_scheduler_unlink_def)
qed

subsection \<open>Releasing an entry\<close>

text \<open>The steps that \<^verbatim>\<open>pf_scheduler_remove\<close> and the tick share: out of the pending list and
  to the front of the free list.\<close>

lemma release:
  assumes ok: "sched_ok s" and bs: "busy s = as @ ix # bs"
  obtains s1 s3 where "pf_scheduler_unlink s QBusy ix = Some s1" and "sc_timeouts s1 ! ix = sc_timeouts s ! ix"
    and "pf_scheduler_link_before (upd_to ix (\<lambda>t. t\<lparr>to_in_use := False\<rparr>) s1) QFree ix (sc_free s1) = Some s3"
    and "sched_ok s3" and "free s3 = ix # free s" and "busy s3 = as @ bs" and "tmax s3 = tmax s"
    and "sc_tick s3 = sc_tick s"
    and "\<And>i. contents_of (sc_timeouts s3 ! i) = (if i = ix then contents_of ((sc_timeouts s ! i)\<lparr>to_in_use := False\<rparr>)
                                          else contents_of (sc_timeouts s ! i))"
proof -
  note D = sched_okD [OF ok]
  have qb: "queue s QBusy (as @ ix # bs)" using D(2) bs by simp
  have ix: "ix < tmax s" "ix \<notin> set as" "ix \<notin> set bs" "ix \<notin> set (free s)"
    using qb D(3) bs queue_bound [OF qb] by (auto simp: queue_def)
  obtain s1 where s1: "pf_scheduler_unlink s QBusy ix = Some s1" "queue s1 QBusy (as @ bs)"
    "relinked QBusy (set as \<union> set bs) s s1"
    using unlink [OF qb] by auto
  have same1: "sc_timeouts s1 ! ix = sc_timeouts s ! ix"
    using s1(3) ix by (simp add: relinked_def)
  define s2 where "s2 = upd_to ix (\<lambda>t. t\<lparr>to_in_use := False\<rparr>) s1"
  have t2: "tmax s2 = tmax s" "sc_tick s2 = sc_tick s" "tmax s1 = tmax s" "sc_free s2 = sc_free s1"
    using s1(3) by (simp_all add: s2_def relinked_def)
  have "queue s1 QFree (free s)"
    using D(3) bs by (intro queue_other [OF D(1) s1(3)]) auto
  then have q2: "queue s2 QFree (free s)" "queue s2 QBusy (as @ bs)"
    using s1(2) by (simp_all add: s2_def queue_upd_to)
  obtain s3 where s3: "pf_scheduler_link_before s2 QFree ix (sc_free s1) = Some s3"
    and q3: "queue s3 QFree (ix # free s)" and r3: "relinked QFree (insert ix (set (free s))) s2 s3"
    using link_before_front [OF q2(1) ix(4), of "q_head QFree s2"] ix(1) t2(1,4)
    by (auto simp: q_head_def)
  have q3b: "queue s3 QBusy (as @ bs)"
    using D(3) bs ix by (intro queue_other [OF q2(2) r3]) auto
  have t3: "tmax s3 = tmax s" "sc_tick s3 = sc_tick s"
    using r3 t2 by (simp_all add: relinked_def)
  have pay: "contents_of (sc_timeouts s3 ! i) = (if i = ix then contents_of ((sc_timeouts s ! i)\<lparr>to_in_use := False\<rparr>)
      else contents_of (sc_timeouts s ! i))" for i
    using s1(3) r3 ix(1) t2(3) same1 by (auto simp: relinked_def s2_def arr_simps)
  have used: "to_in_use (sc_timeouts s3 ! i) = (if i = ix then False else to_in_use (sc_timeouts s ! i))" for i
    using payload_eqD(2) [of "sc_timeouts s3 ! i"] pay [of i] by (auto split: if_splits)
  have "sched_ok s3 \<and> free s3 = ix # free s \<and> busy s3 = as @ bs"
    by (rule sched_okI [OF q3 q3b]) (use D(3-8) bs ix t3 in \<open>auto simp: used\<close>)
  then show thesis
    using that [of s1 s3] s1(1) same1 s3 t3 pay by (simp add: s2_def)
qed

lemma remove_pending:
  assumes ok: "sched_ok s" and bs: "busy s = as @ ix # bs"
    and h: "h_index h = of_nat ix + 1" "h_name h = to_name (sc_timeouts s ! ix)"
  obtains s' where "pf_scheduler_remove s h = Some (s', h\<lparr>h_index := UINT32_MAX\<rparr>)"
    and "sched_ok s'" and "free s' = ix # free s" and "busy s' = as @ bs" and "tmax s' = tmax s"
    and "sc_tick s' = sc_tick s"
    and "\<And>i. i \<noteq> ix \<Longrightarrow> contents_of (sc_timeouts s' ! i) = contents_of (sc_timeouts s ! i)"
proof -
  have ix: "ix < tmax s" "ix \<in> set (busy s)" "to_in_use (sc_timeouts s ! ix)" "ix < 65536"
    using sched_okD(2,5,7) [OF ok] bs queue_bound by force+
  have "h_index h = of_nat (Suc ix)" using h(1) by simp
  then have "unat (h_index h) = Suc ix"
    using ix(4) by (simp only: unat_of_nat) (simp add: take_bit_nat_eq_self)
  moreover have "unat (ucast (h_index h - 1) :: u16) = ix"
    using ix(4) h(1) by (simp add: unsigned_ucast_eq unat_of_nat take_bit_nat_eq_self)
  moreover have "h_index h \<noteq> 0" using \<open>unat (h_index h) = Suc ix\<close> by auto
  moreover obtain s1 s3 where "pf_scheduler_unlink s QBusy ix = Some s1"
    "pf_scheduler_link_before (upd_to ix (\<lambda>t. t\<lparr>to_in_use := False\<rparr>) s1) QFree ix (sc_free s1) = Some s3"
    "sched_ok s3" "free s3 = ix # free s" "busy s3 = as @ bs" "tmax s3 = tmax s"
    "sc_tick s3 = sc_tick s"
    "\<And>i. i \<noteq> ix \<Longrightarrow> contents_of (sc_timeouts s3 ! i) = contents_of (sc_timeouts s ! i)"
    using release [OF ok bs] by metis
  moreover from calculation have "pf_scheduler_remove s h = Some (s3, h\<lparr>h_index := UINT32_MAX\<rparr>)"
    using ix h(2) by (simp add: pf_scheduler_remove_def)
  ultimately show thesis using that [of s3] by simp
qed

subsection \<open>The tick\<close>

text \<open>The callbacks that a tick at time \<open>now\<close> is due to run, in the order of the pending list.\<close>

definition expired :: "u32 \<Rightarrow> sched \<Rightarrow> nat \<Rightarrow> bool" where
  "expired now s i \<longleftrightarrow> 0 \<le> sint (now - to_when (sc_timeouts s ! i))"

definition due_calls :: "u32 \<Rightarrow> sched \<Rightarrow> (ptr \<times> ptr) list" where
  "due_calls now s = map (\<lambda>i. (to_cb (sc_timeouts s ! i), to_arg (sc_timeouts s ! i)))
     (takeWhile (expired now s) (busy s))"

lemma tick_stop:
  assumes ok: "sched_ok s" and none: "takeWhile (expired now s) (busy s) = []"
  shows "pf_scheduler_tick run now s e = Some (s, e)"
proof -
  have "\<not> (sc_first s < tmax s \<and> sint (now - to_when (sc_timeouts s ! sc_first s)) \<ge> 0)"
    using sched_okD(2) [OF ok] none
    by (cases "busy s") (auto simp: queue_def q_head_def expired_def split: if_splits)
  then show ?thesis by (subst pf_scheduler_tick.simps) (simp only: if_False)
qed

text \<open>One round of the loop: the first pending entry is released and its callback runs.\<close>

lemma tick_fire:
  assumes ok: "sched_ok s" and bs: "busy s = ix # bs" and ex: "expired now s ix"
  obtains s3 where
    "pf_scheduler_tick run now s e
       = Option.bind (run (to_cb (sc_timeouts s ! ix)) (to_arg (sc_timeouts s ! ix)) now (s3, e))
           (\<lambda>(s, e). pf_scheduler_tick run now s e)"
    and "sched_ok s3" and "free s3 = ix # free s" and "busy s3 = bs" and "tmax s3 = tmax s"
    and "sc_tick s3 = sc_tick s"
    and "\<And>i. i \<noteq> ix \<Longrightarrow> contents_of (sc_timeouts s3 ! i) = contents_of (sc_timeouts s ! i)"
proof -
  have first: "sc_first s = ix" "ix < tmax s"
    using sched_okD(2) [OF ok] bs queue_bound [of s QBusy "ix # bs"]
    by (auto simp: queue_def q_head_def)
  obtain s1 s3 where s1: "pf_scheduler_unlink s QBusy ix = Some s1"
    "sc_timeouts s1 ! ix = sc_timeouts s ! ix"
    "pf_scheduler_link_before (upd_to ix (\<lambda>t. t\<lparr>to_in_use := False\<rparr>) s1) QFree ix (sc_free s1) = Some s3"
    and s3: "sched_ok s3" "free s3 = ix # free s" "busy s3 = bs" "tmax s3 = tmax s" "sc_tick s3 = sc_tick s"
    "\<And>i. i \<noteq> ix \<Longrightarrow> contents_of (sc_timeouts s3 ! i) = contents_of (sc_timeouts s ! i)"
    using release [OF ok, of "[]" ix bs] bs by (metis append_Nil)
  have "pf_scheduler_tick run now s e
       = Option.bind (run (to_cb (sc_timeouts s ! ix)) (to_arg (sc_timeouts s ! ix)) now (s3, e))
           (\<lambda>(s, e). pf_scheduler_tick run now s e)"
    using first ex s1 by (subst pf_scheduler_tick.simps) (simp add: expired_def Let_def)
  then show thesis using that s3 by blast
qed

text \<open>
  With callbacks that leave the scheduler alone and record their call, the tick returns, and
  has called exactly the expired entries in their order; the rest is still pending.
\<close>

definition record_call ::
  "ptr \<Rightarrow> ptr \<Rightarrow> u32 \<Rightarrow> sched \<times> (ptr \<times> ptr) list \<Rightarrow> (sched \<times> (ptr \<times> ptr) list) option" where
  "record_call cb arg now se = (case se of (s, calls) \<Rightarrow> Some (s, calls @ [(cb, arg)]))"

lemma tick_record:
  assumes "sched_ok s"
  obtains s' where "pf_scheduler_tick record_call now s calls = Some (s', calls @ due_calls now s)"
    and "sched_ok s'" and "busy s' = dropWhile (expired now s) (busy s)"
    and "tmax s' = tmax s"
    and "\<And>i. i \<in> set (busy s') \<Longrightarrow> contents_of (sc_timeouts s' ! i) = contents_of (sc_timeouts s ! i)"
  using assms
proof (induction "busy s" arbitrary: s calls thesis)
  case Nil
  show ?case
    using Nil(2) [of s] Nil(3) tick_stop [of s now record_call calls] Nil(1) [symmetric] by (simp add: due_calls_def)
next
  case (Cons ix bs)
  show ?case
  proof (cases "expired now s ix")
    case False
    then show ?thesis
      using Cons tick_stop [of s now record_call calls] Cons.hyps(2) [symmetric] by (simp add: due_calls_def)
  next
    case True
    obtain s3 where s3: "pf_scheduler_tick record_call now s calls
       = Option.bind (record_call (to_cb (sc_timeouts s ! ix)) (to_arg (sc_timeouts s ! ix)) now (s3, calls))
           (\<lambda>(s, e). pf_scheduler_tick record_call now s e)"
      and ok3: "sched_ok s3" and bs3: "busy s3 = bs" and t3: "tmax s3 = tmax s"
      and pay: "\<And>i. i \<noteq> ix \<Longrightarrow> contents_of (sc_timeouts s3 ! i) = contents_of (sc_timeouts s ! i)"
      using tick_fire [OF Cons.prems(2) Cons.hyps(2) [symmetric] True] by metis
    have ix: "ix \<notin> set bs"
      using sched_okD(2) [OF Cons.prems(2)] Cons.hyps(2) [symmetric] by (simp add: queue_def)
    have same: "to_when (sc_timeouts s3 ! i) = to_when (sc_timeouts s ! i)"
      "to_cb (sc_timeouts s3 ! i) = to_cb (sc_timeouts s ! i)"
      "to_arg (sc_timeouts s3 ! i) = to_arg (sc_timeouts s ! i)" if "i \<in> set bs" for i
      using payload_eqD [OF pay, of i] ix that by auto
    have ex3: "expired now s3 i = expired now s i" if "i \<in> set bs" for i
      using same(1) [OF that] by (simp add: expired_def)
    let ?c = "(to_cb (sc_timeouts s ! ix), to_arg (sc_timeouts s ! ix))"
    have tw: "takeWhile (expired now s3) bs = takeWhile (expired now s) bs"
      by (rule takeWhile_cong) (simp_all add: ex3)
    have mem: "\<forall>i\<in>set (takeWhile (expired now s) bs). i \<in> set bs"
      using set_takeWhileD by fast
    have calls: "due_calls now s = ?c # due_calls now s3"
      using True Cons.hyps(2) [symmetric] mem by (simp add: due_calls_def bs3 tw same)
    obtain s' where "pf_scheduler_tick record_call now s3 (calls @ [?c])
        = Some (s', (calls @ [?c]) @ due_calls now s3)"
      "sched_ok s'" "busy s' = dropWhile (expired now s3) bs" "tmax s' = tmax s3"
      "\<And>i. i \<in> set (busy s') \<Longrightarrow> contents_of (sc_timeouts s' ! i) = contents_of (sc_timeouts s3 ! i)"
      using Cons.hyps(1) [OF bs3 [symmetric] _ ok3] bs3 by metis
    moreover have "dropWhile (expired now s3) bs = dropWhile (expired now s) (busy s)"
      using True Cons.hyps(2) [symmetric] ex3 by (simp cong: dropWhile_cong)
    ultimately show ?thesis
      using Cons.prems(1) [of s'] calls t3 pay ix s3
      by (auto simp: record_call_def) (metis set_dropWhileD)
  qed
qed

text \<open>
  Callbacks that use the scheduler: the tick returns as long as no callback leaves more
  expired entries behind than it found.
\<close>

definition n_expired :: "u32 \<Rightarrow> sched \<Rightarrow> nat" where
  "n_expired now s = length (filter (expired now s) (busy s))"

lemma n_expired_release:
  assumes "sched_ok s" and "busy s = ix # bs" and "expired now s ix" and "busy s3 = bs"
    and "\<And>i. i \<noteq> ix \<Longrightarrow> contents_of (sc_timeouts s3 ! i) = contents_of (sc_timeouts s ! i)"
  shows "Suc (n_expired now s3) = n_expired now s"
proof -
  have "ix \<notin> set bs"
    using sched_okD(2) [OF assms(1)] assms(2) by (simp add: queue_def)
  then have "to_when (sc_timeouts s3 ! i) = to_when (sc_timeouts s ! i)" if "i \<in> set bs" for i
    using payload_eqD(3) [OF assms(5), of i] that by auto
  then have "filter (expired now s3) bs = filter (expired now s) bs"
    by (intro filter_cong) (simp_all add: expired_def)
  then show ?thesis using assms by (simp add: n_expired_def)
qed

section \<open>Sanitised delays\<close>

lemma sanitize_total:
  fixes w c :: u32
  assumes c: "0 < c" "uint c \<le> 2 ^ 31"
  obtains d k where "pf_scheduler_sanitize_delay w c half = Some d" and "1 \<le> k"
    and "uint d = k * uint c - (if half then uint c div 2 else 0)"
    and "let w' = (if uint w > 100000000 then 0 else uint w) in
         (w' \<le> uint c + uint c div 2 \<longrightarrow> k = 1)
         \<and> (uint c + uint c div 2 < w' \<longrightarrow> k * uint c \<le> w' + uint c div 2 \<and> w' + uint c div 2 < (k + 1) * uint c)"
proof -
  define C W where "C = uint c" and "W = (if uint w > 100000000 then 0 else uint w)"
  define w' where "w' = (if w > PF_SCHEDULER_MAX_DELAY_US then 0 else w)"
  define n where "n = (if w' > c + c div 2 then (w' + c div 2) div c else 1)"
  define k where "k = (if W > C + C div 2 then (W + C div 2) div C else 1)"
  have C: "0 < C" "C \<le> 2147483648" using c by (simp_all add: C_def word_less_alt)
  have W: "0 \<le> W" "W \<le> 100000000" by (simp_all add: W_def)
  have uw: "uint w' = W"
    by (simp add: w'_def W_def PF_SCHEDULER_MAX_DELAY_US_def word_less_alt)
  have half: "uint (c div 2) = C div 2" by (simp add: C_def uint_div_distrib)
  have cc: "uint (c + c div 2) = C + C div 2"
    using C by (simp add: uint_plus_if' half C_def [symmetric])
  have ww: "uint (w' + c div 2) = W + C div 2"
    using C W by (simp add: uint_plus_if' half uw)
  have n: "uint n = k"
    by (simp add: n_def k_def word_less_alt cc uw uint_div_distrib ww C_def [symmetric])
  have big: "k * C \<le> W + C div 2 \<and> W + C div 2 < (k + 1) * C \<and> 1 \<le> k" if "C + C div 2 < W"
  proof -
    have eq: "k = (W + C div 2) div C" using that by (simp add: k_def)
    then have "k * C + (W + C div 2) mod C = W + C div 2" by simp
    moreover have "0 \<le> (W + C div 2) mod C" "(W + C div 2) mod C < C" using C by simp_all
    moreover have "(k + 1) * C = k * C + C" by (simp add: algebra_simps)
    moreover have "1 \<le> k"
      using zdiv_mono1 [of C "W + C div 2" C] that C by (simp add: eq)
    ultimately show ?thesis by linarith
  qed
  have k: "1 \<le> k" "k * C < 4294967296" "k < 2147483648"
  proof -
    show "1 \<le> k" using big by (cases "C + C div 2 < W") (simp_all add: k_def)
    have kC: "k * C \<le> C \<or> k * C \<le> W + C div 2"
      using big by (cases "C + C div 2 < W") (simp_all add: k_def)
    moreover have "C div 2 \<le> C" using C by simp
    ultimately show "k * C < 4294967296" using C W by linarith
    have "C + C div 2 < W \<Longrightarrow> k * 1 \<le> k * C" using C \<open>1 \<le> k\<close> by (intro mult_left_mono) auto
    then show "k < 2147483648"
      using kC C W by (cases "C + C div 2 < W") (auto simp: k_def)
  qed
  have prod: "uint (n * c) = k * C"
    using k uint_mult_lem [of n c] by (simp add: n C_def)
  have "C \<le> k * C" using k(1) C by simp
  moreover have "C div 2 \<le> C" using C by simp
  ultimately have "C div 2 \<le> k * C" by linarith
  then have sub: "uint (n * c - c div 2) = k * C - C div 2"
    by (simp add: uint_sub_if' prod half)
  let ?d = "if half then n * c - c div 2 else n * c"
  have "pf_scheduler_sanitize_delay w c half = Some ?d"
    using c(1) k n unfolding pf_scheduler_sanitize_delay_def Let_def w'_def [symmetric] n_def [symmetric]
    by (simp add: word_less_alt word_le_def)
  moreover have "uint ?d = k * C - (if half then C div 2 else 0)"
    using sub prod by simp
  ultimately show thesis
    using that k(1) big unfolding C_def [symmetric] W_def [symmetric] Let_def
    by (metis k_def linorder_not_less)
qed

section \<open>The scheduler as a timer service\<close>

definition sched_wf :: "sched \<Rightarrow> bool" where
  "sched_wf s \<longleftrightarrow> sched_ok s \<and> uint (sc_tick s) \<le> 2 ^ 31"

definition sched_owns :: "sched \<Rightarrow> handle \<Rightarrow> bool" where
  "sched_owns s h \<longleftrightarrow> (\<exists>ix\<in>set (busy s). h_index h = of_nat ix + 1
     \<and> h_name h = to_name (sc_timeouts s ! ix))"

definition sched_start ::
  "sched \<Rightarrow> u32 \<times> u32 \<times> ptr \<times> ptr \<Rightarrow> handle \<Rightarrow> (sched \<times> handle \<times> int) option" where
  "sched_start s c h = (case c of (now, delay, cb, arg) \<Rightarrow> pf_scheduler_add s now delay cb arg h)"

lemma sched_ok_index:
  assumes "sched_ok s" and "i \<in> set (busy s)"
  shows "i < 65536"
  using queue_bound [OF sched_okD(2) [OF assms(1)] assms(2)] sched_okD(5) [OF assms(1)] by simp

lemma index_inj:
  assumes "i < 65536" and "j < 65536"
  shows "(of_nat i + 1 :: u32) = of_nat j + 1 \<longleftrightarrow> i = j"
  using assms by (simp add: word_of_nat_eq_iff take_bit_nat_eq_self)

lemma index_not_max:
  assumes "i < 65536"
  shows "(of_nat i + 1 :: u32) \<noteq> UINT32_MAX"
proof
  assume "(of_nat i + 1 :: u32) = UINT32_MAX"
  then have "(of_nat i :: u32) = UINT32_MAX - 1" by (simp add: eq_diff_eq)
  then have "unat (of_nat i :: u32) = 4294967294" by (simp add: UINT32_MAX_def)
  then show False using assms by (simp add: unat_of_nat take_bit_nat_eq_self)
qed

lemma sched_start_room:
  assumes wf: "sched_wf s" and room: "0 < length (free s)"
  shows "\<exists>s' h'. sched_start s c h = Some (s', h', 0) \<and> sched_wf s' \<and> sched_owns s' h'
    \<and> length (free s) = Suc (length (free s'))
    \<and> (\<forall>k. sched_owns s k \<longrightarrow> sched_owns s' k \<and> h_index k \<noteq> h_index h')"
proof -
  obtain now delay cb arg where c: "c = (now, delay, cb, arg)" by (cases c) auto
  have ok: "sched_ok s" and tick: "uint (sc_tick s) \<le> 2 ^ 31"
    using wf by (simp_all add: sched_wf_def)
  obtain d where d: "pf_scheduler_sanitize_delay delay (sc_tick s) True = Some d"
    using sanitize_total [OF sched_okD(6) [OF ok] tick] by metis
  obtain ix fs where fr: "free s = ix # fs" using room by (cases "free s") auto
  obtain s' where s': "pf_scheduler_add s now delay cb arg h = Some (s', h\<lparr>h_index := of_nat ix + 1\<rparr>, 0)"
    "sched_ok s'" "free s' = fs" "sc_tick s' = sc_tick s"
    and ins: "busy s' = sched_insert s (now + d) ix (busy s)"
    and new: "contents_of (sc_timeouts s' ! ix) = \<lparr>to_name = h_name h, to_in_use = True,
           to_when = now + d, to_next = 0, to_prev = 0, to_cb = cb, to_arg = arg\<rparr>"
    and same: "\<And>i. i \<noteq> ix \<Longrightarrow> contents_of (sc_timeouts s' ! i) = contents_of (sc_timeouts s ! i)"
    using add_spec [OF ok fr d, of now cb arg h] by metis
  have set: "set (busy s') = insert ix (set (busy s))" by (simp add: ins)
  have name: "to_name (sc_timeouts s' ! ix) = h_name h"
    using new payload_sel(1) by (metis timeout.select_convs(1))
  have name': "to_name (sc_timeouts s' ! i) = to_name (sc_timeouts s ! i)" if "i \<noteq> ix" for i
    using same [OF that] by (rule payload_eqD)
  have ix: "ix \<notin> set (busy s)" "ix < 65536"
    using sched_okD(3) [OF ok] fr sched_ok_index [OF s'(2), of ix] set by auto
  have "sched_owns s' k \<and> h_index k \<noteq> of_nat ix + 1" if k: "sched_owns s k" for k
  proof -
    obtain j where j: "j \<in> set (busy s)" "h_index k = of_nat j + 1"
      "h_name k = to_name (sc_timeouts s ! j)"
      using k by (auto simp: sched_owns_def)
    then have "j \<noteq> ix" using ix by auto
    then show ?thesis
      using j set name' index_inj [of j ix] ix(2) sched_ok_index [OF ok j(1)]
      by (auto simp: sched_owns_def)
  qed
  moreover have "sched_owns s' (h\<lparr>h_index := of_nat ix + 1\<rparr>)"
    using set name by (auto simp: sched_owns_def)
  ultimately show ?thesis
    using s' tick fr by (auto simp: sched_start_def c sched_wf_def)
qed

lemma sched_stop_owned:
  assumes wf: "sched_wf s" and h: "sched_owns s h"
  shows "\<exists>s' h'. pf_scheduler_remove s h = Some (s', h') \<and> sched_wf s'
    \<and> \<not> pf_scheduler_is_running h' \<and> length (free s') = Suc (length (free s))
    \<and> (\<forall>k. sched_owns s k \<longrightarrow> h_index k \<noteq> h_index h \<longrightarrow> sched_owns s' k)"
proof -
  have ok: "sched_ok s" using wf by (simp add: sched_wf_def)
  obtain ix where ix: "ix \<in> set (busy s)" "h_index h = of_nat ix + 1"
    "h_name h = to_name (sc_timeouts s ! ix)"
    using h by (auto simp: sched_owns_def)
  obtain as bs where bs: "busy s = as @ ix # bs" using ix(1) by (meson split_list)
  obtain s' where s': "pf_scheduler_remove s h = Some (s', h\<lparr>h_index := UINT32_MAX\<rparr>)" "sched_ok s'"
    "free s' = ix # free s" "busy s' = as @ bs" "sc_tick s' = sc_tick s"
    "\<And>i. i \<noteq> ix \<Longrightarrow> contents_of (sc_timeouts s' ! i) = contents_of (sc_timeouts s ! i)"
    using remove_pending [OF ok bs ix(2,3)] by metis
  have "sched_owns s' k" if k: "sched_owns s k" "h_index k \<noteq> h_index h" for k
  proof -
    obtain j where j: "j \<in> set (busy s)" "h_index k = of_nat j + 1"
      "h_name k = to_name (sc_timeouts s ! j)"
      using k(1) by (auto simp: sched_owns_def)
    then have "j \<noteq> ix" using k(2) ix(2) by auto
    then show ?thesis
      using j bs s'(4) payload_eqD(1) [OF s'(6)] by (auto simp: sched_owns_def)
  qed
  then show ?thesis
    using s' wf by (auto simp: sched_wf_def pf_scheduler_is_running_def)
qed

interpretation timers: timer_service sched_wf "\<lambda>s. length (free s)" sched_owns h_index
  pf_scheduler_is_running sched_start pf_scheduler_remove
proof (unfold_locales, goal_cases)
  case (1 s c h)
  then show ?case by (rule sched_start_room)
next
  case (2 s c h)
  have "sched_ok s" "uint (sc_tick s) \<le> 2 ^ 31" using 2 by (simp_all add: sched_wf_def)
  then obtain d where "pf_scheduler_sanitize_delay (fst (snd c)) (sc_tick s) True = Some d"
    using sanitize_total [OF sched_okD(6)] by metis
  then show ?case
    using add_full [OF \<open>sched_ok s\<close>] 2(2)
    by (cases c) (simp add: sched_start_def pf_scheduler_is_running_def)
next
  case (3 s h)
  then show ?case by (rule sched_stop_owned)
next
  case (4 s h)
  then obtain ix where "ix < 65536" "h_index h = of_nat ix + 1"
    using sched_ok_index by (auto simp: sched_owns_def sched_wf_def)
  then show ?case
    using index_not_max [of ix] by (simp add: pf_scheduler_is_running_def)
qed

end
