(* ===== verification/Pn_Scheduler_Props.thy ===== *)
theory Pn_Scheduler_Props
  imports Pn_Scheduler_Correct
begin

text \<open>
  The properties of the scheduler: histories of calls and ticks keep the invariant and never
  fail an assertion, the pending list is ordered, the tick fires what is due, restarting is
  safe, and delays are rounded to stack cycles.
\<close>

section \<open>Histories\<close>

lemma remove_total:
  assumes ok: "sched_ok s"
  obtains s' h' where "pf_scheduler_remove s h = Some (s', h')" and "sched_ok s'"
    and "sc_tick s' = sc_tick s" and "tmax s' = tmax s" and "set (busy s') \<subseteq> set (busy s)"
proof -
  let ?ix = "unat (ucast (h_index h - 1) :: u16)"
  consider (out) "h_index h = 0 \<or> unat (h_index h) > tmax s"
    | (stale) "h_index h \<noteq> 0" "unat (h_index h) \<le> tmax s"
        "to_name (sc_timeouts s ! ?ix) \<noteq> h_name h \<or> \<not> to_in_use (sc_timeouts s ! ?ix)"
    | (live) "h_index h \<noteq> 0" "unat (h_index h) \<le> tmax s"
        "to_name (sc_timeouts s ! ?ix) = h_name h" "to_in_use (sc_timeouts s ! ?ix)"
    by fastforce
  then show thesis
  proof cases
    case out
    then show thesis using that [of s h] ok by (simp add: pf_scheduler_remove_def)
  next
    case stale
    then show thesis using that [of s h] ok by (auto simp: pf_scheduler_remove_def Let_def)
  next
    case live
    define i where "i = unat (h_index h) - 1"
    have i: "unat (h_index h) = Suc i" "i < tmax s" "i < 65536"
    proof -
      have "unat (h_index h) \<noteq> 0" using live(1) by (simp add: unat_eq_zero)
      then show 1: "unat (h_index h) = Suc i" by (simp add: i_def)
      then show "i < tmax s" using live(2) by simp
      then show "i < 65536" using sched_okD(5) [OF ok] by simp
    qed
    have hi: "h_index h = of_nat i + 1"
      using i(1) by (metis of_nat_Suc add.commute of_nat_unat ucast_id)
    then have "?ix = i"
      using i(3) by (simp add: unsigned_ucast_eq unat_of_nat take_bit_nat_eq_self)
    with live(3,4) have "i \<in> set (busy s)" "h_name h = to_name (sc_timeouts s ! i)"
      using i(2) sched_okD(4,8) [OF ok] by auto
    moreover from this(1) obtain as bs where "busy s = as @ i # bs" by (meson split_list)
    ultimately obtain s' where "pf_scheduler_remove s h = Some (s', h\<lparr>h_index := UINT32_MAX\<rparr>)"
      "sched_ok s'" "busy s' = as @ bs" "sc_tick s' = sc_tick s" "tmax s' = tmax s"
      using remove_pending [OF ok _ hi] by metis
    then show thesis using that \<open>busy s = as @ i # bs\<close> by auto
  qed
qed

lemma add_total:
  assumes wf: "sched_wf s"
  obtains s' h' r where "pf_scheduler_add s now delay cb arg h = Some (s', h', r)"
    and "sched_wf s'" and "r = 0 \<longleftrightarrow> free s \<noteq> []" and "r \<noteq> 0 \<longrightarrow> s' = s"
proof -
  obtain s' h' r where "sched_start s (now, delay, cb, arg) h = Some (s', h', r)" "sched_wf s'"
    "r = 0 \<longleftrightarrow> 0 < length (free s)" "r \<noteq> 0 \<longrightarrow> s' = s"
    using timers.start_cases [OF wf, of "(now, delay, cb, arg)" h] by metis
  with that show thesis by (simp add: sched_start_def)
qed

lemma remove_wf:
  assumes "sched_wf s" and "pf_scheduler_remove s h = Some (s', h')"
  shows "sched_wf s'"
proof -
  have ok: "sched_ok s" using assms(1) by (simp add: sched_wf_def)
  obtain t h2 where "pf_scheduler_remove s h = Some (t, h2)" "sched_ok t" "sc_tick t = sc_tick s"
    using remove_total [OF ok, of h] by metis
  with assms show ?thesis by (simp add: sched_wf_def)
qed

lemma add_wf:
  assumes "sched_wf s" and "pf_scheduler_add s now delay cb arg h = Some (s', h', r)"
  shows "sched_wf s'"
proof -
  obtain t h2 r2 where "pf_scheduler_add s now delay cb arg h = Some (t, h2, r2)" "sched_wf t"
    using add_total [OF assms(1), of now delay cb arg h] by metis
  with assms(2) show ?thesis by simp
qed

text \<open>A tick whose callbacks keep the invariant keeps it.\<close>

lemma release_first:
  assumes wf: "sched_wf s" and lt: "sc_first s < tmax s"
  obtains s1 s3 where "pf_scheduler_unlink s QBusy (sc_first s) = Some s1"
    and "pf_scheduler_link_before (upd_to (sc_first s) (\<lambda>t. t\<lparr>to_in_use := False\<rparr>) s1) QFree
           (sc_first s) (sc_free s1) = Some s3"
    and "sched_wf s3"
proof -
  have ok: "sched_ok s" using wf by (simp add: sched_wf_def)
  have "q_head QBusy s < tmax s" using lt by (simp add: q_head_def)
  then obtain ix bs where bs: "busy s = ix # bs"
    using queue_head_less [OF sched_okD(2) [OF ok]] by (cases "busy s") auto
  then have "sc_first s = ix"
    using sched_okD(2) [OF ok] by (simp add: queue_def q_head_def)
  then show thesis
    using release [OF ok, of "[]" ix bs] bs wf that unfolding sched_wf_def by (metis append_Nil)
qed

lemma tick_wf:
  assumes ret: "pf_scheduler_tick run now s e = Some r" and wf: "sched_wf s"
    and cb: "\<And>cb arg s e s' e'. sched_wf s \<Longrightarrow> run cb arg now (s, e) = Some (s', e') \<Longrightarrow> sched_wf s'"
  shows "sched_wf (fst r)"
proof -
  let ?keeps = "\<lambda>run now. \<forall>cb arg s e s' e'. sched_wf s \<longrightarrow> run cb arg now (s, e) = Some (s', e') \<longrightarrow> sched_wf s'"
  have "sched_wf s \<longrightarrow> ?keeps run now \<longrightarrow> sched_wf (fst r)"
  proof (rule pf_scheduler_tick.raw_induct [where P = "\<lambda>run now s e r. sched_wf s \<longrightarrow>
      ?keeps run now \<longrightarrow> sched_wf (fst r)", OF _ ret], intro impI, goal_cases)
    case (1 f run now s e r)
    show ?case
    proof (cases "sc_first s < tmax s \<and> 0 \<le> sint (now - to_when (sc_timeouts s ! sc_first s))")
      case False
      then have "(s, e) = r" using 1(2) by (auto split: if_splits)
      then show ?thesis using 1(3) by auto
    next
      case True
      obtain s1 s3 where s3: "pf_scheduler_unlink s QBusy (sc_first s) = Some s1"
        "pf_scheduler_link_before (upd_to (sc_first s) (\<lambda>t. t\<lparr>to_in_use := False\<rparr>) s1) QFree
           (sc_first s) (sc_free s1) = Some s3" "sched_wf s3"
        using release_first [OF 1(3)] True by metis
      from 1(2) True s3(1,2) obtain s4 e4 where
        call: "run (to_cb (sc_timeouts s1 ! sc_first s)) (to_arg (sc_timeouts s1 ! sc_first s)) now (s3, e)
           = Some (s4, e4)" and rest: "f run now s4 e4 = Some r"
        by (auto simp: Let_def bind_eq_Some_conv)
      have "sched_wf s4" using call 1(4) s3(3) by blast
      with 1(1) [OF rest] 1(4) show ?thesis by blast
    qed
  qed
  with wf cb show ?thesis by blast
qed

text \<open>
  Everything the stack can do to the scheduler: start and stop timers with any handle, and
  tick, with callbacks that are themselves built from such calls.
\<close>

inductive sched_calls :: "sched \<Rightarrow> sched \<Rightarrow> bool" where
  none: "sched_calls s s"
| add: "sched_calls s t \<Longrightarrow> pf_scheduler_add t now delay cb arg h = Some (u, h', r) \<Longrightarrow> sched_calls s u"
| remove: "sched_calls s t \<Longrightarrow> pf_scheduler_remove t h = Some (u, h') \<Longrightarrow> sched_calls s u"

inductive sched_history :: "nat \<Rightarrow> u32 \<Rightarrow> sched \<Rightarrow> bool" for n tick where
  init: "pf_scheduler_init n tick = Some s \<Longrightarrow> sched_history n tick s"
| calls: "sched_history n tick s \<Longrightarrow> sched_calls s t \<Longrightarrow> sched_history n tick t"
| tick: "sched_history n tick s \<Longrightarrow>
     (\<And>cb arg s e s' e'. run cb arg now (s, e) = Some (s', e') \<Longrightarrow> sched_calls s s') \<Longrightarrow>
     pf_scheduler_tick run now s (e :: nat list) = Some (t, e') \<Longrightarrow> sched_history n tick t"

lemma calls_wf: "sched_calls s t \<Longrightarrow> sched_wf s \<Longrightarrow> sched_wf t"
  by (induction rule: sched_calls.induct) (auto intro: add_wf remove_wf)

lemma history_wf:
  assumes "sched_history n tick s" and "int n < 2 ^ 16" and "0 < tick" and "uint tick \<le> 2 ^ 31"
  shows "sched_wf s"
  using assms
proof (induction rule: sched_history.induct)
  case (init s)
  then show ?case using init_ok [of n tick] by (fastforce simp: sched_wf_def)
next
  case (calls s t)
  then show ?case by (blast intro: calls_wf)
next
  case (tick s run now e t e')
  have "sched_wf s" using tick by blast
  have "sched_wf (fst (t, e'))"
    by (rule tick_wf [OF tick(3) \<open>sched_wf s\<close>]) (metis calls_wf tick(2))
  then show ?case by simp
qed

text \<open>
  A tick returns when every callback returns, keeps the invariant and leaves no more expired
  entries behind than it found.
\<close>

lemma tick_returns:
  assumes "sched_wf s"
    and cb: "\<And>cb arg s e. sched_wf s \<Longrightarrow> \<exists>s' e'. run cb arg now (s, e) = Some (s', e') \<and> sched_wf s'
                 \<and> n_expired now s' \<le> n_expired now s"
  shows "\<exists>s' e'. pf_scheduler_tick run now s e = Some (s', e') \<and> sched_wf s'
           \<and> takeWhile (expired now s') (busy s') = []"
  using assms(1)
proof (induction "n_expired now s" arbitrary: s e rule: less_induct)
  case less
  have ok: "sched_ok s" using less.prems by (simp add: sched_wf_def)
  show ?case
  proof (cases "takeWhile (expired now s) (busy s)")
    case Nil
    then show ?thesis using tick_stop [OF ok Nil, of run e] less.prems by auto
  next
    case (Cons ix ys)
    then obtain bs where bs: "busy s = ix # bs" and ex: "expired now s ix"
      by (cases "busy s") (auto split: if_splits)
    obtain s3 where s3: "pf_scheduler_tick run now s e
       = Option.bind (run (to_cb (sc_timeouts s ! ix)) (to_arg (sc_timeouts s ! ix)) now (s3, e))
           (\<lambda>(s, e). pf_scheduler_tick run now s e)"
      and wf3: "sched_wf s3" and n3: "Suc (n_expired now s3) = n_expired now s"
      using tick_fire [OF ok bs ex, of run e] n_expired_release [OF ok bs ex] less.prems
      unfolding sched_wf_def by metis
    obtain s4 e4 where s4: "run (to_cb (sc_timeouts s ! ix)) (to_arg (sc_timeouts s ! ix)) now (s3, e)
        = Some (s4, e4)" "sched_wf s4" "n_expired now s4 \<le> n_expired now s3"
      using cb [OF wf3] by blast
    then have "n_expired now s4 < n_expired now s" using n3 by simp
    from less.hyps [OF this s4(2), of e4] show ?thesis using s3 s4(1) by simp
  qed
qed

section \<open>Callbacks that start themselves again\<close>

text \<open>A callback in the style of the periodic timers of CPM and PPM: it starts itself again.\<close>

definition reload :: "u32 \<Rightarrow> handle \<Rightarrow> ptr \<Rightarrow> ptr \<Rightarrow> u32 \<Rightarrow> sched \<times> ptr list \<Rightarrow> (sched \<times> ptr list) option" where
  "reload delay h cb arg now se = (case se of (s, e) \<Rightarrow>
     do { (s, h', r) \<leftarrow> pf_scheduler_add s now delay cb arg h; Some (s, e @ [arg]) })"

lemma sanitize_small:
  assumes "0 < c" and "uint c \<le> 2 ^ 31" and "pf_scheduler_sanitize_delay w c True = Some d"
  shows "0 < uint d" and "uint d < 2 ^ 31"
proof -
  define C where "C = uint c"
  have C: "0 < C" "C \<le> 2147483648" using assms(1,2) by (simp_all add: C_def word_less_alt)
  obtain k where d: "uint d = k * C - C div 2" "1 \<le> k"
    and k: "let w' = (if uint w > 100000000 then 0 else uint w) in
         (w' \<le> C + C div 2 \<longrightarrow> k = 1) \<and> (C + C div 2 < w' \<longrightarrow> k * C \<le> w' + C div 2)"
    using sanitize_total [OF assms(1,2), of w True] assms(3) unfolding C_def Let_def by auto
  have "1 * C \<le> k * C" using d(2) C by (intro mult_right_mono) auto
  then have lo: "C - C div 2 \<le> uint d" using d by linarith
  then show "0 < uint d" using C by simp
  have "k = 1 \<or> k * C \<le> 100000000 + C div 2"
    using k unfolding Let_def by (auto split: if_splits)
  then have "uint d \<le> C - C div 2 \<or> uint d \<le> 100000000" using d by auto
  then show "uint d < 2 ^ 31" using C by auto
qed

lemma future_not_expired:
  fixes now d :: u32
  assumes "0 < uint d" and "uint d < 2 ^ 31"
  shows "sint (now - (now + d)) < 0"
proof -
  have "unat (0 :: u32) < 2 ^ 31" "unat d < 2 ^ 31"
    using uint_less_half [OF assms(2)] by simp_all
  then have "sint (0 - d) = int (unat (0 :: u32)) - int (unat d)" by (rule sint_diff_in_half)
  then show ?thesis using assms by simp
qed

lemma reload_keeps:
  assumes wf: "sched_wf s"
  shows "\<exists>s' e'. reload delay h cb arg now (s, e) = Some (s', e') \<and> sched_wf s'
           \<and> n_expired now s' \<le> n_expired now s"
proof (cases "free s")
  case Nil
  then obtain h' r where "pf_scheduler_add s now delay cb arg h = Some (s, h', r)"
    using add_total [OF wf, of now delay cb arg h] by metis
  with wf show ?thesis by (simp add: reload_def)
next
  case (Cons ix fs)
  have ok: "sched_ok s" and tick: "uint (sc_tick s) \<le> 2 ^ 31" using wf by (simp_all add: sched_wf_def)
  note c = sched_okD(6) [OF ok] tick
  obtain d where d: "pf_scheduler_sanitize_delay delay (sc_tick s) True = Some d"
    using sanitize_total [OF c] by metis
  obtain s' h' where s': "pf_scheduler_add s now delay cb arg h = Some (s', h', 0)"
    and bs: "busy s' = sched_insert s (now + d) ix (busy s)"
    and new: "to_when (sc_timeouts s' ! ix) = now + d"
    and same: "\<And>i. i \<noteq> ix \<Longrightarrow> contents_of (sc_timeouts s' ! i) = contents_of (sc_timeouts s ! i)"
    using add_spec [OF ok Cons d, of now cb arg h] by (metis payload_sel(3) timeout.select_convs(3))
  have ix: "ix \<notin> set (busy s)" using sched_okD(3) [OF ok] Cons by auto
  have "\<not> expired now s' ix"
    using future_not_expired [OF sanitize_small [OF c d], of now] by (simp add: expired_def new)
  moreover have "expired now s' i = expired now s i" if "i \<in> set (busy s)" for i
  proof -
    have "i \<noteq> ix" using that ix by auto
    then show ?thesis using payload_eqD(3) [OF same, of i] by (simp add: expired_def)
  qed
  ultimately have "filter (expired now s') (sched_insert s (now + d) ix (busy s))
      = filter (expired now s) (busy s)"
    unfolding sched_insert_def
    by (subst (3) takeWhile_dropWhile_id [symmetric, where P = "\<lambda>y. 0 < sint (now + d - to_when (sc_timeouts s ! y))"])
      (auto simp del: takeWhile_dropWhile_id dest: set_takeWhileD set_dropWhileD intro!: arg_cong2 [where f = append] filter_cong)
  then have "n_expired now s' = n_expired now s" by (simp add: n_expired_def bs)
  with s' add_wf [OF wf s'] show ?thesis by (simp add: reload_def)
qed

section \<open>Properties\<close>

text \<open>A scheduler with four entries, one and two of them pending, for the witnesses.\<close>

definition demo_handle :: handle where
  "demo_handle = pf_scheduler_init_handle \<lparr>h_name = 0, h_index = 0\<rparr> 7"

definition demo0 :: sched where
  "demo0 = the (pf_scheduler_init 4 1000)"

definition demo1 :: "sched \<times> handle \<times> int" where
  "demo1 = the (pf_scheduler_add demo0 4294967000 5000 1 11 demo_handle)"

definition demo2 :: "sched \<times> handle \<times> int" where
  "demo2 = the (pf_scheduler_add (fst demo1) 0 2000 2 12 demo_handle)"

lemma demo2_wf: "sched_wf (fst demo2)"
  by code_simp

lemma demo2_owns: "sched_owns (fst demo2) (fst (snd demo1))"
  by code_simp

text \<open>C1. In every state that any history of calls and ticks can reach, the free and the
  pending list partition the array (\<open>sched_wf\<close>), and no later call fails an assertion or
  runs into a loop that does not end: adding, removing with any handle (stale ones included)
  and restarting all return, in a state where the same holds.\<close>

theorem sched_history_safe:
  assumes "sched_history n tick s" and "int n < 2 ^ 16" and "0 < tick" and "uint tick \<le> 2 ^ 31"
  shows "sched_wf s
    \<and> (\<exists>s' h' r. pf_scheduler_add s now delay cb arg h = Some (s', h', r) \<and> sched_wf s'
          \<and> (r = 0 \<longleftrightarrow> free s \<noteq> []))
    \<and> (\<exists>s' h'. pf_scheduler_remove s h = Some (s', h') \<and> sched_wf s')
    \<and> (\<exists>s' h' r. pf_scheduler_restart s now delay cb arg h = Some (s', h', r) \<and> sched_wf s')"
proof -
  have wf: "sched_wf s" using assms by (rule history_wf)
  then have ok: "sched_ok s" by (simp add: sched_wf_def)
  obtain s1 h1 where rm: "pf_scheduler_remove s h = Some (s1, h1)"
    using remove_total [OF ok, of h] by metis
  with wf have wf1: "sched_wf s1" by (rule remove_wf)
  obtain s2 h2 where off: "pf_scheduler_remove_if_running s h = Some (s2, h2)" "sched_wf s2"
    using rm wf wf1 by (cases "pf_scheduler_is_running h") (auto simp: pf_scheduler_remove_if_running_def)
  obtain s3 h3 r3 where add: "pf_scheduler_add s now delay cb arg h = Some (s3, h3, r3)"
    "sched_wf s3" "r3 = 0 \<longleftrightarrow> free s \<noteq> []"
    using add_total [OF wf, of now delay cb arg h] by metis
  obtain s4 h4 r4 where "pf_scheduler_add s2 now delay cb arg h2 = Some (s4, h4, r4)" "sched_wf s4"
    using add_total [OF off(2), of now delay cb arg h2] by metis
  with wf rm wf1 off(1) add show ?thesis by (simp add: pf_scheduler_restart_def)
qed

theorem sched_history_safe_witness:
  "sched_history 4 1000 (fst demo2) \<and> sched_wf (fst demo2)"
proof -
  have 0: "pf_scheduler_init 4 1000 = Some demo0" by code_simp
  have 1: "pf_scheduler_add demo0 4294967000 5000 1 11 demo_handle
      = Some (fst demo1, fst (snd demo1), snd (snd demo1))" by code_simp
  have 2: "pf_scheduler_add (fst demo1) 0 2000 2 12 demo_handle
      = Some (fst demo2, fst (snd demo2), snd (snd demo2))" by code_simp
  have h: "sched_history 4 1000 (fst demo2)"
    by (rule sched_history.calls [OF sched_history.init [OF 0]])
      (rule sched_calls.add [OF sched_calls.add [OF sched_calls.none 1] 2])
  have "sched_wf (fst demo2)"
    using sched_history_safe [OF h, of 0 0 0 0 demo_handle] by simp
  with h show ?thesis by blast
qed

text \<open>C2. While the clock values in use lie in one half of its range, the pending list stays
  sorted by expiry time across the wrap-around: a new timeout is inserted in order, with its
  name, callback, argument and time recorded, and no other entry is changed.\<close>

theorem pf_scheduler_add_ordered:
  assumes "sched_wf s" and "free s \<noteq> []"
    and "pf_scheduler_sanitize_delay delay (sc_tick s) True = Some d"
    and "in_window b s (set (busy s))" and "uint (now + d - b) < 2 ^ 31"
    and "sorted (map (due b s) (busy s))"
  shows "\<exists>s'. let ix = hd (free s) in
    pf_scheduler_add s now delay cb arg h = Some (s', h\<lparr>h_index := of_nat ix + 1\<rparr>, 0)
    \<and> free s' = tl (free s) \<and> busy s' = insort_key (due b s') ix (busy s)
    \<and> sorted (map (due b s') (busy s'))
    \<and> contents_of (sc_timeouts s' ! ix) = \<lparr>to_name = h_name h, to_in_use = True,
           to_when = now + d, to_next = 0, to_prev = 0, to_cb = cb, to_arg = arg\<rparr>
    \<and> (\<forall>i. i \<noteq> ix \<longrightarrow> contents_of (sc_timeouts s' ! i) = contents_of (sc_timeouts s ! i))"
proof -
  obtain ix fs where fr: "free s = ix # fs" using assms(2) by (cases "free s") auto
  have ok: "sched_ok s" using assms(1) by (simp add: sched_wf_def)
  obtain s' where s': "pf_scheduler_add s now delay cb arg h = Some (s', h\<lparr>h_index := of_nat ix + 1\<rparr>, 0)"
    "free s' = fs" "busy s' = sched_insert s (now + d) ix (busy s)"
    and new: "contents_of (sc_timeouts s' ! ix) = \<lparr>to_name = h_name h, to_in_use = True,
           to_when = now + d, to_next = 0, to_prev = 0, to_cb = cb, to_arg = arg\<rparr>"
    and same: "\<And>i. i \<noteq> ix \<Longrightarrow> contents_of (sc_timeouts s' ! i) = contents_of (sc_timeouts s ! i)"
    using add_spec [OF ok fr assms(3), of now cb arg h] by metis
  have ix: "ix \<notin> set (busy s)" using sched_okD(3) [OF ok] fr by auto
  have whn: "to_when (sc_timeouts s' ! i) = to_when (sc_timeouts s ! i)" if "i \<in> set (busy s)" for i
    using payload_eqD(3) [OF same, of i] that ix by metis
  have nw: "to_when (sc_timeouts s' ! ix) = now + d"
    using new payload_sel(3) by (metis timeout.select_convs(3))
  have "in_window b s' (insert ix (set (busy s)))"
    using assms(4,5) whn nw by (simp add: in_window_def)
  then have "sched_insert s' (now + d) ix (busy s) = insort_key (due b s') ix (busy s)"
    using nw by (intro sched_insert_insort) simp_all
  moreover have "sched_insert s (now + d) ix (busy s) = sched_insert s' (now + d) ix (busy s)"
    using whn by (intro sched_insert_cong) simp
  moreover have "map (due b s') (busy s) = map (due b s) (busy s)"
    using whn by (simp add: due_def)
  then have "sorted (map (due b s') (busy s))" using assms(6) by (simp only:)
  ultimately show ?thesis
    using s' new same fr by (simp add: sorted_insort_key)
qed

theorem pf_scheduler_add_ordered_witness:
  "\<exists>s'. let ix = 2 in
    pf_scheduler_add (fst demo2) 100 1000 5 6 demo_handle = Some (s', demo_handle\<lparr>h_index := of_nat ix + 1\<rparr>, 0)
    \<and> free s' = [3] \<and> busy s' = insort_key (due 4294967000 s') ix [1, 0]
    \<and> sorted (map (due 4294967000 s') (busy s'))
    \<and> contents_of (sc_timeouts s' ! ix) = \<lparr>to_name = h_name demo_handle, to_in_use = True,
           to_when = 100 + 500, to_next = 0, to_prev = 0, to_cb = 5, to_arg = 6\<rparr>
    \<and> (\<forall>i. i \<noteq> ix \<longrightarrow> contents_of (sc_timeouts s' ! i) = contents_of (sc_timeouts (fst demo2) ! i))"
proof -
  have lists: "free (fst demo2) = [2, 3]" "busy (fst demo2) = [1, 0]" by code_simp+
  have "sched_wf (fst demo2)" "free (fst demo2) \<noteq> []"
    "pf_scheduler_sanitize_delay 1000 (sc_tick (fst demo2)) True = Some 500"
    "in_window 4294967000 (fst demo2) (set (busy (fst demo2)))"
    "uint ((100 :: u32) + 500 - 4294967000) < 2 ^ 31"
    "sorted (map (due 4294967000 (fst demo2)) (busy (fst demo2)))"
    by code_simp+
  from pf_scheduler_add_ordered [OF this, of 5 6 demo_handle] show ?thesis
    by (simp only: lists list.sel)
qed

text \<open>C3. Restarting a pending timer always succeeds, even when every entry of the array is in
  use: the timer is pending again under its new handle, the number of free entries is
  unchanged, and every other pending timer is still pending under its own handle.\<close>

theorem pf_scheduler_restart_safe:
  assumes "sched_wf s" and "sched_owns s h"
  shows "\<exists>s' h'. pf_scheduler_restart s now delay cb arg h = Some (s', h', 0) \<and> sched_wf s'
    \<and> sched_owns s' h' \<and> length (free s') = length (free s)
    \<and> (\<forall>k. sched_owns s k \<longrightarrow> h_index k \<noteq> h_index h \<longrightarrow> sched_owns s' k)"
proof -
  obtain s' h' where
    "Option.bind (pf_scheduler_remove s h) (\<lambda>(s, h). sched_start s (now, delay, cb, arg) h) = Some (s', h', 0)"
    "sched_wf s'" "sched_owns s' h'" "length (free s') = length (free s)"
    "\<forall>k. sched_owns s k \<longrightarrow> h_index k \<noteq> h_index h \<longrightarrow> sched_owns s' k"
    using timers.restart_owned [OF assms, of "(now, delay, cb, arg)"] by metis
  then show ?thesis
    using timers.owned_running [OF assms]
    by (simp add: pf_scheduler_restart_def pf_scheduler_remove_if_running_def sched_start_def)
qed

theorem pf_scheduler_restart_safe_witness:
  "\<exists>s' h'. pf_scheduler_restart (fst demo2) 10 3000 1 11 (fst (snd demo1)) = Some (s', h', 0)
    \<and> sched_owns s' h' \<and> length (free s') = 2"
proof -
  have "length (free (fst demo2)) = 2" by code_simp
  then show ?thesis
    using pf_scheduler_restart_safe [OF demo2_wf demo2_owns, of 10 3000 1 11] by auto
qed

text \<open>C4. A tick whose callbacks do not call the scheduler returns, and has called exactly the
  callbacks of the leading expired entries, each with its own argument and in the order of
  expiry; those entries are free again and all others are still pending, unchanged.\<close>

theorem pf_scheduler_tick_fires:
  assumes "sched_wf s"
  shows "\<exists>s'. pf_scheduler_tick record_call now s [] = Some (s', due_calls now s) \<and> sched_ok s'
    \<and> busy s' = dropWhile (expired now s) (busy s)
    \<and> (\<forall>i\<in>set (busy s'). contents_of (sc_timeouts s' ! i) = contents_of (sc_timeouts s ! i))"
proof -
  have ok: "sched_ok s" using assms by (simp add: sched_wf_def)
  obtain s' where "pf_scheduler_tick record_call now s [] = Some (s', [] @ due_calls now s)"
    "sched_ok s'" "busy s' = dropWhile (expired now s) (busy s)"
    "\<And>i. i \<in> set (busy s') \<Longrightarrow> contents_of (sc_timeouts s' ! i) = contents_of (sc_timeouts s ! i)"
    using tick_record [OF ok, of now "[]"] by metis
  then show ?thesis by auto
qed

theorem pf_scheduler_tick_fires_witness:
  "\<exists>s'. pf_scheduler_tick record_call 2000 (fst demo2) [] = Some (s', [(2, 12)]) \<and> busy s' = [0]"
proof -
  have "due_calls 2000 (fst demo2) = [(2, 12)]"
    "dropWhile (expired 2000 (fst demo2)) (busy (fst demo2)) = [0]" by code_simp+
  then show ?thesis using pf_scheduler_tick_fires [OF demo2_wf, of 2000] by auto
qed

text \<open>C5. A tick also returns when callbacks start timers again, as the periodic timers of the
  cyclic data machines do: a delay is always at least one microsecond and less than half the
  clock's range after rounding, so a restarted timer is not expired at the tick's own time.
  When the tick has returned, the first pending timeout is not due.\<close>

theorem pf_scheduler_tick_reload_returns:
  assumes "sched_wf s"
  shows "\<exists>s' e'. pf_scheduler_tick (reload delay h) now s e = Some (s', e') \<and> sched_wf s'
    \<and> takeWhile (expired now s') (busy s') = []"
  using assms by (rule tick_returns) (rule reload_keeps)

theorem pf_scheduler_tick_reload_returns_witness:
  "\<exists>s' e'. pf_scheduler_tick (reload 1000 demo_handle) 9000 (fst demo2) [] = Some (s', e')
    \<and> sched_wf s' \<and> takeWhile (expired 9000 s') (busy s') = []"
  by (rule pf_scheduler_tick_reload_returns [OF demo2_wf])

text \<open>A delay is rounded to a whole number \<open>k \<ge> 1\<close> of stack cycles, less half a cycle
  when the caller asks for it: one cycle up to one and a half cycles, otherwise the nearest
  multiple. Delays above 100 seconds count as 0. No intermediate result overflows, and no
  assertion fails, for cycles of up to \<open>2 ^ 31\<close> microseconds.\<close>

theorem pf_scheduler_sanitize_delay_rounds:
  assumes "0 < c" and "uint c \<le> 2 ^ 31"
  shows "\<exists>d k. pf_scheduler_sanitize_delay w c half = Some d \<and> 1 \<le> k
    \<and> uint d = k * uint c - (if half then uint c div 2 else 0)
    \<and> (let w' = (if uint w > 100000000 then 0 else uint w) in
         (w' \<le> uint c + uint c div 2 \<longrightarrow> k = 1)
         \<and> (uint c + uint c div 2 < w' \<longrightarrow>
              k * uint c \<le> w' + uint c div 2 \<and> w' + uint c div 2 < (k + 1) * uint c))"
proof -
  obtain d k where "pf_scheduler_sanitize_delay w c half = Some d" "1 \<le> k"
    "uint d = k * uint c - (if half then uint c div 2 else 0)"
    "let w' = (if uint w > 100000000 then 0 else uint w) in
         (w' \<le> uint c + uint c div 2 \<longrightarrow> k = 1)
         \<and> (uint c + uint c div 2 < w' \<longrightarrow>
              k * uint c \<le> w' + uint c div 2 \<and> w' + uint c div 2 < (k + 1) * uint c)"
    by (rule sanitize_total [OF assms])
  then show ?thesis by blast
qed

theorem pf_scheduler_sanitize_delay_rounds_witness:
  "\<exists>d k. pf_scheduler_sanitize_delay 2700 1000 True = Some d \<and> uint d = k * 1000 - 500
     \<and> k * 1000 \<le> 3200 \<and> 3200 < (k + 1) * (1000 :: int)"
proof -
  have "0 < (1000 :: u32)" "uint (1000 :: u32) \<le> 2 ^ 31" by simp_all
  from pf_scheduler_sanitize_delay_rounds [OF this, of 2700 True]
  obtain d k where "pf_scheduler_sanitize_delay 2700 1000 True = Some d" "uint d = k * 1000 - 500"
    "k * 1000 \<le> 3200" "3200 < (k + 1) * (1000 :: int)" by (auto simp: Let_def)
  then show ?thesis by blast
qed

end
