(* ===== verification/Pn_Types.thy ===== *)
theory Pn_Types
  imports Pn_Prelude
begin

text \<open>
  The data of the Profinet blocks (\<^verbatim>\<open>src/pf_types.h\<close> and
  \<^verbatim>\<open>include/pnet_api.h\<close>): one record per C struct, fields in the order of the
  source, integers at their width. A C array is a list whose length is the size of the array;
  a character array is a list of bytes. Field names carry a short prefix where the C structs
  share a name. The configurable sizes (\<^verbatim>\<open>PNET_MAX_SLOTS\<close> and so on,
  generated by the build) appear as the lengths of the lists.
\<close>

section \<open>UUIDs and headers\<close>

record pf_uuid =
  data1 :: u32
  data2 :: u16
  data3 :: u16
  data4 :: "u8 list"

record pf_rpc_uuid_type =
  time_low :: u32
  time_mid :: u16
  time_hi_and_version :: u16
  clock_hi_and_reserved :: u8
  clock_low :: u8
  node :: "u8 list"

record pf_rpc_handle =
  rpc_entry_handle :: u32
  handle_uuid :: pf_rpc_uuid_type

record pf_block_header =
  block_type :: u16
  block_length :: u16
  block_version_high :: u8
  block_version_low :: u8

record pf_rpc_flags =
  last_fragment :: bool
  fragment :: bool
  no_fack :: bool
  maybe :: bool
  idempotent :: bool
  broadcast :: bool

record pf_rpc_header =
  rpc_version :: u8
  packet_type :: u8
  rpc_flags :: pf_rpc_flags
  cancel_pending :: bool
  rpc_is_big_endian :: bool
  float_repr :: u8
  reserved :: u8
  serial_high :: u8
  object_uuid :: pf_uuid
  interface_uuid :: pf_uuid
  activity_uuid :: pf_uuid
  server_boot_time :: u32
  interface_version :: u32
  sequence_nmb :: u32
  opnum :: u16
  interface_hint :: u16
  activity_hint :: u16
  length_of_body :: u16
  fragment_nmb :: u16
  auth_protocol :: u8
  serial_low :: u8

record pf_rpc_lookup_req =
  inquiry_type :: u32
  object_id :: u32
  lreq_object_uuid :: pf_uuid
  interface_id :: u32
  lreq_interface_uuid :: pf_uuid
  interface_ver_major :: u16
  interface_ver_minor :: u16
  version_option :: u32
  lreq_rpc_handle :: pf_rpc_handle
  max_entries :: u32

record pf_ndr_data =
  args_maximum :: u32
  args_length :: u32
  maximum_count :: u32
  array_offset :: u32
  actual_count :: u32

record pf_control_block =
  cb_ar_uuid :: pf_uuid
  cb_session_key :: u16
  control_command :: u16
  control_block_properties :: u16
  cb_alarm_sequence_number :: u16

record pnet_pnio_status =
  error_code :: u8
  error_decode :: u8
  error_code_1 :: u8
  error_code_2 :: u8

record pnet_result =
  result_status :: pnet_pnio_status
  result_add_data_1 :: u16
  result_add_data_2 :: u16

section \<open>Alarms\<close>

record pf_alarm_pdu_type =
  pdu_type_type :: u8
  pdu_type_version :: u8

record pf_alarm_add_flags =
  window_size :: u8
  tack :: bool

record pf_alarm_fixed =
  dst_ref :: u16
  src_ref :: u16
  pdu_type :: pf_alarm_pdu_type
  add_flags :: pf_alarm_add_flags
  send_seq_num :: u16
  ack_seq_nbr :: u16

record pnet_alarm_spec =
  channel_diagnosis :: bool
  manufacturer_diagnosis :: bool
  submodule_diagnosis :: bool
  ar_diagnosis :: bool

text \<open>
  A diagnosis item. The union \<^verbatim>\<open>fmt\<close> is kept as its two views \<open>fmt_std\<close> and
  \<open>fmt_usi\<close>; the selector is \<open>di_usi\<close>. \<open>di_next\<close> is an index into the array of items.
\<close>

record pf_diag_std =
  ext_ch_add_value :: u32
  qual_ch_qualifier :: u32
  ch_nbr :: u16
  ch_properties :: u16
  ch_error_type :: u16
  ext_ch_error_type :: u16

record pf_diag_usi =
  usi_len :: u16
  manuf_data :: "u8 list"

record pf_diag_item =
  fmt_std :: pf_diag_std
  fmt_usi :: pf_diag_usi
  di_in_use :: bool
  di_usi :: u16
  di_next :: u16

text \<open>
  The payload of an alarm is manufacturer data, or the memory image of a diagnosis item when its
  USI is not one of a manufacturer. The image is not taken apart into bytes.
\<close>

datatype payload = Payload_bytes "u8 list" | Payload_item pf_diag_item

record pf_alarm_payload =
  payload_usi :: u16
  payload_len :: u16
  payload_data :: payload

record pf_alarm_data =
  alarm_type :: u16
  ad_api_id :: u32
  ad_slot_nbr :: u16
  ad_subslot_nbr :: u16
  module_ident :: u32
  submodule_ident :: u16
  alarm_specifier :: pnet_alarm_spec
  ad_sequence_number :: u16
  ad_payload :: pf_alarm_payload

section \<open>The connect request\<close>

record pf_ar_properties =
  arp_state :: u16
  supervisor_takeover_allowed :: bool
  parameterization_server :: u8
  device_access :: bool
  companion_ar :: u16
  acknowledge_companion_ar :: bool
  combined_object_container :: bool
  startup_mode :: bool
  pull_module_alarm_allowed :: bool

record pf_ar_param =
  arp_valid :: bool
  ar_type :: u16
  arp_ar_uuid :: pf_uuid
  session_key :: u16
  cm_initiator_mac_add :: "u8 list"
  cm_initiator_object_uuid :: pf_uuid
  ar_properties :: pf_ar_properties
  cm_initiator_activity_timeout_factor :: u16
  cm_initiator_udp_rt_port :: u16
  cm_initiator_station_name_len :: u16
  cm_initiator_station_name :: "u8 list"

record pf_ar_result =
  cm_responder_mac_add :: "u8 list"
  responder_udp_rt_port :: u16

record pf_iocr_properties =
  rt_class :: u32
  reserved_1 :: u16
  reserved_2 :: u16
  reserved_3 :: u16

record pf_frame_descriptor =
  fd_slot_number :: u16
  fd_subslot_number :: u16
  frame_offset :: u16

record pf_api_entry =
  ae_api :: u32
  nbr_io_data :: u16
  io_data :: "pf_frame_descriptor list"
  nbr_iocs :: u16
  iocs :: "pf_frame_descriptor list"

record pf_iocr_tag_header =
  iocr_vlan_id :: u16
  iocr_user_priority :: u16

record pf_iocr_param =
  iocrp_valid :: bool
  iocr_type :: u16
  iocr_reference :: u16
  lt_field :: u16
  iocr_properties :: pf_iocr_properties
  c_sdu_length :: u16
  frame_id :: u16
  send_clock_factor :: u16
  reduction_ratio :: u16
  phase :: u16
  sequence :: u16
  frame_send_offset :: u32
  watchdog_factor :: u32
  data_hold_factor :: u16
  iocr_tag_header :: pf_iocr_tag_header
  iocr_multicast_mac_add :: "u8 list"
  nbr_apis :: u16
  apis :: "pf_api_entry list"

record pf_iocr_result =
  res_iocr_type :: u16
  res_iocr_reference :: u16
  res_frame_id :: u16

record pf_data_descriptor =
  data_direction :: u16
  submodule_data_length :: u16
  length_iops :: u8
  length_iocs :: u8

record pf_submodule_properties =
  submodule_type :: u8
  sharedInput :: bool
  reduce_input_submodule_data_length :: bool
  reduce_output_submodule_data_length :: bool
  discard_ioxs :: bool

record pf_exp_submodule =
  subslot_number :: u16
  submodule_ident_number :: u32
  submodule_properties :: pf_submodule_properties
  nbr_data_descriptors :: u16
  data_descriptor :: "pf_data_descriptor list"

record pf_exp_module =
  slot_number :: u16
  module_ident_number :: u32
  module_properties :: u16
  nbr_submodules :: u16
  submodules :: "pf_exp_submodule list"

record pf_exp_api =
  exp_valid :: bool
  exp_api :: u32
  nbr_modules :: u16
  modules :: "pf_exp_module list"

record pf_prm_server =
  parameter_server_object_uuid :: pf_uuid
  prm_activity_timeout_factor :: u16
  parameter_server_station_name_len :: u16
  parameter_server_station_name :: "u8 list"

record pf_multicast_cr =
  mcr_iocr_reference :: u16
  mcr_protocol :: u8
  resolution_factor :: u8
  mci_timeout_factor :: u16
  length_provider_station_name :: u16
  provider_station_name :: "u8 list"

record pf_dfp_iocr =
  dfp_iocr_reference :: u16
  subframe_offset :: u16
  subframe_position :: u8
  subframe_length :: u8

record pf_ir_info =
  ir_data_uuid :: pf_uuid
  ir_nbr_iocrs :: u16
  dfp_iocrs :: "pf_dfp_iocr list"

record pf_alarm_cr_tag_header =
  acr_vlan_id :: u8
  alarm_user_priority :: u8

record pf_alarm_cr_request =
  acr_valid :: bool
  alarm_cr_type :: u32
  acr_lt_field :: u16
  alarm_cr_priority :: bool
  transport_udp :: bool
  rta_timeout_factor :: u16
  rta_retries :: u16
  local_alarm_reference :: u16
  max_alarm_data_length :: u16
  alarm_cr_tag_header_high :: pf_alarm_cr_tag_header
  alarm_cr_tag_header_low :: pf_alarm_cr_tag_header

record pf_alarm_cr_result =
  res_alarm_cr_type :: u16
  remote_alarm_reference :: u16
  res_max_alarm_data_length :: u16

record pf_ar_vendor_request =
  ap_structure_identifier :: u32
  vendor_api :: u32
  length_data_request :: u16
  data_request :: "u8 list"

section \<open>Records that are read and written\<close>

record pf_iod_read_request =
  rreq_sequence_number :: u16
  rreq_ar_uuid :: pf_uuid
  rreq_api :: u32
  rreq_slot_number :: u16
  rreq_subslot_number :: u16
  rreq_padding :: "u8 list"
  rreq_index :: u16
  rreq_record_data_length :: u32
  target_ar_uuid :: pf_uuid
  rreq_rw_padding :: "u8 list"

record pf_iod_write_request =
  wreq_sequence_number :: u16
  wreq_ar_uuid :: pf_uuid
  wreq_api :: u32
  wreq_slot_number :: u16
  wreq_subslot_number :: u16
  wreq_padding :: "u8 list"
  wreq_index :: u16
  wreq_record_data_length :: u32
  wreq_rw_padding :: "u8 list"

record pnet_im_1 =
  im_tag_function :: "u8 list"
  im_tag_location :: "u8 list"

record pf_port_data_check =
  pdc_slot_number :: u16
  pdc_subslot_number :: u16
  pdc_block_header :: pf_block_header

record pf_check_peer =
  length_peer_port_name :: u8
  peer_port_name :: "u8 list"
  length_peer_station_name :: u8
  peer_station_name :: "u8 list"

record pf_check_peers =
  number_of_peers :: u8
  peers :: "pf_check_peer list"

record pf_port_data_adjust =
  pda_slot_number :: u16
  pda_subslot_number :: u16
  pda_block_header :: pf_block_header

record pf_adjust_peer_to_peer_boundary =
  do_not_send_LLDP_frames :: bool
  do_not_send_pctp_delay_request_frames :: bool
  do_not_send_path_delay_request_frames :: bool
  adjust_properties :: u16

record pf_iod_result =
  rres_sequence_number :: u16
  rres_ar_uuid :: pf_uuid
  rres_api :: u32
  rres_slot_number :: u16
  rres_subslot_number :: u16
  rres_index :: u16
  rres_record_data_length :: u32
  add_data_1 :: u16
  add_data_2 :: u16

section \<open>Differences between the expected and the plugged modules\<close>

definition PF_MOD_PLUG_NO_MODULE :: u16 where "PF_MOD_PLUG_NO_MODULE = 0"
definition PF_MOD_PLUG_WRONG_MODULE :: u16 where "PF_MOD_PLUG_WRONG_MODULE = 1"
definition PF_MOD_PLUG_PROPER_MODULE :: u16 where "PF_MOD_PLUG_PROPER_MODULE = 2"
definition PF_MOD_PLUG_SUBSTITUTE :: u16 where "PF_MOD_PLUG_SUBSTITUTE = 3"

definition PF_SUBMOD_PLUG_OK :: u8 where "PF_SUBMOD_PLUG_OK = 0"
definition PF_SUBMOD_PLUG_SUBSTITUTE :: u8 where "PF_SUBMOD_PLUG_SUBSTITUTE = 1"
definition PF_SUBMOD_PLUG_WRONG :: u8 where "PF_SUBMOD_PLUG_WRONG = 2"
definition PF_SUBMOD_PLUG_NO :: u8 where "PF_SUBMOD_PLUG_NO = 3"

lemmas mod_plug_defs = PF_MOD_PLUG_NO_MODULE_def PF_MOD_PLUG_WRONG_MODULE_def
  PF_MOD_PLUG_PROPER_MODULE_def PF_MOD_PLUG_SUBSTITUTE_def
lemmas submod_plug_defs = PF_SUBMOD_PLUG_OK_def PF_SUBMOD_PLUG_SUBSTITUTE_def
  PF_SUBMOD_PLUG_WRONG_def PF_SUBMOD_PLUG_NO_def

record pf_submodule_state =
  add_info :: u8
  advice_avail :: bool
  maintenance_required :: bool
  maintenance_demanded :: bool
  sub_fault :: bool
  sub_ar_info :: u8
  ident_info :: u8
  format_indicator :: bool

record pf_submodule_diff =
  sdiff_subslot_number :: u16
  sdiff_submodule_ident_number :: u32
  sdiff_submodule_state :: pf_submodule_state

record pf_module_diff =
  mdiff_slot_number :: u16
  mdiff_module_ident_number :: u32
  module_state :: u16
  nbr_submodule_diffs :: u16
  submodule_diffs :: "pf_submodule_diff list"

record pf_api_diff =
  adiff_api :: u32
  nbr_module_diffs :: u16
  module_diffs :: "pf_module_diff list"

section \<open>The application relation, as far as the blocks fill it in or report it\<close>

record pf_ar_server =
  length_cm_responder_station_name :: u16
  cm_responder_station_name :: "u8 list"

record pf_ar_vendor_result =
  length_data_response :: u16
  data_response :: "u8 list"

record pf_iocr =
  iocr_param :: pf_iocr_param
  iocr_result :: pf_iocr_result

record pf_ar =
  ar_param :: pf_ar_param
  ar_result :: pf_ar_result
  ar_server :: pf_ar_server
  alarm_cr_request :: pf_alarm_cr_request
  alarm_cr_result :: pf_alarm_cr_result
  initiator_rpc_server_port :: u16
  responder_rpc_server_port :: u16
  nbr_iocrs :: u16
  iocrs :: "pf_iocr list"
  nbr_exp_apis :: u16
  exp_apis :: "pf_exp_api list"
  nbr_api_diffs :: u16
  api_diffs :: "pf_api_diff list"
  mcr_request :: "pf_multicast_cr list"
  prm_server :: pf_prm_server
  ir_info :: pf_ir_info
  ar_vendor_request :: "pf_ar_vendor_request list"
  ar_vendor_result :: "pf_ar_vendor_result list"

text \<open>The size of the buffer of a frame.\<close>

definition PF_FRAME_BUFFER_SIZE :: nat where "PF_FRAME_BUFFER_SIZE = 1500"

text \<open>The UUID zero.\<close>

definition nil_uuid :: pf_uuid where
  "nil_uuid = \<lparr>data1 = 0, data2 = 0, data3 = 0, data4 = replicate 8 0\<rparr>"

end
