(* ===== verification/Pn_Block_Writer.thy ===== *)
theory Pn_Block_Writer
  imports Pn_Types
begin

text \<open>
  The functions of \<^verbatim>\<open>src/device/pf_block_writer.c\<close> that put the blocks of a connect,
  control, read or write response into the output buffer. All of them are void functions of the
  buffer \<^verbatim>\<open>p_bytes\<close>, its size \<^verbatim>\<open>res_len\<close> and the position \<^verbatim>\<open>p_pos\<close>: steps on the record
  \<open>wr\<close>, run one after the other by \<open>puts\<close>. A write outside \<^verbatim>\<open>p_bytes\<close> or a read outside the
  source array gives \<open>None\<close>, and so does a loop that never ends.
\<close>

record wr =
  wr_bytes :: "u8 list"
  wr_res_len :: u16
  wr_pos :: u16

type_synonym wrm = "wr \<Rightarrow> wr option"

fun puts :: "wrm list \<Rightarrow> wrm" where
  "puts [] w = Some w"
| "puts (f # fs) w = do { w \<leftarrow> f w; puts fs w }"

section \<open>Bytes, integers, strings and padding\<close>

definition pf_put_byte :: "u8 \<Rightarrow> wrm" where
  "pf_put_byte val w =
     (if unat (wr_pos w) + 1 > unat (wr_res_len w) then Some w
      else if unat (wr_pos w) < length (wr_bytes w)
      then Some (w\<lparr>wr_bytes := (wr_bytes w)[unat (wr_pos w) := val], wr_pos := wr_pos w + 1\<rparr>)
      else None)"

text \<open>\<open>overlay i bs xs\<close>: the array \<open>xs\<close> after \<open>bs\<close> has been copied to index \<open>i\<close>.\<close>

definition overlay :: "nat \<Rightarrow> 'a list \<Rightarrow> 'a list \<Rightarrow> 'a list" where
  "overlay i bs xs = take i xs @ bs @ drop (i + length bs) xs"

lemma length_overlay [simp]: "i + length bs \<le> length xs \<Longrightarrow> length (overlay i bs xs) = length xs"
  by (simp add: overlay_def)

lemma overlay_overlay:
  "i + length as + length bs \<le> length xs \<Longrightarrow>
    overlay (i + length as) bs (overlay i as xs) = overlay i (as @ bs) xs"
  by (simp add: overlay_def ac_simps)

lemma overlay_Nil [simp]: "overlay i [] xs = xs"
  by (simp add: overlay_def)

lemma overlay_single: "i < length xs \<Longrightarrow> overlay i [b] xs = xs[i := b]"
  by (simp add: overlay_def upd_conv_take_nth_drop)

lemma take_overlay: "j \<le> i \<Longrightarrow> i \<le> length xs \<Longrightarrow> take j (overlay i bs xs) = take j xs"
  by (simp add: overlay_def min_absorb2)

lemma drop_overlay:
  "i + length bs \<le> j \<Longrightarrow> j \<le> length xs \<Longrightarrow> drop j (overlay i bs xs) = drop j xs"
  by (simp add: overlay_def)

lemma overlay_inside:
  "length bs = length cs \<Longrightarrow> i + length as + length bs + length ds \<le> length xs \<Longrightarrow>
    overlay (i + length as) cs (overlay i (as @ bs @ ds) xs) = overlay i (as @ cs @ ds) xs"
  by (simp add: overlay_def add.assoc)

lemma read_overlay:
  "i + length bs \<le> length xs \<Longrightarrow> take (length bs) (drop i (overlay i bs xs)) = bs"
  by (simp add: overlay_def)

definition pf_put_mem :: "u8 list \<Rightarrow> u16 \<Rightarrow> wrm" where
  "pf_put_mem p_src src_size w =
     (if unat (wr_pos w) + unat src_size > unat (wr_res_len w) then Some w
      else if unat (wr_pos w) + unat src_size \<le> length (wr_bytes w) \<and> unat src_size \<le> length p_src
      then Some (w\<lparr>wr_bytes := overlay (unat (wr_pos w)) (take (unat src_size) p_src) (wr_bytes w),
                   wr_pos := wr_pos w + src_size\<rparr>)
      else None)"

text \<open>The source of the overlapping copy is the output buffer itself, from index \<open>src\<close> on.\<close>

definition pf_put_mem_overlapping :: "nat \<Rightarrow> u16 \<Rightarrow> wrm" where
  "pf_put_mem_overlapping src src_size w = pf_put_mem (drop src (wr_bytes w)) src_size w"

definition pf_put_uint16 :: "bool \<Rightarrow> u16 \<Rightarrow> wrm" where
  "pf_put_uint16 is_big_endian val =
     (if is_big_endian
      then puts [pf_put_byte (ucast (drop_bit 8 val AND 255)), pf_put_byte (ucast (val AND 255))]
      else puts [pf_put_byte (ucast (val AND 255)), pf_put_byte (ucast (drop_bit 8 val AND 255))])"

definition pf_put_uint32 :: "bool \<Rightarrow> u32 \<Rightarrow> wrm" where
  "pf_put_uint32 is_big_endian val =
     (if is_big_endian
      then puts [pf_put_byte (ucast (drop_bit 24 val AND 255)),
                 pf_put_byte (ucast (drop_bit 16 val AND 255)),
                 pf_put_byte (ucast (drop_bit 8 val AND 255)),
                 pf_put_byte (ucast (val AND 255))]
      else puts [pf_put_byte (ucast (val AND 255)),
                 pf_put_byte (ucast (drop_bit 8 val AND 255)),
                 pf_put_byte (ucast (drop_bit 16 val AND 255)),
                 pf_put_byte (ucast (drop_bit 24 val AND 255))])"

definition pf_put_padding :: "u16 \<Rightarrow> wrm" where
  "pf_put_padding n_bytes = puts (replicate (unat n_bytes) (pf_put_byte 0))"

partial_function (option) pf_put_padding_align :: "u16 \<Rightarrow> u16 \<Rightarrow> wrm" where
  "pf_put_padding_align start_position align w =
     (if (uint (wr_pos w) - uint start_position) mod uint align \<noteq> 0
      then do {
        w \<leftarrow> pf_put_byte 0 w;
        pf_put_padding_align start_position align w }
      else Some w)"

text \<open>\<open>strlen\<close>: the index of the first zero, \<open>None\<close> where C would run past the array.\<close>

fun strlen :: "u8 list \<Rightarrow> nat option" where
  "strlen [] = None"
| "strlen (c # cs) = (if c = 0 then Some 0 else map_option Suc (strlen cs))"

text \<open>\<^verbatim>\<open>src_size\<close> is the size of the character array; the space has code 32.\<close>

definition pf_put_str :: "u8 list \<Rightarrow> wrm" where
  "pf_put_str p_src w = do {
     n \<leftarrow> strlen p_src;
     if unat (wr_pos w) + length p_src > unat (wr_res_len w) then Some w
     else do {
       w \<leftarrow> pf_put_mem p_src (of_nat n) w;
       puts (replicate (length p_src - 1 - n) (pf_put_byte 32)) w } }"

definition pf_put_uuid :: "bool \<Rightarrow> pf_uuid \<Rightarrow> wrm" where
  "pf_put_uuid is_big_endian p_uuid = puts [
     pf_put_uint32 is_big_endian (data1 p_uuid),
     pf_put_uint16 is_big_endian (data2 p_uuid),
     pf_put_uint16 is_big_endian (data3 p_uuid),
     pf_put_mem (data4 p_uuid) 8]"

definition pf_put_rpc_uuid :: "bool \<Rightarrow> pf_rpc_uuid_type \<Rightarrow> wrm" where
  "pf_put_rpc_uuid is_big_endian p_uuid = puts [
     pf_put_uint32 is_big_endian (time_low p_uuid),
     pf_put_uint16 is_big_endian (time_mid p_uuid),
     pf_put_uint16 is_big_endian (time_hi_and_version p_uuid),
     pf_put_byte (clock_hi_and_reserved p_uuid),
     pf_put_byte (clock_low p_uuid),
     pf_put_mem (node p_uuid) 6]"

definition pf_put_bits :: "u32 \<Rightarrow> nat \<Rightarrow> nat \<Rightarrow> u32 \<Rightarrow> u32" where
  "pf_put_bits val len pos p_bits = p_bits OR push_bit pos (val AND (push_bit len 1 - 1))"

text \<open>One bit for a Boolean, as the calls with length one do.\<close>

abbreviation put_flag :: "bool \<Rightarrow> nat \<Rightarrow> u32 \<Rightarrow> u32" where
  "put_flag b pos \<equiv> pf_put_bits (if b then 1 else 0) 1 pos"

section \<open>Blocks\<close>

definition PF_BT_AR_BLOCK_RES :: u16 where "PF_BT_AR_BLOCK_RES = 33025"
definition PF_BT_IOCR_BLOCK_RES :: u16 where "PF_BT_IOCR_BLOCK_RES = 33026"
definition PF_BT_ALARM_CR_BLOCK_RES :: u16 where "PF_BT_ALARM_CR_BLOCK_RES = 33027"
definition PF_BT_MODULE_DIFF_BLOCK :: u16 where "PF_BT_MODULE_DIFF_BLOCK = 33028"
definition PF_BT_AR_SERVER_BLOCK :: u16 where "PF_BT_AR_SERVER_BLOCK = 33030"
definition PF_BT_AR_RPC_BLOCK_RES :: u16 where "PF_BT_AR_RPC_BLOCK_RES = 33031"
definition PF_BT_AR_VENDOR_BLOCK_RES :: u16 where "PF_BT_AR_VENDOR_BLOCK_RES = 33032"
definition PF_BT_READ_RES :: u16 where "PF_BT_READ_RES = 32777"
definition PF_BT_WRITE_RES :: u16 where "PF_BT_WRITE_RES = 32776"
definition PF_BT_IM_0 :: u16 where "PF_BT_IM_0 = 32"
definition PF_BT_IM_1 :: u16 where "PF_BT_IM_1 = 33"
definition PF_BT_IM_2 :: u16 where "PF_BT_IM_2 = 34"
definition PF_BT_IM_3 :: u16 where "PF_BT_IM_3 = 35"
definition PF_BT_LOG_BOOK_DATA :: u16 where "PF_BT_LOG_BOOK_DATA = 25"

lemmas block_type_defs = PF_BT_AR_BLOCK_RES_def PF_BT_IOCR_BLOCK_RES_def PF_BT_ALARM_CR_BLOCK_RES_def PF_BT_MODULE_DIFF_BLOCK_def PF_BT_AR_SERVER_BLOCK_def PF_BT_AR_RPC_BLOCK_RES_def PF_BT_AR_VENDOR_BLOCK_RES_def PF_BT_READ_RES_def PF_BT_WRITE_RES_def PF_BT_IM_0_def PF_BT_IM_1_def PF_BT_IM_2_def PF_BT_IM_3_def PF_BT_LOG_BOOK_DATA_def

definition PNET_BLOCK_VERSION_HIGH :: u8 where "PNET_BLOCK_VERSION_HIGH = 1"
definition PNET_BLOCK_VERSION_LOW :: u8 where "PNET_BLOCK_VERSION_LOW = 0"
definition PNET_BLOCK_VERSION_LOW_1 :: u8 where "PNET_BLOCK_VERSION_LOW_1 = 1"

text \<open>The length in the header counts the two version bytes.\<close>

definition pf_put_block_header :: "bool \<Rightarrow> u16 \<Rightarrow> u16 \<Rightarrow> u8 \<Rightarrow> u8 \<Rightarrow> wrm" where
  "pf_put_block_header is_big_endian bh_type bh_length bh_ver_high bh_ver_low = puts [
     pf_put_uint16 is_big_endian bh_type,
     pf_put_uint16 is_big_endian (bh_length + 6 - 4),
     pf_put_byte bh_ver_high,
     pf_put_byte bh_ver_low]"

text \<open>
  Every block is written in the same way: remember the position, write a header without the
  length, write the contents, and insert the length at offset two of the header. The position
  \<^verbatim>\<open>p_pos\<close> is not touched by the insertion, which runs on a copy.
\<close>

definition put_at :: "u16 \<Rightarrow> wrm \<Rightarrow> wrm" where
  "put_at pos f w = do {
     w' \<leftarrow> f (w\<lparr>wr_pos := pos\<rparr>);
     Some (w'\<lparr>wr_pos := wr_pos w\<rparr>) }"

definition put_block_length :: "bool \<Rightarrow> u16 \<Rightarrow> wrm" where
  "put_block_length is_big_endian block_pos w =
     put_at (block_pos + 2) (pf_put_uint16 is_big_endian (wr_pos w - (block_pos + 4))) w"

definition put_block :: "bool \<Rightarrow> u16 \<Rightarrow> u8 \<Rightarrow> (u16 \<Rightarrow> wrm list) \<Rightarrow> wrm" where
  "put_block is_big_endian bt version_low body w =
     puts (pf_put_block_header is_big_endian bt 0 PNET_BLOCK_VERSION_HIGH version_low
           # body (wr_pos w) @ [put_block_length is_big_endian (wr_pos w)]) w"

section \<open>The connect response\<close>

definition pf_put_ar_result :: "bool \<Rightarrow> pf_ar \<Rightarrow> wrm" where
  "pf_put_ar_result be p_ar = put_block be PF_BT_AR_BLOCK_RES PNET_BLOCK_VERSION_LOW (\<lambda>_. [
     pf_put_uint16 be (ar_type (ar_param p_ar)),
     pf_put_uuid be (arp_ar_uuid (ar_param p_ar)),
     pf_put_uint16 be (session_key (ar_param p_ar)),
     pf_put_mem (cm_responder_mac_add (ar_result p_ar)) 6,
     pf_put_uint16 be (responder_udp_rt_port (ar_result p_ar))])"

definition pf_put_iocr_result :: "bool \<Rightarrow> pf_ar \<Rightarrow> u16 \<Rightarrow> wrm" where
  "pf_put_iocr_result be p_ar ix w =
     (if unat ix < length (iocrs p_ar)
      then put_block be PF_BT_IOCR_BLOCK_RES PNET_BLOCK_VERSION_LOW (\<lambda>_. [
        pf_put_uint16 be (res_iocr_type (iocr_result (iocrs p_ar ! unat ix))),
        pf_put_uint16 be (res_iocr_reference (iocr_result (iocrs p_ar ! unat ix))),
        pf_put_uint16 be (res_frame_id (iocr_result (iocrs p_ar ! unat ix)))]) w
      else None)"

definition pf_put_alarm_cr_result :: "bool \<Rightarrow> pf_ar \<Rightarrow> wrm" where
  "pf_put_alarm_cr_result be p_ar =
     put_block be PF_BT_ALARM_CR_BLOCK_RES PNET_BLOCK_VERSION_LOW (\<lambda>_. [
       pf_put_uint16 be (res_alarm_cr_type (alarm_cr_result p_ar)),
       pf_put_uint16 be (remote_alarm_reference (alarm_cr_result p_ar)),
       pf_put_uint16 be (res_max_alarm_data_length (alarm_cr_result p_ar))])"

definition submodule_state_bits :: "pf_submodule_state \<Rightarrow> u32" where
  "submodule_state_bits st =
     put_flag (format_indicator st) 15
     (pf_put_bits (ucast (ident_info st)) 4 11
     (pf_put_bits (ucast (sub_ar_info st)) 4 7
     (put_flag (sub_fault st) 6
     (put_flag (maintenance_demanded st) 5
     (put_flag (maintenance_required st) 4
     (put_flag (advice_avail st) 3
     (pf_put_bits (ucast (add_info st)) 3 0 0)))))))"

definition pf_put_submodule_diff :: "bool \<Rightarrow> pf_submodule_diff \<Rightarrow> wrm" where
  "pf_put_submodule_diff be p_diff = puts [
     pf_put_uint16 be (sdiff_subslot_number p_diff),
     (if ident_info (sdiff_submodule_state p_diff) = PF_SUBMOD_PLUG_NO then pf_put_uint32 be 0
      else pf_put_uint32 be (sdiff_submodule_ident_number p_diff)),
     pf_put_uint16 be (ucast (submodule_state_bits (sdiff_submodule_state p_diff)))]"

text \<open>The first \<open>n\<close> elements of an array; reading past its end gives \<open>None\<close>.\<close>

definition put_each :: "nat \<Rightarrow> 'a list \<Rightarrow> ('a \<Rightarrow> wrm) \<Rightarrow> wrm" where
  "put_each n xs f w =
     (if n \<le> length xs then puts (map f (take n xs)) w else None)"

definition pf_put_module_diff :: "bool \<Rightarrow> pf_module_diff \<Rightarrow> wrm" where
  "pf_put_module_diff be p_diff = puts ([
     pf_put_uint16 be (mdiff_slot_number p_diff),
     (if module_state p_diff = PF_MOD_PLUG_NO_MODULE then pf_put_uint32 be 0
      else pf_put_uint32 be (mdiff_module_ident_number p_diff)),
     pf_put_uint16 be (module_state p_diff)] @
     (if module_state p_diff = PF_MOD_PLUG_NO_MODULE then [pf_put_uint32 be 0]
      else [pf_put_uint16 be (nbr_submodule_diffs p_diff),
            put_each (unat (nbr_submodule_diffs p_diff)) (submodule_diffs p_diff)
              (pf_put_submodule_diff be)]))"

definition pf_put_api_diff :: "bool \<Rightarrow> pf_api_diff \<Rightarrow> wrm" where
  "pf_put_api_diff be p_diff = puts [
     pf_put_uint32 be (adiff_api p_diff),
     pf_put_uint16 be (nbr_module_diffs p_diff),
     put_each (unat (nbr_module_diffs p_diff)) (module_diffs p_diff) (pf_put_module_diff be)]"

definition pf_put_ar_diff :: "bool \<Rightarrow> pf_ar option \<Rightarrow> wrm" where
  "pf_put_ar_diff be p_ar w =
     (case p_ar of
        None \<Rightarrow> Some w
      | Some p_ar \<Rightarrow>
          if nbr_api_diffs p_ar > 0
          then put_block be PF_BT_MODULE_DIFF_BLOCK PNET_BLOCK_VERSION_LOW (\<lambda>_. [
            pf_put_uint16 be (nbr_api_diffs p_ar),
            put_each (unat (nbr_api_diffs p_ar)) (api_diffs p_ar) (pf_put_api_diff be)]) w
          else Some w)"

definition pf_put_ar_rpc_result :: "bool \<Rightarrow> pf_ar \<Rightarrow> wrm" where
  "pf_put_ar_rpc_result be p_ar =
     put_block be PF_BT_AR_RPC_BLOCK_RES PNET_BLOCK_VERSION_LOW (\<lambda>_. [
       pf_put_uint16 be (responder_rpc_server_port p_ar)])"

definition pf_put_ar_server_result :: "bool \<Rightarrow> pf_ar \<Rightarrow> wrm" where
  "pf_put_ar_server_result be p_ar =
     put_block be PF_BT_AR_SERVER_BLOCK PNET_BLOCK_VERSION_LOW (\<lambda>block_pos. [
       pf_put_uint16 be (length_cm_responder_station_name (ar_server p_ar)),
       pf_put_mem (cm_responder_station_name (ar_server p_ar))
         (length_cm_responder_station_name (ar_server p_ar)),
       pf_put_padding_align block_pos 4])"

definition pf_put_ar_vendor_result :: "bool \<Rightarrow> pf_ar \<Rightarrow> u16 \<Rightarrow> wrm" where
  "pf_put_ar_vendor_result be p_ar ix w =
     (if unat ix < length (ar_vendor_request p_ar) \<and> unat ix < length (ar_vendor_result p_ar)
      then put_block be PF_BT_AR_VENDOR_BLOCK_RES PNET_BLOCK_VERSION_LOW (\<lambda>block_pos. [
        pf_put_uint32 be (ap_structure_identifier (ar_vendor_request p_ar ! unat ix)),
        pf_put_uint32 be (vendor_api (ar_vendor_request p_ar ! unat ix)),
        pf_put_uint16 be (length_data_response (ar_vendor_result p_ar ! unat ix)),
        pf_put_mem (data_response (ar_vendor_result p_ar ! unat ix))
          (length_data_response (ar_vendor_result p_ar ! unat ix)),
        pf_put_padding_align block_pos 4]) w
      else None)"

section \<open>Control, RPC header and record data\<close>

definition pf_put_control :: "bool \<Rightarrow> u16 \<Rightarrow> pf_control_block \<Rightarrow> wrm" where
  "pf_put_control be bt p_res = put_block be bt PNET_BLOCK_VERSION_LOW (\<lambda>_. [
     pf_put_byte 0,
     pf_put_byte 0,
     pf_put_uuid be (cb_ar_uuid p_res),
     pf_put_uint16 be (cb_session_key p_res),
     pf_put_uint16 be (cb_alarm_sequence_number p_res),
     pf_put_uint16 be (control_command p_res),
     pf_put_uint16 be (control_block_properties p_res)])"

definition pf_put_pnet_status :: "bool \<Rightarrow> pnet_pnio_status \<Rightarrow> wrm" where
  "pf_put_pnet_status be p_status = pf_put_uint32 be
     (0x01000000 * ucast (error_code p_status) + 0x10000 * ucast (error_decode p_status) +
      0x100 * ucast (error_code_1 p_status) + ucast (error_code_2 p_status))"

definition rpc_flags_bits :: "pf_rpc_flags \<Rightarrow> u32" where
  "rpc_flags_bits f =
     put_flag (broadcast f) 6
     (put_flag (idempotent f) 5
     (put_flag (maybe f) 4
     (put_flag (no_fack f) 3
     (put_flag (fragment f) 2
     (put_flag (last_fragment f) 1 0)))))"

text \<open>The second result is \<^verbatim>\<open>p_pos_body_len\<close>, where the caller inserts the length of the body.\<close>

definition put_dce_rpc_header_start :: "pf_rpc_header \<Rightarrow> wrm" where
  "put_dce_rpc_header_start p_rpc = (let be = rpc_is_big_endian p_rpc in puts [
     pf_put_byte (rpc_version p_rpc),
     pf_put_byte (packet_type p_rpc),
     pf_put_byte (ucast (rpc_flags_bits (rpc_flags p_rpc))),
     pf_put_byte 0,
     pf_put_byte (ucast (pf_put_bits (if be then 0 else 1) 4 4 0)),
     pf_put_byte (float_repr p_rpc),
     pf_put_byte (reserved p_rpc),
     pf_put_byte (serial_high p_rpc),
     pf_put_uuid be (object_uuid p_rpc),
     pf_put_uuid be (interface_uuid p_rpc),
     pf_put_uuid be (activity_uuid p_rpc),
     pf_put_uint32 be (server_boot_time p_rpc),
     pf_put_uint32 be (interface_version p_rpc),
     pf_put_uint32 be (sequence_nmb p_rpc),
     pf_put_uint16 be (opnum p_rpc),
     pf_put_uint16 be (interface_hint p_rpc),
     pf_put_uint16 be (activity_hint p_rpc)])"

definition put_dce_rpc_header_end :: "pf_rpc_header \<Rightarrow> wrm" where
  "put_dce_rpc_header_end p_rpc = (let be = rpc_is_big_endian p_rpc in puts [
     pf_put_uint16 be (length_of_body p_rpc),
     pf_put_uint16 be (fragment_nmb p_rpc),
     pf_put_byte (auth_protocol p_rpc),
     pf_put_byte (serial_low p_rpc)])"

definition pf_put_dce_rpc_header :: "pf_rpc_header \<Rightarrow> wr \<Rightarrow> (wr \<times> u16) option" where
  "pf_put_dce_rpc_header p_rpc w = do {
     w \<leftarrow> put_dce_rpc_header_start p_rpc w;
     w' \<leftarrow> put_dce_rpc_header_end p_rpc w;
     Some (w', wr_pos w) }"

definition pf_put_record_data_read :: "bool \<Rightarrow> u16 \<Rightarrow> u16 \<Rightarrow> u8 list \<Rightarrow> wrm" where
  "pf_put_record_data_read be bt raw_length p_raw_data =
     put_block be bt PNET_BLOCK_VERSION_LOW (\<lambda>_. [pf_put_mem p_raw_data raw_length])"

definition pf_put_record_data_write :: "bool \<Rightarrow> u16 \<Rightarrow> u16 \<Rightarrow> u8 list \<Rightarrow> wrm" where
  "pf_put_record_data_write be bt raw_length p_raw_data =
     put_block be bt PNET_BLOCK_VERSION_LOW (\<lambda>_. [pf_put_mem p_raw_data raw_length])"

text \<open>
  Read and write results share their first fields. The position of the data length, which
  \<^verbatim>\<open>pf_put_read_result\<close> also returns, is 36 bytes into the block.
\<close>

definition put_iod_result :: "bool \<Rightarrow> pf_iod_result \<Rightarrow> wrm list" where
  "put_iod_result be p_res = [
     pf_put_uint16 be (rres_sequence_number p_res),
     pf_put_uuid be (rres_ar_uuid p_res),
     pf_put_uint32 be (rres_api p_res),
     pf_put_uint16 be (rres_slot_number p_res),
     pf_put_uint16 be (rres_subslot_number p_res),
     pf_put_byte 0,
     pf_put_byte 0,
     pf_put_uint16 be (rres_index p_res)]"

definition pf_put_read_result :: "bool \<Rightarrow> pf_iod_result \<Rightarrow> wr \<Rightarrow> (wr \<times> u16) option" where
  "pf_put_read_result be p_res w = (let block_pos = wr_pos w in do {
     w \<leftarrow> puts (pf_put_block_header be PF_BT_READ_RES 0 PNET_BLOCK_VERSION_HIGH
                PNET_BLOCK_VERSION_LOW # put_iod_result be p_res) w;
     w' \<leftarrow> puts [
       pf_put_uint32 be (rres_record_data_length p_res),
       pf_put_uint16 be (add_data_1 p_res),
       pf_put_uint16 be (add_data_2 p_res),
       pf_put_padding 20,
       put_block_length be block_pos] w;
     Some (w', wr_pos w) })"

definition pf_put_write_result :: "bool \<Rightarrow> pf_iod_result \<Rightarrow> pnet_pnio_status \<Rightarrow> wrm" where
  "pf_put_write_result be p_res pnio_status =
     put_block be PF_BT_WRITE_RES PNET_BLOCK_VERSION_LOW (\<lambda>_. put_iod_result be p_res @ [
       pf_put_uint32 be (rres_record_data_length p_res),
       pf_put_uint16 be (add_data_1 p_res),
       pf_put_uint16 be (add_data_2 p_res),
       pf_put_pnet_status be pnio_status,
       pf_put_padding 16])"

section \<open>Identification and maintenance data\<close>

record pnet_im_0 =
  im_vendor_id_hi :: u8
  im_vendor_id_lo :: u8
  im_order_id :: "u8 list"
  im_serial_number :: "u8 list"
  im_hardware_revision :: u16
  im_sw_revision_prefix :: u8
  im_sw_revision_functional_enhancement :: u8
  im_sw_revision_bug_fix :: u8
  im_sw_revision_internal_change :: u8
  im_revision_counter :: u16
  im_profile_id :: u16
  im_profile_specific_type :: u16
  im_version_major :: u8
  im_version_minor :: u8
  im_supported :: u16

definition pf_put_im_0 :: "bool \<Rightarrow> pnet_im_0 \<Rightarrow> wrm" where
  "pf_put_im_0 be p_im_0 = put_block be PF_BT_IM_0 PNET_BLOCK_VERSION_LOW (\<lambda>_. [
     pf_put_byte (im_vendor_id_hi p_im_0),
     pf_put_byte (im_vendor_id_lo p_im_0),
     pf_put_str (im_order_id p_im_0),
     pf_put_str (im_serial_number p_im_0),
     pf_put_uint16 be (im_hardware_revision p_im_0),
     pf_put_byte (im_sw_revision_prefix p_im_0),
     pf_put_byte (im_sw_revision_functional_enhancement p_im_0),
     pf_put_byte (im_sw_revision_bug_fix p_im_0),
     pf_put_byte (im_sw_revision_internal_change p_im_0),
     pf_put_uint16 be (im_revision_counter p_im_0),
     pf_put_uint16 be (im_profile_id p_im_0),
     pf_put_uint16 be (im_profile_specific_type p_im_0),
     pf_put_byte (im_version_major p_im_0),
     pf_put_byte (im_version_minor p_im_0),
     pf_put_uint16 be (im_supported p_im_0)])"

definition pf_put_im_1 :: "bool \<Rightarrow> pnet_im_1 \<Rightarrow> wrm" where
  "pf_put_im_1 be p_im_1 = put_block be PF_BT_IM_1 PNET_BLOCK_VERSION_LOW (\<lambda>_. [
     pf_put_str (im_tag_function p_im_1),
     pf_put_str (im_tag_location p_im_1)])"

definition pf_put_im_2 :: "bool \<Rightarrow> u8 list \<Rightarrow> wrm" where
  "pf_put_im_2 be im_date =
     put_block be PF_BT_IM_2 PNET_BLOCK_VERSION_LOW (\<lambda>_. [pf_put_str im_date])"

definition pf_put_im_3 :: "bool \<Rightarrow> u8 list \<Rightarrow> wrm" where
  "pf_put_im_3 be im_descriptor =
     put_block be PF_BT_IM_3 PNET_BLOCK_VERSION_LOW (\<lambda>_. [pf_put_str im_descriptor])"

section \<open>The log book\<close>

record pf_log_book_ts =
  ts_status :: u16
  sec_hi :: u16
  sec_lo :: u32
  nano_sec :: u32

record pf_log_book_entry =
  le_time_ts :: pf_log_book_ts
  le_ar_uuid :: pf_uuid
  le_pnio_status :: pnet_pnio_status
  entry_detail :: u32

record pf_log_book =
  lb_time_ts :: pf_log_book_ts
  lb_entries :: "pf_log_book_entry list"
  lb_put :: u16
  lb_wrap :: bool

definition pf_put_time_timestamp :: "bool \<Rightarrow> pf_log_book_ts \<Rightarrow> wrm" where
  "pf_put_time_timestamp be p_time_ts = puts [
     pf_put_uint16 be (sec_hi p_time_ts),
     pf_put_uint16 be (ucast (sec_lo p_time_ts)),
     pf_put_uint32 be (nano_sec p_time_ts)]"

definition put_log_book_entry :: "bool \<Rightarrow> pf_log_book_entry \<Rightarrow> wrm" where
  "put_log_book_entry be e = puts [
     pf_put_time_timestamp be (le_time_ts e),
     pf_put_uuid be (le_ar_uuid e),
     pf_put_pnet_status be (le_pnio_status e),
     pf_put_uint32 be (entry_detail e)]"

partial_function (option) put_log_book_entries ::
  "bool \<Rightarrow> pf_log_book \<Rightarrow> u16 \<Rightarrow> wrm" where
  "put_log_book_entries be p_log_book ix w =
     (if ix \<noteq> lb_put p_log_book
      then if unat ix < length (lb_entries p_log_book)
        then do {
          w \<leftarrow> put_log_book_entry be (lb_entries p_log_book ! unat ix) w;
          put_log_book_entries be p_log_book
            (if unat (ix + 1) \<ge> length (lb_entries p_log_book) then 0 else ix + 1) w }
        else None
      else Some w)"

definition log_book_range :: "pf_log_book \<Rightarrow> u16 \<times> u16" where
  "log_book_range p_log_book =
     (if lb_wrap p_log_book
      then (if unat (lb_put p_log_book + 1) \<ge> length (lb_entries p_log_book) then 0
            else lb_put p_log_book + 1,
            of_nat (length (lb_entries p_log_book)))
      else (0, lb_put p_log_book))"

definition pf_put_log_book_data :: "bool \<Rightarrow> pf_log_book \<Rightarrow> wrm" where
  "pf_put_log_book_data be p_log_book = (let (ix, cnt) = log_book_range p_log_book in
     put_block be PF_BT_LOG_BOOK_DATA PNET_BLOCK_VERSION_LOW (\<lambda>_. [
       pf_put_time_timestamp be (lb_time_ts p_log_book),
       pf_put_uint16 be cnt,
       put_log_book_entries be p_log_book ix]))"

end
