(* ===== verification/Pn_Host.thy ===== *)
theory Pn_Host
  imports Pn_Scheduler Pn_Block_Writer
begin

text \<open>
  The state of the stack besides the connections (\<^verbatim>\<open>src/pf_types.h\<close>, \<^verbatim>\<open>src/common/pf_lldp.h\<close>,
  \<^verbatim>\<open>src/include/pnet_api.h\<close>): the configuration of the application, names and addresses, the ports
  with what is known of their neighbours, DCP, and the log book. Arrays of characters are lists of
  the length of the array.
\<close>

type_synonym u64 = "64 word"

section \<open>Configuration\<close>

record pf_ip_suite =
  su_ip_addr :: u32
  su_ip_mask :: u32
  su_ip_gateway :: u32

record pf_full_ip_suite =
  ip_suite :: pf_ip_suite
  dns_addr :: "u32 list"

record pnet_cfg_device_id =
  id_vendor_hi :: u8
  id_vendor_lo :: u8
  id_device_hi :: u8
  id_device_lo :: u8

text \<open>
  The fields that the stack reads; a callback is here only whether there is one, and an address is
  one number.
\<close>

record pnet_cfg =
  tick_us :: u32
  read_cb :: bool
  write_cb :: bool
  reset_cb :: bool
  signal_led_cb :: bool
  cfg_im_0 :: pnet_im_0
  cfg_im_1 :: pnet_im_1
  cfg_im_2 :: "u8 list"
  cfg_im_3 :: "u8 list"
  cfg_im_4 :: "u8 list"
  cfg_device_id :: pnet_cfg_device_id
  cfg_oem_device_id :: pnet_cfg_device_id
  cfg_station_name :: "u8 list"
  cfg_product_name :: "u8 list"
  cfg_min_device_interval :: u16
  send_hello :: bool
  num_physical_ports :: u8
  main_netif_name :: "u8 list"
  default_mau_types :: "u16 list"
  cfg_dhcp_enable :: bool
  cfg_ip_suite :: pf_ip_suite

section \<open>Names and addresses\<close>

datatype pf_cmina_state_values = PF_CMINA_STATE_SETUP | PF_CMINA_STATE_SET_NAME
  | PF_CMINA_STATE_SET_IP | PF_CMINA_STATE_W_CONNECT

text \<open>The unused fields \<^verbatim>\<open>port_name\<close> and \<^verbatim>\<open>dhcp_info\<close> are left out.\<close>

record pf_cmina_dcp_ase =
  ase_station_name :: "u8 list"
  ase_product_name :: "u8 list"
  ase_device_role :: u8
  ase_device_initiative :: u16
  ase_instance_id :: "u8 \<times> u8"
  ase_device_id :: pnet_cfg_device_id
  ase_oem_device_id :: pnet_cfg_device_id
  ase_mac_address :: "u8 list"
  ase_standard_gw_value :: u16
  ase_dhcp_enable :: bool
  full_ip_suite :: pf_full_ip_suite

section \<open>Ports and neighbours\<close>

text \<open>Chassis ID and port ID; the length has the width of \<^verbatim>\<open>size_t\<close>.\<close>

record pf_lldp_chassis_id =
  lid_string :: "u8 list"
  lid_subtype :: u8
  lid_is_valid :: bool
  lid_len :: u64

type_synonym pf_lldp_port_id = pf_lldp_chassis_id

record pf_lldp_port_description =
  descr_string :: "u8 list"
  descr_is_valid :: bool
  descr_len :: u64

record pf_lldp_interface_number =
  ifn_value :: u32
  ifn_subtype :: u8

record pf_lldp_management_address =
  man_value :: "u8 list"
  man_subtype :: u8
  man_len :: u64
  man_interface_number :: pf_lldp_interface_number
  man_is_valid :: bool

record pf_lldp_signal_delay =
  rx_delay_local :: u32
  rx_delay_remote :: u32
  tx_delay_local :: u32
  tx_delay_remote :: u32
  cable_delay_local :: u32
  delay_is_valid :: bool

record pf_lldp_link_status =
  is_autonegotiation_supported :: bool
  is_autonegotiation_enabled :: bool
  autonegotiation_advertised_capabilities :: u16
  operational_mau_type :: u16
  link_is_valid :: bool

record pf_lldp_peer_info =
  chassis_id :: pf_lldp_chassis_id
  port_id :: pf_lldp_port_id
  peer_ttl :: u16
  port_description :: pf_lldp_port_description
  management_address :: pf_lldp_management_address
  port_delay :: pf_lldp_signal_delay
  port_status :: "u8 list"
  peer_mac_address :: "u8 list"
  line_delay :: u32
  phy_config :: pf_lldp_link_status

record pf_lldp_port =
  peer_info :: pf_lldp_peer_info
  timestamp_for_last_peer_change :: u32
  rx_timeout :: handle
  tx_timeout :: handle
  is_peer_info_received :: bool

record pnal_eth_status =
  eth_is_autonegotiation_supported :: bool
  eth_is_autonegotiation_enabled :: bool
  eth_advertised_capabilities :: u16
  eth_operational_mau_type :: u16
  eth_running :: bool

record pf_pdport =
  lldp_peer_info_updated :: bool
  check_active :: bool
  check_peer :: pf_check_peer
  adjust_active :: bool
  adjust_boundary :: pf_adjust_peer_to_peer_boundary

record pf_port =
  netif_name :: "u8 list"
  netif_mac_address :: "u8 list"
  previous_is_link_up :: bool
  port_name :: "u8 list"
  port_num :: u8
  pdport :: pf_pdport
  lldp :: pf_lldp_port
  eth_status :: pnal_eth_status

section \<open>All of it\<close>

record host =
  fspm_cfg :: pnet_cfg
  fspm_default_cfg :: pnet_cfg
  fspm_log_book :: pf_log_book
  cmina_nonvolatile_dcp_ase :: pf_cmina_dcp_ase
  cmina_current_dcp_ase :: pf_cmina_dcp_ase
  cmina_state :: pf_cmina_state_values
  cmina_error_decode :: u8
  cmina_error_code_1 :: u8
  cmina_hello_count :: u16
  cmina_hello_timeout :: handle
  cmina_commit_ip_suite :: bool
  dcp_global_block_qualifier :: u16
  dcp_sam :: "u8 list"
  dcp_delayed_response_waiting :: bool
  dcp_led_timeout :: handle
  dcp_sam_timeout :: handle
  dcp_identresp_timeout :: handle
  name_of_device_legacy :: bool
  net_ports :: "pf_port list"
  link_monitor_next_port :: nat
  link_monitor_timeout :: handle

text \<open>
  A port is its index, one less than its number. A port in use is one that the configuration counts;
  \<^verbatim>\<open>pf_port_get_state\<close> of any other fails.
\<close>

definition ports_in_use :: "host \<Rightarrow> nat list" where
  "ports_in_use h = [0..<unat (num_physical_ports (fspm_cfg h))]"

definition pf_port_is_valid :: "host \<Rightarrow> int \<Rightarrow> bool" where
  "pf_port_is_valid h n \<longleftrightarrow> 0 < n \<and> n \<le> uint (num_physical_ports (fspm_cfg h))"

abbreviation the_port :: "host \<Rightarrow> nat \<Rightarrow> pf_port" where
  "the_port h i \<equiv> net_ports h ! i"

definition PNAL_ETH_MAU_COPPER_100BaseTX_FULL_DUPLEX :: u16 where
  "PNAL_ETH_MAU_COPPER_100BaseTX_FULL_DUPLEX = 0x10"

definition pf_pdport_is_a_fast_port_in_use :: "host \<Rightarrow> bool" where
  "pf_pdport_is_a_fast_port_in_use h \<longleftrightarrow> list_ex (\<lambda>i. let e = eth_status (the_port h i) in
     eth_operational_mau_type e \<ge> PNAL_ETH_MAU_COPPER_100BaseTX_FULL_DUPLEX \<and> eth_running e)
     (ports_in_use h)"

end
