(* ===== verification/Pn_Alarm_Queue.thy ===== *)
theory Pn_Alarm_Queue
  imports Pn_Types Pn_Interfaces
begin

text \<open>
  The alarm queues of \<^verbatim>\<open>src/common/pf_alarm.c\<close>: ring buffers for received alarm frames and
  for alarms to send. Each is an array with an accountant; a queue is available between the
  creation and the destruction of its mutex. Locking is not modelled: every operation is one
  step.
\<close>

record pf_queue_accountant =
  q_write_index :: u16
  q_read_index :: u16
  q_count :: u16
  q_mutex :: bool

text \<open>A received frame: the position of the frame ID and the buffer, a heap reference.\<close>

record pf_apmr_msg =
  frame_id_pos :: u16
  p_rx_buf :: "nat option"

record pf_alarm_receive_queue =
  rq_accountant :: pf_queue_accountant
  rq_items :: "pf_apmr_msg list"

record pf_alarm_send_queue =
  sq_accountant :: pf_queue_accountant
  sq_items :: "pf_alarm_data list"

section \<open>The accountant\<close>

definition pf_alarm_queue_mutex_create :: "pf_queue_accountant \<Rightarrow> pf_queue_accountant" where
  "pf_alarm_queue_mutex_create a = a\<lparr>q_mutex := True\<rparr>"

definition pf_alarm_queue_mutex_destroy :: "pf_queue_accountant \<Rightarrow> pf_queue_accountant" where
  "pf_alarm_queue_mutex_destroy a = a\<lparr>q_mutex := False\<rparr>"

definition pf_alarm_queue_is_available :: "pf_queue_accountant \<Rightarrow> bool" where
  "pf_alarm_queue_is_available a = q_mutex a"

definition pf_alarm_queue_accountant_reset :: "pf_queue_accountant \<Rightarrow> pf_queue_accountant" where
  "pf_alarm_queue_accountant_reset a = a\<lparr>q_count := 0, q_read_index := 0, q_write_index := 0\<rparr>"

text \<open>\<open>n\<close> is \<^verbatim>\<open>PNET_MAX_ALARMS\<close>, the size of the array. \<open>None\<close> is the return value -1.\<close>

definition pf_alarm_queue_get_writeindex ::
  "nat \<Rightarrow> pf_queue_accountant \<Rightarrow> (u16 \<times> pf_queue_accountant) option" where
  "pf_alarm_queue_get_writeindex n a =
     (if unat (q_count a) \<ge> n then None
      else Some (q_write_index a,
        a\<lparr>q_write_index := (if unat (q_write_index a + 1) \<ge> n then 0 else q_write_index a + 1),
          q_count := q_count a + 1\<rparr>))"

definition pf_alarm_queue_get_readindex ::
  "nat \<Rightarrow> pf_queue_accountant \<Rightarrow> (u16 \<times> pf_queue_accountant) option" where
  "pf_alarm_queue_get_readindex n a =
     (if q_count a = 0 then None
      else Some (q_read_index a,
        a\<lparr>q_read_index := (if unat (q_read_index a + 1) \<ge> n then 0 else q_read_index a + 1),
          q_count := q_count a - 1\<rparr>))"

section \<open>The receive queue\<close>

text \<open>The reset returns the buffers it frees.\<close>

definition pf_alarm_receive_queue_reset ::
  "pf_alarm_receive_queue \<Rightarrow> nat list \<times> pf_alarm_receive_queue" where
  "pf_alarm_receive_queue_reset q =
     (if \<not> pf_alarm_queue_is_available (rq_accountant q) then ([], q)
      else (List.map_filter p_rx_buf (rq_items q),
            q\<lparr>rq_accountant := pf_alarm_queue_accountant_reset (rq_accountant q),
              rq_items := map (\<lambda>m. m\<lparr>p_rx_buf := None, frame_id_pos := 0\<rparr>) (rq_items q)\<rparr>))"

definition pf_alarm_receive_queue_post ::
  "pf_alarm_receive_queue \<Rightarrow> pf_apmr_msg \<Rightarrow> int \<times> pf_alarm_receive_queue" where
  "pf_alarm_receive_queue_post q p_alarm_frame =
     (if \<not> pf_alarm_queue_is_available (rq_accountant q) then (-1, q)
      else case pf_alarm_queue_get_writeindex (length (rq_items q)) (rq_accountant q) of
        None \<Rightarrow> (-1, q)
      | Some (i, a) \<Rightarrow> (0, q\<lparr>rq_accountant := a,
          rq_items := (rq_items q)[unat i := p_alarm_frame]\<rparr>))"

definition pf_alarm_receive_queue_fetch ::
  "pf_alarm_receive_queue \<Rightarrow> pf_apmr_msg \<Rightarrow> int \<times> pf_apmr_msg \<times> pf_alarm_receive_queue" where
  "pf_alarm_receive_queue_fetch q p_alarm_frame =
     (if \<not> pf_alarm_queue_is_available (rq_accountant q) then (-1, p_alarm_frame, q)
      else case pf_alarm_queue_get_readindex (length (rq_items q)) (rq_accountant q) of
        None \<Rightarrow> (-1, p_alarm_frame, q)
      | Some (i, a) \<Rightarrow> (0, rq_items q ! unat i, q\<lparr>rq_accountant := a,
          rq_items := (rq_items q)[unat i := \<lparr>frame_id_pos = 0, p_rx_buf = None\<rparr>]\<rparr>))"

section \<open>The send queue\<close>

definition zero_alarm_data :: pf_alarm_data where
  "zero_alarm_data = \<lparr>alarm_type = 0, ad_api_id = 0, ad_slot_nbr = 0, ad_subslot_nbr = 0,
     module_ident = 0, submodule_ident = 0,
     alarm_specifier = \<lparr>channel_diagnosis = False, manufacturer_diagnosis = False,
       submodule_diagnosis = False, ar_diagnosis = False\<rparr>,
     ad_sequence_number = 0,
     ad_payload = \<lparr>payload_usi = 0, payload_len = 0, payload_data = Payload_bytes []\<rparr>\<rparr>"

definition pf_alarm_send_queue_reset :: "pf_alarm_send_queue \<Rightarrow> pf_alarm_send_queue" where
  "pf_alarm_send_queue_reset q =
     (if \<not> pf_alarm_queue_is_available (sq_accountant q) then q
      else q\<lparr>sq_accountant := pf_alarm_queue_accountant_reset (sq_accountant q),
             sq_items := replicate (length (sq_items q)) zero_alarm_data\<rparr>)"

definition pf_alarm_send_queue_post ::
  "pf_alarm_send_queue \<Rightarrow> pf_alarm_data \<Rightarrow> int \<times> pf_alarm_send_queue" where
  "pf_alarm_send_queue_post q p_alarm_data =
     (if \<not> pf_alarm_queue_is_available (sq_accountant q) then (-1, q)
      else case pf_alarm_queue_get_writeindex (length (sq_items q)) (sq_accountant q) of
        None \<Rightarrow> (-1, q)
      | Some (i, a) \<Rightarrow> (0, q\<lparr>sq_accountant := a,
          sq_items := (sq_items q)[unat i := p_alarm_data]\<rparr>))"

definition pf_alarm_send_queue_fetch ::
  "pf_alarm_send_queue \<Rightarrow> pf_alarm_data \<Rightarrow> int \<times> pf_alarm_data \<times> pf_alarm_send_queue" where
  "pf_alarm_send_queue_fetch q p_alarm_data =
     (if \<not> pf_alarm_queue_is_available (sq_accountant q) then (-1, p_alarm_data, q)
      else case pf_alarm_queue_get_readindex (length (sq_items q)) (sq_accountant q) of
        None \<Rightarrow> (-1, p_alarm_data, q)
      | Some (i, a) \<Rightarrow> (0, sq_items q ! unat i, q\<lparr>sq_accountant := a\<rparr>))"

section \<open>The ring buffer as a list\<close>

text \<open>
  The elements from the read index on, as many as are counted. The invariant: the write index
  is where the next element goes.
\<close>

definition ring_ok :: "nat \<Rightarrow> pf_queue_accountant \<Rightarrow> bool" where
  "ring_ok n a \<longleftrightarrow> q_mutex a \<and> n \<le> 65535 \<and> unat (q_read_index a) < n \<and> unat (q_count a) \<le> n \<and>
     unat (q_write_index a) = (unat (q_read_index a) + unat (q_count a)) mod n"

definition ring :: "'a list \<Rightarrow> pf_queue_accountant \<Rightarrow> 'a list" where
  "ring xs a = map (\<lambda>i. xs ! ((unat (q_read_index a) + i) mod length xs)) [0..<unat (q_count a)]"

lemma length_ring [simp]: "length (ring xs a) = unat (q_count a)"
  by (simp add: ring_def)

lemma mod_add_cases: "r < n \<Longrightarrow> i < n \<Longrightarrow> (r + i) mod n = (if r + i < n then r + i else r + i - n)"
  for r :: nat
  by (simp add: le_mod_geq)

lemma index_next:
  fixes i :: u16
  assumes "unat i < n" and "n \<le> 65535"
  shows "unat (if unat (i + 1) \<ge> n then 0 else i + 1) = Suc (unat i) mod n"
proof -
  have "unat (i + 1) = Suc (unat i)"
    using unat_inc_less [of i "of_nat n"] assms by (simp add: unat_of_nat take_bit_nat_eq_self)
  then show ?thesis using assms by (auto simp: mod_if)
qed

lemma writeindex_full: "ring_ok n a \<Longrightarrow> n \<le> unat (q_count a) \<Longrightarrow>
    pf_alarm_queue_get_writeindex n a = None"
  by (simp add: pf_alarm_queue_get_writeindex_def)

lemma writeindex_room:
  assumes "ring_ok n a" and "unat (q_count a) < n"
  obtains a' where "pf_alarm_queue_get_writeindex n a = Some (q_write_index a, a')"
    and "ring_ok n a'" and "unat (q_write_index a) < n"
    and "q_read_index a' = q_read_index a" and "unat (q_count a') = Suc (unat (q_count a))"
proof -
  let ?w = "if unat (q_write_index a + 1) \<ge> n then 0 else q_write_index a + 1"
  let ?a = "a\<lparr>q_write_index := ?w, q_count := q_count a + 1\<rparr>"
  have w: "unat (q_write_index a) < n" using assms by (simp add: ring_ok_def)
  have c: "unat (q_count a + 1) = Suc (unat (q_count a))"
    using unat_inc_less [of "q_count a" "of_nat n"] assms
    by (simp add: ring_ok_def unat_of_nat take_bit_nat_eq_self)
  have "unat ?w = Suc (unat (q_write_index a)) mod n"
    by (rule index_next [OF w]) (use assms in \<open>simp add: ring_ok_def\<close>)
  then have "ring_ok n ?a" using assms c by (simp add: ring_ok_def mod_Suc_eq)
  with that [of ?a] assms c w show thesis by (simp add: pf_alarm_queue_get_writeindex_def)
qed

lemma readindex_none: "q_count a = 0 \<Longrightarrow> pf_alarm_queue_get_readindex n a = None"
  by (simp add: pf_alarm_queue_get_readindex_def)

lemma readindex_some:
  assumes "ring_ok n a" and "q_count a \<noteq> 0"
  obtains a' where "pf_alarm_queue_get_readindex n a = Some (q_read_index a, a')"
    and "ring_ok n a'" and "unat (q_read_index a) < n"
    and "unat (q_read_index a') = Suc (unat (q_read_index a)) mod n"
    and "unat (q_count a) = Suc (unat (q_count a'))"
proof -
  let ?r = "if unat (q_read_index a + 1) \<ge> n then 0 else q_read_index a + 1"
  let ?a = "a\<lparr>q_read_index := ?r, q_count := q_count a - 1\<rparr>"
  have r: "unat (q_read_index a) < n" using assms by (simp add: ring_ok_def)
  have c: "unat (q_count a) = Suc (unat (q_count a - 1))"
    using assms(2) unat_minus_one [of "q_count a"] by (simp add: unat_gt_0)
  have r': "unat ?r = Suc (unat (q_read_index a)) mod n"
    by (rule index_next [OF r]) (use assms in \<open>simp add: ring_ok_def\<close>)
  moreover have "0 < n" using r by simp
  ultimately have "ring_ok n ?a" using assms c
    by (simp add: ring_ok_def mod_add_left_eq)
  with that [of ?a] assms r r' c show thesis by (simp add: pf_alarm_queue_get_readindex_def)
qed

lemma ring_post:
  assumes "ring_ok (length xs) a" and "unat (q_count a) < length xs"
    and "q_read_index a' = q_read_index a" and "unat (q_count a') = Suc (unat (q_count a))"
  shows "ring (xs[unat (q_write_index a) := x]) a' = ring xs a @ [x]"
proof -
  let ?n = "length xs" and ?r = "unat (q_read_index a)" and ?c = "unat (q_count a)"
  have n: "0 < ?n" using assms(2) by linarith
  have ne: "(?r + i) mod ?n \<noteq> (?r + ?c) mod ?n" if "i < ?c" for i
    using that assms(1,2) by (simp add: ring_ok_def mod_add_cases split: if_splits) linarith
  then have "\<forall>i \<in> {0..<?c}. (?r + ?c) mod ?n \<noteq> (?r + i) mod ?n" by (metis atLeastLessThan_iff)
  then show ?thesis
    using assms n by (simp add: ring_def ring_ok_def nth_list_update_if)
qed

lemma ring_fetch:
  assumes "unat (q_read_index a') = Suc (unat (q_read_index a)) mod length xs"
    and "unat (q_count a) = Suc (unat (q_count a'))" and "unat (q_read_index a) < length xs"
  shows "ring xs a = xs ! unat (q_read_index a) # ring xs a'"
proof -
  have "[0..<unat (q_count a)] = 0 # map Suc [0..<unat (q_count a')]"
    using assms(2) by (simp add: upt_conv_Cons map_Suc_upt del: upt_Suc)
  then show ?thesis using assms by (simp add: ring_def mod_add_left_eq)
qed

section \<open>Both queues are bounded queues\<close>

abbreviation receive_ok :: "pf_alarm_receive_queue \<Rightarrow> bool" where
  "receive_ok q \<equiv> ring_ok (length (rq_items q)) (rq_accountant q)"

abbreviation send_ok :: "pf_alarm_send_queue \<Rightarrow> bool" where
  "send_ok q \<equiv> ring_ok (length (sq_items q)) (sq_accountant q)"

lemma ring_available: "ring_ok n a \<Longrightarrow> pf_alarm_queue_is_available a"
  by (simp add: ring_ok_def pf_alarm_queue_is_available_def)

lemma ring_cleared:
  assumes "unat (q_read_index a') = Suc (unat (q_read_index a)) mod length xs"
    and "unat (q_count a) = Suc (unat (q_count a'))" and "ring_ok (length xs) a"
  shows "ring (xs[unat (q_read_index a) := x]) a' = ring xs a'"
proof -
  let ?n = "length xs" and ?r = "unat (q_read_index a)"
  have "(unat (q_read_index a') + i) mod ?n \<noteq> ?r" if "i < unat (q_count a')" for i
  proof -
    have "(unat (q_read_index a') + i) mod ?n = (?r + Suc i) mod ?n"
      unfolding assms(1) by (simp add: mod_add_left_eq)
    also have "\<dots> = (if ?r + Suc i < ?n then ?r + Suc i else ?r + Suc i - ?n)"
      if "Suc i < ?n" using assms(3) that by (intro mod_add_cases) (simp_all add: ring_ok_def)
    finally show ?thesis using \<open>i < _\<close> assms(2,3) by (cases "Suc i < ?n") (auto simp: ring_ok_def)
  qed
  then have "\<forall>i \<in> {0..<unat (q_count a')}. ?r \<noteq> (unat (q_read_index a') + i) mod ?n"
    by (metis atLeastLessThan_iff)
  then show ?thesis by (simp add: ring_def nth_list_update_if)
qed

interpretation receive_q: bounded_queue receive_ok "\<lambda>q. length (rq_items q)"
  "\<lambda>q. ring (rq_items q) (rq_accountant q)"
  pf_alarm_receive_queue_post pf_alarm_receive_queue_fetch
proof (unfold_locales, goal_cases)
  case (1 q x)
  from writeindex_room [OF 1(1)] 1(2) obtain a' where
    "pf_alarm_queue_get_writeindex (length (rq_items q)) (rq_accountant q) =
       Some (q_write_index (rq_accountant q), a')"
    "ring_ok (length (rq_items q)) a'" "q_read_index a' = q_read_index (rq_accountant q)"
    "unat (q_count a') = Suc (unat (q_count (rq_accountant q)))" by auto
  then show ?case using 1 ring_post [of "rq_items q" "rq_accountant q" a' x]
    by (simp add: pf_alarm_receive_queue_post_def ring_available)
next
  case (2 q x)
  then show ?case by (simp add: pf_alarm_receive_queue_post_def ring_available writeindex_full)
next
  case (3 q x xs y)
  then have "q_count (rq_accountant q) \<noteq> 0" by (auto simp: ring_def)
  from readindex_some [OF 3(1) this] obtain a' where a':
    "pf_alarm_queue_get_readindex (length (rq_items q)) (rq_accountant q) =
       Some (q_read_index (rq_accountant q), a')"
    "ring_ok (length (rq_items q)) a'"
    "unat (q_read_index (rq_accountant q)) < length (rq_items q)"
    "unat (q_read_index a') = Suc (unat (q_read_index (rq_accountant q))) mod length (rq_items q)"
    "unat (q_count (rq_accountant q)) = Suc (unat (q_count a'))" by blast
  then show ?case using 3 ring_fetch [OF a'(4,5,3)] ring_cleared [OF a'(4,5)]
    by (simp add: pf_alarm_receive_queue_fetch_def ring_available)
next
  case (4 q y)
  then have "q_count (rq_accountant q) = 0" by (simp add: ring_def unat_eq_zero)
  then show ?case using 4
    by (simp add: pf_alarm_receive_queue_fetch_def ring_available readindex_none)
qed

interpretation send_q: bounded_queue send_ok "\<lambda>q. length (sq_items q)"
  "\<lambda>q. ring (sq_items q) (sq_accountant q)"
  pf_alarm_send_queue_post pf_alarm_send_queue_fetch
proof (unfold_locales, goal_cases)
  case (1 q x)
  from writeindex_room [OF 1(1)] 1(2) obtain a' where
    "pf_alarm_queue_get_writeindex (length (sq_items q)) (sq_accountant q) =
       Some (q_write_index (sq_accountant q), a')"
    "ring_ok (length (sq_items q)) a'" "q_read_index a' = q_read_index (sq_accountant q)"
    "unat (q_count a') = Suc (unat (q_count (sq_accountant q)))" by auto
  then show ?case using 1 ring_post [of "sq_items q" "sq_accountant q" a' x]
    by (simp add: pf_alarm_send_queue_post_def ring_available)
next
  case (2 q x)
  then show ?case by (simp add: pf_alarm_send_queue_post_def ring_available writeindex_full)
next
  case (3 q x xs y)
  then have "q_count (sq_accountant q) \<noteq> 0" by (auto simp: ring_def)
  from readindex_some [OF 3(1) this] obtain a' where a':
    "pf_alarm_queue_get_readindex (length (sq_items q)) (sq_accountant q) =
       Some (q_read_index (sq_accountant q), a')"
    "ring_ok (length (sq_items q)) a'"
    "unat (q_read_index (sq_accountant q)) < length (sq_items q)"
    "unat (q_read_index a') = Suc (unat (q_read_index (sq_accountant q))) mod length (sq_items q)"
    "unat (q_count (sq_accountant q)) = Suc (unat (q_count a'))" by blast
  then show ?case using 3 ring_fetch [OF a'(4,5,3)]
    by (simp add: pf_alarm_send_queue_fetch_def ring_available)
next
  case (4 q y)
  then have "q_count (sq_accountant q) = 0" by (simp add: ring_def unat_eq_zero)
  then show ?case using 4
    by (simp add: pf_alarm_send_queue_fetch_def ring_available readindex_none)
qed

text \<open>A reset queue is empty, whatever was in it, and gives back every buffer it held.\<close>

lemma reset_accountant:
  assumes "q_mutex a" and "0 < n" and "n \<le> 65535"
  shows "ring_ok n (pf_alarm_queue_accountant_reset a)"
    and "ring xs (pf_alarm_queue_accountant_reset a) = []"
  using assms by (simp_all add: ring_ok_def ring_def pf_alarm_queue_accountant_reset_def)

text \<open>C21. Over any history of posts and fetches an available alarm send queue hands out the alarms
  that it accepted, in order, none twice and none lost, and it never holds more than
  \<^verbatim>\<open>PNET_MAX_ALARMS\<close>. The same for the queue of received frames.\<close>

theorem alarm_queues_fifo:
  assumes "send_ok s"
    and "queue_run pf_alarm_send_queue_post pf_alarm_send_queue_fetch d ops s = (ins, outs, s')"
    and "receive_ok r"
    and "queue_run pf_alarm_receive_queue_post pf_alarm_receive_queue_fetch e rops r =
      (rins, routs, r')"
  shows "ring (sq_items s) (sq_accountant s) @ ins = outs @ ring (sq_items s') (sq_accountant s') \<and>
    unat (q_count (sq_accountant s')) \<le> length (sq_items s) \<and>
    ring (rq_items r) (rq_accountant r) @ rins = routs @ ring (rq_items r') (rq_accountant r') \<and>
    unat (q_count (rq_accountant r')) \<le> length (rq_items r)"
  using send_q.run_fifo [OF assms(1,2)] receive_q.run_fifo [OF assms(3,4)]
  by (simp add: ring_ok_def)

definition demo_send_queue :: pf_alarm_send_queue where
  "demo_send_queue = \<lparr>sq_accountant = \<lparr>q_write_index = 1, q_read_index = 1, q_count = 0,
     q_mutex = True\<rparr>, sq_items = [zero_alarm_data, zero_alarm_data]\<rparr>"

definition demo_receive_queue :: pf_alarm_receive_queue where
  "demo_receive_queue = \<lparr>rq_accountant = \<lparr>q_write_index = 0, q_read_index = 0, q_count = 0,
     q_mutex = True\<rparr>, rq_items = [\<lparr>frame_id_pos = 0, p_rx_buf = None\<rparr>]\<rparr>"

theorem alarm_queues_fifo_witness:
  "case queue_run pf_alarm_send_queue_post pf_alarm_send_queue_fetch zero_alarm_data
      [Post (zero_alarm_data\<lparr>ad_api_id := 7\<rparr>), Fetch, Fetch] demo_send_queue of (ins, outs, s') \<Rightarrow>
    ins = outs @ ring (sq_items s') (sq_accountant s')"
proof -
  have ok: "send_ok demo_send_queue" "receive_ok demo_receive_queue"
    by (simp_all add: demo_send_queue_def demo_receive_queue_def ring_ok_def)
  have "ring (sq_items demo_send_queue) (sq_accountant demo_send_queue) = []"
    by (simp add: demo_send_queue_def ring_def)
  moreover obtain ins outs s' where run: "queue_run pf_alarm_send_queue_post
      pf_alarm_send_queue_fetch zero_alarm_data
      [Post (zero_alarm_data\<lparr>ad_api_id := 7\<rparr>), Fetch, Fetch] demo_send_queue = (ins, outs, s')"
    by (metis prod_cases3)
  ultimately show ?thesis
    using alarm_queues_fifo [OF ok(1) run ok(2), of "\<lparr>frame_id_pos = 0, p_rx_buf = None\<rparr>" "[]"] by simp
qed

end
