(* ===== verification/Pn_Eth.thy ===== *)
theory Pn_Eth
  imports Pn_Types
begin

text \<open>
  The dispatch of received Ethernet frames, \<^verbatim>\<open>src/common/pf_eth.c\<close>: the map from frame IDs to
  handlers and the search for the frame ID behind any VLAN tags. A handler (the function pointer
  with its argument) is a value of a type \<open>'h\<close> of the caller. Interfaces and ports are not
  modelled.
\<close>

record 'h eth_id_map_entry =
  em_in_use :: bool
  em_frame_id :: u16
  em_handler :: 'h

type_synonym 'h eth_id_map = "'h eth_id_map_entry list"

section \<open>The map of frame IDs\<close>

definition frame_id_matches :: "u16 \<Rightarrow> 'h eth_id_map_entry \<Rightarrow> bool" where
  "frame_id_matches i e \<longleftrightarrow> em_in_use e \<and> em_frame_id e = i"

definition pf_eth_frame_id_map_add :: "'h eth_id_map \<Rightarrow> u16 \<Rightarrow> 'h \<Rightarrow> 'h eth_id_map" where
  "pf_eth_frame_id_map_add m i h =
     (let ix = index_where (\<lambda>e. \<not> em_in_use e) m in
      if ix < length m
      then m[ix := (m ! ix)\<lparr>em_frame_id := i, em_handler := h, em_in_use := True\<rparr>]
      else m)"

definition pf_eth_frame_id_map_remove :: "'h eth_id_map \<Rightarrow> u16 \<Rightarrow> 'h eth_id_map" where
  "pf_eth_frame_id_map_remove m i =
     (let ix = index_where (frame_id_matches i) m in
      if ix < length m then m[ix := (m ! ix)\<lparr>em_in_use := False\<rparr>] else m)"

definition frame_handler :: "'h eth_id_map \<Rightarrow> u16 \<Rightarrow> 'h option" where
  "frame_handler m i =
     (let ix = index_where (frame_id_matches i) m in
      if ix < length m then Some (em_handler (m ! ix)) else None)"

section \<open>Receiving a frame\<close>

definition PNAL_ETHTYPE_VLAN :: u16 where "PNAL_ETHTYPE_VLAN = 33024"
definition PNAL_ETHTYPE_PROFINET :: u16 where "PNAL_ETHTYPE_PROFINET = 34962"
definition PNAL_ETHTYPE_LLDP :: u16 where "PNAL_ETHTYPE_LLDP = 35020"

lemmas ethtype_defs = PNAL_ETHTYPE_VLAN_def PNAL_ETHTYPE_PROFINET_def PNAL_ETHTYPE_LLDP_def

text \<open>A 16-bit big-endian value of the frame; reading behind the buffer is \<open>None\<close>.\<close>

definition be16_at :: "u8 list \<Rightarrow> nat \<Rightarrow> u16 option" where
  "be16_at bs p = (if p + 2 \<le> length bs
     then Some (push_bit 8 (ucast (bs ! p)) OR ucast (bs ! Suc p)) else None)"

text \<open>
  The loop over the VLAN tags. \<open>bs\<close> is the memory of the buffer, whose size is less than 65536,
  so that the 16-bit position does not wrap before the memory ends.
\<close>

function skip_vlan :: "u8 list \<Rightarrow> nat \<Rightarrow> (u16 \<times> nat) option" where
  "skip_vlan bs p =
     (case be16_at bs p of
        None \<Rightarrow> None
      | Some t \<Rightarrow> if t = PNAL_ETHTYPE_VLAN then skip_vlan bs (p + 4) else Some (t, p))"
  by pat_completeness auto
termination
  by (relation "measure (\<lambda>(bs, p). length bs - p)") (auto simp: be16_at_def split: if_splits)

declare skip_vlan.simps [simp del]

text \<open>
  What the frame is given to: a handler with the frame ID and its position, or LLDP, or nothing.
\<close>

datatype 'h eth_dispatch = To_handler 'h u16 nat | To_lldp nat | Not_handled

definition pf_eth_recv :: "'h eth_id_map \<Rightarrow> u8 list \<Rightarrow> 'h eth_dispatch option" where
  "pf_eth_recv m bs = do {
     (eth_type, eth_type_pos) \<leftarrow> skip_vlan bs 12;
     let frame_pos = eth_type_pos + 2;
     if eth_type = PNAL_ETHTYPE_PROFINET
     then do {
       frame_id \<leftarrow> be16_at bs frame_pos;
       Some (case frame_handler m frame_id of
               Some h \<Rightarrow> To_handler h frame_id frame_pos | None \<Rightarrow> Not_handled) }
     else if eth_type = PNAL_ETHTYPE_LLDP then Some (To_lldp frame_pos)
     else Some Not_handled }"

section \<open>The map of frame IDs as a finite map\<close>

text \<open>
  The entries in use have different frame IDs; then the map is a finite map.
\<close>

definition map_ok :: "'h eth_id_map \<Rightarrow> bool" where
  "map_ok m \<longleftrightarrow> (\<forall>i < length m. \<forall>j < length m. em_in_use (m ! i) \<longrightarrow> em_in_use (m ! j) \<longrightarrow>
     em_frame_id (m ! i) = em_frame_id (m ! j) \<longrightarrow> i = j)"

lemma frame_handler_Some:
  assumes "map_ok m"
  shows "frame_handler m i = Some h \<longleftrightarrow>
    (\<exists>k < length m. frame_id_matches i (m ! k) \<and> em_handler (m ! k) = h)"
proof
  assume "frame_handler m i = Some h"
  then show "\<exists>k < length m. frame_id_matches i (m ! k) \<and> em_handler (m ! k) = h"
    using index_where_sat [of "frame_id_matches i" m]
    by (auto simp: frame_handler_def Let_def split: if_splits)
next
  assume "\<exists>k < length m. frame_id_matches i (m ! k) \<and> em_handler (m ! k) = h"
  then obtain k where k: "k < length m" "frame_id_matches i (m ! k)" "em_handler (m ! k) = h"
    by blast
  have "\<not> frame_id_matches i (m ! j)" if "j < k" for j
    using assms k that unfolding map_ok_def frame_id_matches_def
    by (metis less_trans nat_less_le)
  then have "index_where (frame_id_matches i) m = k" using k by (intro index_where_eqI) auto
  then show "frame_handler m i = Some h" using k by (simp add: frame_handler_def Let_def)
qed

lemma frame_handler_None:
  "frame_handler m i = None \<longleftrightarrow> (\<forall>e \<in> set m. \<not> frame_id_matches i e)"
  using index_where_found [of "frame_id_matches i" m] by (auto simp: frame_handler_def Let_def)

lemma frame_handler_eqI:
  assumes "map_ok m" and "\<And>h. f = Some h \<longleftrightarrow>
    (\<exists>k < length m. frame_id_matches i (m ! k) \<and> em_handler (m ! k) = h)"
  shows "frame_handler m i = f"
proof (cases f)
  case (Some h)
  then show ?thesis using assms frame_handler_Some [OF assms(1)] by blast
next
  case None
  then show ?thesis using assms(2) frame_handler_Some [OF assms(1), of i]
    by (metis not_None_eq option.distinct(1))
qed

lemma add_map:
  assumes "map_ok m" and "frame_handler m i = None" and "\<exists>e \<in> set m. \<not> em_in_use e"
  shows "map_ok (pf_eth_frame_id_map_add m i h)"
    and "frame_handler (pf_eth_frame_id_map_add m i h) = (frame_handler m)(i \<mapsto> h)"
proof -
  define ix where "ix = index_where (\<lambda>e. \<not> em_in_use e) m"
  have ix: "ix < length m" "\<not> em_in_use (m ! ix)"
    using assms(3) index_where_found [of "\<lambda>e. \<not> em_in_use e" m]
      index_where_sat [of "\<lambda>e. \<not> em_in_use e" m] by (simp_all add: ix_def)
  define m' where "m' = m[ix := (m ! ix)\<lparr>em_frame_id := i, em_handler := h, em_in_use := True\<rparr>]"
  have m': "pf_eth_frame_id_map_add m i h = m'"
    using ix by (simp add: pf_eth_frame_id_map_add_def m'_def Let_def ix_def [symmetric])
  have no: "k < length m \<Longrightarrow> em_in_use (m ! k) \<Longrightarrow> em_frame_id (m ! k) \<noteq> i" for k
    using assms(2) by (auto simp: frame_handler_None frame_id_matches_def)
  have ok: "map_ok m'" using assms(1) ix no
    by (auto simp: map_ok_def m'_def nth_list_update_if split: if_splits)
  then show "map_ok (pf_eth_frame_id_map_add m i h)" by (simp add: m')
  have "frame_handler m' j = ((frame_handler m)(i \<mapsto> h)) j" for j
  proof (rule frame_handler_eqI [OF ok])
    fix g
    show "((frame_handler m)(i \<mapsto> h)) j = Some g \<longleftrightarrow>
      (\<exists>k < length m'. frame_id_matches j (m' ! k) \<and> em_handler (m' ! k) = g)"
    proof (cases "j = i")
      case True
      then show ?thesis using ix no
        by (auto simp: m'_def nth_list_update_if frame_id_matches_def split: if_splits)
    next
      case False
      then have "((frame_handler m)(i \<mapsto> h)) j = Some g \<longleftrightarrow>
        (\<exists>k < length m. frame_id_matches j (m ! k) \<and> em_handler (m ! k) = g)"
        using frame_handler_Some [OF assms(1), of j g] by simp
      also have "\<dots> \<longleftrightarrow> (\<exists>k < length m'. frame_id_matches j (m' ! k) \<and> em_handler (m' ! k) = g)"
        using False ix by (auto simp: m'_def nth_list_update_if frame_id_matches_def split: if_splits)
      finally show ?thesis .
    qed
  qed
  then show "frame_handler (pf_eth_frame_id_map_add m i h) = (frame_handler m)(i \<mapsto> h)"
    by (auto simp: m')
qed

lemma remove_map:
  assumes "map_ok m"
  shows "map_ok (pf_eth_frame_id_map_remove m i)"
    and "frame_handler (pf_eth_frame_id_map_remove m i) = (frame_handler m)(i := None)"
proof -
  define ix where "ix = index_where (frame_id_matches i) m"
  define m' where "m' = pf_eth_frame_id_map_remove m i"
  have eq: "m' = (if ix < length m then m[ix := (m ! ix)\<lparr>em_in_use := False\<rparr>] else m)"
    by (simp add: m'_def pf_eth_frame_id_map_remove_def ix_def Let_def)
  have at: "k = ix \<and> ix < length m" if "k < length m" "frame_id_matches i (m ! k)" for k
  proof -
    have "ix < length m" unfolding ix_def index_where_found using that by auto
    moreover from this have "frame_id_matches i (m ! ix)"
      unfolding ix_def by (rule index_where_sat)
    ultimately show ?thesis
      using that assms unfolding map_ok_def frame_id_matches_def by blast
  qed
  have use': "em_in_use (m' ! k) \<longleftrightarrow> em_in_use (m ! k) \<and> \<not> frame_id_matches i (m ! k)"
    "em_frame_id (m' ! k) = em_frame_id (m ! k)" "em_handler (m' ! k) = em_handler (m ! k)"
    if "k < length m" for k
  proof -
    have sat: "ix < length m \<Longrightarrow> frame_id_matches i (m ! ix)"
      unfolding ix_def by (rule index_where_sat)
    then show "em_in_use (m' ! k) \<longleftrightarrow> em_in_use (m ! k) \<and> \<not> frame_id_matches i (m ! k)"
      using at [OF that] that
      by (cases "k = ix") (simp_all add: eq nth_list_update_if, auto simp: frame_id_matches_def)
    show "em_frame_id (m' ! k) = em_frame_id (m ! k)" "em_handler (m' ! k) = em_handler (m ! k)"
      by (simp_all add: eq nth_list_update_if)
  qed
  have len: "length m' = length m" by (simp add: eq)
  have ok: "map_ok m'"
    unfolding map_ok_def len
  proof (intro allI impI)
    fix k l
    assume "k < length m" "l < length m" "em_in_use (m' ! k)" "em_in_use (m' ! l)"
      "em_frame_id (m' ! k) = em_frame_id (m' ! l)"
    then show "k = l"
      using assms use'(1) [of k] use'(1) [of l] use'(2) [of k] use'(2) [of l]
      unfolding map_ok_def by simp
  qed
  then show "map_ok (pf_eth_frame_id_map_remove m i)" by (simp add: m'_def)
  have "frame_handler m' j = ((frame_handler m)(i := None)) j" for j
  proof (rule frame_handler_eqI [OF ok])
    fix g
    have "(\<exists>k < length m'. frame_id_matches j (m' ! k) \<and> em_handler (m' ! k) = g) \<longleftrightarrow>
      j \<noteq> i \<and> (\<exists>k < length m. frame_id_matches j (m ! k) \<and> em_handler (m ! k) = g)"
    proof -
      have "frame_id_matches j (m' ! k) \<longleftrightarrow> j \<noteq> i \<and> frame_id_matches j (m ! k)"
        if "k < length m" for k
        using use'(1,2) [OF that] by (auto simp: frame_id_matches_def)
      then show ?thesis unfolding len using use'(3) by metis
    qed
    then show "((frame_handler m)(i := None)) j = Some g \<longleftrightarrow>
      (\<exists>k < length m'. frame_id_matches j (m' ! k) \<and> em_handler (m' ! k) = g)"
      using frame_handler_Some [OF assms, of j g] by auto
  qed
  then show "frame_handler (pf_eth_frame_id_map_remove m i) = (frame_handler m)(i := None)"
    by (auto simp: m'_def)
qed

section \<open>Frames\<close>

text \<open>A frame: the two MAC addresses, VLAN tags with their contents, the Ethernet type, the rest.\<close>

definition vlan_tags :: "(u8 \<times> u8) list \<Rightarrow> u8 list" where
  "vlan_tags ts = concat (map (\<lambda>(a, b). [0x81, 0, a, b]) ts)"

definition frame_bytes :: "u8 list \<Rightarrow> (u8 \<times> u8) list \<Rightarrow> u8 \<Rightarrow> u8 \<Rightarrow> u8 list \<Rightarrow> u8 list" where
  "frame_bytes addrs ts t1 t0 rest = addrs @ vlan_tags ts @ [t1, t0] @ rest"

abbreviation word16 :: "u8 \<Rightarrow> u8 \<Rightarrow> u16" where
  "word16 h l \<equiv> push_bit 8 (ucast h) OR ucast l"

lemma length_vlan_tags [simp]: "length (vlan_tags ts) = 4 * length ts"
  by (induction ts) (auto simp: vlan_tags_def)

lemma be16_at_append: "be16_at (xs @ h # l # ys) (length xs) = Some (word16 h l)"
  by (simp add: be16_at_def nth_append)

lemma skip_tags:
  "skip_vlan (xs @ vlan_tags ts @ ys) (length xs) =
     skip_vlan (xs @ vlan_tags ts @ ys) (length xs + 4 * length ts)"
proof (induction ts arbitrary: xs)
  case (Cons t ts)
  obtain a b where t: "t = (a, b)" by fastforce
  let ?bs = "xs @ vlan_tags (t # ts) @ ys"
  have bs: "?bs = xs @ 0x81 # 0 # a # b # vlan_tags ts @ ys" by (simp add: vlan_tags_def t)
  have "be16_at ?bs (length xs) = Some PNAL_ETHTYPE_VLAN"
    unfolding bs be16_at_append by (simp add: ethtype_defs)
  then have "skip_vlan ?bs (length xs) = skip_vlan ?bs (length xs + 4)"
    by (subst skip_vlan.simps) simp
  also have "\<dots> = skip_vlan ?bs (length xs + 4 + 4 * length ts)"
  proof -
    have "?bs = (xs @ [0x81, 0, a, b]) @ vlan_tags ts @ ys"
      and "length (xs @ [0x81, 0, a, b]) = length xs + 4" by (simp_all add: bs)
    then show ?thesis using Cons.IH [of "xs @ [0x81, 0, a, b]"] by metis
  qed
  finally show ?case by (simp add: add.assoc)
qed (simp add: vlan_tags_def)

lemma skip_vlan_frame:
  assumes "length addrs = 12" and "word16 t1 t0 \<noteq> PNAL_ETHTYPE_VLAN"
  shows "skip_vlan (frame_bytes addrs ts t1 t0 rest) 12 = Some (word16 t1 t0, 12 + 4 * length ts)"
proof -
  have "be16_at (frame_bytes addrs ts t1 t0 rest) (12 + 4 * length ts) = Some (word16 t1 t0)"
    using be16_at_append [of "addrs @ vlan_tags ts" t1 t0 rest] assms(1)
    by (simp add: frame_bytes_def)
  then show ?thesis
    using skip_tags [of addrs ts "[t1, t0] @ rest"] assms
    by (simp add: frame_bytes_def skip_vlan.simps [of _ "12 + 4 * length ts"])
qed

lemma recv_profinet:
  assumes "length addrs = 12"
  shows "pf_eth_recv m (frame_bytes addrs ts 0x88 0x92 (h # l # rest)) =
    Some (case frame_handler m (word16 h l) of
      Some g \<Rightarrow> To_handler g (word16 h l) (14 + 4 * length ts) | None \<Rightarrow> Not_handled)"
proof -
  have ty: "word16 0x88 0x92 = PNAL_ETHTYPE_PROFINET" "PNAL_ETHTYPE_PROFINET \<noteq> PNAL_ETHTYPE_VLAN"
    by (simp_all add: ethtype_defs)
  have "be16_at (frame_bytes addrs ts 0x88 0x92 (h # l # rest)) (12 + 4 * length ts + 2) =
      Some (word16 h l)"
    using be16_at_append [of "addrs @ vlan_tags ts @ [0x88, 0x92]" h l rest] assms
    by (simp add: frame_bytes_def add.commute)
  moreover have "skip_vlan (frame_bytes addrs ts 0x88 0x92 (h # l # rest)) 12 =
      Some (PNAL_ETHTYPE_PROFINET, 12 + 4 * length ts)"
    using skip_vlan_frame [OF assms, of "0x88" "0x92" ts "h # l # rest"] ty by simp
  ultimately show ?thesis by (auto simp: pf_eth_recv_def split: option.split)
qed

section \<open>Properties\<close>

text \<open>C22. A Profinet frame reaches the handler that was registered for its frame ID, with the
  position of the frame ID, however many VLAN tags it has; registering one frame ID does not change
  where the others go, and after its removal the frame ID reaches no handler.\<close>

theorem pf_eth_recv_dispatch:
  assumes "map_ok m" and "frame_handler m i = None" and "\<exists>e \<in> set m. \<not> em_in_use e"
    and "length addrs = 12" and "m' = pf_eth_frame_id_map_add m i g"
  shows "pf_eth_recv m' (frame_bytes addrs ts 0x88 0x92 (h # l # rest)) =
      (if word16 h l = i then Some (To_handler g i (14 + 4 * length ts))
       else pf_eth_recv m (frame_bytes addrs ts 0x88 0x92 (h # l # rest))) \<and>
    pf_eth_recv (pf_eth_frame_id_map_remove m' i) (frame_bytes addrs ts 0x88 0x92 (h # l # rest)) =
      pf_eth_recv m (frame_bytes addrs ts 0x88 0x92 (h # l # rest)) \<and>
    map_ok m' \<and> map_ok (pf_eth_frame_id_map_remove m' i)"
  using add_map [OF assms(1-3), of g] remove_map [of m' i] assms(2)
  by (simp add: assms(5) recv_profinet [OF assms(4)])

theorem pf_eth_recv_dispatch_witness:
  "pf_eth_recv (pf_eth_frame_id_map_add [\<lparr>em_in_use = False, em_frame_id = 0, em_handler = (0 :: nat)\<rparr>]
     0xFC01 7) (frame_bytes (replicate 12 1) [(0xC0, 0)] 0x88 0x92 [0xFC, 1, 9]) =
   Some (To_handler 7 0xFC01 18)"
  using pf_eth_recv_dispatch [of "[\<lparr>em_in_use = False, em_frame_id = 0, em_handler = (0 :: nat)\<rparr>]"
      "0xFC01" "replicate 12 1" _ 7 "[(0xC0, 0)]" "0xFC" 1 "[9]"]
  by (simp add: map_ok_def frame_handler_None frame_id_matches_def)

text \<open>C23. A frame that holds nothing but VLAN tags to the end of its buffer makes the receive
  function read behind the buffer: the loop over the tags does not look at the length.\<close>

theorem pf_eth_recv_overrun:
  assumes "length addrs = 12" and "length rest < 2"
  shows "pf_eth_recv m (addrs @ vlan_tags ts @ rest) = None"
proof -
  have "be16_at (addrs @ vlan_tags ts @ rest) (12 + 4 * length ts) = None"
    using assms by (simp add: be16_at_def)
  then have "skip_vlan (addrs @ vlan_tags ts @ rest) 12 = None"
    using skip_tags [of addrs ts rest] assms(1)
    by (simp add: skip_vlan.simps [of _ "12 + 4 * length ts"])
  then show ?thesis by (simp add: pf_eth_recv_def)
qed

theorem pf_eth_recv_overrun_witness:
  "pf_eth_recv ([] :: nat eth_id_map) (replicate 12 1 @ vlan_tags (replicate 370 (0, 0)) @ []) = None"
  using pf_eth_recv_overrun [of "replicate 12 1" "[]"] by simp

end
