(* ===== verification/Pn_Block_Reader.thy ===== *)
theory Pn_Block_Reader
  imports Pn_Types "HOL-Library.State_Monad"
begin

text \<open>
  The functions of \<^verbatim>\<open>src/device/pf_block_reader.c\<close>, which take the fields of the
  Profinet blocks out of a received frame. A C function with the parser state
  \<^verbatim>\<open>p_info\<close> and the position \<^verbatim>\<open>p_pos\<close> is a computation of the state monad over the
  record \<open>rd\<close>; a structure that it fills in is an argument and a result. Where C would read or
  write outside an array the ghost flag \<open>rd_fault\<close> is raised, and nothing is written.
\<close>

section \<open>The parser state\<close>

datatype pf_get_result =
    PF_PARSE_OK
  | PF_PARSE_NULL_POINTER
  | PF_PARSE_END_OF_INPUT
  | PF_PARSE_OUT_OF_API_RESOURCES
  | PF_PARSE_OUT_OF_EXP_SUBMODULE_RESOURCES
  | PF_PARSE_ERROR

record pf_get_info =
  result :: pf_get_result
  is_big_endian :: bool
  p_buf :: "u8 list option"
  buf_len :: u16

record rd = pf_get_info +
  rd_pos :: u16
  rd_fault :: bool

type_synonym 'a rdm = "(rd, 'a) state"

definition rd_return :: "'a \<Rightarrow> 'a rdm" where
  "rd_return x = State_Monad.return x"

definition set_result :: "pf_get_result \<Rightarrow> unit rdm" where
  "set_result r = State (\<lambda>s. ((), s\<lparr>result := r\<rparr>))"

definition set_endian :: "bool \<Rightarrow> unit rdm" where
  "set_endian b = State (\<lambda>s. ((), s\<lparr>is_big_endian := b\<rparr>))"

definition get_endian :: "bool rdm" where
  "get_endian = State (\<lambda>s. (is_big_endian s, s))"

definition get_result :: "pf_get_result rdm" where
  "get_result = State (\<lambda>s. (result s, s))"

definition fault :: "'a \<Rightarrow> 'a rdm" where
  "fault x = State (\<lambda>s. (x, s\<lparr>rd_fault := True\<rparr>))"

text \<open>Work on element \<open>i\<close> of an array; a loop with the index running up from \<open>i\<close>.\<close>

definition on_elem :: "'a list \<Rightarrow> nat \<Rightarrow> ('a \<Rightarrow> 'a rdm) \<Rightarrow> 'a list rdm" where
  "on_elem xs i f =
     (if i < length xs
      then do { x \<leftarrow> f (xs ! i); rd_return (xs[i := x]) }
      else fault xs)"

fun for_rdm :: "nat \<Rightarrow> nat \<Rightarrow> (nat \<Rightarrow> 'b \<Rightarrow> 'b rdm) \<Rightarrow> 'b \<Rightarrow> 'b rdm" where
  "for_rdm 0 i f x = rd_return x"
| "for_rdm (Suc n) i f x = do { y \<leftarrow> f i x; for_rdm n (Suc i) f y }"

section \<open>Bytes, integers, UUIDs and bits\<close>

definition pf_get_mem :: "u16 \<Rightarrow> u8 list \<Rightarrow> u8 list rdm" where
  "pf_get_mem dest_size p_dest = State (\<lambda>s.
     if result s \<noteq> PF_PARSE_OK then (p_dest, s)
     else if unat (rd_pos s) + unat dest_size > unat (buf_len s)
     then (p_dest, s\<lparr>result := PF_PARSE_END_OF_INPUT\<rparr>)
     else case p_buf s of
       None \<Rightarrow> (p_dest, s\<lparr>result := PF_PARSE_NULL_POINTER\<rparr>)
     | Some b \<Rightarrow>
         if unat (rd_pos s) + unat dest_size \<le> length b \<and> unat dest_size \<le> length p_dest
         then (take (unat dest_size) (drop (unat (rd_pos s)) b) @ drop (unat dest_size) p_dest,
               s\<lparr>rd_pos := rd_pos s + dest_size\<rparr>)
         else (p_dest, s\<lparr>rd_fault := True\<rparr>))"

definition pf_get_byte :: "u8 rdm" where
  "pf_get_byte = State (\<lambda>s.
     if result s \<noteq> PF_PARSE_OK then (0, s)
     else if rd_pos s \<ge> buf_len s then (0, s\<lparr>result := PF_PARSE_END_OF_INPUT\<rparr>)
     else case p_buf s of
       None \<Rightarrow> (0, s\<lparr>result := PF_PARSE_NULL_POINTER\<rparr>)
     | Some b \<Rightarrow>
         if unat (rd_pos s) < length b
         then (b ! unat (rd_pos s), s\<lparr>rd_pos := rd_pos s + 1\<rparr>)
         else (0, s\<lparr>rd_fault := True\<rparr>))"

text \<open>
  C leaves the order of the calls in one expression open; it is from left to right here.
\<close>

definition pf_get_uint16 :: "u16 rdm" where
  "pf_get_uint16 = do {
     r \<leftarrow> get_result;
     if r \<noteq> PF_PARSE_OK then rd_return 0
     else do {
       be \<leftarrow> get_endian;
       a \<leftarrow> pf_get_byte; b \<leftarrow> pf_get_byte;
       rd_return (if be then push_bit 8 (ucast a) + ucast b else ucast a + push_bit 8 (ucast b)) } }"

definition pf_get_uint32 :: "u32 rdm" where
  "pf_get_uint32 = do {
     be \<leftarrow> get_endian;
     a \<leftarrow> pf_get_byte; b \<leftarrow> pf_get_byte; c \<leftarrow> pf_get_byte; d \<leftarrow> pf_get_byte;
     rd_return (if be
       then push_bit 24 (ucast a) + push_bit 16 (ucast b) + push_bit 8 (ucast c) + ucast d
       else ucast a + push_bit 8 (ucast b) + push_bit 16 (ucast c) + push_bit 24 (ucast d)) }"

definition pf_get_uuid :: "pf_uuid \<Rightarrow> pf_uuid rdm" where
  "pf_get_uuid p_dest = do {
     d1 \<leftarrow> pf_get_uint32;
     d2 \<leftarrow> pf_get_uint16;
     d3 \<leftarrow> pf_get_uint16;
     d4 \<leftarrow> pf_get_mem 8 (data4 p_dest);
     rd_return \<lparr>data1 = d1, data2 = d2, data3 = d3, data4 = d4\<rparr> }"

definition pf_get_handle :: "pf_rpc_handle \<Rightarrow> pf_rpc_handle rdm" where
  "pf_get_handle p_handle = do {
     h \<leftarrow> pf_get_uint32;
     tl \<leftarrow> pf_get_uint32;
     tm \<leftarrow> pf_get_uint16;
     th \<leftarrow> pf_get_uint16;
     ch \<leftarrow> pf_get_byte;
     cl \<leftarrow> pf_get_byte;
     n \<leftarrow> pf_get_mem 6 (node (handle_uuid p_handle));
     rd_return \<lparr>rpc_entry_handle = h,
       handle_uuid = \<lparr>time_low = tl, time_mid = tm, time_hi_and_version = th,
                      clock_hi_and_reserved = ch, clock_low = cl, node = n\<rparr>\<rparr> }"

definition pf_get_bits :: "u32 \<Rightarrow> u8 \<Rightarrow> u8 \<Rightarrow> u32" where
  "pf_get_bits bits pos len =
     (if len = 0 then 0
      else if uint pos + uint len > 32 then 0
      else if pos = 0 \<and> len = 32 then bits
      else drop_bit (unat pos) bits AND (push_bit (unat len) 1 - 1))"

abbreviation get_flag :: "u32 \<Rightarrow> u8 \<Rightarrow> bool" where
  "get_flag bits pos \<equiv> pf_get_bits bits pos 1 \<noteq> 0"

section \<open>The parts of the connect request\<close>

definition pf_get_frame_descriptor :: "pf_frame_descriptor rdm" where
  "pf_get_frame_descriptor = do {
     s \<leftarrow> pf_get_uint16; u \<leftarrow> pf_get_uint16; f \<leftarrow> pf_get_uint16;
     rd_return \<lparr>fd_slot_number = s, fd_subslot_number = u, frame_offset = f\<rparr> }"

definition pf_get_iocr_api_entry :: "pf_api_entry \<Rightarrow> pf_api_entry rdm" where
  "pf_get_iocr_api_entry p_ae = do {
     a \<leftarrow> pf_get_uint32;
     nd \<leftarrow> pf_get_uint16;
     ds \<leftarrow> for_rdm (unat nd) 0 (\<lambda>ix ds. on_elem ds ix (\<lambda>_. pf_get_frame_descriptor)) (io_data p_ae);
     nc \<leftarrow> pf_get_uint16;
     cs \<leftarrow> for_rdm (unat nc) 0 (\<lambda>ix cs. on_elem cs ix (\<lambda>_. pf_get_frame_descriptor)) (iocs p_ae);
     rd_return \<lparr>ae_api = a, nbr_io_data = nd, io_data = ds, nbr_iocs = nc, iocs = cs\<rparr> }"

definition PNET_DIR_IO :: u8 where "PNET_DIR_IO = 3"

definition pf_get_data_descriptor :: "pf_data_descriptor rdm" where
  "pf_get_data_descriptor = do {
     dir \<leftarrow> pf_get_uint16; len \<leftarrow> pf_get_uint16; c \<leftarrow> pf_get_byte; p \<leftarrow> pf_get_byte;
     rd_return \<lparr>data_direction = dir, submodule_data_length = len, length_iops = p, length_iocs = c\<rparr> }"

definition pf_get_exp_submodule :: "pf_exp_submodule \<Rightarrow> pf_exp_submodule rdm" where
  "pf_get_exp_submodule p_sub = do {
     u \<leftarrow> pf_get_uint16;
     i \<leftarrow> pf_get_uint32;
     temp \<leftarrow> pf_get_uint16;
     let t = ucast (pf_get_bits (ucast temp) 0 2);
     ds \<leftarrow> on_elem (data_descriptor p_sub) 0 (\<lambda>_. pf_get_data_descriptor);
     (n, ds) \<leftarrow> (if t = PNET_DIR_IO
        then do { ds \<leftarrow> on_elem ds 1 (\<lambda>_. pf_get_data_descriptor); rd_return (2, ds) }
        else rd_return (1, ds));
     rd_return \<lparr>subslot_number = u, submodule_ident_number = i,
       submodule_properties = \<lparr>submodule_type = t,
         sharedInput = get_flag (ucast temp) 2,
         reduce_input_submodule_data_length = get_flag (ucast temp) 3,
         reduce_output_submodule_data_length = get_flag (ucast temp) 4,
         discard_ioxs = get_flag (ucast temp) 5\<rparr>,
       nbr_data_descriptors = n, data_descriptor = ds\<rparr> }"

definition pf_get_block_header :: "pf_block_header rdm" where
  "pf_get_block_header = do {
     t \<leftarrow> pf_get_uint16; l \<leftarrow> pf_get_uint16; h \<leftarrow> pf_get_byte; w \<leftarrow> pf_get_byte;
     rd_return \<lparr>block_type = t, block_length = l, block_version_high = h, block_version_low = w\<rparr> }"

definition ar_properties_of_bits :: "u32 \<Rightarrow> pf_ar_properties" where
  "ar_properties_of_bits t =
     \<lparr>arp_state = ucast (pf_get_bits t 0 3),
      supervisor_takeover_allowed = get_flag t 3,
      parameterization_server = ucast (pf_get_bits t 4 1),
      device_access = get_flag t 8,
      companion_ar = ucast (pf_get_bits t 9 2),
      acknowledge_companion_ar = get_flag t 11,
      combined_object_container = get_flag t 29,
      startup_mode = get_flag t 30,
      pull_module_alarm_allowed = get_flag t 31\<rparr>"

text \<open>Store the terminating zero of a character array of the size of the list.\<close>

definition terminate_at :: "u8 list \<Rightarrow> nat \<Rightarrow> u8 list rdm" where
  "terminate_at xs i = on_elem xs i (\<lambda>_. rd_return 0)"

text \<open>\<open>name_size\<close> is \<^verbatim>\<open>sizeof (p_ar->ar_param.cm_initiator_station_name)\<close>.\<close>

definition pf_get_ar_param :: "pf_ar \<Rightarrow> pf_ar rdm" where
  "pf_get_ar_param p_ar = do {
     let old = ar_param p_ar;
     ty \<leftarrow> pf_get_uint16;
     uu \<leftarrow> pf_get_uuid (arp_ar_uuid old);
     key \<leftarrow> pf_get_uint16;
     mac \<leftarrow> pf_get_mem 6 (cm_initiator_mac_add old);
     ob \<leftarrow> pf_get_uuid (cm_initiator_object_uuid old);
     temp \<leftarrow> pf_get_uint32;
     tof \<leftarrow> pf_get_uint16;
     port \<leftarrow> pf_get_uint16;
     str_len \<leftarrow> pf_get_uint16;
     let name_size = length (cm_initiator_station_name old);
     let n = (if unat str_len > name_size - 1 then of_nat (name_size - 1) else str_len);
     nm \<leftarrow> pf_get_mem n (cm_initiator_station_name old);
     nm \<leftarrow> terminate_at nm (unat n);
     rd_return (p_ar\<lparr>ar_param := old\<lparr>
       ar_type := ty, arp_ar_uuid := uu, session_key := key,
       cm_initiator_mac_add := mac, cm_initiator_object_uuid := ob,
       ar_properties := ar_properties_of_bits temp,
       cm_initiator_activity_timeout_factor := tof, cm_initiator_udp_rt_port := port,
       cm_initiator_station_name_len := str_len, cm_initiator_station_name := nm\<rparr>\<rparr>) }"

definition pf_get_iocr_param_body :: "pf_iocr_param \<Rightarrow> pf_iocr_param rdm" where
  "pf_get_iocr_param_body old = do {
     ty \<leftarrow> pf_get_uint16;
     ref \<leftarrow> pf_get_uint16;
     lt \<leftarrow> pf_get_uint16;
     t32 \<leftarrow> pf_get_uint32;
     csdu \<leftarrow> pf_get_uint16;
     fid \<leftarrow> pf_get_uint16;
     scf \<leftarrow> pf_get_uint16;
     rr \<leftarrow> pf_get_uint16;
     ph \<leftarrow> pf_get_uint16;
     sq \<leftarrow> pf_get_uint16;
     fso \<leftarrow> pf_get_uint32;
     wd \<leftarrow> pf_get_uint16;
     dh \<leftarrow> pf_get_uint16;
     t16 \<leftarrow> pf_get_uint16;
     mac \<leftarrow> pf_get_mem 6 (iocr_multicast_mac_add old);
     na \<leftarrow> pf_get_uint16;
     as \<leftarrow> for_rdm (unat na) 0 (\<lambda>iy as. on_elem as iy pf_get_iocr_api_entry) (apis old);
     rd_return \<lparr>iocrp_valid = iocrp_valid old,
       iocr_type = ty, iocr_reference = ref, lt_field = lt,
       iocr_properties = \<lparr>rt_class = pf_get_bits t32 0 4,
         reserved_1 = (if pf_get_bits t32 4 9 \<noteq> 0 then 1 else 0),
         reserved_2 = (if pf_get_bits t32 13 11 \<noteq> 0 then 1 else 0),
         reserved_3 = (if pf_get_bits t32 24 8 \<noteq> 0 then 1 else 0)\<rparr>,
       c_sdu_length = csdu, frame_id = fid, send_clock_factor = scf, reduction_ratio = rr,
       phase = ph, sequence = sq, frame_send_offset = fso,
       watchdog_factor = ucast wd, data_hold_factor = dh,
       iocr_tag_header = \<lparr>iocr_vlan_id = ucast (pf_get_bits (ucast t16) 0 11),
         iocr_user_priority = ucast (pf_get_bits (ucast t16) 13 3)\<rparr>,
       iocr_multicast_mac_add = mac, nbr_apis = na, apis = as\<rparr> }"

definition pf_get_iocr_param :: "u16 \<Rightarrow> pf_ar \<Rightarrow> pf_ar rdm" where
  "pf_get_iocr_param ix p_ar = do {
     cs \<leftarrow> on_elem (iocrs p_ar) (unat ix) (\<lambda>c. do {
       p \<leftarrow> pf_get_iocr_param_body (iocr_param c); rd_return (c\<lparr>iocr_param := p\<rparr>) });
     rd_return (p_ar\<lparr>iocrs := cs\<rparr>) }"


text \<open>
  \<^verbatim>\<open>p_api\<close> keeps its value from one turn of the loop to the next: it is the index \<open>p_api\<close> of
  an element of \<^verbatim>\<open>exp_apis\<close>, \<open>None\<close> for the null pointer. The last match of the search wins.
\<close>

definition find_exp_api :: "u32 \<Rightarrow> u16 \<Rightarrow> pf_exp_api list \<Rightarrow> nat option \<Rightarrow> nat option" where
  "find_exp_api a n xs p_api =
     fold (\<lambda>iy p. if exp_valid (xs ! iy) \<and> exp_api (xs ! iy) = a then Some iy else p)
       [0..<unat n] p_api"

definition pf_get_exp_module :: "u16 \<Rightarrow> pf_exp_module \<Rightarrow> pf_exp_module rdm" where
  "pf_get_exp_module slot p_mod = do {
     i \<leftarrow> pf_get_uint32;
     p \<leftarrow> pf_get_uint16;
     n \<leftarrow> pf_get_uint16;
     ss \<leftarrow> for_rdm (unat n) 0 (\<lambda>iy ss. on_elem ss iy pf_get_exp_submodule) (submodules p_mod);
     rd_return \<lparr>slot_number = slot, module_ident_number = i, module_properties = p,
       nbr_submodules = n, submodules = ss\<rparr> }"

definition pf_get_exp_api_entry :: "pf_exp_api \<Rightarrow> pf_exp_api rdm" where
  "pf_get_exp_api_entry p_api = do {
     slot \<leftarrow> pf_get_uint16;
     if unat (nbr_modules p_api) < length (modules p_api)
     then do {
       ms \<leftarrow> on_elem (modules p_api) (unat (nbr_modules p_api)) (pf_get_exp_module slot);
       rd_return (p_api\<lparr>nbr_modules := nbr_modules p_api + 1, modules := ms, exp_valid := True\<rparr>) }
     else do {
       set_result PF_PARSE_OUT_OF_EXP_SUBMODULE_RESOURCES;
       rd_return p_api } }"

definition pf_get_exp_api_step :: "nat option \<times> pf_ar \<Rightarrow> (nat option \<times> pf_ar) rdm" where
  "pf_get_exp_api_step = (\<lambda>(p_api, p_ar). do {
     a \<leftarrow> pf_get_uint32;
     if unat (nbr_exp_apis p_ar) > length (exp_apis p_ar) then fault (p_api, p_ar)
     else do {
       let p_api = find_exp_api a (nbr_exp_apis p_ar) (exp_apis p_ar) p_api;
       let (p_api, p_ar) =
         (if p_api = None \<and> unat (nbr_exp_apis p_ar) < length (exp_apis p_ar)
          then (Some (unat (nbr_exp_apis p_ar)),
                p_ar\<lparr>nbr_exp_apis := nbr_exp_apis p_ar + 1,
                  exp_apis := (exp_apis p_ar)[unat (nbr_exp_apis p_ar) :=
                    (exp_apis p_ar ! unat (nbr_exp_apis p_ar))\<lparr>exp_api := a, nbr_modules := 0\<rparr>]\<rparr>)
          else (p_api, p_ar));
       case p_api of
         None \<Rightarrow> do {
           set_result PF_PARSE_OUT_OF_API_RESOURCES;
           rd_return (p_api, p_ar) }
       | Some i \<Rightarrow> do {
           xs \<leftarrow> on_elem (exp_apis p_ar) i pf_get_exp_api_entry;
           rd_return (p_api, p_ar\<lparr>exp_apis := xs\<rparr>) } } })"

definition pf_get_exp_api_module :: "pf_ar \<Rightarrow> pf_ar rdm" where
  "pf_get_exp_api_module p_ar = do {
     n \<leftarrow> pf_get_uint16;
     (_, p_ar) \<leftarrow> for_rdm (unat n) 0 (\<lambda>_. pf_get_exp_api_step) (None, p_ar);
     rd_return p_ar }"

definition alarm_cr_tag_header_of_bits :: "u16 \<Rightarrow> pf_alarm_cr_tag_header" where
  "alarm_cr_tag_header_of_bits t =
     \<lparr>acr_vlan_id = ucast (pf_get_bits (ucast t) 0 12),
      alarm_user_priority = ucast (pf_get_bits (ucast t) 13 3)\<rparr>"

definition pf_get_alarm_cr_request :: "pf_ar \<Rightarrow> pf_ar rdm" where
  "pf_get_alarm_cr_request p_ar = do {
     ty \<leftarrow> pf_get_uint16;
     lt \<leftarrow> pf_get_uint16;
     t32 \<leftarrow> pf_get_uint32;
     tof \<leftarrow> pf_get_uint16;
     re \<leftarrow> pf_get_uint16;
     ref \<leftarrow> pf_get_uint16;
     ml \<leftarrow> pf_get_uint16;
     th \<leftarrow> pf_get_uint16;
     tl \<leftarrow> pf_get_uint16;
     rd_return (p_ar\<lparr>alarm_cr_request := (alarm_cr_request p_ar)\<lparr>
       alarm_cr_type := ucast ty, acr_lt_field := lt,
       alarm_cr_priority := get_flag t32 0, transport_udp := get_flag t32 1,
       rta_timeout_factor := tof, rta_retries := re, local_alarm_reference := ref,
       max_alarm_data_length := ml,
       alarm_cr_tag_header_high := alarm_cr_tag_header_of_bits th,
       alarm_cr_tag_header_low := alarm_cr_tag_header_of_bits tl\<rparr>\<rparr>) }"

definition pf_get_ar_prm_server_request :: "pf_ar \<Rightarrow> pf_ar rdm" where
  "pf_get_ar_prm_server_request p_ar = do {
     let old = prm_server p_ar;
     uu \<leftarrow> pf_get_uuid (parameter_server_object_uuid old);
     _ \<leftarrow> pf_get_uint32;
     tof \<leftarrow> pf_get_uint16;
     n \<leftarrow> pf_get_uint16;
     nm \<leftarrow> pf_get_mem n (parameter_server_station_name old);
     nm \<leftarrow> terminate_at nm (unat n);
     rd_return (p_ar\<lparr>prm_server := \<lparr>parameter_server_object_uuid = uu,
       prm_activity_timeout_factor = tof, parameter_server_station_name_len = n,
       parameter_server_station_name = nm\<rparr>\<rparr>) }"

definition pf_get_dfp_iocr :: "pf_dfp_iocr rdm" where
  "pf_get_dfp_iocr = do {
     r \<leftarrow> pf_get_uint16; u \<leftarrow> pf_get_uint16; p \<leftarrow> pf_get_byte; l \<leftarrow> pf_get_byte;
     rd_return \<lparr>dfp_iocr_reference = r, subframe_offset = u, subframe_position = p, subframe_length = l\<rparr> }"

definition pf_get_ir_info_request :: "pf_ar \<Rightarrow> pf_ar rdm" where
  "pf_get_ir_info_request p_ar = do {
     uu \<leftarrow> pf_get_uuid (ir_data_uuid (ir_info p_ar));
     n \<leftarrow> pf_get_uint16;
     ds \<leftarrow> for_rdm (unat n) 0 (\<lambda>ix ds. on_elem ds ix (\<lambda>_. pf_get_dfp_iocr)) (dfp_iocrs (ir_info p_ar));
     rd_return (p_ar\<lparr>ir_info := \<lparr>ir_data_uuid = uu, ir_nbr_iocrs = n, dfp_iocrs = ds\<rparr>\<rparr>) }"

definition pf_get_mcr_request :: "u16 \<Rightarrow> pf_ar \<Rightarrow> pf_ar rdm" where
  "pf_get_mcr_request ix p_ar = do {
     ms \<leftarrow> on_elem (mcr_request p_ar) (unat ix) (\<lambda>old. do {
       r \<leftarrow> pf_get_uint16;
       p \<leftarrow> pf_get_byte;
       f \<leftarrow> pf_get_byte;
       t \<leftarrow> pf_get_uint16;
       n \<leftarrow> pf_get_uint16;
       nm \<leftarrow> pf_get_mem n (provider_station_name old);
       nm \<leftarrow> terminate_at nm (unat n);
       rd_return \<lparr>mcr_iocr_reference = r, mcr_protocol = p, resolution_factor = f,
         mci_timeout_factor = t, length_provider_station_name = n, provider_station_name = nm\<rparr> });
     rd_return (p_ar\<lparr>mcr_request := ms\<rparr>) }"

definition pf_get_ar_rpc_request :: "pf_ar \<Rightarrow> pf_ar rdm" where
  "pf_get_ar_rpc_request p_ar = do {
     p \<leftarrow> pf_get_uint16;
     rd_return (p_ar\<lparr>initiator_rpc_server_port := p\<rparr>) }"

definition pf_get_ar_vendor_request :: "u16 \<Rightarrow> pf_ar \<Rightarrow> pf_ar rdm" where
  "pf_get_ar_vendor_request ix p_ar = do {
     vs \<leftarrow> on_elem (ar_vendor_request p_ar) (unat ix) (\<lambda>old. do {
       i \<leftarrow> pf_get_uint32;
       a \<leftarrow> pf_get_uint32;
       n \<leftarrow> pf_get_uint16;
       d \<leftarrow> pf_get_mem n (data_request old);
       rd_return \<lparr>ap_structure_identifier = i, vendor_api = a, length_data_request = n,
         data_request = d\<rparr> });
     rd_return (p_ar\<lparr>ar_vendor_request := vs\<rparr>) }"

section \<open>Control, RPC and record requests\<close>

definition pf_get_control :: "pf_control_block \<Rightarrow> pf_control_block rdm" where
  "pf_get_control p_req = do {
     _ \<leftarrow> pf_get_uint16;
     uu \<leftarrow> pf_get_uuid (cb_ar_uuid p_req);
     key \<leftarrow> pf_get_uint16;
     sq \<leftarrow> pf_get_uint16;
     cmd \<leftarrow> pf_get_uint16;
     pr \<leftarrow> pf_get_uint16;
     rd_return \<lparr>cb_ar_uuid = uu, cb_session_key = key, control_command = cmd,
       control_block_properties = pr, cb_alarm_sequence_number = sq\<rparr> }"

definition pf_get_ndr_data :: "pf_ndr_data rdm" where
  "pf_get_ndr_data = do {
     m \<leftarrow> pf_get_uint32; l \<leftarrow> pf_get_uint32;
     am \<leftarrow> pf_get_uint32; ao \<leftarrow> pf_get_uint32; ac \<leftarrow> pf_get_uint32;
     rd_return \<lparr>args_maximum = m, args_length = l,
       maximum_count = am, array_offset = ao, actual_count = ac\<rparr> }"

text \<open>The bit positions \<^verbatim>\<open>pf_rpc_flags_bits_t\<close> and \<^verbatim>\<open>pf_rpc_flags2_bits_t\<close>.\<close>

definition rpc_flags_of_bits :: "u8 \<Rightarrow> pf_rpc_flags" where
  "rpc_flags_of_bits t =
     \<lparr>last_fragment = get_flag (ucast t) 1, fragment = get_flag (ucast t) 2,
      no_fack = get_flag (ucast t) 3, maybe = get_flag (ucast t) 4,
      idempotent = get_flag (ucast t) 5, broadcast = get_flag (ucast t) 6\<rparr>"

definition pf_get_dce_rpc_header :: "pf_rpc_header \<Rightarrow> pf_rpc_header rdm" where
  "pf_get_dce_rpc_header old = do {
     v \<leftarrow> pf_get_byte;
     pt \<leftarrow> pf_get_byte;
     f1 \<leftarrow> pf_get_byte;
     f2 \<leftarrow> pf_get_byte;
     dr \<leftarrow> pf_get_byte;
     let be = (pf_get_bits (ucast dr) 4 4 = 0);
     set_endian be;
     _ \<leftarrow> pf_get_byte;
     rs \<leftarrow> pf_get_byte;
     sh \<leftarrow> pf_get_byte;
     ob \<leftarrow> pf_get_uuid (object_uuid old);
     ifc \<leftarrow> pf_get_uuid (interface_uuid old);
     act \<leftarrow> pf_get_uuid (activity_uuid old);
     sbt \<leftarrow> pf_get_uint32;
     iv \<leftarrow> pf_get_uint32;
     sq \<leftarrow> pf_get_uint32;
     op \<leftarrow> pf_get_uint16;
     ih \<leftarrow> pf_get_uint16;
     ah \<leftarrow> pf_get_uint16;
     lb \<leftarrow> pf_get_uint16;
     fn \<leftarrow> pf_get_uint16;
     au \<leftarrow> pf_get_byte;
     sl \<leftarrow> pf_get_byte;
     rd_return \<lparr>rpc_version = v, packet_type = pt AND 31, rpc_flags = rpc_flags_of_bits f1,
       cancel_pending = get_flag (ucast f2) 1, rpc_is_big_endian = be, float_repr = 0,
       reserved = rs, serial_high = sh, object_uuid = ob, interface_uuid = ifc,
       activity_uuid = act, server_boot_time = sbt, interface_version = iv, sequence_nmb = sq,
       opnum = op, interface_hint = ih, activity_hint = ah, length_of_body = lb,
       fragment_nmb = fn, auth_protocol = au, serial_low = sl\<rparr> }"

definition get_padding :: "u8 list \<Rightarrow> u8 list rdm" where
  "get_padding xs = for_rdm (length xs) 0 (\<lambda>ix ys. on_elem ys ix (\<lambda>_. pf_get_byte)) xs"

definition pf_get_read_request :: "pf_iod_read_request \<Rightarrow> pf_iod_read_request rdm" where
  "pf_get_read_request old = do {
     sq \<leftarrow> pf_get_uint16;
     uu \<leftarrow> pf_get_uuid (rreq_ar_uuid old);
     a \<leftarrow> pf_get_uint32;
     sl \<leftarrow> pf_get_uint16;
     su \<leftarrow> pf_get_uint16;
     p0 \<leftarrow> on_elem (rreq_padding old) 0 (\<lambda>_. pf_get_byte);
     p1 \<leftarrow> on_elem p0 1 (\<lambda>_. pf_get_byte);
     i \<leftarrow> pf_get_uint16;
     l \<leftarrow> pf_get_uint32;
     tu \<leftarrow> pf_get_uuid (target_ar_uuid old);
     rw \<leftarrow> get_padding (rreq_rw_padding old);
     rd_return \<lparr>rreq_sequence_number = sq, rreq_ar_uuid = uu, rreq_api = a,
       rreq_slot_number = sl, rreq_subslot_number = su, rreq_padding = p1, rreq_index = i,
       rreq_record_data_length = l, target_ar_uuid = tu, rreq_rw_padding = rw\<rparr> }"

definition pf_get_epm_lookup_request :: "pf_rpc_lookup_req \<Rightarrow> pf_rpc_lookup_req rdm" where
  "pf_get_epm_lookup_request old = do {
     it \<leftarrow> pf_get_uint32;
     oid \<leftarrow> pf_get_uint32;
     ob \<leftarrow> pf_get_uuid (lreq_object_uuid old);
     iid \<leftarrow> pf_get_uint32;
     ifc \<leftarrow> pf_get_uuid (lreq_interface_uuid old);
     vh \<leftarrow> pf_get_uint16;
     vl \<leftarrow> pf_get_uint16;
     vo \<leftarrow> pf_get_uint32;
     h \<leftarrow> pf_get_handle (lreq_rpc_handle old);
     m \<leftarrow> pf_get_uint32;
     rd_return \<lparr>inquiry_type = it, object_id = oid, lreq_object_uuid = ob,
       interface_id = iid, lreq_interface_uuid = ifc, interface_ver_major = vh,
       interface_ver_minor = vl, version_option = vo, lreq_rpc_handle = h, max_entries = m\<rparr> }"

definition pf_get_write_request :: "pf_iod_write_request \<Rightarrow> pf_iod_write_request rdm" where
  "pf_get_write_request old = do {
     sq \<leftarrow> pf_get_uint16;
     uu \<leftarrow> pf_get_uuid (wreq_ar_uuid old);
     a \<leftarrow> pf_get_uint32;
     sl \<leftarrow> pf_get_uint16;
     su \<leftarrow> pf_get_uint16;
     p0 \<leftarrow> on_elem (wreq_padding old) 0 (\<lambda>_. pf_get_byte);
     p1 \<leftarrow> on_elem p0 1 (\<lambda>_. pf_get_byte);
     i \<leftarrow> pf_get_uint16;
     l \<leftarrow> pf_get_uint32;
     rw \<leftarrow> get_padding (wreq_rw_padding old);
     rd_return \<lparr>wreq_sequence_number = sq, wreq_ar_uuid = uu, wreq_api = a,
       wreq_slot_number = sl, wreq_subslot_number = su, wreq_padding = p1, wreq_index = i,
       wreq_record_data_length = l, wreq_rw_padding = rw\<rparr> }"

definition pf_get_im_1 :: "pnet_im_1 \<Rightarrow> pnet_im_1 rdm" where
  "pf_get_im_1 old = do {
     let nf = length (im_tag_function old) - 1;
     let nl = length (im_tag_location old) - 1;
     f \<leftarrow> pf_get_mem (of_nat nf) (im_tag_function old);
     f \<leftarrow> terminate_at f nf;
     l \<leftarrow> pf_get_mem (of_nat nl) (im_tag_location old);
     l \<leftarrow> terminate_at l nl;
     rd_return \<lparr>im_tag_function = f, im_tag_location = l\<rparr> }"

section \<open>Alarm frames\<close>

definition pf_get_alarm_fixed :: "pf_alarm_fixed rdm" where
  "pf_get_alarm_fixed = do {
     d \<leftarrow> pf_get_uint16;
     sr \<leftarrow> pf_get_uint16;
     t \<leftarrow> pf_get_byte;
     f \<leftarrow> pf_get_byte;
     sn \<leftarrow> pf_get_uint16;
     an \<leftarrow> pf_get_uint16;
     rd_return \<lparr>dst_ref = d, src_ref = sr,
       pdu_type = \<lparr>pdu_type_type = ucast (pf_get_bits (ucast t) 0 4),
                   pdu_type_version = ucast (pf_get_bits (ucast t) 4 4)\<rparr>,
       add_flags = \<lparr>window_size = ucast (pf_get_bits (ucast f) 0 4), tack = get_flag (ucast f) 4\<rparr>,
       send_seq_num = sn, ack_seq_nbr = an\<rparr> }"

definition alarm_spec_of_bits :: "u16 \<Rightarrow> pnet_alarm_spec" where
  "alarm_spec_of_bits t =
     \<lparr>channel_diagnosis = get_flag (ucast t) 11, manufacturer_diagnosis = get_flag (ucast t) 12,
      submodule_diagnosis = get_flag (ucast t) 13, ar_diagnosis = get_flag (ucast t) 15\<rparr>"

definition pf_get_alarm_data :: "pf_alarm_data \<Rightarrow> pf_alarm_data rdm" where
  "pf_get_alarm_data old = do {
     ty \<leftarrow> pf_get_uint16;
     a \<leftarrow> pf_get_uint32;
     sl \<leftarrow> pf_get_uint16;
     su \<leftarrow> pf_get_uint16;
     mi \<leftarrow> pf_get_uint32;
     si \<leftarrow> pf_get_uint32;
     t \<leftarrow> pf_get_uint16;
     rd_return (old\<lparr>alarm_type := ty, ad_api_id := a, ad_slot_nbr := sl, ad_subslot_nbr := su,
       module_ident := mi, submodule_ident := ucast si,
       alarm_specifier := alarm_spec_of_bits t,
       ad_sequence_number := ucast (pf_get_bits (ucast t) 0 11)\<rparr>) }"

definition pf_get_alarm_ack :: "pf_alarm_data \<Rightarrow> pf_alarm_data rdm" where
  "pf_get_alarm_ack old = do {
     ty \<leftarrow> pf_get_uint16;
     a \<leftarrow> pf_get_uint32;
     sl \<leftarrow> pf_get_uint16;
     su \<leftarrow> pf_get_uint16;
     t \<leftarrow> pf_get_uint16;
     rd_return (old\<lparr>alarm_type := ty, ad_api_id := a, ad_slot_nbr := sl, ad_subslot_nbr := su,
       alarm_specifier := alarm_spec_of_bits t,
       ad_sequence_number := ucast (pf_get_bits (ucast t) 0 11)\<rparr>) }"

definition pf_get_pnio_status :: "pnet_pnio_status rdm" where
  "pf_get_pnio_status = do {
     a \<leftarrow> pf_get_byte; b \<leftarrow> pf_get_byte; c \<leftarrow> pf_get_byte; d \<leftarrow> pf_get_byte;
     rd_return \<lparr>error_code = a, error_decode = b, error_code_1 = c, error_code_2 = d\<rparr> }"

section \<open>Port data\<close>

definition pf_get_port_data_check :: "pf_port_data_check rdm" where
  "pf_get_port_data_check = do {
     _ \<leftarrow> pf_get_mem 2 [0, 0, 0, 0];
     sl \<leftarrow> pf_get_uint16;
     su \<leftarrow> pf_get_uint16;
     h \<leftarrow> pf_get_block_header;
     rd_return \<lparr>pdc_slot_number = sl, pdc_subslot_number = su, pdc_block_header = h\<rparr> }"

definition get_check_peer :: "pf_check_peer \<Rightarrow> pf_check_peer rdm" where
  "get_check_peer old = do {
     n \<leftarrow> pf_get_byte;
     p \<leftarrow> pf_get_mem (ucast n) (peer_port_name old);
     p \<leftarrow> terminate_at p (unat n);
     m \<leftarrow> pf_get_byte;
     q \<leftarrow> pf_get_mem (ucast m) (peer_station_name old);
     q \<leftarrow> terminate_at q (unat m);
     rd_return \<lparr>length_peer_port_name = n, peer_port_name = p,
       length_peer_station_name = m, peer_station_name = q\<rparr> }"

definition pf_get_port_data_check_check_peers :: "u8 \<Rightarrow> pf_check_peers \<Rightarrow> pf_check_peers rdm" where
  "pf_get_port_data_check_check_peers max_peers old = do {
     n \<leftarrow> pf_get_byte;
     let n = (if n > max_peers then max_peers else n);
     ps \<leftarrow> for_rdm (unat n) 0 (\<lambda>i ps. on_elem ps i get_check_peer) (peers old);
     rd_return \<lparr>number_of_peers = n, peers = ps\<rparr> }"

definition pf_get_port_data_adjust :: "pf_port_data_adjust rdm" where
  "pf_get_port_data_adjust = do {
     _ \<leftarrow> pf_get_mem 2 [0, 0, 0, 0];
     sl \<leftarrow> pf_get_uint16;
     su \<leftarrow> pf_get_uint16;
     h \<leftarrow> pf_get_block_header;
     rd_return \<lparr>pda_slot_number = sl, pda_subslot_number = su, pda_block_header = h\<rparr> }"

definition pf_get_port_data_adjust_peer_to_peer_boundary ::
  "pf_adjust_peer_to_peer_boundary rdm" where
  "pf_get_port_data_adjust_peer_to_peer_boundary = do {
     _ \<leftarrow> pf_get_mem 2 [0, 0, 0, 0];
     t \<leftarrow> pf_get_uint32;
     a \<leftarrow> pf_get_uint16;
     rd_return \<lparr>do_not_send_LLDP_frames = get_flag t 0,
       do_not_send_pctp_delay_request_frames = get_flag t 1,
       do_not_send_path_delay_request_frames = get_flag t 2, adjust_properties = a\<rparr> }"

definition pf_get_interface_adjust :: "u32 rdm" where
  "pf_get_interface_adjust = do {
     _ \<leftarrow> pf_get_mem 2 [0, 0];
     t \<leftarrow> pf_get_uint32;
     rd_return (pf_get_bits t 0 1) }"

end
