(* ===== verification/Pn_Net.thy ===== *)
theory Pn_Net
  imports Pn_Host Pn_Scheduler Pn_Alarm_Queue Pn_Eth Pn_Block_Writer Pn_Block_Reader
begin

text \<open>
  The state of the stack, the part of \<^verbatim>\<open>struct pnet\<close> (\<^verbatim>\<open>src/pf_types.h\<close>) that the
  components of a connection share: the application relations (AR) with their state machines,
  the communication relations (CR) with consumer and provider, the alarm machines, the tree of
  plugged modules, the frame buffers and the timers. An AR, a CR or a buffer is referred to by
  its index. An operation that fails in C (a failing assertion, a NULL or dangling pointer, a
  write outside an array) is \<open>None\<close>.
\<close>

section \<open>State machines\<close>

datatype pnet_event = PNET_EVENT_ABORT | PNET_EVENT_STARTUP | PNET_EVENT_PRMEND
  | PNET_EVENT_APPLRDY | PNET_EVENT_DATA

datatype pf_cmdev_state_values = PF_CMDEV_STATE_POWER_ON | PF_CMDEV_STATE_W_CIND
  | PF_CMDEV_STATE_W_CRES | PF_CMDEV_STATE_W_SUCNF | PF_CMDEV_STATE_W_PEIND
  | PF_CMDEV_STATE_W_PERES | PF_CMDEV_STATE_W_ARDY | PF_CMDEV_STATE_W_ARDYCNF
  | PF_CMDEV_STATE_WDATA | PF_CMDEV_STATE_DATA | PF_CMDEV_STATE_ABORT

datatype pf_cmsu_state_values = PF_CMSU_STATE_IDLE | PF_CMSU_STATE_STARTUP | PF_CMSU_STATE_RUN
  | PF_CMSU_STATE_ABORT

datatype pf_cmwrr_state_values = PF_CMWRR_STATE_IDLE | PF_CMWRR_STATE_STARTUP
  | PF_CMWRR_STATE_PRMEND | PF_CMWRR_STATE_DATA

datatype pf_cmsm_state_values = PF_CMSM_STATE_IDLE | PF_CMSM_STATE_RUN

datatype pf_cmio_state_values = PF_CMIO_STATE_IDLE | PF_CMIO_STATE_STARTUP
  | PF_CMIO_STATE_WDATA | PF_CMIO_STATE_DATA

datatype pf_cmpbe_state_values = PF_CMPBE_STATE_IDLE | PF_CMPBE_STATE_WFIND
  | PF_CMPBE_STATE_WFRSP | PF_CMPBE_STATE_WFPEI | PF_CMPBE_STATE_WFPER
  | PF_CMPBE_STATE_WFREQ | PF_CMPBE_STATE_WFCNF

datatype pf_cpm_state_values = PF_CPM_STATE_W_START | PF_CPM_STATE_FRUN | PF_CPM_STATE_RUN

datatype pf_ppm_state_values = PF_PPM_STATE_W_START | PF_PPM_STATE_RUN

datatype pf_apms_state_values = PF_APMS_STATE_CLOSED | PF_APMS_STATE_OPEN | PF_APMS_STATE_WTACK

datatype pf_apmr_state_values = PF_APMR_STATE_CLOSED | PF_APMR_STATE_OPEN | PF_APMR_STATE_WCNF

datatype pf_alpmi_state_values = PF_ALPMI_STATE_W_START | PF_ALPMI_STATE_W_ALARM
  | PF_ALPMI_STATE_W_ACK

datatype pf_alpmr_state_values = PF_ALPMR_STATE_W_START | PF_ALPMR_STATE_W_NOTIFY
  | PF_ALPMR_STATE_W_USER_ACK | PF_ALPMR_STATE_W_TACK

section \<open>Communication relations\<close>

record pf_cpm =
  cpm_state :: pf_cpm_state_values
  recv_cnt :: u32
  free_cnt :: u32
  cpm_errcnt :: u32
  cpm_sa :: "u8 list"
  nbr_frame_id :: u16
  cpm_frame_id :: "u16 list"
  cpm_data_hold_factor :: u16
  p_buffer_app :: "nat option"
  p_buffer_cpm :: "nat option"
  new_buf :: bool
  cpm_frame_id_pos :: u16
  cpm_data_status :: u8
  cpm_buffer_length :: u16
  cpm_buffer_pos :: u16
  dht :: u16
  new_data :: bool
  cpm_cycle :: int
  cpm_control_interval :: u32
  cpm_ci_running :: bool
  cpm_ci_timeout :: handle
  cmio_start :: bool

record pf_ppm =
  ppm_state :: pf_ppm_state_values
  next_exec :: u32
  ppm_sa :: "u8 list"
  ppm_da :: "u8 list"
  first_transmit :: bool
  p_send_buffer :: "nat option"
  ppm_cycle :: u16
  transfer_status :: u8
  ppm_data_status :: u8
  ppm_buffer_length :: u16
  ppm_buffer_pos :: u16
  cycle_counter_offset :: u16
  data_status_offset :: u16
  transfer_status_offset :: u16
  buffer_data :: "u8 list"
  trx_cnt :: u32
  ppm_send_clock_factor :: u16
  ppm_reduction_ratio :: u16
  ppm_control_interval :: u32
  ppm_ci_running :: bool
  ppm_ci_timeout :: handle

record pf_iodata_object =
  io_in_use :: bool
  io_api_id :: u32
  io_slot_nbr :: u16
  io_subslot_nbr :: u16
  data_offset :: u16
  data_length :: u16
  iops_offset :: u16
  iops_length :: u16
  iocs_offset :: u16
  iocs_length :: u16
  data_avail :: bool

text \<open>
  The run-time part of \<^verbatim>\<open>pf_iocr_t\<close>. Its index is that of the parameters of the same CR in the
  list \<^verbatim>\<open>iocrs\<close> of the AR.
\<close>

record cr =
  cpm :: pf_cpm
  ppm :: pf_ppm
  in_length :: u16
  out_length :: u16
  nbr_data_desc :: u16
  data_desc :: "pf_iodata_object list"

section \<open>Alarm machines\<close>

record pf_alpmx =
  alpmx_da :: "u8 list"
  prev_sequence_number :: u16
  sequence_number :: u16
  alpmi_state :: pf_alpmi_state_values
  alpmr_state :: pf_alpmr_state_values

text \<open>\<open>apmx_p_ar\<close>: the back pointers \<^verbatim>\<open>p_ar\<close> and \<^verbatim>\<open>p_alpmx\<close> are set.\<close>

record pf_apmx =
  apmx_p_ar :: bool
  apmx_p_alpmx :: bool
  apmx_da :: "u8 list"
  apmx_src_ref :: u16
  apmx_dst_ref :: u16
  apms_state :: pf_apms_state_values
  apmr_state :: pf_apmr_state_values
  send_seq_count :: u16
  send_seq_count_o :: u16
  exp_seq_count :: u16
  exp_seq_count_o :: u16
  alarm_receive_q :: pf_alarm_receive_queue
  p_rta :: "nat option"
  high_priority :: bool
  vlan_prio :: u16
  block_type_alarm_notify :: u16
  block_type_alarm_ack :: u16
  apmx_frame_id :: u16
  timeout_us :: u32
  resend_timeout :: handle
  resend_counter :: u32

section \<open>Application relations and sessions\<close>

text \<open>What the parser of a connect request counts, for the checks that follow.\<close>

record ar_counts =
  nbr_ar_param :: u16
  nbr_alarm_cr :: u16
  nbr_prm_server :: u16
  nbr_rpc_server :: u16
  nbr_ir_info :: u16
  nbr_mcr :: u16
  nbr_ar_vendor :: u16
  input_cr_cnt :: u16
  output_cr_cnt :: u16
  mcr_cons_cnt :: u16
  rtc3_present :: bool
  ir_info_valid :: bool
  ar_rpc_valid :: bool

text \<open>\<open>cfg\<close> is the part that the block reader fills and the block writer reads.\<close>

record ar =
  cfg :: pf_ar
  counts :: ar_counts
  in_use :: bool
  arep :: u16
  p_sess :: "nat option"
  cmdev_state :: pf_cmdev_state_values
  alarm_enable :: bool
  alpmx :: "pf_alpmx list"
  apmx :: "pf_apmx list"
  alarm_send_q :: "pf_alarm_send_queue list"
  crs :: "cr list"
  ar_state :: u16
  ready_4_data :: bool
  err_cls :: u8
  err_code :: u8
  cmwrr_state :: pf_cmwrr_state_values
  cmsu_state :: pf_cmsu_state_values
  cmsm_state :: pf_cmsm_state_values
  cmsm_timeout :: handle
  cmio_state :: pf_cmio_state_values
  cmio_timeout :: handle
  cmio_timer_should_reschedule :: bool
  cmpbe_state :: pf_cmpbe_state_values
  cmpbe_stored_command :: u16

text \<open>
  The RPC part of a session. \<open>rpc_get_info\<close> holds what its buffer pointer points to. The session's
  own two buffers are the elements of \<open>net_session_bufs\<close> with the index of the session; their
  content is not read before it has been written.
\<close>

record rpc_session =
  se_activity_uuid :: pf_uuid
  ip_addr :: u32
  udp_port :: u16
  sequence_nmb_send :: u32
  in_buf_len :: u16
  in_fragment_nbr :: u16
  out_buf_len :: u16
  out_buf_sent_pos :: u16
  out_buf_send_len :: u16
  out_fragment_nbr :: u16
  rpc_get_info :: pf_get_info
  se_is_big_endian :: bool
  rpc_result :: pnet_result
  ndr_data :: pf_ndr_data
  dcontrol_sequence_nmb :: u32
  dcontrol_result :: pnet_result
  resend_counter_rpc :: u32

record pf_session_info =
  se_in_use :: bool
  release_in_progress :: bool
  kill_session :: bool
  se_socket :: int
  se_p_ar :: "nat option"
  from_me :: bool
  se_resend_timeout :: handle
  se_rpc :: rpc_session

section \<open>The tree of plugged modules\<close>

record pf_subslot =
  ss_in_use :: bool
  ss_subslot_nbr :: u16
  ss_exp_submodule_ident_number :: u32
  ss_submodule_ident_number :: u32
  length_input :: u16
  length_output :: u16
  direction :: u8
  ss_p_ar :: "nat option"
  submodule_state :: pf_submodule_state
  diag_list :: u16

record pf_slot =
  sl_in_use :: bool
  sl_exp_module_ident_number :: u32
  sl_module_ident_number :: u32
  plug_state :: u16
  subslots :: "pf_subslot list"
  sl_p_ar :: "nat option"
  sl_slot_nbr :: u16

record pf_api =
  api_in_use :: bool
  api_id :: u32
  slots :: "pf_slot list"
  api_p_ar :: "nat option"

record pf_device =
  dev_apis :: "pf_api list"
  diag_items :: "pf_diag_item list"
  diag_items_free :: u16

section \<open>The stack and its environment\<close>

text \<open>A frame buffer: its memory and the number of bytes in it.\<close>

record pnal_buf =
  payload :: "u8 list"
  b_len :: u16

text \<open>What the frame handlers of the map of frame IDs are, with their argument.\<close>

datatype frame_fn = Rx_cpm nat nat | Rx_alarm nat nat | Rx_other nat

text \<open>What the stack does to its surroundings: frames, calls of the application, log entries.\<close>

datatype net_output =
    Out_frame "u8 list"
  | Out_state nat pnet_event
  | Out_alarm_cnf nat pnet_pnio_status
  | Out_alarm_ack_cnf nat int
  | Out_alarm_ind nat pf_alarm_data u16 u16 "u8 list"
  | Out_data_status nat nat u8 u8
  | Out_ccontrol_cnf nat
  | Out_dcontrol nat u16
  | Out_release nat
  | Out_connect nat
  | Out_udp_close int
  | Out_udp_open u16
  | Out_udp int u32 u16 "u8 list"
  | Out_job nat
  | Out_port_frame nat "u8 list"
  | Out_signal_led bool
  | Out_reset bool u16
  | Out_set_ip_suite pf_ip_suite bool
  | Out_clear_file nat

text \<open>
  The environment: does the allocation after \<open>n\<close> earlier ones succeed, what does the send
  function return after \<open>n\<close> outputs, what does the application return then, and the cleared AR
  that \<^verbatim>\<open>memset\<close> leaves (its array sizes are those of the configuration). What the application
  makes of a result structure may also depend on the time. The
  last ones are \<^verbatim>\<open>PNET_MAX_ALARM_PAYLOAD_DATA_SIZE\<close>, \<^verbatim>\<open>sizeof (pf_diag_item_t)\<close>, the choice of qualified
  diagnosis in the configuration of the application, and what opening a UDP socket and sending so many
  bytes on one return after \<open>n\<close> outputs.
\<close>

record world =
  w_alloc :: "nat \<Rightarrow> bool"
  w_send :: "nat \<Rightarrow> int"
  w_app :: "nat \<Rightarrow> int"
  w_result :: "nat \<Rightarrow> pnet_result \<Rightarrow> pnet_result"
  w_ar0 :: ar
  w_alarm_data_size :: nat
  w_diag_item_size :: u16
  w_use_qualified_diagnosis :: bool
  w_if_index :: u32
  w_uptime_10ms :: "nat \<Rightarrow> u32"
  w_eth_status :: "nat \<Rightarrow> nat \<Rightarrow> pnal_eth_status option"
  w_saved_ase :: "nat \<Rightarrow> pf_cmina_dcp_ase option"
  w_udp_open :: "nat \<Rightarrow> int"
  w_udp_send :: "nat \<Rightarrow> nat \<Rightarrow> int"

record pnet =
  net_sched :: sched
  net_now :: u32
  net_heap :: "pnal_buf option list"
  eth_id_map :: "frame_fn eth_id_map"
  net_ars :: "ar list"
  net_sessions :: "pf_session_info list"
  net_session_bufs :: "(u8 list \<times> u8 list) list"
  net_session_number :: u32
  net_rpcreq_socket :: int
  net_device :: pf_device
  global_alarm_enable :: bool
  cpm_instance_cnt :: u32
  cpm_buf_lock :: bool
  ppm_instance_cnt :: u32
  ppm_buf_lock :: bool
  net_mac :: "u8 list"
  net_host :: host
  net_out :: "net_output list"
  net_world :: world

section \<open>Access\<close>

definition zero_status :: pnet_pnio_status where
  "zero_status = \<lparr>error_code = 0, error_decode = 0, error_code_1 = 0, error_code_2 = 0\<rparr>"

definition zero_result :: pnet_result where
  "zero_result = \<lparr>result_status = zero_status, result_add_data_1 = 0, result_add_data_2 = 0\<rparr>"

definition zero_ndr :: pf_ndr_data where
  "zero_ndr = \<lparr>args_maximum = 0, args_length = 0, maximum_count = 0, array_offset = 0, actual_count = 0\<rparr>"

definition zero_rpc_session :: rpc_session where
  "zero_rpc_session = \<lparr>se_activity_uuid = nil_uuid, ip_addr = 0, udp_port = 0, sequence_nmb_send = 0,
     in_buf_len = 0, in_fragment_nbr = 0, out_buf_len = 0, out_buf_sent_pos = 0, out_buf_send_len = 0,
     out_fragment_nbr = 0,
     rpc_get_info = \<lparr>result = PF_PARSE_OK, is_big_endian = False, p_buf = None, buf_len = 0\<rparr>,
     se_is_big_endian = False, rpc_result = zero_result, ndr_data = zero_ndr,
     dcontrol_sequence_nmb = 0, dcontrol_result = zero_result, resend_counter_rpc = 0\<rparr>"

definition upd_ar :: "nat \<Rightarrow> (ar \<Rightarrow> ar) \<Rightarrow> pnet \<Rightarrow> pnet" where
  "upd_ar a f s = s\<lparr>net_ars := (net_ars s)[a := f (net_ars s ! a)]\<rparr>"

definition the_cr :: "pnet \<Rightarrow> nat \<Rightarrow> nat \<Rightarrow> cr" where
  "the_cr s a c = crs (net_ars s ! a) ! c"

definition upd_cr :: "nat \<Rightarrow> nat \<Rightarrow> (cr \<Rightarrow> cr) \<Rightarrow> pnet \<Rightarrow> pnet" where
  "upd_cr a c f = upd_ar a (\<lambda>r. r\<lparr>crs := (crs r)[c := f (crs r ! c)]\<rparr>)"

abbreviation the_cpm :: "pnet \<Rightarrow> nat \<Rightarrow> nat \<Rightarrow> pf_cpm" where
  "the_cpm s a c \<equiv> cpm (the_cr s a c)"

abbreviation the_ppm :: "pnet \<Rightarrow> nat \<Rightarrow> nat \<Rightarrow> pf_ppm" where
  "the_ppm s a c \<equiv> ppm (the_cr s a c)"

abbreviation upd_cpm :: "nat \<Rightarrow> nat \<Rightarrow> (pf_cpm \<Rightarrow> pf_cpm) \<Rightarrow> pnet \<Rightarrow> pnet" where
  "upd_cpm a c f \<equiv> upd_cr a c (\<lambda>r. r\<lparr>cpm := f (cpm r)\<rparr>)"

abbreviation upd_ppm :: "nat \<Rightarrow> nat \<Rightarrow> (pf_ppm \<Rightarrow> pf_ppm) \<Rightarrow> pnet \<Rightarrow> pnet" where
  "upd_ppm a c f \<equiv> upd_cr a c (\<lambda>r. r\<lparr>ppm := f (ppm r)\<rparr>)"

abbreviation the_apmx :: "pnet \<Rightarrow> nat \<Rightarrow> nat \<Rightarrow> pf_apmx" where
  "the_apmx s a p \<equiv> apmx (net_ars s ! a) ! p"

abbreviation the_alpmx :: "pnet \<Rightarrow> nat \<Rightarrow> nat \<Rightarrow> pf_alpmx" where
  "the_alpmx s a p \<equiv> alpmx (net_ars s ! a) ! p"

definition upd_apmx :: "nat \<Rightarrow> nat \<Rightarrow> (pf_apmx \<Rightarrow> pf_apmx) \<Rightarrow> pnet \<Rightarrow> pnet" where
  "upd_apmx a p f = upd_ar a (\<lambda>r. r\<lparr>apmx := (apmx r)[p := f (apmx r ! p)]\<rparr>)"

definition upd_alpmx :: "nat \<Rightarrow> nat \<Rightarrow> (pf_alpmx \<Rightarrow> pf_alpmx) \<Rightarrow> pnet \<Rightarrow> pnet" where
  "upd_alpmx a p f = upd_ar a (\<lambda>r. r\<lparr>alpmx := (alpmx r)[p := f (alpmx r ! p)]\<rparr>)"

abbreviation the_iocr_param :: "pnet \<Rightarrow> nat \<Rightarrow> nat \<Rightarrow> pf_iocr_param" where
  "the_iocr_param s a c \<equiv> iocr_param (iocrs (cfg (net_ars s ! a)) ! c)"

definition emit :: "net_output \<Rightarrow> pnet \<Rightarrow> pnet" where
  "emit e s = s\<lparr>net_out := net_out s @ [e]\<rparr>"

definition set_err :: "nat \<Rightarrow> u8 \<Rightarrow> u8 \<Rightarrow> pnet \<Rightarrow> pnet" where
  "set_err a c1 c2 = upd_ar a (\<lambda>r. r\<lparr>err_cls := c1, err_code := c2\<rparr>)"

text \<open>The application is called: what it returns, and the result structure it may have changed.\<close>

definition app_call :: "net_output \<Rightarrow> pnet_result \<Rightarrow> pnet \<Rightarrow> int \<times> pnet_result \<times> pnet" where
  "app_call e r s = (let n = length (net_out s); w = net_world s in (w_app w n, w_result w n r, emit e s))"

text \<open>The buffers of \<^verbatim>\<open>pnal\<close>: an address is never used again; a second free is \<open>None\<close>.\<close>

definition pnal_buf_alloc :: "nat \<Rightarrow> pnet \<Rightarrow> nat option \<times> pnet" where
  "pnal_buf_alloc n s =
     (if w_alloc (net_world s) (length (net_heap s))
      then (Some (length (net_heap s)),
            s\<lparr>net_heap := net_heap s @ [Some \<lparr>payload = replicate n 0, b_len = of_nat n\<rparr>]\<rparr>)
      else (None, s))"

definition the_buf :: "pnet \<Rightarrow> nat \<Rightarrow> pnal_buf option" where
  "the_buf s b = (if b < length (net_heap s) then net_heap s ! b else None)"

definition pnal_buf_free :: "nat \<Rightarrow> pnet \<Rightarrow> pnet option" where
  "pnal_buf_free b s =
     (case the_buf s b of
        None \<Rightarrow> None
      | Some _ \<Rightarrow> Some (s\<lparr>net_heap := (net_heap s)[b := None]\<rparr>))"

definition pf_eth_send_on_management_port :: "nat \<Rightarrow> pnet \<Rightarrow> (int \<times> pnet) option" where
  "pf_eth_send_on_management_port b s =
     (case the_buf s b of
        None \<Rightarrow> None
      | Some f \<Rightarrow> Some (w_send (net_world s) (length (net_out s)),
                       emit (Out_frame (take (unat (b_len f)) (payload f))) s))"

text \<open>
  Timers. The callbacks of a connection and their arguments, as the numbers that the scheduler
  copies.
\<close>

definition CB_CPM :: ptr where "CB_CPM = 1"
definition CB_PPM :: ptr where "CB_PPM = 2"
definition CB_APMS :: ptr where "CB_APMS = 3"
definition CB_CMIO :: ptr where "CB_CMIO = 4"
definition CB_CMSM :: ptr where "CB_CMSM = 5"
definition CB_RPC :: ptr where "CB_RPC = 6"

text \<open>The addresses of the names of their handles.\<close>

definition NAME_CPM :: ptr where "NAME_CPM = 11"
definition NAME_PPM :: ptr where "NAME_PPM = 12"
definition NAME_APMX :: ptr where "NAME_APMX = 13"
definition NAME_CMIO :: ptr where "NAME_CMIO = 14"
definition NAME_CMSM :: ptr where "NAME_CMSM = 15"
definition NAME_RPC :: ptr where "NAME_RPC = 16"

definition pair_ptr :: "nat \<Rightarrow> nat \<Rightarrow> ptr" where
  "pair_ptr a c = a * 256 + c"

definition timer_add :: "u32 \<Rightarrow> ptr \<Rightarrow> ptr \<Rightarrow> handle \<Rightarrow> pnet \<Rightarrow> (int \<times> handle \<times> pnet) option" where
  "timer_add delay cb arg h s = do {
     (sc, h, r) \<leftarrow> pf_scheduler_add (net_sched s) (net_now s) delay cb arg h;
     Some (r, h, s\<lparr>net_sched := sc\<rparr>) }"

definition timer_remove_if_running :: "handle \<Rightarrow> pnet \<Rightarrow> (handle \<times> pnet) option" where
  "timer_remove_if_running h s = do {
     (sc, h) \<leftarrow> pf_scheduler_remove_if_running (net_sched s) h;
     Some (h, s\<lparr>net_sched := sc\<rparr>) }"

definition timer_restart :: "u32 \<Rightarrow> ptr \<Rightarrow> ptr \<Rightarrow> handle \<Rightarrow> pnet \<Rightarrow> (int \<times> handle \<times> pnet) option" where
  "timer_restart delay cb arg h s = do {
     (sc, h, r) \<leftarrow> pf_scheduler_restart (net_sched s) (net_now s) delay cb arg h;
     Some (r, h, s\<lparr>net_sched := sc\<rparr>) }"

end
