(* ===== verification/Pn_Demo.thy ===== *)
theory Pn_Demo
  imports Pn_Net Pn_Block_Reader
begin

text \<open>
  Concrete values for the witnesses: the parameters of a connection with one input CR, and a
  device with that connection.
\<close>

definition demo_module :: pf_exp_module where
  "demo_module = \<lparr>slot_number = 0, module_ident_number = 0, module_properties = 0,
     nbr_submodules = 0, submodules = []\<rparr>"

definition demo_api :: pf_exp_api where
  "demo_api = \<lparr>exp_valid = False, exp_api = 0, nbr_modules = 0, modules = [demo_module]\<rparr>"

definition demo_iocr :: pf_iocr where
  "demo_iocr = \<lparr>
     iocr_param = \<lparr>iocrp_valid = True, iocr_type = 1, iocr_reference = 1, lt_field = 34962,
       iocr_properties = \<lparr>rt_class = 1, reserved_1 = 0, reserved_2 = 0, reserved_3 = 0\<rparr>,
       c_sdu_length = 40, frame_id = 32768, send_clock_factor = 32, reduction_ratio = 32, phase = 1,
       sequence = 0, frame_send_offset = 0, watchdog_factor = 3, data_hold_factor = 3,
       iocr_tag_header = \<lparr>iocr_vlan_id = 0, iocr_user_priority = 6\<rparr>,
       iocr_multicast_mac_add = replicate 6 0, nbr_apis = 0, apis = []\<rparr>,
     iocr_result = \<lparr>res_iocr_type = 1, res_iocr_reference = 1, res_frame_id = 32768\<rparr>\<rparr>"

definition demo_ar :: pf_ar where
  "demo_ar = \<lparr>
     ar_param = \<lparr>arp_valid = True, ar_type = 1, arp_ar_uuid = nil_uuid, session_key = 5,
       cm_initiator_mac_add = [1, 2, 3, 4, 5, 6], cm_initiator_object_uuid = nil_uuid,
       ar_properties = ar_properties_of_bits 0, cm_initiator_activity_timeout_factor = 0,
       cm_initiator_udp_rt_port = 0, cm_initiator_station_name_len = 0,
       cm_initiator_station_name = replicate 241 0\<rparr>,
     ar_result = \<lparr>cm_responder_mac_add = [1, 2, 3, 4, 5, 7], responder_udp_rt_port = 34962\<rparr>,
     ar_server = \<lparr>length_cm_responder_station_name = 3, cm_responder_station_name = [97, 98, 99, 0]\<rparr>,
     alarm_cr_request = \<lparr>acr_valid = False, alarm_cr_type = 0, acr_lt_field = 0,
       alarm_cr_priority = False, transport_udp = False, rta_timeout_factor = 0, rta_retries = 0,
       local_alarm_reference = 0, max_alarm_data_length = 0,
       alarm_cr_tag_header_high = alarm_cr_tag_header_of_bits 0,
       alarm_cr_tag_header_low = alarm_cr_tag_header_of_bits 0\<rparr>,
     alarm_cr_result = \<lparr>res_alarm_cr_type = 1, remote_alarm_reference = 2,
       res_max_alarm_data_length = 200\<rparr>,
     initiator_rpc_server_port = 0, responder_rpc_server_port = 0,
     nbr_iocrs = 1, iocrs = [demo_iocr], nbr_exp_apis = 0, exp_apis = [demo_api],
     nbr_api_diffs = 0, api_diffs = [], mcr_request = [],
     prm_server = \<lparr>parameter_server_object_uuid = nil_uuid, prm_activity_timeout_factor = 0,
       parameter_server_station_name_len = 0, parameter_server_station_name = [0]\<rparr>,
     ir_info = \<lparr>ir_data_uuid = nil_uuid, ir_nbr_iocrs = 0, dfp_iocrs = []\<rparr>,
     ar_vendor_request = [], ar_vendor_result = []\<rparr>"

definition demo_counts :: ar_counts where
  "demo_counts = \<lparr>nbr_ar_param = 1, nbr_alarm_cr = 0, nbr_prm_server = 0, nbr_rpc_server = 0,
     nbr_ir_info = 0, nbr_mcr = 0, nbr_ar_vendor = 0, input_cr_cnt = 1, output_cr_cnt = 0,
     mcr_cons_cnt = 0, rtc3_present = False, ir_info_valid = False, ar_rpc_valid = False\<rparr>"

definition demo_timer :: handle where
  "demo_timer = \<lparr>h_name = 0, h_index = UINT32_MAX\<rparr>"

definition demo_cpm :: pf_cpm where
  "demo_cpm = \<lparr>cpm_state = PF_CPM_STATE_RUN, recv_cnt = 1, free_cnt = 0, cpm_errcnt = 0,
     cpm_sa = [1, 2, 3, 4, 5, 7], nbr_frame_id = 1, cpm_frame_id = [32768, 0],
     cpm_data_hold_factor = 3, p_buffer_app = None, p_buffer_cpm = Some 0, new_buf = False,
     cpm_frame_id_pos = 18, cpm_data_status = 53, cpm_buffer_length = 60, cpm_buffer_pos = 20,
     dht = 2, new_data = False, cpm_cycle = 0, cpm_control_interval = 32000, cpm_ci_running = True,
     cpm_ci_timeout = demo_timer, cmio_start = True\<rparr>"

definition demo_ppm :: pf_ppm where
  "demo_ppm = \<lparr>ppm_state = PF_PPM_STATE_W_START, next_exec = 0, ppm_sa = replicate 6 0,
     ppm_da = replicate 6 0, first_transmit = False, p_send_buffer = None, ppm_cycle = 0,
     transfer_status = 0, ppm_data_status = 0, ppm_buffer_length = 0, ppm_buffer_pos = 0,
     cycle_counter_offset = 0, data_status_offset = 0, transfer_status_offset = 0,
     buffer_data = [11, 22, 128] @ replicate 37 0, trx_cnt = 0, ppm_send_clock_factor = 0,
     ppm_reduction_ratio = 0, ppm_control_interval = 0, ppm_ci_running = True,
     ppm_ci_timeout = demo_timer\<rparr>"

definition demo_io :: pf_iodata_object where
  "demo_io = \<lparr>io_in_use = True, io_api_id = 0, io_slot_nbr = 1, io_subslot_nbr = 1, data_offset = 0,
     data_length = 2, iops_offset = 2, iops_length = 1, iocs_offset = 3, iocs_length = 1,
     data_avail = False\<rparr>"

definition demo_cr :: cr where
  "demo_cr = \<lparr>cpm = demo_cpm, ppm = demo_ppm, in_length = 3, out_length = 0, nbr_data_desc = 1,
     data_desc = [demo_io]\<rparr>"

definition demo_conn :: ar where
  "demo_conn = \<lparr>cfg = demo_ar, counts = demo_counts, in_use = True, arep = 1, p_sess = None,
     cmdev_state = PF_CMDEV_STATE_DATA, alarm_enable = True, alpmx = [], apmx = [], alarm_send_q = [],
     crs = [demo_cr], ar_state = 2, ready_4_data = True, err_cls = 0, err_code = 0,
     cmwrr_state = PF_CMWRR_STATE_DATA, cmsu_state = PF_CMSU_STATE_RUN,
     cmsm_state = PF_CMSM_STATE_IDLE, cmsm_timeout = demo_timer, cmio_state = PF_CMIO_STATE_DATA,
     cmio_timeout = demo_timer, cmio_timer_should_reschedule = False,
     cmpbe_state = PF_CMPBE_STATE_WFREQ, cmpbe_stored_command = 0\<rparr>"

definition demo_im_0 :: pnet_im_0 where
  "demo_im_0 = \<lparr>im_vendor_id_hi = 0, im_vendor_id_lo = 1, im_order_id = replicate 21 0,
     im_serial_number = replicate 17 0, im_hardware_revision = 1, im_sw_revision_prefix = 86,
     im_sw_revision_functional_enhancement = 0, im_sw_revision_bug_fix = 0,
     im_sw_revision_internal_change = 0, im_revision_counter = 0, im_profile_id = 0,
     im_profile_specific_type = 0, im_version_major = 1, im_version_minor = 1, im_supported = 14\<rparr>"

definition demo_id :: pnet_cfg_device_id where
  "demo_id = \<lparr>id_vendor_hi = 0, id_vendor_lo = 1, id_device_hi = 0, id_device_lo = 2\<rparr>"

definition no_ip :: pf_ip_suite where
  "no_ip = \<lparr>su_ip_addr = 0, su_ip_mask = 0, su_ip_gateway = 0\<rparr>"

definition demo_cfg :: pnet_cfg where
  "demo_cfg = \<lparr>tick_us = 1000, read_cb = True, write_cb = True, reset_cb = True, signal_led_cb = True,
     cfg_im_0 = demo_im_0, cfg_im_1 = \<lparr>im_tag_function = replicate 33 0, im_tag_location = replicate 23 0\<rparr>,
     cfg_im_2 = replicate 17 0, cfg_im_3 = replicate 55 0, cfg_im_4 = replicate 54 0,
     cfg_device_id = demo_id, cfg_oem_device_id = demo_id, cfg_station_name = replicate 241 0,
     cfg_product_name = replicate 26 0, cfg_min_device_interval = 32, send_hello = True,
     num_physical_ports = 1, main_netif_name = [101, 0], default_mau_types = [16], cfg_dhcp_enable = False, cfg_ip_suite = no_ip\<rparr>"

definition demo_ase :: pf_cmina_dcp_ase where
  "demo_ase = \<lparr>ase_station_name = [97, 98, 99] @ replicate 238 0, ase_product_name = replicate 26 0,
     ase_device_role = 1, ase_device_initiative = 1, ase_instance_id = (0, 0), ase_device_id = demo_id,
     ase_oem_device_id = demo_id, ase_mac_address = [1, 2, 3, 4, 5, 7], ase_standard_gw_value = 0,
     ase_dhcp_enable = False, full_ip_suite = \<lparr>ip_suite = no_ip, dns_addr = [0, 0, 0, 0]\<rparr>\<rparr>"

definition demo_log_entry :: pf_log_book_entry where
  "demo_log_entry = \<lparr>le_time_ts = \<lparr>ts_status = 0, sec_hi = 0, sec_lo = 0, nano_sec = 0\<rparr>, le_ar_uuid = nil_uuid,
     le_pnio_status = zero_status, entry_detail = 0\<rparr>"

definition demo_lldp_id :: pf_lldp_chassis_id where
  "demo_lldp_id = \<lparr>lid_string = replicate 241 0, lid_subtype = 0, lid_is_valid = False, lid_len = 0\<rparr>"

definition demo_peer_info :: pf_lldp_peer_info where
  "demo_peer_info = \<lparr>chassis_id = demo_lldp_id, port_id = demo_lldp_id\<lparr>lid_string := replicate 256 0\<rparr>,
     peer_ttl = 0,
     port_description = \<lparr>descr_string = replicate 60 0, descr_is_valid = False, descr_len = 0\<rparr>,
     management_address = \<lparr>man_value = replicate 31 0, man_subtype = 0, man_len = 0,
       man_interface_number = \<lparr>ifn_value = 0, ifn_subtype = 0\<rparr>, man_is_valid = False\<rparr>,
     port_delay = \<lparr>rx_delay_local = 0, rx_delay_remote = 0, tx_delay_local = 0, tx_delay_remote = 0,
       cable_delay_local = 0, delay_is_valid = False\<rparr>,
     port_status = replicate 4 0, peer_mac_address = replicate 6 0, line_delay = 0,
     phy_config = \<lparr>is_autonegotiation_supported = False, is_autonegotiation_enabled = False,
       autonegotiation_advertised_capabilities = 0, operational_mau_type = 0, link_is_valid = False\<rparr>\<rparr>"

definition demo_port :: pf_port where
  "demo_port = \<lparr>netif_name = [101, 0], netif_mac_address = [1, 2, 3, 4, 5, 8], previous_is_link_up = True,
     port_name = [112, 111, 114, 116, 45, 48, 48, 49] @ replicate 7 0, port_num = 1,
     pdport = \<lparr>lldp_peer_info_updated = False, check_active = False,
       check_peer = \<lparr>length_peer_port_name = 0, peer_port_name = replicate 256 0,
         length_peer_station_name = 0, peer_station_name = replicate 241 0\<rparr>,
       adjust_active = False, adjust_boundary = \<lparr>do_not_send_LLDP_frames = False,
         do_not_send_pctp_delay_request_frames = False, do_not_send_path_delay_request_frames = False,
         adjust_properties = 0\<rparr>\<rparr>,
     lldp = \<lparr>peer_info = demo_peer_info, timestamp_for_last_peer_change = 0, rx_timeout = demo_timer,
       tx_timeout = demo_timer, is_peer_info_received = False\<rparr>,
     eth_status = \<lparr>eth_is_autonegotiation_supported = True, eth_is_autonegotiation_enabled = True,
       eth_advertised_capabilities = 0, eth_operational_mau_type = 16, eth_running = True\<rparr>\<rparr>"

definition demo_host :: host where
  "demo_host = \<lparr>fspm_cfg = demo_cfg, fspm_default_cfg = demo_cfg,
     fspm_log_book = \<lparr>lb_time_ts = le_time_ts demo_log_entry, lb_entries = replicate 4 demo_log_entry,
       lb_put = 0, lb_wrap = False\<rparr>,
     cmina_nonvolatile_dcp_ase = demo_ase, cmina_current_dcp_ase = demo_ase,
     cmina_state = PF_CMINA_STATE_SET_IP, cmina_error_decode = 0, cmina_error_code_1 = 0,
     cmina_hello_count = 0, cmina_hello_timeout = demo_timer, cmina_commit_ip_suite = False,
     dcp_global_block_qualifier = 0, dcp_sam = replicate 6 0, dcp_delayed_response_waiting = False,
     dcp_led_timeout = demo_timer, dcp_sam_timeout = demo_timer, dcp_identresp_timeout = demo_timer,
     name_of_device_legacy = False, net_ports = [demo_port], link_monitor_next_port = 1,
     link_monitor_timeout = demo_timer\<rparr>"

definition demo_net :: pnet where
  "demo_net = \<lparr>net_sched = the (pf_scheduler_init 4 1000), net_now = 0,
     net_heap = [Some \<lparr>payload = replicate 64 0, b_len = 64\<rparr>], eth_id_map = [], net_ars = [demo_conn],
     net_sessions = [], net_session_bufs = [], net_session_number = 0, net_rpcreq_socket = 3, net_device = \<lparr>dev_apis = [], diag_items = [], diag_items_free = 0\<rparr>,
     global_alarm_enable = True, cpm_instance_cnt = 1, cpm_buf_lock = True, ppm_instance_cnt = 0,
     ppm_buf_lock = False, net_mac = [1, 2, 3, 4, 5, 7], net_host = demo_host, net_out = [],
     net_world = \<lparr>w_alloc = (\<lambda>_. True), w_send = (\<lambda>_. 64), w_app = (\<lambda>_. 0),
       w_result = (\<lambda>_ r. r), w_ar0 = demo_conn,
       w_alarm_data_size = 1024, w_diag_item_size = 1036, w_use_qualified_diagnosis = False,
       w_if_index = 1, w_uptime_10ms = (\<lambda>n. of_nat n), w_eth_status = (\<lambda>_ _. None),
       w_saved_ase = (\<lambda>_. None), w_udp_open = (\<lambda>_. 4), w_udp_send = (\<lambda>_ n. int n)\<rparr>\<rparr>"

end
