(* ===== verification/Pn_Block_Reader_Correct.thy ===== *)
theory Pn_Block_Reader_Correct
  imports Pn_Block_Reader
begin

text \<open>
  What every parser of the block reader does to the parser state, how many bytes the parsers of
  a fixed layout take, and which parsers never leave their arrays.
\<close>

named_theorems parsers \<open>the definitions of the parsers, for proofs by their structure\<close>

lemmas [parsers] = pf_get_uuid_def pf_get_handle_def pf_get_frame_descriptor_def
  pf_get_iocr_api_entry_def pf_get_data_descriptor_def pf_get_exp_submodule_def
  pf_get_block_header_def terminate_at_def pf_get_ar_param_def pf_get_iocr_param_body_def
  pf_get_iocr_param_def pf_get_exp_module_def pf_get_alarm_cr_request_def
  pf_get_ar_prm_server_request_def pf_get_dfp_iocr_def pf_get_ir_info_request_def
  pf_get_mcr_request_def pf_get_ar_rpc_request_def pf_get_ar_vendor_request_def
  pf_get_control_def pf_get_ndr_data_def pf_get_read_request_def pf_get_epm_lookup_request_def
  get_padding_def pf_get_write_request_def pf_get_im_1_def pf_get_alarm_fixed_def
  pf_get_alarm_data_def pf_get_alarm_ack_def pf_get_pnio_status_def pf_get_port_data_check_def
  get_check_peer_def pf_get_port_data_check_check_peers_def pf_get_port_data_adjust_def
  pf_get_port_data_adjust_peer_to_peer_boundary_def pf_get_interface_adjust_def

section \<open>Relations that every parser respects\<close>

text \<open>
  A relation between the parser states before and after is respected by every parser if it is a
  preorder, allows the ghost flag and the byte order to change, and is respected by the two
  primitives that look at the buffer.
\<close>

locale reader_relation =
  fixes R :: "rd \<Rightarrow> rd \<Rightarrow> bool"
  assumes refl: "R s s"
    and trans: "R s t \<Longrightarrow> R t u \<Longrightarrow> R s u"
    and endian: "R s (s\<lparr>is_big_endian := b\<rparr>)"
    and faulty: "R s (s\<lparr>rd_fault := True\<rparr>)"
    and byte: "R s (snd (run_state pf_get_byte s))"
    and mem: "R s (snd (run_state (pf_get_mem n d) s))"
begin

definition keeps :: "'a rdm \<Rightarrow> bool" where
  "keeps m \<longleftrightarrow> (\<forall>s. R s (snd (run_state m s)))"

lemma keeps_run: "keeps m \<Longrightarrow> R s (snd (run_state m s))"
  by (simp add: keeps_def)

lemma keeps_return [simp]: "keeps (rd_return x)"
  by (simp add: keeps_def rd_return_def refl)

lemma keeps_bind:
  assumes "keeps m" and "\<And>x. keeps (f x)"
  shows "keeps (State_Monad.bind m f)"
  unfolding keeps_def
proof
  fix s
  obtain x t where m: "run_state m s = (x, t)" by fastforce
  then have "R s t" using assms(1) unfolding keeps_def by (metis snd_conv)
  moreover have "R t (snd (run_state (f x) t))" using assms(2) unfolding keeps_def by blast
  ultimately show "R s (snd (run_state (State_Monad.bind m f) s))"
    by (simp add: m) (rule trans)
qed

lemma keeps_primitives [simp]:
  "keeps get_result" "keeps get_endian" "keeps (set_endian b)" "keeps (fault x)"
  "keeps pf_get_byte" "keeps (pf_get_mem n d)"
  using refl endian faulty byte mem
  by (simp_all add: keeps_def get_result_def get_endian_def set_endian_def fault_def)

lemma keeps_if: "\<lbrakk>keeps m; keeps n\<rbrakk> \<Longrightarrow> keeps (if b then m else n)"
  by simp

lemma keeps_let: "(\<And>x. keeps (f x)) \<Longrightarrow> keeps (Let y f)"
  by (simp add: Let_def)

lemma keeps_prod: "(\<And>x y. keeps (f x y)) \<Longrightarrow> keeps (case p of (x, y) \<Rightarrow> f x y)"
  by (cases p) simp

lemma keeps_on_elem: "(\<And>x. keeps (f x)) \<Longrightarrow> keeps (on_elem xs i f)"
  unfolding on_elem_def by (intro keeps_if keeps_bind keeps_return keeps_primitives)

lemma keeps_for: "(\<And>i x. keeps (f i x)) \<Longrightarrow> keeps (for_rdm n i f x)"
  by (induction n arbitrary: i x) (simp_all add: keeps_bind)

lemma keeps_uint: "keeps pf_get_uint16" "keeps pf_get_uint32"
  unfolding pf_get_uint16_def pf_get_uint32_def
  by (intro keeps_bind keeps_if keeps_return keeps_primitives)+

lemmas keeps_rules = keeps_return keeps_primitives keeps_bind keeps_if keeps_let keeps_prod
  keeps_on_elem keeps_for keeps_uint

lemma keeps_uuid: "keeps (pf_get_uuid u)"
  unfolding parsers by (intro keeps_rules)

lemma keeps_dce_rpc_header: "keeps (pf_get_dce_rpc_header h)"
  unfolding pf_get_dce_rpc_header_def by (intro keeps_rules keeps_uuid)

lemma keeps_parts:
  "keeps (pf_get_handle a)" "keeps pf_get_frame_descriptor" "keeps (pf_get_iocr_api_entry b)"
  "keeps (pf_get_exp_submodule c)" "keeps pf_get_block_header" "keeps (pf_get_exp_module d e)"
  unfolding parsers by (intro keeps_rules)+

lemma keeps_connect:
  "keeps (pf_get_ar_param r)" "keeps (pf_get_iocr_param i r)" "keeps (pf_get_alarm_cr_request r)"
  "keeps (pf_get_ar_prm_server_request r)" "keeps (pf_get_ir_info_request r)"
  "keeps (pf_get_mcr_request i r)" "keeps (pf_get_ar_rpc_request r)"
  "keeps (pf_get_ar_vendor_request i r)"
  unfolding parsers by (intro keeps_rules)+

lemma keeps_records:
  "keeps (pf_get_control b)" "keeps pf_get_ndr_data" "keeps (pf_get_read_request c)"
  "keeps (pf_get_epm_lookup_request d)" "keeps (pf_get_write_request e)" "keeps (pf_get_im_1 f)"
  unfolding parsers by (intro keeps_rules)+

lemma keeps_alarms:
  "keeps pf_get_alarm_fixed" "keeps (pf_get_alarm_data a)" "keeps (pf_get_alarm_ack a)"
  "keeps pf_get_pnio_status"
  unfolding parsers by (intro keeps_rules)+

lemma keeps_ports:
  "keeps pf_get_port_data_check" "keeps (pf_get_port_data_check_check_peers n p)"
  "keeps pf_get_port_data_adjust" "keeps pf_get_port_data_adjust_peer_to_peer_boundary"
  "keeps pf_get_interface_adjust"
  unfolding parsers by (intro keeps_rules)+

lemmas keeps_all = keeps_uint keeps_uuid keeps_parts keeps_dce_rpc_header keeps_connect
  keeps_records keeps_alarms keeps_ports

end

text \<open>The expected modules report their own errors, over any error that is already there.\<close>

locale reader_relation_reporting = reader_relation +
  assumes report: "r \<noteq> PF_PARSE_OK \<Longrightarrow> R s (s\<lparr>result := r\<rparr>)"
begin

lemma keeps_set_result: "r \<noteq> PF_PARSE_OK \<Longrightarrow> keeps (set_result r)"
  by (simp add: keeps_def set_result_def report)

lemma keeps_exp_api_entry: "keeps (pf_get_exp_api_entry a)"
  unfolding pf_get_exp_api_entry_def
  by (intro keeps_rules keeps_set_result keeps_parts) simp

lemma keeps_exp_api_step: "keeps (pf_get_exp_api_step (q, r))"
  unfolding pf_get_exp_api_step_def Let_def
  by (auto split: option.splits
      intro!: keeps_rules keeps_set_result keeps_exp_api_entry)

lemma keeps_exp_api_module: "keeps (pf_get_exp_api_module r)"
  unfolding pf_get_exp_api_module_def
  by (intro keeps_rules) (metis keeps_exp_api_step surj_pair)

end

section \<open>Errors stick, and the position stays inside the input\<close>

text \<open>
  The frame and its length stay, the position moves forward and not past the end, and after an
  error it does not move. Most parsers also keep the first error; the expected modules may
  replace it by their own.
\<close>

definition reader_frame :: "rd \<Rightarrow> rd \<Rightarrow> bool" where
  "reader_frame s t \<longleftrightarrow>
     p_buf t = p_buf s \<and> buf_len t = buf_len s \<and> rd_pos s \<le> rd_pos t \<and>
     (rd_fault s \<longrightarrow> rd_fault t) \<and>
     (rd_pos s \<le> buf_len s \<longrightarrow> rd_pos t \<le> buf_len s) \<and>
     (result s \<noteq> PF_PARSE_OK \<longrightarrow> result t \<noteq> PF_PARSE_OK \<and> rd_pos t = rd_pos s)"

definition keeps_first_error :: "rd \<Rightarrow> rd \<Rightarrow> bool" where
  "keeps_first_error s t \<longleftrightarrow>
     reader_frame s t \<and> (result s \<noteq> PF_PARSE_OK \<longrightarrow> result t = result s)"

lemma byte_first_error: "keeps_first_error s (snd (run_state pf_get_byte s))"
  using unat_inc_less [of "rd_pos s" "buf_len s"]
  by (auto simp: pf_get_byte_def keeps_first_error_def reader_frame_def word_le_nat_alt
      split: option.splits)

lemma mem_first_error: "keeps_first_error s (snd (run_state (pf_get_mem n d) s))"
  using unat_add_le [of "rd_pos s" n "buf_len s"]
  by (auto simp: pf_get_mem_def keeps_first_error_def reader_frame_def word_le_nat_alt
      split: option.splits)

interpretation first_error: reader_relation keeps_first_error
  using byte_first_error mem_first_error
  by unfold_locales (auto simp: keeps_first_error_def reader_frame_def)

interpretation frame: reader_relation_reporting reader_frame
proof unfold_locales
  show "reader_frame s (snd (run_state pf_get_byte s))" for s
    using byte_first_error [of s] by (simp add: keeps_first_error_def)
  show "reader_frame s (snd (run_state (pf_get_mem n d) s))" for s n d
    using mem_first_error [of s n d] by (simp add: keeps_first_error_def)
qed (auto simp: reader_frame_def)

section \<open>Parsers of a fixed layout\<close>

text \<open>
  \<open>honest s\<close>: there is input, and the announced length does not exceed it. \<open>takes n m\<close>: the
  parser \<open>m\<close> takes exactly \<open>n\<close> bytes when they are there, reports the end of the input when
  they are not, keeps an earlier error, and raises no fault.
\<close>

definition honest :: "rd \<Rightarrow> bool" where
  "honest s \<longleftrightarrow> (\<exists>b. p_buf s = Some b \<and> unat (buf_len s) \<le> length b) \<and> rd_pos s \<le> buf_len s"

definition took :: "nat \<Rightarrow> rd \<Rightarrow> rd \<Rightarrow> bool" where
  "took n s t \<longleftrightarrow>
     honest t \<and> rd_fault t = rd_fault s \<and> buf_len t = buf_len s \<and> p_buf t = p_buf s \<and>
     (if result s \<noteq> PF_PARSE_OK then result t = result s
      else if unat (rd_pos s) + n \<le> unat (buf_len s)
      then result t = PF_PARSE_OK \<and> unat (rd_pos t) = unat (rd_pos s) + n
      else result t = PF_PARSE_END_OF_INPUT)"

definition takes :: "nat \<Rightarrow> 'a rdm \<Rightarrow> ('a \<Rightarrow> bool) \<Rightarrow> bool" where
  "takes n m Q \<longleftrightarrow>
     (\<forall>s. honest s \<longrightarrow> Q (fst (run_state m s)) \<and> took n s (snd (run_state m s)))"

lemma took_trans: "took a s t \<Longrightarrow> took b t u \<Longrightarrow> took (a + b) s u"
  by (auto simp: took_def split: if_splits)

lemma takes_return: "Q x \<Longrightarrow> takes 0 (rd_return x) Q"
  by (auto simp: takes_def took_def rd_return_def honest_def word_le_nat_alt)

lemma takes_bind:
  assumes "takes a m P" and "\<And>x. P x \<Longrightarrow> takes b (f x) Q"
  shows "takes (a + b) (State_Monad.bind m f) Q"
  unfolding takes_def
proof (intro allI impI)
  fix s assume h: "honest s"
  obtain x t where m: "run_state m s = (x, t)" by fastforce
  with assms(1) h have "P x" and st: "took a s t" by (auto simp: takes_def)
  from st have "honest t" by (simp add: took_def)
  with assms(2) [OF \<open>P x\<close>] have "Q (fst (run_state (f x) t))" "took b t (snd (run_state (f x) t))"
    by (auto simp: takes_def)
  then show "Q (fst (run_state (State_Monad.bind m f) s)) \<and>
      took (a + b) s (snd (run_state (State_Monad.bind m f) s))"
    using took_trans [OF st] by (simp add: m)
qed

lemma takes_get_result:
  "takes 0 get_result (\<lambda>_. True)" "takes 0 get_endian (\<lambda>_. True)"
  "takes 0 (set_endian b) (\<lambda>_. True)"
  by (auto simp: takes_def took_def get_result_def get_endian_def set_endian_def honest_def
      word_le_nat_alt)

lemma takes_byte: "takes 1 pf_get_byte (\<lambda>_. True)"
  unfolding takes_def
proof (intro allI impI conjI TrueI)
  fix s assume "honest s"
  then obtain b where b: "p_buf s = Some b" "unat (buf_len s) \<le> length b"
    "unat (rd_pos s) \<le> unat (buf_len s)"
    by (auto simp: honest_def word_le_nat_alt)
  show "took 1 s (snd (run_state pf_get_byte s))"
  proof (cases "result s = PF_PARSE_OK \<and> unat (rd_pos s) < unat (buf_len s)")
    case True
    moreover from this have "unat (rd_pos s + 1) = unat (rd_pos s) + 1"
      by (intro unat_inc_less [of _ "buf_len s"]) simp
    ultimately show ?thesis
      using b by (simp add: pf_get_byte_def took_def honest_def word_le_nat_alt)
  next
    case False
    then show ?thesis
      using b by (auto simp: pf_get_byte_def took_def honest_def word_le_nat_alt)
  qed
qed

lemma takes_mem:
  assumes "unat n \<le> length d"
  shows "takes (unat n) (pf_get_mem n d) (\<lambda>d'. length d' = length d)"
  unfolding takes_def
proof (intro allI impI)
  fix s assume h: "honest s"
  then obtain b where b: "p_buf s = Some b" "unat (buf_len s) \<le> length b"
    "unat (rd_pos s) \<le> unat (buf_len s)"
    by (auto simp: honest_def word_le_nat_alt)
  show "length (fst (run_state (pf_get_mem n d) s)) = length d \<and>
      took (unat n) s (snd (run_state (pf_get_mem n d) s))"
  proof (cases "result s = PF_PARSE_OK \<and> unat (rd_pos s) + unat n \<le> unat (buf_len s)")
    case True
    moreover from this have "unat (rd_pos s + n) = unat (rd_pos s) + unat n"
      by (intro unat_add_le [of _ _ "buf_len s"]) simp
    ultimately show ?thesis
      using b assms by (auto simp add: pf_get_mem_def took_def honest_def word_le_nat_alt)
  next
    case False
    then show ?thesis
      using b by (auto simp: pf_get_mem_def took_def honest_def word_le_nat_alt)
  qed
qed

lemma takes_seq:
  "takes a m P \<Longrightarrow> a \<le> k \<Longrightarrow> (\<And>x. P x \<Longrightarrow> takes (k - a) (f x) Q) \<Longrightarrow>
    takes k (State_Monad.bind m f) Q"
  using takes_bind [of a m P "k - a" f Q] by simp

lemma takes_done: "k = 0 \<Longrightarrow> Q x \<Longrightarrow> takes k (rd_return x) Q"
  by (simp add: takes_return)

lemmas takes_prims = takes_seq [OF takes_byte] takes_seq [OF takes_get_result(2)]
  takes_seq [OF takes_get_result(3)] takes_done

lemma takes_unless_error:
  assumes "takes n m Q" and "Q d"
  shows "takes n (do { r \<leftarrow> get_result; if r \<noteq> PF_PARSE_OK then rd_return d else m }) Q"
  unfolding takes_def
proof (intro allI impI)
  fix s assume h: "honest s"
  let ?m = "do { r \<leftarrow> get_result; if r \<noteq> PF_PARSE_OK then rd_return d else m }"
  have "run_state ?m s = (if result s \<noteq> PF_PARSE_OK then (d, s) else run_state m s)"
    by (simp add: get_result_def rd_return_def)
  moreover have "took n s s" if "result s \<noteq> PF_PARSE_OK"
    using h that by (simp add: took_def)
  ultimately show "Q (fst (run_state ?m s)) \<and> took n s (snd (run_state ?m s))"
    using assms h by (simp add: takes_def)
qed

lemma takes_uint16: "takes 2 pf_get_uint16 (\<lambda>_. True)"
  unfolding pf_get_uint16_def
  by (intro takes_unless_error takes_prims) simp_all

lemma takes_uint32: "takes 4 pf_get_uint32 (\<lambda>_. True)"
  unfolding pf_get_uint32_def
  by (intro takes_prims) simp_all

lemmas takes_fields = takes_prims takes_seq [OF takes_uint16] takes_seq [OF takes_uint32]
  takes_seq [OF takes_mem]

abbreviation uuid_ok :: "pf_uuid \<Rightarrow> bool" where
  "uuid_ok u \<equiv> length (data4 u) = 8"

lemma takes_uuid: "uuid_ok u \<Longrightarrow> takes 16 (pf_get_uuid u) uuid_ok"
  unfolding pf_get_uuid_def
  by (intro takes_fields) simp_all

lemma takes_block_header: "takes 6 pf_get_block_header (\<lambda>_. True)"
  unfolding pf_get_block_header_def
  by (intro takes_fields) simp_all

lemma takes_on_elem:
  assumes "i < length xs" and "takes a (f (xs ! i)) (\<lambda>_. True)"
  shows "takes a (on_elem xs i f) (\<lambda>ys. length ys = length xs)"
  using assms takes_seq [OF assms(2), of a "\<lambda>x. rd_return (xs[i := x])"]
  by (simp add: on_elem_def takes_return)

lemma takes_for:
  assumes "\<And>i x. \<lbrakk>j \<le> i; i < j + n; P x\<rbrakk> \<Longrightarrow> takes a (f i x) P" and "P x"
  shows "takes (n * a) (for_rdm n j f x) P"
  using assms
proof (induction n arbitrary: j x)
  case 0
  then show ?case by (simp add: takes_return)
next
  case (Suc n)
  have f: "takes a (f j x) P" by (rule Suc.prems) (simp_all add: Suc.prems)
  have rest: "takes (n * a) (for_rdm n (Suc j) f y) P" if "P y" for y
    by (rule Suc.IH) (simp_all add: Suc.prems that)
  show ?case
    by (simp, rule takes_bind [OF f rest])
qed

lemma takes_on_byte:
  "i < length xs \<Longrightarrow> takes 1 (on_elem xs i (\<lambda>_. pf_get_byte)) (\<lambda>ys. length ys = length xs)"
  by (rule takes_on_elem, assumption, rule takes_byte)

lemma takes_padding: "takes (length xs) (get_padding xs) (\<lambda>ys. length ys = length xs)"
proof -
  have "takes (length xs * 1) (get_padding xs) (\<lambda>ys. length ys = length xs)"
    unfolding get_padding_def
  proof (rule takes_for)
    fix i :: nat and ys :: "u8 list"
    assume "i < 0 + length xs" and ys: "length ys = length xs"
    then have "i < length ys" by simp
    from takes_on_byte [OF this]
    show "takes 1 (on_elem ys i (\<lambda>_. pf_get_byte)) (\<lambda>ys. length ys = length xs)"
      by (simp only: ys)
  qed simp
  then show ?thesis by simp
qed

lemma takes_handle:
  "length (node (handle_uuid h)) = 6 \<Longrightarrow>
    takes 20 (pf_get_handle h) (\<lambda>h. length (node (handle_uuid h)) = 6)"
  unfolding pf_get_handle_def
  by (intro takes_fields) simp_all

text \<open>The arrays in the structures have the sizes that their C types give them.\<close>

abbreviation rpc_header_ok :: "pf_rpc_header \<Rightarrow> bool" where
  "rpc_header_ok h \<equiv> uuid_ok (object_uuid h) \<and> uuid_ok (interface_uuid h) \<and>
     uuid_ok (activity_uuid h)"

abbreviation read_request_ok :: "pf_iod_read_request \<Rightarrow> bool" where
  "read_request_ok r \<equiv> uuid_ok (rreq_ar_uuid r) \<and> uuid_ok (target_ar_uuid r) \<and>
     length (rreq_padding r) = 2 \<and> length (rreq_rw_padding r) = 8"

abbreviation write_request_ok :: "pf_iod_write_request \<Rightarrow> bool" where
  "write_request_ok r \<equiv> uuid_ok (wreq_ar_uuid r) \<and>
     length (wreq_padding r) = 2 \<and> length (wreq_rw_padding r) = 24"

abbreviation lookup_request_ok :: "pf_rpc_lookup_req \<Rightarrow> bool" where
  "lookup_request_ok r \<equiv> uuid_ok (lreq_object_uuid r) \<and> uuid_ok (lreq_interface_uuid r) \<and>
     length (node (handle_uuid (lreq_rpc_handle r))) = 6"

abbreviation im_1_ok :: "pnet_im_1 \<Rightarrow> bool" where
  "im_1_ok i \<equiv> length (im_tag_function i) = 33 \<and> length (im_tag_location i) = 23"

lemmas takes_blocks = takes_fields takes_seq [OF takes_uuid] takes_seq [OF takes_handle]
  takes_seq [OF takes_block_header] takes_seq [OF takes_on_byte]

lemma takes_dce_rpc_header:
  "rpc_header_ok h \<Longrightarrow> takes 80 (pf_get_dce_rpc_header h) rpc_header_ok"
  unfolding pf_get_dce_rpc_header_def Let_def
  by (intro takes_blocks) simp_all

lemma takes_control:
  "uuid_ok (cb_ar_uuid c) \<Longrightarrow> takes 26 (pf_get_control c) (\<lambda>c. uuid_ok (cb_ar_uuid c))"
  unfolding pf_get_control_def
  by (intro takes_blocks) simp_all

lemma takes_read_request:
  "read_request_ok r \<Longrightarrow> takes 58 (pf_get_read_request r) read_request_ok"
  unfolding pf_get_read_request_def
  by (intro takes_blocks takes_seq [OF takes_padding]) simp_all

lemma takes_write_request:
  "write_request_ok r \<Longrightarrow> takes 58 (pf_get_write_request r) write_request_ok"
  unfolding pf_get_write_request_def
  by (intro takes_blocks takes_seq [OF takes_padding]) simp_all

lemma takes_epm_lookup_request:
  "lookup_request_ok r \<Longrightarrow> takes 76 (pf_get_epm_lookup_request r) lookup_request_ok"
  unfolding pf_get_epm_lookup_request_def
  by (intro takes_blocks) simp_all

lemma takes_terminate:
  "i < length xs \<Longrightarrow> takes 0 (terminate_at xs i) (\<lambda>ys. length ys = length xs)"
  unfolding terminate_at_def
  by (rule takes_on_elem) (simp_all add: takes_return)

lemma takes_im_1: "im_1_ok i \<Longrightarrow> takes 54 (pf_get_im_1 i) im_1_ok"
  unfolding pf_get_im_1_def Let_def
  by (intro takes_blocks takes_seq [OF takes_terminate]) simp_all

lemma takes_alarms:
  "takes 10 pf_get_alarm_fixed (\<lambda>_. True)" "takes 20 (pf_get_alarm_data d) (\<lambda>_. True)"
  "takes 12 (pf_get_alarm_ack d) (\<lambda>_. True)" "takes 4 pf_get_pnio_status (\<lambda>_. True)"
  unfolding parsers by (intro takes_blocks; simp)+

lemma takes_port_data:
  "takes 12 pf_get_port_data_check (\<lambda>_. True)" "takes 12 pf_get_port_data_adjust (\<lambda>_. True)"
  "takes 8 pf_get_port_data_adjust_peer_to_peer_boundary (\<lambda>_. True)"
  "takes 6 pf_get_interface_adjust (\<lambda>_. True)"
  unfolding pf_get_port_data_check_def pf_get_port_data_adjust_def
    pf_get_port_data_adjust_peer_to_peer_boundary_def pf_get_interface_adjust_def
  by (intro takes_blocks; simp)+

lemma takes_connect_parts:
  "takes 20 (pf_get_alarm_cr_request r) (\<lambda>_. True)" "takes 2 (pf_get_ar_rpc_request r) (\<lambda>_. True)"
  "takes 20 pf_get_ndr_data (\<lambda>_. True)" "takes 6 pf_get_frame_descriptor (\<lambda>_. True)"
  unfolding parsers by (intro takes_blocks; simp)+

section \<open>Parsers that stay inside their arrays\<close>

text \<open>
  \<open>safe m Q\<close>: no contents of the frame make \<open>m\<close> leave an array, and the result satisfies \<open>Q\<close>.
\<close>

definition safe :: "'a rdm \<Rightarrow> ('a \<Rightarrow> bool) \<Rightarrow> bool" where
  "safe m Q \<longleftrightarrow> (\<forall>s. honest s \<longrightarrow> Q (fst (run_state m s)) \<and> honest (snd (run_state m s)) \<and>
     rd_fault (snd (run_state m s)) = rd_fault s)"

lemma takes_safe: "takes n m Q \<Longrightarrow> safe m Q"
  by (auto simp: takes_def safe_def took_def)

lemma safe_bind:
  assumes "safe m P" and "\<And>x. P x \<Longrightarrow> safe (f x) Q"
  shows "safe (State_Monad.bind m f) Q"
  unfolding safe_def
proof (intro allI impI)
  fix s assume h: "honest s"
  obtain x t where m: "run_state m s = (x, t)" by fastforce
  with assms(1) h have "P x" "honest t" "rd_fault t = rd_fault s" by (auto simp: safe_def)
  with assms(2) [OF \<open>P x\<close>] show "Q (fst (run_state (State_Monad.bind m f) s)) \<and>
      honest (snd (run_state (State_Monad.bind m f) s)) \<and>
      rd_fault (snd (run_state (State_Monad.bind m f) s)) = rd_fault s"
    by (simp add: m safe_def)
qed

lemma safe_return: "Q x \<Longrightarrow> safe (rd_return x) Q"
  by (simp add: safe_def rd_return_def)

lemmas safe_seq = safe_bind [OF takes_safe]

lemmas safe_fields = safe_return safe_seq [OF takes_byte] safe_seq [OF takes_uint16]
  safe_seq [OF takes_uint32] safe_seq [OF takes_uuid] safe_seq [OF takes_mem]

lemma safe_terminate:
  "i < length xs \<Longrightarrow> safe (terminate_at xs i) (\<lambda>ys. length ys = length xs \<and> ys ! i = 0)"
  by (simp add: safe_def terminate_at_def on_elem_def rd_return_def)

abbreviation ar_param_ok :: "pf_ar_param \<Rightarrow> bool" where
  "ar_param_ok p \<equiv> uuid_ok (arp_ar_uuid p) \<and> uuid_ok (cm_initiator_object_uuid p) \<and>
     length (cm_initiator_mac_add p) = 6 \<and> length (cm_initiator_station_name p) = 241"

lemma safe_ar_param:
  assumes "ar_param_ok (ar_param r)"
  shows "safe (pf_get_ar_param r) (\<lambda>r'. ar_param_ok (ar_param r') \<and>
    cm_initiator_station_name (ar_param r') !
      min (unat (cm_initiator_station_name_len (ar_param r'))) 240 = 0)"
  unfolding pf_get_ar_param_def Let_def
  using assms
  by (intro safe_fields safe_bind [OF safe_terminate]) (auto simp: min_def split: if_splits)

section \<open>The arrays of expected modules\<close>

definition yields :: "'a rdm \<Rightarrow> ('a \<Rightarrow> bool) \<Rightarrow> bool" where
  "yields m Q \<longleftrightarrow> (\<forall>s. Q (fst (run_state m s)))"

lemma yields_bind:
  "yields m P \<Longrightarrow> (\<And>x. P x \<Longrightarrow> yields (f x) Q) \<Longrightarrow> yields (State_Monad.bind m f) Q"
  by (auto simp: yields_def split: prod.split) (metis fst_conv)

lemma yields_any: "yields m (\<lambda>_. True)"
  by (simp add: yields_def)

lemma yields_return: "Q x \<Longrightarrow> yields (rd_return x) Q" "Q x \<Longrightarrow> yields (fault x) Q"
  by (simp_all add: yields_def rd_return_def fault_def)

lemma yields_on_elem:
  "(\<And>x. x \<in> set xs \<Longrightarrow> P x) \<Longrightarrow> (\<And>x. P x \<Longrightarrow> yields (f x) P) \<Longrightarrow>
    yields (on_elem xs i f) (\<lambda>ys. length ys = length xs \<and> (\<forall>y \<in> set ys. P y))"
  by (auto simp: on_elem_def yields_def fault_def rd_return_def set_update_subset_insert
      dest!: set_update_subset_insert [THEN subsetD] split: prod.split)
    (metis fst_conv nth_mem)

lemma yields_for:
  "(\<And>i x. P x \<Longrightarrow> yields (f i x) P) \<Longrightarrow> P x \<Longrightarrow> yields (for_rdm n i f x) P"
proof (induction n arbitrary: i x)
  case 0
  then show ?case by (simp add: yields_return)
next
  case (Suc n)
  have "yields (f i x) P" using Suc.prems by blast
  moreover have "yields (for_rdm n (Suc i) f y) P" if "P y" for y
    using Suc.IH [OF Suc.prems(1) that] by blast
  ultimately show ?case by (simp add: yields_bind)
qed

definition exp_api_ok :: "pf_exp_api \<Rightarrow> bool" where
  "exp_api_ok a \<longleftrightarrow> unat (nbr_modules a) \<le> length (modules a)"

definition exp_apis_ok :: "pf_ar \<Rightarrow> bool" where
  "exp_apis_ok r \<longleftrightarrow> unat (nbr_exp_apis r) \<le> length (exp_apis r) \<and>
     (\<forall>a \<in> set (exp_apis r). exp_api_ok a)"

lemma unat_inc_le: "unat (n :: u16) < k \<Longrightarrow> unat (n + 1) \<le> k"
  by (simp add: unat_word_ariths(1))

lemma yields_exp_api_entry:
  assumes "exp_api_ok a"
  shows "yields (pf_get_exp_api_entry a) exp_api_ok"
  unfolding pf_get_exp_api_entry_def
proof (intro yields_bind [OF yields_any], goal_cases)
  case (1 slot)
  show ?case
  proof (cases "unat (nbr_modules a) < length (modules a)")
    case True
    have "yields (on_elem (modules a) (unat (nbr_modules a)) (pf_get_exp_module slot))
        (\<lambda>ys. length ys = length (modules a) \<and> (\<forall>y \<in> set ys. True))"
      by (rule yields_on_elem) (simp_all add: yields_any)
    then show ?thesis
      using True unat_inc_le by (auto intro!: yields_bind yields_return simp: exp_api_ok_def)
  next
    case False
    then show ?thesis
      using assms by (auto intro!: yields_bind [OF yields_any] yields_return)
  qed
qed

lemma exp_apis_okI:
  "unat n \<le> length xs \<Longrightarrow> \<forall>a \<in> set xs. exp_api_ok a \<Longrightarrow>
    exp_apis_ok (r\<lparr>nbr_exp_apis := n, exp_apis := xs\<rparr>)"
  by (simp add: exp_apis_ok_def)

lemma yields_exp_api_step:
  assumes "exp_apis_ok r"
  shows "yields (pf_get_exp_api_step (q, r)) (\<lambda>(q', r'). exp_apis_ok r')"
proof -
  have update: "yields (do { xs \<leftarrow> on_elem (exp_apis t) i pf_get_exp_api_entry;
      rd_return (q', t\<lparr>exp_apis := xs\<rparr>) }) (\<lambda>(q', r'). exp_apis_ok r')"
    if "exp_apis_ok t" for t i and q' :: "nat option"
    using that
    by (intro yields_bind [OF yields_on_elem [where P = exp_api_ok]])
      (auto simp: exp_apis_ok_def yields_exp_api_entry intro!: yields_return)
  have fresh: "exp_apis_ok (r\<lparr>nbr_exp_apis := nbr_exp_apis r + 1,
      exp_apis := (exp_apis r)[unat (nbr_exp_apis r) :=
        (exp_apis r ! unat (nbr_exp_apis r))\<lparr>exp_api := a, nbr_modules := 0\<rparr>]\<rparr>)"
    if "unat (nbr_exp_apis r) < length (exp_apis r)" for a
    using assms that unat_inc_le [OF that]
    by (auto simp: exp_apis_ok_def exp_api_ok_def
        dest!: set_update_subset_insert [THEN subsetD])
  have fail: "yields (do { set_result e; rd_return (q', r) }) (\<lambda>(q', r'). exp_apis_ok r')"
    for e and q' :: "nat option"
    using assms by (intro yields_bind [OF yields_any]) (simp add: yields_return)
  have nofault: "\<not> unat (nbr_exp_apis r) > length (exp_apis r)"
    using assms by (simp add: exp_apis_ok_def)
  show ?thesis
    unfolding pf_get_exp_api_step_def prod.case
  proof (intro yields_bind [OF yields_any], goal_cases)
    case (1 a)
    let ?q = "find_exp_api a (nbr_exp_apis r) (exp_apis r) q"
    show ?case
    proof (cases ?q)
      case None
      then show ?thesis
        using nofault update [OF fresh] fail [where q' = None]
        by (cases "unat (nbr_exp_apis r) < length (exp_apis r)") (simp_all add: Let_def)
    next
      case (Some i)
      then show ?thesis
        using nofault update [OF assms] by (simp add: Let_def)
    qed
  qed
qed

lemma yields_exp_api_module:
  assumes "exp_apis_ok r"
  shows "yields (pf_get_exp_api_module r) exp_apis_ok"
  unfolding pf_get_exp_api_module_def
proof (rule yields_bind [OF yields_any])
  fix n :: u16
  have "yields (for_rdm (unat n) 0 (\<lambda>_. pf_get_exp_api_step) (None, r)) (\<lambda>(q', r'). exp_apis_ok r')"
    using assms yields_exp_api_step by (intro yields_for) auto
  then show "yields (do { (_, t) \<leftarrow> for_rdm (unat n) 0 (\<lambda>_. pf_get_exp_api_step) (None, r);
      rd_return t }) exp_apis_ok"
    by (rule yields_bind) (auto intro: yields_return)
qed

section \<open>Counts from the frame that lead outside an array\<close>

lemma for_elems_fault:
  assumes "\<And>x. frame.keeps (f x)"
  shows "j \<le> length xs \<Longrightarrow> length xs < j + n \<Longrightarrow>
    rd_fault (snd (run_state (for_rdm n j (\<lambda>i ys. on_elem ys i f) xs) s))"
proof (induction n arbitrary: j xs s)
  case 0
  then show ?case by simp
next
  case (Suc n)
  obtain ys t where t: "run_state (on_elem xs j f) s = (ys, t)" by fastforce
  show ?case
  proof (cases "j < length xs")
    case True
    then have "length ys = length xs"
      using t by (auto simp: on_elem_def rd_return_def split: prod.splits)
    then show ?thesis using Suc True by (simp add: t)
  next
    case False
    then have "rd_fault t" using t by (auto simp: on_elem_def fault_def)
    moreover have "frame.keeps (for_rdm n (Suc j) (\<lambda>i ys. on_elem ys i f) ys)"
      by (intro frame.keeps_rules assms)
    ultimately show ?thesis
      by (simp add: t frame.keeps_def reader_frame_def)
  qed
qed

lemma bind_step:
  "run_state m s = (x, t) \<Longrightarrow> run_state (State_Monad.bind m f) s = run_state (f x) t"
  by simp

lemma bind_fault:
  assumes "run_state m s = (x, t)" and "rd_fault t" and "frame.keeps (f x)"
  shows "rd_fault (snd (run_state (State_Monad.bind m f) s))"
  using assms by (simp add: frame.keeps_def reader_frame_def)

lemma api_entry_fault:
  assumes "run_state pf_get_uint32 s = (a, s1)" and "run_state pf_get_uint16 s1 = (n, s2)"
    and "length (io_data p) < unat n"
  shows "rd_fault (snd (run_state (pf_get_iocr_api_entry p) s))"
proof -
  obtain ds s3 where s3: "run_state (for_rdm (unat n) 0
      (\<lambda>ix ds. on_elem ds ix (\<lambda>_. pf_get_frame_descriptor)) (io_data p)) s2 = (ds, s3)"
    by fastforce
  have "rd_fault s3"
    using for_elems_fault [of "\<lambda>_. pf_get_frame_descriptor" 0 "io_data p" "unat n" s2]
      frame.keeps_parts(2) assms(3) by (simp add: s3)
  then show ?thesis
    unfolding pf_get_iocr_api_entry_def bind_step [OF assms(1)] bind_step [OF assms(2)]
    by (rule bind_fault [OF s3]) (intro frame.keeps_rules frame.keeps_parts)
qed

end
