(* ===== verification/Pn_Block_Writer_Correct.thy ===== *)
theory Pn_Block_Writer_Correct
  imports Pn_Block_Writer
begin

text \<open>
  What the writers put on the wire when there is room (\<open>emits_at\<close>), and that with any room they
  change nothing outside the free part of the output buffer (\<open>contained\<close>).
\<close>

named_theorems emits \<open>the bytes that each writer puts on the wire\<close>
named_theorems contains \<open>the writers that stay inside the output buffer\<close>


definition fits :: "wr \<Rightarrow> nat \<Rightarrow> bool" where
  "fits w n \<longleftrightarrow> unat (wr_pos w) + n \<le> unat (wr_res_len w) \<and>
     unat (wr_res_len w) \<le> length (wr_bytes w)"

definition append_bytes :: "u8 list \<Rightarrow> wr \<Rightarrow> wr" where
  "append_bytes bs w = w\<lparr>wr_bytes := overlay (unat (wr_pos w)) bs (wr_bytes w),
                 wr_pos := wr_pos w + of_nat (length bs)\<rparr>"

definition emits_at :: "u16 \<Rightarrow> wrm \<Rightarrow> u8 list \<Rightarrow> bool" where
  "emits_at p f bs \<longleftrightarrow>
     (\<forall>w. wr_pos w = p \<longrightarrow> fits w (length bs) \<longrightarrow> f w = Some (append_bytes bs w))"

lemma unat_pos_add:
  assumes "unat (p :: u16) + n \<le> unat (l :: u16)"
  shows "unat (p + of_nat n) = unat p + n"
proof -
  have "n \<le> unat l" using assms by simp
  then have "n < 2 ^ LENGTH(16)" using unsigned_less [of l, where ?'a = nat] by simp
  then have "unat (of_nat n :: u16) = n" by (simp add: unat_of_nat take_bit_nat_eq_self)
  then show ?thesis using unat_add_le [of p "of_nat n" l] assms by simp
qed

lemma fits_emit:
  assumes "fits w (length as + n)"
  shows "fits (append_bytes as w) n" and "unat (wr_pos (append_bytes as w)) = unat (wr_pos w) + length as"
proof -
  show p: "unat (wr_pos (append_bytes as w)) = unat (wr_pos w) + length as"
    using assms unat_pos_add [of "wr_pos w" "length as" "wr_res_len w"]
    by (simp add: append_bytes_def fits_def)
  then show "fits (append_bytes as w) n"
    using assms by (simp add: fits_def) (simp add: append_bytes_def)
qed

lemma emit_emit:
  assumes "fits w (length as + length bs)"
  shows "append_bytes bs (append_bytes as w) = append_bytes (as @ bs) w"
  using fits_emit(2) [OF assms] assms
  by (simp add: append_bytes_def fits_def overlay_overlay add.assoc)

lemma emit_Nil [simp]: "append_bytes [] w = w"
  by (simp add: append_bytes_def)

lemma emits_seq:
  assumes "emits_at p f as" and "emits_at (p + of_nat (length as)) g bs"
  shows "emits_at p (\<lambda>w. do { w \<leftarrow> f w; g w }) (as @ bs)"
  unfolding emits_at_def
proof (intro allI impI)
  fix w assume p: "wr_pos w = p" and "fits w (length (as @ bs))"
  then have w: "fits w (length as + length bs)" by simp
  then have "fits w (length as)" by (simp add: fits_def)
  with assms(1) p have "f w = Some (append_bytes as w)" by (simp add: emits_at_def)
  moreover have "g (append_bytes as w) = Some (append_bytes bs (append_bytes as w))"
    using assms(2) fits_emit(1) [OF w] p by (simp add: emits_at_def append_bytes_def)
  ultimately show "do { w \<leftarrow> f w; g w } = Some (append_bytes (as @ bs) w)"
    using emit_emit [OF w] by simp
qed

lemma puts_append: "puts (fs @ gs) = (\<lambda>w. do { w \<leftarrow> puts fs w; puts gs w })"
  by (induction fs) (auto simp: fun_eq_iff split: bind_split)

lemma puts_Nil: "puts [] = Some"
  by (simp add: fun_eq_iff)

lemma puts_single: "puts [f] = f"
  by (simp add: fun_eq_iff puts_Nil)

lemma emits_puts_Nil: "emits_at p (puts []) []"
  by (simp add: emits_at_def)

lemma emits_puts_Cons:
  "emits_at p f as \<Longrightarrow> emits_at (p + of_nat (length as)) (puts fs) bs \<Longrightarrow>
    emits_at p (puts (f # fs)) (as @ bs)"
  using emits_seq [of p f as "puts fs" bs] by (simp add: emits_at_def)

lemma emits_puts_append:
  "emits_at p (puts fs) as \<Longrightarrow> emits_at (p + of_nat (length as)) (puts gs) bs \<Longrightarrow>
    emits_at p (puts (fs @ gs)) (as @ bs)"
  unfolding puts_append by (rule emits_seq)

lemma emits_concat:
  "list_all2 (\<lambda>f bs. \<forall>p. emits_at p f bs) fs bss \<Longrightarrow> emits_at p (puts fs) (concat bss)"
  by (induction arbitrary: p rule: list_all2_induct) (simp_all add: emits_puts_Nil emits_puts_Cons
      del: puts.simps)

lemma emits_byte [emits]: "emits_at p (pf_put_byte v) [v]"
  by (auto simp: emits_at_def pf_put_byte_def fits_def append_bytes_def overlay_single)

lemma emits_mem [emits]:
  assumes "unat n \<le> length src"
  shows "emits_at p (pf_put_mem src n) (take (unat n) src)"
  using assms by (auto simp: emits_at_def pf_put_mem_def fits_def append_bytes_def)

definition enc16 :: "bool \<Rightarrow> u16 \<Rightarrow> u8 list" where
  "enc16 be v = (let b = [ucast (drop_bit 8 v AND 255), ucast (v AND 255)] in
     if be then b else rev b)"

definition enc32 :: "bool \<Rightarrow> u32 \<Rightarrow> u8 list" where
  "enc32 be v = (let b = [ucast (drop_bit 24 v AND 255), ucast (drop_bit 16 v AND 255),
      ucast (drop_bit 8 v AND 255), ucast (v AND 255)] in if be then b else rev b)"

lemma length_enc [simp]: "length (enc16 be v) = 2" "length (enc32 be u) = 4"
  by (simp_all add: enc16_def enc32_def Let_def)

lemma emits_cong: "emits_at p f as \<Longrightarrow> as = bs \<Longrightarrow> emits_at p f bs"
  by simp

lemma emits_uint16 [emits]: "emits_at p (pf_put_uint16 be v) (enc16 be v)"
proof -
  let ?h = "ucast (drop_bit 8 v AND 255) :: u8" and ?l = "ucast (v AND 255) :: u8"
  have "emits_at p (pf_put_uint16 be v) (concat (if be then [[?h], [?l]] else [[?l], [?h]]))"
    unfolding pf_put_uint16_def
    by (cases be; simp only: if_True if_False; rule emits_concat) (simp_all add: emits)
  then show ?thesis by (cases be) (simp_all add: enc16_def Let_def)
qed

lemma emits_uint32 [emits]: "emits_at p (pf_put_uint32 be v) (enc32 be v)"
proof -
  let ?a = "ucast (drop_bit 24 v AND 255) :: u8" and ?b = "ucast (drop_bit 16 v AND 255) :: u8"
    and ?c = "ucast (drop_bit 8 v AND 255) :: u8" and ?d = "ucast (v AND 255) :: u8"
  have "emits_at p (pf_put_uint32 be v)
      (concat (if be then [[?a], [?b], [?c], [?d]] else [[?d], [?c], [?b], [?a]]))"
    unfolding pf_put_uint32_def
    by (cases be; simp only: if_True if_False; rule emits_concat) (simp_all add: emits)
  then show ?thesis by (cases be) (simp_all add: enc32_def Let_def)
qed

lemma emits_replicate: "emits_at p (puts (replicate n (pf_put_byte v))) (replicate n v)"
proof -
  have "emits_at p (puts (replicate n (pf_put_byte v))) (concat (replicate n [v]))"
    by (rule emits_concat) (simp add: list_all2_conv_all_nth emits)
  moreover have "concat (replicate n [v]) = replicate n v" by (induction n) simp_all
  ultimately show ?thesis by simp
qed

lemma emits_padding [emits]: "emits_at p (pf_put_padding n) (replicate (unat n) 0)"
  by (simp add: pf_put_padding_def emits_replicate)

text \<open>Padding to a multiple of \<open>k\<close> of the distance from the start of the block.\<close>

definition pad_len :: "int \<Rightarrow> u16 \<Rightarrow> u16 \<Rightarrow> nat" where
  "pad_len k start p = nat ((uint start - uint p) mod k)"

lemma mod_neg_zero: "0 < k \<Longrightarrow> nat ((s - p) mod k) = 0 \<Longrightarrow> (p - s) mod k = (0 :: int)"
proof -
  assume k: "0 < k" and n: "nat ((s - p) mod k) = 0"
  have "0 \<le> (s - p) mod k" using k by simp
  with n have "(s - p) mod k = 0" by linarith
  then have "k dvd - (s - p)" unfolding dvd_minus_iff by (rule mod_0_imp_dvd)
  then show "(p - s) mod k = 0" by simp
qed

lemma mod_neg_Suc:
  fixes s p k :: int
  assumes "0 < k" and "nat ((s - p) mod k) = Suc n"
  shows "(p - s) mod k \<noteq> 0" and "nat ((s - (p + 1)) mod k) = n"
proof -
  have m: "(s - p) mod k = int n + 1" using assms by linarith
  moreover have "(s - p) mod k < k" using assms(1) by simp
  ultimately have "(s - (p + 1)) mod k = int n"
    using mod_diff_left_eq [of "s - p" k 1] by (simp add: diff_diff_eq)
  then show "nat ((s - (p + 1)) mod k) = n" by simp
  show "(p - s) mod k \<noteq> 0"
  proof
    assume "(p - s) mod k = 0"
    then have "k dvd s - p" by (metis dvd_minus_iff minus_diff_eq mod_0_imp_dvd)
    then show False using m by simp
  qed
qed

lemma padding_align_steps:
  assumes k: "0 < uint k"
  shows "pad_len (uint k) start (wr_pos w) = n \<Longrightarrow> fits w n \<Longrightarrow>
    pf_put_padding_align start k w = Some (append_bytes (replicate n 0) w)"
proof (induction n arbitrary: w)
  case 0
  then have "(uint (wr_pos w) - uint start) mod uint k = 0"
    by (intro mod_neg_zero k) (simp add: pad_len_def)
  then show ?case by (subst pf_put_padding_align.simps) simp
next
  case (Suc n)
  define v where "v = append_bytes [0] w"
  have fw: "fits w (length [0 :: u8] + n)" using Suc.prems(2) by simp
  have fv: "fits v n" unfolding v_def by (rule fits_emit(1) [OF fw])
  have "unat (wr_pos v) = unat (wr_pos w) + 1"
    unfolding v_def using fits_emit(2) [OF fw] by simp
  then have pos: "uint (wr_pos v) = uint (wr_pos w) + 1" by (simp only: uint_nat of_nat_add of_nat_1)
  have sn: "nat ((uint start - uint (wr_pos w)) mod uint k) = Suc n"
    using Suc.prems(1) by (simp only: pad_len_def)
  have "pad_len (uint k) start (wr_pos v) = n"
    unfolding pad_len_def pos by (rule mod_neg_Suc(2) [OF k sn])
  then have rest: "pf_put_padding_align start k v = Some (append_bytes (replicate n 0) v)"
    using Suc.IH fv by blast
  have byte: "pf_put_byte 0 w = Some v"
    using emits_byte [of "wr_pos w" 0] fw by (simp add: emits_at_def fits_def v_def)
  have "append_bytes (replicate n 0) v = append_bytes (replicate (Suc n) 0) w"
    unfolding v_def using emit_emit [of w "[0]" "replicate n 0"] fw by simp
  then show ?case
    using mod_neg_Suc(1) [OF k sn]
    by (subst pf_put_padding_align.simps) (simp add: byte rest)
qed

lemma emits_padding_align:
  "0 < uint k \<Longrightarrow> emits_at p (pf_put_padding_align start k) (replicate (pad_len (uint k) start p) 0)"
  using padding_align_steps by (simp add: emits_at_def)

section \<open>Blocks\<close>

lemma emits_block_header [emits]:
  "emits_at p (pf_put_block_header be bt n vh vl) (enc16 be bt @ enc16 be (2 + n) @ [vh, vl])"
proof -
  have "emits_at p (pf_put_block_header be bt n vh vl)
      (concat [enc16 be bt, enc16 be (n + 6 - 4), [vh], [vl]])"
    unfolding pf_put_block_header_def by (rule emits_concat) (simp add: emits)
  then show ?thesis by simp
qed

text \<open>The bytes of a block with contents \<open>bs\<close>: its length field counts the contents and the version.\<close>

definition block_bytes :: "bool \<Rightarrow> u16 \<Rightarrow> u8 \<Rightarrow> u8 list \<Rightarrow> u8 list" where
  "block_bytes be bt vl bs =
     enc16 be bt @ enc16 be (2 + of_nat (length bs)) @ [PNET_BLOCK_VERSION_HIGH, vl] @ bs"

lemma length_block_bytes [simp]: "length (block_bytes be bt vl bs) = length bs + 6"
  by (simp add: block_bytes_def)

lemma put_block_length_run:
  assumes f: "fits w (length bs + 6)"
  shows "put_block_length be (wr_pos w)
      (append_bytes (enc16 be bt @ enc16 be n @ [PNET_BLOCK_VERSION_HIGH, vl] @ bs) w) =
    Some (append_bytes (block_bytes be bt vl bs) w)"
proof -
  let ?old = "enc16 be bt @ enc16 be n @ [PNET_BLOCK_VERSION_HIGH, vl] @ bs"
  let ?e = "append_bytes ?old w"
  have p2: "unat (wr_pos w + 2) = unat (wr_pos w) + 2"
    using unat_pos_add [of "wr_pos w" 2 "wr_res_len w"] f by (simp add: fits_def)
  have len: "unat (wr_pos w) + (length bs + 6) \<le> length (wr_bytes w)"
    using f by (simp add: fits_def)
  have fits: "fits (?e\<lparr>wr_pos := wr_pos w + 2\<rparr>) (length (enc16 be m))" for m
    using f p2 by (simp add: fits_def append_bytes_def)
  have dist: "wr_pos ?e - (wr_pos w + 4) = 2 + of_nat (length bs)"
    by (simp add: append_bytes_def)
  have "pf_put_uint16 be m (?e\<lparr>wr_pos := wr_pos w + 2\<rparr>) =
      Some (append_bytes (enc16 be m) (?e\<lparr>wr_pos := wr_pos w + 2\<rparr>))" for m
    using emits_uint16 [of "wr_pos w + 2" be m] fits by (simp add: emits_at_def)
  moreover have "overlay (unat (wr_pos w) + 2) (enc16 be m) (overlay (unat (wr_pos w)) ?old (wr_bytes w)) =
      overlay (unat (wr_pos w)) (enc16 be bt @ enc16 be m @ [PNET_BLOCK_VERSION_HIGH, vl] @ bs)
        (wr_bytes w)" for m
    using overlay_inside [of "enc16 be n" "enc16 be m" "unat (wr_pos w)" "enc16 be bt"
        "[PNET_BLOCK_VERSION_HIGH, vl] @ bs" "wr_bytes w"] len by simp
  ultimately show ?thesis
    by (simp add: put_block_length_def put_at_def dist)
      (simp add: append_bytes_def p2 block_bytes_def)
qed

lemma emits_block:
  assumes "emits_at (p + 6) (puts (body p)) bs"
  shows "emits_at p (put_block be bt vl body) (block_bytes be bt vl bs)"
  unfolding emits_at_def
proof (intro allI impI)
  fix w assume p: "wr_pos w = p" and "fits w (length (block_bytes be bt vl bs))"
  then have f: "fits w (length bs + 6)" by simp
  let ?h = "pf_put_block_header be bt 0 PNET_BLOCK_VERSION_HIGH vl"
  let ?hb = "enc16 be bt @ enc16 be (2 + 0) @ [PNET_BLOCK_VERSION_HIGH, vl]"
  have "emits_at p (puts (?h # body p)) (?hb @ bs)"
    by (rule emits_puts_Cons [OF emits_block_header]) (use assms in simp)
  moreover have "length (?hb @ bs) = length bs + 6" by simp
  ultimately have "puts (?h # body p) w = Some (append_bytes (?hb @ bs) w)"
    using p f unfolding emits_at_def by metis
  moreover have "put_block be bt vl body w =
      do { v \<leftarrow> puts (?h # body p) w; put_block_length be p v }"
    unfolding put_block_def p append_Cons [symmetric]
    by (simp only: puts_append puts_single)
  ultimately show "put_block be bt vl body w = Some (append_bytes (block_bytes be bt vl bs) w)"
    using put_block_length_run [OF f, of be bt "2 + 0" vl] p by simp
qed

section \<open>The bytes of each block\<close>

definition enc_uuid :: "bool \<Rightarrow> pf_uuid \<Rightarrow> u8 list" where
  "enc_uuid be u = enc32 be (data1 u) @ enc16 be (data2 u) @ enc16 be (data3 u) @ data4 u"

lemma length_enc_uuid [simp]: "length (data4 u) = 8 \<Longrightarrow> length (enc_uuid be u) = 16"
  by (simp add: enc_uuid_def)

lemma emits_uuid [emits]:
  assumes "length (data4 u) = 8"
  shows "emits_at p (pf_put_uuid be u) (enc_uuid be u)"
proof -
  have "emits_at p (pf_put_uuid be u)
      (concat [enc32 be (data1 u), enc16 be (data2 u), enc16 be (data3 u), take 8 (data4 u)])"
    unfolding pf_put_uuid_def
    using assms emits_mem [of 8 "data4 u"] by (intro emits_concat) (simp add: emits)
  then show ?thesis using assms by (simp add: enc_uuid_def)
qed

definition control_bytes :: "bool \<Rightarrow> pf_control_block \<Rightarrow> u8 list" where
  "control_bytes be c = [0, 0] @ enc_uuid be (cb_ar_uuid c) @ enc16 be (cb_session_key c) @
     enc16 be (cb_alarm_sequence_number c) @ enc16 be (control_command c) @
     enc16 be (control_block_properties c)"

lemma emits_control:
  assumes "length (data4 (cb_ar_uuid c)) = 8"
  shows "emits_at p (pf_put_control be bt c)
    (block_bytes be bt PNET_BLOCK_VERSION_LOW (control_bytes be c))"
proof -
  have "emits_at q (puts [
       pf_put_byte 0, pf_put_byte 0, pf_put_uuid be (cb_ar_uuid c),
       pf_put_uint16 be (cb_session_key c), pf_put_uint16 be (cb_alarm_sequence_number c),
       pf_put_uint16 be (control_command c), pf_put_uint16 be (control_block_properties c)])
    (concat [[0], [0], enc_uuid be (cb_ar_uuid c), enc16 be (cb_session_key c),
       enc16 be (cb_alarm_sequence_number c), enc16 be (control_command c),
       enc16 be (control_block_properties c)])" for q
    using assms by (intro emits_concat) (simp add: emits)
  then show ?thesis
    unfolding pf_put_control_def by (intro emits_block) (simp add: control_bytes_def)
qed

section \<open>Writers stay inside the output buffer\<close>

text \<open>
  \<open>room_ok w\<close>: the announced size is not larger than the buffer and leaves the positions in range.
  \<open>advance w v\<close>: from \<open>w\<close> to \<open>v\<close> only bytes between the old position and \<^verbatim>\<open>res_len\<close> change.
\<close>

definition room_ok :: "wr \<Rightarrow> bool" where
  "room_ok w \<longleftrightarrow> wr_pos w \<le> wr_res_len w \<and> unat (wr_res_len w) \<le> length (wr_bytes w) \<and>
     wr_res_len w \<le> 65000"

definition advance :: "wr \<Rightarrow> wr \<Rightarrow> bool" where
  "advance w v \<longleftrightarrow> wr_res_len v = wr_res_len w \<and> length (wr_bytes v) = length (wr_bytes w) \<and>
     wr_pos w \<le> wr_pos v \<and> wr_pos v \<le> wr_res_len w \<and>
     take (unat (wr_pos w)) (wr_bytes v) = take (unat (wr_pos w)) (wr_bytes w) \<and>
     drop (unat (wr_res_len w)) (wr_bytes v) = drop (unat (wr_res_len w)) (wr_bytes w)"

definition contained :: "wrm \<Rightarrow> bool" where
  "contained f \<longleftrightarrow> (\<forall>w. room_ok w \<longrightarrow> (\<exists>v. f w = Some v \<and> advance w v))"

lemma advance_refl: "room_ok w \<Longrightarrow> advance w w"
  by (simp add: room_ok_def advance_def)

lemma advance_ok: "room_ok w \<Longrightarrow> advance w v \<Longrightarrow> room_ok v"
  by (simp add: room_ok_def advance_def)

lemma advance_trans:
  assumes "advance w v" and "advance v u"
  shows "advance w u"
proof -
  have le: "unat (wr_pos w) \<le> unat (wr_pos v)"
    using assms(1) by (simp add: advance_def word_le_nat_alt)
  have "take (unat (wr_pos w)) (wr_bytes u) =
      take (unat (wr_pos w)) (take (unat (wr_pos v)) (wr_bytes u))"
    using le by (simp add: min_absorb1)
  also have "\<dots> = take (unat (wr_pos w)) (wr_bytes v)"
    using assms(2) le by (simp add: advance_def min_absorb1)
  finally show ?thesis using assms by (auto simp: advance_def)
qed

lemma contained_puts [contains]: "\<forall>f \<in> set fs. contained f \<Longrightarrow> contained (puts fs)"
proof (induction fs)
  case Nil
  then show ?case by (simp add: contained_def advance_refl)
next
  case (Cons f fs)
  show ?case
    unfolding contained_def
  proof (intro allI impI)
    fix w assume w: "room_ok w"
    then obtain v where v: "f w = Some v" "advance w v"
      using Cons.prems by (auto simp: contained_def)
    have "contained (puts fs)" and "room_ok v"
      using Cons advance_ok [OF w v(2)] by simp_all
    then obtain u where "puts fs v = Some u" "advance v u"
      unfolding contained_def by blast
    then show "\<exists>u. puts (f # fs) w = Some u \<and> advance w u"
      using v advance_trans by auto
  qed
qed

lemma contained_emit:
  assumes "room_ok w" and "unat (wr_pos w) + length bs \<le> unat (wr_res_len w)"
  shows "advance w (append_bytes bs w)"
proof -
  have "unat (wr_pos w + of_nat (length bs)) = unat (wr_pos w) + length bs"
    by (rule unat_pos_add [OF assms(2)])
  then show ?thesis
    using assms by (simp add: advance_def room_ok_def append_bytes_def word_le_nat_alt take_overlay drop_overlay)
qed

lemma contained_byte [contains]: "contained (pf_put_byte v)"
  unfolding contained_def
proof (intro allI impI)
  fix w assume w: "room_ok w"
  show "\<exists>u. pf_put_byte v w = Some u \<and> advance w u"
  proof (cases "unat (wr_pos w) + length [v] \<le> unat (wr_res_len w)")
    case True
    moreover have "pf_put_byte v w = Some (append_bytes [v] w)"
      using emits_byte [of "wr_pos w" v] True w by (simp add: emits_at_def fits_def room_ok_def)
    ultimately show ?thesis using contained_emit [OF w] by blast
  next
    case False
    then show ?thesis using advance_refl [OF w] by (simp add: pf_put_byte_def)
  qed
qed

lemma contained_mem [contains]:
  assumes "unat n \<le> length src"
  shows "contained (pf_put_mem src n)"
  unfolding contained_def
proof (intro allI impI)
  fix w assume w: "room_ok w"
  let ?bs = "take (unat n) src"
  have len: "length ?bs = unat n" using assms by simp
  show "\<exists>u. pf_put_mem src n w = Some u \<and> advance w u"
  proof (cases "unat (wr_pos w) + length ?bs \<le> unat (wr_res_len w)")
    case True
    moreover have "pf_put_mem src n w = Some (append_bytes ?bs w)"
      using emits_mem [OF assms, of "wr_pos w"] True w
      by (simp add: emits_at_def fits_def room_ok_def)
    ultimately show ?thesis using contained_emit [OF w] by blast
  next
    case False
    then show ?thesis using advance_refl [OF w] len by (simp add: pf_put_mem_def)
  qed
qed

lemma contained_if [contains]:
  "(b \<Longrightarrow> contained f) \<Longrightarrow> (\<not> b \<Longrightarrow> contained g) \<Longrightarrow> contained (if b then f else g)"
  by simp

lemma contained_ints [contains]:
  "contained (pf_put_uint16 be v)" "contained (pf_put_uint32 be u)" "contained (pf_put_padding n)"
  by (auto simp: pf_put_uint16_def pf_put_uint32_def pf_put_padding_def contains
      simp del: puts.simps intro!: contained_puts)

lemma contained_block_header [contains]: "contained (pf_put_block_header be bt n vh vl)"
  by (simp add: pf_put_block_header_def contains del: puts.simps)

lemma contained_uuid [contains]:
  "length (data4 u) = 8 \<Longrightarrow> contained (pf_put_uuid be u)"
  "length (node h) = 6 \<Longrightarrow> contained (pf_put_rpc_uuid be h)"
  by (simp_all add: pf_put_uuid_def pf_put_rpc_uuid_def contains del: puts.simps)

lemma contained_each [contains]:
  "n \<le> length xs \<Longrightarrow> \<forall>x \<in> set xs. contained (f x) \<Longrightarrow> contained (put_each n xs f)"
  using contained_puts [of "map f (take n xs)"]
  by (auto simp: put_each_def [abs_def] dest: in_set_takeD)

text \<open>The length is inserted behind the start of its own block, so in front of it nothing changes.\<close>

lemma contained_block [contains]:
  assumes "\<And>p. \<forall>f \<in> set (body p). contained f"
  shows "contained (put_block be bt vl body)"
  unfolding contained_def
proof (intro allI impI)
  fix w assume w: "room_ok w"
  let ?p = "wr_pos w"
  have "contained (puts (pf_put_block_header be bt 0 PNET_BLOCK_VERSION_HIGH vl # body ?p))"
    using assms by (intro contained_puts) (simp add: contains)
  then obtain v where v: "puts (pf_put_block_header be bt 0 PNET_BLOCK_VERSION_HIGH vl # body ?p) w =
      Some v" and wv: "advance w v"
    using w unfolding contained_def by blast
  have vok: "room_ok v" by (rule advance_ok [OF w wv])
  have p2: "unat (?p + 2) = unat ?p + 2"
    using w unat_pos_add [of ?p 2 "65535"] by (simp add: room_ok_def word_le_nat_alt)
  show "\<exists>u. put_block be bt vl body w = Some u \<and> advance w u"
  proof (cases "?p + 2 \<le> wr_res_len w")
    case True
    let ?v = "v\<lparr>wr_pos := ?p + 2\<rparr>"
    have "room_ok ?v" using vok True wv by (simp add: room_ok_def advance_def)
    then obtain u where u: "pf_put_uint16 be (wr_pos v - (?p + 4)) ?v = Some u" "advance ?v u"
      using contained_ints(1) unfolding contained_def by blast
    have "take (unat ?p) (wr_bytes u) = take (unat ?p) (take (unat ?p + 2) (wr_bytes u))"
      by (simp add: min_absorb1)
    also have "\<dots> = take (unat ?p) (wr_bytes v)"
      using u(2) p2 by (simp add: advance_def min_absorb1)
    finally have "advance w (u\<lparr>wr_pos := wr_pos v\<rparr>)"
      using wv u(2) by (simp add: advance_def)
    moreover have "put_block be bt vl body w = Some (u\<lparr>wr_pos := wr_pos v\<rparr>)"
      unfolding put_block_def append_Cons [symmetric] puts_append
      using v u(1) by (simp add: puts_single put_block_length_def put_at_def del: puts.simps)
    ultimately show ?thesis by blast
  next
    case False
    have "pf_put_uint16 be x (v\<lparr>wr_pos := ?p + 2\<rparr>) = Some (v\<lparr>wr_pos := ?p + 2\<rparr>)" for x
      using False wv
      by (simp add: pf_put_uint16_def pf_put_byte_def advance_def word_le_nat_alt)
    then have "put_block be bt vl body w = Some v"
      unfolding put_block_def append_Cons [symmetric] puts_append
      using v by (simp add: puts_single put_block_length_def put_at_def del: puts.simps)
    then show ?thesis using wv by blast
  qed
qed

lemma contained_None: "contained Some"
  by (simp add: contained_def advance_refl)

lemma contained_let: "contained (f x) \<Longrightarrow> contained (Let x f)"
  by (simp add: Let_def)

lemma contained_status [contains]: "contained (pf_put_pnet_status be st)"
  by (simp add: pf_put_pnet_status_def contains)

lemma contained_control [contains]:
  "length (data4 (cb_ar_uuid c)) = 8 \<Longrightarrow> contained (pf_put_control be bt c)"
  unfolding pf_put_control_def by (rule contained_block) (simp add: contains)

abbreviation ar_result_ok :: "pf_ar \<Rightarrow> bool" where
  "ar_result_ok r \<equiv> length (data4 (arp_ar_uuid (ar_param r))) = 8 \<and>
     length (cm_responder_mac_add (ar_result r)) = 6"

lemma contained_connect [contains]:
  "ar_result_ok r \<Longrightarrow> contained (pf_put_ar_result be r)"
  "contained (pf_put_alarm_cr_result be r)"
  "contained (pf_put_ar_rpc_result be r)"
  "unat ix < length (iocrs r) \<Longrightarrow> contained (pf_put_iocr_result be r ix)"
  unfolding pf_put_ar_result_def pf_put_alarm_cr_result_def pf_put_ar_rpc_result_def
    pf_put_iocr_result_def [abs_def]
  by (simp_all add: contains)

definition module_diff_ok :: "pf_module_diff \<Rightarrow> bool" where
  "module_diff_ok m \<longleftrightarrow> unat (nbr_submodule_diffs m) \<le> length (submodule_diffs m)"

definition api_diff_ok :: "pf_api_diff \<Rightarrow> bool" where
  "api_diff_ok a \<longleftrightarrow> unat (nbr_module_diffs a) \<le> length (module_diffs a) \<and>
     (\<forall>m \<in> set (module_diffs a). module_diff_ok m)"

lemma contained_diffs [contains]:
  "contained (pf_put_submodule_diff be d)"
  "module_diff_ok m \<Longrightarrow> contained (pf_put_module_diff be m)"
  "api_diff_ok a \<Longrightarrow> contained (pf_put_api_diff be a)"
proof -
  show s: "contained (pf_put_submodule_diff be d)" for d
    by (simp add: pf_put_submodule_diff_def contains)
  show m: "module_diff_ok m \<Longrightarrow> contained (pf_put_module_diff be m)" for m
    by (simp add: pf_put_module_diff_def module_diff_ok_def contains s)
  show "api_diff_ok a \<Longrightarrow> contained (pf_put_api_diff be a)"
    by (simp add: pf_put_api_diff_def api_diff_ok_def contains m)
qed

lemma contained_ar_diff [contains]:
  assumes "unat (nbr_api_diffs r) \<le> length (api_diffs r)"
    and "\<forall>a \<in> set (api_diffs r). api_diff_ok a"
  shows "contained (pf_put_ar_diff be (Some r))"
proof -
  have "contained (put_block be PF_BT_MODULE_DIFF_BLOCK PNET_BLOCK_VERSION_LOW (\<lambda>_. [
            pf_put_uint16 be (nbr_api_diffs r),
            put_each (unat (nbr_api_diffs r)) (api_diffs r) (pf_put_api_diff be)]))"
    using assms by (intro contained_block) (simp add: contains)
  then show ?thesis
    using contained_None by (simp add: pf_put_ar_diff_def contained_def)
qed

lemma contained_strlen: "strlen cs = Some n \<Longrightarrow> n < length cs"
  by (induction cs arbitrary: n) (auto split: if_splits)

lemma contained_str [contains]:
  assumes "strlen cs = Some n" and "length cs \<le> 65535"
  shows "contained (pf_put_str cs)"
proof -
  have n: "n < length cs" using contained_strlen [OF assms(1)] .
  then have u: "unat (of_nat n :: u16) = n"
    using assms(2) by (simp add: unat_of_nat take_bit_nat_eq_self)
  let ?f = "puts [pf_put_mem cs (of_nat n), puts (replicate (length cs - 1 - n) (pf_put_byte 32))]"
  have "contained (pf_put_mem cs (of_nat n))"
    using n u by (intro contained_mem) simp
  moreover have "contained (puts (replicate k (pf_put_byte 32)))" for k
    by (intro contained_puts) (simp add: contained_byte)
  ultimately have f: "contained ?f"
    by (intro contained_puts) (auto simp del: puts.simps)
  have run: "pf_put_str cs w =
      (if unat (wr_pos w) + length cs > unat (wr_res_len w) then Some w else ?f w)" for w
    by (simp only: pf_put_str_def assms(1) puts.simps(2) [of "pf_put_mem cs (of_nat n)"]
        puts_single bind.bind_lunit)
  show ?thesis
    unfolding contained_def run
  proof (intro allI impI)
    fix w assume w: "room_ok w"
    show "\<exists>v. (if unat (wr_pos w) + length cs > unat (wr_res_len w) then Some w else ?f w) = Some v \<and>
        advance w v"
    proof (cases "unat (wr_pos w) + length cs > unat (wr_res_len w)")
      case True
      then show ?thesis using advance_refl [OF w] by simp
    next
      case False
      then show ?thesis using f w unfolding contained_def by (simp only: if_False)
    qed
  qed
qed

definition str_ok :: "u8 list \<Rightarrow> bool" where
  "str_ok cs \<longleftrightarrow> strlen cs \<noteq> None \<and> length cs \<le> 65535"

lemma contained_string [contains]: "str_ok cs \<Longrightarrow> contained (pf_put_str cs)"
  using contained_str by (auto simp: str_ok_def)

lemma contained_im [contains]:
  "str_ok (im_order_id i) \<Longrightarrow> str_ok (im_serial_number i) \<Longrightarrow> contained (pf_put_im_0 be i)"
  "str_ok (im_tag_function j) \<Longrightarrow> str_ok (im_tag_location j) \<Longrightarrow> contained (pf_put_im_1 be j)"
  "str_ok k \<Longrightarrow> contained (pf_put_im_2 be k)"
  "str_ok k \<Longrightarrow> contained (pf_put_im_3 be k)"
  unfolding pf_put_im_0_def pf_put_im_1_def pf_put_im_2_def pf_put_im_3_def
  by (rule contained_block; simp add: contains)+

lemma contained_records [contains]:
  "unat n \<le> length d \<Longrightarrow> contained (pf_put_record_data_read be bt n d)"
  "unat n \<le> length d \<Longrightarrow> contained (pf_put_record_data_write be bt n d)"
  "length (data4 (rres_ar_uuid r)) = 8 \<Longrightarrow> contained (pf_put_write_result be r st)"
  unfolding pf_put_record_data_read_def pf_put_record_data_write_def pf_put_write_result_def
    put_iod_result_def
  by (rule contained_block; simp add: contains)+

section \<open>The layout of the connect response\<close>

definition ar_result_bytes :: "bool \<Rightarrow> pf_ar \<Rightarrow> u8 list" where
  "ar_result_bytes be r = enc16 be (ar_type (ar_param r)) @ enc_uuid be (arp_ar_uuid (ar_param r)) @
     enc16 be (session_key (ar_param r)) @ cm_responder_mac_add (ar_result r) @
     enc16 be (responder_udp_rt_port (ar_result r))"

lemma emits_ar_result:
  assumes "ar_result_ok r"
  shows "emits_at p (pf_put_ar_result be r)
    (block_bytes be PF_BT_AR_BLOCK_RES PNET_BLOCK_VERSION_LOW (ar_result_bytes be r))"
proof -
  have "emits_at q (puts [pf_put_uint16 be (ar_type (ar_param r)),
     pf_put_uuid be (arp_ar_uuid (ar_param r)), pf_put_uint16 be (session_key (ar_param r)),
     pf_put_mem (cm_responder_mac_add (ar_result r)) 6,
     pf_put_uint16 be (responder_udp_rt_port (ar_result r))])
    (concat [enc16 be (ar_type (ar_param r)), enc_uuid be (arp_ar_uuid (ar_param r)),
     enc16 be (session_key (ar_param r)), take 6 (cm_responder_mac_add (ar_result r)),
     enc16 be (responder_udp_rt_port (ar_result r))])" for q
    using assms emits_mem [of 6 "cm_responder_mac_add (ar_result r)"]
    by (intro emits_concat) (simp add: emits)
  then show ?thesis
    unfolding pf_put_ar_result_def using assms
    by (intro emits_block) (simp add: ar_result_bytes_def)
qed

definition alarm_cr_result_bytes :: "bool \<Rightarrow> pf_alarm_cr_result \<Rightarrow> u8 list" where
  "alarm_cr_result_bytes be a = enc16 be (res_alarm_cr_type a) @ enc16 be (remote_alarm_reference a) @
     enc16 be (res_max_alarm_data_length a)"

lemma emits_alarm_cr_result:
  "emits_at p (pf_put_alarm_cr_result be r) (block_bytes be PF_BT_ALARM_CR_BLOCK_RES
    PNET_BLOCK_VERSION_LOW (alarm_cr_result_bytes be (alarm_cr_result r)))"
proof -
  let ?a = "alarm_cr_result r"
  have "emits_at q (puts [pf_put_uint16 be (res_alarm_cr_type ?a),
     pf_put_uint16 be (remote_alarm_reference ?a), pf_put_uint16 be (res_max_alarm_data_length ?a)])
    (concat [enc16 be (res_alarm_cr_type ?a), enc16 be (remote_alarm_reference ?a),
     enc16 be (res_max_alarm_data_length ?a)])" for q
    by (intro emits_concat) (simp add: emits)
  then show ?thesis
    unfolding pf_put_alarm_cr_result_def by (intro emits_block) (simp add: alarm_cr_result_bytes_def)
qed

definition ar_server_bytes :: "bool \<Rightarrow> pf_ar_server \<Rightarrow> u8 list" where
  "ar_server_bytes be a = (let n = length_cm_responder_station_name a in
     enc16 be n @ take (unat n) (cm_responder_station_name a) @
     replicate (nat (- (8 + int (unat n)) mod 4)) 0)"

text \<open>The server block is padded until its total length is a multiple of four.\<close>

lemma emits_ar_server_result:
  assumes "unat (length_cm_responder_station_name (ar_server r)) \<le>
      length (cm_responder_station_name (ar_server r))"
    and "unat p + 8 + unat (length_cm_responder_station_name (ar_server r)) < 65536"
  shows "emits_at p (pf_put_ar_server_result be r) (block_bytes be PF_BT_AR_SERVER_BLOCK
    PNET_BLOCK_VERSION_LOW (ar_server_bytes be (ar_server r)))"
proof -
  let ?n = "length_cm_responder_station_name (ar_server r)"
    and ?s = "cm_responder_station_name (ar_server r)"
  let ?as = "enc16 be ?n @ take (unat ?n) ?s"
  have as: "emits_at (p + 6) (puts [pf_put_uint16 be ?n, pf_put_mem ?s ?n]) ?as"
    using emits_concat [of "[pf_put_uint16 be ?n, pf_put_mem ?s ?n]" "[enc16 be ?n, take (unat ?n) ?s]"]
      assms(1) by (simp add: emits)
  let ?q = "p + 6 + of_nat (length ?as)"
  have len: "length ?as = 2 + unat ?n" using assms(1) by simp
  have "?q = p + of_nat (8 + unat ?n)" using len by (simp only: of_nat_add) simp
  moreover have "unat (p + of_nat (8 + unat ?n)) = unat p + (8 + unat ?n)"
    using assms(2) unat_pos_add [of p "8 + unat ?n" "65535"] by simp
  ultimately have "uint ?q = uint p + (8 + int (unat ?n))"
    by (simp only: uint_nat of_nat_add of_nat_numeral)
  then have "pad_len (uint (4 :: u16)) p ?q = nat (- (8 + int (unat ?n)) mod 4)"
    by (simp only: pad_len_def) simp
  then have pad: "emits_at ?q (puts [pf_put_padding_align p 4])
      (replicate (nat (- (8 + int (unat ?n)) mod 4)) 0)"
    using emits_padding_align [of 4 ?q p] by (simp add: puts_single)
  have "emits_at (p + 6) (puts [pf_put_uint16 be ?n, pf_put_mem ?s ?n, pf_put_padding_align p 4])
      (ar_server_bytes be (ar_server r))"
    using emits_puts_append [OF as pad] by (simp add: ar_server_bytes_def Let_def del: puts.simps)
  then show ?thesis
    unfolding pf_put_ar_server_result_def by (rule emits_block)
qed

section \<open>Padding a full buffer\<close>

text \<open>When the buffer is full and not aligned, the padding loop makes no progress.\<close>

lemma padding_align_stuck:
  assumes "pf_put_padding_align start k w = Some v"
  shows "\<not> (unat (wr_res_len w) < unat (wr_pos w) + 1 \<and>
    (uint (wr_pos w) - uint start) mod uint k \<noteq> 0)"
proof (rule pf_put_padding_align.raw_induct [OF _ assms])
  fix f :: "u16 \<Rightarrow> u16 \<Rightarrow> wrm" and start k w v
  assume IH: "\<And>start k w v. f start k w = Some v \<Longrightarrow>
      \<not> (unat (wr_res_len w) < unat (wr_pos w) + 1 \<and>
        (uint (wr_pos w) - uint start) mod uint k \<noteq> 0)"
    and body: "(if (uint (wr_pos w) - uint start) mod uint k \<noteq> 0
      then do { w \<leftarrow> pf_put_byte 0 w; f start k w } else Some w) = Some v"
  show "\<not> (unat (wr_res_len w) < unat (wr_pos w) + 1 \<and>
      (uint (wr_pos w) - uint start) mod uint k \<noteq> 0)"
  proof
    assume full: "unat (wr_res_len w) < unat (wr_pos w) + 1 \<and>
      (uint (wr_pos w) - uint start) mod uint k \<noteq> 0"
    then have "pf_put_byte 0 w = Some w" by (simp add: pf_put_byte_def)
    with body full have "f start k w = Some v" by simp
    with IH full show False by blast
  qed
qed

end
