(* ===== verification/Pn_Block_Codec.thy ===== *)
theory Pn_Block_Codec
  imports Pn_Block_Reader_Correct Pn_Block_Writer_Correct
begin

text \<open>
  Reader and writer together: what the parsers return on a given sequence of bytes (\<open>reads\<close>),
  and that they return what the writers have put there.
\<close>

section \<open>Bytes of a word\<close>

lemma mask8: "(w :: 'a::len word) AND 255 = take_bit 8 w"
  by (simp add: take_bit_eq_mask mask_eq_exp_minus_1)

lemma dec16: "push_bit 8 (ucast (ucast (drop_bit 8 v AND 255) :: 8 word)) + ucast (ucast (v AND 255) :: 8 word) = (v :: 16 word)"
  unfolding mask8
  by (subst disjunctive_add; (rule bit_word_eqI)?) (auto simp: bit_simps)

lemma dec32: "push_bit 24 (ucast (ucast (drop_bit 24 v AND 255) :: 8 word)) +
    push_bit 16 (ucast (ucast (drop_bit 16 v AND 255) :: 8 word)) +
    push_bit 8 (ucast (ucast (drop_bit 8 v AND 255) :: 8 word)) + 
    ucast (ucast (v AND 255) :: 8 word) = (v :: 32 word)"
proof -
  let ?b = "\<lambda>n. push_bit n (ucast (ucast (take_bit 8 (drop_bit n v)) :: 8 word)) :: 32 word"
  have "?b 24 + ?b 16 = ?b 24 OR ?b 16"
    by (rule disjunctive_add) (auto simp: bit_simps)
  moreover have "(?b 24 OR ?b 16) + ?b 8 = ?b 24 OR ?b 16 OR ?b 8"
    by (subst disjunctive_add) (auto simp: bit_simps or.assoc)
  moreover have "(?b 24 OR ?b 16 OR ?b 8) + ucast (ucast (take_bit 8 v) :: 8 word) = 
     ?b 24 OR ?b 16 OR ?b 8 OR ucast (ucast (take_bit 8 v) :: 8 word)"
    by (subst disjunctive_add) (auto simp: bit_simps or.assoc)
  moreover have "?b 24 OR ?b 16 OR ?b 8 OR ucast (ucast (take_bit 8 v) :: 8 word) = v"
  proof (rule bit_word_eqI)
    fix n assume "n < LENGTH(32)"
    then consider "n < 8" | "8 \<le> n" "n < 16" | "16 \<le> n" "n < 24" | "24 \<le> n" "n < 32"
      by fastforce
    then show "bit (?b 24 OR ?b 16 OR ?b 8 OR ucast (ucast (take_bit 8 v) :: 8 word)) n = bit v n"
      by cases (auto simp: bit_simps)
  qed
  ultimately show ?thesis unfolding mask8 by simp
qed
section \<open>Parsers on given bytes\<close>

definition avail :: "rd \<Rightarrow> u8 list \<Rightarrow> bool" where
  "avail s bs \<longleftrightarrow> result s = PF_PARSE_OK \<and> (\<exists>b. p_buf s = Some b \<and>
     unat (rd_pos s) + length bs \<le> unat (buf_len s) \<and> unat (buf_len s) \<le> length b \<and>
     take (length bs) (drop (unat (rd_pos s)) b) = bs)"

definition skip :: "nat \<Rightarrow> rd \<Rightarrow> rd" where
  "skip n s = s\<lparr>rd_pos := rd_pos s + of_nat n\<rparr>"

text \<open>The parser may change the byte order, from \<open>be\<close> to \<open>be'\<close>; all but one keep it.\<close>

definition decodes :: "bool \<Rightarrow> bool \<Rightarrow> 'a rdm \<Rightarrow> u8 list \<Rightarrow> 'a \<Rightarrow> bool" where
  "decodes be be' m bs v \<longleftrightarrow> (\<forall>s. is_big_endian s = be \<longrightarrow> avail s bs \<longrightarrow>
     run_state m s = (v, (skip (length bs) s)\<lparr>is_big_endian := be'\<rparr>))"

abbreviation reads :: "bool \<Rightarrow> 'a rdm \<Rightarrow> u8 list \<Rightarrow> 'a \<Rightarrow> bool" where
  "reads be \<equiv> decodes be be"

lemma avail_append:
  assumes "avail s (as @ bs)"
  shows "avail s as" and "avail (skip (length as) s) bs"
proof -
  from assms obtain b where b: "result s = PF_PARSE_OK" "p_buf s = Some b"
    "unat (rd_pos s) + length (as @ bs) \<le> unat (buf_len s)" "unat (buf_len s) \<le> length b"
    "take (length (as @ bs)) (drop (unat (rd_pos s)) b) = as @ bs"
    by (auto simp: avail_def)
  have t: "take (length as + length bs) (drop (unat (rd_pos s)) b) = as @ bs" using b(5) by simp
  have "take (length as) (drop (unat (rd_pos s)) b) = as"
    using arg_cong [OF t, of "take (length as)"] by (simp add: min_absorb1)
  then show "avail s as" using b by (simp add: avail_def)
  have p: "unat (rd_pos s + of_nat (length as)) = unat (rd_pos s) + length as"
    using b(3) unat_pos_add [of "rd_pos s" "length as" "buf_len s"] by simp
  have "take (length bs) (drop (unat (rd_pos s) + length as) b) = bs"
    using arg_cong [OF t, of "drop (length as)"] by (simp add: drop_take ac_simps)
  then show "avail (skip (length as) s) bs" using b p by (simp add: avail_def skip_def)
qed

lemma skip_skip: "skip n (skip m s) = skip (m + n) s"
  "skip n (s\<lparr>is_big_endian := b\<rparr>) = (skip n s)\<lparr>is_big_endian := b\<rparr>"
  by (simp_all add: skip_def)

lemma avail_endian [simp]: "avail (s\<lparr>is_big_endian := b\<rparr>) bs = avail s bs"
  by (simp add: avail_def)

lemma reads_bind:
  assumes m: "decodes be b m as x" and f: "decodes b be' (f x) bs y"
  shows "decodes be be' (State_Monad.bind m f) (as @ bs) y"
  unfolding decodes_def
proof (intro allI impI)
  fix s assume e: "is_big_endian s = be" and a: "avail s (as @ bs)"
  let ?t = "(skip (length as) s)\<lparr>is_big_endian := b\<rparr>"
  have "run_state m s = (x, ?t)"
    using m e avail_append(1) [OF a] by (simp add: decodes_def)
  moreover have "run_state (f x) ?t = (y, (skip (length bs) ?t)\<lparr>is_big_endian := be'\<rparr>)"
    using f avail_append(2) [OF a] by (simp add: decodes_def)
  ultimately show "run_state (State_Monad.bind m f) s =
      (y, (skip (length (as @ bs)) s)\<lparr>is_big_endian := be'\<rparr>)"
    by (simp add: skip_skip)
qed

lemma reads_return: "bs = [] \<Longrightarrow> v = w \<Longrightarrow> reads be (rd_return v) bs w"
  by (simp add: decodes_def rd_return_def skip_def)

lemma reads_byte: "reads be pf_get_byte [b] b"
proof -
  have "x ! n = b" if "take 1 (drop n x) = [b]" for n x
    using that by (metis Cons_nth_drop_Suc One_nat_def drop_all hd_drop_conv_nth list.distinct(1)
        list.sel(1) not_less take_Nil take_Suc_Cons)
  then show ?thesis
    by (auto simp: decodes_def avail_def pf_get_byte_def skip_def word_le_nat_alt)
qed

lemma reads_mem:
  "length bs = unat n \<Longrightarrow> unat n \<le> length d \<Longrightarrow>
    reads be (pf_get_mem n d) bs (bs @ drop (unat n) d)"
  by (auto simp: decodes_def avail_def pf_get_mem_def skip_def)

lemma reads_endian: "reads be get_endian [] be"
  by (simp add: decodes_def get_endian_def skip_def)

lemma reads_ok: "decodes be be' (f PF_PARSE_OK) bs v \<Longrightarrow>
    decodes be be' (do { r \<leftarrow> get_result; f r }) bs v"
  by (simp add: decodes_def get_result_def avail_def)

text \<open>Rules that take the next field off the front of the bytes.\<close>

lemma reads_byte_then: "decodes be be' (f b) bs y \<Longrightarrow> decodes be be' (do { x \<leftarrow> pf_get_byte; f x }) (b # bs) y"
  using reads_bind [OF reads_byte] by fastforce

lemma reads_endian_then: "decodes be be' (f be) bs y \<Longrightarrow> decodes be be' (do { x \<leftarrow> get_endian; f x }) bs y"
  using reads_bind [OF reads_endian] by fastforce

lemma reads_set_endian_then:
  "decodes b be' (f ()) bs y \<Longrightarrow> decodes be be' (do { x \<leftarrow> set_endian b; f x }) bs y"
  by (simp add: decodes_def set_endian_def skip_skip)

lemma reads_uint16: "reads be pf_get_uint16 (enc16 be v) v"
  unfolding pf_get_uint16_def
  by (rule reads_ok, cases be)
    (use dec16 [of v] in \<open>auto simp: enc16_def Let_def ac_simps
      intro!: reads_endian_then reads_byte_then reads_return\<close>)

lemma reads_uint32: "reads be pf_get_uint32 (enc32 be v) v"
  unfolding pf_get_uint32_def
  by (cases be)
    (use dec32 [of v] in \<open>auto simp: enc32_def Let_def ac_simps
      intro!: reads_endian_then reads_byte_then reads_return\<close>)

lemma reads_uint16_then:
  "decodes be be' (f v) bs y \<Longrightarrow> decodes be be' (do { x \<leftarrow> pf_get_uint16; f x }) (enc16 be v @ bs) y"
  by (rule reads_bind [OF reads_uint16])

lemma reads_uint32_then:
  "decodes be be' (f v) bs y \<Longrightarrow> decodes be be' (do { x \<leftarrow> pf_get_uint32; f x }) (enc32 be v @ bs) y"
  by (rule reads_bind [OF reads_uint32])

lemma reads_mem_then:
  "length as = unat n \<Longrightarrow> length d = unat n \<Longrightarrow> decodes be be' (f as) bs y \<Longrightarrow>
    decodes be be' (do { x \<leftarrow> pf_get_mem n d; f x }) (as @ bs) y"
  using reads_bind [OF reads_mem [of as n d]] by simp

lemma reads_uuid:
  assumes "uuid_ok d" and "uuid_ok u"
  shows "reads be (pf_get_uuid d) (enc_uuid be u) u"
proof -
  have "reads be (pf_get_uuid d)
      (enc32 be (data1 u) @ enc16 be (data2 u) @ enc16 be (data3 u) @ data4 u @ []) u"
    unfolding pf_get_uuid_def
    by (intro reads_uint32_then reads_uint16_then reads_mem_then reads_return) (use assms in simp_all)
  then show ?thesis by (simp add: enc_uuid_def)
qed

lemma reads_uuid_then:
  "uuid_ok d \<Longrightarrow> uuid_ok u \<Longrightarrow> decodes be be' (f u) bs y \<Longrightarrow>
    decodes be be' (do { x \<leftarrow> pf_get_uuid d; f x }) (enc_uuid be u @ bs) y"
  by (rule reads_bind [OF reads_uuid])

lemmas reads_fields = reads_uint32_then reads_uint16_then reads_byte_then reads_uuid_then
  reads_set_endian_then reads_return

lemma reads_block_header:
  "reads be pf_get_block_header (enc16 be t @ enc16 be l @ [h, v])
    \<lparr>block_type = t, block_length = l, block_version_high = h, block_version_low = v\<rparr>"
  unfolding pf_get_block_header_def by (intro reads_fields) simp_all

lemma enc16_zero: "enc16 be 0 = [0, 0]"
  by (simp add: enc16_def Let_def)

lemma reads_control:
  assumes "uuid_ok (cb_ar_uuid d)" and "uuid_ok (cb_ar_uuid c)"
  shows "reads be (pf_get_control d) (control_bytes be c) c"
proof -
  have "reads be (pf_get_control d)
     (enc16 be 0 @ enc_uuid be (cb_ar_uuid c) @ enc16 be (cb_session_key c) @
      enc16 be (cb_alarm_sequence_number c) @ enc16 be (control_command c) @
      enc16 be (control_block_properties c) @ []) c"
    unfolding pf_get_control_def by (intro reads_fields) (use assms in simp_all)
  then show ?thesis by (simp add: control_bytes_def enc16_zero)
qed

section \<open>The RPC header\<close>

lemma rpc_flags_roundtrip: "rpc_flags_of_bits (ucast (rpc_flags_bits f)) = f"
proof -
  obtain a b c d e g where f: "f = \<lparr>last_fragment = a, fragment = b, no_fack = c, maybe = d,
      idempotent = e, broadcast = g\<rparr>"
    by (cases f) simp
  show ?thesis
    unfolding f
    by (cases a; cases b; cases c; cases d; cases e; cases g)
      (simp_all add: rpc_flags_of_bits_def rpc_flags_bits_def pf_put_bits_def pf_get_bits_def)
qed

definition rpc_repr_byte :: "bool \<Rightarrow> u8" where
  "rpc_repr_byte be = ucast (pf_put_bits (if be then 0 else 1) 4 4 0)"

lemma rpc_repr_roundtrip: "(pf_get_bits (ucast (rpc_repr_byte be)) 4 4 = 0) = be"
  by (cases be) (simp_all add: rpc_repr_byte_def pf_put_bits_def pf_get_bits_def)

definition rpc_header_start_bytes :: "pf_rpc_header \<Rightarrow> u8 list" where
  "rpc_header_start_bytes h = (let be = rpc_is_big_endian h in
     [rpc_version h, packet_type h, ucast (rpc_flags_bits (rpc_flags h)), 0, rpc_repr_byte be,
      float_repr h, reserved h, serial_high h] @
     enc_uuid be (object_uuid h) @ enc_uuid be (interface_uuid h) @ enc_uuid be (activity_uuid h) @
     enc32 be (server_boot_time h) @ enc32 be (interface_version h) @ enc32 be (sequence_nmb h) @
     enc16 be (opnum h) @ enc16 be (interface_hint h) @ enc16 be (activity_hint h))"

definition rpc_header_end_bytes :: "pf_rpc_header \<Rightarrow> u8 list" where
  "rpc_header_end_bytes h = (let be = rpc_is_big_endian h in
     enc16 be (length_of_body h) @ enc16 be (fragment_nmb h) @ [auth_protocol h, serial_low h])"

lemma rpc_header_lengths:
  assumes "rpc_header_ok h"
  shows "length (rpc_header_start_bytes h) = 74" and "length (rpc_header_end_bytes h) = 6"
  using assms by (simp_all add: rpc_header_start_bytes_def rpc_header_end_bytes_def Let_def)

lemma emits_rpc_header_start:
  assumes "rpc_header_ok h"
  shows "emits_at p (put_dce_rpc_header_start h) (rpc_header_start_bytes h)"
proof -
  let ?be = "rpc_is_big_endian h"
  have "emits_at p (put_dce_rpc_header_start h) (concat [[rpc_version h], [packet_type h],
     [ucast (rpc_flags_bits (rpc_flags h))], [0], [rpc_repr_byte ?be], [float_repr h], [reserved h],
     [serial_high h], enc_uuid ?be (object_uuid h), enc_uuid ?be (interface_uuid h),
     enc_uuid ?be (activity_uuid h), enc32 ?be (server_boot_time h),
     enc32 ?be (interface_version h), enc32 ?be (sequence_nmb h), enc16 ?be (opnum h),
     enc16 ?be (interface_hint h), enc16 ?be (activity_hint h)])"
    unfolding put_dce_rpc_header_start_def Let_def
    using assms by (intro emits_concat) (simp add: emits rpc_repr_byte_def)
  then show ?thesis by (simp add: rpc_header_start_bytes_def Let_def)
qed

lemma emits_rpc_header_end: "emits_at p (put_dce_rpc_header_end h) (rpc_header_end_bytes h)"
proof -
  let ?be = "rpc_is_big_endian h"
  have "emits_at p (put_dce_rpc_header_end h) (concat [enc16 ?be (length_of_body h),
     enc16 ?be (fragment_nmb h), [auth_protocol h], [serial_low h]])"
    unfolding put_dce_rpc_header_end_def Let_def by (intro emits_concat) (simp add: emits)
  then show ?thesis by (simp add: rpc_header_end_bytes_def Let_def)
qed

lemma put_rpc_header_run:
  assumes "rpc_header_ok h" and "fits w 80"
  shows "pf_put_dce_rpc_header h w =
    Some (append_bytes (rpc_header_start_bytes h @ rpc_header_end_bytes h) w, wr_pos w + 74)"
proof -
  let ?s = "rpc_header_start_bytes h" and ?e = "rpc_header_end_bytes h"
  have l: "length ?s = 74" "length ?e = 6" using rpc_header_lengths [OF assms(1)] .
  have f: "fits w (length ?s + length ?e)" using assms(2) l by simp
  then have "fits w (length ?s)" by (simp add: fits_def)
  then have "put_dce_rpc_header_start h w = Some (append_bytes ?s w)"
    using emits_rpc_header_start [OF assms(1)] by (simp add: emits_at_def)
  moreover have "put_dce_rpc_header_end h (append_bytes ?s w) = Some (append_bytes ?e (append_bytes ?s w))"
    using emits_rpc_header_end fits_emit(1) [OF f] by (simp add: emits_at_def)
  moreover have "wr_pos (append_bytes ?s w) = wr_pos w + 74" by (simp add: append_bytes_def l)
  ultimately show ?thesis by (simp add: pf_put_dce_rpc_header_def emit_emit [OF f])
qed

text \<open>The reader keeps the five low bits of the packet type and ignores the float representation.\<close>

lemma decodes_rpc_header:
  assumes "rpc_header_ok h" and "rpc_header_ok d"
    and "packet_type h AND 31 = packet_type h" and "float_repr h = 0" and "\<not> cancel_pending h"
  shows "decodes be (rpc_is_big_endian h) (pf_get_dce_rpc_header d)
    (rpc_header_start_bytes h @ rpc_header_end_bytes h) h"
proof -
  let ?b = "rpc_is_big_endian h"
  have "decodes be ?b (pf_get_dce_rpc_header d)
     (rpc_version h # packet_type h # ucast (rpc_flags_bits (rpc_flags h)) # 0 # rpc_repr_byte ?b #
      float_repr h # reserved h # serial_high h # enc_uuid ?b (object_uuid h) @
      enc_uuid ?b (interface_uuid h) @ enc_uuid ?b (activity_uuid h) @
      enc32 ?b (server_boot_time h) @ enc32 ?b (interface_version h) @ enc32 ?b (sequence_nmb h) @
      enc16 ?b (opnum h) @ enc16 ?b (interface_hint h) @ enc16 ?b (activity_hint h) @
      enc16 ?b (length_of_body h) @ enc16 ?b (fragment_nmb h) @
      auth_protocol h # serial_low h # []) h"
    unfolding pf_get_dce_rpc_header_def Let_def
    by (intro reads_byte_then, unfold rpc_repr_roundtrip, intro reads_fields)
      (use assms in \<open>simp_all add: rpc_flags_roundtrip pf_get_bits_def\<close>)
  then show ?thesis by (simp add: rpc_header_start_bytes_def rpc_header_end_bytes_def Let_def)
qed

section \<open>The status of a response\<close>

lemma enc_status:
  "enc32 be (0x01000000 * ucast a + 0x10000 * ucast b + 0x100 * ucast c + ucast (d :: u8)) =
    (if be then [a, b, c, d] else [d, c, b, a])"
proof -
  let ?a = "push_bit 24 (ucast a) :: u32" and ?b = "push_bit 16 (ucast b) :: u32"
    and ?c = "push_bit 8 (ucast c) :: u32" and ?d = "ucast d :: u32"
  have "0x01000000 * ucast a + 0x10000 * ucast b + 0x100 * ucast c + ucast d = ?a + ?b + ?c + ?d"
    by (simp add: push_bit_eq_mult)
  also have "?a + ?b = ?a OR ?b"
    by (rule disjunctive_add) (auto simp: bit_simps dest: bit_imp_le_length)
  also have "(?a OR ?b) + ?c = ?a OR ?b OR ?c"
    by (subst disjunctive_add) (auto simp: bit_simps or.assoc dest: bit_imp_le_length)
  also have "(?a OR ?b OR ?c) + ?d = ?a OR ?b OR ?c OR ?d"
    by (subst disjunctive_add) (auto simp: bit_simps or.assoc dest: bit_imp_le_length)
  finally have v: "0x01000000 * ucast a + 0x10000 * ucast b + 0x100 * ucast c + ucast d =
      ?a OR ?b OR ?c OR ?d" .
  let ?v = "?a OR ?b OR ?c OR ?d"
  have "ucast (drop_bit 24 ?v AND 255) = a" "ucast (drop_bit 16 ?v AND 255) = b"
    "ucast (drop_bit 8 ?v AND 255) = c" "ucast (?v AND 255) = d"
    unfolding mask8 by (rule bit_word_eqI; auto simp: bit_simps dest: bit_imp_le_length)+
  then show ?thesis unfolding v by (simp add: enc32_def Let_def)
qed

definition status_bytes :: "bool \<Rightarrow> pnet_pnio_status \<Rightarrow> u8 list" where
  "status_bytes be s = (if be then [error_code s, error_decode s, error_code_1 s, error_code_2 s]
     else [error_code_2 s, error_code_1 s, error_decode s, error_code s])"

lemma emits_status [emits]: "emits_at p (pf_put_pnet_status be s) (status_bytes be s)"
  using emits_uint32 by (simp add: pf_put_pnet_status_def status_bytes_def flip: enc_status)

lemma reads_status: "reads be pf_get_pnio_status (status_bytes True s) s"
proof -
  have "reads be pf_get_pnio_status
      (error_code s # error_decode s # error_code_1 s # error_code_2 s # []) s"
    unfolding pf_get_pnio_status_def by (intro reads_fields) simp_all
  then show ?thesis by (simp add: status_bytes_def)
qed

section \<open>The entries of the log book\<close>

definition timestamp_bytes :: "bool \<Rightarrow> pf_log_book_ts \<Rightarrow> u8 list" where
  "timestamp_bytes be t = enc16 be (sec_hi t) @ enc16 be (ucast (sec_lo t)) @ enc32 be (nano_sec t)"

definition log_entry_bytes :: "bool \<Rightarrow> pf_log_book_entry \<Rightarrow> u8 list" where
  "log_entry_bytes be e = timestamp_bytes be (le_time_ts e) @ enc_uuid be (le_ar_uuid e) @
     status_bytes be (le_pnio_status e) @ enc32 be (entry_detail e)"

lemma emits_timestamp [emits]:
  "emits_at p (pf_put_time_timestamp be t) (timestamp_bytes be t)"
proof -
  have "emits_at p (pf_put_time_timestamp be t)
      (concat [enc16 be (sec_hi t), enc16 be (ucast (sec_lo t)), enc32 be (nano_sec t)])"
    unfolding pf_put_time_timestamp_def by (intro emits_concat) (simp add: emits)
  then show ?thesis by (simp add: timestamp_bytes_def)
qed

lemma emits_log_entry:
  assumes "uuid_ok (le_ar_uuid e)"
  shows "emits_at p (put_log_book_entry be e) (log_entry_bytes be e)"
proof -
  have "emits_at p (put_log_book_entry be e)
      (concat [timestamp_bytes be (le_time_ts e), enc_uuid be (le_ar_uuid e),
        status_bytes be (le_pnio_status e), enc32 be (entry_detail e)])"
    unfolding put_log_book_entry_def using assms by (intro emits_concat) (simp add: emits)
  then show ?thesis by (simp add: log_entry_bytes_def)
qed

text \<open>The indices from \<open>ix\<close> up to \<open>put\<close>, around the end of an array of \<open>n\<close> entries.\<close>

fun log_indices :: "nat \<Rightarrow> nat \<Rightarrow> nat \<Rightarrow> nat list" where
  "log_indices 0 n ix = []"
| "log_indices (Suc k) n ix = ix # log_indices k n (Suc ix mod n)"

lemma log_next:
  assumes "unat (ix :: u16) < n" and "n \<le> 65535"
  shows "unat (if unat (ix + 1) \<ge> n then 0 else ix + 1) = Suc (unat ix) mod n"
proof -
  have "unat (ix + 1) = Suc (unat ix)"
    using unat_pos_add [of ix 1 "65535"] assms by simp
  moreover have "Suc (unat ix) mod n = (if n \<le> Suc (unat ix) then 0 else Suc (unat ix))"
    using assms(1) by (cases "Suc (unat ix) = n") simp_all
  ultimately show ?thesis by simp
qed

lemma emits_log_entries:
  assumes n: "n = length (lb_entries b)" "n \<le> 65535" and put: "unat (lb_put b) < n"
    and ok: "\<forall>e \<in> set (lb_entries b). uuid_ok (le_ar_uuid e)"
  shows "unat ix < n \<Longrightarrow> (unat ix + k) mod n = unat (lb_put b) \<Longrightarrow> k < n \<Longrightarrow>
    emits_at p (put_log_book_entries be b ix)
      (concat (map (\<lambda>i. log_entry_bytes be (lb_entries b ! i)) (log_indices k n (unat ix))))"
proof (induction k arbitrary: p ix)
  case 0
  then have "ix = lb_put b" by (simp add: word_unat_eq_iff)
  then show ?case by (simp add: emits_at_def put_log_book_entries.simps)
next
  case (Suc k)
  let ?nx = "if unat (ix + 1) \<ge> n then 0 else ix + 1"
  have nx: "unat ?nx = Suc (unat ix) mod n" by (rule log_next) (use Suc n in simp_all)
  have ne: "ix \<noteq> lb_put b"
  proof
    assume "ix = lb_put b"
    then have "(unat ix + Suc k) mod n = unat ix" using Suc.prems by simp
    moreover have "(unat ix + Suc k) mod n = unat ix + Suc k - n" if "n \<le> unat ix + Suc k"
      using that Suc.prems(1,3) by (simp add: le_mod_geq)
    ultimately show False
      using Suc.prems(1,3) by (cases "unat ix + Suc k < n") simp_all
  qed
  have rest: "emits_at q (put_log_book_entries be b ?nx)
      (concat (map (\<lambda>i. log_entry_bytes be (lb_entries b ! i)) (log_indices k n (unat ?nx))))" for q
  proof (rule Suc.IH)
    show "unat ?nx < n" unfolding nx using put by simp
    show "(unat ?nx + k) mod n = unat (lb_put b)"
      unfolding nx using Suc.prems(2) by (simp add: mod_add_left_eq)
  qed (use Suc.prems(3) in simp)
  have entry: "emits_at p (put_log_book_entry be (lb_entries b ! unat ix))
      (log_entry_bytes be (lb_entries b ! unat ix))"
    using ok Suc.prems(1) n by (intro emits_log_entry) simp
  have "put_log_book_entries be b ix = (\<lambda>w. do {
      w \<leftarrow> put_log_book_entry be (lb_entries b ! unat ix) w;
      put_log_book_entries be b ?nx w })"
    using ne Suc.prems(1) n by (subst put_log_book_entries.simps [abs_def]) simp
  then show ?case
    using emits_seq [OF entry rest] by (simp add: nx)
qed

section \<open>Reading back what was written\<close>

text \<open>The parser of the peer, at the place in the buffer where the writer started.\<close>

definition reader_of :: "bool \<Rightarrow> wr \<Rightarrow> u16 \<Rightarrow> rd" where
  "reader_of be v pos = \<lparr>result = PF_PARSE_OK, is_big_endian = be, p_buf = Some (wr_bytes v),
     buf_len = wr_res_len v, rd_pos = pos, rd_fault = False\<rparr>"

lemma avail_emit:
  assumes "fits w (length bs)"
  shows "avail (reader_of be (append_bytes bs w) (wr_pos w)) bs"
  using assms
  by (simp add: avail_def reader_of_def append_bytes_def fits_def read_overlay)

lemma emit_decode:
  assumes "emits_at (wr_pos w) f bs" and "fits w (length bs)" and "decodes be be' m bs x"
  shows "\<exists>v. f w = Some v \<and>
    run_state m (reader_of be v (wr_pos w)) = (x, reader_of be' v (wr_pos v))"
proof -
  have "f w = Some (append_bytes bs w)" using assms(1,2) by (simp add: emits_at_def)
  moreover have "run_state m (reader_of be (append_bytes bs w) (wr_pos w)) =
      (x, (skip (length bs) (reader_of be (append_bytes bs w) (wr_pos w)))\<lparr>is_big_endian := be'\<rparr>)"
    using assms(3) avail_emit [OF assms(2)] by (simp add: decodes_def reader_of_def)
  ultimately show ?thesis
    by (simp add: skip_def reader_of_def append_bytes_def)
qed

text \<open>
  A codec: a writer and a parser of one kind of value that agree on its encoding. The byte order
  of the connection is \<open>be\<close>; the parser may find another one in the data.
\<close>

locale block_codec =
  fixes put :: "'a \<Rightarrow> wrm" and get :: "'a rdm" and enc :: "'a \<Rightarrow> u8 list" and ok :: "'a \<Rightarrow> bool"
    and be :: bool and order :: "'a \<Rightarrow> bool"
  assumes put_emits: "ok x \<Longrightarrow> emits_at p (put x) (enc x)"
    and get_decodes: "ok x \<Longrightarrow> decodes be (order x) get (enc x) x"
begin

lemma roundtrip:
  assumes "ok x" and "fits w (length (enc x))"
  shows "\<exists>v. put x w = Some v \<and>
    run_state get (reader_of be v (wr_pos w)) = (x, reader_of (order x) v (wr_pos v))"
  using emit_decode [OF put_emits [OF assms(1)] assms(2) get_decodes [OF assms(1)]] .

text \<open>The encoding is unambiguous: the parser would have to return both values.\<close>

lemma enc_inject:
  assumes x: "ok x" and y: "ok y" and eq: "enc x = enc y" and len: "length (enc x) < 65536"
  shows "x = y"
proof -
  let ?w = "\<lparr>wr_bytes = replicate (length (enc x)) 0, wr_res_len = of_nat (length (enc x)), wr_pos = 0\<rparr>"
  have "fits ?w (length (enc x))"
    using len by (simp add: fits_def unat_of_nat take_bit_nat_eq_self)
  then have "avail (reader_of be (append_bytes (enc x) ?w) (wr_pos ?w)) (enc x)" by (rule avail_emit)
  with get_decodes [OF x] get_decodes [OF y] eq show ?thesis
    unfolding decodes_def
    by (metis fst_conv reader_of_def rd.select_convs(2) pf_get_info.select_convs(2))
qed

end

interpretation uint16: block_codec "pf_put_uint16 be" pf_get_uint16 "enc16 be" "\<lambda>_. True" be "\<lambda>_. be"
  for be by unfold_locales (simp_all add: emits_uint16 reads_uint16)

interpretation uint32: block_codec "pf_put_uint32 be" pf_get_uint32 "enc32 be" "\<lambda>_. True" be "\<lambda>_. be"
  for be by unfold_locales (simp_all add: emits_uint32 reads_uint32)

lemma nil_uuid_ok [simp]: "uuid_ok nil_uuid"
  by (simp add: nil_uuid_def)

interpretation uuid: block_codec "pf_put_uuid be" "pf_get_uuid nil_uuid" "enc_uuid be" uuid_ok be "\<lambda>_. be"
  for be by unfold_locales (simp_all add: emits_uuid reads_uuid)

interpretation status: block_codec "pf_put_pnet_status True" pf_get_pnio_status "status_bytes True"
    "\<lambda>_. True" be "\<lambda>_. be"
  for be by unfold_locales (simp_all add: emits_status reads_status)

text \<open>The control block with its header, as the connect manager exchanges it.\<close>

definition get_control_block :: "pf_control_block \<Rightarrow> (pf_block_header \<times> pf_control_block) rdm" where
  "get_control_block d = do {
     h \<leftarrow> pf_get_block_header;
     c \<leftarrow> pf_get_control d;
     rd_return (h, c) }"

lemma length_control_bytes [simp]:
  "uuid_ok (cb_ar_uuid c) \<Longrightarrow> length (control_bytes be c) = 26"
  by (simp add: control_bytes_def)

definition control_header :: "u16 \<Rightarrow> pf_block_header" where
  "control_header bt = \<lparr>block_type = bt, block_length = 28,
     block_version_high = PNET_BLOCK_VERSION_HIGH, block_version_low = PNET_BLOCK_VERSION_LOW\<rparr>"

lemma decodes_control_block:
  assumes "uuid_ok (cb_ar_uuid d)" and "uuid_ok (cb_ar_uuid c)"
  shows "decodes be be (get_control_block d)
    (block_bytes be bt PNET_BLOCK_VERSION_LOW (control_bytes be c)) (control_header bt, c)"
proof -
  let ?h = "enc16 be bt @ enc16 be 28 @ [PNET_BLOCK_VERSION_HIGH, PNET_BLOCK_VERSION_LOW]"
  have "decodes be be (get_control_block d) (?h @ control_bytes be c @ []) (control_header bt, c)"
    unfolding get_control_block_def control_header_def
    by (intro reads_bind [OF reads_block_header] reads_bind [OF reads_control] reads_return assms) simp_all
  then show ?thesis using assms by (simp add: block_bytes_def)
qed

interpretation control: block_codec "\<lambda>(h, c). pf_put_control be (block_type h) c"
    "get_control_block \<lparr>cb_ar_uuid = nil_uuid, cb_session_key = 0, control_command = 0,
       control_block_properties = 0, cb_alarm_sequence_number = 0\<rparr>"
    "\<lambda>(h, c). block_bytes be (block_type h) PNET_BLOCK_VERSION_LOW (control_bytes be c)"
    "\<lambda>(h, c). h = control_header (block_type h) \<and> uuid_ok (cb_ar_uuid c)" be "\<lambda>_. be"
  for be
proof unfold_locales
  fix x :: "pf_block_header \<times> pf_control_block" and p
  assume ok: "case x of (h, c) \<Rightarrow> h = control_header (block_type h) \<and> uuid_ok (cb_ar_uuid c)"
  obtain h c where x: "x = (h, c)" by (cases x)
  show "emits_at p (case x of (h, c) \<Rightarrow> pf_put_control be (block_type h) c)
      (case x of (h, c) \<Rightarrow> block_bytes be (block_type h) PNET_BLOCK_VERSION_LOW (control_bytes be c))"
    using ok by (simp add: x emits_control)
  have "decodes be be (get_control_block \<lparr>cb_ar_uuid = nil_uuid, cb_session_key = 0,
       control_command = 0, control_block_properties = 0, cb_alarm_sequence_number = 0\<rparr>)
      (block_bytes be (block_type h) PNET_BLOCK_VERSION_LOW (control_bytes be c))
      (control_header (block_type h), c)"
    using ok by (intro decodes_control_block) (simp_all add: x)
  then show "decodes be be (get_control_block \<lparr>cb_ar_uuid = nil_uuid, cb_session_key = 0,
       control_command = 0, control_block_properties = 0, cb_alarm_sequence_number = 0\<rparr>)
      (case x of (h, c) \<Rightarrow> block_bytes be (block_type h) PNET_BLOCK_VERSION_LOW (control_bytes be c)) x"
    using ok by (simp add: x)
qed

definition nil_rpc_header :: pf_rpc_header where
  "nil_rpc_header = \<lparr>rpc_version = 0, packet_type = 0, rpc_flags = rpc_flags_of_bits 0,
     cancel_pending = False, rpc_is_big_endian = False, float_repr = 0, reserved = 0,
     serial_high = 0, object_uuid = nil_uuid, interface_uuid = nil_uuid, activity_uuid = nil_uuid,
     server_boot_time = 0, interface_version = 0, sequence_nmb = 0, opnum = 0, interface_hint = 0,
     activity_hint = 0, length_of_body = 0, fragment_nmb = 0, auth_protocol = 0, serial_low = 0\<rparr>"

abbreviation rpc_header_plain :: "pf_rpc_header \<Rightarrow> bool" where
  "rpc_header_plain h \<equiv> rpc_header_ok h \<and> packet_type h AND 31 = packet_type h \<and>
     float_repr h = 0 \<and> \<not> cancel_pending h"

interpretation rpc_header: block_codec
    "\<lambda>h w. map_option fst (pf_put_dce_rpc_header h w)" "pf_get_dce_rpc_header nil_rpc_header"
    "\<lambda>h. rpc_header_start_bytes h @ rpc_header_end_bytes h" rpc_header_plain be rpc_is_big_endian
  for be
proof unfold_locales
  fix h p
  assume ok: "rpc_header_plain h"
  then have "length (rpc_header_start_bytes h @ rpc_header_end_bytes h) = 80"
    using rpc_header_lengths [of h] by simp
  then show "emits_at p (\<lambda>w. map_option fst (pf_put_dce_rpc_header h w))
      (rpc_header_start_bytes h @ rpc_header_end_bytes h)"
    unfolding emits_at_def using ok put_rpc_header_run [of h] by simp
  show "decodes be (rpc_is_big_endian h) (pf_get_dce_rpc_header nil_rpc_header)
      (rpc_header_start_bytes h @ rpc_header_end_bytes h) h"
    using ok by (intro decodes_rpc_header) (simp_all add: nil_rpc_header_def)
qed

end
