(* ===== verification/Pn_Block_Props.thy ===== *)
theory Pn_Block_Props
  imports Pn_Demo Pn_Block_Codec
begin

text \<open>
  The properties of the block reader and the block writer: errors stick, parsers of a fixed layout
  take what they need, arrays are respected or not, writers stay in the output buffer, and what
  was written is read back.
\<close>

lemma first_error_leaves: "first_error.keeps pf_get_data_descriptor" "first_error.keeps pf_get_dfp_iocr"
  unfolding pf_get_data_descriptor_def pf_get_dfp_iocr_def by (intro first_error.keeps_rules)+

text \<open>C6. Whatever the frame contains, after an error no parser moves the position or clears the error,
  and every parser but one keeps the first error; that of the expected modules reports errors of
  its own, over the one that is there. Without an error the position moves forward and stays within
  the announced length; the frame itself is not touched.\<close>

theorem block_reader_first_error:
  "keeps_first_error s (snd (run_state (pf_get_ar_param r) s)) \<and>
   keeps_first_error s (snd (run_state (pf_get_iocr_param i r) s)) \<and>
   keeps_first_error s (snd (run_state (pf_get_alarm_cr_request r) s)) \<and>
   keeps_first_error s (snd (run_state (pf_get_ar_prm_server_request r) s)) \<and>
   keeps_first_error s (snd (run_state (pf_get_ir_info_request r) s)) \<and>
   keeps_first_error s (snd (run_state (pf_get_mcr_request i r) s)) \<and>
   keeps_first_error s (snd (run_state (pf_get_ar_rpc_request r) s)) \<and>
   keeps_first_error s (snd (run_state (pf_get_ar_vendor_request i r) s)) \<and>
   keeps_first_error s (snd (run_state (pf_get_control c) s)) \<and>
   keeps_first_error s (snd (run_state pf_get_ndr_data s)) \<and>
   keeps_first_error s (snd (run_state (pf_get_dce_rpc_header h) s)) \<and>
   keeps_first_error s (snd (run_state (pf_get_read_request q) s)) \<and>
   keeps_first_error s (snd (run_state (pf_get_write_request w) s)) \<and>
   keeps_first_error s (snd (run_state (pf_get_epm_lookup_request l) s)) \<and>
   keeps_first_error s (snd (run_state (pf_get_im_1 m) s)) \<and>
   keeps_first_error s (snd (run_state pf_get_alarm_fixed s)) \<and>
   keeps_first_error s (snd (run_state (pf_get_alarm_data a) s)) \<and>
   keeps_first_error s (snd (run_state (pf_get_alarm_ack a) s)) \<and>
   keeps_first_error s (snd (run_state (pf_get_port_data_check_check_peers n p) s)) \<and>
   keeps_first_error s (snd (run_state pf_get_interface_adjust s)) \<and>
   keeps_first_error s (snd (run_state pf_get_uint16 s)) \<and>
   keeps_first_error s (snd (run_state pf_get_uint32 s)) \<and>
   keeps_first_error s (snd (run_state (pf_get_uuid u) s)) \<and>
   keeps_first_error s (snd (run_state (pf_get_handle hh) s)) \<and>
   keeps_first_error s (snd (run_state pf_get_block_header s)) \<and>
   keeps_first_error s (snd (run_state pf_get_frame_descriptor s)) \<and>
   keeps_first_error s (snd (run_state (pf_get_iocr_api_entry e) s)) \<and>
   keeps_first_error s (snd (run_state pf_get_data_descriptor s)) \<and>
   keeps_first_error s (snd (run_state (pf_get_exp_submodule es) s)) \<and>
   keeps_first_error s (snd (run_state pf_get_dfp_iocr s)) \<and>
   keeps_first_error s (snd (run_state pf_get_pnio_status s)) \<and>
   keeps_first_error s (snd (run_state pf_get_port_data_check s)) \<and>
   keeps_first_error s (snd (run_state pf_get_port_data_adjust s)) \<and>
   keeps_first_error s (snd (run_state pf_get_port_data_adjust_peer_to_peer_boundary s)) \<and>
   reader_frame s (snd (run_state (pf_get_exp_api_module ar) s))"
  by (intro conjI first_error.keeps_run first_error.keeps_all first_error_leaves
      frame.keeps_run frame.keeps_exp_api_module)

text \<open>C11. The expected modules of a connect request never make the counts of the APIs and of the
  modules of an API larger than their arrays, and the parser keeps to the frame: this holds for
  every frame, across repeated blocks.\<close>

theorem pf_get_exp_api_module_arrays:
  assumes "exp_apis_ok r"
  shows "exp_apis_ok (fst (run_state (pf_get_exp_api_module r) s)) \<and>
    reader_frame s (snd (run_state (pf_get_exp_api_module r) s))"
  using yields_exp_api_module [OF assms] frame.keeps_exp_api_module
  unfolding yields_def frame.keeps_def by blast

definition demo_rd :: "u8 list \<Rightarrow> rd" where
  "demo_rd bs = \<lparr>result = PF_PARSE_OK, is_big_endian = True, p_buf = Some bs,
     buf_len = of_nat (length bs), rd_pos = 0, rd_fault = False\<rparr>"

definition demo_wr :: "u16 \<Rightarrow> wr" where
  "demo_wr n = \<lparr>wr_bytes = replicate (unat n) 0, wr_res_len = n, wr_pos = 0\<rparr>"

lemma demo_ar_exp_ok: "exp_apis_ok demo_ar"
  by (simp add: demo_ar_def exp_apis_ok_def demo_api_def exp_api_ok_def)

theorem pf_get_exp_api_module_arrays_witness:
  "exp_apis_ok demo_ar \<and> exp_apis_ok (fst (run_state (pf_get_exp_api_module demo_ar)
     (demo_rd [0, 1, 0, 0, 0, 0, 0, 1, 0, 0, 0, 9, 0, 0, 0, 0])))"
  using pf_get_exp_api_module_arrays [OF demo_ar_exp_ok] demo_ar_exp_ok by blast

text \<open>C12. The parsers of a fixed layout take exactly the number of bytes of their block (80 for the
  RPC header, 58 for a read or write request, 26 for a control block, 20 and 12 for an alarm and
  its acknowledge): when the bytes are there the parser succeeds and is that many bytes further,
  otherwise it reports the end of the input; no array is left.\<close>

theorem block_reader_takes:
  assumes "rpc_header_ok h" and "uuid_ok (cb_ar_uuid c)" and "read_request_ok q"
    and "write_request_ok w" and "lookup_request_ok l" and "im_1_ok m"
  shows "takes 80 (pf_get_dce_rpc_header h) rpc_header_ok \<and>
    takes 26 (pf_get_control c) (\<lambda>c. uuid_ok (cb_ar_uuid c)) \<and>
    takes 58 (pf_get_read_request q) read_request_ok \<and>
    takes 58 (pf_get_write_request w) write_request_ok \<and>
    takes 76 (pf_get_epm_lookup_request l) lookup_request_ok \<and>
    takes 54 (pf_get_im_1 m) im_1_ok \<and>
    takes 10 pf_get_alarm_fixed (\<lambda>_. True) \<and>
    takes 20 (pf_get_alarm_data a) (\<lambda>_. True) \<and> takes 12 (pf_get_alarm_ack a) (\<lambda>_. True) \<and>
    takes 20 (pf_get_alarm_cr_request r) (\<lambda>_. True) \<and>
    takes 12 pf_get_port_data_check (\<lambda>_. True)"
  by (intro conjI takes_dce_rpc_header takes_control takes_read_request takes_write_request
      takes_epm_lookup_request takes_im_1 takes_alarms takes_connect_parts takes_port_data assms)

definition demo_control :: pf_control_block where
  "demo_control = \<lparr>cb_ar_uuid = nil_uuid, cb_session_key = 7, control_command = 1,
     control_block_properties = 0, cb_alarm_sequence_number = 0\<rparr>"

theorem block_reader_takes_witness:
  "takes 80 (pf_get_dce_rpc_header nil_rpc_header) rpc_header_ok \<and>
    takes 26 (pf_get_control demo_control) (\<lambda>c. uuid_ok (cb_ar_uuid c))"
  using block_reader_takes [of nil_rpc_header demo_control
    "\<lparr>rreq_sequence_number = 0, rreq_ar_uuid = nil_uuid, rreq_api = 0, rreq_slot_number = 0,
      rreq_subslot_number = 0, rreq_padding = [0, 0], rreq_index = 0, rreq_record_data_length = 0,
      target_ar_uuid = nil_uuid, rreq_rw_padding = replicate 8 0\<rparr>"
    "\<lparr>wreq_sequence_number = 0, wreq_ar_uuid = nil_uuid, wreq_api = 0, wreq_slot_number = 0,
      wreq_subslot_number = 0, wreq_padding = [0, 0], wreq_index = 0, wreq_record_data_length = 0,
      wreq_rw_padding = replicate 24 0\<rparr>"
    "\<lparr>inquiry_type = 0, object_id = 0, lreq_object_uuid = nil_uuid, interface_id = 0,
      lreq_interface_uuid = nil_uuid, interface_ver_major = 0, interface_ver_minor = 0,
      version_option = 0, lreq_rpc_handle = \<lparr>rpc_entry_handle = 0, handle_uuid = \<lparr>time_low = 0,
        time_mid = 0, time_hi_and_version = 0, clock_hi_and_reserved = 0, clock_low = 0,
        node = replicate 6 0\<rparr>\<rparr>, max_entries = 0\<rparr>"
    "\<lparr>im_tag_function = replicate 33 0, im_tag_location = replicate 23 0\<rparr>"]
  by (simp add: nil_rpc_header_def demo_control_def)

text \<open>C10. No station name length in a connect request makes the parser of the AR parameters leave
  an array; the stored name is terminated at the announced length, or at the last character of its
  array when the announced length is larger.\<close>

theorem pf_get_ar_param_safe:
  assumes "ar_param_ok (ar_param r)" and "honest s" and "run_state (pf_get_ar_param r) s = (r', t)"
  shows "rd_fault t = rd_fault s \<and> honest t \<and> ar_param_ok (ar_param r') \<and>
    cm_initiator_station_name (ar_param r') !
      min (unat (cm_initiator_station_name_len (ar_param r'))) 240 = 0"
  using safe_ar_param [OF assms(1)] assms(2,3) unfolding safe_def by (metis fst_conv snd_conv)

theorem pf_get_ar_param_safe_witness:
  "\<exists>r' t. run_state (pf_get_ar_param demo_ar) (demo_rd []) = (r', t) \<and> rd_fault t = False \<and>
    length (cm_initiator_station_name (ar_param r')) = 241"
proof -
  obtain r' t where run: "run_state (pf_get_ar_param demo_ar) (demo_rd []) = (r', t)" by fastforce
  have "ar_param_ok (ar_param demo_ar)" by (simp add: demo_ar_def)
  moreover have "honest (demo_rd [])" by (simp add: honest_def demo_rd_def)
  ultimately show ?thesis
    using pf_get_ar_param_safe [OF _ _ run] run by (simp add: demo_rd_def)
qed

text \<open>C14. A number of data descriptors in the frame that is larger than the array of an IOCR API
  entry makes the parser write behind the array: the count is not compared with the size.\<close>

theorem pf_get_iocr_api_entry_overflow:
  assumes "run_state pf_get_uint32 s = (a, s1)" and "run_state pf_get_uint16 s1 = (n, s2)"
    and "length (io_data p) < unat n"
  shows "rd_fault (snd (run_state (pf_get_iocr_api_entry p) s))"
  by (rule api_entry_fault [OF assms])

theorem pf_get_iocr_api_entry_overflow_witness:
  "rd_fault (snd (run_state (pf_get_iocr_api_entry \<lparr>ae_api = 0, nbr_io_data = 0, io_data = [],
     nbr_iocs = 0, iocs = []\<rparr>) (demo_rd [0, 0, 0, 0, 0, 1])))"
proof -
  have "fst (run_state pf_get_uint16 (snd (run_state pf_get_uint32 (demo_rd [0, 0, 0, 0, 0, 1])))) = 1"
    by code_simp
  then show ?thesis
    using pf_get_iocr_api_entry_overflow [OF surjective_pairing surjective_pairing] by simp
qed

text \<open>C13. However little room is left, a writer changes only bytes between its position and the
  announced size of the output buffer, keeps the position within it and returns, provided that the
  arrays that it copies from are as long as their length fields say.\<close>

theorem block_writer_contained:
  assumes "ar_result_ok r" and "unat ix < length (iocrs r)"
    and "unat (nbr_api_diffs r) \<le> length (api_diffs r)" and "\<forall>a \<in> set (api_diffs r). api_diff_ok a"
    and "uuid_ok (cb_ar_uuid c)" and "uuid_ok (rres_ar_uuid q)" and "unat n \<le> length d"
    and "str_ok (im_tag_function m)" and "str_ok (im_tag_location m)"
  shows "contained (pf_put_ar_result be r) \<and> contained (pf_put_iocr_result be r ix) \<and>
    contained (pf_put_alarm_cr_result be r) \<and> contained (pf_put_ar_diff be (Some r)) \<and>
    contained (pf_put_ar_rpc_result be r) \<and> contained (pf_put_control be bt c) \<and>
    contained (pf_put_write_result be q st) \<and> contained (pf_put_record_data_read be bt n d) \<and>
    contained (pf_put_im_1 be m)"
  by (intro conjI contains assms)

definition demo_result :: pf_iod_result where
  "demo_result = \<lparr>rres_sequence_number = 1, rres_ar_uuid = nil_uuid, rres_api = 0,
     rres_slot_number = 0, rres_subslot_number = 1, rres_index = 45040,
     rres_record_data_length = 0, add_data_1 = 0, add_data_2 = 0\<rparr>"

definition demo_status :: pnet_pnio_status where
  "demo_status = \<lparr>error_code = 0, error_decode = 0, error_code_1 = 0, error_code_2 = 0\<rparr>"

theorem block_writer_contained_witness:
  "contained (pf_put_ar_result True demo_ar) \<and> contained (pf_put_control True 0x8110 demo_control) \<and>
    contained (pf_put_write_result True demo_result demo_status)"
  using block_writer_contained [of demo_ar 0 demo_control demo_result 0 "[]"
      "\<lparr>im_tag_function = [0], im_tag_location = [0]\<rparr>" True "0x8110" demo_status]
  by (simp add: demo_ar_def demo_control_def demo_result_def str_ok_def)

text \<open>C7. A control block that was put into the buffer is read back by the peer: the same AR UUID,
  session key, alarm sequence number, command and properties, behind a header with the type of the
  block, its length 28 and its version, and the parser ends where the writer ended. Both byte
  orders.\<close>

theorem pf_put_control_roundtrip:
  assumes "uuid_ok (cb_ar_uuid c)" and "fits w 32"
  shows "\<exists>v. pf_put_control be bt c w = Some v \<and>
    run_state (get_control_block demo_control) (reader_of be v (wr_pos w)) =
      ((\<lparr>block_type = bt, block_length = 28, block_version_high = 1, block_version_low = 0\<rparr>, c),
       reader_of be v (wr_pos v))"
proof -
  have "decodes be be (get_control_block demo_control)
      (block_bytes be bt PNET_BLOCK_VERSION_LOW (control_bytes be c)) (control_header bt, c)"
    by (rule decodes_control_block) (simp_all add: assms demo_control_def)
  then show ?thesis
    using emit_decode [OF emits_control [OF assms(1)]] assms(2) length_control_bytes [OF assms(1)]
    by (simp add: control_header_def PNET_BLOCK_VERSION_HIGH_def PNET_BLOCK_VERSION_LOW_def)
qed

theorem pf_put_control_roundtrip_witness:
  "\<exists>v. pf_put_control True 0x8110 demo_control (demo_wr 40) = Some v \<and>
    snd (fst (run_state (get_control_block demo_control) (reader_of True v 0))) = demo_control"
  using pf_put_control_roundtrip [of demo_control "demo_wr 40" True "0x8110"]
  by (auto simp: demo_control_def demo_wr_def fits_def)

text \<open>C8. The RPC header is read back as it was written, in the byte order that the header itself
  announces whatever the reader assumed before, and the second result of the writer is the
  position of the length of the body, 74 bytes into the header.\<close>

theorem pf_put_dce_rpc_header_roundtrip:
  assumes "rpc_header_ok h" and "packet_type h AND 31 = packet_type h" and "float_repr h = 0"
    and "\<not> cancel_pending h" and "fits w 80"
  shows "\<exists>v. pf_put_dce_rpc_header h w = Some (v, wr_pos w + 74) \<and>
    run_state (pf_get_dce_rpc_header nil_rpc_header) (reader_of be v (wr_pos w)) =
      (h, reader_of (rpc_is_big_endian h) v (wr_pos v))"
proof -
  have ok: "rpc_header_plain h" using assms by simp
  have len: "length (rpc_header_start_bytes h @ rpc_header_end_bytes h) = 80"
    using rpc_header_lengths [OF assms(1)] by simp
  from rpc_header.roundtrip [OF ok, of w be] assms(5) obtain v where
    v: "map_option fst (pf_put_dce_rpc_header h w) = Some v"
      "run_state (pf_get_dce_rpc_header nil_rpc_header) (reader_of be v (wr_pos w)) =
        (h, reader_of (rpc_is_big_endian h) v (wr_pos v))"
    unfolding len by blast
  then show ?thesis using put_rpc_header_run [OF assms(1,5)] by simp
qed

definition demo_rpc_header :: pf_rpc_header where
  "demo_rpc_header = nil_rpc_header\<lparr>rpc_version := 4, packet_type := 2, rpc_is_big_endian := True,
     sequence_nmb := 9, length_of_body := 100\<rparr>"

theorem pf_put_dce_rpc_header_roundtrip_witness:
  "\<exists>v. pf_put_dce_rpc_header demo_rpc_header (demo_wr 100) = Some (v, 74) \<and>
    fst (run_state (pf_get_dce_rpc_header nil_rpc_header) (reader_of False v 0)) = demo_rpc_header"
  using pf_put_dce_rpc_header_roundtrip [of demo_rpc_header "demo_wr 100" False]
  by (auto simp: demo_rpc_header_def nil_rpc_header_def demo_wr_def fits_def)

text \<open>C9. The blocks of the connect response have the layout of the standard: type, length of what
  follows the length field, version, and the fields of the result in order; the server block is
  padded with zeros to a multiple of four bytes. The length that is inserted afterwards is right
  for each of them, and nothing else of the buffer changes.\<close>

theorem connect_response_layout:
  assumes "ar_result_ok r"
    and "unat (length_cm_responder_station_name (ar_server r)) \<le>
      length (cm_responder_station_name (ar_server r))"
    and "unat p + 8 + unat (length_cm_responder_station_name (ar_server r)) < 65536"
  shows "emits_at p (pf_put_ar_result be r)
      (block_bytes be PF_BT_AR_BLOCK_RES PNET_BLOCK_VERSION_LOW (ar_result_bytes be r)) \<and>
    emits_at p (pf_put_alarm_cr_result be r)
      (block_bytes be PF_BT_ALARM_CR_BLOCK_RES PNET_BLOCK_VERSION_LOW
        (alarm_cr_result_bytes be (alarm_cr_result r))) \<and>
    emits_at p (pf_put_ar_server_result be r)
      (block_bytes be PF_BT_AR_SERVER_BLOCK PNET_BLOCK_VERSION_LOW (ar_server_bytes be (ar_server r)))"
  by (intro conjI emits_ar_result emits_alarm_cr_result emits_ar_server_result assms)

theorem connect_response_layout_witness:
  "emits_at 0 (pf_put_ar_server_result True demo_ar)
    (block_bytes True PF_BT_AR_SERVER_BLOCK PNET_BLOCK_VERSION_LOW [0, 3, 97, 98, 99, 0])"
proof -
  have "ar_server_bytes True (ar_server demo_ar) = [0, 3, 97, 98, 99, 0]"
    by code_simp
  then show ?thesis
    using connect_response_layout [of demo_ar 0 True] by (simp add: demo_ar_def)
qed

text \<open>C15. The log book: before the array has been filled once, the entries from the first to the
  newest are sent and the announced count is their number. Once it has wrapped, the announced
  count is the size of the array, but only the entries after the one at \<^verbatim>\<open>put\<close> are sent: one
  entry less than announced.\<close>

theorem pf_put_log_book_entries:
  assumes "n = length (lb_entries b)" and "0 < n" and "n \<le> 65535" and "unat (lb_put b) < n"
    and "\<forall>e \<in> set (lb_entries b). uuid_ok (le_ar_uuid e)" and "log_book_range b = (ix, cnt)"
  shows "unat cnt = (if lb_wrap b then n else unat (lb_put b)) \<and>
    emits_at p (put_log_book_entries be b ix)
      (concat (map (\<lambda>i. log_entry_bytes be (lb_entries b ! i))
        (log_indices (if lb_wrap b then n - 1 else unat (lb_put b)) n (unat ix))))"
proof (cases "lb_wrap b")
  case True
  then have ix: "ix = (if unat (lb_put b + 1) \<ge> n then 0 else lb_put b + 1)" and "cnt = of_nat n"
    using assms by (simp_all add: log_book_range_def)
  moreover have nx: "unat ix = Suc (unat (lb_put b)) mod n"
    unfolding ix by (rule log_next) (use assms in simp_all)
  moreover have "(Suc (unat (lb_put b)) mod n + (n - 1)) mod n = unat (lb_put b)"
    using assms(2,4) by (cases "Suc (unat (lb_put b)) = n") auto
  ultimately show ?thesis
    using True assms emits_log_entries [OF assms(1,3,4,5), of ix "n - 1"]
    by (simp add: unat_of_nat take_bit_nat_eq_self)
next
  case False
  then show ?thesis
    using assms emits_log_entries [OF assms(1,3,4,5), of 0 "unat (lb_put b)"]
    by (simp add: log_book_range_def)
qed

definition demo_book_entry :: "u32 \<Rightarrow> pf_log_book_entry" where
  "demo_book_entry d = \<lparr>le_time_ts = \<lparr>ts_status = 0, sec_hi = 0, sec_lo = 0, nano_sec = 0\<rparr>,
     le_ar_uuid = nil_uuid, le_pnio_status = \<lparr>error_code = 0, error_decode = 0, error_code_1 = 0,
       error_code_2 = 0\<rparr>, entry_detail = d\<rparr>"

definition demo_log_book :: pf_log_book where
  "demo_log_book = \<lparr>lb_time_ts = \<lparr>ts_status = 0, sec_hi = 0, sec_lo = 0, nano_sec = 0\<rparr>,
     lb_entries = [demo_book_entry 1, demo_book_entry 2, demo_book_entry 3],
     lb_put = 1, lb_wrap = True\<rparr>"

theorem pf_put_log_book_entries_witness:
  "snd (log_book_range demo_log_book) = 3 \<and>
    emits_at 0 (put_log_book_entries True demo_log_book 2)
      (log_entry_bytes True (demo_book_entry 3) @ log_entry_bytes True (demo_book_entry 1))"
proof -
  have r: "log_book_range demo_log_book = (2, 3)"
    by (simp add: log_book_range_def demo_log_book_def)
  have i: "log_indices 2 3 2 = [2, 0]" by code_simp
  show ?thesis
    using pf_put_log_book_entries [of 3 demo_log_book 2 3 0 True] r i
    by (simp add: demo_log_book_def demo_book_entry_def)
qed

text \<open>C16. When the output buffer is full and the position is not aligned, the padding loop never
  returns: a full buffer does not advance the position and the loop has no other exit.\<close>

theorem pf_put_padding_align_hangs:
  assumes "unat (wr_res_len w) \<le> unat (wr_pos w)"
    and "(uint (wr_pos w) - uint start) mod uint k \<noteq> 0"
  shows "pf_put_padding_align start k w = None"
  using padding_align_stuck [of start k w] assms
  by (cases "pf_put_padding_align start k w") auto

theorem pf_put_padding_align_hangs_witness:
  "pf_put_padding_align 0 4 ((demo_wr 5)\<lparr>wr_pos := 5\<rparr>) = None"
  using pf_put_padding_align_hangs [of "(demo_wr 5)\<lparr>wr_pos := 5\<rparr>" 0 4] by (simp add: demo_wr_def)

end
