(* ===== verification/Pn_Net_Correct.thy ===== *)
theory Pn_Net_Correct
  imports Pn_Net Pn_Scheduler_Correct
begin

text \<open>
  Lemmas on the state of the stack that the components share: reading a CR after an update, the
  frame buffers, and starting a timer when the scheduler has room.
\<close>

section \<open>Access lemmas\<close>

text \<open>The CR \<open>c\<close> of the AR \<open>a\<close> exists.\<close>

definition has_cr :: "pnet \<Rightarrow> nat \<Rightarrow> nat \<Rightarrow> bool" where
  "has_cr s a c \<longleftrightarrow> a < length (net_ars s) \<and> c < length (crs (net_ars s ! a))"

lemma the_cr_upd [simp]: "has_cr s a c \<Longrightarrow> the_cr (upd_cr a c f s) a c = f (the_cr s a c)"
  by (simp add: has_cr_def the_cr_def upd_cr_def upd_ar_def)

lemma upd_cr_twice [simp]: "upd_cr a c g (upd_cr a c f s) = upd_cr a c (\<lambda>r. g (f r)) s"
proof (cases "has_cr s a c")
  case True
  then show ?thesis by (simp add: upd_cr_def upd_ar_def has_cr_def)
next
  case False
  then show ?thesis
    by (cases "a < length (net_ars s)") (simp_all add: upd_cr_def upd_ar_def has_cr_def not_less
      list_update_beyond)
qed

lemma has_cr_upd [simp]: "has_cr (upd_cr a c f s) a' c' \<longleftrightarrow> has_cr s a' c'"
  by (auto simp: has_cr_def upd_cr_def upd_ar_def nth_list_update_if)

lemma upd_cr_fields [simp]:
  "net_sched (upd_cr a c f s) = net_sched s" "net_now (upd_cr a c f s) = net_now s"
  "net_heap (upd_cr a c f s) = net_heap s" "net_out (upd_cr a c f s) = net_out s"
  "net_world (upd_cr a c f s) = net_world s" "eth_id_map (upd_cr a c f s) = eth_id_map s"
  by (simp_all add: upd_cr_def upd_ar_def)

lemma upd_cr_cfg [simp]: "cfg (net_ars (upd_cr a c f s) ! a') = cfg (net_ars s ! a')"
  by (auto simp: upd_cr_def upd_ar_def nth_list_update_if)

lemma the_cr_cong [simp]:
  "the_cr (s\<lparr>net_heap := h\<rparr>) = the_cr s" "the_cr (s\<lparr>net_sched := sc\<rparr>) = the_cr s"
  "the_cr (s\<lparr>net_out := os\<rparr>) = the_cr s" "the_cr (s\<lparr>eth_id_map := m\<rparr>) = the_cr s"
  "has_cr (s\<lparr>net_heap := h\<rparr>) = has_cr s" "has_cr (s\<lparr>net_sched := sc\<rparr>) = has_cr s"
  "has_cr (s\<lparr>net_out := os\<rparr>) = has_cr s" "has_cr (s\<lparr>eth_id_map := m\<rparr>) = has_cr s"
  by (auto simp: the_cr_def has_cr_def fun_eq_iff)

lemma the_buf_update [simp]:
  "the_buf s b = Some f \<Longrightarrow> the_buf (s\<lparr>net_heap := (net_heap s)[b := Some f']\<rparr>) b = Some f'"
  by (simp add: the_buf_def split: if_splits)

lemma the_buf_upd_cr [simp]: "the_buf (upd_cr a c f s) b = the_buf s b"
  by (simp add: the_buf_def)

lemma the_cr_emit [simp]:
  "the_cr (emit e s) = the_cr s" "has_cr (emit e s) = has_cr s" "net_sched (emit e s) = net_sched s"
  "net_out (emit e s) = net_out s @ [e]" "the_buf (emit e s) b = the_buf s b"
  "net_now (emit e s) = net_now s" "net_world (emit e s) = net_world s" "net_heap (emit e s) = net_heap s"
  by (auto simp: emit_def fun_eq_iff the_buf_def)

lemma the_buf_sched [simp]: "the_buf (s\<lparr>net_sched := sc\<rparr>) b = the_buf s b"
  by (simp add: the_buf_def)

section \<open>Frame buffers in use\<close>

definition live :: "pnet \<Rightarrow> nat set" where
  "live s = {b. the_buf s b \<noteq> None}"

lemma live_simps [simp]:
  "live (upd_cr a c f s) = live s" "live (emit e s) = live s" "live (s\<lparr>net_sched := sc\<rparr>) = live s"
  by (simp_all add: live_def)

lemma live_cong: "net_heap s = net_heap t \<Longrightarrow> live s = live t"
  by (simp add: live_def the_buf_def)

lemma buf_free_live:
  assumes "b \<in> live s"
  shows "pnal_buf_free b s = Some (s\<lparr>net_heap := (net_heap s)[b := None]\<rparr>)"
    and "live (s\<lparr>net_heap := (net_heap s)[b := None]\<rparr>) = live s - {b}"
  using assms by (auto simp: live_def pnal_buf_free_def the_buf_def nth_list_update_if split: if_splits)

section \<open>Timers of a connection\<close>

lemma timer_add_room:
  assumes "sched_wf (net_sched s)" and "0 < length (free (net_sched s))"
  obtains sc h' where "timer_add delay cb arg h s = Some (0, h', s\<lparr>net_sched := sc\<rparr>)"
    and "sched_wf sc" and "sched_owns sc h'" and "length (free (net_sched s)) = Suc (length (free sc))"
  using sched_start_room [OF assms, of "(net_now s, delay, cb, arg)" h]
  by (auto simp: sched_start_def timer_add_def split: prod.splits)

end
