(* ===== verification/Pn_Ppm.thy ===== *)
theory Pn_Ppm
  imports Pn_Net
begin

text \<open>
  The provider protocol machine, \<^verbatim>\<open>src/common/pf_ppm.c\<close>, with its software driver
  \<^verbatim>\<open>src/common/pf_ppm_driver_sw.c\<close>: it sends the input data of a CR in a frame of its own at
  every control interval. Locks are not modelled; a driver call is a call of the software driver.
\<close>

section \<open>Cycle counters\<close>

text \<open>A division by zero, for an interval of zero, is \<open>None\<close>.\<close>

definition pf_ppm_calculate_cyclecounter :: "u32 \<Rightarrow> u16 \<Rightarrow> u16 \<Rightarrow> u16 option" where
  "pf_ppm_calculate_cyclecounter timestamp scf rr =
     (let interval = ucast scf * ucast rr :: u32;
          raw = (32 * ucast timestamp :: 64 word) div 1000
      in if interval = 0 then None
         else let number_of_transmissions = ucast (raw div ucast interval) :: u32
              in Some (ucast (number_of_transmissions * interval)))"

text \<open>
  The quotient is kept in 16 bits; the product is one of \<^verbatim>\<open>int\<close> and \<^verbatim>\<open>uint32_t\<close>, cut to 16 bits by
  the return.
\<close>

definition pf_ppm_calculate_next_cyclecounter :: "u16 \<Rightarrow> u16 \<Rightarrow> u16 \<Rightarrow> u16 option" where
  "pf_ppm_calculate_next_cyclecounter previous scf rr =
     (let interval = ucast scf * ucast rr :: u32
      in if interval = 0 then None
         else let number_of_previous = ucast (ucast previous div interval :: u32) :: u16
              in Some (ucast ((ucast number_of_previous + 1) * interval)))"

section \<open>The send buffer\<close>

definition be16 :: "u16 \<Rightarrow> u8 list" where
  "be16 v = [ucast (drop_bit 8 v), ucast v]"

text \<open>Copy bytes into an array; \<open>None\<close> when they do not fit.\<close>

definition copy_to :: "nat \<Rightarrow> u8 list \<Rightarrow> u8 list \<Rightarrow> u8 list option" where
  "copy_to i bs xs = (if i + length bs \<le> length xs then Some (overlay i bs xs) else None)"

definition with_buf :: "nat option \<Rightarrow> (pnal_buf \<Rightarrow> pnal_buf option) \<Rightarrow> pnet \<Rightarrow> pnet option" where
  "with_buf b f s = do {
     b \<leftarrow> b;
     p \<leftarrow> the_buf s b;
     p \<leftarrow> f p;
     Some (s\<lparr>net_heap := (net_heap s)[b := Some p]\<rparr>) }"

definition pf_ppm_init_buf ::
  "pf_ppm \<Rightarrow> u16 \<Rightarrow> pf_iocr_tag_header \<Rightarrow> pnal_buf \<Rightarrow> pnal_buf option" where
  "pf_ppm_init_buf p_ppm i p_header p_frame = do {
     bs \<leftarrow> copy_to 0 (replicate (unat (ppm_buffer_length p_ppm)) 0) (payload p_frame);
     bs \<leftarrow> copy_to 0 (ppm_da p_ppm @ ppm_sa p_ppm @ be16 PNAL_ETHTYPE_VLAN @
       be16 ((iocr_vlan_id p_header AND 4095) OR
             push_bit 13 (ucast (iocr_user_priority p_header) AND 7)) @
       be16 PNAL_ETHTYPE_PROFINET @ be16 i) bs;
     Some (p_frame\<lparr>payload := bs, b_len := ppm_buffer_length p_ppm\<rparr>) }"

definition pf_ppm_finish_buffer :: "nat \<Rightarrow> nat \<Rightarrow> u16 \<Rightarrow> pnet \<Rightarrow> pnet option" where
  "pf_ppm_finish_buffer a c dlen s = do {
     n \<leftarrow> pf_ppm_calculate_next_cyclecounter (ppm_cycle (the_ppm s a c))
           (ppm_send_clock_factor (the_ppm s a c)) (ppm_reduction_ratio (the_ppm s a c));
     let s = upd_ppm a c (\<lambda>p. p\<lparr>ppm_cycle := n\<rparr>) s;
     let p = the_ppm s a c;
     if unat dlen \<le> length (buffer_data p)
     then with_buf (p_send_buffer p) (\<lambda>b. do {
       bs \<leftarrow> copy_to (unat (ppm_buffer_pos p)) (take (unat dlen) (buffer_data p)) (payload b);
       bs \<leftarrow> copy_to (unat (cycle_counter_offset p)) (be16 (ppm_cycle p)) bs;
       bs \<leftarrow> copy_to (unat (data_status_offset p)) [ppm_data_status p] bs;
       bs \<leftarrow> copy_to (unat (transfer_status_offset p)) [transfer_status p] bs;
       Some (b\<lparr>payload := bs\<rparr>) }) s
     else None }"

section \<open>Create, activate, close\<close>


text \<open>Bits of the data status.\<close>

definition PNET_DATA_STATUS_BIT_STATE :: nat where "PNET_DATA_STATUS_BIT_STATE = 0"
definition PNET_DATA_STATUS_BIT_REDUNDANCY :: nat where "PNET_DATA_STATUS_BIT_REDUNDANCY = 1"
definition PNET_DATA_STATUS_BIT_DATA_VALID :: nat where "PNET_DATA_STATUS_BIT_DATA_VALID = 2"
definition PNET_DATA_STATUS_BIT_PROVIDER_STATE :: nat where
  "PNET_DATA_STATUS_BIT_PROVIDER_STATE = 4"
definition PNET_DATA_STATUS_BIT_STATION_PROBLEM_INDICATOR :: nat where
  "PNET_DATA_STATUS_BIT_STATION_PROBLEM_INDICATOR = 5"

lemmas data_status_bits = PNET_DATA_STATUS_BIT_STATE_def PNET_DATA_STATUS_BIT_REDUNDANCY_def
  PNET_DATA_STATUS_BIT_DATA_VALID_def PNET_DATA_STATUS_BIT_PROVIDER_STATE_def
  PNET_DATA_STATUS_BIT_STATION_PROBLEM_INDICATOR_def

definition cr_control_interval :: "pf_iocr_param \<Rightarrow> u32" where
  "cr_control_interval p =
     (ucast (send_clock_factor p) * ucast (reduction_ratio p) * 1000) div 32"

definition pf_ppm_init_cr_config :: "nat \<Rightarrow> nat \<Rightarrow> pnet \<Rightarrow> pnet" where
  "pf_ppm_init_cr_config a c s = (let
     p_ar = cfg (net_ars s ! a);
     param = the_iocr_param s a c;
     pos = 20 :: u16
   in upd_ppm a c (\<lambda>p. p\<lparr>first_transmit := False,
        ppm_sa := cm_responder_mac_add (ar_result p_ar),
        ppm_da := cm_initiator_mac_add (ar_param p_ar),
        ppm_buffer_pos := pos, ppm_cycle := 0, transfer_status := 0,
        cycle_counter_offset := pos + c_sdu_length param,
        data_status_offset := pos + c_sdu_length param + 2,
        transfer_status_offset := pos + c_sdu_length param + 2 + 1,
        ppm_buffer_length := pos + c_sdu_length param + 2 + 1 + 1,
        ppm_data_status := push_bit PNET_DATA_STATUS_BIT_STATE 1 OR
          push_bit PNET_DATA_STATUS_BIT_DATA_VALID 1 OR
          push_bit PNET_DATA_STATUS_BIT_STATION_PROBLEM_INDICATOR 1,
        ppm_control_interval := cr_control_interval param,
        ppm_send_clock_factor := send_clock_factor param,
        ppm_reduction_ratio := reduction_ratio param\<rparr>) s)"

definition PNET_ERROR_CODE_1_PPM :: u8 where "PNET_ERROR_CODE_1_PPM = 0x49"
definition PNET_ERROR_CODE_2_PPM_INVALID_STATE :: u8 where "PNET_ERROR_CODE_2_PPM_INVALID_STATE = 0"
definition PNET_ERROR_CODE_2_PPM_INVALID :: u8 where "PNET_ERROR_CODE_2_PPM_INVALID = 1"

definition pf_ppm_create :: "nat \<Rightarrow> nat \<Rightarrow> pnet \<Rightarrow> (int \<times> pnet) option" where
  "pf_ppm_create a c s = (let
     s = s\<lparr>ppm_instance_cnt := ppm_instance_cnt s + 1,
           ppm_buf_lock := (if ppm_instance_cnt s = 0 then True else ppm_buf_lock s)\<rparr>
   in if ppm_state (the_ppm s a c) \<noteq> PF_PPM_STATE_W_START
      then Some (-1, set_err a PNET_ERROR_CODE_1_PPM PNET_ERROR_CODE_2_PPM_INVALID_STATE s)
      else let
        s = pf_ppm_init_cr_config a c s;
        (b, s) = pnal_buf_alloc PF_FRAME_BUFFER_SIZE s;
        s = upd_ppm a c (\<lambda>p. p\<lparr>p_send_buffer := b\<rparr>) s
      in if b = None
         then Some (-1, set_err a PNET_ERROR_CODE_1_PPM PNET_ERROR_CODE_2_PPM_INVALID_STATE s)
         else do {
           s \<leftarrow> with_buf b (pf_ppm_init_buf (the_ppm s a c) (frame_id (the_iocr_param s a c))
                  (iocr_tag_header (the_iocr_param s a c))) s;
           Some (0, s) })"

text \<open>\<open>error_ind\<close> is \<^verbatim>\<open>pf_cmsu_ppm_error_ind\<close>, which the state machines of the AR provide.\<close>

definition pf_ppm_state_ind :: "(nat \<Rightarrow> pnet \<Rightarrow> pnet option) \<Rightarrow> nat \<Rightarrow> bool \<Rightarrow> pnet \<Rightarrow> pnet option" where
  "pf_ppm_state_ind error_ind a err s =
     (if err
      then error_ind a (set_err a PNET_ERROR_CODE_1_PPM PNET_ERROR_CODE_2_PPM_INVALID s)
      else Some s)"

definition pf_ppm_drv_sw_activate_req :: "nat \<Rightarrow> nat \<Rightarrow> pnet \<Rightarrow> (int \<times> pnet) option" where
  "pf_ppm_drv_sw_activate_req a c s = do {
     let h = pf_scheduler_init_handle (ppm_ci_timeout (the_ppm s a c)) NAME_PPM;
     (r, h, s) \<leftarrow> timer_add (ppm_control_interval (the_ppm s a c)) CB_PPM (pair_ptr a c) h s;
     Some (r, upd_ppm a c (\<lambda>p. p\<lparr>ppm_ci_timeout := h\<rparr>) s) }"

definition pf_ppm_activate_req ::
  "(nat \<Rightarrow> pnet \<Rightarrow> pnet option) \<Rightarrow> nat \<Rightarrow> nat \<Rightarrow> pnet \<Rightarrow> (int \<times> pnet) option" where
  "pf_ppm_activate_req error_ind a c s =
     (if ppm_state (the_ppm s a c) = PF_PPM_STATE_RUN
      then Some (-1, set_err a PNET_ERROR_CODE_1_PPM PNET_ERROR_CODE_2_PPM_INVALID_STATE s)
      else do {
        let s = upd_ppm a c (\<lambda>p. p\<lparr>next_exec := net_now s + ppm_control_interval p,
                  ppm_state := PF_PPM_STATE_RUN, ppm_ci_running := True\<rparr>) s;
        s \<leftarrow> pf_ppm_finish_buffer a c (in_length (the_cr s a c)) s;
        (ret, s) \<leftarrow> pf_ppm_drv_sw_activate_req a c s;
        s \<leftarrow> (if ret \<noteq> 0 then pf_ppm_state_ind error_ind a True s else Some s);
        Some (ret, s) })"

definition pf_ppm_drv_sw_close_req :: "nat \<Rightarrow> nat \<Rightarrow> pnet \<Rightarrow> pnet option" where
  "pf_ppm_drv_sw_close_req a c s = do {
     (h, s) \<leftarrow> timer_remove_if_running (ppm_ci_timeout (the_ppm s a c)) s;
     Some (upd_ppm a c (\<lambda>p. p\<lparr>ppm_ci_timeout := h\<rparr>) s) }"

text \<open>
  The pointer to the send buffer keeps its value after the buffer has been freed. Freeing a NULL
  pointer is allowed, as \<^verbatim>\<open>free\<close> allows it.
\<close>

definition free_opt :: "nat option \<Rightarrow> pnet \<Rightarrow> pnet option" where
  "free_opt b s = (case b of None \<Rightarrow> Some s | Some b \<Rightarrow> pnal_buf_free b s)"

definition pf_ppm_close_req :: "nat \<Rightarrow> nat \<Rightarrow> pnet \<Rightarrow> pnet option" where
  "pf_ppm_close_req a c s = do {
     let s = upd_ppm a c (\<lambda>p. p\<lparr>ppm_ci_running := False\<rparr>) s;
     s \<leftarrow> pf_ppm_drv_sw_close_req a c s;
     s \<leftarrow> free_opt (p_send_buffer (the_ppm s a c)) s;
     let s = upd_ppm a c (\<lambda>p. p\<lparr>ppm_state := PF_PPM_STATE_W_START, ppm_data_status := 0\<rparr>) s;
     Some (s\<lparr>ppm_instance_cnt := ppm_instance_cnt s - 1,
             ppm_buf_lock := (if ppm_instance_cnt s = 1 then False else ppm_buf_lock s)\<rparr>) }"

section \<open>The periodic transmission\<close>

definition pf_ppm_drv_sw_send ::
  "(nat \<Rightarrow> pnet \<Rightarrow> pnet option) \<Rightarrow> nat \<Rightarrow> nat \<Rightarrow> u32 \<Rightarrow> pnet \<Rightarrow> pnet option" where
  "pf_ppm_drv_sw_send error_ind a c current_time s = (let
     s = upd_ppm a c (\<lambda>p. p\<lparr>ppm_ci_timeout := pf_scheduler_reset_handle (ppm_ci_timeout p)\<rparr>) s
   in if \<not> ppm_ci_running (the_ppm s a c) then Some s
      else do {
        s \<leftarrow> pf_ppm_finish_buffer a c (in_length (the_cr s a c)) s;
        b \<leftarrow> p_send_buffer (the_ppm s a c);
        (n, s) \<leftarrow> pf_eth_send_on_management_port b s;
        if n \<le> 0 then Some s
        else do {
          let s = upd_ppm a c (\<lambda>p. p\<lparr>next_exec := next_exec p + ppm_control_interval p\<rparr>) s;
          (r, h, s) \<leftarrow> timer_add (next_exec (the_ppm s a c) - current_time) CB_PPM (pair_ptr a c)
                        (ppm_ci_timeout (the_ppm s a c)) s;
          let s = upd_ppm a c (\<lambda>p. p\<lparr>ppm_ci_timeout := h\<rparr>) s;
          if r = 0
          then do {
            let s = upd_ppm a c (\<lambda>p. p\<lparr>trx_cnt := trx_cnt p + 1\<rparr>) s;
            if \<not> first_transmit (the_ppm s a c)
            then do {
              s \<leftarrow> pf_ppm_state_ind error_ind a False s;
              Some (upd_ppm a c (\<lambda>p. p\<lparr>first_transmit := True\<rparr>) s) }
            else Some s }
          else pf_ppm_state_ind error_ind a True s } })"

section \<open>Data, IOPS and IOCS of a subslot\<close>

definition pf_ppm_drv_sw_write_frame_buffer ::
  "nat \<Rightarrow> nat \<Rightarrow> nat \<Rightarrow> u8 list \<Rightarrow> pnet \<Rightarrow> pnet option" where
  "pf_ppm_drv_sw_write_frame_buffer a c offset d s = do {
     bs \<leftarrow> copy_to offset d (buffer_data (the_ppm s a c));
     Some (upd_ppm a c (\<lambda>p. p\<lparr>buffer_data := bs\<rparr>) s) }"

definition pf_ppm_drv_sw_read_frame_buffer :: "nat \<Rightarrow> nat \<Rightarrow> nat \<Rightarrow> nat \<Rightarrow> pnet \<Rightarrow> u8 list option" where
  "pf_ppm_drv_sw_read_frame_buffer a c offset n s =
     (let bs = buffer_data (the_ppm s a c)
      in if offset + n \<le> length bs then Some (take n (drop offset bs)) else None)"

text \<open>\<open>d\<close> is \<open>None\<close> for a NULL data pointer.\<close>

definition pf_ppm_drv_sw_write_data_and_iops ::
  "nat \<Rightarrow> nat \<Rightarrow> pf_iodata_object \<Rightarrow> u8 list option \<Rightarrow> u8 list \<Rightarrow> pnet \<Rightarrow> pnet option" where
  "pf_ppm_drv_sw_write_data_and_iops a c io d iops s = do {
     s \<leftarrow> (case d of None \<Rightarrow> Some s
          | Some d \<Rightarrow> pf_ppm_drv_sw_write_frame_buffer a c (unat (data_offset io)) d s);
     pf_ppm_drv_sw_write_frame_buffer a c (unat (iops_offset io)) iops s }"

definition pf_ppm_drv_sw_read_data_and_iops ::
  "nat \<Rightarrow> nat \<Rightarrow> pf_iodata_object \<Rightarrow> pnet \<Rightarrow> (u8 list \<times> u8 list) option" where
  "pf_ppm_drv_sw_read_data_and_iops a c io s = do {
     d \<leftarrow> pf_ppm_drv_sw_read_frame_buffer a c (unat (data_offset io)) (unat (data_length io)) s;
     p \<leftarrow> pf_ppm_drv_sw_read_frame_buffer a c (unat (iops_offset io)) (unat (iops_length io)) s;
     Some (d, p) }"

definition pf_ppm_drv_sw_write_iocs ::
  "nat \<Rightarrow> nat \<Rightarrow> pf_iodata_object \<Rightarrow> u8 list \<Rightarrow> pnet \<Rightarrow> pnet option" where
  "pf_ppm_drv_sw_write_iocs a c io cs s =
     pf_ppm_drv_sw_write_frame_buffer a c (unat (iocs_offset io)) cs s"

definition pf_ppm_drv_sw_read_iocs :: "nat \<Rightarrow> nat \<Rightarrow> pf_iodata_object \<Rightarrow> pnet \<Rightarrow> u8 list option" where
  "pf_ppm_drv_sw_read_iocs a c io s =
     pf_ppm_drv_sw_read_frame_buffer a c (unat (iocs_offset io)) (unat (iocs_length io)) s"

section \<open>Data status\<close>

definition PF_IOCR_TYPE_INPUT :: u16 where "PF_IOCR_TYPE_INPUT = 1"
definition PF_IOCR_TYPE_OUTPUT :: u16 where "PF_IOCR_TYPE_OUTPUT = 2"
definition PF_IOCR_TYPE_MC_PROVIDER :: u16 where "PF_IOCR_TYPE_MC_PROVIDER = 3"
definition PF_IOCR_TYPE_MC_CONSUMER :: u16 where "PF_IOCR_TYPE_MC_CONSUMER = 4"

definition set_status_bit :: "nat \<Rightarrow> bool \<Rightarrow> pf_ppm \<Rightarrow> pf_ppm" where
  "set_status_bit n v p = p\<lparr>ppm_data_status :=
     (if v then ppm_data_status p OR push_bit n 1 else ppm_data_status p AND NOT (push_bit n 1))\<rparr>"

definition pf_ppm_set_data_status_state :: "nat \<Rightarrow> nat \<Rightarrow> bool \<Rightarrow> pnet \<Rightarrow> int \<times> pnet" where
  "pf_ppm_set_data_status_state a c primary s =
     (0, upd_ppm a c (set_status_bit PNET_DATA_STATUS_BIT_STATE primary) s)"

definition pf_ppm_set_data_status_redundancy :: "nat \<Rightarrow> nat \<Rightarrow> bool \<Rightarrow> pnet \<Rightarrow> int \<times> pnet" where
  "pf_ppm_set_data_status_redundancy a c redundant s =
     (0, upd_ppm a c (set_status_bit PNET_DATA_STATUS_BIT_REDUNDANCY redundant) s)"

definition pf_ppm_set_data_status_provider :: "nat \<Rightarrow> nat \<Rightarrow> bool \<Rightarrow> pnet \<Rightarrow> int \<times> pnet" where
  "pf_ppm_set_data_status_provider a c run s =
     (0, upd_ppm a c (set_status_bit PNET_DATA_STATUS_BIT_PROVIDER_STATE run) s)"

definition is_provider_cr :: "pf_iocr_param \<Rightarrow> bool" where
  "is_provider_cr p \<longleftrightarrow> iocr_type p = PF_IOCR_TYPE_INPUT \<or> iocr_type p = PF_IOCR_TYPE_MC_PROVIDER"

definition is_consumer_cr :: "pf_iocr_param \<Rightarrow> bool" where
  "is_consumer_cr p \<longleftrightarrow> iocr_type p = PF_IOCR_TYPE_OUTPUT \<or> iocr_type p = PF_IOCR_TYPE_MC_CONSUMER"

text \<open>All CRs of the array, not only those in use; the bit is set when there is no problem.\<close>

definition pf_ppm_set_problem_indicator :: "nat \<Rightarrow> bool \<Rightarrow> pnet \<Rightarrow> pnet" where
  "pf_ppm_set_problem_indicator a problem s =
     fold (\<lambda>c s. if is_provider_cr (the_iocr_param s a c)
       then upd_ppm a c (set_status_bit PNET_DATA_STATUS_BIT_STATION_PROBLEM_INDICATOR (\<not> problem)) s
       else s) [0..<length (crs (net_ars s ! a))] s"

end
