(* ===== verification/Pn_Cpm.thy ===== *)
theory Pn_Cpm
  imports Pn_Ppm
begin

text \<open>
  The consumer protocol machine, \<^verbatim>\<open>src/common/pf_cpm.c\<close>, with its software driver
  \<^verbatim>\<open>src/common/pf_cpm_driver_sw.c\<close>: it checks the frames of an output CR, keeps the newest for
  the application and supervises their arrival with the data hold timer. What it reports to the
  state machines of the AR (\<^verbatim>\<open>pf_cmio_cpm_state_ind\<close>, \<^verbatim>\<open>pf_cmsu_cpm_error_ind\<close>) is a parameter
  here and those machines in their theory.
\<close>

definition PNET_ERROR_CODE_1_CPM :: u8 where "PNET_ERROR_CODE_1_CPM = 0x48"
definition PNET_ERROR_CODE_2_CPM_INVALID_STATE :: u8 where "PNET_ERROR_CODE_2_CPM_INVALID_STATE = 0"
definition PNET_ERROR_CODE_2_CPM_INVALID :: u8 where "PNET_ERROR_CODE_2_CPM_INVALID = 1"
definition PNET_ERROR_CODE_1_RTA_ERR_CLS_PROTOCOL :: u8 where
  "PNET_ERROR_CODE_1_RTA_ERR_CLS_PROTOCOL = 0xFD"
definition PNET_ERROR_CODE_2_ABORT_AR_CONSUMER_DHT_EXPIRED :: u8 where
  "PNET_ERROR_CODE_2_ABORT_AR_CONSUMER_DHT_EXPIRED = 5"

section \<open>Create and close\<close>

definition pf_cpm_set_state :: "nat \<Rightarrow> nat \<Rightarrow> pf_cpm_state_values \<Rightarrow> pnet \<Rightarrow> pnet" where
  "pf_cpm_set_state a c st = upd_cpm a c (\<lambda>p. p\<lparr>cpm_state := st\<rparr>)"

definition pf_cpm_create :: "nat \<Rightarrow> nat \<Rightarrow> pnet \<Rightarrow> int \<times> pnet" where
  "pf_cpm_create a c s = (let
     s = s\<lparr>cpm_instance_cnt := cpm_instance_cnt s + 1,
           cpm_buf_lock := (if cpm_instance_cnt s = 0 then True else cpm_buf_lock s)\<rparr>
   in (0, pf_cpm_set_state a c PF_CPM_STATE_W_START s))"

text \<open>The pointers to the buffers keep their values after the buffers have been freed.\<close>

definition pf_cpm_driver_sw_close_req :: "nat \<Rightarrow> nat \<Rightarrow> pnet \<Rightarrow> (int \<times> pnet) option" where
  "pf_cpm_driver_sw_close_req a c s = do {
     let s = upd_cpm a c (\<lambda>p. p\<lparr>cpm_ci_running := False\<rparr>) s;
     (h, s) \<leftarrow> timer_remove_if_running (cpm_ci_timeout (the_cpm s a c)) s;
     let s = upd_cpm a c (\<lambda>p. p\<lparr>cpm_ci_timeout := h\<rparr>) s;
     let p = the_cpm s a c;
     let s = s\<lparr>eth_id_map := pf_eth_frame_id_map_remove (eth_id_map s) (cpm_frame_id p ! 0)\<rparr>;
     let s = (if nbr_frame_id p = 2
       then s\<lparr>eth_id_map := pf_eth_frame_id_map_remove (eth_id_map s) (cpm_frame_id p ! 1)\<rparr>
       else s);
     s \<leftarrow> free_opt (p_buffer_cpm p) s;
     s \<leftarrow> free_opt (p_buffer_app p) s;
     Some (0, s) }"

definition pf_cpm_close_req :: "nat \<Rightarrow> nat \<Rightarrow> pnet \<Rightarrow> (int \<times> pnet) option" where
  "pf_cpm_close_req a c s = do {
     let s = pf_cpm_set_state a c PF_CPM_STATE_W_START s;
     (ret, s) \<leftarrow> pf_cpm_driver_sw_close_req a c s;
     Some (ret, if ret = 0
       then s\<lparr>cpm_instance_cnt := cpm_instance_cnt s - 1,
              cpm_buf_lock := (if cpm_instance_cnt s = 1 then False else cpm_buf_lock s)\<rparr>
       else s) }"

section \<open>Checks of a frame\<close>

text \<open>The stored counter is -1 before the first frame; the comparison is one of 16 bits.\<close>

definition pf_cpm_check_cycle :: "int \<Rightarrow> u16 \<Rightarrow> int" where
  "pf_cpm_check_cycle prev n =
     (let diff = n - word_of_int prev :: u16 in if 1 \<le> diff \<and> diff \<le> 61440 then 0 else -1)"

text \<open>Reading behind the memory of the buffer is \<open>None\<close>.\<close>

definition byte_at :: "pnal_buf \<Rightarrow> nat \<Rightarrow> u8 option" where
  "byte_at b i = (if i < length (payload b) then Some (payload b ! i) else None)"

definition pf_cpm_check_src_addr :: "pf_cpm \<Rightarrow> pnal_buf \<Rightarrow> int option" where
  "pf_cpm_check_src_addr p b =
     (if 12 \<le> length (payload b)
      then Some (if take 6 (drop 6 (payload b)) = cpm_sa p then 0 else -1) else None)"

section \<open>Activation\<close>

definition pf_cpm_driver_sw_activate_req :: "nat \<Rightarrow> nat \<Rightarrow> pnet \<Rightarrow> (int \<times> pnet) option" where
  "pf_cpm_driver_sw_activate_req a c s = do {
     let s = s\<lparr>eth_id_map := pf_eth_frame_id_map_add (eth_id_map s)
                 (cpm_frame_id (the_cpm s a c) ! 0) (Rx_cpm a c)\<rparr>;
     let s = (if nbr_frame_id (the_cpm s a c) = 2
       then let s = upd_cpm a c (\<lambda>p. p\<lparr>cpm_frame_id :=
                      (cpm_frame_id p)[1 := cpm_frame_id p ! 0 + 1]\<rparr>) s
            in s\<lparr>eth_id_map := pf_eth_frame_id_map_add (eth_id_map s)
                  (cpm_frame_id (the_cpm s a c) ! 1) (Rx_cpm a c)\<rparr>
       else s);
     let h = pf_scheduler_init_handle (cpm_ci_timeout (the_cpm s a c)) NAME_CPM;
     (ret, h, s) \<leftarrow> timer_add (cpm_control_interval (the_cpm s a c)) CB_CPM (pair_ptr a c) h s;
     Some (ret, upd_cpm a c (\<lambda>p. p\<lparr>cpm_ci_timeout := h,
       cpm_ci_running := (if ret \<noteq> 0 then cpm_ci_running p else True)\<rparr>) s) }"

definition pf_cpm_activate_req ::
  "(nat \<Rightarrow> pnet \<Rightarrow> pnet option) \<Rightarrow> nat \<Rightarrow> nat \<Rightarrow> pnet \<Rightarrow> (int \<times> pnet) option" where
  "pf_cpm_activate_req error_ind a c s =
     (case cpm_state (the_cpm s a c) of
        PF_CPM_STATE_W_START \<Rightarrow> do {
          let param = the_iocr_param s a c;
          let sa = cm_initiator_mac_add (ar_param (cfg (net_ars s ! a)));
          let s = upd_cpm a c (\<lambda>p. p\<lparr>cpm_data_hold_factor := data_hold_factor param,
            cpm_control_interval := cr_control_interval param,
            cpm_cycle := -1, new_data := False, dht := 0, recv_cnt := 0, cpm_sa := sa,
            cpm_buffer_pos := 16, cpm_data_status := 0,
            cpm_buffer_length := 16 + c_sdu_length param + 2 + 1 + 1,
            nbr_frame_id := 1, cpm_frame_id := (cpm_frame_id p)[0 := frame_id param]\<rparr>) s;
          (ret, s) \<leftarrow> pf_cpm_driver_sw_activate_req a c s;
          if ret = 0 then Some (ret, pf_cpm_set_state a c PF_CPM_STATE_FRUN s)
          else do {
            s \<leftarrow> error_ind a (set_err a PNET_ERROR_CODE_1_CPM PNET_ERROR_CODE_2_CPM_INVALID s);
            Some (ret, s) } }
      | _ \<Rightarrow> Some (-1, set_err a PNET_ERROR_CODE_1_CPM PNET_ERROR_CODE_2_CPM_INVALID_STATE s))"

section \<open>Receiving a frame\<close>

definition pf_cpm_put_buf :: "nat \<Rightarrow> nat \<Rightarrow> nat \<Rightarrow> pnet \<Rightarrow> nat option \<times> pnet" where
  "pf_cpm_put_buf a c b s =
     (p_buffer_cpm (the_cpm s a c),
      upd_cpm a c (\<lambda>p. p\<lparr>p_buffer_cpm := Some b, new_buf := True\<rparr>) s)"

text \<open>\<^verbatim>\<open>pf_cmio_cpm_new_data_ind\<close> of \<^verbatim>\<open>src/device/pf_cmio.c\<close>.\<close>

definition pf_cmio_cpm_new_data_ind :: "nat \<Rightarrow> nat \<Rightarrow> bool \<Rightarrow> pnet \<Rightarrow> int \<times> pnet" where
  "pf_cmio_cpm_new_data_ind a crep nd s =
     (case cmio_state (net_ars s ! a) of
        PF_CMIO_STATE_WDATA \<Rightarrow>
          (if crep < unat (nbr_iocrs (cfg (net_ars s ! a)))
           then (0, upd_cpm a crep (\<lambda>p. p\<lparr>cmio_start := nd\<rparr>) s) else (-1, s))
      | _ \<Rightarrow> (0, s))"

text \<open>What the trailer of a frame says, and what follows for the machine.\<close>

record frame_check =
  fc_cycle :: u16
  fc_data_status :: u8
  fc_data_valid :: bool
  fc_dht_reload :: bool
  fc_update_data :: bool

definition cpm_check_frame :: "pf_cpm \<Rightarrow> pnal_buf \<Rightarrow> u16 \<Rightarrow> frame_check option" where
  "cpm_check_frame p b fpos = do {
     let pos = unat (b_len b - 4);
     hi \<leftarrow> byte_at b pos;
     lo \<leftarrow> byte_at b (pos + 1);
     ds \<leftarrow> byte_at b (pos + 2);
     ts \<leftarrow> byte_at b (pos + 3);
     let cycle = (ucast hi * 0x100 + ucast lo :: u16);
     let data_valid = (ds AND 4 \<noteq> 0);
     let backup = (ds AND 1 = 0);
     let primary = (ds AND 1 \<noteq> 0);
     let len = b_len b - fpos + 14;
     src \<leftarrow> (if ts = 0 then pf_cpm_check_src_addr p b else Some (-1));
     let frame_structure = (ts = 0 \<and> src = 0 \<and> len = cpm_buffer_length p);
     let c_sdu_structure = (pf_cpm_check_cycle (cpm_cycle p) cycle = 0);
     Some \<lparr>fc_cycle = cycle, fc_data_status = ds, fc_data_valid = data_valid,
       fc_dht_reload = (frame_structure \<and> c_sdu_structure \<and> (data_valid \<or> backup)),
       fc_update_data = (frame_structure \<and> c_sdu_structure \<and> data_valid \<and> (primary \<or> backup))\<rparr> }"

text \<open>
  \<open>state_ind\<close> is \<^verbatim>\<open>pf_cpm_state_ind\<close>. The result 1 says that the function has taken the frame;
  whatever buffer is left over is freed.
\<close>

definition cpm_accept_frame ::
  "(nat \<Rightarrow> nat \<Rightarrow> bool \<Rightarrow> pnet \<Rightarrow> pnet option) \<Rightarrow> nat \<Rightarrow> nat \<Rightarrow> nat \<Rightarrow> u16 \<Rightarrow> frame_check \<Rightarrow> pnet
     \<Rightarrow> (nat option \<times> pnet) option" where
  "cpm_accept_frame state_ind a c b fpos k s = do {
     s \<leftarrow> (if cpm_state (the_cpm s a c) = PF_CPM_STATE_FRUN then state_ind a c True s else Some s);
     let (old, s) = (if fc_update_data k
       then let (old, s) = pf_cpm_put_buf a c b s;
                s = upd_cpm a c (\<lambda>p. p\<lparr>cpm_frame_id_pos := fpos, cpm_buffer_pos := fpos + 2\<rparr>) s
            in (old, snd (pf_cmio_cpm_new_data_ind a c True s))
       else (Some b, snd (pf_cmio_cpm_new_data_ind a c False s)));
     let changes = cpm_data_status (the_cpm s a c) XOR fc_data_status k;
     let s = upd_cpm a c (\<lambda>p. p\<lparr>dht := 0, cpm_cycle := uint (fc_cycle k),
                 cpm_data_status := fc_data_status k\<rparr>) s;
     let s = (if changes \<noteq> 0 then emit (Out_data_status a c changes (fc_data_status k)) s else s);
     Some (old, pf_cpm_set_state a c PF_CPM_STATE_RUN s) }"

definition pf_cpm_c_data_ind ::
  "(nat \<Rightarrow> nat \<Rightarrow> bool \<Rightarrow> pnet \<Rightarrow> pnet option) \<Rightarrow> nat \<Rightarrow> nat \<Rightarrow> nat \<Rightarrow> u16 \<Rightarrow> pnet \<Rightarrow> (int \<times> pnet) option" where
  "pf_cpm_c_data_ind state_ind a c b fpos s = do {
     let s = upd_cpm a c (\<lambda>p. p\<lparr>recv_cnt := recv_cnt p + 1\<rparr>) s;
     (old, s) \<leftarrow>
       (if cpm_state (the_cpm s a c) = PF_CPM_STATE_W_START
        then Some (Some b, upd_cpm a c (\<lambda>p. p\<lparr>cpm_errcnt := cpm_errcnt p + 1\<rparr>)
          (set_err a PNET_ERROR_CODE_1_CPM PNET_ERROR_CODE_2_CPM_INVALID_STATE s))
        else do {
          f \<leftarrow> the_buf s b;
          k \<leftarrow> cpm_check_frame (the_cpm s a c) f fpos;
          if \<not> fc_data_valid k \<or> \<not> fc_dht_reload k then Some (Some b, s)
          else cpm_accept_frame state_ind a c b fpos k s });
     case old of
       None \<Rightarrow> Some (1, s)
     | Some ob \<Rightarrow> do {
         s \<leftarrow> pnal_buf_free ob (upd_cpm a c (\<lambda>p. p\<lparr>free_cnt := free_cnt p + 1\<rparr>) s);
         Some (1, s) } }"

section \<open>The data hold timer\<close>

definition pf_cpm_control_interval_expired ::
  "(nat \<Rightarrow> nat \<Rightarrow> bool \<Rightarrow> pnet \<Rightarrow> pnet option) \<Rightarrow> (nat \<Rightarrow> pnet \<Rightarrow> pnet option) \<Rightarrow> nat \<Rightarrow> nat
     \<Rightarrow> pnet \<Rightarrow> pnet option" where
  "pf_cpm_control_interval_expired state_ind error_ind a c s = (let
     s = upd_cpm a c (\<lambda>p. p\<lparr>cpm_ci_timeout := pf_scheduler_reset_handle (cpm_ci_timeout p)\<rparr>) s
   in if \<not> cpm_ci_running (the_cpm s a c) then Some s
      else do {
        s \<leftarrow> (if cpm_state (the_cpm s a c) = PF_CPM_STATE_RUN
             then if dht (the_cpm s a c) \<ge> cpm_data_hold_factor (the_cpm s a c)
               then do {
                 let s = set_err a PNET_ERROR_CODE_1_RTA_ERR_CLS_PROTOCOL
                           PNET_ERROR_CODE_2_ABORT_AR_CONSUMER_DHT_EXPIRED s;
                 let s = upd_cpm a c (\<lambda>p. p\<lparr>dht := 0, cpm_ci_running := False\<rparr>) s;
                 s \<leftarrow> state_ind a c False s;
                 Some (pf_cpm_set_state a c PF_CPM_STATE_W_START s) }
               else Some (upd_cpm a c (\<lambda>p. p\<lparr>dht := dht p + 1\<rparr>) s)
             else Some s);
        if cpm_ci_running (the_cpm s a c)
        then do {
          (r, h, s) \<leftarrow> timer_add (cpm_control_interval (the_cpm s a c)) CB_CPM (pair_ptr a c)
                        (cpm_ci_timeout (the_cpm s a c)) s;
          let s = upd_cpm a c (\<lambda>p. p\<lparr>cpm_ci_timeout := h\<rparr>) s;
          if r \<noteq> 0
          then error_ind a (set_err a PNET_ERROR_CODE_1_CPM PNET_ERROR_CODE_2_CPM_INVALID s)
          else Some s }
        else Some s })"

section \<open>Reading the data\<close>

text \<open>The new-data flag and the buffer of the application after the exchange.\<close>

definition pf_cpm_get_buf :: "nat \<Rightarrow> nat \<Rightarrow> pnet \<Rightarrow> bool \<times> nat option \<times> pnet" where
  "pf_cpm_get_buf a c s = (let
     p = the_cpm s a c;
     s = (if new_buf p
       then upd_cpm a c (\<lambda>p. p\<lparr>p_buffer_app := p_buffer_cpm p, p_buffer_cpm := p_buffer_app p,
              new_buf := False\<rparr>) s
       else s)
   in (new_buf p, p_buffer_app (the_cpm s a c), s))"

text \<open>\<open>n\<close> bytes at offset \<open>i\<close> of the data of a frame.\<close>

definition frame_data :: "pnet \<Rightarrow> nat \<Rightarrow> nat \<Rightarrow> nat \<Rightarrow> u16 \<Rightarrow> u16 \<Rightarrow> u8 list option" where
  "frame_data s a c b i n = do {
     f \<leftarrow> the_buf s b;
     let j = unat (cpm_buffer_pos (the_cpm s a c)) + unat i;
     if n = 0 then Some []
     else if j + unat n \<le> length (payload f) then Some (take (unat n) (drop j (payload f)))
     else None }"

definition pf_cpm_driver_sw_get_data_and_iops ::
  "nat \<Rightarrow> nat \<Rightarrow> pf_iodata_object \<Rightarrow> pnet \<Rightarrow> (int \<times> bool \<times> u8 list \<times> u8 list \<times> pnet) option" where
  "pf_cpm_driver_sw_get_data_and_iops a c io s = (let
     (nf, b, s) = pf_cpm_get_buf a c s
   in case b of
        None \<Rightarrow> Some (-1, False, [], [], s)
      | Some b \<Rightarrow> do {
          d \<leftarrow> frame_data s a c b (data_offset io) (data_length io);
          p \<leftarrow> frame_data s a c b (iops_offset io) (iops_length io);
          Some (0, nf, d, p, s) })"

definition pf_cpm_driver_sw_get_iocs ::
  "nat \<Rightarrow> nat \<Rightarrow> pf_iodata_object \<Rightarrow> pnet \<Rightarrow> (int \<times> u8 list \<times> pnet) option" where
  "pf_cpm_driver_sw_get_iocs a c io s = (let
     (_, b, s) = pf_cpm_get_buf a c s
   in case b of
        None \<Rightarrow> Some (-1, [], s)
      | Some b \<Rightarrow> do {
          cs \<leftarrow> frame_data s a c b (iocs_offset io) (iocs_length io);
          Some (0, cs, s) })"

definition pf_cpm_get_data_status :: "pf_cpm \<Rightarrow> int \<times> u8" where
  "pf_cpm_get_data_status p = (0, cpm_data_status p)"

end
