(* ===== verification/Pn_Ppm_Correct.thy ===== *)
theory Pn_Ppm_Correct
  imports Pn_Net_Correct Pn_Demo Pn_Ppm Pn_Cpm
begin

text \<open>
  The provider: its cycle counters against the check of a consumer, the layout of its frames, and
  what a transmission does.
\<close>

section \<open>Cycle counters\<close>

lemma unat_ucast_16_32 [simp]: "unat (ucast (x :: u16) :: u32) = unat x"
proof -
  have "unat x < 2 ^ 16" using unsigned_less [of x, where ?'a = nat] by simp
  then have "unat x < 2 ^ 32" by simp
  then show ?thesis by (simp add: unsigned_ucast_eq take_bit_nat_eq_self)
qed

lemma of_nat_unat_id: "of_nat (unat w) = w"
  by simp

lemma transmission_interval:
  fixes scf rr :: u16
  shows "unat (ucast scf * ucast rr :: u32) = unat scf * unat rr"
proof -
  have "unat scf * unat rr < 2 ^ 16 * 2 ^ 16"
    using unsigned_less [of scf] unsigned_less [of rr] by (intro mult_strict_mono) auto
  then show ?thesis by (simp add: unat_word_ariths)
qed

lemma ucast_u32_of_nat: "ucast (of_nat n :: u32) = (of_nat n :: u16)"
  by (simp add: unsigned_of_nat word_of_nat_eq_iff)

lemma ucast_u16_of_nat: "n < 2 ^ 16 \<Longrightarrow> ucast (of_nat n :: u16) = (of_nat n :: u32)"
  by (simp add: unsigned_of_nat take_bit_nat_eq_self)

lemma next_cyclecounter:
  assumes "0 < unat scf * unat rr"
  shows "pf_ppm_calculate_next_cyclecounter prev scf rr =
    Some (of_nat ((unat prev div (unat scf * unat rr) + 1) * (unat scf * unat rr)))"
proof -
  let ?I = "ucast scf * ucast rr :: u32" and ?i = "unat scf * unat rr"
  let ?q = "unat prev div ?i"
  have i: "?I = of_nat ?i" using transmission_interval [of scf rr] by (metis of_nat_unat_id)
  have "?I \<noteq> 0" using assms transmission_interval [of scf rr] by (metis less_numeral_extra(3) unsigned_0)
  moreover have "unat (ucast prev div ?I :: u32) = ?q"
    by (simp add: unat_div transmission_interval)
  then have "ucast prev div ?I = of_nat ?q" by (metis of_nat_unat_id)
  then have "ucast (ucast prev div ?I :: u32) = (of_nat ?q :: u16)"
    by (metis ucast_u32_of_nat)
  moreover have "?q < 2 ^ 16"
    by (rule le_less_trans [OF div_le_dividend]) (use unsigned_less [of prev, where ?'a = nat] in simp)
  then have "(ucast (of_nat ?q :: u16) + 1) * ?I = (of_nat ((?q + 1) * ?i) :: u32)"
    unfolding i by (simp only: ucast_u16_of_nat of_nat_mult of_nat_add of_nat_1)
  ultimately show ?thesis
    by (simp only: pf_ppm_calculate_next_cyclecounter_def Let_def if_False ucast_u32_of_nat)
qed

text \<open>Every step of the counter is at most one interval, and exactly one from a multiple of it.\<close>

lemma next_cyclecounter_diff:
  assumes "0 < unat scf * unat rr"
  shows "\<exists>n. pf_ppm_calculate_next_cyclecounter prev scf rr = Some n \<and>
    n - prev = of_nat (unat scf * unat rr - unat prev mod (unat scf * unat rr))"
proof -
  let ?i = "unat scf * unat rr"
  have "(unat prev div ?i + 1) * ?i = unat prev + (?i - unat prev mod ?i)"
  proof -
    have "(unat prev div ?i + 1) * ?i = unat prev div ?i * ?i + ?i" by simp
    moreover have "unat prev = unat prev div ?i * ?i + unat prev mod ?i" by (simp only: div_mult_mod_eq)
    moreover have "unat prev mod ?i \<le> ?i" using assms by (simp add: less_imp_le)
    ultimately show ?thesis by linarith
  qed
  then have "of_nat ((unat prev div ?i + 1) * ?i) = prev + of_nat (?i - unat prev mod ?i)"
    by (metis of_nat_add of_nat_unat_id)
  then show ?thesis using next_cyclecounter [OF assms] by simp
qed

lemma check_cycle_diff:
  assumes "n - prev = of_nat d" and "d < 65536"
  shows "pf_cpm_check_cycle (uint prev) n = 0 \<longleftrightarrow> 1 \<le> d \<and> d \<le> 61440"
proof -
  have "unat (of_nat d :: u16) = d" using assms(2) by (simp add: unat_of_nat)
  then show ?thesis
    using assms(1) by (simp add: pf_cpm_check_cycle_def Let_def word_le_nat_alt)
qed

text \<open>The counters after \<open>k\<close> transmissions.\<close>

definition cycle_after :: "u16 \<Rightarrow> u16 \<Rightarrow> nat \<Rightarrow> u16 \<Rightarrow> u16" where
  "cycle_after scf rr k prev = ((\<lambda>p. the (pf_ppm_calculate_next_cyclecounter p scf rr)) ^^ k) prev"

lemma cycle_after_multiple:
  assumes i: "unat scf * unat rr = i" "0 < i" "i dvd 65536" "i dvd unat prev"
  shows "cycle_after scf rr k prev = prev + of_nat (k * i) \<and> i dvd unat (cycle_after scf rr k prev)"
proof (induction k)
  case 0
  then show ?case using i by (simp add: cycle_after_def)
next
  case (Suc k)
  define c where "c = cycle_after scf rr k prev"
  obtain n where n: "pf_ppm_calculate_next_cyclecounter c scf rr = Some n"
    "n - c = of_nat (i - unat c mod i)"
    using next_cyclecounter_diff [of scf rr c, unfolded i(1), OF i(2)] by blast
  have "unat c mod i = 0" using conjunct2 [OF Suc] by (simp only: c_def dvd_eq_mod_eq_0)
  then have "i - unat c mod i = i" by simp
  with n have nc: "n = c + of_nat i" by (metis add.commute diff_add_cancel)
  have "i dvd unat (of_nat i :: u16)" using i by (simp add: unat_of_nat dvd_mod)
  then have "i dvd (unat c + unat (of_nat i :: u16)) mod 65536"
    using conjunct2 [OF Suc] i(3) by (simp only: c_def dvd_mod dvd_add)
  then have "i dvd unat n" by (simp add: nc unat_word_ariths)
  moreover have "cycle_after scf rr (Suc k) prev = n"
    using n c_def by (simp add: cycle_after_def)
  moreover have "n = prev + of_nat (Suc k * i)" using nc Suc c_def by simp
  ultimately show ?case by simp
qed

text \<open>C20. The consumer's check accepts the next cycle counter of a provider, for every previous counter
  and every transmission interval of at most 61440 units, across the wrap-around of the 16-bit
  counter. When the interval divides 65536, the counter that is \<open>k\<close> transmissions later is
  accepted exactly if its forward distance is at least 1 and at most 61440: frames may be lost,
  repeated and late frames are refused.\<close>

theorem cycle_counter_accepted:
  assumes "unat scf * unat rr = i" and "0 < i"
  shows "(i \<le> 61440 \<longrightarrow> (\<exists>n. pf_ppm_calculate_next_cyclecounter prev scf rr = Some n
        \<and> pf_cpm_check_cycle (uint prev) n = 0)) \<and>
    (i dvd 65536 \<longrightarrow> i dvd unat prev \<longrightarrow>
      (pf_cpm_check_cycle (uint prev) (cycle_after scf rr k prev) = 0 \<longleftrightarrow>
        1 \<le> k * i mod 65536 \<and> k * i mod 65536 \<le> 61440))"
proof (intro conjI impI)
  assume le: "i \<le> 61440"
  obtain n where n: "pf_ppm_calculate_next_cyclecounter prev scf rr = Some n"
    "n - prev = of_nat (i - unat prev mod i)"
    using next_cyclecounter_diff [of scf rr prev, unfolded assms(1), OF assms(2)] by blast
  have "unat prev mod i < i" using assms by simp
  then show "\<exists>n. pf_ppm_calculate_next_cyclecounter prev scf rr = Some n
        \<and> pf_cpm_check_cycle (uint prev) n = 0"
    using n check_cycle_diff [OF n(2)] le by auto
next
  assume "i dvd 65536" "i dvd unat prev"
  then have "cycle_after scf rr k prev - prev = of_nat (k * i)"
    using cycle_after_multiple [of scf rr i prev k] assms by simp
  moreover have "of_nat (k * i) = (of_nat (k * i mod 65536) :: u16)"
    by (simp only: word_of_nat_eq_iff take_bit_eq_mod) simp
  ultimately have "cycle_after scf rr k prev - prev = of_nat (k * i mod 65536)" by simp
  then show "pf_cpm_check_cycle (uint prev) (cycle_after scf rr k prev) = 0 \<longleftrightarrow>
        1 \<le> k * i mod 65536 \<and> k * i mod 65536 \<le> 61440"
    by (rule check_cycle_diff) simp
qed

theorem cycle_counter_accepted_witness:
  "pf_cpm_check_cycle (uint (0xFF80 :: u16)) (cycle_after 32 4 3 0xFF80) = 0 \<and>
   pf_cpm_check_cycle (uint (0xFF80 :: u16)) (cycle_after 32 4 512 0xFF80) \<noteq> 0"
  using cycle_counter_accepted [of 32 4 128 "0xFF80" 3]
    cycle_counter_accepted [of 32 4 128 "0xFF80" 512] by simp

section \<open>The frame of a provider\<close>

lemma with_buf_eq:
  assumes "the_buf s b = Some f" and "g f = Some f'"
  shows "with_buf (Some b) g s = Some (s\<lparr>net_heap := (net_heap s)[b := Some f']\<rparr>)"
  using assms by (simp add: with_buf_def)

text \<open>
  The layout of a cyclic frame: addresses, VLAN tag, Ethertype and frame ID; the data, filled up
  to its announced length; cycle counter, data status and transfer status.
\<close>

definition ppm_header :: "u8 list \<Rightarrow> u8 list \<Rightarrow> pf_iocr_param \<Rightarrow> u8 list" where
  "ppm_header da sa p = da @ sa @ be16 PNAL_ETHTYPE_VLAN @
     be16 ((iocr_vlan_id (iocr_tag_header p) AND 4095) OR
           push_bit 13 (ucast (iocr_user_priority (iocr_tag_header p)) AND 7)) @
     be16 PNAL_ETHTYPE_PROFINET @ be16 (frame_id p)"

definition ppm_frame :: "u8 list \<Rightarrow> u8 list \<Rightarrow> nat \<Rightarrow> u16 \<Rightarrow> u8 \<Rightarrow> u8 \<Rightarrow> u8 list" where
  "ppm_frame header d n cyc ds ts =
     header @ d @ replicate (n - length d) 0 @ be16 cyc @ [ds, ts]"

text \<open>The send buffer of a provider between two transmissions.\<close>

definition ppm_ready :: "pnet \<Rightarrow> nat \<Rightarrow> nat \<Rightarrow> u8 list \<Rightarrow> nat \<Rightarrow> bool" where
  "ppm_ready s a c header n \<longleftrightarrow> has_cr s a c \<and>
     (let p = the_ppm s a c; dlen = in_length (the_cr s a c)
      in length header = 20 \<and> unat dlen \<le> n \<and> n + 24 \<le> 1500 \<and> n \<le> length (buffer_data p)
        \<and> 0 < unat (ppm_send_clock_factor p) * unat (ppm_reduction_ratio p)
        \<and> unat (ppm_buffer_pos p) = 20
        \<and> unat (cycle_counter_offset p) = n + 20 \<and> unat (data_status_offset p) = n + 22
        \<and> unat (transfer_status_offset p) = n + 23
        \<and> (\<exists>b f d cyc ds ts rest. p_send_buffer p = Some b \<and> the_buf s b = Some f
             \<and> unat (b_len f) = n + 24 \<and> length d = unat dlen
             \<and> payload f = ppm_frame header d n cyc ds ts @ rest))"

lemma be16_length [simp]: "length (be16 v) = 2"
  by (simp add: be16_def)

lemma ppm_frame_length [simp]:
  "length header = 20 \<Longrightarrow> length d \<le> n \<Longrightarrow> length (ppm_frame header d n cyc ds ts) = n + 24"
  by (simp add: ppm_frame_def)

lemma overlay_block: "length xs = i \<Longrightarrow> length ys = length bs \<Longrightarrow> overlay i bs (xs @ ys @ zs) = xs @ bs @ zs"
  by (simp add: overlay_def)

text \<open>The four writes of \<^const>\<open>pf_ppm_finish_buffer\<close> replace the data and the trailer.\<close>

lemma ppm_frame_writes:
  assumes "length header = 20" and "length d \<le> n" and "length d' = length d"
    and "n + 24 \<le> 1500"
  shows "do {
      bs \<leftarrow> copy_to 20 d' (ppm_frame header d n cyc ds ts @ rest);
      bs \<leftarrow> copy_to (n + 20) (be16 cyc') bs;
      bs \<leftarrow> copy_to (n + 22) [ds'] bs;
      bs \<leftarrow> copy_to (n + 23) [ts'] bs;
      Some (g bs) } = Some (g (ppm_frame header d' n cyc' ds' ts' @ rest))"
proof -
  let ?z = "replicate (n - length d) 0 :: u8 list"
  have 1: "overlay 20 d' (ppm_frame header d n cyc ds ts @ rest)
      = (header @ d' @ ?z) @ be16 cyc @ [ds, ts] @ rest"
    using assms overlay_block [of header 20 d d' "?z @ be16 cyc @ [ds, ts] @ rest"]
    by (simp add: ppm_frame_def)
  have 2: "overlay (n + 20) (be16 cyc') ((header @ d' @ ?z) @ be16 cyc @ [ds, ts] @ rest)
      = (header @ d' @ ?z @ be16 cyc') @ [ds] @ [ts] @ rest"
    using assms overlay_block [of "header @ d' @ ?z" "n + 20" "be16 cyc" "be16 cyc'" "[ds, ts] @ rest"]
    by simp
  have 3: "overlay (n + 22) [ds'] ((header @ d' @ ?z @ be16 cyc') @ [ds] @ [ts] @ rest)
      = (header @ d' @ ?z @ be16 cyc' @ [ds']) @ [ts] @ rest"
    using assms overlay_block [of "header @ d' @ ?z @ be16 cyc'" "n + 22" "[ds]" "[ds']" "[ts] @ rest"]
    by simp
  have 4: "overlay (n + 23) [ts'] ((header @ d' @ ?z @ be16 cyc' @ [ds']) @ [ts] @ rest)
      = ppm_frame header d' n cyc' ds' ts' @ rest"
    using assms overlay_block [of "header @ d' @ ?z @ be16 cyc' @ [ds']" "n + 23" "[ts]" "[ts']" rest]
    by (simp add: ppm_frame_def)
  show ?thesis
    using assms by (simp add: copy_to_def 1 [simplified] 2 [simplified] 3 [simplified]
      4 [simplified])
qed

lemma ppm_ready_frame:
  assumes "ppm_ready s a c header n" and "has_cr s' a c"
    and "in_length (the_cr s' a c) = in_length (the_cr s a c)"
    and "length (buffer_data (the_ppm s' a c)) = length (buffer_data (the_ppm s a c))"
    and "ppm_send_clock_factor (the_ppm s' a c) = ppm_send_clock_factor (the_ppm s a c)"
    and "ppm_reduction_ratio (the_ppm s' a c) = ppm_reduction_ratio (the_ppm s a c)"
    and "ppm_buffer_pos (the_ppm s' a c) = ppm_buffer_pos (the_ppm s a c)"
    and "cycle_counter_offset (the_ppm s' a c) = cycle_counter_offset (the_ppm s a c)"
    and "data_status_offset (the_ppm s' a c) = data_status_offset (the_ppm s a c)"
    and "transfer_status_offset (the_ppm s' a c) = transfer_status_offset (the_ppm s a c)"
    and "p_send_buffer (the_ppm s' a c) = p_send_buffer (the_ppm s a c)"
    and "\<And>b. p_send_buffer (the_ppm s a c) = Some b \<Longrightarrow> the_buf s' b = the_buf s b"
  shows "ppm_ready s' a c header n"
  using assms unfolding ppm_ready_def Let_def by metis

lemma ppm_finish:
  assumes ready: "ppm_ready s a c header n"
  obtains s' b f cyc where
    "pf_ppm_finish_buffer a c (in_length (the_cr s a c)) s = Some s'"
    "pf_ppm_calculate_next_cyclecounter (ppm_cycle (the_ppm s a c)) (ppm_send_clock_factor (the_ppm s a c))
       (ppm_reduction_ratio (the_ppm s a c)) = Some cyc"
    "ppm_ready s' a c header n" "the_cr s' a c = (the_cr s a c)\<lparr>ppm := (the_ppm s a c)\<lparr>ppm_cycle := cyc\<rparr>\<rparr>"
    "net_sched s' = net_sched s" "net_out s' = net_out s" "net_world s' = net_world s"
    "p_send_buffer (the_ppm s a c) = Some b" "the_buf s' b = Some f"
    "take (unat (b_len f)) (payload f) = ppm_frame header
       (take (unat (in_length (the_cr s a c))) (buffer_data (the_ppm s a c))) n cyc
       (ppm_data_status (the_ppm s a c)) (transfer_status (the_ppm s a c))"
proof -
  let ?p = "the_ppm s a c" and ?l = "unat (in_length (the_cr s a c))"
  obtain b f d cyc ds ts rest where b: "p_send_buffer ?p = Some b" "the_buf s b = Some f"
    "unat (b_len f) = n + 24" "length d = ?l" "payload f = ppm_frame header d n cyc ds ts @ rest"
    using ready unfolding ppm_ready_def Let_def by blast
  have cr: "has_cr s a c" and h: "length header = 20" and l: "?l \<le> n" "n + 24 \<le> 1500"
    "n \<le> length (buffer_data ?p)"
    using ready by (auto simp: ppm_ready_def Let_def)
  have i: "0 < unat (ppm_send_clock_factor ?p) * unat (ppm_reduction_ratio ?p)"
    using ready by (simp add: ppm_ready_def Let_def)
  have pos: "unat (ppm_buffer_pos ?p) = 20" "unat (cycle_counter_offset ?p) = n + 20"
    "unat (data_status_offset ?p) = n + 22" "unat (transfer_status_offset ?p) = n + 23"
    using ready by (simp_all add: ppm_ready_def Let_def)
  obtain cyc' where c: "pf_ppm_calculate_next_cyclecounter (ppm_cycle ?p) (ppm_send_clock_factor ?p)
      (ppm_reduction_ratio ?p) = Some cyc'"
    using next_cyclecounter_diff [OF i] by blast
  define d' where "d' = take ?l (buffer_data ?p)"
  define f' where "f' = f\<lparr>payload := ppm_frame header d' n cyc' (ppm_data_status ?p)
    (transfer_status ?p) @ rest\<rparr>"
  define s' where "s' = (upd_ppm a c (\<lambda>p. p\<lparr>ppm_cycle := cyc'\<rparr>) s)\<lparr>net_heap := (net_heap s)[b := Some f']\<rparr>"
  have d': "length d' = ?l" using l by (simp add: d'_def)
  have "pf_ppm_finish_buffer a c (in_length (the_cr s a c)) s = Some s'"
    using cr l b pos d' ppm_frame_writes [OF h, of d n d' cyc ds ts rest cyc'
        "ppm_data_status ?p" "transfer_status ?p" "\<lambda>bs. (upd_ppm a c (\<lambda>p. p\<lparr>ppm_cycle := cyc'\<rparr>) s)\<lparr>net_heap :=
           (net_heap s)[b := Some (f\<lparr>payload := bs\<rparr>)]\<rparr>"]
    by (simp add: pf_ppm_finish_buffer_def c Let_def with_buf_def f'_def s'_def d'_def)
  moreover have b': "the_buf s' b = Some f'"
    using b(2) by (simp add: s'_def the_buf_def split: if_splits)
  moreover have cr': "the_cr s' a c = (the_cr s a c)\<lparr>ppm := ?p\<lparr>ppm_cycle := cyc'\<rparr>\<rparr>"
    using cr by (simp add: s'_def)
  moreover have "ppm_ready s' a c header n"
    unfolding ppm_ready_def Let_def cr'
    using h l pos i b b' d' cr by (fastforce simp: f'_def s'_def)
  moreover have "take (unat (b_len f')) (payload f') = ppm_frame header d' n cyc' (ppm_data_status ?p)
      (transfer_status ?p)"
    using b(3) d' l h by (simp add: f'_def ppm_frame_length)
  ultimately show thesis
    using that [OF _ c, of s' b f'] b(1) by (simp add: s'_def d'_def)
qed

lemma unat_add_pos:
  fixes x :: u16
  assumes "unat x + k < 65536"
  shows "unat (x + of_nat k) = unat x + k"
  using assms by (simp add: unat_word_ariths unat_of_nat)

lemma ppm_create_ready:
  assumes cr: "has_cr s a c" and st: "ppm_state (the_ppm s a c) = PF_PPM_STATE_W_START"
    and mem: "w_alloc (net_world s) (length (net_heap s))"
    and addr: "length (cm_initiator_mac_add (ar_param (cfg (net_ars s ! a)))) = 6"
      "length (cm_responder_mac_add (ar_result (cfg (net_ars s ! a)))) = 6"
    and n: "n = unat (c_sdu_length (the_iocr_param s a c))" "n + 24 \<le> 1500"
    and len: "unat (in_length (the_cr s a c)) \<le> n" "n \<le> length (buffer_data (the_ppm s a c))"
    and int: "0 < unat (send_clock_factor (the_iocr_param s a c)) * unat (reduction_ratio (the_iocr_param s a c))"
  shows "\<exists>s'. pf_ppm_create a c s = Some (0, s') \<and> ppm_ready s' a c
    (ppm_header (cm_initiator_mac_add (ar_param (cfg (net_ars s ! a))))
      (cm_responder_mac_add (ar_result (cfg (net_ars s ! a)))) (the_iocr_param s a c)) n"
proof -
  let ?param = "the_iocr_param s a c" and ?x = "c_sdu_length (the_iocr_param s a c)"
  let ?da = "cm_initiator_mac_add (ar_param (cfg (net_ars s ! a)))"
  let ?sa = "cm_responder_mac_add (ar_result (cfg (net_ars s ! a)))"
  have x: "unat ?x = n" using n by simp
  have pos: "unat (?x + 20) = n + 20" "unat (?x + 22) = n + 22" "unat (?x + 23) = n + 23"
    "unat (?x + 24) = n + 24"
    using unat_add_pos [of ?x 20] unat_add_pos [of ?x 22] unat_add_pos [of ?x 23] unat_add_pos [of ?x 24]
      n(2) by (simp_all add: x)
  let ?h = "ppm_header ?da ?sa ?param"
  have h: "length ?h = 20" using addr by (simp add: ppm_header_def)
  define s1 where "s1 = s\<lparr>ppm_instance_cnt := ppm_instance_cnt s + 1,
           ppm_buf_lock := (if ppm_instance_cnt s = 0 then True else ppm_buf_lock s)\<rparr>"
  have s1: "has_cr s1 a c" "net_ars s1 = net_ars s" "net_heap s1 = net_heap s" "net_world s1 = net_world s"
    using cr by (simp_all add: s1_def has_cr_def)
  then have s1': "the_cr s1 a c = the_cr s a c" by (simp add: the_cr_def)
  define s2 where "s2 = pf_ppm_init_cr_config a c s1"
  define b where "b = length (net_heap s)"
  define s3 where "s3 = upd_ppm a c (\<lambda>p. p\<lparr>p_send_buffer := Some b\<rparr>)
    (s2\<lparr>net_heap := net_heap s @ [Some \<lparr>payload = replicate 1500 0, b_len = 1500\<rparr>]\<rparr>)"
  have s2: "has_cr s2 a c" "net_heap s2 = net_heap s" "net_world s2 = net_world s"
    "cfg (net_ars s2 ! a) = cfg (net_ars s ! a)"
    using s1 by (simp_all add: s2_def pf_ppm_init_cr_config_def Let_def)
  have p2: "in_length (the_cr s2 a c) = in_length (the_cr s a c)"
    "ppm_da (the_ppm s2 a c) = ?da" "ppm_sa (the_ppm s2 a c) = ?sa"
    "buffer_data (the_ppm s2 a c) = buffer_data (the_ppm s a c)"
    "ppm_buffer_length (the_ppm s2 a c) = ?x + 24" "ppm_buffer_pos (the_ppm s2 a c) = 20"
    "cycle_counter_offset (the_ppm s2 a c) = ?x + 20" "data_status_offset (the_ppm s2 a c) = ?x + 22"
    "transfer_status_offset (the_ppm s2 a c) = ?x + 23"
    "ppm_send_clock_factor (the_ppm s2 a c) = send_clock_factor ?param"
    "ppm_reduction_ratio (the_ppm s2 a c) = reduction_ratio ?param"
    using s1 s1' by (simp_all add: s2_def pf_ppm_init_cr_config_def Let_def add.commute)
  have s3: "has_cr s3 a c" "the_cr s3 a c = (the_cr s2 a c)\<lparr>ppm := (the_ppm s2 a c)\<lparr>p_send_buffer := Some b\<rparr>\<rparr>"
    "cfg (net_ars s3 ! a) = cfg (net_ars s ! a)"
    "the_buf s3 b = Some \<lparr>payload = replicate 1500 0, b_len = 1500\<rparr>"
    using s2 by (simp_all add: s3_def the_buf_def b_def nth_append)
  define f where "f = \<lparr>payload = ?h @ replicate 1480 0, b_len = ?x + 24\<rparr>"
  have "pf_ppm_init_buf (the_ppm s3 a c) (frame_id ?param) (iocr_tag_header ?param)
      \<lparr>payload = replicate 1500 0, b_len = 1500\<rparr> = Some f"
  proof -
    let ?z = "replicate (n + 24) 0 :: u8 list"
    have len: "length ?z = n + 24" by simp
    have "copy_to 0 ?z (replicate 1500 0) = Some (replicate 1500 0)"
      using n(2) by (simp add: copy_to_def overlay_def flip: replicate_add)
    moreover have "copy_to 0 ?h (replicate 1500 0) = Some (?h @ replicate 1480 0)"
      using h by (simp add: copy_to_def overlay_def)
    ultimately show ?thesis
      by (simp add: pf_ppm_init_buf_def s3 p2 pos f_def ppm_header_def)
  qed
  moreover define s4 where "s4 = s3\<lparr>net_heap := (net_heap s3)[b := Some f]\<rparr>"
  ultimately have "with_buf (Some b) (pf_ppm_init_buf (the_ppm s3 a c) (frame_id ?param)
      (iocr_tag_header ?param)) s3 = Some s4"
    using with_buf_eq [OF s3(4)] by simp
  then have "pf_ppm_create a c s = Some (0, s4)"
    using st mem s2 s3(3) unfolding pf_ppm_create_def
    by (simp add: s1_def [symmetric] s2_def [symmetric] pnal_buf_alloc_def Let_def b_def
      s3_def PF_FRAME_BUFFER_SIZE_def s1' )
  moreover have "ppm_ready s4 a c ?h n"
  proof -
    let ?d = "replicate (unat (in_length (the_cr s a c))) 0 :: u8 list"
    have "be16 0 @ [0, 0] = replicate 4 (0 :: u8)" by (simp add: be16_def numeral_eq_Suc)
    moreover have "replicate 1480 (0 :: u8) = ?d @ replicate (n - length ?d) 0 @ replicate 4 0 @ replicate (1476 - n) 0"
      using len(1) n(2) by (simp flip: replicate_add)
    ultimately have pl: "payload f = ppm_frame ?h ?d n 0 0 0 @ replicate (1476 - n) 0"
      by (simp add: f_def ppm_frame_def)
    have s4: "has_cr s4 a c" "the_cr s4 a c = the_cr s3 a c" "the_buf s4 b = Some f"
      using s3 by (simp_all add: s4_def)
    have "unat (b_len f) = n + 24" by (simp add: f_def pos)
    moreover have "length ?d = unat (in_length (the_cr s4 a c))" by (simp add: s4 s3 p2)
    moreover have "p_send_buffer (the_ppm s4 a c) = Some b" by (simp add: s4 s3)
    moreover have "unat (in_length (the_cr s4 a c)) \<le> n" "n \<le> length (buffer_data (the_ppm s4 a c))"
      "0 < unat (ppm_send_clock_factor (the_ppm s4 a c)) * unat (ppm_reduction_ratio (the_ppm s4 a c))"
      "unat (ppm_buffer_pos (the_ppm s4 a c)) = 20"
      "unat (cycle_counter_offset (the_ppm s4 a c)) = n + 20"
      "unat (data_status_offset (the_ppm s4 a c)) = n + 22"
      "unat (transfer_status_offset (the_ppm s4 a c)) = n + 23"
      using len int by (simp_all add: s4 s3 p2 pos)
    ultimately show ?thesis
      unfolding ppm_ready_def Let_def using s4 h n(2) pl by blast
  qed
  ultimately show ?thesis by blast
qed

text \<open>C19. A transmission of a running provider puts exactly one frame on the wire: the header, the
  data of the CR, zeros up to its length, the next cycle counter, data status and transfer status.
  The provider stays ready for the next one, its next time of execution moves on by one control
  interval, and its timer is pending again. Its error callback is not called.\<close>

theorem pf_ppm_send_frame:
  assumes ready: "ppm_ready s a c header n" and run: "ppm_ci_running (the_ppm s a c)"
    and sched: "sched_wf (net_sched s)" "0 < length (free (net_sched s))"
    and sent: "0 < w_send (net_world s) (length (net_out s))"
  shows "\<exists>s' cyc. pf_ppm_drv_sw_send error_ind a c now s = Some s'
    \<and> pf_ppm_calculate_next_cyclecounter (ppm_cycle (the_ppm s a c))
        (ppm_send_clock_factor (the_ppm s a c)) (ppm_reduction_ratio (the_ppm s a c)) = Some cyc
    \<and> net_out s' = net_out s @ [Out_frame (ppm_frame header
        (take (unat (in_length (the_cr s a c))) (buffer_data (the_ppm s a c))) n cyc
        (ppm_data_status (the_ppm s a c)) (transfer_status (the_ppm s a c)))]
    \<and> ppm_ready s' a c header n \<and> ppm_cycle (the_ppm s' a c) = cyc
    \<and> ppm_ci_running (the_ppm s' a c) \<and> first_transmit (the_ppm s' a c)
    \<and> buffer_data (the_ppm s' a c) = buffer_data (the_ppm s a c)
    \<and> next_exec (the_ppm s' a c) = next_exec (the_ppm s a c) + ppm_control_interval (the_ppm s a c)
    \<and> sched_wf (net_sched s') \<and> sched_owns (net_sched s') (ppm_ci_timeout (the_ppm s' a c))"
proof -
  define s0 where "s0 = upd_ppm a c (\<lambda>p. p\<lparr>ppm_ci_timeout := pf_scheduler_reset_handle (ppm_ci_timeout p)\<rparr>) s"
  have cr: "has_cr s a c" using ready by (simp add: ppm_ready_def)
  have s0: "has_cr s0 a c" "the_cr s0 a c = (the_cr s a c)\<lparr>ppm := (the_ppm s a c)\<lparr>ppm_ci_timeout :=
      pf_scheduler_reset_handle (ppm_ci_timeout (the_ppm s a c))\<rparr>\<rparr>" "net_sched s0 = net_sched s"
    "net_out s0 = net_out s" "net_world s0 = net_world s" "\<And>b. the_buf s0 b = the_buf s b"
    using cr by (simp_all add: s0_def)
  have ready0: "ppm_ready s0 a c header n"
    by (rule ppm_ready_frame [OF ready]) (simp_all add: s0)
  obtain s1 b f cyc where f: "pf_ppm_finish_buffer a c (in_length (the_cr s0 a c)) s0 = Some s1"
    and cyc: "pf_ppm_calculate_next_cyclecounter (ppm_cycle (the_ppm s0 a c))
      (ppm_send_clock_factor (the_ppm s0 a c)) (ppm_reduction_ratio (the_ppm s0 a c)) = Some cyc"
    and s1: "ppm_ready s1 a c header n" "the_cr s1 a c = (the_cr s0 a c)\<lparr>ppm := (the_ppm s0 a c)\<lparr>ppm_cycle := cyc\<rparr>\<rparr>"
      "net_sched s1 = net_sched s0" "net_out s1 = net_out s0" "net_world s1 = net_world s0"
    and b: "p_send_buffer (the_ppm s0 a c) = Some b" "the_buf s1 b = Some f"
    and fr: "take (unat (b_len f)) (payload f) = ppm_frame header
       (take (unat (in_length (the_cr s0 a c))) (buffer_data (the_ppm s0 a c))) n cyc
       (ppm_data_status (the_ppm s0 a c)) (transfer_status (the_ppm s0 a c))"
    by (rule ppm_finish [OF ready0]) (rule that)
  have cr1: "has_cr s1 a c" using s1(1) by (simp add: ppm_ready_def)
  define s3 where "s3 = upd_ppm a c (\<lambda>p. p\<lparr>next_exec := next_exec p + ppm_control_interval p\<rparr>)
    (emit (Out_frame (take (unat (b_len f)) (payload f))) s1)"
  have s3: "has_cr s3 a c" "net_sched s3 = net_sched s" using cr1 s1 s0 by (simp_all add: s3_def)
  obtain sc h where t: "timer_add (next_exec (the_ppm s3 a c) - now) CB_PPM (pair_ptr a c)
      (ppm_ci_timeout (the_ppm s3 a c)) s3 = Some (0, h, s3\<lparr>net_sched := sc\<rparr>)"
    "sched_wf sc" "sched_owns sc h"
    using timer_add_room [of s3] sched s3(2) by metis
  define s4 where "s4 = upd_ppm a c (\<lambda>p. p\<lparr>ppm_ci_timeout := h, trx_cnt := trx_cnt p + 1\<rparr>)
    (s3\<lparr>net_sched := sc\<rparr>)"
  define s5 where "s5 = (if first_transmit (the_ppm s a c) then s4
    else upd_ppm a c (\<lambda>p. p\<lparr>first_transmit := True\<rparr>) s4)"
  have e: "pf_eth_send_on_management_port b s1 = Some (w_send (net_world s) (length (net_out s)),
      emit (Out_frame (take (unat (b_len f)) (payload f))) s1)"
    using b s1 s0 by (simp add: pf_eth_send_on_management_port_def)
  have p1: "p_send_buffer (the_ppm s1 a c) = Some b" "first_transmit (the_ppm s1 a c) = first_transmit (the_ppm s a c)"
    using b(1) s1 s0 by simp_all
  have 1: "pf_ppm_drv_sw_send error_ind a c now s = Some s5"
    using run sent s0(1,2) f p1 t(1) e cr1
    by (simp add: pf_ppm_drv_sw_send_def s0_def [symmetric] s3_def s5_def s4_def
      pf_ppm_state_ind_def Let_def)
  have 2: "has_cr s5 a c" "net_sched s5 = sc" "net_out s5 = net_out s @ [Out_frame (take (unat (b_len f)) (payload f))]"
    "\<And>b. the_buf s5 b = the_buf s1 b" "in_length (the_cr s5 a c) = in_length (the_cr s1 a c)"
    "the_ppm s5 a c = (the_ppm s1 a c)\<lparr>next_exec := next_exec (the_ppm s a c) + ppm_control_interval (the_ppm s a c),
      ppm_ci_timeout := h, trx_cnt := trx_cnt (the_ppm s a c) + 1, first_transmit := True\<rparr>"
    using s1 s0 cr1 p1 by (simp_all add: s5_def s4_def s3_def)
  have 3: "ppm_ready s5 a c header n"
    by (rule ppm_ready_frame [OF s1(1)]) (simp_all add: 2)
  show ?thesis
    by (intro exI conjI, rule 1) (use 2 3 t cyc fr s1 s0 run in simp_all)
qed

definition demo_header :: "u8 list" where
  "demo_header = [1, 2, 3, 4, 5, 6, 1, 2, 3, 4, 5, 7, 129, 0, 192, 0, 136, 146, 128, 0]"

definition demo_net1 :: pnet where
  "demo_net1 = snd (the (pf_ppm_create 0 0 demo_net))"

lemma demo_net1_ready: "ppm_ready demo_net1 0 0 demo_header 40"
proof -
  have "demo_header = ppm_header (cm_initiator_mac_add (ar_param (cfg (net_ars demo_net ! 0))))
      (cm_responder_mac_add (ar_result (cfg (net_ars demo_net ! 0)))) (the_iocr_param demo_net 0 0)"
    by code_simp
  then show ?thesis
    using ppm_create_ready [of demo_net 0 0 40]
    by (simp add: demo_net1_def has_cr_def demo_net_def demo_conn_def the_cr_def demo_cr_def demo_ppm_def
      demo_ar_def demo_iocr_def) fastforce
qed

lemma demo_net1_eval: "ppm_ci_running (the_ppm demo_net1 0 0) \<and> sched_wf (net_sched demo_net1)
    \<and> 0 < length (free (net_sched demo_net1)) \<and> 0 < w_send (net_world demo_net1) (length (net_out demo_net1))"
  by code_simp

theorem pf_ppm_send_frame_witness:
  "\<exists>s'. pf_ppm_drv_sw_send (\<lambda>_. Some) 0 0 0 demo_net1 = Some s' \<and>
    net_out s' = [Out_frame (ppm_frame demo_header [11, 22, 128] 40 0x400 37 0)]"
proof -
  have "take (unat (in_length (the_cr demo_net1 0 0))) (buffer_data (the_ppm demo_net1 0 0)) = [11, 22, 128]
    \<and> ppm_cycle (the_ppm demo_net1 0 0) = 0 \<and> ppm_send_clock_factor (the_ppm demo_net1 0 0) = 32
    \<and> ppm_reduction_ratio (the_ppm demo_net1 0 0) = 32 \<and> ppm_data_status (the_ppm demo_net1 0 0) = 37
    \<and> transfer_status (the_ppm demo_net1 0 0) = 0 \<and> net_out demo_net1 = []
    \<and> pf_ppm_calculate_next_cyclecounter 0 32 32 = Some 0x400"
    by code_simp
  then show ?thesis
    using pf_ppm_send_frame [OF demo_net1_ready, of "\<lambda>_. Some" 0] demo_net1_eval by auto
qed

end
