(* ===== verification/Pn_Cpm_Correct.thy ===== *)
theory Pn_Cpm_Correct
  imports Pn_Ppm_Correct
begin

text \<open>
  The consumer: which frames it accepts, what an accepted frame changes, that it neither leaks nor
  frees twice a frame buffer, and that the application reads what the provider sent.
\<close>

section \<open>The consumer\<close>

lemma be16_value: "ucast (ucast (drop_bit 8 v) :: u8) * 0x100 + ucast (ucast v :: u8) = (v :: u16)"
proof -
  have "ucast (ucast (drop_bit 8 v) :: u8) * 0x100 = (push_bit 8 (ucast (ucast (drop_bit 8 v) :: u8)) :: u16)"
    by (simp add: push_bit_eq_mult)
  moreover have "push_bit 8 (ucast (ucast (drop_bit 8 v) :: u8)) + ucast (ucast v :: u8)
      = (push_bit 8 (ucast (ucast (drop_bit 8 v) :: u8)) OR ucast (ucast v :: u8) :: u16)"
    by (rule disjunctive_add) (auto simp: bit_simps)
  moreover have "push_bit 8 (ucast (ucast (drop_bit 8 v) :: u8)) OR ucast (ucast v :: u8) = v"
    by (rule bit_word_eqI) (auto simp: bit_simps)
  ultimately show ?thesis by simp
qed

text \<open>What a provider with its addresses and the length \<open>n\<close> of its data sends.\<close>

definition provider_frame :: "u8 list \<Rightarrow> u8 list \<Rightarrow> pf_iocr_param \<Rightarrow> u8 list \<Rightarrow> nat \<Rightarrow> u16 \<Rightarrow> u8 \<Rightarrow> pnal_buf \<Rightarrow> bool" where
  "provider_frame da sa param d n cyc ds f \<longleftrightarrow> length da = 6 \<and> length sa = 6 \<and> length d \<le> n
     \<and> n + 24 \<le> 1500 \<and> unat (b_len f) = n + 24
     \<and> take (n + 24) (payload f) = ppm_frame (ppm_header da sa param) d n cyc ds 0"

text \<open>The counter follows the one of the last frame, or is not in the range that the initial value blocks.\<close>

definition cycle_follows :: "int \<Rightarrow> u16 \<Rightarrow> bool" where
  "cycle_follows prev cyc \<longleftrightarrow> prev = -1 \<and> cyc < 61440 \<or>
     (\<exists>p scf rr. prev = uint p \<and> 0 < unat scf * unat rr \<and> unat scf * unat rr \<le> 61440
        \<and> pf_ppm_calculate_next_cyclecounter p scf rr = Some cyc)"

lemma cycle_follows_accepted:
  assumes "cycle_follows prev cyc"
  shows "pf_cpm_check_cycle prev cyc = 0"
  using assms unfolding cycle_follows_def
proof (elim disjE exE conjE)
  assume "prev = -1" "cyc < 61440"
  then have "unat cyc < 61440" by (simp add: word_less_nat_alt)
  then have "unat (cyc + 1) = unat cyc + 1" by (simp add: unat_word_ariths)
  then show ?thesis using \<open>prev = -1\<close> \<open>unat cyc < 61440\<close>
    by (simp add: pf_cpm_check_cycle_def Let_def word_le_nat_alt)
next
  fix p scf rr
  assume *: "prev = uint p" "0 < unat scf * unat rr" "unat scf * unat rr \<le> 61440"
    "pf_ppm_calculate_next_cyclecounter p scf rr = Some cyc"
  let ?i = "unat scf * unat rr"
  have "unat p mod ?i < ?i" using *(2) by simp
  have "cyc - p = of_nat (?i - unat p mod ?i)" using next_cyclecounter_diff [OF *(2), of p] *(4) by simp
  then have "pf_cpm_check_cycle (uint p) cyc = 0 \<longleftrightarrow> 1 \<le> ?i - unat p mod ?i \<and> ?i - unat p mod ?i \<le> 61440"
    using *(3) by (intro check_cycle_diff) simp_all
  moreover have "1 \<le> ?i - unat p mod ?i" "?i - unat p mod ?i \<le> 61440"
    using \<open>unat p mod ?i < ?i\<close> *(3) by linarith+
  ultimately show ?thesis using *(1) by simp
qed

lemma provider_frame_checked:
  assumes fr: "provider_frame da sa param d n cyc ds f"
    and p: "cpm_sa p = sa" "unat (cpm_buffer_length p) = n + 20"
    and prev: "cycle_follows (cpm_cycle p) cyc" and valid: "ds AND 4 \<noteq> 0"
  shows "cpm_check_frame p f 18 = Some \<lparr>fc_cycle = cyc, fc_data_status = ds, fc_data_valid = True,
      fc_dht_reload = True, fc_update_data = True\<rparr>"
proof -
  let ?fr = "ppm_frame (ppm_header da sa param) d n cyc ds 0"
  have addr: "length da = 6" "length sa = 6" and d: "length d \<le> n" "n + 24 \<le> 1500"
    and len: "unat (b_len f) = n + 24" and tk: "take (n + 24) (payload f) = ?fr"
    using fr by (auto simp: provider_frame_def)
  have h: "length (ppm_header da sa param) = 20" using addr by (simp add: ppm_header_def)
  then have fl: "length ?fr = n + 24" using d by simp
  obtain rest where pl: "payload f = ?fr @ rest" using tk by (metis append_take_drop_id)
  have "b_len f = of_nat (n + 24)" using len by (metis of_nat_unat_id)
  moreover have "cpm_buffer_length p = of_nat (n + 20)" using p(2) by (metis of_nat_unat_id)
  ultimately have pos: "unat (b_len f - 4) = n + 20" and l: "b_len f - 4 = cpm_buffer_length p"
    using p(2) by (simp_all add: add.commute)
  have bytes: "byte_at f (n + 20) = Some (ucast (drop_bit 8 cyc))" "byte_at f (n + 21) = Some (ucast cyc)"
    "byte_at f (n + 22) = Some ds" "byte_at f (n + 23) = Some 0"
  proof -
    define pre where "pre = ppm_header da sa param @ d @ replicate (n - length d) 0"
    have "length pre = n + 20" using h d by (simp add: pre_def)
    moreover have "payload f = pre @ be16 cyc @ [ds, 0] @ rest" by (simp add: pl ppm_frame_def pre_def)
    ultimately show "byte_at f (n + 20) = Some (ucast (drop_bit 8 cyc))" "byte_at f (n + 21) = Some (ucast cyc)"
      "byte_at f (n + 22) = Some ds" "byte_at f (n + 23) = Some 0"
      by (simp_all add: byte_at_def nth_append be16_def)
  qed
  have "pf_cpm_check_src_addr p f = Some 0"
    using addr p by (simp add: pf_cpm_check_src_addr_def pl ppm_frame_def ppm_header_def)
  then show ?thesis
    using valid cycle_follows_accepted [OF prev] be16_value [of cyc]
    by (simp add: cpm_check_frame_def Let_def l p(2) bytes add.commute)
qed

section \<open>The buffers of a consumer\<close>

definition cpm_own :: "pf_cpm \<Rightarrow> nat set" where
  "cpm_own p = set_option (p_buffer_app p) \<union> set_option (p_buffer_cpm p)"

definition cpm_bufs_ok :: "pnet \<Rightarrow> nat \<Rightarrow> nat \<Rightarrow> bool" where
  "cpm_bufs_ok s a c \<longleftrightarrow> has_cr s a c \<and> cpm_own (the_cpm s a c) \<subseteq> live s
     \<and> set_option (p_buffer_app (the_cpm s a c)) \<inter> set_option (p_buffer_cpm (the_cpm s a c)) = {}"

definition free_of :: "nat option \<Rightarrow> pnet \<Rightarrow> pnet" where
  "free_of ob s = (case ob of None \<Rightarrow> s | Some b \<Rightarrow> s\<lparr>net_heap := (net_heap s)[b := None]\<rparr>)"

lemma free_of_simps [simp]: "the_cr (free_of ob s) = the_cr s" "has_cr (free_of ob s) = has_cr s"
  by (simp_all add: free_of_def split: option.split)

lemma live_free_of: "set_option ob \<subseteq> live s \<Longrightarrow> live (free_of ob s) = live s - set_option ob"
  using buf_free_live by (auto simp: free_of_def split: option.split)

lemma check_frame_recv_cnt [simp]: "cpm_check_frame (p\<lparr>recv_cnt := n\<rparr>) f fpos = cpm_check_frame p f fpos"
  by (simp add: cpm_check_frame_def pf_cpm_check_src_addr_def cong: if_cong)

lemma upd_cr_id: "f (the_cr s a c) = the_cr s a c \<Longrightarrow> upd_cr a c f s = s"
  by (simp add: upd_cr_def upd_ar_def the_cr_def)

lemma new_data_ind:
  obtains cm where "snd (pf_cmio_cpm_new_data_ind a c nd s) = upd_cpm a c (\<lambda>p. p\<lparr>cmio_start := cm\<rparr>) s"
proof -
  have "s = upd_cpm a c (\<lambda>p. p\<lparr>cmio_start := cmio_start (the_cpm s a c)\<rparr>) s"
    by (rule upd_cr_id [symmetric]) simp
  moreover have "snd (pf_cmio_cpm_new_data_ind a c nd s) \<in> {s, upd_cpm a c (\<lambda>p. p\<lparr>cmio_start := nd\<rparr>) s}"
    by (auto simp: pf_cmio_cpm_new_data_ind_def split: pf_cmio_state_values.split)
  ultimately show thesis by (metis that insertE singletonD)
qed

text \<open>
  What a frame does in the running state, and which buffer is left over: the old buffer of an
  accepted frame with new data, the frame itself otherwise.
\<close>

definition frame_effect :: "frame_check \<Rightarrow> nat \<Rightarrow> u16 \<Rightarrow> pf_cpm \<Rightarrow> pf_cpm \<Rightarrow> nat option \<Rightarrow> bool" where
  "frame_effect k b fpos p p' old \<longleftrightarrow>
     cpm_state p' = PF_CPM_STATE_RUN \<and> p_buffer_app p' = p_buffer_app p
     \<and> (if fc_data_valid k \<and> fc_dht_reload k
        then dht p' = 0 \<and> cpm_cycle p' = uint (fc_cycle k) \<and> cpm_data_status p' = fc_data_status k
        else dht p' = dht p \<and> cpm_cycle p' = cpm_cycle p \<and> cpm_data_status p' = cpm_data_status p)
     \<and> (if fc_data_valid k \<and> fc_dht_reload k \<and> fc_update_data k
        then old = p_buffer_cpm p \<and> p_buffer_cpm p' = Some b \<and> new_buf p' \<and> cpm_buffer_pos p' = fpos + 2
        else old = Some b \<and> p_buffer_cpm p' = p_buffer_cpm p \<and> new_buf p' = new_buf p
          \<and> cpm_buffer_pos p' = cpm_buffer_pos p)"

lemma c_data_ind_effect:
  assumes cr: "has_cr s a c" and run: "cpm_state (the_cpm s a c) = PF_CPM_STATE_RUN"
    and f: "the_buf s b = Some f" and k: "cpm_check_frame (the_cpm s a c) f fpos = Some k"
    and ok: "cpm_bufs_ok s a c" and b: "b \<notin> cpm_own (the_cpm s a c)"
  shows "\<exists>s1 old. pf_cpm_c_data_ind si a c b fpos s = Some (1, free_of old s1)
    \<and> net_heap s1 = net_heap s \<and> has_cr s1 a c
    \<and> frame_effect k b fpos (the_cpm s a c) (the_cpm s1 a c) old"
proof -
  define s0 where "s0 = upd_cpm a c (\<lambda>p. p\<lparr>recv_cnt := recv_cnt p + 1\<rparr>) s"
  have s0: "has_cr s0 a c" "the_cr s0 a c = (the_cr s a c)\<lparr>cpm := (the_cpm s a c)\<lparr>recv_cnt := recv_cnt (the_cpm s a c) + 1\<rparr>\<rparr>"
    "net_heap s0 = net_heap s" "\<And>b. the_buf s0 b = the_buf s b"
    using cr by (simp_all add: s0_def)
  have bl: "b \<in> live s" using f by (simp add: live_def)
  let ?fc = "\<lambda>s. upd_cpm a c (\<lambda>p. p\<lparr>free_cnt := free_cnt p + 1\<rparr>) s"
  have free: "pnal_buf_free x t = Some (free_of (Some x) t)" if "x \<in> live t" for x t
    using buf_free_live(1) [OF that] by (simp add: free_of_def)
  show ?thesis
  proof (cases "fc_data_valid k \<and> fc_dht_reload k")
    case False
    have "pf_cpm_c_data_ind si a c b fpos s = Some (1, free_of (Some b) (?fc s0))"
      using False f k s0 run free [of b "?fc s0"] bl live_cong [OF s0(3)]
      by (auto simp add: pf_cpm_c_data_ind_def Let_def s0_def [symmetric])
    then show ?thesis using False s0 run
      by (intro exI [of _ "?fc s0"] exI [of _ "Some b"]) (auto simp: frame_effect_def)
  next
    case True
    define ch where "ch = cpm_data_status (the_cpm s a c) XOR fc_data_status k"
    let ?old = "if fc_update_data k then p_buffer_cpm (the_cpm s a c) else Some b"
    have "\<exists>s4. cpm_accept_frame si a c b fpos k s0 = Some (?old, s4)
      \<and> has_cr s4 a c \<and> net_heap s4 = net_heap s
      \<and> frame_effect k b fpos (the_cpm s a c) (the_cpm s4 a c) ?old"
    proof (cases "fc_update_data k")
      case True
      let ?s2 = "upd_cpm a c (\<lambda>p. p\<lparr>p_buffer_cpm := Some b, new_buf := True, cpm_frame_id_pos := fpos,
        cpm_buffer_pos := fpos + 2\<rparr>) s0"
      obtain cm where cm: "snd (pf_cmio_cpm_new_data_ind a c True ?s2) =
        upd_cpm a c (\<lambda>p. p\<lparr>cmio_start := cm\<rparr>) ?s2" by (rule new_data_ind)
      then show ?thesis using True s0(1,2,3) run
        by (simp add: cpm_accept_frame_def pf_cpm_put_buf_def Let_def pf_cpm_set_state_def
          frame_effect_def \<open>fc_data_valid k \<and> fc_dht_reload k\<close>)
    next
      case False
      obtain cm where cm: "snd (pf_cmio_cpm_new_data_ind a c False s0) =
        upd_cpm a c (\<lambda>p. p\<lparr>cmio_start := cm\<rparr>) s0" by (rule new_data_ind)
      then show ?thesis using False s0(1,2,3) run
        by (simp add: cpm_accept_frame_def pf_cpm_put_buf_def Let_def pf_cpm_set_state_def
          frame_effect_def \<open>fc_data_valid k \<and> fc_dht_reload k\<close>)
    qed
    then obtain s4 old where acc: "cpm_accept_frame si a c b fpos k s0 = Some (old, s4)"
      and s4: "has_cr s4 a c" "net_heap s4 = net_heap s"
      and eff: "frame_effect k b fpos (the_cpm s a c) (the_cpm s4 a c) old"
      by blast
    define s1 where "s1 = (if old = None then s4 else ?fc s4)"
    have "set_option old \<subseteq> live s"
      using ok bl eff by (auto simp: cpm_bufs_ok_def cpm_own_def frame_effect_def split: if_splits)
    then have "(case old of None \<Rightarrow> Some (1, s4) | Some ob \<Rightarrow> do {
        s \<leftarrow> pnal_buf_free ob (?fc s4); Some (1 :: int, s) }) = Some (1, free_of old s1)"
      using live_cong [OF s4(2)] free [of _ "?fc s4"] by (auto simp: s1_def free_of_def split: option.splits)
    then have "pf_cpm_c_data_ind si a c b fpos s = Some (1, free_of old s1)"
      using True f k s0(1,2,4) run acc
      by (simp add: pf_cpm_c_data_ind_def Let_def s0_def [symmetric])
    moreover have "net_heap s1 = net_heap s" "has_cr s1 a c"
      using s4 by (simp_all add: s1_def)
    moreover have "frame_effect k b fpos (the_cpm s a c) (the_cpm s1 a c) old"
      using eff s4(1) by (simp add: s1_def frame_effect_def)
    ultimately show ?thesis by blast
  qed
qed

lemma check_frame_some:
  assumes "4 \<le> unat (b_len f)" "unat (b_len f) \<le> length (payload f)" "12 \<le> length (payload f)"
  shows "\<exists>k. cpm_check_frame p f fpos = Some k"
proof -
  have "unat (b_len f - 4) = unat (b_len f) - 4"
    using assms(1) by (simp add: unat_sub word_le_nat_alt)
  then have *: "unat (b_len f - 4) + 3 < length (payload f)" using assms by linarith
  then have "byte_at f (unat (b_len f - 4) + i) = Some (payload f ! (unat (b_len f - 4) + i))" if "i \<le> 3" for i
    using that by (simp add: byte_at_def)
  from this [of 0] this [of 1] this [of 2] this [of 3] show ?thesis
    using assms(3) by (simp add: cpm_check_frame_def pf_cpm_check_src_addr_def Let_def)
qed

text \<open>C18. Whatever frame arrives in the running state, accepted or not, the consumer neither leaks nor
  frees twice a buffer: of the buffers in use before, all but the received one stay with their
  owners, and the consumer owns at most two different ones, which are in use.\<close>

theorem cpm_buffers_owned:
  assumes ok: "cpm_bufs_ok s a c" and run: "cpm_state (the_cpm s a c) = PF_CPM_STATE_RUN"
    and b: "the_buf s b = Some f" "b \<notin> cpm_own (the_cpm s a c)"
    and len: "4 \<le> unat (b_len f)" "unat (b_len f) \<le> length (payload f)" "12 \<le> length (payload f)"
  shows "\<exists>s'. pf_cpm_c_data_ind state_ind a c b fpos s = Some (1, s') \<and> cpm_bufs_ok s' a c
    \<and> cpm_state (the_cpm s' a c) = PF_CPM_STATE_RUN
    \<and> live s' - cpm_own (the_cpm s' a c) = live s - cpm_own (the_cpm s a c) - {b}"
proof -
  have cr: "has_cr s a c" using ok by (simp add: cpm_bufs_ok_def)
  obtain k where k: "cpm_check_frame (the_cpm s a c) f fpos = Some k"
    using check_frame_some [OF len] by blast
  obtain s1 old where s1: "pf_cpm_c_data_ind state_ind a c b fpos s = Some (1, free_of old s1)"
    and heap: "net_heap s1 = net_heap s" and s1': "has_cr s1 a c"
    and eff: "frame_effect k b fpos (the_cpm s a c) (the_cpm s1 a c) old"
    using c_data_ind_effect [OF cr run b(1) k ok b(2)] by blast
  note live1 = live_cong [OF heap]
  have bl: "b \<in> live s" using b by (simp add: live_def)
  have old: "set_option old \<subseteq> live s1"
    using eff ok bl live1 by (auto simp: frame_effect_def cpm_bufs_ok_def cpm_own_def split: if_splits)
  note lf = live_free_of [OF old]
  show ?thesis
    using s1 s1' live1 eff ok bl b(2) by (auto simp: lf frame_effect_def cpm_bufs_ok_def cpm_own_def split: if_splits)
qed

text \<open>C17. A frame of a provider whose counter follows the one of the last frame is accepted: it
  resets the data hold counter, and the application reads data and IOPS of every subslot as the
  provider wrote them, with the new flag on the first reading only.\<close>

theorem provider_to_consumer:
  assumes fr: "provider_frame da sa param d n cyc ds f" and valid: "ds AND 4 \<noteq> 0"
    and ok: "cpm_bufs_ok s a c" and run: "cpm_state (the_cpm s a c) = PF_CPM_STATE_RUN"
    and b: "the_buf s b = Some f" "b \<notin> cpm_own (the_cpm s a c)"
    and p: "cpm_sa (the_cpm s a c) = sa" "unat (cpm_buffer_length (the_cpm s a c)) = n + 20"
    and prev: "cycle_follows (cpm_cycle (the_cpm s a c)) cyc"
    and io: "unat (data_offset io) + unat (data_length io) \<le> length d"
      "unat (iops_offset io) + unat (iops_length io) \<le> length d"
  shows "\<exists>s' s''. pf_cpm_c_data_ind state_ind a c b 18 s = Some (1, s')
    \<and> dht (the_cpm s' a c) = 0 \<and> pf_cpm_get_data_status (the_cpm s' a c) = (0, ds)
    \<and> pf_cpm_driver_sw_get_data_and_iops a c io s' = Some (0, True,
        take (unat (data_length io)) (drop (unat (data_offset io)) d),
        take (unat (iops_length io)) (drop (unat (iops_offset io)) d), s'')
    \<and> pf_cpm_driver_sw_get_data_and_iops a c io s'' = Some (0, False,
        take (unat (data_length io)) (drop (unat (data_offset io)) d),
        take (unat (iops_length io)) (drop (unat (iops_offset io)) d), s'')"
proof -
  define d1 where "d1 = take (unat (data_length io)) (drop (unat (data_offset io)) d)"
  define d2 where "d2 = take (unat (iops_length io)) (drop (unat (iops_offset io)) d)"
  have cr: "has_cr s a c" using ok by (simp add: cpm_bufs_ok_def)
  note k = provider_frame_checked [OF fr p prev valid]
  obtain s1 old where s1: "pf_cpm_c_data_ind state_ind a c b 18 s = Some (1, free_of old s1)"
    "net_heap s1 = net_heap s" "has_cr s1 a c"
    and eff: "frame_effect \<lparr>fc_cycle = cyc, fc_data_status = ds, fc_data_valid = True,
      fc_dht_reload = True, fc_update_data = True\<rparr> b 18 (the_cpm s a c) (the_cpm s1 a c) old"
    using c_data_ind_effect [OF cr run b(1) k ok b(2)] by blast
  have cs: "old = p_buffer_cpm (the_cpm s a c)" "p_buffer_cpm (the_cpm s1 a c) = Some b"
      "new_buf (the_cpm s1 a c)" "cpm_buffer_pos (the_cpm s1 a c) = 20"
    and dht: "dht (the_cpm s1 a c) = 0" "cpm_data_status (the_cpm s1 a c) = ds"
    using eff by (simp_all add: frame_effect_def)
  define s' where "s' = free_of old s1"
  have s': "the_cpm s' a c = the_cpm s1 a c" "has_cr s' a c" using s1 by (simp_all add: s'_def)
  have "old \<noteq> Some b" using b(2) cs(1) by (auto simp: cpm_own_def)
  then have buf: "the_buf s' b = Some f"
    using b(1) s1(2) by (auto simp: s'_def free_of_def the_buf_def nth_list_update_if split: option.split if_splits)
  define s'' where "s'' = upd_cpm a c (\<lambda>p. p\<lparr>p_buffer_app := p_buffer_cpm p, p_buffer_cpm := p_buffer_app p,
              new_buf := False\<rparr>) s'"
  have get: "pf_cpm_get_buf a c s' = (True, Some b, s'')" "pf_cpm_get_buf a c s'' = (False, Some b, s'')"
    using s' cs by (simp_all add: pf_cpm_get_buf_def Let_def s''_def)
  have pl: "\<exists>xs ys. payload f = xs @ d @ ys \<and> length xs = 20"
  proof -
    have "payload f = ppm_header da sa param @ d @ (replicate (n - length d) 0 @ be16 cyc @ [ds, 0]) @ drop (n + 24) (payload f)"
      using fr unfolding provider_frame_def ppm_frame_def by (metis append.assoc append_take_drop_id)
    moreover have "length (ppm_header da sa param) = 20" using fr by (simp add: provider_frame_def ppm_header_def)
    ultimately show ?thesis by blast
  qed
  then obtain xs ys where pl: "payload f = xs @ d @ ys" "length xs = 20" by blast
  have "frame_data t a c b (data_offset io) (data_length io) = Some d1"
    "frame_data t a c b (iops_offset io) (iops_length io) = Some d2"
    if "the_buf t b = Some f" "cpm_buffer_pos (the_cpm t a c) = 20" for t
    using that io pl by (auto simp: frame_data_def d1_def d2_def Let_def)
  moreover have "the_buf s'' b = Some f" "cpm_buffer_pos (the_cpm s'' a c) = 20"
    "cpm_buffer_pos (the_cpm s' a c) = 20"
    using buf s' cs(4) by (simp_all add: s''_def)
  ultimately have "pf_cpm_driver_sw_get_data_and_iops a c io s' = Some (0, True, d1, d2, s'')"
    "pf_cpm_driver_sw_get_data_and_iops a c io s'' = Some (0, False, d1, d2, s'')"
    using get buf by (simp_all add: pf_cpm_driver_sw_get_data_and_iops_def)
  then show ?thesis
    using s1(1) dht s' unfolding d1_def d2_def
    by (intro exI [of _ s'] exI [of _ s'']) (simp add: s'_def pf_cpm_get_data_status_def)
qed

text \<open>The device of the examples with a received frame in buffer 1.\<close>

definition demo_received :: pnal_buf where
  "demo_received = \<lparr>payload = ppm_frame demo_header [11, 22, 128] 40 0x400 53 0, b_len = 64\<rparr>"

definition demo_net2 :: pnet where
  "demo_net2 = demo_net\<lparr>net_heap := net_heap demo_net @ [Some demo_received]\<rparr>"

lemma demo_net2_eval:
  "the_buf demo_net2 1 = Some demo_received" "cpm_state (the_cpm demo_net2 0 0) = PF_CPM_STATE_RUN"
  "cpm_sa (the_cpm demo_net2 0 0) = [1, 2, 3, 4, 5, 7]" "unat (cpm_buffer_length (the_cpm demo_net2 0 0)) = 60"
  "cpm_cycle (the_cpm demo_net2 0 0) = 0"
  by (simp_all add: the_buf_def demo_net2_def demo_net_def the_cr_def demo_conn_def demo_cr_def demo_cpm_def)

lemma demo_net2_bufs: "cpm_bufs_ok demo_net2 0 0" "1 \<notin> cpm_own (the_cpm demo_net2 0 0)"
  by (simp_all add: cpm_bufs_ok_def cpm_own_def live_def has_cr_def the_buf_def demo_net2_def demo_net_def
    the_cr_def demo_conn_def demo_cr_def demo_cpm_def)

theorem cpm_buffers_owned_witness:
  "\<exists>s'. pf_cpm_c_data_ind (\<lambda>_ _ _. Some) 0 0 1 18 demo_net2 = Some (1, s') \<and> cpm_bufs_ok s' 0 0"
proof -
  have "length (payload demo_received) = 64 \<and> b_len demo_received = 64" by code_simp
  then show ?thesis
    using cpm_buffers_owned [OF demo_net2_bufs(1) demo_net2_eval(2,1) demo_net2_bufs(2),
        of "\<lambda>_ _ _. Some" 18] by auto
qed

theorem provider_to_consumer_witness:
  "\<exists>s' s''. pf_cpm_c_data_ind (\<lambda>_ _ _. Some) 0 0 1 18 demo_net2 = Some (1, s') \<and>
    pf_cpm_driver_sw_get_data_and_iops 0 0 demo_io s' = Some (0, True, [11, 22], [128], s'')"
proof -
  have "provider_frame [1, 2, 3, 4, 5, 6] [1, 2, 3, 4, 5, 7] (iocr_param demo_iocr) [11, 22, 128] 40 0x400 53 demo_received"
    by code_simp
  moreover have "cycle_follows (cpm_cycle (the_cpm demo_net2 0 0)) 0x400"
  proof -
    have "pf_ppm_calculate_next_cyclecounter 0 32 32 = Some 0x400" by code_simp
    then show ?thesis unfolding cycle_follows_def demo_net2_eval
      by (intro disjI2 exI [of _ 0] exI [of _ 32]) simp
  qed
  moreover have "(53 :: u8) AND 4 \<noteq> 0" by code_simp
  ultimately show ?thesis
    using provider_to_consumer [OF _ _ demo_net2_bufs(1) demo_net2_eval(2,1) demo_net2_bufs(2),
        of "[1, 2, 3, 4, 5, 6]" "[1, 2, 3, 4, 5, 7]" "iocr_param demo_iocr" "[11, 22, 128]" 40 "0x400" 53 demo_io
          "\<lambda>_ _ _. Some"] demo_net2_eval
    by (fastforce simp: demo_io_def)
qed

end
