(* ===== verification/Pn_Alarm_Wire.thy ===== *)
theory Pn_Alarm_Wire
  imports Pn_Block_Writer
begin

text \<open>
  The part of \<^verbatim>\<open>src/device/pf_block_writer.c\<close> that writes the variable part of alarm frames:
  diagnosis items, the fixed part of an alarm PDU, the maintenance item and the alarm blocks.
\<close>

definition PF_BT_ALARM_NOTIFICATION_HIGH :: u16 where "PF_BT_ALARM_NOTIFICATION_HIGH = 1"
definition PF_BT_ALARM_NOTIFICATION_LOW :: u16 where "PF_BT_ALARM_NOTIFICATION_LOW = 2"
definition PF_BT_ALARM_ACK_HIGH :: u16 where "PF_BT_ALARM_ACK_HIGH = 0x8001"
definition PF_BT_ALARM_ACK_LOW :: u16 where "PF_BT_ALARM_ACK_LOW = 0x8002"
definition PF_BT_MAINTENANCE_ITEM :: u16 where "PF_BT_MAINTENANCE_ITEM = 0xF00"

definition PF_USI_CHANNEL_DIAGNOSIS :: u16 where "PF_USI_CHANNEL_DIAGNOSIS = 0x8000"
definition PF_USI_EXTENDED_CHANNEL_DIAGNOSIS :: u16 where
  "PF_USI_EXTENDED_CHANNEL_DIAGNOSIS = 0x8002"
definition PF_USI_QUALIFIED_CHANNEL_DIAGNOSIS :: u16 where
  "PF_USI_QUALIFIED_CHANNEL_DIAGNOSIS = 0x8003"
definition PF_USI_MAINTENANCE :: u16 where "PF_USI_MAINTENANCE = 0x8100"

lemmas usi_defs = PF_USI_CHANNEL_DIAGNOSIS_def PF_USI_EXTENDED_CHANNEL_DIAGNOSIS_def
  PF_USI_QUALIFIED_CHANNEL_DIAGNOSIS_def PF_USI_MAINTENANCE_def

lemmas alarm_block_defs = PF_BT_ALARM_NOTIFICATION_HIGH_def PF_BT_ALARM_NOTIFICATION_LOW_def
  PF_BT_ALARM_ACK_HIGH_def PF_BT_ALARM_ACK_LOW_def

section \<open>Diagnosis items\<close>

definition pf_put_diag_item :: "bool \<Rightarrow> pf_diag_item \<Rightarrow> bool \<Rightarrow> wrm" where
  "pf_put_diag_item be p_item insert_usi = puts
     ((if insert_usi then [pf_put_uint16 be (di_usi p_item)] else []) @
      (let std = fmt_std p_item;
           ch = [pf_put_uint16 be (ch_nbr std), pf_put_uint16 be (ch_properties std),
                 pf_put_uint16 be (ch_error_type std)];
           ext = [pf_put_uint16 be (ext_ch_error_type std), pf_put_uint32 be (ext_ch_add_value std)]
       in if di_usi p_item = PF_USI_CHANNEL_DIAGNOSIS then ch
          else if di_usi p_item = PF_USI_EXTENDED_CHANNEL_DIAGNOSIS then ch @ ext
          else if di_usi p_item = PF_USI_QUALIFIED_CHANNEL_DIAGNOSIS
          then ch @ ext @ [pf_put_uint32 be (qual_ch_qualifier std)]
          else [pf_put_mem (manuf_data (fmt_usi p_item)) (usi_len (fmt_usi p_item))]))"

section \<open>Alarm PDUs\<close>

definition pf_put_alarm_fixed :: "bool \<Rightarrow> pf_alarm_fixed \<Rightarrow> wrm" where
  "pf_put_alarm_fixed be f = puts [
     pf_put_uint16 be (dst_ref f),
     pf_put_uint16 be (src_ref f),
     pf_put_byte (ucast (pf_put_bits (ucast (pdu_type_version (pdu_type f))) 4 4
       (pf_put_bits (ucast (pdu_type_type (pdu_type f))) 4 0 0))),
     pf_put_byte (ucast (put_flag (tack (add_flags f)) 4
       (pf_put_bits (ucast (window_size (add_flags f))) 4 0 0))),
     pf_put_uint16 be (send_seq_num f),
     pf_put_uint16 be (ack_seq_nbr f)]"

definition pf_put_maint_status :: "bool \<Rightarrow> u32 \<Rightarrow> wrm" where
  "pf_put_maint_status be maint_status = puts [
     pf_put_uint16 be PF_USI_MAINTENANCE,
     put_block be PF_BT_MAINTENANCE_ITEM PNET_BLOCK_VERSION_LOW (\<lambda>_. [
       pf_put_byte 0, pf_put_byte 0, pf_put_uint32 be maint_status])]"

text \<open>A write that is given another size of the buffer.\<close>

definition with_res_len :: "u16 \<Rightarrow> wrm \<Rightarrow> wrm" where
  "with_res_len n f w = do {
     w' \<leftarrow> f (w\<lparr>wr_res_len := n\<rparr>);
     Some (w'\<lparr>wr_res_len := wr_res_len w\<rparr>) }"

definition alarm_spec_bits :: "u16 \<Rightarrow> pnet_alarm_spec \<Rightarrow> u32" where
  "alarm_spec_bits seq spec =
     put_flag (ar_diagnosis spec) 15
     (put_flag (submodule_diagnosis spec) 13
     (put_flag (manufacturer_diagnosis spec) 12
     (put_flag (channel_diagnosis spec) 11
     (pf_put_bits (ucast seq) 11 0 0))))"

definition put_alarm_payload :: "bool \<Rightarrow> u32 \<Rightarrow> u16 \<Rightarrow> u16 \<Rightarrow> payload \<Rightarrow> wrm" where
  "put_alarm_payload be maint_status usi n p_payload =
     (if usi = 0 \<or> usi = PF_USI_MAINTENANCE then puts []
      else if usi = PF_USI_CHANNEL_DIAGNOSIS \<or> usi = PF_USI_EXTENDED_CHANNEL_DIAGNOSIS
        \<or> usi = PF_USI_QUALIFIED_CHANNEL_DIAGNOSIS
      then puts ((if maint_status \<noteq> 0 then [pf_put_maint_status be maint_status] else []) @
        [case p_payload of Payload_item it \<Rightarrow> pf_put_diag_item be it True
         | Payload_bytes _ \<Rightarrow> (\<lambda>_. None)])
      else puts (pf_put_uint16 be usi #
        (if n > 0 then [case p_payload of Payload_bytes bs \<Rightarrow> pf_put_mem bs n
           | Payload_item _ \<Rightarrow> (\<lambda>_. None)] else [])))"

definition pf_put_alarm_block ::
  "bool \<Rightarrow> u16 \<Rightarrow> pf_alarm_data \<Rightarrow> u32 \<Rightarrow> u16 \<Rightarrow> u16 \<Rightarrow> payload \<Rightarrow> pnet_pnio_status option \<Rightarrow> wrm" where
  "pf_put_alarm_block be bh_type d maint_status usi n p_payload p_status =
     (let notification = (bh_type = PF_BT_ALARM_NOTIFICATION_LOW \<or> bh_type = PF_BT_ALARM_NOTIFICATION_HIGH)
      in put_block be bh_type PNET_BLOCK_VERSION_LOW (\<lambda>_.
        [pf_put_uint16 be (alarm_type d),
         pf_put_uint32 be (ad_api_id d),
         pf_put_uint16 be (ad_slot_nbr d),
         pf_put_uint16 be (ad_subslot_nbr d)] @
        (if notification
         then [pf_put_uint32 be (module_ident d), pf_put_uint32 be (ucast (submodule_ident d))]
         else []) @
        [pf_put_uint16 be (ucast (alarm_spec_bits (ad_sequence_number d) (alarm_specifier d)))] @
        [if notification then put_alarm_payload be maint_status usi n p_payload
         else case p_status of None \<Rightarrow> (\<lambda>_. None)
           | Some st \<Rightarrow> with_res_len (of_nat PF_FRAME_BUFFER_SIZE) (pf_put_pnet_status True st)]))"

end
