(* ===== verification/Pn_Alarm_Send.thy ===== *)
theory Pn_Alarm_Send
  imports Pn_Alarm_Wire Pn_Cpm
begin

text \<open>
  The sending half of \<^verbatim>\<open>src/common/pf_alarm.c\<close> that needs no other state machine: composing
  and sending an alarm PDU, and closing the alarm machines of a connection. In \<open>the_apmx s a p\<close> the
  index \<open>a\<close> is that of the AR and \<open>p\<close> the priority, 0 for low and 1 for high.
\<close>

definition PF_RTA_PDU_TYPE_DATA :: u8 where "PF_RTA_PDU_TYPE_DATA = 1"
definition PF_RTA_PDU_TYPE_NACK :: u8 where "PF_RTA_PDU_TYPE_NACK = 2"
definition PF_RTA_PDU_TYPE_ACK :: u8 where "PF_RTA_PDU_TYPE_ACK = 3"
definition PF_RTA_PDU_TYPE_ERR :: u8 where "PF_RTA_PDU_TYPE_ERR = 4"
definition PF_ALARM_PDU_TYPE_VERSION_1 :: u8 where "PF_ALARM_PDU_TYPE_VERSION_1 = 1"

lemmas pdu_type_defs = PF_RTA_PDU_TYPE_DATA_def PF_RTA_PDU_TYPE_NACK_def PF_RTA_PDU_TYPE_ACK_def
  PF_RTA_PDU_TYPE_ERR_def PF_ALARM_PDU_TYPE_VERSION_1_def

definition PF_FRAME_ID_ALARM_HIGH :: u16 where "PF_FRAME_ID_ALARM_HIGH = 0xFC01"
definition PF_FRAME_ID_ALARM_LOW :: u16 where "PF_FRAME_ID_ALARM_LOW = 0xFE01"

definition PNET_ERROR_CODE_RTA_ERROR :: u8 where "PNET_ERROR_CODE_RTA_ERROR = 0xCF"
definition PNET_ERROR_DECODE_PNIO :: u8 where "PNET_ERROR_DECODE_PNIO = 0x81"

section \<open>Composing a frame\<close>

text \<open>The plain \<^verbatim>\<open>memcpy\<close> into the buffer, with no check of the size.\<close>

definition put_copy :: "u8 list \<Rightarrow> wrm" where
  "put_copy bs w =
     (if unat (wr_pos w) + length bs \<le> length (wr_bytes w)
      then Some (w\<lparr>wr_bytes := overlay (unat (wr_pos w)) bs (wr_bytes w),
                   wr_pos := wr_pos w + of_nat (length bs)\<rparr>)
      else None)"

definition alarm_header :: "pf_apmx \<Rightarrow> u8 list \<Rightarrow> pf_alarm_fixed \<Rightarrow> wrm" where
  "alarm_header x mac fixed = puts [
     pf_put_mem (apmx_da x) 6,
     put_copy mac,
     pf_put_uint16 True PNAL_ETHTYPE_VLAN,
     pf_put_uint16 True (push_bit 13 (vlan_prio x AND 7)),
     pf_put_uint16 True PNAL_ETHTYPE_PROFINET,
     pf_put_uint16 True (apmx_frame_id x),
     pf_put_alarm_fixed True fixed]"

text \<open>The variable part; the type of the PDU and the presence of a status decide.\<close>

definition alarm_var_part ::
  "pf_apmx \<Rightarrow> pf_alarm_fixed \<Rightarrow> pf_alarm_data option \<Rightarrow> u32 \<Rightarrow> u16 \<Rightarrow> u16 \<Rightarrow> payload
     \<Rightarrow> pnet_pnio_status option \<Rightarrow> wrm" where
  "alarm_var_part x fixed d maint_status usi n p_payload p_status =
     (if pdu_type_type (pdu_type fixed) = PF_RTA_PDU_TYPE_DATA
      then (case d of None \<Rightarrow> (\<lambda>_. None)
        | Some d \<Rightarrow> (case p_status of
            Some _ \<Rightarrow> pf_put_alarm_block True (block_type_alarm_ack x) d maint_status 0 0
              (Payload_bytes []) p_status
          | None \<Rightarrow> pf_put_alarm_block True (block_type_alarm_notify x) d maint_status usi n p_payload
              None))
      else if pdu_type_type (pdu_type fixed) = PF_RTA_PDU_TYPE_ERR
      then (case p_status of None \<Rightarrow> (\<lambda>_. None) | Some st \<Rightarrow> pf_put_pnet_status True st)
      else Some)"

definition alarm_frame ::
  "pf_apmx \<Rightarrow> u8 list \<Rightarrow> pf_alarm_fixed \<Rightarrow> pf_alarm_data option \<Rightarrow> u32 \<Rightarrow> u16 \<Rightarrow> u16 \<Rightarrow> payload
     \<Rightarrow> pnet_pnio_status option \<Rightarrow> wrm" where
  "alarm_frame x mac fixed d maint_status usi n p_payload p_status w = do {
     w \<leftarrow> alarm_header x mac fixed w;
     let var_part_len_pos = wr_pos w;
     w \<leftarrow> pf_put_uint16 True 0 w;
     w \<leftarrow> alarm_var_part x fixed d maint_status usi n p_payload p_status w;
     put_at var_part_len_pos (pf_put_uint16 True (wr_pos w - (var_part_len_pos + 2))) w }"

section \<open>Sending\<close>

definition pf_alarm_apms_a_data_req ::
  "nat \<Rightarrow> nat \<Rightarrow> pf_alarm_fixed \<Rightarrow> pf_alarm_data option \<Rightarrow> u32 \<Rightarrow> u16 \<Rightarrow> u16 \<Rightarrow> payload
     \<Rightarrow> pnet_pnio_status option \<Rightarrow> pnet \<Rightarrow> (int \<times> pnet) option" where
  "pf_alarm_apms_a_data_req a p fixed d maint_status usi n p_payload p_status s = (let
     x = the_apmx s a p
   in if \<not> apmx_p_ar x then None
      else if transport_udp (alarm_cr_request (cfg (net_ars s ! a))) then Some (-1, s)
      else case pnal_buf_alloc PF_FRAME_BUFFER_SIZE s of
        (None, s) \<Rightarrow> Some (-1, s)
      | (Some b, s) \<Rightarrow> do {
          f \<leftarrow> the_buf s b;
          w \<leftarrow> alarm_frame x (net_mac s) fixed d maint_status usi n p_payload p_status
            \<lparr>wr_bytes = payload f, wr_res_len = of_nat PF_FRAME_BUFFER_SIZE, wr_pos = 0\<rparr>;
          let s = s\<lparr>net_heap := (net_heap s)[b := Some \<lparr>payload = wr_bytes w, b_len = wr_pos w\<rparr>]\<rparr>;
          (sent, s) \<leftarrow> pf_eth_send_on_management_port b s;
          let ret = (if sent \<le> 0 then -1 else 0);
          if tack (add_flags fixed) \<and> p_rta x = None
          then Some (ret, upd_apmx a p (\<lambda>x. x\<lparr>p_rta := Some b\<rparr>) s)
          else do { s \<leftarrow> pnal_buf_free b s; Some (ret, s) } })"

text \<open>The fixed part of the PDUs that carry no alarm.\<close>

definition fixed_part :: "pf_apmx \<Rightarrow> u8 \<Rightarrow> bool \<Rightarrow> u16 \<Rightarrow> pf_alarm_fixed" where
  "fixed_part x ty tk seq = \<lparr>dst_ref = apmx_dst_ref x, src_ref = apmx_src_ref x,
     pdu_type = \<lparr>pdu_type_type = ty, pdu_type_version = PF_ALARM_PDU_TYPE_VERSION_1\<rparr>,
     add_flags = \<lparr>window_size = 1, tack = tk\<rparr>, send_seq_num = seq,
     ack_seq_nbr = exp_seq_count_o x\<rparr>"

definition pf_alarm_apmr_send_ack :: "nat \<Rightarrow> nat \<Rightarrow> pnet \<Rightarrow> (int \<times> pnet) option" where
  "pf_alarm_apmr_send_ack a p s = (let x = the_apmx s a p in
     pf_alarm_apms_a_data_req a p (fixed_part x PF_RTA_PDU_TYPE_ACK False (send_seq_count_o x))
       None 0 0 0 (Payload_bytes []) None s)"

definition pf_alarm_apmr_send_nack :: "nat \<Rightarrow> nat \<Rightarrow> pnet \<Rightarrow> (int \<times> pnet) option" where
  "pf_alarm_apmr_send_nack a p s = (let x = the_apmx s a p in
     pf_alarm_apms_a_data_req a p (fixed_part x PF_RTA_PDU_TYPE_NACK False (send_seq_count_o x))
       None 0 0 0 (Payload_bytes []) None s)"

section \<open>Closing\<close>

text \<open>One machine: its timer, its saved frame, its queue of received frames.\<close>

definition apmx_close_one :: "nat \<Rightarrow> nat \<Rightarrow> pnet \<Rightarrow> pnet option" where
  "apmx_close_one a p s = do {
     s \<leftarrow> (if apms_state (the_apmx s a p) \<noteq> PF_APMS_STATE_CLOSED
          then do {
            (h, s) \<leftarrow> timer_remove_if_running (resend_timeout (the_apmx s a p)) s;
            Some (upd_apmx a p (\<lambda>x. x\<lparr>resend_timeout := h, apmx_p_ar := False,
              apms_state := PF_APMS_STATE_CLOSED\<rparr>) s) }
          else Some s);
     s \<leftarrow> (case p_rta (the_apmx s a p) of
            None \<Rightarrow> Some s
          | Some b \<Rightarrow> pnal_buf_free b (upd_apmx a p (\<lambda>x. x\<lparr>p_rta := None\<rparr>) s));
     if apmr_state (the_apmx s a p) \<noteq> PF_APMR_STATE_CLOSED
     then do {
       let (bs, q) = pf_alarm_receive_queue_reset (alarm_receive_q (the_apmx s a p));
       s \<leftarrow> fold_m pnal_buf_free bs s;
       Some (upd_apmx a p (\<lambda>x. x\<lparr>apmr_state := PF_APMR_STATE_CLOSED, alarm_receive_q :=
         q\<lparr>rq_accountant := pf_alarm_queue_mutex_destroy (rq_accountant q)\<rparr>\<rparr>) s) }
     else Some s }"

text \<open>The result, always 0, is left out here and in the next two functions.\<close>

definition pf_alarm_apmx_close :: "nat \<Rightarrow> u8 \<Rightarrow> pnet \<Rightarrow> pnet option" where
  "pf_alarm_apmx_close a code s = do {
     let x = the_apmx s a 0;
     s \<leftarrow> (if apms_state x \<noteq> PF_APMS_STATE_CLOSED
          then do {
            (_, s) \<leftarrow> pf_alarm_apms_a_data_req a 0
              (fixed_part x PF_RTA_PDU_TYPE_ERR False (send_seq_count x)) None 0 0 0 (Payload_bytes [])
              (Some \<lparr>error_code = PNET_ERROR_CODE_RTA_ERROR, error_decode = PNET_ERROR_DECODE_PNIO,
                error_code_1 = PNET_ERROR_CODE_1_RTA_ERR_CLS_PROTOCOL, error_code_2 = code\<rparr>) s;
            Some s }
          else Some s);
     let s = s\<lparr>eth_id_map := pf_eth_frame_id_map_remove (eth_id_map s) PF_FRAME_ID_ALARM_HIGH\<rparr>;
     let s = s\<lparr>eth_id_map := pf_eth_frame_id_map_remove (eth_id_map s) PF_FRAME_ID_ALARM_LOW\<rparr>;
     fold_m (apmx_close_one a) [0..<length (apmx (net_ars s ! a))] s }"

definition pf_alarm_alpmx_close :: "nat \<Rightarrow> pnet \<Rightarrow> pnet" where
  "pf_alarm_alpmx_close a = upd_ar a (\<lambda>r. r\<lparr>alpmx :=
     map (\<lambda>x. x\<lparr>alpmi_state := PF_ALPMI_STATE_W_START, alpmr_state := PF_ALPMR_STATE_W_START\<rparr>)
       (alpmx r)\<rparr>)"

definition pf_alarm_close :: "nat \<Rightarrow> pnet \<Rightarrow> pnet option" where
  "pf_alarm_close a s = (let
     s = upd_ar a (\<lambda>r. r\<lparr>alarm_send_q := map (\<lambda>q. let q = pf_alarm_send_queue_reset q
       in q\<lparr>sq_accountant := pf_alarm_queue_mutex_destroy (sq_accountant q)\<rparr>) (alarm_send_q r)\<rparr>) s;
     s = pf_alarm_alpmx_close a s
   in pf_alarm_apmx_close a (err_code (net_ars s ! a)) s)"

end
