(* ===== verification/Pn_Device.thy ===== *)
theory Pn_Device
  imports Pn_Net
begin

text \<open>
  The tree of plugged modules and the pool of diagnosis items, the part of
  \<^verbatim>\<open>src/device/pf_cmdev.c\<close> that keeps the state of the device: searches and
  creation of APIs, slots and subslots, plugging a module, the free list of diagnosis items and the
  removal of the references to a connection. A C pointer into the tree is the indices that lead to
  it. What every operation keeps of them is in \<open>Pn_Device_Correct\<close>.
\<close>

definition PF_DIAG_IX_NULL :: u16 where "PF_DIAG_IX_NULL = 0xFFFF"

section \<open>Access\<close>

abbreviation the_slot :: "pf_device \<Rightarrow> nat \<Rightarrow> nat \<Rightarrow> pf_slot" where
  "the_slot d i j \<equiv> slots (dev_apis d ! i) ! j"

abbreviation the_subslot :: "pf_device \<Rightarrow> nat \<Rightarrow> nat \<Rightarrow> nat \<Rightarrow> pf_subslot" where
  "the_subslot d i j k \<equiv> subslots (the_slot d i j) ! k"

definition upd_api :: "nat \<Rightarrow> (pf_api \<Rightarrow> pf_api) \<Rightarrow> pf_device \<Rightarrow> pf_device" where
  "upd_api i f d = d\<lparr>dev_apis := (dev_apis d)[i := f (dev_apis d ! i)]\<rparr>"

definition upd_slot :: "nat \<Rightarrow> nat \<Rightarrow> (pf_slot \<Rightarrow> pf_slot) \<Rightarrow> pf_device \<Rightarrow> pf_device" where
  "upd_slot i j f = upd_api i (\<lambda>a. a\<lparr>slots := (slots a)[j := f (slots a ! j)]\<rparr>)"

definition upd_subslot :: "nat \<Rightarrow> nat \<Rightarrow> nat \<Rightarrow> (pf_subslot \<Rightarrow> pf_subslot) \<Rightarrow> pf_device \<Rightarrow> pf_device" where
  "upd_subslot i j k f = upd_slot i j (\<lambda>s. s\<lparr>subslots := (subslots s)[k := f (subslots s ! k)]\<rparr>)"

definition on_dev :: "(pf_device \<Rightarrow> pf_device) \<Rightarrow> pnet \<Rightarrow> pnet" where
  "on_dev f s = s\<lparr>net_device := f (net_device s)\<rparr>"

text \<open>What \<^verbatim>\<open>memset\<close> leaves.\<close>

definition zero_submodule_state :: pf_submodule_state where
  "zero_submodule_state = \<lparr>add_info = 0, advice_avail = False, maintenance_required = False,
     maintenance_demanded = False, sub_fault = False, sub_ar_info = 0, ident_info = 0,
     format_indicator = False\<rparr>"

definition zero_subslot :: pf_subslot where
  "zero_subslot = \<lparr>ss_in_use = False, ss_subslot_nbr = 0, ss_exp_submodule_ident_number = 0,
     ss_submodule_ident_number = 0, length_input = 0, length_output = 0, direction = 0,
     ss_p_ar = None, submodule_state = zero_submodule_state, diag_list = 0\<rparr>"

definition zero_slot :: "nat \<Rightarrow> pf_slot" where
  "zero_slot n = \<lparr>sl_in_use = False, sl_exp_module_ident_number = 0, sl_module_ident_number = 0,
     plug_state = 0, subslots = replicate n zero_subslot, sl_p_ar = None, sl_slot_nbr = 0\<rparr>"

definition zero_api :: "nat list \<Rightarrow> pf_api" where
  "zero_api ns = \<lparr>api_in_use = False, api_id = 0, slots = map zero_slot ns, api_p_ar = None\<rparr>"

definition zero_diag_item :: "nat \<Rightarrow> pf_diag_item" where
  "zero_diag_item n = \<lparr>
     fmt_std = \<lparr>ext_ch_add_value = 0, qual_ch_qualifier = 0, ch_nbr = 0, ch_properties = 0,
       ch_error_type = 0, ext_ch_error_type = 0\<rparr>,
     fmt_usi = \<lparr>usi_len = 0, manuf_data = replicate n 0\<rparr>,
     di_in_use = False, di_usi = 0, di_next = 0\<rparr>"

section \<open>Searches\<close>

definition pf_cmdev_get_api :: "pf_device \<Rightarrow> u32 \<Rightarrow> nat option" where
  "pf_cmdev_get_api d api = find_ix (\<lambda>a. api_in_use a \<and> api_id a = api) (dev_apis d)"

definition pf_cmdev_get_slot :: "pf_api \<Rightarrow> u16 \<Rightarrow> nat option" where
  "pf_cmdev_get_slot a slot_nbr = find_ix (\<lambda>s. sl_in_use s \<and> sl_slot_nbr s = slot_nbr) (slots a)"

definition pf_cmdev_get_subslot :: "pf_slot \<Rightarrow> u16 \<Rightarrow> nat option" where
  "pf_cmdev_get_subslot s subslot_nbr =
     find_ix (\<lambda>u. ss_in_use u \<and> ss_subslot_nbr u = subslot_nbr) (subslots s)"

text \<open>The parameter \<^verbatim>\<open>api_id\<close> of the next four functions is a \<^verbatim>\<open>uint16_t\<close>.\<close>

definition pf_cmdev_get_subslot_full ::
  "pf_device \<Rightarrow> u16 \<Rightarrow> u16 \<Rightarrow> u16 \<Rightarrow> (nat \<times> nat \<times> nat) option" where
  "pf_cmdev_get_subslot_full d api slot_nbr subslot_nbr = do {
     i \<leftarrow> pf_cmdev_get_api d (ucast api);
     j \<leftarrow> pf_cmdev_get_slot (dev_apis d ! i) slot_nbr;
     k \<leftarrow> pf_cmdev_get_subslot (the_slot d i j) subslot_nbr;
     Some (i, j, k) }"

definition pf_cmdev_get_slot_full :: "pf_device \<Rightarrow> u16 \<Rightarrow> u16 \<Rightarrow> (nat \<times> nat) option" where
  "pf_cmdev_get_slot_full d api slot_nbr = do {
     i \<leftarrow> pf_cmdev_get_api d (ucast api);
     j \<leftarrow> pf_cmdev_get_slot (dev_apis d ! i) slot_nbr;
     Some (i, j) }"

text \<open>A result and the value of the output parameter, which keeps its old value on failure.\<close>

definition pf_cmdev_get_module_ident :: "pf_device \<Rightarrow> u16 \<Rightarrow> u16 \<Rightarrow> u32 \<Rightarrow> int \<times> u32" where
  "pf_cmdev_get_module_ident d api slot_nbr old =
     (case pf_cmdev_get_slot_full d api slot_nbr of
        Some (i, j) \<Rightarrow> (0, sl_module_ident_number (the_slot d i j)) | None \<Rightarrow> (-1, old))"

definition pf_cmdev_get_submodule_ident ::
  "pf_device \<Rightarrow> u16 \<Rightarrow> u16 \<Rightarrow> u16 \<Rightarrow> u32 \<Rightarrow> int \<times> u32" where
  "pf_cmdev_get_submodule_ident d api slot_nbr subslot_nbr old =
     (case pf_cmdev_get_subslot_full d api slot_nbr subslot_nbr of
        Some (i, j, k) \<Rightarrow> (0, ss_submodule_ident_number (the_subslot d i j k)) | None \<Rightarrow> (-1, old))"

text \<open>The expected configuration of a connection; \<open>None\<close> if a count exceeds its array.\<close>

definition pf_cmdev_get_exp_api :: "pf_ar \<Rightarrow> u32 \<Rightarrow> nat option option" where
  "pf_cmdev_get_exp_api r api = find_upto (unat (nbr_exp_apis r)) (\<lambda>a. exp_api a = api) (exp_apis r)"

definition pf_cmdev_get_exp_sub :: "pf_ar \<Rightarrow> u32 \<Rightarrow> u16 \<Rightarrow> u16 \<Rightarrow> pf_exp_submodule option option" where
  "pf_cmdev_get_exp_sub r api slot_nbr subslot_nbr = do {
     f \<leftarrow> pf_cmdev_get_exp_api r api;
     case f of None \<Rightarrow> Some None
     | Some i \<Rightarrow> do {
         let p_exp_api = exp_apis r ! i;
         f \<leftarrow> find_upto (unat (nbr_modules p_exp_api)) (\<lambda>m. slot_number m = slot_nbr)
           (modules p_exp_api);
         case f of None \<Rightarrow> Some None
         | Some j \<Rightarrow> do {
             let p_exp_mod = modules p_exp_api ! j;
             f \<leftarrow> find_upto (unat (nbr_submodules p_exp_mod)) (\<lambda>u. subslot_number u = subslot_nbr)
               (submodules p_exp_mod);
             Some (map_option (\<lambda>k. submodules p_exp_mod ! k) f) } } }"

section \<open>Creation\<close>

definition pf_cmdev_new_api :: "pf_device \<Rightarrow> u32 \<Rightarrow> int \<times> nat option \<times> pf_device" where
  "pf_cmdev_new_api d api =
     (case pf_cmdev_get_api d api of
        Some i \<Rightarrow> (-1, Some i, d)
      | None \<Rightarrow> (case find_ix (\<lambda>a. \<not> api_in_use a) (dev_apis d) of
          None \<Rightarrow> (-1, None, d)
        | Some i \<Rightarrow> (0, Some i, upd_api i (\<lambda>a.
            (zero_api (map (length \<circ> subslots) (slots a)))\<lparr>api_id := api, api_in_use := True\<rparr>) d)))"

definition pf_cmdev_new_slot :: "pf_device \<Rightarrow> nat \<Rightarrow> u16 \<Rightarrow> int \<times> nat option \<times> pf_device" where
  "pf_cmdev_new_slot d i slot_nbr =
     (case pf_cmdev_get_slot (dev_apis d ! i) slot_nbr of
        Some j \<Rightarrow> (-1, Some j, d)
      | None \<Rightarrow> (case find_ix (\<lambda>s. \<not> sl_in_use s) (slots (dev_apis d ! i)) of
          None \<Rightarrow> (-1, None, d)
        | Some j \<Rightarrow> (0, Some j, upd_slot i j (\<lambda>s.
            (zero_slot (length (subslots s)))\<lparr>sl_slot_nbr := slot_nbr, sl_in_use := True\<rparr>) d)))"

definition pf_cmdev_new_subslot :: "pf_device \<Rightarrow> nat \<Rightarrow> nat \<Rightarrow> u16 \<Rightarrow> int \<times> nat option \<times> pf_device" where
  "pf_cmdev_new_subslot d i j subslot_nbr =
     (case pf_cmdev_get_subslot (the_slot d i j) subslot_nbr of
        Some k \<Rightarrow> (-1, Some k, d)
      | None \<Rightarrow> (case find_ix (\<lambda>u. \<not> ss_in_use u) (subslots (the_slot d i j)) of
          None \<Rightarrow> (-1, None, d)
        | Some k \<Rightarrow> (0, Some k, upd_subslot i j k (\<lambda>_.
            zero_subslot\<lparr>ss_subslot_nbr := subslot_nbr, diag_list := PF_DIAG_IX_NULL,
              ss_in_use := True\<rparr>) d)))"

definition pf_cmdev_plug_module :: "pf_device \<Rightarrow> u32 \<Rightarrow> u16 \<Rightarrow> u32 \<Rightarrow> int \<times> pf_device" where
  "pf_cmdev_plug_module d api slot_nbr module_ident_nbr =
     (case pf_cmdev_get_api d api of
        None \<Rightarrow> (-1, d)
      | Some i \<Rightarrow> (case pf_cmdev_get_slot (dev_apis d ! i) slot_nbr of
          Some j \<Rightarrow>
            if sl_module_ident_number (the_slot d i j) = module_ident_nbr
            then (0, upd_slot i j (\<lambda>s. s\<lparr>plug_state := PF_MOD_PLUG_PROPER_MODULE\<rparr>) d)
            else (-1, upd_slot i j (\<lambda>s. s\<lparr>plug_state := PF_MOD_PLUG_WRONG_MODULE\<rparr>) d)
        | None \<Rightarrow> (case pf_cmdev_new_slot d i slot_nbr of
            (r, Some j, d1) \<Rightarrow> if r \<noteq> 0 then (-1, d1)
              else (0, upd_slot i j (\<lambda>s. s\<lparr>sl_module_ident_number := module_ident_nbr,
                plug_state := PF_MOD_PLUG_PROPER_MODULE, sl_p_ar := api_p_ar (dev_apis d1 ! i)\<rparr>) d1)
          | (_, None, d1) \<Rightarrow> (-1, d1))))"

text \<open>The references to connection \<open>a\<close> are removed from the tree.\<close>

definition drop_ar :: "nat \<Rightarrow> nat option \<Rightarrow> nat option" where
  "drop_ar a p = (if p = Some a then None else p)"

definition pf_device_clear :: "nat \<Rightarrow> pf_device \<Rightarrow> pf_device" where
  "pf_device_clear a d = d\<lparr>dev_apis := map (\<lambda>x. x\<lparr>api_p_ar := drop_ar a (api_p_ar x),
     slots := map (\<lambda>s. s\<lparr>sl_p_ar := drop_ar a (sl_p_ar s),
       subslots := map (\<lambda>u. u\<lparr>ss_p_ar := drop_ar a (ss_p_ar u)\<rparr>) (subslots s)\<rparr>) (slots x)\<rparr>)
     (dev_apis d)\<rparr>"

section \<open>The pool of diagnosis items\<close>

definition pf_cmdev_get_diag_item :: "pf_device \<Rightarrow> u16 \<Rightarrow> nat option" where
  "pf_cmdev_get_diag_item d ix = (if unat ix < length (diag_items d) then Some (unat ix) else None)"

definition upd_item :: "nat \<Rightarrow> (pf_diag_item \<Rightarrow> pf_diag_item) \<Rightarrow> pf_device \<Rightarrow> pf_device" where
  "upd_item n f d = d\<lparr>diag_items := (diag_items d)[n := f (diag_items d ! n)]\<rparr>"

text \<open>\<open>None\<close>: the head of the free list is outside the array.\<close>

definition pf_cmdev_new_diag :: "pf_device \<Rightarrow> (int \<times> u16 \<times> pf_device) option" where
  "pf_cmdev_new_diag d =
     (let ix = diag_items_free d; n = unat ix in
      if ix = PF_DIAG_IX_NULL then Some (-1, ix, d)
      else if n < length (diag_items d)
      then Some (0, ix, (upd_item n (\<lambda>it. (zero_diag_item (length (manuf_data (fmt_usi it))))
                           \<lparr>di_in_use := True\<rparr>) d)
                        \<lparr>diag_items_free := di_next (diag_items d ! n)\<rparr>)
      else None)"

definition pf_cmdev_free_diag :: "pf_device \<Rightarrow> u16 \<Rightarrow> pf_device" where
  "pf_cmdev_free_diag d ix =
     (if unat ix < length (diag_items d)
      then (upd_item (unat ix) (\<lambda>it. it\<lparr>di_in_use := False, di_next := diag_items_free d\<rparr>) d)
           \<lparr>diag_items_free := ix\<rparr>
      else d)"

text \<open>
  The items of a list, by their indices. The walk ends at the first index outside the array; it
  is \<open>None\<close> if it does not end.
\<close>

partial_function (option) diag_walk :: "pf_diag_item list \<Rightarrow> u16 \<Rightarrow> nat list option" where
  "diag_walk items ix =
     (if unat ix < length items
      then do { ns \<leftarrow> diag_walk items (di_next (items ! unat ix)); Some (unat ix # ns) }
      else Some [])"

declare diag_walk.simps [code]

definition next_usi :: "u16 \<Rightarrow> u16 \<Rightarrow> pf_diag_item \<Rightarrow> u16" where
  "next_usi low_usi_limit v it = (if di_usi it > low_usi_limit \<and> di_usi it < v then di_usi it else v)"

definition pf_cmdev_get_next_diagnosis_usi :: "pf_device \<Rightarrow> u16 \<Rightarrow> u16 \<Rightarrow> u16 \<Rightarrow> (int \<times> u16) option" where
  "pf_cmdev_get_next_diagnosis_usi d list_head low_usi_limit old = do {
     ns \<leftarrow> diag_walk (diag_items d) list_head;
     let v = foldl (next_usi low_usi_limit) 0xFFFF (map ((!) (diag_items d)) ns);
     Some (if v \<noteq> 0xFFFF then (0, v) else (-1, old)) }"

section \<open>Initialization\<close>

text \<open>The sizes of the arrays are those of the zeroed device \<open>d\<close>.\<close>

definition pf_cmdev_init :: "pf_device \<Rightarrow> pf_device option" where
  "pf_cmdev_init d =
     (let n = length (diag_items d) in
      if n = 0 then None
      else Some (snd (snd (pf_cmdev_new_api
        (d\<lparr>dev_apis := map (\<lambda>a. zero_api (map (length \<circ> subslots) (slots a))) (dev_apis d),
          diag_items_free := 0,
          diag_items := map (\<lambda>ix. (zero_diag_item (length (manuf_data (fmt_usi (diag_items d ! ix)))))
            \<lparr>di_next := (if ix < n - 1 then of_nat (ix + 1) else PF_DIAG_IX_NULL)\<rparr>) [0..<n]\<rparr>) 0))))"

end
