(* ===== verification/Pn_Abort.thy ===== *)
theory Pn_Abort
  imports Pn_Alarm_Send Pn_Device
begin

text \<open>
  The state machines of a connection and how \<^verbatim>\<open>pf_cmdev_state_ind\<close> drives them: CMSU
  (\<^verbatim>\<open>src/device/pf_cmsu.c\<close>), CMIO (\<^verbatim>\<open>pf_cmio.c\<close>), CMWRR (\<^verbatim>\<open>pf_cmwrr.c\<close>), CMSM
  (\<^verbatim>\<open>pf_cmsm.c\<close>), CMPBE (\<^verbatim>\<open>pf_cmpbe.c\<close>), and the release of sessions and of the connection in
  \<^verbatim>\<open>pf_cmrpc.c\<close>. An event may cause an abort inside (the provider cannot start its timer), but an
  abort causes no other event: \<open>pf_cmdev_abort\<close> is the indication of the abort and
  \<open>pf_cmdev_state_ind\<close> that of any event, with \<open>pf_cmdev_abort\<close> for the inner one.
\<close>

section \<open>The release of sessions and of the connection\<close>

definition zero_handle :: handle where
  "zero_handle = \<lparr>h_name = 0, h_index = 0\<rparr>"

definition zero_session :: pf_session_info where
  "zero_session = \<lparr>se_in_use = False, release_in_progress = False, kill_session = False,
     se_socket = -1, se_p_ar = None, from_me = False, se_resend_timeout = zero_handle,
     se_rpc = zero_rpc_session\<rparr>"

definition pf_session_release :: "nat \<Rightarrow> pnet \<Rightarrow> pnet option" where
  "pf_session_release i s = (let se = net_sessions s ! i in
     if \<not> i < length (net_sessions s) then None
     else if \<not> se_in_use se then Some s
     else do {
       let s = (if se_socket se > -1 \<and> from_me se then emit (Out_udp_close (se_socket se)) s else s);
       (_, s) \<leftarrow> timer_remove_if_running (se_resend_timeout se) s;
       Some (s\<lparr>net_sessions := (net_sessions s)[i := zero_session]\<rparr>) })"

definition pf_session_locate_by_ar :: "nat \<Rightarrow> pnet \<Rightarrow> nat option" where
  "pf_session_locate_by_ar a s =
     find_ix (\<lambda>se. se_in_use se \<and> from_me se \<and> se_p_ar se = Some a) (net_sessions s)"

lemma session_release_uses:
  assumes "pf_session_release i s = Some s'" and "se_in_use (net_sessions s ! i)"
  shows "length (filter se_in_use (net_sessions s')) < length (filter se_in_use (net_sessions s))"
proof -
  have i: "i < length (net_sessions s)"
    using assms(1) by (auto simp: pf_session_release_def Let_def split: if_splits)
  have se: "\<not> se_in_use zero_session" "net_sessions s' = (net_sessions s)[i := zero_session]"
    using assms i by (auto simp: pf_session_release_def timer_remove_if_running_def emit_def Let_def
        bind_eq_Some_conv zero_session_def split: if_splits)
  have "net_sessions s = take i (net_sessions s) @ net_sessions s ! i # drop (Suc i) (net_sessions s)"
    by (rule id_take_nth_drop [OF i])
  then have "filter se_in_use (net_sessions s) =
      filter se_in_use (take i (net_sessions s)) @
      net_sessions s ! i # filter se_in_use (drop (Suc i) (net_sessions s))"
    using assms(2) by (metis filter.simps(2) filter_append)
  then show ?thesis using se i by (simp add: upd_conv_take_nth_drop)
qed

function release_sessions :: "nat \<Rightarrow> pnet \<Rightarrow> pnet option" where
  "release_sessions a s =
     (case pf_session_locate_by_ar a s of
        None \<Rightarrow> Some s
      | Some i \<Rightarrow> do { s \<leftarrow> pf_session_release i s; release_sessions a s })"
  by auto
termination
  by (relation "measure (\<lambda>(a, s). length (filter se_in_use (net_sessions s)))")
     (auto simp: pf_session_locate_by_ar_def dest!: find_ix_Some intro: session_release_uses)

definition pf_ar_find_by_arep :: "u32 \<Rightarrow> pnet \<Rightarrow> nat option" where
  "pf_ar_find_by_arep r s = (let ix = unat (ucast (r - 1) :: u16) in
     if r > 0 \<and> ix < length (net_ars s) \<and> in_use (net_ars s ! ix) then Some ix else None)"

text \<open>An entry of the log book, in place of the oldest one when it is full.\<close>

definition PF_TS_STATUS_LOCAL_ARB :: u16 where "PF_TS_STATUS_LOCAL_ARB = 2"
definition PF_LOG_BOOK_AR_CONNECT :: u32 where "PF_LOG_BOOK_AR_CONNECT = 1"
definition PF_LOG_BOOK_AR_RELEASE :: u32 where "PF_LOG_BOOK_AR_RELEASE = 2"
definition PF_LOG_BOOK_DCONTROL :: u32 where "PF_LOG_BOOK_DCONTROL = 3"

definition log_book_post :: "pf_log_book_entry \<Rightarrow> pf_log_book \<Rightarrow> pf_log_book" where
  "log_book_post e b = (let n = lb_put b + 1; full = unat n \<ge> length (lb_entries b) in
     b\<lparr>lb_entries := (lb_entries b)[unat (lb_put b) := e], lb_put := (if full then 0 else n),
       lb_wrap := lb_wrap b \<or> full\<rparr>)"

definition log_time :: "u32 \<Rightarrow> pf_log_book_ts" where
  "log_time now = \<lparr>ts_status = PF_TS_STATUS_LOCAL_ARB, sec_hi = 0, sec_lo = now div 1000000,
     nano_sec = now mod 1000000 * 1000\<rparr>"

definition pf_fspm_create_log_book_entry :: "u16 \<Rightarrow> pnet_pnio_status \<Rightarrow> u32 \<Rightarrow> pnet \<Rightarrow> pnet" where
  "pf_fspm_create_log_book_entry r st detail s =
     (case pf_ar_find_by_arep (ucast r) s of
        None \<Rightarrow> s
      | Some a \<Rightarrow> s\<lparr>net_host := (net_host s)\<lparr>fspm_log_book := log_book_post
          \<lparr>le_time_ts = log_time (net_now s), le_ar_uuid = arp_ar_uuid (ar_param (cfg (net_ars s ! a))),
            le_pnio_status = st, entry_detail = detail\<rparr> (fspm_log_book (net_host s))\<rparr>\<rparr>)"

text \<open>The detail that a result structure gives.\<close>

definition add_data :: "pnet_result \<Rightarrow> u32" where
  "add_data st = push_bit 16 (ucast (result_add_data_1 st)) + ucast (result_add_data_2 st)"

definition pf_ar_release :: "nat \<Rightarrow> pnet \<Rightarrow> pnet" where
  "pf_ar_release a s =
     (if in_use (net_ars s ! a) then upd_ar a (\<lambda>_. w_ar0 (net_world s)) s else s)"

definition pf_cmrpc_cmdev_state_ind :: "nat \<Rightarrow> pnet_event \<Rightarrow> pnet \<Rightarrow> pnet option" where
  "pf_cmrpc_cmdev_state_ind a event s =
     (if event = PNET_EVENT_ABORT
      then do {
        s \<leftarrow> (case p_sess (net_ars s ! a) of
               None \<Rightarrow> Some s
             | Some i \<Rightarrow> if \<not> i < length (net_sessions s) then None
                 else if \<not> release_in_progress (net_sessions s ! i) then pf_session_release i s
                 else Some s);
        s \<leftarrow> release_sessions a s;
        Some (pf_ar_release a s) }
      else Some s)"

section \<open>CMSU\<close>

text \<open>
  A loop over the CRs of a connection. The number of CRs is read again before every round, as the
  body may release the connection. \<open>None\<close>: a number beyond the array.
\<close>

function for_iocrs :: "nat \<Rightarrow> (nat \<Rightarrow> 'e \<times> pnet \<Rightarrow> ('e \<times> pnet) option) \<Rightarrow> nat \<Rightarrow> 'e \<times> pnet
    \<Rightarrow> ('e \<times> pnet) option" where
  "for_iocrs a body crep x =
     (if crep < unat (nbr_iocrs (cfg (net_ars (snd x) ! a)))
      then if crep < length (crs (net_ars (snd x) ! a))
        then do { x \<leftarrow> body crep x; for_iocrs a body (Suc crep) x }
        else None
      else Some x)"
  by auto
termination
proof (relation "measure (\<lambda>(a, body, crep, x). 65536 - crep)")
  fix a :: nat and body :: "nat \<Rightarrow> 'e \<times> pnet \<Rightarrow> ('e \<times> pnet) option" and crep :: nat
    and x z :: "'e \<times> pnet"
  assume "crep < unat (nbr_iocrs (cfg (net_ars (snd x) ! a)))"
  then have "crep < 65536"
    using unsigned_less [of "nbr_iocrs (cfg (net_ars (snd x) ! a))", where ?'a = nat] by simp
  then show "((a, body, Suc crep, z), a, body, crep, x) \<in> measure (\<lambda>(a, body, crep, x). 65536 - crep)"
    by simp
qed simp

declare for_iocrs.simps [simp del] release_sessions.simps [simp del]

definition pf_cmsu_set_state :: "nat \<Rightarrow> pf_cmsu_state_values \<Rightarrow> pnet \<Rightarrow> pnet" where
  "pf_cmsu_set_state a st = upd_ar a (\<lambda>r. r\<lparr>cmsu_state := st\<rparr>)"

definition pf_cmsu_cmdev_state_ind ::
  "(nat \<Rightarrow> pnet \<Rightarrow> pnet option) \<Rightarrow> nat \<Rightarrow> pnet_event \<Rightarrow> pnet \<Rightarrow> pnet option" where
  "pf_cmsu_cmdev_state_ind error_ind a event s = (let st = cmsu_state (net_ars s ! a) in
     if st = PF_CMSU_STATE_STARTUP \<and> event = PNET_EVENT_PRMEND
     then do {
       (_, s) \<leftarrow> for_iocrs a (\<lambda>c (u, s).
         if iocr_type (the_iocr_param s a c) = PF_IOCR_TYPE_INPUT
         then do { (_, s) \<leftarrow> pf_ppm_activate_req error_ind a c s; Some (u, s) }
         else Some (u, s)) 0 ((), s);
       Some s }
     else if (st = PF_CMSU_STATE_STARTUP \<or> st = PF_CMSU_STATE_RUN) \<and> event = PNET_EVENT_ABORT
     then do {
       (_, s) \<leftarrow> for_iocrs a (\<lambda>c (u, s). do {
         s \<leftarrow> (if iocr_type (the_iocr_param s a c) = PF_IOCR_TYPE_INPUT
              then pf_ppm_close_req a c s else Some s);
         if iocr_type (the_iocr_param s a c) = PF_IOCR_TYPE_OUTPUT
         then do { (_, s) \<leftarrow> pf_cpm_close_req a c s; Some (u, s) }
         else Some (u, s) }) 0 ((), s);
       s \<leftarrow> pf_alarm_close a s;
       Some (pf_cmsu_set_state a PF_CMSU_STATE_IDLE (pf_cmsu_set_state a PF_CMSU_STATE_ABORT s)) }
     else Some s)"

section \<open>CMIO\<close>

definition PF_CMIO_TIMER_PERIOD :: u32 where "PF_CMIO_TIMER_PERIOD = 100 * 1000"

definition pf_cmio_set_state :: "nat \<Rightarrow> pf_cmio_state_values \<Rightarrow> pnet \<Rightarrow> pnet" where
  "pf_cmio_set_state a st = upd_ar a (\<lambda>r. r\<lparr>cmio_state := st\<rparr>)"

definition cmio_no_reschedule :: "nat \<Rightarrow> pnet \<Rightarrow> pnet" where
  "cmio_no_reschedule a = upd_ar a (\<lambda>r. r\<lparr>cmio_timer_should_reschedule := False\<rparr>)"

definition cmio_clear_start :: "nat \<Rightarrow> pnet \<Rightarrow> pnet option" where
  "cmio_clear_start a s = do {
     (_, s) \<leftarrow> for_iocrs a (\<lambda>c (u, s).
       Some (u, if is_consumer_cr (the_iocr_param s a c)
                then upd_cpm a c (\<lambda>p. p\<lparr>cmio_start := False\<rparr>) s else s)) 0 ((), s);
     Some s }"

definition pf_cmio_cmdev_state_ind :: "nat \<Rightarrow> pnet_event \<Rightarrow> pnet \<Rightarrow> pnet option" where
  "pf_cmio_cmdev_state_ind a event s =
     (case cmio_state (net_ars s ! a) of
        PF_CMIO_STATE_IDLE \<Rightarrow>
          if event = PNET_EVENT_ABORT
          then Some (pf_cmio_set_state a PF_CMIO_STATE_STARTUP (cmio_no_reschedule a s))
          else if event = PNET_EVENT_STARTUP
          then do {
            s \<leftarrow> cmio_clear_start a s;
            Some (pf_cmio_set_state a PF_CMIO_STATE_STARTUP (cmio_no_reschedule a s)) }
          else Some s
      | PF_CMIO_STATE_STARTUP \<Rightarrow>
          if event = PNET_EVENT_ABORT
          then Some (pf_cmio_set_state a PF_CMIO_STATE_IDLE (cmio_no_reschedule a s))
          else if event = PNET_EVENT_STARTUP
          then do {
            s \<leftarrow> cmio_clear_start a s;
            Some (pf_cmio_set_state a PF_CMIO_STATE_WDATA s) }
          else if event = PNET_EVENT_PRMEND
          then do {
            (_, h, s) \<leftarrow> timer_add PF_CMIO_TIMER_PERIOD CB_CMIO a (cmio_timeout (net_ars s ! a)) s;
            Some (pf_cmio_set_state a PF_CMIO_STATE_WDATA
              (upd_ar a (\<lambda>r. r\<lparr>cmio_timer_should_reschedule := True, cmio_timeout := h\<rparr>) s)) }
          else Some s
      | PF_CMIO_STATE_WDATA \<Rightarrow>
          if event = PNET_EVENT_ABORT
          then Some (pf_cmio_set_state a PF_CMIO_STATE_IDLE (cmio_no_reschedule a s))
          else if event = PNET_EVENT_DATA
          then do {
            (h, s) \<leftarrow> timer_remove_if_running (cmio_timeout (net_ars s ! a)) (cmio_no_reschedule a s);
            Some (pf_cmio_set_state a PF_CMIO_STATE_DATA
              (upd_ar a (\<lambda>r. r\<lparr>cmio_timeout := h\<rparr>) s)) }
          else Some s
      | PF_CMIO_STATE_DATA \<Rightarrow>
          if event = PNET_EVENT_ABORT
          then Some (pf_cmio_set_state a PF_CMIO_STATE_IDLE (cmio_no_reschedule a s))
          else Some s)"

section \<open>CMWRR, CMSM, CMPBE\<close>

definition cmwrr_next :: "pf_cmwrr_state_values \<Rightarrow> pnet_event \<Rightarrow> pf_cmwrr_state_values" where
  "cmwrr_next st event =
     (case st of
        PF_CMWRR_STATE_IDLE \<Rightarrow> if event = PNET_EVENT_STARTUP then PF_CMWRR_STATE_STARTUP else st
      | PF_CMWRR_STATE_STARTUP \<Rightarrow>
          if event = PNET_EVENT_PRMEND then PF_CMWRR_STATE_PRMEND
          else if event = PNET_EVENT_ABORT then PF_CMWRR_STATE_IDLE else st
      | PF_CMWRR_STATE_PRMEND \<Rightarrow>
          if event = PNET_EVENT_ABORT then PF_CMWRR_STATE_IDLE
          else if event = PNET_EVENT_APPLRDY then PF_CMWRR_STATE_DATA else st
      | PF_CMWRR_STATE_DATA \<Rightarrow> if event = PNET_EVENT_ABORT then PF_CMWRR_STATE_IDLE else st)"

definition pf_cmwrr_cmdev_state_ind :: "nat \<Rightarrow> pnet_event \<Rightarrow> pnet \<Rightarrow> pnet" where
  "pf_cmwrr_cmdev_state_ind a event =
     upd_ar a (\<lambda>r. r\<lparr>cmwrr_state := cmwrr_next (cmwrr_state r) event\<rparr>)"

text \<open>The product of a 16-bit factor and 100000 is one of \<^verbatim>\<open>int\<close>, passed as \<^verbatim>\<open>uint32_t\<close>.\<close>

definition cmi_timeout :: "nat \<Rightarrow> pnet \<Rightarrow> u32" where
  "cmi_timeout a s =
     ucast (cm_initiator_activity_timeout_factor (ar_param (cfg (net_ars s ! a)))) * 100 * 1000"

definition cmsm_restart :: "nat \<Rightarrow> pnet \<Rightarrow> pnet option" where
  "cmsm_restart a s = do {
     (_, h, s) \<leftarrow> timer_restart (cmi_timeout a s) CB_CMSM a (cmsm_timeout (net_ars s ! a)) s;
     Some (upd_ar a (\<lambda>r. r\<lparr>cmsm_timeout := h\<rparr>) s) }"

definition pf_cmsm_set_state :: "nat \<Rightarrow> pf_cmsm_state_values \<Rightarrow> pnet \<Rightarrow> pnet" where
  "pf_cmsm_set_state a st = upd_ar a (\<lambda>r. r\<lparr>cmsm_state := st\<rparr>)"

definition pf_cmsm_cmdev_state_ind :: "nat \<Rightarrow> pnet_event \<Rightarrow> pnet \<Rightarrow> pnet option" where
  "pf_cmsm_cmdev_state_ind a event s =
     (case cmsm_state (net_ars s ! a) of
        PF_CMSM_STATE_IDLE \<Rightarrow>
          if event = PNET_EVENT_STARTUP
          then cmsm_restart a (pf_cmsm_set_state a PF_CMSM_STATE_RUN s)
          else Some s
      | PF_CMSM_STATE_RUN \<Rightarrow>
          if event = PNET_EVENT_DATA \<or> event = PNET_EVENT_ABORT
          then do {
            (h, s) \<leftarrow> timer_remove_if_running (cmsm_timeout (net_ars s ! a)) s;
            Some (pf_cmsm_set_state a PF_CMSM_STATE_IDLE (upd_ar a (\<lambda>r. r\<lparr>cmsm_timeout := h\<rparr>) s)) }
          else Some s)"

definition pf_cmpbe_set_state :: "nat \<Rightarrow> pf_cmpbe_state_values \<Rightarrow> pnet \<Rightarrow> pnet" where
  "pf_cmpbe_set_state a st = upd_ar a (\<lambda>r. r\<lparr>cmpbe_state := st\<rparr>)"

definition pf_cmpbe_cmdev_state_ind :: "nat \<Rightarrow> pnet_event \<Rightarrow> pnet \<Rightarrow> pnet" where
  "pf_cmpbe_cmdev_state_ind a event s =
     (if cmpbe_state (net_ars s ! a) = PF_CMPBE_STATE_IDLE
      then if event = PNET_EVENT_DATA then pf_cmpbe_set_state a PF_CMPBE_STATE_WFIND s else s
      else if event = PNET_EVENT_ABORT then pf_cmpbe_set_state a PF_CMPBE_STATE_IDLE s else s)"

section \<open>CMDEV: the indication of an event\<close>

definition pf_fspm_state_ind :: "nat \<Rightarrow> pnet_event \<Rightarrow> pnet \<Rightarrow> pnet" where
  "pf_fspm_state_ind a event s = emit (Out_state (unat (arep (net_ars s ! a))) event) s"

definition state_ind_with ::
  "(nat \<Rightarrow> pnet \<Rightarrow> pnet option) \<Rightarrow> nat \<Rightarrow> pnet_event \<Rightarrow> pnet \<Rightarrow> pnet option" where
  "state_ind_with error_ind a event s = do {
     let s = pf_fspm_state_ind a event s;
     s \<leftarrow> pf_cmsu_cmdev_state_ind error_ind a event s;
     s \<leftarrow> pf_cmio_cmdev_state_ind a event s;
     let s = pf_cmwrr_cmdev_state_ind a event s;
     s \<leftarrow> pf_cmsm_cmdev_state_ind a event s;
     let s = pf_cmpbe_cmdev_state_ind a event s;
     pf_cmrpc_cmdev_state_ind a event s }"

definition pf_cmdev_abort :: "nat \<Rightarrow> pnet \<Rightarrow> pnet option" where
  "pf_cmdev_abort a = state_ind_with (\<lambda>_ _. None) a PNET_EVENT_ABORT"

text \<open>
  The four functions \<^verbatim>\<open>pf_cmsu_cmdmc_error_ind\<close>, \<^verbatim>\<open>pf_cmsu_cpm_error_ind\<close>,
  \<^verbatim>\<open>pf_cmsu_ppm_error_ind\<close> and \<^verbatim>\<open>pf_cmsu_alarm_error_ind\<close> have the same body. The error codes of
  the caller are already in the AR in most cases.
\<close>

definition pf_cmsu_error_ind :: "nat \<Rightarrow> u8 \<Rightarrow> u8 \<Rightarrow> pnet \<Rightarrow> pnet option" where
  "pf_cmsu_error_ind a c1 c2 s = pf_cmdev_abort a (set_err a c1 c2 s)"

text \<open>The form in which consumer and provider call it, with the codes that they have stored.\<close>

definition cmsu_error_ind :: "nat \<Rightarrow> pnet \<Rightarrow> pnet option" where
  "cmsu_error_ind a s = pf_cmsu_error_ind a (err_cls (net_ars s ! a)) (err_code (net_ars s ! a)) s"

definition pf_cmdev_state_ind :: "nat \<Rightarrow> pnet_event \<Rightarrow> pnet \<Rightarrow> pnet option" where
  "pf_cmdev_state_ind a event s = state_ind_with cmsu_error_ind a event s"

lemma pf_cmdev_state_ind_abort: "pf_cmdev_state_ind a PNET_EVENT_ABORT = pf_cmdev_abort a"
  by (simp add: fun_eq_iff pf_cmdev_state_ind_def pf_cmdev_abort_def state_ind_with_def
      pf_cmsu_cmdev_state_ind_def)

end
