(* ===== verification/Pn_Alarm.thy ===== *)
theory Pn_Alarm
  imports Pn_Abort Pn_Block_Reader
begin

text \<open>
  The alarm machines of \<^verbatim>\<open>src/common/pf_alarm.c\<close>: ALPMI and ALPMR (the initiator and the
  responder of alarms), APMS and APMR (the sender and the receiver of alarm PDUs), their timer,
  their periodic work and the functions that queue an alarm. The model is of one thread: a frame
  handler only puts a frame into the receive queue.
\<close>

definition PNET_ERROR_CODE_PNIO :: u8 where "PNET_ERROR_CODE_PNIO = 0x81"
definition PNET_ERROR_CODE_1_ALPMI :: u8 where "PNET_ERROR_CODE_1_ALPMI = 0x41"
definition PNET_ERROR_CODE_1_ALPMR :: u8 where "PNET_ERROR_CODE_1_ALPMR = 0x42"
definition PNET_ERROR_CODE_1_APMR :: u8 where "PNET_ERROR_CODE_1_APMR = 0x46"
definition PNET_ERROR_CODE_1_APMS :: u8 where "PNET_ERROR_CODE_1_APMS = 0x47"
definition PNET_ERROR_CODE_2_APMS_INVALID_STATE :: u8 where "PNET_ERROR_CODE_2_APMS_INVALID_STATE = 0"
definition PNET_ERROR_CODE_2_APMR_INVALID_STATE :: u8 where "PNET_ERROR_CODE_2_APMR_INVALID_STATE = 0"
definition PNET_ERROR_CODE_2_ALPMI_INVALID :: u8 where "PNET_ERROR_CODE_2_ALPMI_INVALID = 2"
definition PNET_ERROR_CODE_2_ALPMI_WRONG_STATE :: u8 where "PNET_ERROR_CODE_2_ALPMI_WRONG_STATE = 3"
definition PNET_ERROR_CODE_2_ALPMR_INVALID :: u8 where "PNET_ERROR_CODE_2_ALPMR_INVALID = 2"
definition PNET_ERROR_CODE_2_ALPMR_WRONG_STATE :: u8 where "PNET_ERROR_CODE_2_ALPMR_WRONG_STATE = 3"
definition PNET_ERROR_CODE_2_ABORT_CODE_SEQ :: u8 where "PNET_ERROR_CODE_2_ABORT_CODE_SEQ = 1"
definition PNET_ERROR_CODE_2_ABORT_AR_CMI_TIMEOUT :: u8 where "PNET_ERROR_CODE_2_ABORT_AR_CMI_TIMEOUT = 6"
definition PNET_ERROR_CODE_2_ABORT_AR_ALARM_SEND_CNF_NEG :: u8 where
  "PNET_ERROR_CODE_2_ABORT_AR_ALARM_SEND_CNF_NEG = 8"
definition PNET_ERROR_CODE_2_ABORT_AR_ALARM_IND_ERROR :: u8 where
  "PNET_ERROR_CODE_2_ABORT_AR_ALARM_IND_ERROR = 0x0B"
definition PNET_ERROR_CODE_2_ABORT_AR_PROTOCOL_VIOLATION :: u8 where
  "PNET_ERROR_CODE_2_ABORT_AR_PROTOCOL_VIOLATION = 0x12"

section \<open>Activation\<close>

definition alpmx_activate_one :: "nat \<Rightarrow> nat \<Rightarrow> int \<times> pnet \<Rightarrow> int \<times> pnet" where
  "alpmx_activate_one a p = (\<lambda>(ret, s). let x = the_alpmx s a p in
     if alpmi_state x = PF_ALPMI_STATE_W_START \<and> alpmr_state x = PF_ALPMR_STATE_W_START
     then (ret, upd_alpmx a p (\<lambda>x. x\<lparr>
       alpmx_da := cm_initiator_mac_add (ar_param (cfg (net_ars s ! a))),
       prev_sequence_number := 0xFFFF, sequence_number := 0,
       alpmr_state := PF_ALPMR_STATE_W_NOTIFY, alpmi_state := PF_ALPMI_STATE_W_ALARM\<rparr>) s)
     else if alpmi_state x \<noteq> PF_ALPMI_STATE_W_START
     then (-1, set_err a PNET_ERROR_CODE_1_ALPMI PNET_ERROR_CODE_2_ALPMI_WRONG_STATE s)
     else (-1, set_err a PNET_ERROR_CODE_1_ALPMR PNET_ERROR_CODE_2_ALPMR_WRONG_STATE s))"

definition pf_alarm_alpmx_activate :: "nat \<Rightarrow> pnet \<Rightarrow> int \<times> pnet" where
  "pf_alarm_alpmx_activate a s =
     fold (alpmx_activate_one a) [0..<length (alpmx (net_ars s ! a))] (0, s)"

definition apmx_activate_one :: "nat \<Rightarrow> nat \<Rightarrow> int \<times> pnet \<Rightarrow> (int \<times> pnet) option" where
  "apmx_activate_one a p = (\<lambda>(ret, s). let x = the_apmx s a p; r = cfg (net_ars s ! a) in
     if apms_state x \<noteq> PF_APMS_STATE_CLOSED
     then Some (-1, set_err a PNET_ERROR_CODE_1_APMS PNET_ERROR_CODE_2_APMS_INVALID_STATE s)
     else if apmr_state x \<noteq> PF_APMR_STATE_CLOSED
     then Some (-1, set_err a PNET_ERROR_CODE_1_APMR PNET_ERROR_CODE_2_APMR_INVALID_STATE s)
     else do {
       let q = alarm_receive_q x;
       let (bs, q) = pf_alarm_receive_queue_reset
         (q\<lparr>rq_accountant := pf_alarm_queue_mutex_create (rq_accountant q)\<rparr>);
       s \<leftarrow> fold_m pnal_buf_free bs s;
       Some (ret, upd_apmx a p (\<lambda>x. x\<lparr>
         apmx_da := cm_initiator_mac_add (ar_param r),
         apmx_src_ref := remote_alarm_reference (alarm_cr_result r),
         apmx_dst_ref := local_alarm_reference (alarm_cr_request r),
         send_seq_count := 0xFFFF, send_seq_count_o := 0xFFFE,
         exp_seq_count := 0xFFFF, exp_seq_count_o := 0xFFFE,
         high_priority := (p \<noteq> 0),
         vlan_prio := (if p = 0 then 5 else 6),
         block_type_alarm_notify :=
           (if p = 0 then PF_BT_ALARM_NOTIFICATION_LOW else PF_BT_ALARM_NOTIFICATION_HIGH),
         block_type_alarm_ack := (if p = 0 then PF_BT_ALARM_ACK_LOW else PF_BT_ALARM_ACK_HIGH),
         apmx_frame_id := (if p = 0 then PF_FRAME_ID_ALARM_LOW else PF_FRAME_ID_ALARM_HIGH),
         alarm_receive_q := q,
         timeout_us := 100 * 1000 * ucast (rta_timeout_factor (alarm_cr_request r)),
         resend_counter := 0, apmx_p_ar := True, apmx_p_alpmx := True,
         resend_timeout := pf_scheduler_init_handle (resend_timeout x) NAME_APMX,
         apms_state := PF_APMS_STATE_OPEN, apmr_state := PF_APMR_STATE_OPEN\<rparr>) s) })"

definition pf_alarm_apmx_activate :: "nat \<Rightarrow> pnet \<Rightarrow> (int \<times> pnet) option" where
  "pf_alarm_apmx_activate a s = do {
     (ret, s) \<leftarrow> fold_m (apmx_activate_one a) [0..<length (apmx (net_ars s ! a))] (0, s);
     let s = s\<lparr>eth_id_map := pf_eth_frame_id_map_add (eth_id_map s)
                 (apmx_frame_id (the_apmx s a 0)) (Rx_alarm a 0)\<rparr>;
     let s = s\<lparr>eth_id_map := pf_eth_frame_id_map_add (eth_id_map s)
                 (apmx_frame_id (the_apmx s a 1)) (Rx_alarm a 1)\<rparr>;
     Some (ret, s) }"

definition pf_alarm_activate :: "nat \<Rightarrow> pnet \<Rightarrow> (int \<times> pnet) option" where
  "pf_alarm_activate a s = do {
     let s = upd_ar a (\<lambda>r. r\<lparr>alarm_send_q := map (\<lambda>q. pf_alarm_send_queue_reset
       (q\<lparr>sq_accountant := pf_alarm_queue_mutex_create (sq_accountant q)\<rparr>)) (alarm_send_q r)\<rparr>) s;
     let (r1, s) = pf_alarm_alpmx_activate a s;
     (r2, s) \<leftarrow> pf_alarm_apmx_activate a s;
     Some (if r1 \<noteq> 0 \<or> r2 \<noteq> 0 then -1 else 0, s) }"

definition pf_alarm_init :: "pnet \<Rightarrow> pnet" where
  "pf_alarm_init s = s\<lparr>global_alarm_enable := True\<rparr>"

definition pf_alarm_enable :: "nat \<Rightarrow> pnet \<Rightarrow> pnet" where
  "pf_alarm_enable a = upd_ar a (\<lambda>r. r\<lparr>alarm_enable := True\<rparr>)"

definition pf_alarm_disable :: "nat \<Rightarrow> pnet \<Rightarrow> pnet" where
  "pf_alarm_disable a = upd_ar a (\<lambda>r. r\<lparr>alarm_enable := False\<rparr>)"

definition pf_alarm_pending :: "ar \<Rightarrow> bool" where
  "pf_alarm_pending r = False"

section \<open>ALPMI and ALPMR\<close>

text \<open>A machine whose back pointers are NULL fails; so does every access through them.\<close>

definition pf_alarm_error_ind :: "nat \<Rightarrow> nat \<Rightarrow> u8 \<Rightarrow> u8 \<Rightarrow> pnet \<Rightarrow> pnet option" where
  "pf_alarm_error_ind a p c1 c2 s =
     (if apmx_p_ar (the_apmx s a p) then pf_cmsu_error_ind a c1 c2 s else None)"

definition set_err_ind :: "nat \<Rightarrow> nat \<Rightarrow> u8 \<Rightarrow> u8 \<Rightarrow> pnet \<Rightarrow> pnet option" where
  "set_err_ind a p c1 c2 s =
     (if apmx_p_ar (the_apmx s a p) then pf_alarm_error_ind a p c1 c2 (set_err a c1 c2 s) else None)"

definition pf_alarm_alpmi_apms_a_data_cnf :: "nat \<Rightarrow> nat \<Rightarrow> int \<Rightarrow> pnet \<Rightarrow> pnet option" where
  "pf_alarm_alpmi_apms_a_data_cnf a p res s =
     (if \<not> apmx_p_alpmx (the_apmx s a p) then None
      else if res \<noteq> 0
      then set_err_ind a p PNET_ERROR_CODE_1_ALPMI PNET_ERROR_CODE_2_ALPMI_INVALID s
      else Some s)"

definition pf_alarm_alpmi_apmr_a_data_ind ::
  "nat \<Rightarrow> nat \<Rightarrow> pnet_pnio_status \<Rightarrow> pnet \<Rightarrow> (int \<times> pnet) option" where
  "pf_alarm_alpmi_apmr_a_data_ind a p st s =
     (if \<not> apmx_p_alpmx (the_apmx s a p) then None
      else if alpmi_state (the_alpmx s a p) = PF_ALPMI_STATE_W_ACK
      then if apmx_p_ar (the_apmx s a p)
        then Some (0, emit (Out_alarm_cnf (unat (arep (net_ars s ! a))) st)
               (upd_alpmx a p (\<lambda>x. x\<lparr>alpmi_state := PF_ALPMI_STATE_W_ALARM\<rparr>) s))
        else None
      else Some (0, s))"

definition pf_alarm_alpmr_apms_a_data_cnf :: "nat \<Rightarrow> nat \<Rightarrow> int \<Rightarrow> pnet \<Rightarrow> pnet option" where
  "pf_alarm_alpmr_apms_a_data_cnf a p res s =
     (if \<not> apmx_p_alpmx (the_apmx s a p) then None
      else case alpmr_state (the_alpmx s a p) of
        PF_ALPMR_STATE_W_START \<Rightarrow> Some s
      | PF_ALPMR_STATE_W_TACK \<Rightarrow>
          if res \<noteq> 0
          then set_err_ind a p PNET_ERROR_CODE_1_ALPMR PNET_ERROR_CODE_2_ALPMR_INVALID s
          else if apmx_p_ar (the_apmx s a p)
          then Some (upd_alpmx a p (\<lambda>x. x\<lparr>alpmr_state := PF_ALPMR_STATE_W_NOTIFY\<rparr>)
                 (emit (Out_alarm_ack_cnf (unat (arep (net_ars s ! a))) res) s))
          else None
      | _ \<Rightarrow>
          if res \<noteq> 0
          then set_err_ind a p PNET_ERROR_CODE_1_ALPMR PNET_ERROR_CODE_2_ALPMR_INVALID s
          else Some s)"

text \<open>The application gets the alarm without the identifiers of module and submodule.\<close>

definition pf_alarm_alpmr_apmr_a_data_ind ::
  "nat \<Rightarrow> nat \<Rightarrow> pf_alarm_data \<Rightarrow> u16 \<Rightarrow> u16 \<Rightarrow> u8 list \<Rightarrow> pnet \<Rightarrow> (int \<times> pnet) option" where
  "pf_alarm_alpmr_apmr_a_data_ind a p d data_len data_usi p_data s =
     (if \<not> apmx_p_alpmx (the_apmx s a p) then None
      else case alpmr_state (the_alpmx s a p) of
        PF_ALPMR_STATE_W_START \<Rightarrow> Some (0, s)
      | PF_ALPMR_STATE_W_NOTIFY \<Rightarrow>
          if apmx_p_ar (the_apmx s a p)
          then Some (0, emit (Out_alarm_ind (unat (arep (net_ars s ! a)))
                 (d\<lparr>module_ident := 0, submodule_ident := 0, ad_payload := ad_payload zero_alarm_data\<rparr>)
                 data_len data_usi p_data)
               (upd_alpmx a p (\<lambda>x. x\<lparr>alpmr_state := PF_ALPMR_STATE_W_USER_ACK\<rparr>) s))
          else None
      | _ \<Rightarrow> do {
          s \<leftarrow> set_err_ind a p PNET_ERROR_CODE_1_RTA_ERR_CLS_PROTOCOL
                 PNET_ERROR_CODE_2_ABORT_AR_PROTOCOL_VIOLATION s;
          Some (-1, s) })"

section \<open>APMS\<close>

definition pf_alarm_apmr_frame_handler :: "nat \<Rightarrow> nat \<Rightarrow> nat option \<Rightarrow> u16 \<Rightarrow> pnet \<Rightarrow> int \<times> pnet" where
  "pf_alarm_apmr_frame_handler a p rx pos s =
     (case rx of
        None \<Rightarrow> (1, s)
      | Some b \<Rightarrow> (let (r, q) = pf_alarm_receive_queue_post (alarm_receive_q (the_apmx s a p))
            \<lparr>frame_id_pos = pos, p_rx_buf = Some b\<rparr>
          in if r = 0 then (1, upd_apmx a p (\<lambda>x. x\<lparr>alarm_receive_q := q\<rparr>) s) else (0, s)))"

definition pf_alarm_apms_timeout :: "nat \<Rightarrow> nat \<Rightarrow> pnet \<Rightarrow> pnet option" where
  "pf_alarm_apms_timeout a p s = (let
     s = upd_apmx a p (\<lambda>x. x\<lparr>resend_timeout := pf_scheduler_reset_handle (resend_timeout x)\<rparr>) s;
     x = the_apmx s a p
   in if apms_state x = PF_APMS_STATE_WTACK
      then case p_rta x of
          None \<Rightarrow> Some s
        | Some b \<Rightarrow>
            if resend_counter x > 0
            then if \<not> apmx_p_ar x then None
              else do {
                let s = upd_apmx a p (\<lambda>x. x\<lparr>resend_counter := resend_counter x - 1\<rparr>) s;
                s \<leftarrow> (if transport_udp (alarm_cr_request (cfg (net_ars s ! a))) then Some s
                     else do { (_, s) \<leftarrow> pf_eth_send_on_management_port b s; Some s });
                (_, h, s) \<leftarrow> timer_add (timeout_us x) CB_APMS (pair_ptr a p)
                  (resend_timeout (the_apmx s a p)) s;
                Some (upd_apmx a p (\<lambda>x. x\<lparr>resend_timeout := h\<rparr>) s) }
            else set_err_ind a p PNET_ERROR_CODE_1_APMS PNET_ERROR_CODE_2_ABORT_AR_ALARM_SEND_CNF_NEG
              (upd_apmx a p (\<lambda>x. x\<lparr>apms_state := PF_APMS_STATE_OPEN\<rparr>) s)
      else case p_rta x of
          None \<Rightarrow> Some s
        | Some b \<Rightarrow> pnal_buf_free b (upd_apmx a p (\<lambda>x. x\<lparr>p_rta := None\<rparr>) s))"

text \<open>The result is 0 in every case.\<close>

definition pf_alarm_apms_a_data_ind :: "nat \<Rightarrow> nat \<Rightarrow> pf_alarm_fixed \<Rightarrow> pnet \<Rightarrow> pnet option" where
  "pf_alarm_apms_a_data_ind a p fixed s = (let x = the_apmx s a p; ty = pdu_type_type (pdu_type fixed) in
     if (ty = PF_RTA_PDU_TYPE_ACK \<or> ty = PF_RTA_PDU_TYPE_DATA)
       \<and> apms_state x = PF_APMS_STATE_WTACK \<and> ack_seq_nbr fixed = send_seq_count x
     then do {
       let s = upd_apmx a p (\<lambda>x. x\<lparr>send_seq_count_o := send_seq_count x,
         send_seq_count := (send_seq_count x + 1) AND 0x7FFF\<rparr>) s;
       s \<leftarrow> (case p_rta x of
              None \<Rightarrow> Some s
            | Some b \<Rightarrow> pnal_buf_free b (upd_apmx a p (\<lambda>x. x\<lparr>p_rta := None\<rparr>) s));
       s \<leftarrow> pf_alarm_alpmi_apms_a_data_cnf a p 0 s;
       s \<leftarrow> pf_alarm_alpmr_apms_a_data_cnf a p 0 s;
       Some (upd_apmx a p (\<lambda>x. x\<lparr>apms_state := PF_APMS_STATE_OPEN\<rparr>) s) }
     else Some s)"

definition pf_alarm_apms_apms_a_data_req ::
  "nat \<Rightarrow> nat \<Rightarrow> pf_alarm_data \<Rightarrow> u32 \<Rightarrow> pnet_pnio_status option \<Rightarrow> pnet \<Rightarrow> (int \<times> pnet) option" where
  "pf_alarm_apms_apms_a_data_req a p d maint_status p_status s =
     (if apms_state (the_apmx s a p) \<noteq> PF_APMS_STATE_OPEN
      then do {
        s \<leftarrow> pf_alarm_alpmi_apms_a_data_cnf a p (-1) s;
        s \<leftarrow> pf_alarm_alpmr_apms_a_data_cnf a p (-1) s;
        Some (-1, s) }
      else if \<not> apmx_p_ar (the_apmx s a p) then None
      else do {
        let x = the_apmx s a p;
        let s = upd_apmx a p (\<lambda>x. x\<lparr>resend_counter :=
          ucast (rta_retries (alarm_cr_request (cfg (net_ars s ! a))))\<rparr>) s;
        (ret, s) \<leftarrow> pf_alarm_apms_a_data_req a p
          (fixed_part x PF_RTA_PDU_TYPE_DATA True (send_seq_count x)) (Some d) maint_status
          (payload_usi (ad_payload d)) (payload_len (ad_payload d)) (payload_data (ad_payload d))
          p_status s;
        let s = upd_apmx a p (\<lambda>x. x\<lparr>apms_state := PF_APMS_STATE_WTACK\<rparr>) s;
        (r, h, s) \<leftarrow> timer_add (timeout_us x) CB_APMS (pair_ptr a p)
          (resend_timeout (the_apmx s a p)) s;
        Some (if r \<noteq> 0 then -1 else ret, upd_apmx a p (\<lambda>x. x\<lparr>resend_timeout := h\<rparr>) s) })"

end
