(* ===== verification/Pn_Alarm_Summary.thy ===== *)
theory Pn_Alarm_Summary
  imports Pn_Device Pn_Alarm_Wire
begin

text \<open>
  The fields of the channel properties of a diagnosis item (the macros
  \<^verbatim>\<open>PF_DIAG_CH_PROP_*\<close> of \<^verbatim>\<open>src/pf_types.h\<close>) and the summary over the items of a subslot that
  an alarm carries, from \<^verbatim>\<open>src/common/pf_alarm.c\<close>.
\<close>

section \<open>Channel properties\<close>

definition prop_get :: "u16 \<Rightarrow> nat \<Rightarrow> u16 \<Rightarrow> u16" where
  "prop_get msk n x = drop_bit n (x AND msk)"

definition prop_set :: "u16 \<Rightarrow> nat \<Rightarrow> u16 \<Rightarrow> u16 \<Rightarrow> u16" where
  "prop_set msk n v x = (x AND NOT msk) OR push_bit n v"

definition PF_DIAG_CH_PROP_TYPE_SET :: "u16 \<Rightarrow> u16 \<Rightarrow> u16" where
  "PF_DIAG_CH_PROP_TYPE_SET = prop_set 0x00FF 0"
definition PF_DIAG_CH_PROP_ACC_GET :: "u16 \<Rightarrow> u16" where "PF_DIAG_CH_PROP_ACC_GET = prop_get 0x0100 8"
definition PF_DIAG_CH_PROP_ACC_SET :: "u16 \<Rightarrow> u16 \<Rightarrow> u16" where
  "PF_DIAG_CH_PROP_ACC_SET = prop_set 0x0100 8"
definition PF_DIAG_CH_PROP_MAINT_GET :: "u16 \<Rightarrow> u16" where "PF_DIAG_CH_PROP_MAINT_GET = prop_get 0x0600 9"
definition PF_DIAG_CH_PROP_MAINT_SET :: "u16 \<Rightarrow> u16 \<Rightarrow> u16" where
  "PF_DIAG_CH_PROP_MAINT_SET = prop_set 0x0600 9"
definition PF_DIAG_CH_PROP_SPEC_GET :: "u16 \<Rightarrow> u16" where "PF_DIAG_CH_PROP_SPEC_GET = prop_get 0x1800 11"
definition PF_DIAG_CH_PROP_SPEC_SET :: "u16 \<Rightarrow> u16 \<Rightarrow> u16" where
  "PF_DIAG_CH_PROP_SPEC_SET = prop_set 0x1800 11"
definition PF_DIAG_CH_PROP_DIR_GET :: "u16 \<Rightarrow> u16" where "PF_DIAG_CH_PROP_DIR_GET = prop_get 0xE000 13"
definition PF_DIAG_CH_PROP_DIR_SET :: "u16 \<Rightarrow> u16 \<Rightarrow> u16" where
  "PF_DIAG_CH_PROP_DIR_SET = prop_set 0xE000 13"

lemmas ch_prop_defs = PF_DIAG_CH_PROP_TYPE_SET_def PF_DIAG_CH_PROP_ACC_GET_def
  PF_DIAG_CH_PROP_ACC_SET_def PF_DIAG_CH_PROP_MAINT_GET_def PF_DIAG_CH_PROP_MAINT_SET_def
  PF_DIAG_CH_PROP_SPEC_GET_def PF_DIAG_CH_PROP_SPEC_SET_def PF_DIAG_CH_PROP_DIR_GET_def
  PF_DIAG_CH_PROP_DIR_SET_def

definition PNET_DIAG_CH_PROP_MAINT_FAULT :: u16 where "PNET_DIAG_CH_PROP_MAINT_FAULT = 0"
definition PNET_DIAG_CH_PROP_MAINT_REQUIRED :: u16 where "PNET_DIAG_CH_PROP_MAINT_REQUIRED = 1"
definition PNET_DIAG_CH_PROP_MAINT_DEMANDED :: u16 where "PNET_DIAG_CH_PROP_MAINT_DEMANDED = 2"
definition PNET_DIAG_CH_PROP_MAINT_QUALIFIED :: u16 where "PNET_DIAG_CH_PROP_MAINT_QUALIFIED = 3"

lemmas maint_defs = PNET_DIAG_CH_PROP_MAINT_FAULT_def PNET_DIAG_CH_PROP_MAINT_REQUIRED_def
  PNET_DIAG_CH_PROP_MAINT_DEMANDED_def PNET_DIAG_CH_PROP_MAINT_QUALIFIED_def

definition PF_DIAG_CH_PROP_SPEC_ALL_DISAPPEARS :: u16 where "PF_DIAG_CH_PROP_SPEC_ALL_DISAPPEARS = 0"
definition PF_DIAG_CH_PROP_SPEC_APPEARS :: u16 where "PF_DIAG_CH_PROP_SPEC_APPEARS = 1"
definition PF_DIAG_CH_PROP_SPEC_DISAPPEARS :: u16 where "PF_DIAG_CH_PROP_SPEC_DISAPPEARS = 2"
definition PF_DIAG_CH_PROP_SPEC_DIS_OTHERS_REMAIN :: u16 where
  "PF_DIAG_CH_PROP_SPEC_DIS_OTHERS_REMAIN = 3"

definition PF_DIAG_QUALIFIED_SEVERITY_MASK :: u32 where "PF_DIAG_QUALIFIED_SEVERITY_MASK = NOT 7"
definition PF_DIAG_QUALIFIER_MASK_FAULT :: u32 where "PF_DIAG_QUALIFIER_MASK_FAULT = 0xF8000000"
definition PF_DIAG_QUALIFIER_MASK_DEMANDED :: u32 where "PF_DIAG_QUALIFIER_MASK_DEMANDED = 0x07FE0000"
definition PF_DIAG_QUALIFIER_MASK_REQUIRED :: u32 where "PF_DIAG_QUALIFIER_MASK_REQUIRED = 0x0001FF80"
definition PF_DIAG_BIT_MAINTENANCE_REQUIRED :: u32 where "PF_DIAG_BIT_MAINTENANCE_REQUIRED = 1"
definition PF_DIAG_BIT_MAINTENANCE_DEMANDED :: u32 where "PF_DIAG_BIT_MAINTENANCE_DEMANDED = 2"

lemmas severity_defs = PF_DIAG_QUALIFIED_SEVERITY_MASK_def PF_DIAG_QUALIFIER_MASK_FAULT_def
  PF_DIAG_QUALIFIER_MASK_DEMANDED_def PF_DIAG_QUALIFIER_MASK_REQUIRED_def
  PF_DIAG_BIT_MAINTENANCE_REQUIRED_def PF_DIAG_BIT_MAINTENANCE_DEMANDED_def

section \<open>The summary\<close>

definition no_alarm_spec :: pnet_alarm_spec where
  "no_alarm_spec = \<lparr>channel_diagnosis = False, manufacturer_diagnosis = False,
     submodule_diagnosis = False, ar_diagnosis = False\<rparr>"

text \<open>\<open>p_ar\<close> may be NULL, as may the AR of the subslot; two NULL pointers are equal.\<close>

definition pf_alarm_add_diag_item_to_summary ::
  "nat option \<Rightarrow> pf_subslot \<Rightarrow> pf_diag_item \<Rightarrow> pnet_alarm_spec \<times> u32 \<Rightarrow> pnet_alarm_spec \<times> u32" where
  "pf_alarm_add_diag_item_to_summary p_ar u it = (\<lambda>(spec, maint_status). let
     is_same_ar = (ss_p_ar u = p_ar)
   in if di_usi it < PF_USI_CHANNEL_DIAGNOSIS
      then (spec\<lparr>manufacturer_diagnosis := True, submodule_diagnosis := True,
              ar_diagnosis := ar_diagnosis spec \<or> is_same_ar\<rparr>, maint_status)
      else let
        severity = qual_ch_qualifier (fmt_std it) AND PF_DIAG_QUALIFIED_SEVERITY_MASK;
        maint = PF_DIAG_CH_PROP_MAINT_GET (ch_properties (fmt_std it));
        graded = (\<lambda>v msk. maint = v \<or>
          (maint = PNET_DIAG_CH_PROP_MAINT_QUALIFIED \<and> severity AND msk > 0));
        is_required = graded PNET_DIAG_CH_PROP_MAINT_REQUIRED PF_DIAG_QUALIFIER_MASK_REQUIRED;
        is_demanded = graded PNET_DIAG_CH_PROP_MAINT_DEMANDED PF_DIAG_QUALIFIER_MASK_DEMANDED;
        is_fault = graded PNET_DIAG_CH_PROP_MAINT_FAULT PF_DIAG_QUALIFIER_MASK_FAULT;
        is_appears = (PF_DIAG_CH_PROP_SPEC_GET (ch_properties (fmt_std it))
          = PF_DIAG_CH_PROP_SPEC_APPEARS)
      in (spec\<lparr>channel_diagnosis := channel_diagnosis spec \<or> is_appears,
            submodule_diagnosis := submodule_diagnosis spec \<or> (is_appears \<and> is_fault),
            ar_diagnosis := ar_diagnosis spec \<or> (is_appears \<and> is_fault \<and> is_same_ar)\<rparr>,
          maint_status OR severity
            OR (if is_required then PF_DIAG_BIT_MAINTENANCE_REQUIRED else 0)
            OR (if is_demanded then PF_DIAG_BIT_MAINTENANCE_DEMANDED else 0)))"

text \<open>\<open>None\<close>: the list of items does not end. The only caller passes no item of its own.\<close>

definition pf_alarm_get_diag_summary ::
  "pf_device \<Rightarrow> nat option \<Rightarrow> u32 \<Rightarrow> u16 \<Rightarrow> u16 \<Rightarrow> pf_diag_item option \<Rightarrow> (pnet_alarm_spec \<times> u32) option" where
  "pf_alarm_get_diag_summary d p_ar api slot_nbr subslot_nbr p_item =
     (case pf_cmdev_get_subslot_full d (ucast api) slot_nbr subslot_nbr of
        None \<Rightarrow> Some (no_alarm_spec, 0)
      | Some (i, j, k) \<Rightarrow> do {
          let u = the_subslot d i j k;
          let acc = (case p_item of None \<Rightarrow> (no_alarm_spec, 0)
            | Some it \<Rightarrow> pf_alarm_add_diag_item_to_summary p_ar u it (no_alarm_spec, 0));
          ns \<leftarrow> diag_walk (diag_items d) (diag_list u);
          Some (fold (\<lambda>n. pf_alarm_add_diag_item_to_summary p_ar u (diag_items d ! n)) ns acc) })"

end
