(* ===== verification/Pn_Alarm_Run.thy ===== *)
theory Pn_Alarm_Run
  imports Pn_Alarm Pn_Alarm_Summary
begin

text \<open>
  The periodic work of \<^verbatim>\<open>src/common/pf_alarm.c\<close>: handling the received alarm PDUs and sending
  the queued alarms; the functions of the application and of the other components that queue an
  alarm.
\<close>

section \<open>Receiving\<close>

text \<open>A computation of the block reader; a read outside an array is \<open>None\<close>.\<close>

definition run_rd :: "'a rdm \<Rightarrow> rd \<Rightarrow> ('a \<times> rd) option" where
  "run_rd m r = (let (x, r) = run_state m r in if rd_fault r then None else Some (x, r))"

text \<open>
  A DATA PDU. \<open>data_len\<close> is the announced length of the variable part; the application gets what
  remains of it, and a pointer into the frame.
\<close>

definition apmr_accept :: "nat \<Rightarrow> nat \<Rightarrow> pf_alarm_fixed \<Rightarrow> pnet \<Rightarrow> (int \<times> pnet) option" where
  "apmr_accept a p fixed s = do {
     s \<leftarrow> pf_alarm_apms_a_data_ind a p fixed s;
     let s = upd_apmx a p (\<lambda>x. x\<lparr>exp_seq_count_o := exp_seq_count x,
       exp_seq_count := (exp_seq_count x + 1) AND 0x7FFF\<rparr>) s;
     pf_alarm_apmr_send_ack a p s }"

definition set_apmr_state :: "nat \<Rightarrow> nat \<Rightarrow> pf_apmr_state_values \<Rightarrow> pnet \<Rightarrow> pnet" where
  "set_apmr_state a p st = upd_apmx a p (\<lambda>x. x\<lparr>apmr_state := st\<rparr>)"

definition apmr_ack_block :: "nat \<Rightarrow> nat \<Rightarrow> pf_alarm_fixed \<Rightarrow> rd \<Rightarrow> pnet \<Rightarrow> (int \<times> pnet) option" where
  "apmr_ack_block a p fixed r s = do {
     (ret, s) \<leftarrow> apmr_accept a p fixed s;
     if ret \<noteq> 0 then Some (ret, s)
     else do {
       let s = set_apmr_state a p PF_APMR_STATE_WCNF s;
       (st, r) \<leftarrow> run_rd pf_get_pnio_status r;
       (ret, s) \<leftarrow> pf_alarm_alpmi_apmr_a_data_ind a p st s;
       Some (ret, if ret = 0 then set_apmr_state a p PF_APMR_STATE_OPEN s else s) } }"

definition apmr_notify_block ::
  "nat \<Rightarrow> nat \<Rightarrow> pf_alarm_fixed \<Rightarrow> u16 \<Rightarrow> u16 \<Rightarrow> rd \<Rightarrow> pnet \<Rightarrow> (int \<times> pnet) option" where
  "apmr_notify_block a p fixed data_len start_pos r s = do {
     (ret, s) \<leftarrow> apmr_accept a p fixed s;
     if ret \<noteq> 0 then Some (ret, s)
     else do {
       let s = set_apmr_state a p PF_APMR_STATE_WCNF s;
       (d, r) \<leftarrow> run_rd (pf_get_alarm_data zero_alarm_data) r;
       (data_usi, r) \<leftarrow> run_rd pf_get_uint16 r;
       (ret, s) \<leftarrow> (if result r = PF_PARSE_OK
         then do {
           bs \<leftarrow> p_buf r;
           pf_alarm_alpmr_apmr_a_data_ind a p d (data_len - (rd_pos r - start_pos)) data_usi
             (drop (unat (rd_pos r)) bs) s }
         else Some (-1, s));
       Some (ret, if ret = 0 then set_apmr_state a p PF_APMR_STATE_OPEN s else s) } }"

definition pf_alarm_apmr_a_data_ind ::
  "nat \<Rightarrow> nat \<Rightarrow> pf_alarm_fixed \<Rightarrow> u16 \<Rightarrow> rd \<Rightarrow> pnet \<Rightarrow> (int \<times> pnet) option" where
  "pf_alarm_apmr_a_data_ind a p fixed data_len r s = (let x = the_apmx s a p in
     case apmr_state x of
       PF_APMR_STATE_CLOSED \<Rightarrow> Some (0, s)
     | PF_APMR_STATE_WCNF \<Rightarrow> Some (-1, s)
     | PF_APMR_STATE_OPEN \<Rightarrow>
         if \<not> tack (add_flags fixed) then Some (0, s)
         else if send_seq_num fixed = exp_seq_count x
         then do {
           let start_pos = rd_pos r;
           (h, r) \<leftarrow> run_rd pf_get_block_header r;
           if block_type h = block_type_alarm_ack x then apmr_ack_block a p fixed r s
           else if block_type h = block_type_alarm_notify x
           then apmr_notify_block a p fixed data_len start_pos r s
           else do {
             s \<leftarrow> set_err_ind a p PNET_ERROR_CODE_1_RTA_ERR_CLS_PROTOCOL
                    PNET_ERROR_CODE_2_ABORT_AR_ALARM_IND_ERROR s;
             Some (-1, s) } }
         else if send_seq_num fixed = exp_seq_count_o x
         then do {
           s \<leftarrow> pf_alarm_apms_a_data_ind a p fixed s;
           (_, s) \<leftarrow> pf_alarm_apmr_send_ack a p s;
           Some (0, s) }
         else if \<not> apmx_p_ar x then None
         else do {
           let s = set_err a PNET_ERROR_CODE_1_RTA_ERR_CLS_PROTOCOL PNET_ERROR_CODE_2_ABORT_CODE_SEQ s;
           let s = pf_fspm_create_log_book_entry (arep (net_ars s ! a)) \<lparr>error_code = PNET_ERROR_CODE_PNIO,
             error_decode = PNET_ERROR_DECODE_PNIO,
             error_code_1 = PNET_ERROR_CODE_1_RTA_ERR_CLS_PROTOCOL,
             error_code_2 = PNET_ERROR_CODE_2_ABORT_CODE_SEQ\<rparr> 1851 s;
           (_, s) \<leftarrow> pf_alarm_apmr_send_nack a p s;
           Some (0, s) })"

text \<open>One received frame.\<close>

definition apmr_frame :: "nat \<Rightarrow> nat \<Rightarrow> nat \<Rightarrow> u16 \<Rightarrow> pnet \<Rightarrow> (int \<times> pnet) option" where
  "apmr_frame a p b fpos s = do {
     f \<leftarrow> the_buf s b;
     (fixed, r) \<leftarrow> run_rd pf_get_alarm_fixed \<lparr>result = PF_PARSE_OK, is_big_endian = True,
       p_buf = Some (payload f), buf_len = b_len f, rd_pos = fpos + 2, rd_fault = False\<rparr>;
     (var_part_len, r) \<leftarrow> run_rd pf_get_uint16 r;
     let ty = pdu_type_type (pdu_type fixed);
     if pdu_type_version (pdu_type fixed) \<noteq> 1 then Some (0, s)
     else if ty = PF_RTA_PDU_TYPE_ACK
     then if var_part_len = 0
       then do { s \<leftarrow> pf_alarm_apms_a_data_ind a p fixed s; Some (0, s) }
       else Some (0, s)
     else if ty = PF_RTA_PDU_TYPE_DATA
     then pf_alarm_apmr_a_data_ind a p fixed var_part_len r s
     else if ty = PF_RTA_PDU_TYPE_ERR \<and> var_part_len = 4
     then do {
       (st, r) \<leftarrow> run_rd pf_get_pnio_status r;
       s \<leftarrow> (if apmr_state (the_apmx s a p) = PF_APMR_STATE_OPEN
            then pf_alarm_error_ind a p (error_code_1 st) (error_code_2 st) s
            else pf_alarm_error_ind a p PNET_ERROR_CODE_1_APMR PNET_ERROR_CODE_2_APMR_INVALID_STATE s);
       Some (0, s) }
     else Some (0, s) }"

text \<open>The inner loop, over the frames in the queue; it is \<open>None\<close> if it does not end.\<close>

partial_function (option) apmr_drain :: "nat \<Rightarrow> nat \<Rightarrow> pnet \<Rightarrow> (int \<times> pnet) option" where
  "apmr_drain a p s =
     (if apmr_state (the_apmx s a p) = PF_APMR_STATE_CLOSED then Some (0, s)
      else let (r, m, q) = pf_alarm_receive_queue_fetch (alarm_receive_q (the_apmx s a p))
             \<lparr>frame_id_pos = 0, p_rx_buf = None\<rparr>;
           s = upd_apmx a p (\<lambda>x. x\<lparr>alarm_receive_q := q\<rparr>) s
      in if r \<noteq> 0 then Some (0, s)
         else do {
           b \<leftarrow> p_rx_buf m;
           (ret, s) \<leftarrow> apmr_frame a p b (frame_id_pos m) s;
           s \<leftarrow> pnal_buf_free b s;
           if ret = 0 then apmr_drain a p s else Some (ret, s) })"

declare apmr_drain.simps [code]

definition pf_alarm_apmr_periodic :: "nat \<Rightarrow> pnet \<Rightarrow> (int \<times> pnet) option" where
  "pf_alarm_apmr_periodic a s =
     fold_m (\<lambda>p (ret, s). if ret = 0 then apmr_drain a p s else Some (ret, s))
       [0..<length (apmx (net_ars s ! a))] (0, s)"

section \<open>Sending the queued alarms\<close>

definition pf_alarm_send_internal :: "nat \<Rightarrow> nat \<Rightarrow> pf_alarm_data \<Rightarrow> pnet \<Rightarrow> (int \<times> pnet) option" where
  "pf_alarm_send_internal a p d s =
     (if \<not> global_alarm_enable s \<or> \<not> alarm_enable (net_ars s ! a)
        \<or> \<not> apmx_p_alpmx (the_apmx s a p)
        \<or> alpmi_state (the_alpmx s a p) \<noteq> PF_ALPMI_STATE_W_ALARM then None
      else do {
        (spec, maint_status) \<leftarrow> pf_alarm_get_diag_summary (net_device s) (Some a) (ad_api_id d)
          (ad_slot_nbr d) (ad_subslot_nbr d) None;
        let d = d\<lparr>alarm_specifier := spec, ad_sequence_number := sequence_number (the_alpmx s a p)\<rparr>;
        let s = upd_alpmx a p (\<lambda>x. x\<lparr>prev_sequence_number := sequence_number x,
          sequence_number := (sequence_number x + 1) mod 0x0800\<rparr>) s;
        (ret, s) \<leftarrow> pf_alarm_apms_apms_a_data_req a p d maint_status None s;
        if ret \<noteq> 0 then Some (ret, s)
        else if \<not> apmx_p_alpmx (the_apmx s a p) then None
        else Some (ret, upd_alpmx a p (\<lambda>x. x\<lparr>alpmi_state := PF_ALPMI_STATE_W_ACK\<rparr>) s) })"

text \<open>High priority first; at most one alarm is taken. A queue that is empty leads to the next.\<close>

fun almpi_turn :: "nat \<Rightarrow> nat list \<Rightarrow> pnet \<Rightarrow> pnet option" where
  "almpi_turn a [] s = Some s"
| "almpi_turn a (p # ps) s =
     (if \<not> apmx_p_alpmx (the_apmx s a p) then None
      else if alpmi_state (the_alpmx s a p) = PF_ALPMI_STATE_W_ALARM
      then let (r, d, q) = pf_alarm_send_queue_fetch (alarm_send_q (net_ars s ! a) ! p) zero_alarm_data
        in if r = 0
           then do {
             (_, s) \<leftarrow> pf_alarm_send_internal a p d
               (upd_ar a (\<lambda>r. r\<lparr>alarm_send_q := (alarm_send_q r)[p := q]\<rparr>) s);
             Some s }
           else almpi_turn a ps s
      else almpi_turn a ps s)"

definition pf_alarm_almpi_periodic :: "nat \<Rightarrow> pnet \<Rightarrow> pnet option" where
  "pf_alarm_almpi_periodic a s =
     (if alarm_enable (net_ars s ! a) then almpi_turn a [1, 0] s else Some s)"

definition pf_alarm_periodic :: "pnet \<Rightarrow> pnet option" where
  "pf_alarm_periodic s =
     (if global_alarm_enable s
      then fold_m (\<lambda>a s. if in_use (net_ars s ! a)
        then do { (_, s) \<leftarrow> pf_alarm_apmr_periodic a s; pf_alarm_almpi_periodic a s }
        else Some s) [0..<length (net_ars s)] s
      else Some s)"

section \<open>The acknowledgement of the application\<close>

definition pf_alarm_alpmr_alarm_ack ::
  "nat \<Rightarrow> pf_alarm_data \<Rightarrow> pnet_pnio_status \<Rightarrow> pnet \<Rightarrow> (int \<times> pnet) option" where
  "pf_alarm_alpmr_alarm_ack a arg st s =
     (if alpmr_state (the_alpmx s a 1) = PF_ALPMR_STATE_W_USER_ACK
      then do {
        let d = arg\<lparr>module_ident := 0, submodule_ident := 0, ad_payload := ad_payload zero_alarm_data\<rparr>;
        let s = upd_alpmx a 1 (\<lambda>x. x\<lparr>prev_sequence_number := sequence_number x,
          sequence_number := (sequence_number x + 1) mod 0x0800\<rparr>) s;
        (ret, s) \<leftarrow> pf_alarm_apms_apms_a_data_req a 1 d 0 (Some st) s;
        Some (ret, upd_alpmx a 1 (\<lambda>x. x\<lparr>alpmr_state := PF_ALPMR_STATE_W_TACK\<rparr>) s) }
      else Some (-1, set_err a PNET_ERROR_CODE_1_ALPMI PNET_ERROR_CODE_2_ALPMI_WRONG_STATE s))"

section \<open>Queuing an alarm\<close>

definition PF_ALARM_TYPE_DIAGNOSIS :: u16 where "PF_ALARM_TYPE_DIAGNOSIS = 1"
definition PF_ALARM_TYPE_PROCESS :: u16 where "PF_ALARM_TYPE_PROCESS = 2"
definition PF_ALARM_TYPE_PULL :: u16 where "PF_ALARM_TYPE_PULL = 3"
definition PF_ALARM_TYPE_PLUG :: u16 where "PF_ALARM_TYPE_PLUG = 4"
definition PF_ALARM_TYPE_PLUG_WRONG_MODULE :: u16 where "PF_ALARM_TYPE_PLUG_WRONG_MODULE = 0x0A"
definition PF_ALARM_TYPE_DIAGNOSIS_DISAPPEARS :: u16 where "PF_ALARM_TYPE_DIAGNOSIS_DISAPPEARS = 0x0C"
definition PF_ALARM_TYPE_PORT_DATA_CHANGE :: u16 where "PF_ALARM_TYPE_PORT_DATA_CHANGE = 0x0E"
definition PF_ALARM_TYPE_PULL_MODULE :: u16 where "PF_ALARM_TYPE_PULL_MODULE = 0x1F"
definition PF_WRT_ERROR_REMOTE_MISMATCH :: u16 where "PF_WRT_ERROR_REMOTE_MISMATCH = 0x8001"

text \<open>The copy of the payload reads \<open>n\<close> bytes.\<close>

definition copy_payload :: "u16 \<Rightarrow> payload option \<Rightarrow> payload option" where
  "copy_payload n p_payload =
     (if n = 0 then Some (Payload_bytes [])
      else case p_payload of
        Some (Payload_bytes bs) \<Rightarrow>
          if unat n \<le> length bs then Some (Payload_bytes (take (unat n) bs)) else None
      | p \<Rightarrow> p)"

definition pf_alarm_send_alarm ::
  "nat option \<Rightarrow> u16 \<Rightarrow> bool \<Rightarrow> u32 \<Rightarrow> u16 \<Rightarrow> u16 \<Rightarrow> u32 \<Rightarrow> u32 \<Rightarrow> u16 \<Rightarrow> u16 \<Rightarrow> payload option
     \<Rightarrow> pnet \<Rightarrow> (int \<times> pnet) option" where
  "pf_alarm_send_alarm p_ar ty high_prio api slot_nbr subslot_nbr mod_id sub_id usi n p_payload s =
     (if \<not> global_alarm_enable s then Some (-1, s)
      else case p_ar of
        None \<Rightarrow> None
      | Some a \<Rightarrow>
          if \<not> alarm_enable (net_ars s ! a) \<or> unat n > w_alarm_data_size (net_world s)
            \<or> n > max_alarm_data_length (alarm_cr_request (cfg (net_ars s ! a)))
            \<or> n > 0 \<and> p_payload = None
          then Some (-1, s)
          else do {
            pl \<leftarrow> copy_payload n p_payload;
            let i = (if high_prio then 1 else 0 :: nat);
            let (ret, q) = pf_alarm_send_queue_post (alarm_send_q (net_ars s ! a) ! i)
              (zero_alarm_data\<lparr>alarm_type := ty, ad_api_id := api, ad_slot_nbr := slot_nbr,
                ad_subslot_nbr := subslot_nbr, module_ident := mod_id, submodule_ident := ucast sub_id,
                ad_payload := \<lparr>payload_usi = usi, payload_len = n, payload_data = pl\<rparr>\<rparr>);
            Some (ret, upd_ar a (\<lambda>r. r\<lparr>alarm_send_q := (alarm_send_q r)[i := q]\<rparr>) s) })"

text \<open>The identifiers of module and submodule, for the alarms that need both.\<close>

definition plugged_idents :: "pnet \<Rightarrow> u32 \<Rightarrow> u16 \<Rightarrow> u16 \<Rightarrow> (u32 \<times> u32) option" where
  "plugged_idents s api slot_nbr subslot_nbr = (let
     (r1, mod_id) = pf_cmdev_get_module_ident (net_device s) (ucast api) slot_nbr 0;
     (r2, sub_id) = pf_cmdev_get_submodule_ident (net_device s) (ucast api) slot_nbr subslot_nbr 0
   in if r1 \<noteq> 0 \<or> r2 \<noteq> 0 then None else Some (mod_id, sub_id))"

definition pf_alarm_send_process ::
  "nat \<Rightarrow> u32 \<Rightarrow> u16 \<Rightarrow> u16 \<Rightarrow> u16 \<Rightarrow> u16 \<Rightarrow> payload option \<Rightarrow> pnet \<Rightarrow> (int \<times> pnet) option" where
  "pf_alarm_send_process a api slot_nbr subslot_nbr usi n p_payload s =
     (if usi \<ge> PF_USI_CHANNEL_DIAGNOSIS then Some (-1, s)
      else case plugged_idents s api slot_nbr subslot_nbr of
        None \<Rightarrow> Some (-1, s)
      | Some (mod_id, sub_id) \<Rightarrow>
          pf_alarm_send_alarm (Some a) PF_ALARM_TYPE_PROCESS True api slot_nbr subslot_nbr mod_id sub_id
            usi n p_payload s)"

definition pf_alarm_send_diagnosis ::
  "nat \<Rightarrow> u32 \<Rightarrow> u16 \<Rightarrow> u16 \<Rightarrow> pf_diag_item option \<Rightarrow> pnet \<Rightarrow> (int \<times> pnet) option" where
  "pf_alarm_send_diagnosis a api slot_nbr subslot_nbr p_item s =
     (case p_item of
        None \<Rightarrow> Some (-1, s)
      | Some it \<Rightarrow> (case plugged_idents s api slot_nbr subslot_nbr of
          None \<Rightarrow> Some (-1, s)
        | Some (mod_id, sub_id) \<Rightarrow>
            if di_usi it < PF_USI_CHANNEL_DIAGNOSIS
            then pf_alarm_send_alarm (Some a) PF_ALARM_TYPE_DIAGNOSIS False api slot_nbr subslot_nbr
              mod_id sub_id (di_usi it) (usi_len (fmt_usi it))
              (Some (Payload_bytes (manuf_data (fmt_usi it)))) s
            else pf_alarm_send_alarm (Some a)
              (if ch_error_type (fmt_std it) = PF_WRT_ERROR_REMOTE_MISMATCH
               then PF_ALARM_TYPE_PORT_DATA_CHANGE else PF_ALARM_TYPE_DIAGNOSIS)
              False api slot_nbr subslot_nbr mod_id sub_id (di_usi it)
              (w_diag_item_size (net_world s)) (Some (Payload_item it)) s))"

definition pf_alarm_send_usi_diagnosis_disappears ::
  "nat \<Rightarrow> u32 \<Rightarrow> u16 \<Rightarrow> u16 \<Rightarrow> u16 \<Rightarrow> pnet \<Rightarrow> (int \<times> pnet) option" where
  "pf_alarm_send_usi_diagnosis_disappears a api slot_nbr subslot_nbr usi s =
     (if \<not> usi < PF_USI_CHANNEL_DIAGNOSIS then None
      else case plugged_idents s api slot_nbr subslot_nbr of
        None \<Rightarrow> Some (-1, s)
      | Some (mod_id, sub_id) \<Rightarrow>
          pf_alarm_send_alarm (Some a) PF_ALARM_TYPE_DIAGNOSIS_DISAPPEARS False api slot_nbr subslot_nbr
            mod_id sub_id usi 0 None s)"

text \<open>The next three report success whatever the queue says. \<open>p_ar\<close> may be NULL.\<close>

definition pf_alarm_send_pull ::
  "nat option \<Rightarrow> u32 \<Rightarrow> u16 \<Rightarrow> u16 \<Rightarrow> pnet \<Rightarrow> (int \<times> pnet) option" where
  "pf_alarm_send_pull p_ar api slot_nbr subslot_nbr s = do {
     ty \<leftarrow> (if subslot_nbr = 0
       then (case p_ar of None \<Rightarrow> None
         | Some a \<Rightarrow> Some (if pull_module_alarm_allowed (ar_properties (ar_param (cfg (net_ars s ! a))))
             then PF_ALARM_TYPE_PULL_MODULE else PF_ALARM_TYPE_PULL))
       else Some PF_ALARM_TYPE_PULL);
     (_, s) \<leftarrow> pf_alarm_send_alarm p_ar ty False api slot_nbr subslot_nbr 0 0 0 0 None s;
     Some (0, s) }"

definition pf_alarm_send_plug ::
  "nat option \<Rightarrow> u32 \<Rightarrow> u16 \<Rightarrow> u16 \<Rightarrow> u32 \<Rightarrow> u32 \<Rightarrow> pnet \<Rightarrow> (int \<times> pnet) option" where
  "pf_alarm_send_plug p_ar api slot_nbr subslot_nbr mod_id sub_id s = do {
     (_, s) \<leftarrow> pf_alarm_send_alarm p_ar PF_ALARM_TYPE_PLUG False api slot_nbr subslot_nbr mod_id sub_id
       0 0 None s;
     Some (0, s) }"

definition pf_alarm_send_plug_wrong ::
  "nat option \<Rightarrow> u32 \<Rightarrow> u16 \<Rightarrow> u16 \<Rightarrow> u32 \<Rightarrow> u32 \<Rightarrow> pnet \<Rightarrow> (int \<times> pnet) option" where
  "pf_alarm_send_plug_wrong p_ar api slot_nbr subslot_nbr mod_id sub_id s = do {
     (_, s) \<leftarrow> pf_alarm_send_alarm p_ar PF_ALARM_TYPE_PLUG_WRONG_MODULE False api slot_nbr subslot_nbr
       mod_id sub_id 0 0 None s;
     Some (0, s) }"

end
