(* ===== verification/Pn_Diag.thy ===== *)
theory Pn_Diag
  imports Pn_Alarm_Run
begin

text \<open>
  Diagnosis, \<^verbatim>\<open>src/device/pf_diag.c\<close>: the items of a subslot are added, updated and removed, and
  the controller is told by an alarm. Locking is not modelled. A walk over a list of items that
  does not end is \<open>None\<close>.
\<close>

record pnet_diag_source =
  src_api :: u32
  src_slot :: u16
  src_subslot :: u16
  src_ch :: u16
  ch_grouping :: u16
  ch_direction :: u16

definition PF_SUBMOD_AR_INFO_OWN :: u8 where "PF_SUBMOD_AR_INFO_OWN = 0"
definition PF_SUBMOD_AR_INFO_APPLICATION_READY_PENDING :: u8 where
  "PF_SUBMOD_AR_INFO_APPLICATION_READY_PENDING = 1"

definition PF_USI_ALARM_MULTIPLE :: u16 where "PF_USI_ALARM_MULTIPLE = 0x8001"
definition PNET_CHANNEL_WHOLE_SUBMODULE :: u16 where "PNET_CHANNEL_WHOLE_SUBMODULE = 0x8000"
definition PNET_DIAG_CH_INDIVIDUAL_CHANNEL :: u16 where "PNET_DIAG_CH_INDIVIDUAL_CHANNEL = 0"
definition PNET_DIAG_CH_CHANNEL_GROUP :: u16 where "PNET_DIAG_CH_CHANNEL_GROUP = 1"
definition PNET_DIAG_CH_PROP_DIR_MANUF_SPEC :: u16 where "PNET_DIAG_CH_PROP_DIR_MANUF_SPEC = 0"
definition PNET_DIAG_CH_PROP_TYPE_UNSPECIFIED :: u16 where "PNET_DIAG_CH_PROP_TYPE_UNSPECIFIED = 0"

section \<open>What the items of a subslot say\<close>

definition pf_diag_update_station_problem_indicator ::
  "nat \<Rightarrow> nat \<times> nat \<times> nat \<Rightarrow> pnet \<Rightarrow> pnet option" where
  "pf_diag_update_station_problem_indicator a = (\<lambda>(i, j, k) s. do {
     let d = net_device s;
     ns \<leftarrow> diag_walk (diag_items d) (diag_list (the_subslot d i j k));
     Some (pf_ppm_set_problem_indicator a (\<exists>n \<in> set ns. let it = diag_items d ! n in
       di_in_use it \<and> (di_usi it < PF_USI_CHANNEL_DIAGNOSIS \<or>
         PF_DIAG_CH_PROP_MAINT_GET (ch_properties (fmt_std it)) = PNET_DIAG_CH_PROP_MAINT_FAULT)) s) })"

text \<open>The flags are set from the summary that grows with every item, so the last one decides.\<close>

definition pf_diag_update_submodule_state ::
  "nat option \<Rightarrow> nat \<times> nat \<times> nat \<Rightarrow> pf_device \<Rightarrow> pf_device option" where
  "pf_diag_update_submodule_state p_ar = (\<lambda>(i, j, k) d. do {
     let u = the_subslot d i j k;
     ns \<leftarrow> diag_walk (diag_items d) (diag_list u);
     let (spec, maint_status) = fold (\<lambda>n acc. let it = diag_items d ! n in
       if di_in_use it then pf_alarm_add_diag_item_to_summary p_ar u it acc else acc)
       ns (no_alarm_spec, 0);
     Some (upd_subslot i j k (\<lambda>u. u\<lparr>submodule_state := (submodule_state u)\<lparr>
       sub_fault := submodule_diagnosis spec,
       maintenance_required := (maint_status AND PF_DIAG_BIT_MAINTENANCE_REQUIRED \<noteq> 0),
       maintenance_demanded := (maint_status AND PF_DIAG_BIT_MAINTENANCE_DEMANDED \<noteq> 0)\<rparr>\<rparr>) d) })"

section \<open>Finding an item and taking it out of its list\<close>

definition diag_match :: "pnet_diag_source \<Rightarrow> u16 \<Rightarrow> u16 \<Rightarrow> u16 \<Rightarrow> pf_diag_item \<Rightarrow> bool" where
  "diag_match src err ext usi it =
     (if di_usi it \<ge> PF_USI_CHANNEL_DIAGNOSIS
      then ch_nbr (fmt_std it) = src_ch src \<and> ch_error_type (fmt_std it) = err
        \<and> ext_ch_error_type (fmt_std it) = ext
        \<and> PF_DIAG_CH_PROP_ACC_GET (ch_properties (fmt_std it)) = ch_grouping src
        \<and> PF_DIAG_CH_PROP_DIR_GET (ch_properties (fmt_std it)) = ch_direction src
      else di_usi it = usi)"

text \<open>The search loop: the index of the first match and of the item before it.\<close>

partial_function (option) diag_search ::
  "(pf_diag_item \<Rightarrow> bool) \<Rightarrow> pf_diag_item list \<Rightarrow> u16 \<Rightarrow> u16 \<Rightarrow> (u16 \<times> u16) option option" where
  "diag_search P items prev_ix item_ix =
     (if unat item_ix < length items
      then if P (items ! unat item_ix) then Some (Some (prev_ix, item_ix))
           else diag_search P items item_ix (di_next (items ! unat item_ix))
      else Some None)"

declare diag_search.simps [code]

text \<open>
  The subslot, the index of the item or \<open>PF_DIAG_IX_NULL\<close>, and the device without the item in the
  list.
\<close>

definition pf_diag_find_entry ::
  "pnet_diag_source \<Rightarrow> u16 \<Rightarrow> u16 \<Rightarrow> u16 \<Rightarrow> pf_device
     \<Rightarrow> ((nat \<times> nat \<times> nat) option \<times> u16 \<times> pf_device) option" where
  "pf_diag_find_entry src err ext usi d =
     (case pf_cmdev_get_subslot_full d (ucast (src_api src)) (src_slot src) (src_subslot src) of
        None \<Rightarrow> Some (None, PF_DIAG_IX_NULL, d)
      | Some (i, j, k) \<Rightarrow> (let u = the_subslot d i j k; st = submodule_state u in
          if (ident_info st = PF_SUBMOD_PLUG_OK \<or> ident_info st = PF_SUBMOD_PLUG_SUBSTITUTE)
            \<and> (sub_ar_info st = PF_SUBMOD_AR_INFO_OWN
               \<or> sub_ar_info st = PF_SUBMOD_AR_INFO_APPLICATION_READY_PENDING)
          then do {
            f \<leftarrow> diag_search (diag_match src err ext usi) (diag_items d) PF_DIAG_IX_NULL (diag_list u);
            case f of
              None \<Rightarrow> Some (Some (i, j, k), PF_DIAG_IX_NULL, d)
            | Some (prev_ix, item_ix) \<Rightarrow> (let nx = di_next (diag_items d ! unat item_ix) in
                Some (Some (i, j, k), item_ix,
                  if prev_ix \<noteq> PF_DIAG_IX_NULL
                  then upd_item (unat prev_ix) (\<lambda>it. it\<lparr>di_next := nx\<rparr>) d
                  else upd_subslot i j k (\<lambda>u. u\<lparr>diag_list := nx\<rparr>) d)) }
          else Some (None, PF_DIAG_IX_NULL, d)))"

definition pf_diag_find_first_ar :: "pnet \<Rightarrow> nat option" where
  "pf_diag_find_first_ar s = find_ix in_use (net_ars s)"

section \<open>Arguments\<close>

text \<open>The array of manufacturer data in an item.\<close>

definition manuf_size :: "pf_device \<Rightarrow> nat" where
  "manuf_size d = length (manuf_data (fmt_usi (diag_items d ! 0)))"

definition usi_args_ok :: "u16 \<Rightarrow> u16 \<Rightarrow> u16 \<Rightarrow> bool" where
  "usi_args_ok usi err ext \<longleftrightarrow>
     \<not> (usi > PF_USI_QUALIFIED_CHANNEL_DIAGNOSIS \<or> usi = PF_USI_ALARM_MULTIPLE)
     \<and> \<not> (usi < PF_USI_CHANNEL_DIAGNOSIS \<and> err \<noteq> 0)
     \<and> \<not> (usi \<le> PF_USI_CHANNEL_DIAGNOSIS \<and> ext \<noteq> 0)"

definition manuf_args_ok :: "pf_device \<Rightarrow> u16 \<Rightarrow> u32 \<Rightarrow> u16 \<Rightarrow> u8 list option \<Rightarrow> u16 \<Rightarrow> bool" where
  "manuf_args_ok d usi add_value n p_manuf ch \<longleftrightarrow>
     \<not> (usi \<le> PF_USI_CHANNEL_DIAGNOSIS \<and> add_value \<noteq> 0)
     \<and> \<not> (usi \<ge> PF_USI_CHANNEL_DIAGNOSIS \<and> (p_manuf \<noteq> None \<or> n \<noteq> 0))
     \<and> \<not> (n > 0 \<and> p_manuf = None)
     \<and> ch \<le> PNET_CHANNEL_WHOLE_SUBMODULE
     \<and> unat n \<le> manuf_size d"

definition qualifier_args_ok :: "u16 \<Rightarrow> u16 \<Rightarrow> u32 \<Rightarrow> bool" where
  "qualifier_args_ok usi severity qualifier \<longleftrightarrow>
     \<not> (usi \<noteq> PF_USI_QUALIFIED_CHANNEL_DIAGNOSIS \<and> qualifier \<noteq> 0)
     \<and> \<not> (usi \<noteq> PF_USI_QUALIFIED_CHANNEL_DIAGNOSIS \<and> severity = PNET_DIAG_CH_PROP_MAINT_QUALIFIED)
     \<and> \<not> (qualifier \<noteq> 0 \<and> severity \<noteq> PNET_DIAG_CH_PROP_MAINT_QUALIFIED)"

section \<open>Writing an item\<close>

text \<open>The copy of the manufacturer data; \<open>None\<close> if it reads behind the source.\<close>

definition copy_manuf :: "u16 \<Rightarrow> u8 list option \<Rightarrow> pf_diag_usi \<Rightarrow> pf_diag_usi option" where
  "copy_manuf n p_manuf f = do {
     bs \<leftarrow> (if n > 0 then do {
         m \<leftarrow> p_manuf;
         if unat n \<le> length m then copy_to 0 (take (unat n) m) (manuf_data f) else None }
       else Some (manuf_data f));
     Some (f\<lparr>usi_len := n, manuf_data := bs\<rparr>) }"

definition diag_write_item ::
  "pnet_diag_source \<Rightarrow> u16 \<Rightarrow> u16 \<Rightarrow> u16 \<Rightarrow> u16 \<Rightarrow> u32 \<Rightarrow> u32 \<Rightarrow> u16 \<Rightarrow> u16 \<Rightarrow> u8 list option
     \<Rightarrow> pf_diag_item \<Rightarrow> pf_diag_item option" where
  "diag_write_item src ch_bits severity err ext add_value qualifier usi n p_manuf it =
     (if usi < PF_USI_CHANNEL_DIAGNOSIS
      then do { f \<leftarrow> copy_manuf n p_manuf (fmt_usi it); Some (it\<lparr>di_usi := usi, fmt_usi := f\<rparr>) }
      else let
        p = PF_DIAG_CH_PROP_TYPE_SET ch_bits 0;
        p = PF_DIAG_CH_PROP_ACC_SET (if ch_grouping src = PNET_DIAG_CH_CHANNEL_GROUP then 1 else 0) p;
        p = PF_DIAG_CH_PROP_MAINT_SET severity p;
        p = PF_DIAG_CH_PROP_DIR_SET (ch_direction src) p;
        p = PF_DIAG_CH_PROP_SPEC_SET PF_DIAG_CH_PROP_SPEC_APPEARS p
      in Some (it\<lparr>di_usi := usi, fmt_std := \<lparr>ext_ch_add_value = add_value,
           qual_ch_qualifier = qualifier, ch_nbr = src_ch src, ch_properties = p,
           ch_error_type = err, ext_ch_error_type = ext\<rparr>\<rparr>))"

definition diag_set_spec :: "u16 \<Rightarrow> pf_diag_item \<Rightarrow> pf_diag_item" where
  "diag_set_spec v it = it\<lparr>fmt_std := (fmt_std it)\<lparr>ch_properties :=
     PF_DIAG_CH_PROP_SPEC_SET v (ch_properties (fmt_std it))\<rparr>\<rparr>"

text \<open>The item becomes the first of the list of its subslot.\<close>

definition diag_link :: "nat \<times> nat \<times> nat \<Rightarrow> u16 \<Rightarrow> pf_device \<Rightarrow> pf_device" where
  "diag_link = (\<lambda>(i, j, k) ix d.
     upd_subslot i j k (\<lambda>u. u\<lparr>diag_list := ix\<rparr>)
       (upd_item (unat ix) (\<lambda>it. it\<lparr>di_next := diag_list (the_subslot d i j k)\<rparr>) d))"

text \<open>
  The alarms for a new or changed item: one that it appears, and, if an item is replaced, one that
  the old one disappears. The AR is found only after the state of the submodule has been updated
  with the NULL pointer.
\<close>

definition diag_announce ::
  "pnet_diag_source \<Rightarrow> nat \<times> nat \<times> nat \<Rightarrow> u16 \<Rightarrow> pf_diag_item option \<Rightarrow> pnet \<Rightarrow> (int \<times> pnet) option" where
  "diag_announce src at ix old_item s = do {
     d \<leftarrow> pf_diag_update_submodule_state None at (net_device s);
     let s = s\<lparr>net_device := d\<rparr>;
     case pf_diag_find_first_ar s of
       None \<Rightarrow> Some (-1, s)
     | Some a \<Rightarrow> do {
         (ret, s) \<leftarrow> pf_alarm_send_diagnosis a (src_api src) (src_slot src) (src_subslot src)
           (Some (diag_items (net_device s) ! unat ix)) s;
         s \<leftarrow> pf_diag_update_station_problem_indicator a at s;
         case old_item of
           Some old \<Rightarrow>
             if di_usi old \<ge> PF_USI_CHANNEL_DIAGNOSIS
             then pf_alarm_send_diagnosis a (src_api src) (src_slot src) (src_subslot src)
               (Some (diag_set_spec PF_DIAG_CH_PROP_SPEC_DIS_OTHERS_REMAIN old)) s
             else Some (ret, s)
         | None \<Rightarrow> Some (ret, s) } }"

section \<open>Add, update, remove\<close>

definition pf_diag_add ::
  "pnet_diag_source \<Rightarrow> u16 \<Rightarrow> u16 \<Rightarrow> u16 \<Rightarrow> u16 \<Rightarrow> u32 \<Rightarrow> u32 \<Rightarrow> u16 \<Rightarrow> u16 \<Rightarrow> u8 list option
     \<Rightarrow> pnet \<Rightarrow> (int \<times> pnet) option" where
  "pf_diag_add src ch_bits severity err ext add_value qualifier usi n p_manuf s = (let
     qualifier = qualifier AND PF_DIAG_QUALIFIED_SEVERITY_MASK
   in if \<not> usi_args_ok usi err ext \<or> \<not> qualifier_args_ok usi severity qualifier
        \<or> \<not> manuf_args_ok (net_device s) usi add_value n p_manuf (src_ch src)
      then Some (-1, s)
      else do {
        (at, ix, d) \<leftarrow> pf_diag_find_entry src err ext usi (net_device s);
        case at of
          None \<Rightarrow> Some (-1, s\<lparr>net_device := d\<rparr>)
        | Some at \<Rightarrow> do {
            let overwrite = (ix \<noteq> PF_DIAG_IX_NULL);
            (r, ix, d) \<leftarrow> (if overwrite then Some (0, ix, d) else pf_cmdev_new_diag d);
            if r \<noteq> 0 then Some (-1, s\<lparr>net_device := d\<rparr>)
            else do {
              let old_item = diag_items d ! unat ix;
              it \<leftarrow> diag_write_item src ch_bits severity err ext add_value qualifier usi n p_manuf
                old_item;
              diag_announce src at ix (if overwrite then Some old_item else None)
                (s\<lparr>net_device := diag_link at ix (upd_item (unat ix) (\<lambda>_. it) d)\<rparr>) } } })"

definition diag_update_item :: "u32 \<Rightarrow> u16 \<Rightarrow> u8 list option \<Rightarrow> pf_diag_item \<Rightarrow> pf_diag_item option" where
  "diag_update_item add_value n p_manuf it =
     (if di_usi it < PF_USI_CHANNEL_DIAGNOSIS
      then do { f \<leftarrow> copy_manuf n p_manuf (fmt_usi it); Some (it\<lparr>fmt_usi := f\<rparr>) }
      else let it = diag_set_spec PF_DIAG_CH_PROP_SPEC_APPEARS it
        in Some (it\<lparr>fmt_std := (fmt_std it)\<lparr>ext_ch_add_value := add_value\<rparr>\<rparr>))"

definition pf_diag_update ::
  "pnet_diag_source \<Rightarrow> u16 \<Rightarrow> u16 \<Rightarrow> u32 \<Rightarrow> u16 \<Rightarrow> u16 \<Rightarrow> u8 list option \<Rightarrow> pnet \<Rightarrow> (int \<times> pnet) option" where
  "pf_diag_update src err ext add_value usi n p_manuf s =
     (if \<not> usi_args_ok usi err ext \<or> \<not> manuf_args_ok (net_device s) usi add_value n p_manuf (src_ch src)
      then Some (-1, s)
      else do {
        (at, ix, d) \<leftarrow> pf_diag_find_entry src err ext usi (net_device s);
        case at of
          None \<Rightarrow> Some (-1, s\<lparr>net_device := d\<rparr>)
        | Some at \<Rightarrow> (case pf_cmdev_get_diag_item d ix of
            None \<Rightarrow> Some (-1, s\<lparr>net_device := d\<rparr>)
          | Some m \<Rightarrow> do {
              let old_item = diag_items d ! m;
              it \<leftarrow> diag_update_item add_value n p_manuf old_item;
              diag_announce src at ix (Some old_item)
                (s\<lparr>net_device := diag_link at ix (upd_item m (\<lambda>_. it) d)\<rparr>) }) })"

text \<open>
  The item is out of its list when its alarm is composed, and is freed at the end in every case.
\<close>

definition diag_gone :: "bool \<Rightarrow> pf_diag_item \<Rightarrow> pf_diag_item" where
  "diag_gone others it =
     (if others
      then if di_usi it \<ge> PF_USI_CHANNEL_DIAGNOSIS
        then diag_set_spec PF_DIAG_CH_PROP_SPEC_DISAPPEARS it else it
      else diag_set_spec PF_DIAG_CH_PROP_SPEC_ALL_DISAPPEARS (it\<lparr>
        di_usi := PF_USI_EXTENDED_CHANNEL_DIAGNOSIS, fmt_std := (fmt_std it)\<lparr>ch_properties :=
          PF_DIAG_CH_PROP_MAINT_SET PNET_DIAG_CH_PROP_MAINT_FAULT (ch_properties (fmt_std it))\<rparr>\<rparr>))"

definition pf_diag_remove ::
  "pnet_diag_source \<Rightarrow> u16 \<Rightarrow> u16 \<Rightarrow> u16 \<Rightarrow> pnet \<Rightarrow> (int \<times> pnet) option" where
  "pf_diag_remove src err ext usi s =
     (if \<not> usi_args_ok usi err ext \<or> src_ch src > PNET_CHANNEL_WHOLE_SUBMODULE then Some (-1, s)
      else do {
        (at, ix, d) \<leftarrow> pf_diag_find_entry src err ext usi (net_device s);
        let s = s\<lparr>net_device := d\<rparr>;
        case at of
          None \<Rightarrow> Some (-1, s)
        | Some at \<Rightarrow>
            if ix = PF_DIAG_IX_NULL then Some (-1, s)
            else do {
              let p_ar = pf_diag_find_first_ar s;
              (ret, s) \<leftarrow> (case pf_cmdev_get_diag_item d ix of
                  None \<Rightarrow> Some (-1, s)
                | Some m \<Rightarrow> do {
                    (ret, s) \<leftarrow> (case p_ar of
                        None \<Rightarrow> Some (-1, s)
                      | Some a \<Rightarrow> (let
                          others = (diag_list (case at of (i, j, k) \<Rightarrow> the_subslot d i j k)
                            \<noteq> PF_DIAG_IX_NULL);
                          s = s\<lparr>net_device := upd_item m (diag_gone others) d\<rparr>
                        in if usi \<ge> PF_USI_CHANNEL_DIAGNOSIS
                           then pf_alarm_send_diagnosis a (src_api src) (src_slot src)
                             (src_subslot src) (Some (diag_items (net_device s) ! m)) s
                           else pf_alarm_send_usi_diagnosis_disappears a (src_api src) (src_slot src)
                             (src_subslot src) usi s));
                    d \<leftarrow> pf_diag_update_submodule_state p_ar at (net_device s);
                    Some (ret, s\<lparr>net_device := d\<rparr>) });
              let s = s\<lparr>net_device := pf_cmdev_free_diag (net_device s) ix\<rparr>;
              case p_ar of
                None \<Rightarrow> Some (ret, s)
              | Some a \<Rightarrow> do {
                  s \<leftarrow> pf_diag_update_station_problem_indicator a at s;
                  Some (ret, s) } } })"

section \<open>The functions for the application\<close>

definition pf_diag_get_preferred_usi :: "pnet \<Rightarrow> u16" where
  "pf_diag_get_preferred_usi s =
     (if w_use_qualified_diagnosis (net_world s) then PF_USI_QUALIFIED_CHANNEL_DIAGNOSIS
      else PF_USI_EXTENDED_CHANNEL_DIAGNOSIS)"

definition pf_diag_std_add ::
  "pnet_diag_source \<Rightarrow> u16 \<Rightarrow> u16 \<Rightarrow> u16 \<Rightarrow> u16 \<Rightarrow> u32 \<Rightarrow> u32 \<Rightarrow> pnet \<Rightarrow> (int \<times> pnet) option" where
  "pf_diag_std_add src ch_bits severity err ext add_value qualifier s =
     pf_diag_add src ch_bits severity err ext add_value qualifier (pf_diag_get_preferred_usi s) 0 None s"

definition pf_diag_std_update ::
  "pnet_diag_source \<Rightarrow> u16 \<Rightarrow> u16 \<Rightarrow> u32 \<Rightarrow> pnet \<Rightarrow> (int \<times> pnet) option" where
  "pf_diag_std_update src err ext add_value s =
     pf_diag_update src err ext add_value (pf_diag_get_preferred_usi s) 0 None s"

definition pf_diag_std_remove :: "pnet_diag_source \<Rightarrow> u16 \<Rightarrow> u16 \<Rightarrow> pnet \<Rightarrow> (int \<times> pnet) option" where
  "pf_diag_std_remove src err ext s = pf_diag_remove src err ext (pf_diag_get_preferred_usi s) s"

definition usi_source :: "u32 \<Rightarrow> u16 \<Rightarrow> u16 \<Rightarrow> pnet_diag_source" where
  "usi_source api slot_nbr subslot_nbr = \<lparr>src_api = api, src_slot = slot_nbr,
     src_subslot = subslot_nbr, src_ch = PNET_CHANNEL_WHOLE_SUBMODULE,
     ch_grouping = PNET_DIAG_CH_INDIVIDUAL_CHANNEL, ch_direction = PNET_DIAG_CH_PROP_DIR_MANUF_SPEC\<rparr>"

definition pf_diag_usi_add ::
  "u32 \<Rightarrow> u16 \<Rightarrow> u16 \<Rightarrow> u16 \<Rightarrow> u16 \<Rightarrow> u8 list option \<Rightarrow> pnet \<Rightarrow> (int \<times> pnet) option" where
  "pf_diag_usi_add api slot_nbr subslot_nbr usi n p_manuf s =
     (if usi \<ge> PF_USI_CHANNEL_DIAGNOSIS then Some (-1, s)
      else pf_diag_add (usi_source api slot_nbr subslot_nbr) PNET_DIAG_CH_PROP_TYPE_UNSPECIFIED
        PNET_DIAG_CH_PROP_MAINT_FAULT 0 0 0 0 usi n p_manuf s)"

definition pf_diag_usi_update ::
  "u32 \<Rightarrow> u16 \<Rightarrow> u16 \<Rightarrow> u16 \<Rightarrow> u16 \<Rightarrow> u8 list option \<Rightarrow> pnet \<Rightarrow> (int \<times> pnet) option" where
  "pf_diag_usi_update api slot_nbr subslot_nbr usi n p_manuf s =
     (if usi \<ge> PF_USI_CHANNEL_DIAGNOSIS then Some (-1, s)
      else pf_diag_update (usi_source api slot_nbr subslot_nbr) 0 0 0 usi n p_manuf s)"

definition pf_diag_usi_remove :: "u32 \<Rightarrow> u16 \<Rightarrow> u16 \<Rightarrow> u16 \<Rightarrow> pnet \<Rightarrow> (int \<times> pnet) option" where
  "pf_diag_usi_remove api slot_nbr subslot_nbr usi s =
     (if usi \<ge> PF_USI_CHANNEL_DIAGNOSIS then Some (-1, s)
      else pf_diag_remove (usi_source api slot_nbr subslot_nbr) 0 0 usi s)"

end
