(* ===== verification/Pn_Plug.thy ===== *)
theory Pn_Plug
  imports Pn_Alarm_Run
begin

text \<open>
  Plugging and pulling submodules and modules, the part of \<^verbatim>\<open>src/device/pf_cmdev.c\<close> that changes
  the tree of modules and queues an alarm for the controller.
\<close>

definition set_ident_info :: "u8 \<Rightarrow> pf_subslot \<Rightarrow> pf_subslot" where
  "set_ident_info v u = u\<lparr>submodule_state := (submodule_state u)\<lparr>ident_info := v\<rparr>\<rparr>"

definition locate_subslot :: "pf_device \<Rightarrow> u32 \<Rightarrow> u16 \<Rightarrow> u16 \<Rightarrow> (nat \<times> nat \<times> nat) option" where
  "locate_subslot d api slot_nbr subslot_nbr = do {
     i \<leftarrow> pf_cmdev_get_api d api;
     j \<leftarrow> pf_cmdev_get_slot (dev_apis d ! i) slot_nbr;
     k \<leftarrow> pf_cmdev_get_subslot (the_slot d i j) subslot_nbr;
     Some (i, j, k) }"

definition pf_cmdev_pull_submodule :: "u32 \<Rightarrow> u16 \<Rightarrow> u16 \<Rightarrow> pnet \<Rightarrow> (int \<times> pnet) option" where
  "pf_cmdev_pull_submodule api slot_nbr subslot_nbr s =
     (case locate_subslot (net_device s) api slot_nbr subslot_nbr of
        None \<Rightarrow> Some (-1, s)
      | Some (i, j, k) \<Rightarrow> (let
          s = on_dev (upd_subslot i j k
                (\<lambda>u. set_ident_info PF_SUBMOD_PLUG_NO (u\<lparr>ss_in_use := False\<rparr>))) s
        in pf_alarm_send_pull (ss_p_ar (the_subslot (net_device s) i j k)) api slot_nbr subslot_nbr s))"

text \<open>
  Whether the new submodule is the expected one, and the alarm that tells the controller. The
  submodule counts as proper when no connection owns the slot or the connection does not expect it.
\<close>

definition plug_announce ::
  "nat \<times> nat \<times> nat \<Rightarrow> nat option \<Rightarrow> pf_exp_submodule option \<Rightarrow> u32 \<Rightarrow> u16 \<Rightarrow> u16 \<Rightarrow> u32 \<Rightarrow> u32
     \<Rightarrow> pnet \<Rightarrow> (int \<times> pnet) option" where
  "plug_announce = (\<lambda>(i, j, k) p_ar p_exp_sub api slot_nbr subslot_nbr mod_id sub_id s.
     case p_exp_sub of
       None \<Rightarrow> Some (0, on_dev (upd_subslot i j k (set_ident_info PF_SUBMOD_PLUG_OK)) s)
     | Some e \<Rightarrow>
         if submodule_ident_number e = sub_id
         then pf_alarm_send_plug p_ar api slot_nbr subslot_nbr mod_id sub_id
           (on_dev (upd_subslot i j k (set_ident_info PF_SUBMOD_PLUG_OK)) s)
         else pf_alarm_send_plug_wrong p_ar api slot_nbr subslot_nbr mod_id sub_id
           (on_dev (upd_subslot i j k (set_ident_info PF_SUBMOD_PLUG_SUBSTITUTE)) s))"

text \<open>The last part of plugging, in the slot \<open>(i, j)\<close>.\<close>

definition plug_new_subslot ::
  "nat \<Rightarrow> nat \<Rightarrow> u32 \<Rightarrow> u16 \<Rightarrow> u16 \<Rightarrow> u32 \<Rightarrow> u32 \<Rightarrow> u8 \<Rightarrow> u16 \<Rightarrow> u16 \<Rightarrow> pnet \<Rightarrow> (int \<times> pnet) option" where
  "plug_new_subslot i j api slot_nbr subslot_nbr mod_id sub_id dir len_in len_out s =
     (case pf_cmdev_new_subslot (net_device s) i j subslot_nbr of
        (r, None, d) \<Rightarrow> Some (-1, s\<lparr>net_device := d\<rparr>)
      | (r, Some k, d) \<Rightarrow>
          if r \<noteq> 0 then Some (-1, s\<lparr>net_device := d\<rparr>)
          else do {
            let s = on_dev (upd_subslot i j k (\<lambda>u. u\<lparr>ss_submodule_ident_number := sub_id\<rparr>))
                      (s\<lparr>net_device := d\<rparr>);
            let p_ar = sl_p_ar (the_slot (net_device s) i j);
            p_exp_sub \<leftarrow> (case p_ar of None \<Rightarrow> Some None
              | Some a \<Rightarrow> pf_cmdev_get_exp_sub (cfg (net_ars s ! a)) api slot_nbr subslot_nbr);
            (ret, s) \<leftarrow> plug_announce (i, j, k) p_ar p_exp_sub api slot_nbr subslot_nbr mod_id sub_id s;
            Some (ret, on_dev (upd_subslot i j k (\<lambda>u. u\<lparr>
              submodule_state := (submodule_state u)\<lparr>format_indicator := True\<rparr>,
              direction := dir, length_input := len_in, length_output := len_out,
              ss_p_ar := sl_p_ar (the_slot (net_device s) i j)\<rparr>)) s) })"

text \<open>The first part of plugging, up to the creation of the subslot.\<close>

definition plug_prepare ::
  "nat \<Rightarrow> u32 \<Rightarrow> u16 \<Rightarrow> u16 \<Rightarrow> u32 \<Rightarrow> u32 \<Rightarrow> bool \<Rightarrow> pnet \<Rightarrow> (bool \<times> pnet) option" where
  "plug_prepare i api slot_nbr subslot_nbr mod_id sub_id update s =
     (case pf_cmdev_get_slot (dev_apis (net_device s) ! i) slot_nbr of
        None \<Rightarrow> Some (False, on_dev (\<lambda>d. snd (pf_cmdev_plug_module d api slot_nbr mod_id)) s)
      | Some j \<Rightarrow> (case pf_cmdev_get_subslot (the_slot (net_device s) i j) subslot_nbr of
          None \<Rightarrow> Some (False, s)
        | Some k \<Rightarrow>
            if update
            then do {
              (_, s) \<leftarrow> pf_cmdev_pull_submodule api slot_nbr subslot_nbr s;
              Some (False, on_dev (upd_subslot i j k (set_ident_info PF_SUBMOD_PLUG_NO)) s) }
            else if ss_submodule_ident_number (the_subslot (net_device s) i j k) = sub_id
            then Some (True, on_dev (upd_subslot i j k (set_ident_info PF_SUBMOD_PLUG_OK)) s)
            else Some (False, on_dev (upd_subslot i j k (set_ident_info PF_SUBMOD_PLUG_SUBSTITUTE)) s)))"

definition pf_cmdev_plug_submodule ::
  "u32 \<Rightarrow> u16 \<Rightarrow> u16 \<Rightarrow> u32 \<Rightarrow> u32 \<Rightarrow> u8 \<Rightarrow> u16 \<Rightarrow> u16 \<Rightarrow> bool \<Rightarrow> pnet \<Rightarrow> (int \<times> pnet) option" where
  "pf_cmdev_plug_submodule api slot_nbr subslot_nbr mod_id sub_id dir len_in len_out update s =
     (case pf_cmdev_get_api (net_device s) api of
        None \<Rightarrow> Some (-1, s)
      | Some i \<Rightarrow> do {
          (already_plugged, s) \<leftarrow> plug_prepare i api slot_nbr subslot_nbr mod_id sub_id update s;
          if already_plugged then Some (0, s)
          else case pf_cmdev_get_slot (dev_apis (net_device s) ! i) slot_nbr of
            None \<Rightarrow> Some (-1, s)
          | Some j \<Rightarrow>
              plug_new_subslot i j api slot_nbr subslot_nbr mod_id sub_id dir len_in len_out s })"

definition pf_cmdev_pull_module :: "u32 \<Rightarrow> u16 \<Rightarrow> pnet \<Rightarrow> (int \<times> pnet) option" where
  "pf_cmdev_pull_module api slot_nbr s =
     (case pf_cmdev_get_api (net_device s) api of
        None \<Rightarrow> Some (-1, s)
      | Some i \<Rightarrow> (case pf_cmdev_get_slot (dev_apis (net_device s) ! i) slot_nbr of
          None \<Rightarrow> Some (-1, s)
        | Some j \<Rightarrow> do {
            (ret, s) \<leftarrow> fold_m (\<lambda>k (ret, s). let u = the_subslot (net_device s) i j k in
              if ret = 0 \<and> ss_in_use u
              then do {
                (r, s) \<leftarrow> pf_cmdev_pull_submodule api slot_nbr (ss_subslot_nbr u) s;
                Some (if r \<noteq> 0 then -1 else ret, s) }
              else Some (ret, s)) [0..<length (subslots (the_slot (net_device s) i j))] (0, s);
            Some (ret, if ret = 0
              then on_dev (upd_slot i j (\<lambda>x. x\<lparr>sl_in_use := False,
                     plug_state := PF_MOD_PLUG_NO_MODULE\<rparr>)) s
              else s) }))"

end
