(* ===== verification/Pn_Device_Correct.thy ===== *)
theory Pn_Device_Correct
  imports Pn_Plug Pn_Demo
begin

text \<open>
  The tree of modules keeps its shape and its identifiers unique, whatever modules and submodules
  are plugged and pulled; so a search by API, slot and subslot number finds the submodule that is
  in use there. The alarms that plugging and pulling cause do not touch the tree.
\<close>

section \<open>The invariant\<close>

definition slot_ok :: "pf_slot \<Rightarrow> bool" where
  "slot_ok s \<longleftrightarrow> unique_by ss_subslot_nbr ss_in_use (subslots s)"

definition api_ok :: "pf_api \<Rightarrow> bool" where
  "api_ok a \<longleftrightarrow> unique_by sl_slot_nbr sl_in_use (slots a) \<and> (\<forall>s \<in> set (slots a). slot_ok s)"

definition device_ok :: "pf_device \<Rightarrow> bool" where
  "device_ok d \<longleftrightarrow> unique_by api_id api_in_use (dev_apis d) \<and> (\<forall>a \<in> set (dev_apis d). api_ok a)"

text \<open>The lengths of the arrays.\<close>

definition api_shape :: "pf_api \<Rightarrow> nat list" where
  "api_shape a = map (length \<circ> subslots) (slots a)"

definition device_shape :: "pf_device \<Rightarrow> nat list list \<times> nat" where
  "device_shape d = (map api_shape (dev_apis d), length (diag_items d))"

lemma not_in_use_ok [simp]:
  "slot_ok (zero_slot n)" "api_ok (zero_api ns)"
  by (auto simp: slot_ok_def api_ok_def zero_slot_def zero_api_def zero_subslot_def unique_by_def)

lemma zero_slot_length [simp]: "length (subslots (zero_slot n)) = n"
  by (simp add: zero_slot_def)

lemma zero_shape [simp]: "api_shape (zero_api ns) = ns"
  by (simp add: api_shape_def zero_api_def zero_slot_def comp_def)

section \<open>Updates\<close>

text \<open>An update of one place keeps the invariant if it keeps that of the place and does not put a
  new identifier into use.\<close>

lemma upd_api_ok:
  assumes "device_ok d"
    and "i < length (dev_apis d) \<Longrightarrow> api_ok (f (dev_apis d ! i)) \<and>
      (api_in_use (f (dev_apis d ! i)) \<longrightarrow>
        api_in_use (dev_apis d ! i) \<and> api_id (f (dev_apis d ! i)) = api_id (dev_apis d ! i))"
  shows "device_ok (upd_api i f d)"
proof (cases "i < length (dev_apis d)")
  case True
  have "unique_by api_id api_in_use ((dev_apis d)[i := f (dev_apis d ! i)])"
    using assms True by (auto simp: device_ok_def unique_by_def nth_list_update_if)
  then show ?thesis
    using assms True
    by (auto simp: device_ok_def upd_api_def dest!: subsetD [OF set_update_subset_insert])
qed (use assms in \<open>simp add: device_ok_def upd_api_def list_update_beyond\<close>)

lemma upd_slot_api_ok:
  assumes "api_ok a"
    and "j < length (slots a) \<Longrightarrow> slot_ok (f (slots a ! j)) \<and>
      (sl_in_use (f (slots a ! j)) \<longrightarrow>
        sl_in_use (slots a ! j) \<and> sl_slot_nbr (f (slots a ! j)) = sl_slot_nbr (slots a ! j))"
  shows "api_ok (a\<lparr>slots := (slots a)[j := f (slots a ! j)]\<rparr>)"
proof (cases "j < length (slots a)")
  case True
  have "unique_by sl_slot_nbr sl_in_use ((slots a)[j := f (slots a ! j)])"
    using assms True by (auto simp: api_ok_def unique_by_def nth_list_update_if)
  then show ?thesis
    using assms True by (auto simp: api_ok_def dest!: subsetD [OF set_update_subset_insert])
qed (use assms in \<open>simp add: api_ok_def list_update_beyond\<close>)

lemma upd_slot_ok:
  assumes "device_ok d"
    and "i < length (dev_apis d) \<Longrightarrow> j < length (slots (dev_apis d ! i)) \<Longrightarrow>
      slot_ok (f (the_slot d i j)) \<and> (sl_in_use (f (the_slot d i j)) \<longrightarrow>
        sl_in_use (the_slot d i j) \<and> sl_slot_nbr (f (the_slot d i j)) = sl_slot_nbr (the_slot d i j))"
  shows "device_ok (upd_slot i j f d)"
  unfolding upd_slot_def
  by (rule upd_api_ok [OF assms(1)])
     (use assms in \<open>auto intro!: upd_slot_api_ok simp: device_ok_def\<close>)

lemma device_ok_api: "device_ok d \<Longrightarrow> i < length (dev_apis d) \<Longrightarrow> api_ok (dev_apis d ! i)"
  unfolding device_ok_def by simp

lemma device_ok_slot:
  assumes "device_ok d" and "i < length (dev_apis d)" and "j < length (slots (dev_apis d ! i))"
  shows "slot_ok (the_slot d i j)"
  using device_ok_api [OF assms(1,2)] assms(3) unfolding api_ok_def by simp

lemma upd_subslot_ok:
  assumes "device_ok d"
    and f: "i < length (dev_apis d) \<Longrightarrow> j < length (slots (dev_apis d ! i)) \<Longrightarrow>
      k < length (subslots (the_slot d i j)) \<Longrightarrow> ss_in_use (f (the_subslot d i j k)) \<Longrightarrow>
        \<forall>k' < length (subslots (the_slot d i j)). k' \<noteq> k \<longrightarrow> ss_in_use (the_subslot d i j k') \<longrightarrow>
          ss_subslot_nbr (the_subslot d i j k') \<noteq> ss_subslot_nbr (f (the_subslot d i j k))"
  shows "device_ok (upd_subslot i j k f d)"
  unfolding upd_subslot_def
proof (rule upd_slot_ok [OF assms(1)], intro conjI)
  assume ij: "i < length (dev_apis d)" "j < length (slots (dev_apis d ! i))"
  have ok: "slot_ok (the_slot d i j)" using assms(1) ij by (rule device_ok_slot)
  have "unique_by ss_subslot_nbr ss_in_use ((subslots (the_slot d i j))[k := f (the_subslot d i j k)])"
  proof (cases "k < length (subslots (the_slot d i j))")
    case True
    then show ?thesis
      using ok f [OF ij True] by (auto simp: slot_ok_def unique_by_def nth_list_update_if)
  qed (use ok in \<open>simp add: slot_ok_def list_update_beyond\<close>)
  then show "slot_ok ((the_slot d i j)\<lparr>subslots := (subslots (the_slot d i j))[k := f (the_subslot d i j k)]\<rparr>)"
    by (simp add: slot_ok_def)
qed simp

lemma upd_subslot_same_ok:
  assumes "device_ok d"
    and "\<And>u. ss_in_use (f u) \<Longrightarrow> ss_in_use u \<and> ss_subslot_nbr (f u) = ss_subslot_nbr u"
  shows "device_ok (upd_subslot i j k f d)"
proof (rule upd_subslot_ok [OF assms(1)])
  assume ij: "i < length (dev_apis d)" "j < length (slots (dev_apis d ! i))"
    "k < length (subslots (the_slot d i j))" "ss_in_use (f (the_subslot d i j k))"
  then show "\<forall>k' < length (subslots (the_slot d i j)). k' \<noteq> k \<longrightarrow> ss_in_use (the_subslot d i j k') \<longrightarrow>
      ss_subslot_nbr (the_subslot d i j k') \<noteq> ss_subslot_nbr (f (the_subslot d i j k))"
    using device_ok_slot [OF assms(1) ij(1,2)] assms(2) [OF ij(4)]
    unfolding slot_ok_def unique_by_def by metis
qed

lemma shape_upd:
  "(\<And>a. api_shape (f a) = api_shape a) \<Longrightarrow> device_shape (upd_api i f d) = device_shape d"
  "(\<And>s. length (subslots (g s)) = length (subslots s)) \<Longrightarrow> device_shape (upd_slot i j g d) = device_shape d"
  "device_shape (upd_subslot i j k h d) = device_shape d"
  by (auto simp: device_shape_def api_shape_def upd_api_def upd_slot_def upd_subslot_def map_update
      list_update_same_conv nth_list_update_if list_eq_iff_nth_eq)

text \<open>What every operation on the tree keeps.\<close>

definition keeps :: "pf_device \<Rightarrow> pf_device \<Rightarrow> bool" where
  "keeps d d' \<longleftrightarrow> (device_ok d \<longrightarrow> device_ok d') \<and> device_shape d' = device_shape d"

lemma keeps_refl [simp, intro]: "keeps d d"
  by (simp add: keeps_def)

lemma keeps_trans: "keeps d d' \<Longrightarrow> keeps d' d'' \<Longrightarrow> keeps d d''"
  by (simp add: keeps_def)

lemma keeps_subslot:
  "(\<And>u. ss_in_use (f u) \<Longrightarrow> ss_in_use u \<and> ss_subslot_nbr (f u) = ss_subslot_nbr u) \<Longrightarrow>
     keeps d (upd_subslot i j k f d)"
  by (simp add: keeps_def shape_upd upd_subslot_same_ok)

lemma keeps_slot:
  "(\<And>s. subslots (f s) = subslots s) \<Longrightarrow>
   (\<And>s. sl_in_use (f s) \<Longrightarrow> sl_in_use s \<and> sl_slot_nbr (f s) = sl_slot_nbr s) \<Longrightarrow>
     keeps d (upd_slot i j f d)"
  by (auto simp: keeps_def shape_upd slot_ok_def intro!: upd_slot_ok dest: device_ok_slot)

lemmas keeps_then_slot = keeps_trans [OF _ keeps_slot]

section \<open>Creation\<close>

lemma new_api_keeps: "keeps d (snd (snd (pf_cmdev_new_api d api)))"
proof (cases "find_ix (\<lambda>a. \<not> api_in_use a) (dev_apis d)")
  case (Some i)
  show ?thesis
  proof (cases "pf_cmdev_get_api d api")
    case None
    let ?x = "(zero_api (map (length \<circ> subslots) (slots (dev_apis d ! i))))\<lparr>api_id := api, api_in_use := True\<rparr>"
    have x: "api_shape ?x = api_shape (dev_apis d ! i)" "api_ok ?x"
      by (auto simp: api_shape_def zero_api_def zero_slot_def comp_def api_ok_def slot_ok_def
          zero_subslot_def unique_by_def)
    have "device_ok d \<Longrightarrow> unique_by api_id api_in_use ((dev_apis d)[i := ?x])"
      using None by (intro unique_by_new)
        (auto simp: device_ok_def pf_cmdev_get_api_def find_ix_None)
    then show ?thesis
      using None Some x
      by (auto simp: pf_cmdev_new_api_def keeps_def device_ok_def device_shape_def upd_api_def map_update
          list_update_same_conv dest!: find_ix_Some subsetD [OF set_update_subset_insert])
  qed (simp add: pf_cmdev_new_api_def)
qed (auto simp: pf_cmdev_new_api_def split: option.splits)

lemma new_slot_keeps: "keeps d (snd (snd (pf_cmdev_new_slot d i slot_nbr)))"
proof (cases "pf_cmdev_get_slot (dev_apis d ! i) slot_nbr")
  case None
  show ?thesis
  proof (cases "find_ix (\<lambda>s. \<not> sl_in_use s) (slots (dev_apis d ! i))")
    case (Some j)
    let ?f = "\<lambda>s. (zero_slot (length (subslots s)))\<lparr>sl_slot_nbr := slot_nbr, sl_in_use := True\<rparr>"
    have f: "slot_ok (?f s)" "length (subslots (?f s)) = length (subslots s)" for s
      by (auto simp: slot_ok_def zero_slot_def zero_subslot_def unique_by_def)
    have "device_ok (upd_slot i j ?f d)" if "device_ok d"
      unfolding upd_slot_def
    proof (rule upd_api_ok [OF that], intro conjI)
      assume "i < length (dev_apis d)"
      then have a: "api_ok (dev_apis d ! i)" using that by (intro device_ok_api)
      have "unique_by sl_slot_nbr sl_in_use ((slots (dev_apis d ! i))[j := ?f (the_slot d i j)])"
        using None a by (intro unique_by_new) (auto simp: api_ok_def pf_cmdev_get_slot_def find_ix_None)
      then show "api_ok ((dev_apis d ! i)\<lparr>slots := (slots (dev_apis d ! i))[j := ?f (the_slot d i j)]\<rparr>)"
        using a f by (auto simp: api_ok_def dest!: subsetD [OF set_update_subset_insert])
    qed simp
    then show ?thesis
      using None Some by (simp add: pf_cmdev_new_slot_def keeps_def shape_upd f)
  qed (use None in \<open>simp add: pf_cmdev_new_slot_def\<close>)
qed (simp add: pf_cmdev_new_slot_def)

lemma new_subslot_keeps: "keeps d (snd (snd (pf_cmdev_new_subslot d i j subslot_nbr)))"
proof (cases "pf_cmdev_get_subslot (the_slot d i j) subslot_nbr")
  case None
  then have new: "\<forall>u \<in> set (subslots (the_slot d i j)). ss_in_use u \<longrightarrow> ss_subslot_nbr u \<noteq> subslot_nbr"
    by (auto simp: pf_cmdev_get_subslot_def find_ix_None)
  have "device_ok (upd_subslot i j k (\<lambda>_. zero_subslot\<lparr>ss_subslot_nbr := subslot_nbr,
      diag_list := PF_DIAG_IX_NULL, ss_in_use := True\<rparr>) d)" if "device_ok d" for k
    using that by (rule upd_subslot_ok) (use new in auto)
  then show ?thesis
    using None by (auto simp: pf_cmdev_new_subslot_def keeps_def shape_upd split: option.splits)
qed (simp add: pf_cmdev_new_subslot_def)

lemma plug_module_keeps: "keeps d (snd (pf_cmdev_plug_module d api slot_nbr ident))"
proof (cases "pf_cmdev_get_api d api")
  case (Some i)
  then show ?thesis
    using new_slot_keeps [of d i slot_nbr]
    by (cases "pf_cmdev_new_slot d i slot_nbr")
      (auto simp: pf_cmdev_plug_module_def keeps_slot split: option.splits intro!: keeps_then_slot)
qed (simp add: pf_cmdev_plug_module_def)

lemma device_clear_keeps: "keeps d (pf_device_clear a d)"
  by (auto simp: keeps_def pf_device_clear_def device_ok_def api_ok_def slot_ok_def unique_by_def
      device_shape_def api_shape_def)

lemma init_keeps:
  assumes "pf_cmdev_init d = Some d'"
  shows "device_ok d' \<and> device_shape d' = device_shape d"
proof -
  define z where "z = d\<lparr>dev_apis := map (\<lambda>a. zero_api (map (length \<circ> subslots) (slots a))) (dev_apis d),
    diag_items_free := 0, diag_items := map (\<lambda>ix. (zero_diag_item (length (manuf_data (fmt_usi (diag_items d ! ix)))))
      \<lparr>di_next := (if ix < length (diag_items d) - 1 then of_nat (ix + 1) else PF_DIAG_IX_NULL)\<rparr>)
      [0..<length (diag_items d)]\<rparr>"
  have "\<not> api_in_use (zero_api ns)" for ns by (simp add: zero_api_def)
  then have "device_ok z" "device_shape z = device_shape d"
    by (auto simp: z_def device_ok_def unique_by_def device_shape_def api_shape_def [symmetric])
  moreover have "d' = snd (snd (pf_cmdev_new_api z 0))"
    using assms by (simp add: pf_cmdev_init_def Let_def z_def split: if_splits)
  ultimately show ?thesis
    using new_api_keeps [of z 0] by (simp add: keeps_def)
qed

section \<open>Alarms do not touch the tree\<close>

lemma send_alarm_device:
  "pf_alarm_send_alarm p_ar ty hp api sl su m u usi n pl s = Some (r, s') \<Longrightarrow> net_device s' = net_device s"
  by (auto simp: pf_alarm_send_alarm_def upd_ar_def Let_def bind_eq_Some_conv case_prod_unfold
      split: if_splits option.splits)

lemma send_pull_device:
  "pf_alarm_send_pull p_ar api sl su s = Some (r, s') \<Longrightarrow> net_device s' = net_device s \<and> r = 0"
  by (auto simp: pf_alarm_send_pull_def bind_eq_Some_conv dest!: send_alarm_device)

lemma send_plug_device:
  "pf_alarm_send_plug p_ar api sl su m u s = Some (r, s') \<Longrightarrow> net_device s' = net_device s \<and> r = 0"
  "pf_alarm_send_plug_wrong p_ar api sl su m u s = Some (r, s') \<Longrightarrow> net_device s' = net_device s \<and> r = 0"
  by (auto simp: pf_alarm_send_plug_def pf_alarm_send_plug_wrong_def bind_eq_Some_conv
      dest!: send_alarm_device)

section \<open>Plugging and pulling\<close>

lemma on_dev_device [simp]: "net_device (on_dev f s) = f (net_device s)"
  by (simp add: on_dev_def)

lemma keeps_ident_info: "keeps d (upd_subslot i j k (set_ident_info v) d)"
  by (rule keeps_subslot) (simp add: set_ident_info_def)

lemma pull_submodule_device:
  assumes "pf_cmdev_pull_submodule api slot_nbr subslot_nbr s = Some (r, s')"
  obtains "locate_subslot (net_device s) api slot_nbr subslot_nbr = None" "r = -1" "s' = s"
  | i j k where "locate_subslot (net_device s) api slot_nbr subslot_nbr = Some (i, j, k)" "r = 0"
      "net_device s' = upd_subslot i j k
        (\<lambda>u. set_ident_info PF_SUBMOD_PLUG_NO (u\<lparr>ss_in_use := False\<rparr>)) (net_device s)"
  using assms
  by (auto simp: pf_cmdev_pull_submodule_def Let_def split: option.splits dest!: send_pull_device)

lemma pull_submodule_keeps:
  assumes "pf_cmdev_pull_submodule api slot_nbr subslot_nbr s = Some (r, s')"
  shows "keeps (net_device s) (net_device s')"
  using assms by (rule pull_submodule_device) (auto intro!: keeps_subslot simp: set_ident_info_def)

text \<open>A preorder on the tree that holds for every pulled submodule and for a slot that is given up
  holds for a pulled module.\<close>

lemma pull_module_device:
  assumes "pf_cmdev_pull_module api slot_nbr s = Some (r, s')"
    and refl: "\<And>d. R d d" and trans: "\<And>d d' d''. R d d' \<Longrightarrow> R d' d'' \<Longrightarrow> R d d''"
    and pull: "\<And>su s r s'. pf_cmdev_pull_submodule api slot_nbr su s = Some (r, s') \<Longrightarrow>
      R (net_device s) (net_device s')"
    and slot: "\<And>i j v d. R d (upd_slot i j (\<lambda>x. x\<lparr>sl_in_use := False, plug_state := v\<rparr>) d)"
  shows "R (net_device s) (net_device s')"
proof -
  have loop: "fold_m (\<lambda>k (ret, s). let u = the_subslot (net_device s) i j k in
      if ret = 0 \<and> ss_in_use u
      then do { (r, s) \<leftarrow> pf_cmdev_pull_submodule api slot_nbr (ss_subslot_nbr u) s;
                Some (if r \<noteq> 0 then -1 else ret, s) }
      else Some (ret, s)) ks (r0, s) = Some (r1, s1) \<Longrightarrow> R (net_device s) (net_device s1)"
    for i j ks and r0 r1 :: int and s s1
  proof (induction ks arbitrary: r0 s)
    case (Cons k ks)
    then show ?case
      by (fastforce simp: Let_def bind_eq_Some_conv split: if_splits prod.splits dest: pull intro: trans)
  qed (auto intro: refl)
  show ?thesis
    using assms(1)
    by (auto simp: pf_cmdev_pull_module_def bind_eq_Some_conv refl split: option.splits if_splits
        dest!: loop intro: trans [OF _ slot])
qed

lemma pull_module_keeps:
  "pf_cmdev_pull_module api slot_nbr s = Some (r, s') \<Longrightarrow> keeps (net_device s) (net_device s')"
  by (erule pull_module_device [where R = keeps])
    (auto intro: keeps_trans keeps_slot dest: pull_submodule_keeps)

section \<open>The places in use\<close>

definition subslot_used :: "pf_device \<Rightarrow> nat \<Rightarrow> nat \<Rightarrow> nat \<Rightarrow> bool" where
  "subslot_used d i j k \<longleftrightarrow> i < length (dev_apis d) \<and> api_in_use (dev_apis d ! i)
     \<and> j < length (slots (dev_apis d ! i)) \<and> sl_in_use (the_slot d i j)
     \<and> k < length (subslots (the_slot d i j)) \<and> ss_in_use (the_subslot d i j k)"

abbreviation address :: "pf_device \<Rightarrow> nat \<Rightarrow> nat \<Rightarrow> nat \<Rightarrow> u32 \<times> u16 \<times> u16" where
  "address d i j k \<equiv> (api_id (dev_apis d ! i), sl_slot_nbr (the_slot d i j),
     ss_subslot_nbr (the_subslot d i j k))"

lemma locate_used:
  assumes "device_ok d" and "subslot_used d i j k" and "address d i j k = (api, slot_nbr, subslot_nbr)"
  shows "locate_subslot d api slot_nbr subslot_nbr = Some (i, j, k)"
proof -
  have "pf_cmdev_get_api d api = Some i"
    using assms unique_by_find_ix [of api_id api_in_use "dev_apis d" i]
    by (auto simp: subslot_used_def device_ok_def pf_cmdev_get_api_def)
  moreover have "pf_cmdev_get_slot (dev_apis d ! i) slot_nbr = Some j"
    using assms device_ok_api [of d i] unique_by_find_ix [of sl_slot_nbr sl_in_use "slots (dev_apis d ! i)" j]
    by (auto simp: subslot_used_def api_ok_def pf_cmdev_get_slot_def)
  moreover have "pf_cmdev_get_subslot (the_slot d i j) subslot_nbr = Some k"
    using assms device_ok_slot [of d i j]
      unique_by_find_ix [of ss_subslot_nbr ss_in_use "subslots (the_slot d i j)" k]
    by (auto simp: subslot_used_def slot_ok_def pf_cmdev_get_subslot_def)
  ultimately show ?thesis by (simp add: locate_subslot_def)
qed

lemma locate_is_used:
  assumes "locate_subslot d api slot_nbr subslot_nbr = Some (i, j, k)"
  shows "subslot_used d i j k \<and> address d i j k = (api, slot_nbr, subslot_nbr)"
  using assms
  by (auto simp: locate_subslot_def bind_eq_Some_conv pf_cmdev_get_api_def pf_cmdev_get_slot_def
      pf_cmdev_get_subslot_def subslot_used_def dest!: find_ix_Some)

lemma locate_iff:
  "device_ok d \<Longrightarrow> locate_subslot d api slot_nbr subslot_nbr = Some (i, j, k) \<longleftrightarrow>
     subslot_used d i j k \<and> address d i j k = (api, slot_nbr, subslot_nbr)"
  using locate_used locate_is_used by blast

text \<open>What an update of one subslot leaves.\<close>

lemma slots_upd_subslot:
  "length (dev_apis (upd_subslot i j k f d)) = length (dev_apis d)"
  "api_in_use (dev_apis (upd_subslot i j k f d) ! i') = api_in_use (dev_apis d ! i')"
  "api_id (dev_apis (upd_subslot i j k f d) ! i') = api_id (dev_apis d ! i')"
  "length (slots (dev_apis (upd_subslot i j k f d) ! i')) = length (slots (dev_apis d ! i'))"
  "sl_in_use (the_slot (upd_subslot i j k f d) i' j') = sl_in_use (the_slot d i' j')"
  "sl_slot_nbr (the_slot (upd_subslot i j k f d) i' j') = sl_slot_nbr (the_slot d i' j')"
  "length (subslots (the_slot (upd_subslot i j k f d) i' j')) = length (subslots (the_slot d i' j'))"
  by (cases "i < length (dev_apis d)"; cases "i' = i"; cases "j < length (slots (dev_apis d ! i))"; cases "j' = j";
      simp add: upd_subslot_def upd_slot_def upd_api_def list_update_beyond)+

lemma the_subslot_upd:
  "the_subslot (upd_subslot i j k f d) i' j' k' =
     (if i' = i \<and> j' = j \<and> k' = k \<and> i < length (dev_apis d) \<and> j < length (slots (dev_apis d ! i))
         \<and> k < length (subslots (the_slot d i j))
      then f (the_subslot d i j k) else the_subslot d i' j' k')"
  by (cases "i < length (dev_apis d)"; cases "i' = i"; cases "j < length (slots (dev_apis d ! i))"; cases "j' = j";
      cases "k < length (subslots (the_slot d i j))"; cases "k' = k";
      simp add: upd_subslot_def upd_slot_def upd_api_def list_update_beyond)

text \<open>All places in use but \<open>p\<close> are as they were.\<close>

definition others_same :: "nat \<times> nat \<times> nat \<Rightarrow> pf_device \<Rightarrow> pf_device \<Rightarrow> bool" where
  "others_same p d d' \<longleftrightarrow> (\<forall>i j k. subslot_used d i j k \<and> (i, j, k) \<noteq> p \<longrightarrow>
     subslot_used d' i j k \<and> the_subslot d' i j k = the_subslot d i j k \<and>
     sl_slot_nbr (the_slot d' i j) = sl_slot_nbr (the_slot d i j) \<and>
     api_id (dev_apis d' ! i) = api_id (dev_apis d ! i))"

lemma others_same_refl [simp, intro]: "others_same p d d"
  by (simp add: others_same_def)

lemma others_same_trans: "others_same p d d' \<Longrightarrow> others_same p d' d'' \<Longrightarrow> others_same p d d''"
  unfolding others_same_def by metis

lemma others_same_upd: "others_same (i, j, k) d (upd_subslot i j k f d)"
  by (auto simp: others_same_def subslot_used_def upd_subslot_def upd_slot_def upd_api_def
      nth_list_update_if)

lemmas others_same_then_upd = others_same_trans [OF _ others_same_upd]

lemma others_same_new_slot:
  "pf_cmdev_new_slot d i slot_nbr = (r, j, d') \<Longrightarrow> others_same p d d'"
  by (auto simp: pf_cmdev_new_slot_def others_same_def subslot_used_def upd_slot_def upd_api_def
      nth_list_update_if split: option.splits if_splits dest!: find_ix_Some find_ix_Some [OF sym])

lemma others_same_plug_module: "others_same p d (snd (pf_cmdev_plug_module d api slot_nbr ident))"
proof (cases "pf_cmdev_get_api d api")
  case (Some i)
  have upd: "(\<And>s. subslots (f s) = subslots s \<and> sl_in_use (f s) = sl_in_use s \<and> sl_slot_nbr (f s) = sl_slot_nbr s)
      \<Longrightarrow> others_same p d (upd_slot i j f d)" for j f d
    by (auto simp: others_same_def subslot_used_def upd_slot_def upd_api_def nth_list_update_if)
  obtain r j d' where n: "pf_cmdev_new_slot d i slot_nbr = (r, j, d')"
    by (cases "pf_cmdev_new_slot d i slot_nbr")
  then show ?thesis
    using Some others_same_new_slot [OF n, of p]
    by (auto simp: pf_cmdev_plug_module_def upd split: option.splits intro!: others_same_trans [OF _ upd])
qed (simp add: pf_cmdev_plug_module_def)

section \<open>Plugging a submodule\<close>

lemma new_subslot_result:
  assumes "pf_cmdev_new_subslot d i j subslot_nbr = (0, Some k, d')"
  shows "k < length (subslots (the_slot d i j)) \<and> \<not> ss_in_use (the_subslot d i j k) \<and>
    d' = upd_subslot i j k (\<lambda>_. zero_subslot\<lparr>ss_subslot_nbr := subslot_nbr, diag_list := PF_DIAG_IX_NULL,
      ss_in_use := True\<rparr>) d"
  using assms
  by (auto simp: pf_cmdev_new_subslot_def split: option.splits dest!: find_ix_Some find_ix_Some [OF sym])

text \<open>What the last part of plugging leaves in the tree.\<close>

lemma upd_subslot_twice: "upd_subslot i j k f (upd_subslot i j k g d) = upd_subslot i j k (\<lambda>u. f (g u)) d"
  if "i < length (dev_apis d)" "j < length (slots (dev_apis d ! i))" "k < length (subslots (the_slot d i j))"
  using that by (simp add: upd_subslot_def upd_slot_def upd_api_def)

definition plugged :: "u16 \<Rightarrow> u32 \<Rightarrow> u8 \<Rightarrow> u16 \<Rightarrow> u16 \<Rightarrow> nat option \<Rightarrow> pf_subslot \<Rightarrow> bool" where
  "plugged subslot_nbr sub_id dir len_in len_out p_ar u \<longleftrightarrow> ss_in_use u \<and> ss_subslot_nbr u = subslot_nbr
     \<and> ss_submodule_ident_number u = sub_id \<and> direction u = dir \<and> length_input u = len_in
     \<and> length_output u = len_out \<and> ss_p_ar u = p_ar \<and> diag_list u = PF_DIAG_IX_NULL
     \<and> ident_info (submodule_state u) \<in> {PF_SUBMOD_PLUG_OK, PF_SUBMOD_PLUG_SUBSTITUTE}"

lemma plug_announce_device:
  assumes "plug_announce (i, j, k) p_ar e api slot_nbr subslot_nbr mod_id sub_id s = Some (r, s')"
  shows "r = 0 \<and> (\<exists>v \<in> {PF_SUBMOD_PLUG_OK, PF_SUBMOD_PLUG_SUBSTITUTE}.
    net_device s' = upd_subslot i j k (set_ident_info v) (net_device s))"
  using assms
  by (auto simp: plug_announce_def split: option.splits if_splits dest!: send_plug_device)

lemma plug_new_subslot_device:
  assumes "plug_new_subslot i j api slot_nbr subslot_nbr mod_id sub_id dir len_in len_out s = Some (r, s')"
    and ij: "i < length (dev_apis (net_device s))" "j < length (slots (dev_apis (net_device s) ! i))"
  obtains "r = -1" "net_device s' = net_device s"
  | k u where "r = 0" "k < length (subslots (the_slot (net_device s) i j))"
      "\<not> ss_in_use (the_subslot (net_device s) i j k)"
      "pf_cmdev_get_subslot (the_slot (net_device s) i j) subslot_nbr = None"
      "net_device s' = upd_subslot i j k (\<lambda>_. u) (net_device s)"
      "plugged subslot_nbr sub_id dir len_in len_out (sl_p_ar (the_slot (net_device s) i j)) u"
proof (cases "pf_cmdev_get_subslot (the_slot (net_device s) i j) subslot_nbr")
  case (Some k)
  then show ?thesis
    using assms(1) that(1) by (simp add: plug_new_subslot_def pf_cmdev_new_subslot_def)
next
  case None
  show ?thesis
  proof (cases "find_ix (\<lambda>u. \<not> ss_in_use u) (subslots (the_slot (net_device s) i j))")
    case n: None
    then show ?thesis
      using None assms(1) that(1) by (simp add: plug_new_subslot_def pf_cmdev_new_subslot_def)
  next
    case (Some k)
    define d where "d = net_device s"
    have k: "k < length (subslots (the_slot d i j))" "\<not> ss_in_use (the_subslot d i j k)"
      using find_ix_Some [OF Some] by (auto simp: d_def)
    have ij': "i < length (dev_apis d)" "j < length (slots (dev_apis d ! i))"
      using ij by (auto simp: d_def)
    have n: "pf_cmdev_new_subslot d i j subslot_nbr = (0, Some k, upd_subslot i j k
        (\<lambda>_. zero_subslot\<lparr>ss_subslot_nbr := subslot_nbr, diag_list := PF_DIAG_IX_NULL, ss_in_use := True\<rparr>) d)"
      using None Some by (simp add: pf_cmdev_new_subslot_def d_def)
    have sl: "sl_p_ar (the_slot (upd_subslot i j k f d) i j) = sl_p_ar (the_slot d i j)" for f
      using ij' by (simp add: upd_subslot_def upd_slot_def upd_api_def)
    have "r = 0 \<and> (\<exists>u. net_device s' = upd_subslot i j k (\<lambda>_. u) d \<and>
        plugged subslot_nbr sub_id dir len_in len_out (sl_p_ar (the_slot d i j)) u)"
      using assms(1) n ij' k
      by (auto simp: plug_new_subslot_def d_def [symmetric] Let_def bind_eq_Some_conv upd_subslot_twice sl
          set_ident_info_def plugged_def zero_subslot_def
          dest!: plug_announce_device)
    then show ?thesis using that(2) None k by (auto simp: d_def)
  qed
qed

text \<open>All submodules at other addresses are as they were.\<close>

definition others_kept :: "u32 \<times> u16 \<times> u16 \<Rightarrow> pf_device \<Rightarrow> pf_device \<Rightarrow> bool" where
  "others_kept at d d' \<longleftrightarrow> (\<forall>i j k. subslot_used d i j k \<and> address d i j k \<noteq> at \<longrightarrow>
     subslot_used d' i j k \<and> address d' i j k = address d i j k \<and>
     the_subslot d' i j k = the_subslot d i j k)"

lemma others_kept_refl [simp, intro]: "others_kept at d d"
  by (simp add: others_kept_def)

lemma others_kept_trans: "others_kept at d d' \<Longrightarrow> others_kept at d' d'' \<Longrightarrow> others_kept at d d''"
  unfolding others_kept_def by metis

lemma others_kept_same:
  assumes "others_same (i, j, k) d d'" and "subslot_used d i j k \<Longrightarrow> address d i j k = at"
  shows "others_kept at d d'"
  unfolding others_kept_def
proof (intro allI impI)
  fix i' j' k' assume u: "subslot_used d i' j' k' \<and> address d i' j' k' \<noteq> at"
  then have "(i', j', k') \<noteq> (i, j, k)" using assms(2) by auto
  then show "subslot_used d' i' j' k' \<and> address d' i' j' k' = address d i' j' k' \<and>
      the_subslot d' i' j' k' = the_subslot d i' j' k'"
    using assms(1) [unfolded others_same_def, rule_format, of i' j' k'] u by simp
qed

lemma others_kept_upd:
  assumes "subslot_used d i j k \<Longrightarrow> address d i j k = at"
  shows "others_kept at d (upd_subslot i j k f d)"
  using others_same_upd assms by (rule others_kept_same)

lemma others_kept_plug_module: "others_kept at d (snd (pf_cmdev_plug_module d api slot_nbr ident))"
  using others_same_plug_module [of "(length (dev_apis d), 0, 0)"]
  by (rule others_kept_same) (simp add: subslot_used_def)

lemma pull_submodule_others:
  assumes "pf_cmdev_pull_submodule api slot_nbr subslot_nbr s = Some (r, s')"
  shows "others_kept (api, slot_nbr, subslot_nbr) (net_device s) (net_device s')"
  using assms
  by (rule pull_submodule_device) (auto intro!: others_kept_upd dest: locate_is_used)

lemma plug_prepare_device:
  assumes "plug_prepare i api slot_nbr subslot_nbr mod_id sub_id update s = Some (b, s')"
    and api: "pf_cmdev_get_api (net_device s) api = Some i"
  shows "keeps (net_device s) (net_device s')"
    and "others_kept (api, slot_nbr, subslot_nbr) (net_device s) (net_device s')"
    and "b \<Longrightarrow> \<exists>j k. locate_subslot (net_device s) api slot_nbr subslot_nbr = Some (i, j, k) \<and>
      ss_submodule_ident_number (the_subslot (net_device s) i j k) = sub_id \<and>
      net_device s' = upd_subslot i j k (set_ident_info PF_SUBMOD_PLUG_OK) (net_device s)"
proof -
  have at: "address (net_device s) i j k = (api, slot_nbr, subslot_nbr)"
    if "pf_cmdev_get_slot (dev_apis (net_device s) ! i) slot_nbr = Some j"
      "pf_cmdev_get_subslot (the_slot (net_device s) i j) subslot_nbr = Some k" for j k
    using that api locate_is_used [of "net_device s" api slot_nbr subslot_nbr i j k]
    by (simp add: locate_subslot_def)
  have "keeps (net_device s) (upd_subslot i j k (set_ident_info v) (net_device s1))"
    if "pf_cmdev_pull_submodule api slot_nbr subslot_nbr s = Some (r, s1)" for r s1 j k v
    using pull_submodule_keeps [OF that] keeps_ident_info by (rule keeps_trans)
  then show "keeps (net_device s) (net_device s')"
    using assms by (auto simp: plug_prepare_def bind_eq_Some_conv plug_module_keeps keeps_ident_info
        split: option.splits if_splits)
  show "b \<Longrightarrow> \<exists>j k. locate_subslot (net_device s) api slot_nbr subslot_nbr = Some (i, j, k) \<and>
      ss_submodule_ident_number (the_subslot (net_device s) i j k) = sub_id \<and>
      net_device s' = upd_subslot i j k (set_ident_info PF_SUBMOD_PLUG_OK) (net_device s)"
    using assms by (auto simp: plug_prepare_def locate_subslot_def bind_eq_Some_conv
        split: option.splits if_splits)
  have pulled: "others_kept (api, slot_nbr, subslot_nbr) (net_device s) (upd_subslot i j k f (net_device s1))"
    if "pf_cmdev_pull_submodule api slot_nbr subslot_nbr s = Some (r, s1)"
      "pf_cmdev_get_slot (dev_apis (net_device s) ! i) slot_nbr = Some j"
      "pf_cmdev_get_subslot (the_slot (net_device s) i j) subslot_nbr = Some k" for r s1 j k f
    using that(1)
  proof (rule pull_submodule_device)
    fix i' j' k'
    assume l: "locate_subslot (net_device s) api slot_nbr subslot_nbr = Some (i', j', k')"
      and d: "net_device s1 = upd_subslot i' j' k'
        (\<lambda>u. set_ident_info PF_SUBMOD_PLUG_NO (u\<lparr>ss_in_use := False\<rparr>)) (net_device s)"
    then have "i' = i" "j' = j" "k' = k" using that api by (auto simp: locate_subslot_def)
    then show ?thesis
      using d at [OF that(2,3)] locate_is_used [OF l]
      by (simp add: subslot_used_def upd_subslot_twice others_kept_upd)
  qed (use that api in \<open>simp add: locate_subslot_def\<close>)
  have "others_kept (api, slot_nbr, subslot_nbr) (net_device s) (upd_subslot i j k f (net_device s))"
    if "pf_cmdev_get_slot (dev_apis (net_device s) ! i) slot_nbr = Some j"
      "pf_cmdev_get_subslot (the_slot (net_device s) i j) subslot_nbr = Some k" for j k f
    using at [OF that] by (rule others_kept_upd)
  then show "others_kept (api, slot_nbr, subslot_nbr) (net_device s) (net_device s')"
    using assms(1) pulled
    by (auto simp: plug_prepare_def bind_eq_Some_conv others_kept_plug_module
        split: option.splits if_splits)
qed

lemma api_found: "pf_cmdev_get_api d api = Some i \<Longrightarrow> i < length (dev_apis d) \<and> api_in_use (dev_apis d ! i) \<and>
    api_id (dev_apis d ! i) = api"
  by (auto simp: pf_cmdev_get_api_def dest!: find_ix_Some)

lemma slot_found: "pf_cmdev_get_slot a slot_nbr = Some j \<Longrightarrow> j < length (slots a) \<and> sl_in_use (slots a ! j) \<and>
    sl_slot_nbr (slots a ! j) = slot_nbr"
  by (auto simp: pf_cmdev_get_slot_def dest!: find_ix_Some)

lemma upd_subslot_used:
  assumes "i < length (dev_apis d)" "api_in_use (dev_apis d ! i)" "j < length (slots (dev_apis d ! i))"
    "sl_in_use (the_slot d i j)" "k < length (subslots (the_slot d i j))" "ss_in_use (f (the_subslot d i j k))"
  shows "subslot_used (upd_subslot i j k f d) i j k"
    and "address (upd_subslot i j k f d) i j k =
      (api_id (dev_apis d ! i), sl_slot_nbr (the_slot d i j), ss_subslot_nbr (f (the_subslot d i j k)))"
    and "the_subslot (upd_subslot i j k f d) i j k = f (the_subslot d i j k)"
    and "sl_p_ar (the_slot (upd_subslot i j k f d) i j) = sl_p_ar (the_slot d i j)"
  using assms by (simp_all add: subslot_used_def upd_subslot_def upd_slot_def upd_api_def)

text \<open>The APIs stay in use at their places.\<close>

definition apis_kept :: "pf_device \<Rightarrow> pf_device \<Rightarrow> bool" where
  "apis_kept d d' \<longleftrightarrow> map (\<lambda>a. (api_in_use a, api_id a)) (dev_apis d') = map (\<lambda>a. (api_in_use a, api_id a)) (dev_apis d)"

lemma apis_kept_simps [simp]:
  "apis_kept d d" "apis_kept d (upd_slot i j f d') \<longleftrightarrow> apis_kept d d'"
  "apis_kept d (upd_subslot i j k g d') \<longleftrightarrow> apis_kept d d'"
  by (auto simp: apis_kept_def upd_subslot_def upd_slot_def upd_api_def list_eq_iff_nth_eq nth_list_update_if)

lemma apis_kept_get:
  assumes "apis_kept d d'" and "pf_cmdev_get_api d api = Some i"
  shows "i < length (dev_apis d') \<and> api_in_use (dev_apis d' ! i) \<and> api_id (dev_apis d' ! i) = api"
proof -
  have "length (dev_apis d') = length (dev_apis d)"
    using map_eq_imp_length_eq [OF assms(1) [unfolded apis_kept_def]] .
  moreover have "map (\<lambda>a. (api_in_use a, api_id a)) (dev_apis d') ! i = map (\<lambda>a. (api_in_use a, api_id a)) (dev_apis d) ! i"
    using assms(1) by (simp only: apis_kept_def)
  ultimately show ?thesis using api_found [OF assms(2)] by simp
qed

lemma plug_prepare_apis:
  assumes "plug_prepare i api slot_nbr subslot_nbr mod_id sub_id update s = Some (b, s')"
  shows "apis_kept (net_device s) (net_device s')"
  using assms
  by (auto simp: plug_prepare_def bind_eq_Some_conv pf_cmdev_plug_module_def pf_cmdev_new_slot_def
      split: option.splits if_splits elim!: pull_submodule_device)

lemma plug_submodule_device:
  assumes "pf_cmdev_plug_submodule api slot_nbr subslot_nbr mod_id sub_id dir len_in len_out update s
    = Some (r, s')"
  shows "keeps (net_device s) (net_device s')
    \<and> others_kept (api, slot_nbr, subslot_nbr) (net_device s) (net_device s')
    \<and> (r = 0 \<longrightarrow> (\<exists>i j k. subslot_used (net_device s') i j k \<and>
      address (net_device s') i j k = (api, slot_nbr, subslot_nbr) \<and>
      ss_submodule_ident_number (the_subslot (net_device s') i j k) = sub_id))"
proof (cases "pf_cmdev_get_api (net_device s) api")
  case (Some i)
  then obtain b s1 where p: "plug_prepare i api slot_nbr subslot_nbr mod_id sub_id update s = Some (b, s1)"
    using assms by (auto simp: pf_cmdev_plug_submodule_def bind_eq_Some_conv)
  note prep = plug_prepare_device [OF p Some]
  note i = apis_kept_get [OF plug_prepare_apis [OF p] Some]
  consider "b" | "\<not> b" "pf_cmdev_get_slot (dev_apis (net_device s1) ! i) slot_nbr = None"
    | "\<not> b" "pf_cmdev_get_slot (dev_apis (net_device s1) ! i) slot_nbr \<noteq> None" by auto
  then show ?thesis
  proof cases
    case 1
    then have s': "s' = s1" using assms Some p by (simp add: pf_cmdev_plug_submodule_def)
    obtain j k where jk: "locate_subslot (net_device s) api slot_nbr subslot_nbr = Some (i, j, k)"
      "ss_submodule_ident_number (the_subslot (net_device s) i j k) = sub_id"
      "net_device s1 = upd_subslot i j k (set_ident_info PF_SUBMOD_PLUG_OK) (net_device s)"
      using prep(3) 1 by blast
    have used: "i < length (dev_apis (net_device s))" "api_in_use (dev_apis (net_device s) ! i)"
      "j < length (slots (dev_apis (net_device s) ! i))" "sl_in_use (the_slot (net_device s) i j)"
      "k < length (subslots (the_slot (net_device s) i j))"
      "ss_in_use (set_ident_info PF_SUBMOD_PLUG_OK (the_subslot (net_device s) i j k))"
      using locate_is_used [OF jk(1)] by (simp_all add: subslot_used_def set_ident_info_def)
    have "subslot_used (net_device s') i j k" "address (net_device s') i j k = (api, slot_nbr, subslot_nbr)"
      "ss_submodule_ident_number (the_subslot (net_device s') i j k) = sub_id"
      using upd_subslot_used [where f = "set_ident_info PF_SUBMOD_PLUG_OK", OF used]
        locate_is_used [OF jk(1)] jk(2) s' jk(3) by (simp_all add: set_ident_info_def)
    then show ?thesis using prep(1,2) s' by blast
  next
    case 2
    then show ?thesis using assms Some p prep(1,2) by (simp add: pf_cmdev_plug_submodule_def)
  next
    case False: 3
    then obtain j where j: "pf_cmdev_get_slot (dev_apis (net_device s1) ! i) slot_nbr = Some j" and "\<not> b"
      by auto
    then have new: "plug_new_subslot i j api slot_nbr subslot_nbr mod_id sub_id dir len_in len_out s1 = Some (r, s')"
      using assms Some p by (simp add: pf_cmdev_plug_submodule_def)
    show ?thesis
    proof (rule plug_new_subslot_device [OF new])
      fix k u
      assume k: "k < length (subslots (the_slot (net_device s1) i j))"
        "\<not> ss_in_use (the_subslot (net_device s1) i j k)"
        "pf_cmdev_get_subslot (the_slot (net_device s1) i j) subslot_nbr = None"
        and d: "net_device s' = upd_subslot i j k (\<lambda>_. u) (net_device s1)"
        and u: "plugged subslot_nbr sub_id dir len_in len_out (sl_p_ar (the_slot (net_device s1) i j)) u"
      have "keeps (net_device s1) (net_device s')"
        unfolding d keeps_def shape_upd
        using k u by (auto intro!: upd_subslot_ok simp: plugged_def pf_cmdev_get_subslot_def find_ix_None)
      moreover have "others_kept (api, slot_nbr, subslot_nbr) (net_device s1) (net_device s')"
        unfolding d by (rule others_kept_upd) (use k in \<open>simp add: subslot_used_def\<close>)
      moreover have "subslot_used (net_device s') i j k" "address (net_device s') i j k = (api, slot_nbr, subslot_nbr)"
        "the_subslot (net_device s') i j k = u"
        using upd_subslot_used [of i "net_device s1" j k "\<lambda>_. u"] i slot_found [OF j] k u
        by (simp_all add: d plugged_def)
      ultimately show ?thesis
        using prep(1,2) u keeps_trans others_kept_trans unfolding plugged_def by blast
    qed (use prep i slot_found [OF j] in auto)
  qed
qed (use assms in \<open>simp add: pf_cmdev_plug_submodule_def\<close>)

end
