(* ===== verification/Pn_Diag_Correct.thy ===== *)
theory Pn_Diag_Correct
  imports Pn_Diag Pn_Device_Correct
begin

text \<open>
  The lists of diagnosis items are kept in one array, linked by indices. Here they are lists
  again: a free list and one list for every submodule, without common elements. Every operation
  of \<^verbatim>\<open>pf_diag.c\<close> and of the pool in \<^verbatim>\<open>pf_cmdev.c\<close> is an operation on these lists.
\<close>

section \<open>Chains\<close>

fun linked :: "pf_diag_item list \<Rightarrow> u16 \<Rightarrow> nat list \<Rightarrow> bool" where
  "linked items ix [] \<longleftrightarrow> ix = PF_DIAG_IX_NULL"
| "linked items ix (n # ns) \<longleftrightarrow> unat ix = n \<and> n < length items \<and> linked items (di_next (items ! n)) ns"

abbreviation pool_size_ok :: "pf_diag_item list \<Rightarrow> bool" where
  "pool_size_ok items \<equiv> length items \<le> unat PF_DIAG_IX_NULL"

lemma null_outside [simp]: "pool_size_ok items \<Longrightarrow> \<not> unat PF_DIAG_IX_NULL < length items"
  by simp

lemma linked_det:
  assumes "pool_size_ok items" and "linked items ix ns" and "linked items ix ms"
  shows "ns = ms"
  using assms(2,3)
proof (induction ns arbitrary: ix ms)
  case Nil
  then show ?case using assms(1) by (cases ms) auto
next
  case (Cons n ns)
  then show ?case using assms(1) by (cases ms) auto
qed

lemma linked_bound: "linked items ix ns \<Longrightarrow> n \<in> set ns \<Longrightarrow> n < length items"
  by (induction ns arbitrary: ix) auto

lemma linked_suffix: "linked items ix (xs @ n # ys) \<Longrightarrow> linked items (di_next (items ! n)) ys"
  by (induction xs arbitrary: ix) auto

lemma linked_distinct:
  assumes "pool_size_ok items" and "linked items ix ns"
  shows "distinct ns"
proof (rule ccontr)
  assume "\<not> distinct ns"
  then obtain xs ys zs n where ns: "ns = xs @ [n] @ ys @ [n] @ zs"
    using not_distinct_decomp [of ns] by blast
  have "linked items (di_next (items ! n)) (ys @ n # zs)"
    using assms(2) linked_suffix [of items ix xs n "ys @ n # zs"] by (simp add: ns)
  moreover have "linked items (di_next (items ! n)) zs"
    using assms(2) linked_suffix [of items ix "xs @ n # ys" n zs] by (simp add: ns)
  ultimately show False using linked_det [OF assms(1)] by fastforce
qed

lemma linked_upd: "n \<notin> set ns \<Longrightarrow> linked (items[n := x]) ix ns \<longleftrightarrow> linked items ix ns"
  by (induction ns arbitrary: ix) (auto simp: nth_list_update_if)

lemma chain_upd_next:
  "di_next x = di_next (items ! n) \<Longrightarrow> linked (items[n := x]) ix ns \<longleftrightarrow> linked items ix ns"
  by (induction ns arbitrary: ix) (auto simp: nth_list_update_if)

lemma linked_walk: "pool_size_ok items \<Longrightarrow> linked items ix ns \<Longrightarrow> diag_walk items ix = Some ns"
proof (induction ns arbitrary: ix)
  case Nil
  then show ?case by (subst diag_walk.simps) simp
next
  case (Cons n ns)
  then show ?case by (subst diag_walk.simps) simp
qed

text \<open>The search ends, and finds the first match with the item before it.\<close>

lemma diag_search_chain:
  assumes "pool_size_ok items" and "linked items ix ns"
  shows "diag_search P items prev ix =
    Some (case find_ix (\<lambda>n. P (items ! n)) ns of None \<Rightarrow> None
      | Some i \<Rightarrow> Some (if i = 0 then prev else of_nat (ns ! (i - 1)), of_nat (ns ! i)))"
  using assms(2)
proof (induction ns arbitrary: ix prev)
  case Nil
  then show ?case using assms(1) by (subst diag_search.simps) (simp add: find_ix_def)
next
  case (Cons n ns)
  have n: "of_nat n = ix" using Cons.prems by auto
  show ?case
  proof (cases "P (items ! n)")
    case True
    then show ?thesis
      using Cons.prems n by (subst diag_search.simps) (auto simp: find_ix_def)
  next
    case False
    then have *: "diag_search P items prev ix = diag_search P items ix (di_next (items ! n))"
      using Cons.prems by (subst diag_search.simps) auto
    have "linked items (di_next (items ! n)) ns" using Cons.prems by simp
    from Cons.IH [OF this, of ix] show ?thesis
      using False n unfolding * by (auto simp: find_ix_def Let_def nth_Cons' split: option.splits)
  qed
qed

lemma chain_unlink_first: "linked items ix (n # ns) \<Longrightarrow> linked items (di_next (items ! n)) ns"
  by simp

lemma linked_unlink:
  assumes "pool_size_ok items" and "linked items ix (xs @ m # n # ys)"
  shows "linked (items[m := (items ! m)\<lparr>di_next := di_next (items ! n)\<rparr>]) ix (xs @ m # ys)"
  using assms(2)
proof (induction xs arbitrary: ix)
  case Nil
  have "distinct (m # n # ys)" using linked_distinct [OF assms(1) Nil [simplified append_Nil]] .
  then show ?case using Nil by (auto simp: linked_upd)
next
  case (Cons x xs)
  have "distinct (x # xs @ m # n # ys)"
    using linked_distinct [OF assms(1)] Cons.prems by (metis append_Cons)
  then show ?case using Cons by (auto simp: nth_list_update_if)
qed

lemma linked_link:
  assumes "linked items ix ns" and "n < length items" and "n \<notin> set ns" and "unat ix' = n"
  shows "linked (items[n := x\<lparr>di_next := ix\<rparr>]) ix' (n # ns)"
  using assms by (simp add: linked_upd)

section \<open>Many lists in one array\<close>

text \<open>
  The array holds the free list \<open>fr\<close> and, for every place \<open>p\<close> in use, the list \<open>L p\<close> that starts at
  \<open>H p\<close>.
\<close>

definition lists_ok ::
  "pf_diag_item list \<Rightarrow> u16 \<Rightarrow> ('p \<Rightarrow> bool) \<Rightarrow> ('p \<Rightarrow> u16) \<Rightarrow> nat list \<Rightarrow> ('p \<Rightarrow> nat list) \<Rightarrow> bool" where
  "lists_ok items free U H fr L \<longleftrightarrow> pool_size_ok items \<and> linked items free fr
     \<and> (\<forall>p. U p \<longrightarrow> linked items (H p) (L p) \<and> set (L p) \<inter> set fr = {}
          \<and> (\<forall>n \<in> set (L p). di_in_use (items ! n)))
     \<and> (\<forall>p q. U p \<and> U q \<and> p \<noteq> q \<longrightarrow> set (L p) \<inter> set (L q) = {})"

text \<open>An item that is in none of the lists.\<close>

definition detached :: "pf_diag_item list \<Rightarrow> ('p \<Rightarrow> bool) \<Rightarrow> nat list \<Rightarrow> ('p \<Rightarrow> nat list) \<Rightarrow> nat \<Rightarrow> bool" where
  "detached items U fr L n \<longleftrightarrow> n < length items \<and> n \<notin> set fr \<and> (\<forall>p. U p \<longrightarrow> n \<notin> set (L p))"

lemma lists_okD:
  assumes "lists_ok items free U H fr L"
  shows "pool_size_ok items" "linked items free fr" "distinct fr"
    "U p \<Longrightarrow> linked items (H p) (L p)" "U p \<Longrightarrow> diag_walk items (H p) = Some (L p)"
    "U p \<Longrightarrow> distinct (L p)" "U p \<Longrightarrow> set (L p) \<inter> set fr = {}"
    "U p \<Longrightarrow> n \<in> set (L p) \<Longrightarrow> n < length items \<and> di_in_use (items ! n)"
  using assms linked_distinct linked_walk linked_bound unfolding lists_ok_def by blast+

lemma lists_cong:
  assumes "lists_ok items free U H fr L" and "\<And>p. U' p \<Longrightarrow> U p \<and> H' p = H p"
  shows "lists_ok items free U' H' fr L"
proof -
  have "U' p \<Longrightarrow> U p" "U' p \<Longrightarrow> H' p = H p" for p using assms(2) by auto
  then show ?thesis using assms(1) unfolding lists_ok_def by metis
qed

text \<open>Taking an element from the list of one place.\<close>

lemma lists_shrink:
  assumes "lists_ok items free U H fr L" and "U p" and "linked items' (H' p) ns" and "set ns \<subseteq> set (L p)"
    and other: "\<And>n. n \<notin> set (L p) \<Longrightarrow> items' ! n = items ! n" "length items' = length items"
    and flag: "\<And>n. di_in_use (items' ! n) = di_in_use (items ! n)"
    and H: "\<And>q. q \<noteq> p \<Longrightarrow> H' q = H q"
  shows "lists_ok items' free U H' fr (L(p := ns))"
proof -
  have same: "linked items' ix ms = linked items ix ms" if "set ms \<inter> set (L p) = {}" for ix ms
    using that other by (induction ms arbitrary: ix) auto
  have q: "set (L q) \<inter> set (L p) = {}" if "U q" "q \<noteq> p" for q
    using assms(1,2) that by (simp add: lists_ok_def)
  have fr: "set fr \<inter> set (L p) = {}" using lists_okD(7) [OF assms(1,2)] by auto
  have *: "set ((L(p := ns)) q) \<subseteq> set (L q)" for q using assms(4) by simp
  show ?thesis unfolding lists_ok_def
  proof (intro conjI allI impI)
    show "pool_size_ok items'" "linked items' free fr"
      using lists_okD(1,2) [OF assms(1)] other(2) same [OF fr] by auto
    fix q assume u: "U q"
    show "linked items' (H' q) ((L(p := ns)) q)"
      using assms(3) lists_okD(4) [OF assms(1) u] same [OF q [OF u]] H by auto
    show "set ((L(p := ns)) q) \<inter> set fr = {}"
      using * [of q] lists_okD(7) [OF assms(1) u] by blast
    show "\<forall>n \<in> set ((L(p := ns)) q). di_in_use (items' ! n)"
      using * [of q] lists_okD(8) [OF assms(1) u] flag by blast
  next
    fix q r assume "U q \<and> U r \<and> q \<noteq> r"
    then have "set (L q) \<inter> set (L r) = {}" using assms(1) by (simp add: lists_ok_def)
    then show "set ((L(p := ns)) q) \<inter> set ((L(p := ns)) r) = {}" using * [of q] * [of r] by blast
  qed
qed

lemma lists_detached:
  assumes "lists_ok items free U H fr L" and "U p" and "n \<in> set (L p)" and "n \<notin> set ns"
  shows "detached items U fr (L(p := ns)) n"
proof -
  have "n \<notin> set (L q)" if "U q" "q \<noteq> p" for q
    using assms that unfolding lists_ok_def by blast
  moreover have "n < length items" "n \<notin> set fr"
    using lists_okD(7,8) [OF assms(1,2)] assms(3) by auto
  ultimately show ?thesis using assms(4) by (simp add: detached_def)
qed

lemma lists_write:
  assumes "lists_ok items free U H fr L" and "detached items U fr L n"
  shows "lists_ok (items[n := x]) free U H fr L" and "detached (items[n := x]) U fr L n"
  using assms by (auto simp: lists_ok_def detached_def linked_upd nth_list_update_if)

lemma lists_pop:
  assumes "lists_ok items free U H (n # fr) L"
  shows "lists_ok (items[n := x]) (di_next (items ! n)) U H fr L"
    and "detached (items[n := x]) U fr L n"
proof -
  have "linked items (di_next (items ! n)) fr" "n \<notin> set fr" "n < length items"
    using lists_okD(2,3) [OF assms] by auto
  moreover have "U p \<Longrightarrow> n \<notin> set (L p)" for p using lists_okD(7) [OF assms] by auto
  ultimately show "lists_ok (items[n := x]) (di_next (items ! n)) U H fr L"
    "detached (items[n := x]) U fr L n"
    using assms by (auto simp: lists_ok_def detached_def linked_upd nth_list_update_if)
qed

lemma lists_push:
  assumes "lists_ok items free U H fr L" and "detached items U fr L n" and "unat ix = n"
    and "di_next x = free"
  shows "lists_ok (items[n := x]) ix U H (n # fr) L"
  using assms by (auto simp: lists_ok_def detached_def linked_upd nth_list_update_if)

lemma lists_link:
  assumes "lists_ok items free U H fr L" and "detached items U fr L n" and "unat ix = n"
    and "di_next x = H p" and "di_in_use x"
  shows "lists_ok (items[n := x]) free U (H(p := ix)) fr (L(p := n # L p))"
  using assms by (auto simp: lists_ok_def detached_def linked_upd nth_list_update_if)

lemma lists_unlink_first:
  assumes "lists_ok items free U H fr L" and "U p" and "L p = n # ns"
  shows "lists_ok items free U (H(p := di_next (items ! n))) fr (L(p := ns))"
    and "detached items U fr (L(p := ns)) n"
proof -
  have "linked items (di_next (items ! n)) ns" "n \<notin> set ns"
    using lists_okD(4,6) [OF assms(1,2)] assms(3) by auto
  then show "lists_ok items free U (H(p := di_next (items ! n))) fr (L(p := ns))"
    "detached items U fr (L(p := ns)) n"
    using assms(3) by (auto intro!: lists_shrink [OF assms(1,2)] lists_detached [OF assms(1,2)])
qed

lemma lists_unlink:
  assumes "lists_ok items free U H fr L" and "U p" and "L p = xs @ m # n # ys"
  shows "lists_ok (items[m := (items ! m)\<lparr>di_next := di_next (items ! n)\<rparr>]) free U H fr (L(p := xs @ m # ys))"
    and "detached items U fr (L(p := xs @ m # ys)) n"
proof -
  have c: "linked (items[m := (items ! m)\<lparr>di_next := di_next (items ! n)\<rparr>]) (H p) (xs @ m # ys)"
    using linked_unlink lists_okD(1,4) [OF assms(1)] assms(2,3) by metis
  have n: "n \<notin> set (xs @ m # ys)" using lists_okD(6) [OF assms(1,2)] assms(3) by auto
  show "detached items U fr (L(p := xs @ m # ys)) n"
    using n assms(3) by (intro lists_detached [OF assms(1,2)]) auto
  show "lists_ok (items[m := (items ! m)\<lparr>di_next := di_next (items ! n)\<rparr>]) free U H fr (L(p := xs @ m # ys))"
    using assms(3) by (intro lists_shrink [OF assms(1,2), where H' = H, OF c]) (auto simp: nth_list_update_if)
qed

section \<open>The lists of the device\<close>

declare split_paired_All [simp del] split_paired_Ex [simp del]

type_synonym place = "nat \<times> nat \<times> nat"

definition used :: "pf_device \<Rightarrow> place \<Rightarrow> bool" where
  "used d = (\<lambda>(i, j, k). subslot_used d i j k)"

definition head :: "pf_device \<Rightarrow> place \<Rightarrow> u16" where
  "head d = (\<lambda>(i, j, k). diag_list (the_subslot d i j k))"

definition item_sized :: "nat \<Rightarrow> pf_diag_item \<Rightarrow> bool" where
  "item_sized n it \<longleftrightarrow> length (manuf_data (fmt_usi it)) = n \<and> unat (usi_len (fmt_usi it)) \<le> n"

definition pool :: "pf_device \<Rightarrow> nat list \<Rightarrow> (place \<Rightarrow> nat list) \<Rightarrow> bool" where
  "pool d fr L \<longleftrightarrow> (\<forall>it \<in> set (diag_items d). item_sized (manuf_size d) it) \<and>
     lists_ok (diag_items d) (diag_items_free d) (used d) (head d) fr L"

text \<open>An item without its link, and the diagnosis of a submodule.\<close>

definition content :: "pf_diag_item \<Rightarrow> pf_diag_item" where
  "content it = it\<lparr>di_next := 0\<rparr>"

definition diags :: "pf_device \<Rightarrow> (place \<Rightarrow> nat list) \<Rightarrow> place \<Rightarrow> pf_diag_item list" where
  "diags d L p = map (\<lambda>n. content (diag_items d ! n)) (L p)"

lemma content_simps [simp]:
  "di_in_use (content it) = di_in_use it" "di_usi (content it) = di_usi it"
  "fmt_std (content it) = fmt_std it" "fmt_usi (content it) = fmt_usi it"
  "content (it\<lparr>di_next := x\<rparr>) = content it" "item_sized n (content it) = item_sized n it"
  "item_sized n (it\<lparr>di_next := x\<rparr>) = item_sized n it"
  by (simp_all add: content_def item_sized_def)

lemma diag_match_content [simp]: "diag_match src err ext usi (content it) = diag_match src err ext usi it"
  by (simp add: diag_match_def)

lemma used_upd_item [simp]:
  "used (upd_item n f d) = used d" "head (upd_item n f d) = head d"
  "diag_items_free (upd_item n f d) = diag_items_free d"
  "diag_items (upd_item n f d) = (diag_items d)[n := f (diag_items d ! n)]"
  "used (d\<lparr>diag_items_free := x\<rparr>) = used d" "head (d\<lparr>diag_items_free := x\<rparr>) = head d"
  by (auto simp: used_def head_def subslot_used_def upd_item_def fun_eq_iff)

lemma items_upd_subslot [simp]:
  "diag_items (upd_subslot i j k f d) = diag_items d"
  "diag_items_free (upd_subslot i j k f d) = diag_items_free d"
  by (simp_all add: upd_subslot_def upd_slot_def upd_api_def)

lemma used_upd_subslot:
  assumes "\<And>u. ss_in_use (f u) = ss_in_use u"
  shows "used (upd_subslot i j k f d) = used d"
  using assms by (auto simp: used_def subslot_used_def slots_upd_subslot the_subslot_upd fun_eq_iff)

lemma head_upd_subslot:
  assumes "used d (i, j, k)"
  shows "head (upd_subslot i j k f d) = (head d)((i, j, k) := diag_list (f (the_subslot d i j k)))"
  using assms by (auto simp: used_def head_def subslot_used_def the_subslot_upd fun_eq_iff split: if_splits)

lemma manuf_size_same:
  assumes "length (manuf_data (fmt_usi (f (diag_items d ! n)))) = length (manuf_data (fmt_usi (diag_items d ! n)))"
  shows "manuf_size (upd_item n f d) = manuf_size d"
  using assms by (cases "n < length (diag_items d)") (auto simp: manuf_size_def nth_list_update_if list_update_beyond)

lemma manuf_size_simps [simp]:
  "manuf_size (upd_subslot i j k g d) = manuf_size d" "manuf_size (d\<lparr>diag_items_free := x\<rparr>) = manuf_size d"
  by (simp_all add: manuf_size_def)

lemma sized_upd:
  assumes "\<forall>it \<in> set (diag_items d). item_sized (manuf_size d) it"
    and "n < length (diag_items d) \<Longrightarrow> item_sized (manuf_size d) (f (diag_items d ! n))"
  shows "\<forall>it \<in> set (diag_items (upd_item n f d)). item_sized (manuf_size (upd_item n f d)) it"
proof (cases "n < length (diag_items d)")
  case True
  then have "item_sized (manuf_size d) (diag_items d ! n)" using assms(1) by simp
  then have "manuf_size (upd_item n f d) = manuf_size d"
    using assms(2) [OF True] by (intro manuf_size_same) (simp add: item_sized_def)
  then show ?thesis
    using assms True by (auto dest!: subsetD [OF set_update_subset_insert])
qed (use assms in \<open>simp add: list_update_beyond manuf_size_def\<close>)

section \<open>Operations of the pool\<close>

abbreviation detached_item :: "pf_device \<Rightarrow> nat list \<Rightarrow> (place \<Rightarrow> nat list) \<Rightarrow> nat \<Rightarrow> bool" where
  "detached_item d \<equiv> detached (diag_items d) (used d)"

text \<open>Nothing changes but links.\<close>

definition same_contents :: "pf_device \<Rightarrow> pf_device \<Rightarrow> bool" where
  "same_contents d d' \<longleftrightarrow> map content (diag_items d') = map content (diag_items d) \<and> used d' = used d"

lemma same_contents_nth:
  assumes "same_contents d d'"
  shows "content (diag_items d' ! n) = content (diag_items d ! n) \<or> \<not> n < length (diag_items d)"
  using assms unfolding same_contents_def by (metis length_map nth_map)

lemma new_diag_pool:
  assumes "pool d fr L"
  shows "case fr of [] \<Rightarrow> \<exists>ix. pf_cmdev_new_diag d = Some (-1, ix, d)
    | n # fr' \<Rightarrow> \<exists>d'. pf_cmdev_new_diag d = Some (0, of_nat n, d') \<and> pool d' fr' L \<and> detached_item d' fr' L n
        \<and> used d' = used d \<and> head d' = head d \<and> manuf_size d' = manuf_size d
        \<and> diag_items d' = (diag_items d)[n := (zero_diag_item (manuf_size d))\<lparr>di_in_use := True\<rparr>]"
proof (cases fr)
  case Nil
  then have "diag_items_free d = PF_DIAG_IX_NULL" using assms lists_okD(2) by (fastforce simp: pool_def)
  then show ?thesis using Nil by (simp add: pf_cmdev_new_diag_def Let_def)
next
  case (Cons n fr')
  let ?z = "\<lambda>it. (zero_diag_item (length (manuf_data (fmt_usi it))))\<lparr>di_in_use := True\<rparr>"
  have l: "lists_ok (diag_items d) (diag_items_free d) (used d) (head d) (n # fr') L"
    and sz: "\<forall>it \<in> set (diag_items d). item_sized (manuf_size d) it"
    using assms Cons by (auto simp: pool_def)
  have n: "unat (diag_items_free d) = n" "n < length (diag_items d)" "diag_items_free d \<noteq> PF_DIAG_IX_NULL"
    using lists_okD(1,2) [OF l] by auto
  then have nn: "of_nat n = diag_items_free d" by auto
  have sn: "length (manuf_data (fmt_usi (diag_items d ! n))) = manuf_size d"
    using sz n(2) by (simp add: item_sized_def)
  have "manuf_size (upd_item n ?z d) = manuf_size d"
    by (rule manuf_size_same) (simp add: zero_diag_item_def)
  moreover have "\<forall>it \<in> set (diag_items (upd_item n ?z d)). item_sized (manuf_size (upd_item n ?z d)) it"
    by (rule sized_upd [OF sz]) (simp add: item_sized_def zero_diag_item_def sn)
  ultimately show ?thesis
    using Cons n nn sn lists_pop [OF l]
    by (auto simp: pf_cmdev_new_diag_def Let_def pool_def detached_def)
qed

lemma free_diag_pool:
  assumes "pool d fr L" and "detached_item d fr L n" and "unat ix = n"
  shows "pool (pf_cmdev_free_diag d ix) (n # fr) L"
    and "used (pf_cmdev_free_diag d ix) = used d"
    and "\<And>m. m \<noteq> n \<Longrightarrow> diag_items (pf_cmdev_free_diag d ix) ! m = diag_items d ! m"
proof -
  have n: "n < length (diag_items d)" using assms(2) by (simp add: detached_def)
  let ?f = "\<lambda>it. it\<lparr>di_in_use := False, di_next := diag_items_free d\<rparr>"
  have sz: "\<forall>it \<in> set (diag_items (upd_item n ?f d)). item_sized (manuf_size (upd_item n ?f d)) it"
    using assms(1) by (intro sized_upd) (auto simp: pool_def item_sized_def)
  then show "pool (pf_cmdev_free_diag d ix) (n # fr) L"
    using assms n by (auto simp: pf_cmdev_free_diag_def pool_def intro: lists_push)
  show "used (pf_cmdev_free_diag d ix) = used d" by (simp add: pf_cmdev_free_diag_def)
  show "diag_items (pf_cmdev_free_diag d ix) ! m = diag_items d ! m" if "m \<noteq> n" for m
    using that assms(3) by (simp add: pf_cmdev_free_diag_def)
qed

section \<open>Finding and linking an item\<close>

definition remove_at :: "nat \<Rightarrow> 'a list \<Rightarrow> 'a list" where
  "remove_at i xs = take i xs @ drop (Suc i) xs"

lemma remove_at_map: "remove_at i (map f xs) = map f (remove_at i xs)"
  by (simp add: remove_at_def take_map drop_map)

lemma set_remove_at: "distinct xs \<Longrightarrow> i < length xs \<Longrightarrow> xs ! i \<notin> set (remove_at i xs)"
  by (auto simp: remove_at_def in_set_conv_nth distinct_conv_nth)

lemma find_ix_map: "find_ix P (map f xs) = find_ix (P \<circ> f) xs"
proof -
  have "index_where P (map f xs) = index_where (P \<circ> f) xs" by (induction xs) auto
  then show ?thesis by (simp add: find_ix_def)
qed

text \<open>The submodule whose items are searched.\<close>

definition diag_target :: "pf_device \<Rightarrow> pnet_diag_source \<Rightarrow> place option" where
  "diag_target d src = (case pf_cmdev_get_subslot_full d (ucast (src_api src)) (src_slot src) (src_subslot src) of
     None \<Rightarrow> None
   | Some (i, j, k) \<Rightarrow> (let st = submodule_state (the_subslot d i j k) in
       if (ident_info st = PF_SUBMOD_PLUG_OK \<or> ident_info st = PF_SUBMOD_PLUG_SUBSTITUTE)
         \<and> (sub_ar_info st = PF_SUBMOD_AR_INFO_OWN
            \<or> sub_ar_info st = PF_SUBMOD_AR_INFO_APPLICATION_READY_PENDING)
       then Some (i, j, k) else None))"

lemma diag_target_used: "diag_target d src = Some p \<Longrightarrow> used d p"
  using locate_is_used [of d "ucast (ucast (src_api src) :: u16)" "src_slot src" "src_subslot src"]
  by (auto simp: diag_target_def used_def pf_cmdev_get_subslot_full_def locate_subslot_def Let_def
      bind_eq_Some_conv split: option.splits if_splits)

lemma lists_target:
  assumes "pool d fr L" and "used d p"
  shows "linked (diag_items d) (head d p) (L p)" "pool_size_ok (diag_items d)" "distinct (L p)"
    "diag_walk (diag_items d) (head d p) = Some (L p)"
    "\<And>n. n \<in> set (L p) \<Longrightarrow> n < length (diag_items d)"
proof -
  have ok: "lists_ok (diag_items d) (diag_items_free d) (used d) (head d) fr L"
    using assms(1) by (simp add: pool_def)
  show "linked (diag_items d) (head d p) (L p)" "pool_size_ok (diag_items d)" "distinct (L p)"
    "diag_walk (diag_items d) (head d p) = Some (L p)"
    using lists_okD(1,4,5,6) [OF ok] assms(2) by blast+
  show "n < length (diag_items d)" if "n \<in> set (L p)" for n
    using lists_okD(8) [OF ok assms(2) that] by blast
qed

text \<open>An index of an item as a word.\<close>

lemma pool_index:
  assumes "pool_size_ok items" and "n < length items"
  shows "unat (of_nat n :: u16) = n" "(of_nat n :: u16) \<noteq> PF_DIAG_IX_NULL"
proof -
  show u: "unat (of_nat n :: u16) = n"
    using assms by (simp add: PF_DIAG_IX_NULL_def unsigned_of_nat take_bit_nat_eq_self)
  show "(of_nat n :: u16) \<noteq> PF_DIAG_IX_NULL" using u assms by auto
qed

lemma find_entry_none:
  assumes "diag_target d src = None"
  shows "pf_diag_find_entry src err ext usi d = Some (None, PF_DIAG_IX_NULL, d)"
  using assms by (auto simp: pf_diag_find_entry_def diag_target_def Let_def split: option.splits if_splits)

lemma find_entry_target:
  assumes "diag_target d src = Some (i, j, k)"
  shows "pf_diag_find_entry src err ext usi d = do {
    f \<leftarrow> diag_search (diag_match src err ext usi) (diag_items d) PF_DIAG_IX_NULL (head d (i, j, k));
    case f of
      None \<Rightarrow> Some (Some (i, j, k), PF_DIAG_IX_NULL, d)
    | Some (prev_ix, item_ix) \<Rightarrow> (let nx = di_next (diag_items d ! unat item_ix) in
        Some (Some (i, j, k), item_ix,
          if prev_ix \<noteq> PF_DIAG_IX_NULL
          then upd_item (unat prev_ix) (\<lambda>it. it\<lparr>di_next := nx\<rparr>) d
          else upd_subslot i j k (\<lambda>u. u\<lparr>diag_list := nx\<rparr>) d)) }"
  using assms
  by (auto simp: pf_diag_find_entry_def diag_target_def head_def Let_def split: option.splits if_splits)

lemma find_entry_pool:
  assumes "pool d fr L" and t: "diag_target d src = Some p"
  shows "case find_ix (diag_match src err ext usi) (diags d L p) of
      None \<Rightarrow> pf_diag_find_entry src err ext usi d = Some (Some p, PF_DIAG_IX_NULL, d)
    | Some i \<Rightarrow> \<exists>d'. pf_diag_find_entry src err ext usi d = Some (Some p, of_nat (L p ! i), d')
        \<and> L p ! i < length (diag_items d)
        \<and> pool d' fr (L(p := remove_at i (L p))) \<and> detached_item d' fr (L(p := remove_at i (L p))) (L p ! i)
        \<and> same_contents d d'"
proof -
  obtain i j k where p: "p = (i, j, k)" by (cases p)
  have u: "used d p" using diag_target_used [OF t] .
  note l = lists_target [OF assms(1) u]
  have ok: "lists_ok (diag_items d) (diag_items_free d) (used d) (head d) fr L"
    and sz: "\<forall>it \<in> set (diag_items d). item_sized (manuf_size d) it"
    using assms(1) by (auto simp: pool_def)
  let ?M = "diag_match src err ext usi"
  have f: "find_ix ?M (diags d L p) = find_ix (\<lambda>n. ?M (diag_items d ! n)) (L p)"
    by (simp add: diags_def find_ix_map comp_def)
  note s = diag_search_chain [OF l(2,1), of ?M PF_DIAG_IX_NULL]
  show ?thesis
  proof (cases "find_ix (\<lambda>n. ?M (diag_items d ! n)) (L p)")
    case None
    then show ?thesis using s f find_entry_target [OF t [unfolded p]] by (simp add: p)
  next
    case (Some x)
    then have x: "x < length (L p)" using find_ix_Some by blast
    define n where "n = L p ! x"
    have n: "n < length (diag_items d)" using l(5) x by (simp add: n_def)
    note un = pool_index(1) [OF l(2) n]
    show ?thesis
    proof (cases x)
      case 0
      then have Lp: "L p = n # remove_at x (L p)"
        using x by (cases "L p") (auto simp: remove_at_def n_def)
      let ?d = "upd_subslot i j k (\<lambda>u. u\<lparr>diag_list := di_next (diag_items d ! n)\<rparr>) d"
      have e: "pf_diag_find_entry src err ext usi d = Some (Some p, of_nat n, ?d)"
        using s f Some 0 un find_entry_target [OF t [unfolded p]] by (simp add: p n_def)
      have "used ?d = used d" by (rule used_upd_subslot) simp
      moreover have "head ?d = (head d)(p := di_next (diag_items d ! n))"
        using u unfolding p by (simp add: head_upd_subslot)
      ultimately show ?thesis
        using e f Some n sz lists_unlink_first [OF ok u Lp]
        by (auto simp: pool_def same_contents_def n_def [symmetric])
    next
      case (Suc y)
      define m where "m = L p ! y"
      have m: "m < length (diag_items d)" using l(5) x Suc by (simp add: m_def)
      note um = pool_index [OF l(2) m]
      have "L p = take y (L p) @ m # n # drop (Suc x) (L p)"
        using x Suc id_take_nth_drop [of y "L p"] Cons_nth_drop_Suc [of x "L p"]
        by (simp add: m_def n_def)
      moreover have "remove_at x (L p) = take y (L p) @ m # drop (Suc x) (L p)"
        using x Suc by (simp add: remove_at_def m_def take_Suc_conv_app_nth)
      ultimately have un2: "lists_ok ((diag_items d)[m := (diag_items d ! m)\<lparr>di_next := di_next (diag_items d ! n)\<rparr>])
          (diag_items_free d) (used d) (head d) fr (L(p := remove_at x (L p)))"
        "detached (diag_items d) (used d) fr (L(p := remove_at x (L p))) n"
        using lists_unlink [OF ok u] by metis+
      let ?d = "upd_item m (\<lambda>it. it\<lparr>di_next := di_next (diag_items d ! n)\<rparr>) d"
      have e: "pf_diag_find_entry src err ext usi d = Some (Some p, of_nat n, ?d)"
        using s f Some Suc un um find_entry_target [OF t [unfolded p]] by (simp add: p n_def m_def)
      have sz': "\<forall>it \<in> set (diag_items ?d). item_sized (manuf_size ?d) it"
        using sz by (intro sized_upd) auto
      have "map content (diag_items ?d) = map content (diag_items d)"
        using m by (simp add: map_update) (metis content_simps(5) list_update_id length_map nth_map)
      then show ?thesis
        using e f Some n un2 sz'
        by (auto simp: pool_def same_contents_def detached_def n_def [symmetric])
    qed
  qed
qed

lemma link_pool:
  assumes "pool d fr L" and "detached_item d fr L n" and "used d p" and "unat ix = n"
    and it: "item_sized (manuf_size d) it" "di_in_use it"
  defines "d' \<equiv> diag_link p ix (upd_item n (\<lambda>_. it) d)"
  shows "pool d' fr (L(p := n # L p))" "used d' = used d" "length (diag_items d') = length (diag_items d)"
    "content (diag_items d' ! n) = content it" "\<And>m. m \<noteq> n \<Longrightarrow> diag_items d' ! m = diag_items d ! m"
proof -
  obtain i j k where p: "p = (i, j, k)" by (cases p)
  have n: "n < length (diag_items d)" using assms(2) by (simp add: detached_def)
  have hd: "head d p = diag_list (the_subslot (upd_item n (\<lambda>_. it) d) i j k)"
    by (simp add: head_def p upd_item_def)
  have items: "diag_items d' = (diag_items d)[n := it\<lparr>di_next := head d p\<rparr>]"
    using n assms(4) by (simp add: d'_def diag_link_def p hd [unfolded p])
  have free: "diag_items_free d' = diag_items_free d" by (simp add: d'_def diag_link_def p)
  show us: "used d' = used d"
    by (simp add: d'_def diag_link_def p used_upd_subslot)
  have hd': "head d' = (head d)(p := ix)"
    using assms(3) by (simp add: d'_def diag_link_def p head_upd_subslot)
  have "manuf_size d' = manuf_size d"
    using it(1) assms(1) n by (auto simp: manuf_size_def items item_sized_def pool_def nth_list_update_if)
  then have "\<forall>x \<in> set (diag_items d'). item_sized (manuf_size d') x"
    using it(1) assms(1) by (auto simp: items pool_def dest!: subsetD [OF set_update_subset_insert])
  moreover have "lists_ok (diag_items d') (diag_items_free d') (used d') (head d') fr (L(p := n # L p))"
    unfolding items free us hd'
    using assms(1,2,4) it(2) by (intro lists_link) (auto simp: pool_def)
  ultimately show "pool d' fr (L(p := n # L p))" by (simp add: pool_def)
  show "length (diag_items d') = length (diag_items d)" "content (diag_items d' ! n) = content it"
    "\<And>m. m \<noteq> n \<Longrightarrow> diag_items d' ! m = diag_items d ! m"
    using n by (simp_all add: items)
qed

text \<open>The diagnosis does not depend on the links, nor on items outside the lists.\<close>

lemma diags_same:
  assumes "\<And>n. n \<in> set (L p) \<Longrightarrow> content (diag_items d' ! n) = content (diag_items d ! n)"
  shows "diags d' L p = diags d L p"
  using assms by (simp add: diags_def)

section \<open>What the alarms and the summaries leave\<close>

lemma pool_same_tree:
  assumes "pool d fr L" and "diag_items d' = diag_items d" and "diag_items_free d' = diag_items_free d"
    and "used d' = used d" and "head d' = head d"
  shows "pool d' fr L"
  using assms by (simp add: pool_def manuf_size_def)

lemma update_submodule_state_pool:
  assumes "pool d fr L" and "used d p"
  obtains d' where "pf_diag_update_submodule_state p_ar p d = Some d'" "diag_items d' = diag_items d"
    "diag_items_free d' = diag_items_free d" "used d' = used d" "head d' = head d"
proof -
  obtain i j k where p: "p = (i, j, k)" by (cases p)
  have w: "diag_walk (diag_items d) (diag_list (the_subslot d i j k)) = Some (L p)"
    using lists_target(4) [OF assms] by (simp add: head_def p)
  obtain f where f: "pf_diag_update_submodule_state p_ar p d = Some (upd_subslot i j k f d)"
    "\<And>u. ss_in_use (f u) = ss_in_use u" "\<And>u. diag_list (f u) = diag_list u"
    using w by (simp add: pf_diag_update_submodule_state_def p Let_def case_prod_unfold)
  have "head (upd_subslot i j k f d) = head d"
    using assms(2) f(3) by (simp add: p head_upd_subslot fun_upd_idem_iff) (simp add: head_def)
  then show thesis using f by (intro that [OF f(1)]) (simp_all add: used_upd_subslot)
qed

lemma fold_device:
  assumes "\<And>c s. net_device (f c s) = net_device s"
  shows "net_device (fold f cs s) = net_device s"
  using assms by (induction cs arbitrary: s) auto

lemma update_indicator_device:
  assumes "pool (net_device s) fr L" and "used (net_device s) p"
  obtains s' where "pf_diag_update_station_problem_indicator a p s = Some s'" "net_device s' = net_device s"
proof -
  obtain i j k where p: "p = (i, j, k)" by (cases p)
  have w: "diag_walk (diag_items (net_device s)) (diag_list (the_subslot (net_device s) i j k)) = Some (L p)"
    using lists_target(4) [OF assms] by (simp add: head_def p)
  have "net_device (pf_ppm_set_problem_indicator a b s) = net_device s" for b
    unfolding pf_ppm_set_problem_indicator_def by (rule fold_device) (simp add: upd_cr_def upd_ar_def)
  then show thesis
    using w that by (simp add: pf_diag_update_station_problem_indicator_def p Let_def)
qed

lemma send_alarm_total:
  assumes "case pl of Some (Payload_bytes bs) \<Rightarrow> unat n \<le> length bs | _ \<Rightarrow> True"
  shows "\<exists>r s'. pf_alarm_send_alarm (Some a) ty hp api sl su m u usi n pl s = Some (r, s')
    \<and> net_device s' = net_device s"
proof -
  have "\<not> (n > 0 \<and> pl = None) \<Longrightarrow> copy_payload n pl \<noteq> None"
    using assms by (auto simp: copy_payload_def word_neq_0_conv split: option.splits payload.splits)
  then have "\<exists>r s'. pf_alarm_send_alarm (Some a) ty hp api sl su m u usi n pl s = Some (r, s')"
    by (auto simp: pf_alarm_send_alarm_def Let_def case_prod_unfold)
  then show ?thesis using send_alarm_device by blast
qed

lemma send_diagnosis_total:
  assumes "item_sized m it"
  shows "\<exists>r s'. pf_alarm_send_diagnosis a api sl su (Some it) s = Some (r, s') \<and> net_device s' = net_device s"
  using assms by (auto simp: pf_alarm_send_diagnosis_def item_sized_def send_alarm_total split: option.splits)

lemma send_usi_disappears_total:
  assumes "usi < PF_USI_CHANNEL_DIAGNOSIS"
  shows "\<exists>r s'. pf_alarm_send_usi_diagnosis_disappears a api sl su usi s = Some (r, s')
    \<and> net_device s' = net_device s"
  using assms by (auto simp: pf_alarm_send_usi_diagnosis_disappears_def send_alarm_total split: option.splits)

definition same_lists :: "pf_device \<Rightarrow> pf_device \<Rightarrow> bool" where
  "same_lists d d' \<longleftrightarrow> diag_items d' = diag_items d \<and> diag_items_free d' = diag_items_free d
     \<and> used d' = used d \<and> head d' = head d"

lemma announce_total:
  assumes "pool (net_device s) fr L" and "used (net_device s) p" and "n < length (diag_items (net_device s))"
    and "unat ix = n" and "case old of None \<Rightarrow> True | Some it \<Rightarrow> item_sized m it"
  shows "\<exists>r s'. diag_announce src p ix old s = Some (r, s') \<and> same_lists (net_device s) (net_device s')"
proof -
  define d where "d = net_device s"
  obtain d1 where d1: "pf_diag_update_submodule_state None p d = Some d1" "diag_items d1 = diag_items d"
    "diag_items_free d1 = diag_items_free d" "used d1 = used d" "head d1 = head d"
    using update_submodule_state_pool [OF assms(1,2)] unfolding d_def by metis
  have pool1: "pool d1 fr L" using pool_same_tree [OF assms(1)] d1 by (simp add: d_def)
  define s1 where "s1 = s\<lparr>net_device := d1\<rparr>"
  show ?thesis
  proof (cases "pf_diag_find_first_ar s1")
    case None
    then show ?thesis
      using d1 by (simp add: diag_announce_def d_def [symmetric] s1_def Let_def same_lists_def)
  next
    case (Some a)
    have sz: "item_sized (manuf_size d) (diag_items d ! n)"
      using assms(1,3) by (simp add: d_def pool_def)
    obtain r2 s2 where s2: "pf_alarm_send_diagnosis a (src_api src) (src_slot src) (src_subslot src)
        (Some (diag_items d ! n)) s1 = Some (r2, s2)" "net_device s2 = d1"
      using send_diagnosis_total [OF sz, of a "src_api src" "src_slot src" "src_subslot src" s1]
      by (auto simp: s1_def)
    obtain s3 where s3: "pf_diag_update_station_problem_indicator a p s2 = Some s3" "net_device s3 = d1"
      using update_indicator_device [of s2 fr L p a] pool1 s2(2) d1(4) assms(2) by (metis d_def)
    have eq: "diag_announce src p ix old s = (case old of
        Some old \<Rightarrow> if di_usi old \<ge> PF_USI_CHANNEL_DIAGNOSIS
          then pf_alarm_send_diagnosis a (src_api src) (src_slot src) (src_subslot src)
            (Some (diag_set_spec PF_DIAG_CH_PROP_SPEC_DIS_OTHERS_REMAIN old)) s3
          else Some (r2, s3)
      | None \<Rightarrow> Some (r2, s3))"
      using d1 Some s2 s3 assms(4) by (simp add: diag_announce_def d_def [symmetric] s1_def [symmetric] Let_def)
        (simp add: s1_def)
    have "\<exists>r s'. diag_announce src p ix old s = Some (r, s') \<and> net_device s' = d1"
    proof (cases old)
      case None
      then show ?thesis using eq s3 by simp
    next
      case (Some it)
      then have "item_sized m (diag_set_spec PF_DIAG_CH_PROP_SPEC_DIS_OTHERS_REMAIN it)"
        using assms(5) by (simp add: item_sized_def diag_set_spec_def)
      then show ?thesis using eq Some s3 send_diagnosis_total by fastforce
    qed
    then show ?thesis using d1 by (auto simp: d_def same_lists_def)
  qed
qed

section \<open>Add, update and remove on lists\<close>

text \<open>
  The specification: the items of one submodule and the number of free items. \<open>M\<close> selects the item
  that is meant, \<open>wr\<close> writes the new values into it.
\<close>

definition add_spec ::
  "(pf_diag_item \<Rightarrow> bool) \<Rightarrow> (pf_diag_item \<Rightarrow> pf_diag_item) \<Rightarrow> pf_diag_item \<Rightarrow> pf_diag_item list \<times> nat
     \<Rightarrow> pf_diag_item list \<times> nat" where
  "add_spec M wr fresh = (\<lambda>(xs, room). case find_ix M xs of
     Some i \<Rightarrow> (wr (xs ! i) # remove_at i xs, room)
   | None \<Rightarrow> if room = 0 then (xs, room) else (wr fresh # xs, room - 1))"

definition update_spec ::
  "(pf_diag_item \<Rightarrow> bool) \<Rightarrow> (pf_diag_item \<Rightarrow> pf_diag_item) \<Rightarrow> pf_diag_item list \<times> nat
     \<Rightarrow> pf_diag_item list \<times> nat" where
  "update_spec M wr = (\<lambda>(xs, room). case find_ix M xs of
     Some i \<Rightarrow> (wr (xs ! i) # remove_at i xs, room) | None \<Rightarrow> (xs, room))"

definition remove_spec ::
  "(pf_diag_item \<Rightarrow> bool) \<Rightarrow> pf_diag_item list \<times> nat \<Rightarrow> pf_diag_item list \<times> nat" where
  "remove_spec M = (\<lambda>(xs, room). case find_ix M xs of
     Some i \<Rightarrow> (remove_at i xs, Suc room) | None \<Rightarrow> (xs, room))"

text \<open>\<open>f\<close> applied to the items of the submodule \<open>t\<close>; all others keep theirs.\<close>

definition refines ::
  "place option \<Rightarrow> (pf_diag_item list \<times> nat \<Rightarrow> pf_diag_item list \<times> nat) \<Rightarrow> pf_device \<Rightarrow> nat list
     \<Rightarrow> (place \<Rightarrow> nat list) \<Rightarrow> pf_device \<Rightarrow> bool" where
  "refines t f d fr L d' \<longleftrightarrow> (\<exists>fr' L'. pool d' fr' L' \<and> used d' = used d \<and>
     (\<forall>p. used d p \<longrightarrow> diags d' L' p = (if t = Some p then fst (f (diags d L p, length fr)) else diags d L p)) \<and>
     length fr' = (case t of None \<Rightarrow> length fr | Some p \<Rightarrow> snd (f (diags d L p, length fr))))"

lemma refines_none: "pool d fr L \<Longrightarrow> refines None f d fr L d"
  by (auto simp: refines_def)

lemma refines_unchanged:
  "pool d fr L \<Longrightarrow> f (diags d L p, length fr) = (diags d L p, length fr) \<Longrightarrow> refines (Some p) f d fr L d"
  unfolding refines_def by (intro exI [of _ fr] exI [of _ L]) auto

text \<open>Taking the item out of its list, changing it and putting it in front.\<close>

lemma link_refines:
  assumes "pool d fr L" and "used d p"
    and d1: "pool d1 frn (L(p := ns))" "used d1 = used d" "detached_item d1 frn (L(p := ns)) n"
      "\<And>m. m \<noteq> n \<Longrightarrow> m < length (diag_items d) \<Longrightarrow> content (diag_items d1 ! m) = content (diag_items d ! m)"
    and it: "item_sized (manuf_size d1) it" "di_in_use it" and ix: "unat ix = n" and ns: "set ns \<subseteq> set (L p)"
    and f: "f (diags d L p, length fr) = (content it # map (\<lambda>n. content (diag_items d ! n)) ns, length frn)"
  shows "refines (Some p) f d fr L (diag_link p ix (upd_item n (\<lambda>_. it) d1))"
    and "length (diag_items (diag_link p ix (upd_item n (\<lambda>_. it) d1))) = length (diag_items d1)"
proof -
  let ?d = "diag_link p ix (upd_item n (\<lambda>_. it) d1)"
  have u: "used d1 p" using assms(2) d1(2) by simp
  note l = link_pool [OF d1(1,3) u ix it]
  have n: "n \<notin> set ns" "\<And>q. used d q \<Longrightarrow> q \<noteq> p \<Longrightarrow> n \<notin> set (L q)"
    using d1(3) u d1(2) by (auto simp: detached_def fun_upd_def split: if_splits)
  have same: "content (diag_items ?d ! m) = content (diag_items d ! m)"
    if "used d q" "m \<in> set (L q)" "m \<noteq> n" for q m
    using that l(5) d1(4) lists_target(5) [OF assms(1)] by metis
  have "diags ?d ((L(p := ns))(p := n # ns)) q =
      (if p = q then fst (f (diags d L p, length fr)) else diags d L q)" if "used d q" for q
  proof (cases "q = p")
    case True
    have "content (diag_items ?d ! m) = content (diag_items d ! m)" if "m \<in> set ns" for m
      using same [OF assms(2), of m] that ns n(1) by auto
    then show ?thesis using True l(4) f by (simp add: diags_def)
  next
    case False
    have "content (diag_items ?d ! m) = content (diag_items d ! m)" if "m \<in> set (L q)" for m
      using same [OF \<open>used d q\<close> that] n(2) [OF \<open>used d q\<close> False] that by auto
    then show ?thesis using False by (simp add: diags_def)
  qed
  then show "refines (Some p) f d fr L ?d"
    using l(1,2) d1(2) f unfolding refines_def
    by (intro exI [of _ frn] exI [of _ "(L(p := ns))(p := n # ns)"]) auto
  show "length (diag_items ?d) = length (diag_items d1)" by (rule l(3))
qed

lemma refines_same_lists:
  assumes "refines t f d fr L d1" and "same_lists d1 d2"
  shows "refines t f d fr L d2"
  using assms pool_same_tree [of d1 _ _ d2] unfolding refines_def diags_def same_lists_def by metis

text \<open>Writing an item does not look at its link.\<close>

lemma write_item_next:
  "diag_write_item src b sv err ext av q usi n pm (it\<lparr>di_next := x\<rparr>) =
     map_option (\<lambda>it. it\<lparr>di_next := x\<rparr>) (diag_write_item src b sv err ext av q usi n pm it)"
  "diag_update_item av n pm (it\<lparr>di_next := x\<rparr>) = map_option (\<lambda>it. it\<lparr>di_next := x\<rparr>) (diag_update_item av n pm it)"
  by (cases "copy_manuf n pm (fmt_usi it)"; simp add: diag_write_item_def diag_update_item_def diag_set_spec_def Let_def)+

lemma write_item_total:
  assumes "case pm of None \<Rightarrow> n = 0 | Some m \<Rightarrow> unat n \<le> length m" and "item_sized sz it" and "unat n \<le> sz"
    and "di_in_use it"
  shows "\<exists>x. diag_write_item src b sv err ext av q usi n pm it = Some x \<and> item_sized sz x \<and> di_in_use x"
    and "\<exists>x. diag_update_item av n pm it = Some x \<and> item_sized sz x \<and> di_in_use x"
proof -
  have "\<exists>f. copy_manuf n pm (fmt_usi it) = Some f \<and> length (manuf_data f) = sz \<and> unat (usi_len f) \<le> sz"
    using assms by (auto simp: copy_manuf_def copy_to_def item_sized_def overlay_def word_neq_0_conv
        split: option.splits)
  then show "\<exists>x. diag_write_item src b sv err ext av q usi n pm it = Some x \<and> item_sized sz x \<and> di_in_use x"
    "\<exists>x. diag_update_item av n pm it = Some x \<and> item_sized sz x \<and> di_in_use x"
    using assms(2,4)
    by (auto simp: diag_write_item_def diag_update_item_def diag_set_spec_def item_sized_def Let_def)
qed

lemma content_next: "di_next (content it) = 0" "content (content it) = content it"
  by (simp_all add: content_def)

lemma content_write:
  assumes "diag_write_item src b sv err ext av q usi n pm it = Some x"
  shows "content x = the (diag_write_item src b sv err ext av q usi n pm (content it))"
  using assms by (simp add: content_def write_item_next)

lemma content_update:
  assumes "diag_update_item av n pm it = Some x"
  shows "content x = the (diag_update_item av n pm (content it))"
  using assms by (simp add: content_def write_item_next)

section \<open>The operations of pf_diag.c refine the specification\<close>

lemma matched_item:
  assumes "pool d fr L" and "used d p" and "find_ix M (diags d L p) = Some i"
  shows "i < length (L p)" "content (diag_items d ! (L p ! i)) = diags d L p ! i"
    "di_in_use (diag_items d ! (L p ! i))"
proof -
  show i: "i < length (L p)" using find_ix_Some [OF assms(3)] by (simp add: diags_def)
  then show "content (diag_items d ! (L p ! i)) = diags d L p ! i" by (simp add: diags_def)
  show "di_in_use (diag_items d ! (L p ! i))"
    using assms(1,2) i unfolding pool_def lists_ok_def by (metis nth_mem)
qed

lemma remove_at_diags: "map (\<lambda>n. content (diag_items d ! n)) (remove_at i (L p)) = remove_at i (diags d L p)"
  by (simp add: diags_def remove_at_map)

lemma set_remove_at_subset: "set (remove_at i xs) \<subseteq> set xs"
  by (auto simp: remove_at_def dest: in_set_takeD in_set_dropD)

lemma same_contents_size:
  assumes "same_contents d d'" and "m < length (diag_items d)"
  shows "manuf_size d' = manuf_size d"
proof -
  have "content (diag_items d' ! 0) = content (diag_items d ! 0)"
    using same_contents_nth [OF assms(1), of 0] assms(2) by auto
  then show ?thesis unfolding manuf_size_def by (metis content_simps(4))
qed

definition add_args_ok ::
  "pf_device \<Rightarrow> pnet_diag_source \<Rightarrow> u16 \<Rightarrow> u16 \<Rightarrow> u16 \<Rightarrow> u32 \<Rightarrow> u32 \<Rightarrow> u16 \<Rightarrow> u16 \<Rightarrow> u8 list option \<Rightarrow> bool" where
  "add_args_ok d src sv err ext av q usi n pm \<longleftrightarrow> usi_args_ok usi err ext
     \<and> qualifier_args_ok usi sv (q AND PF_DIAG_QUALIFIED_SEVERITY_MASK)
     \<and> manuf_args_ok d usi av n pm (src_ch src)"

definition write_spec ::
  "pnet_diag_source \<Rightarrow> u16 \<Rightarrow> u16 \<Rightarrow> u16 \<Rightarrow> u16 \<Rightarrow> u32 \<Rightarrow> u32 \<Rightarrow> u16 \<Rightarrow> u16 \<Rightarrow> u8 list option
     \<Rightarrow> pf_diag_item \<Rightarrow> pf_diag_item" where
  "write_spec src b sv err ext av q usi n pm it =
     the (diag_write_item src b sv err ext av (q AND PF_DIAG_QUALIFIED_SEVERITY_MASK) usi n pm it)"

abbreviation fresh_item :: "pf_device \<Rightarrow> pf_diag_item" where
  "fresh_item d \<equiv> (zero_diag_item (manuf_size d))\<lparr>di_in_use := True\<rparr>"

text \<open>The source data of a caller: it is there, as long as it says.\<close>

definition manuf_data_ok :: "u16 \<Rightarrow> u8 list option \<Rightarrow> bool" where
  "manuf_data_ok n pm \<longleftrightarrow> (case pm of None \<Rightarrow> n = 0 | Some m \<Rightarrow> unat n \<le> length m)"

text \<open>The second half of adding and updating, once the item \<open>m\<close> is out of its list.\<close>

lemma link_and_announce:
  assumes pool: "pool d fr L" "used d p"
    and d1: "pool d1 frn (L(p := ns))" "used d1 = used d" "detached_item d1 frn (L(p := ns)) m"
      "\<And>k. k \<noteq> m \<Longrightarrow> k < length (diag_items d) \<Longrightarrow> content (diag_items d1 ! k) = content (diag_items d ! k)"
    and x: "item_sized (manuf_size d1) x" "di_in_use x" and ns: "set ns \<subseteq> set (L p)"
    and old: "case old of None \<Rightarrow> True | Some it \<Rightarrow> item_sized sz it"
    and f: "f (diags d L p, length fr) = (content x # map (\<lambda>n. content (diag_items d ! n)) ns, length frn)"
  shows "\<exists>r s'. diag_announce src p (of_nat m) old
      (s\<lparr>net_device := diag_link p (of_nat m) (upd_item m (\<lambda>_. x) d1)\<rparr>) = Some (r, s') \<and>
    refines (Some p) f d fr L (net_device s')"
proof -
  let ?d2 = "diag_link p (of_nat m) (upd_item m (\<lambda>_. x) d1)"
  have "pool_size_ok (diag_items d1)" using lists_target(2) [OF d1(1)] pool(2) d1(2) by simp
  then have ix: "unat (of_nat m :: u16) = m"
    using d1(3) pool_index(1) by (simp add: detached_def)
  note l = link_refines [where f = f and ns = ns, OF pool d1 x ix ns f]
  then obtain fr2 L2 where p2: "pool ?d2 fr2 L2" "used ?d2 p"
    using pool(2) unfolding refines_def by auto
  have "m < length (diag_items ?d2)" using l(2) d1(3) by (simp add: detached_def)
  then obtain r s3 where s3: "diag_announce src p (of_nat m) old (s\<lparr>net_device := ?d2\<rparr>) = Some (r, s3)"
      "same_lists ?d2 (net_device s3)"
    using announce_total [where s = "s\<lparr>net_device := ?d2\<rparr>" and fr = fr2 and L = L2 and p = p and n = m
        and ix = "of_nat m" and old = old and m = sz and src = src] p2 ix old by auto
  then show ?thesis using refines_same_lists [OF l(1)] by blast
qed

text \<open>An item that the search has taken out of its list.\<close>

lemma found_item:
  assumes "pool d fr L" and t: "diag_target d src = Some p"
    and Some: "find_ix (diag_match src err ext usi) (diags d L p) = Some i"
  obtains m d1 where "m = L p ! i" "pf_diag_find_entry src err ext usi d = Some (Some p, of_nat m, d1)"
    "m < length (diag_items d)" "(of_nat m :: u16) \<noteq> PF_DIAG_IX_NULL" "unat (of_nat m :: u16) = m"
    "pool d1 fr (L(p := remove_at i (L p)))" "used d1 = used d"
    "detached_item d1 fr (L(p := remove_at i (L p))) m" "manuf_size d1 = manuf_size d"
    "\<forall>k < length (diag_items d). content (diag_items d1 ! k) = content (diag_items d ! k)"
    "content (diag_items d1 ! m) = diags d L p ! i"
    "item_sized (manuf_size d) (diag_items d1 ! m)" "di_in_use (diag_items d1 ! m)"
proof -
  define m where "m = L p ! i"
  obtain d1 where d1: "pf_diag_find_entry src err ext usi d = Some (Some p, of_nat m, d1)"
    "m < length (diag_items d)" "pool d1 fr (L(p := remove_at i (L p)))"
    "detached_item d1 fr (L(p := remove_at i (L p))) m" "same_contents d d1"
    using find_entry_pool [OF assms(1) t, of err ext usi] Some by (auto simp: m_def)
  have u: "used d p" using diag_target_used [OF t] .
  note ix = pool_index [OF lists_target(2) [OF assms(1) u] d1(2)]
  have c: "content (diag_items d1 ! k) = content (diag_items d ! k)" if "k < length (diag_items d)" for k
    using same_contents_nth [OF d1(5), of k] that by auto
  note sz = same_contents_size [OF d1(5,2)]
  have m: "m < length (diag_items d1)" using d1(4) by (simp add: detached_def)
  have "used d1 = used d" using d1(5) by (simp add: same_contents_def)
  moreover have "item_sized (manuf_size d) (diag_items d1 ! m)"
    using d1(3) m sz by (simp add: pool_def)
  moreover have "content (diag_items d1 ! m) = diags d L p ! i"
    using c [OF d1(2)] matched_item(2) [OF assms(1) u Some] by (simp add: m_def)
  moreover have "di_in_use (diag_items d1 ! m)"
    using c [OF d1(2)] matched_item(3) [OF assms(1) u Some] content_simps(1) unfolding m_def by metis
  ultimately show thesis using that d1 ix c sz m_def by blast
qed

lemma pf_diag_add_lemma:
  assumes d: "net_device s = d" and pool: "pool d fr L" and pm: "manuf_data_ok n pm"
  shows "\<exists>r s'. pf_diag_add src b sv err ext av q usi n pm s = Some (r, s') \<and>
    refines (if add_args_ok d src sv err ext av q usi n pm then diag_target d src else None)
      (add_spec (diag_match src err ext usi) (write_spec src b sv err ext av q usi n pm) (fresh_item d))
      d fr L (net_device s')"
  (is "\<exists>r s'. _ = Some (r, s') \<and> refines _ (add_spec ?M _ _) _ _ _ _")
  proof (cases "add_args_ok d src sv err ext av q usi n pm \<and> diag_target d src \<noteq> None")
    case False
    then show ?thesis
      using pool find_entry_none [of d src err ext usi]
      by (auto simp: pf_diag_add_def d  add_args_ok_def Let_def refines_none)
  next
    case True
    then obtain p where p: "diag_target d src = Some p" by auto
    have u: "used d p" using diag_target_used [OF p] .
    have nsz: "unat n \<le> manuf_size d"
      using True by (simp add: add_args_ok_def manuf_args_ok_def)
    have args: "usi_args_ok usi err ext" "qualifier_args_ok usi sv (q AND PF_DIAG_QUALIFIED_SEVERITY_MASK)"
      "manuf_args_ok d usi av n pm (src_ch src)"
      using True by (auto simp:  add_args_ok_def)
    show ?thesis
    proof (cases "find_ix ?M (diags d L p)")
      case (Some i)
      let ?W = "diag_write_item src b sv err ext av (q AND PF_DIAG_QUALIFIED_SEVERITY_MASK) usi n pm"
      from found_item [OF pool p Some] obtain m d1 where
        e: "m = L p ! i" "pf_diag_find_entry src err ext usi d = Some (Some p, of_nat m, d1)"
        and ix: "m < length (diag_items d)" "(of_nat m :: u16) \<noteq> PF_DIAG_IX_NULL" "unat (of_nat m :: u16) = m"
        and d1: "pool d1 fr (L(p := remove_at i (L p)))" "used d1 = used d"
          "detached_item d1 fr (L(p := remove_at i (L p))) m" "manuf_size d1 = manuf_size d"
        and c: "\<forall>k < length (diag_items d). content (diag_items d1 ! k) = content (diag_items d ! k)"
          "content (diag_items d1 ! m) = diags d L p ! i"
        and it: "item_sized (manuf_size d) (diag_items d1 ! m)" "di_in_use (diag_items d1 ! m)" .
      obtain x where x: "?W (diag_items d1 ! m) = Some x" "item_sized (manuf_size d) x" "di_in_use x"
        using write_item_total(1) [OF pm [unfolded manuf_data_ok_def] it(1) nsz it(2)] by blast
      have "\<exists>r s'. diag_announce src p (of_nat m) (Some (diag_items d1 ! m))
          (s\<lparr>net_device := diag_link p (of_nat m) (upd_item m (\<lambda>_. x) d1)\<rparr>) = Some (r, s') \<and>
        refines (Some p) (add_spec ?M (write_spec src b sv err ext av q usi n pm) (fresh_item d)) d fr L (net_device s')"
        using c x it d1(4) Some
        by (intro link_and_announce [OF pool u d1(1,2,3), where sz = "manuf_size d"])
          (auto simp: add_spec_def write_spec_def remove_at_diags set_remove_at_subset content_write [OF x(1)])
      then show ?thesis
        using e(2) args p True ix x(1)
        by (simp add: pf_diag_add_def d Let_def)
    next
      case None
      then have e: "pf_diag_find_entry src err ext usi d = Some (Some p, PF_DIAG_IX_NULL, d)"
        using find_entry_pool [OF pool p, of err ext usi] by simp
      show ?thesis
      proof (cases fr)
        case Nil
        then obtain ix where "pf_cmdev_new_diag d = Some (-1, ix, d)" using new_diag_pool [OF pool] by auto
        moreover have "refines (Some p) (add_spec ?M (write_spec src b sv err ext av q usi n pm) (fresh_item d)) d fr L d"
          using pool None Nil by (intro refines_unchanged) (simp_all add: add_spec_def)
        ultimately show ?thesis
          using e args p True by (simp add: pf_diag_add_def d Let_def)
      next
        case (Cons m fr')
        then obtain d1 where d1: "pf_cmdev_new_diag d = Some (0, of_nat m, d1)" "pool d1 fr' L"
          "detached_item d1 fr' L m" "used d1 = used d" "manuf_size d1 = manuf_size d"
          "diag_items d1 = (diag_items d)[m := fresh_item d]"
          using new_diag_pool [OF pool] by auto
        have m: "m < length (diag_items d)" using d1(3,6) by (simp add: detached_def)
        note ix = pool_index [OF lists_target(2) [OF pool u] m]
        have it: "diag_items d1 ! m = fresh_item d" "item_sized (manuf_size d) (fresh_item d)"
          using m by (auto simp: d1(6) item_sized_def zero_diag_item_def)
        have "di_in_use (fresh_item d)" by simp
        then obtain x where x: "diag_write_item src b sv err ext av (q AND PF_DIAG_QUALIFIED_SEVERITY_MASK) usi n pm (fresh_item d) = Some x" "item_sized (manuf_size d) x" "di_in_use x"
          using write_item_total(1) [OF pm [unfolded manuf_data_ok_def] it(2) nsz] by blast
        have fc: "content (fresh_item d) = fresh_item d" by (simp add: content_def zero_diag_item_def)
        have "\<exists>r s'. diag_announce src p (of_nat m) None
            (s\<lparr>net_device := diag_link p (of_nat m) (upd_item m (\<lambda>_. x) d1)\<rparr>) = Some (r, s') \<and>
          refines (Some p) (add_spec ?M (write_spec src b sv err ext av q usi n pm) (fresh_item d)) d fr L (net_device s')"
          using x d1 None Cons content_write [OF x(1)] fc
          by (intro link_and_announce [OF pool u, where ns = "L p" and frn = fr'])
            (auto simp: add_spec_def write_spec_def diags_def)
        then show ?thesis
          using e args p True ix x(1) d1(1) it(1)
          by (simp add: pf_diag_add_def d Let_def)
      qed
    qed
  qed

definition update_args_ok ::
  "pf_device \<Rightarrow> pnet_diag_source \<Rightarrow> u16 \<Rightarrow> u16 \<Rightarrow> u32 \<Rightarrow> u16 \<Rightarrow> u16 \<Rightarrow> u8 list option \<Rightarrow> bool" where
  "update_args_ok d src err ext av usi n pm \<longleftrightarrow> usi_args_ok usi err ext \<and> manuf_args_ok d usi av n pm (src_ch src)"

lemma pf_diag_update_lemma:
  assumes d: "net_device s = d" and pool: "pool d fr L" and pm: "manuf_data_ok n pm"
  shows "\<exists>r s'. pf_diag_update src err ext av usi n pm s = Some (r, s') \<and>
    refines (if update_args_ok d src err ext av usi n pm then diag_target d src else None)
      (update_spec (diag_match src err ext usi) (\<lambda>it. the (diag_update_item av n pm it)))
      d fr L (net_device s')"
  (is "\<exists>r s'. _ = Some (r, s') \<and> refines _ (update_spec ?M _) _ _ _ _")
proof (cases "update_args_ok d src err ext av usi n pm \<and> diag_target d src \<noteq> None")
  case False
  then show ?thesis
    using pool find_entry_none [of d src err ext usi]
    by (auto simp: pf_diag_update_def d update_args_ok_def Let_def refines_none)
next
  case True
  then obtain p where p: "diag_target d src = Some p" by auto
  have u: "used d p" using diag_target_used [OF p] .
  have args: "usi_args_ok usi err ext" "manuf_args_ok d usi av n pm (src_ch src)" "unat n \<le> manuf_size d"
    using True by (auto simp: update_args_ok_def manuf_args_ok_def)
  show ?thesis
  proof (cases "find_ix ?M (diags d L p)")
    case (Some i)
    from found_item [OF pool p Some] obtain m d1 where
      e: "m = L p ! i" "pf_diag_find_entry src err ext usi d = Some (Some p, of_nat m, d1)"
      and ix: "m < length (diag_items d)" "(of_nat m :: u16) \<noteq> PF_DIAG_IX_NULL" "unat (of_nat m :: u16) = m"
      and d1: "pool d1 fr (L(p := remove_at i (L p)))" "used d1 = used d"
        "detached_item d1 fr (L(p := remove_at i (L p))) m" "manuf_size d1 = manuf_size d"
      and c: "\<forall>k < length (diag_items d). content (diag_items d1 ! k) = content (diag_items d ! k)"
        "content (diag_items d1 ! m) = diags d L p ! i"
      and it: "item_sized (manuf_size d) (diag_items d1 ! m)" "di_in_use (diag_items d1 ! m)" .
    obtain x where x: "diag_update_item av n pm (diag_items d1 ! m) = Some x" "item_sized (manuf_size d) x"
      "di_in_use x"
      using write_item_total(2) [OF pm [unfolded manuf_data_ok_def] it(1) args(3) it(2)] by blast
    have "\<exists>r s'. diag_announce src p (of_nat m) (Some (diag_items d1 ! m))
        (s\<lparr>net_device := diag_link p (of_nat m) (upd_item m (\<lambda>_. x) d1)\<rparr>) = Some (r, s') \<and>
      refines (Some p) (update_spec ?M (\<lambda>it. the (diag_update_item av n pm it))) d fr L (net_device s')"
      using c x it d1(4) Some
      by (intro link_and_announce [OF pool u d1(1,2,3), where sz = "manuf_size d"])
        (auto simp: update_spec_def remove_at_diags set_remove_at_subset content_update [OF x(1)])
    then show ?thesis
      using e(2) args p True ix x(1) d1(3)
      by (simp add: pf_diag_update_def d Let_def pf_cmdev_get_diag_item_def detached_def)
  next
    case None
    then have e: "pf_diag_find_entry src err ext usi d = Some (Some p, PF_DIAG_IX_NULL, d)"
      using find_entry_pool [OF pool p, of err ext usi] by simp
    have "refines (Some p) (update_spec ?M (\<lambda>it. the (diag_update_item av n pm it))) d fr L d"
      using pool None by (intro refines_unchanged) (simp_all add: update_spec_def)
    then show ?thesis
      using e args p True lists_target(2) [OF pool u]
      by (simp add: pf_diag_update_def d Let_def pf_cmdev_get_diag_item_def)
  qed
qed

text \<open>Removing: the alarm is composed from the detached item, which is then freed.\<close>

lemma write_detached:
  assumes "pool d fr L" and "detached_item d fr L n" and "item_sized (manuf_size d) (f (diag_items d ! n))"
  shows "pool (upd_item n f d) fr L" "detached_item (upd_item n f d) fr L n"
proof -
  have "\<forall>it \<in> set (diag_items (upd_item n f d)). item_sized (manuf_size (upd_item n f d)) it"
    using assms by (intro sized_upd) (auto simp: pool_def)
  then show "pool (upd_item n f d) fr L" "detached_item (upd_item n f d) fr L n"
    using lists_write assms(1,2) unfolding pool_def by auto
qed

lemma remove_alarm_total:
  assumes "item_sized sz it"
  shows "\<exists>r s'. (if usi \<ge> PF_USI_CHANNEL_DIAGNOSIS
      then pf_alarm_send_diagnosis a api sl su (Some it) s
      else pf_alarm_send_usi_diagnosis_disappears a api sl su usi s) = Some (r, s')
    \<and> net_device s' = net_device s"
proof (cases "usi \<ge> PF_USI_CHANNEL_DIAGNOSIS")
  case True
  then show ?thesis using send_diagnosis_total [OF assms] by simp
next
  case False
  then have "usi < PF_USI_CHANNEL_DIAGNOSIS" by simp
  from send_usi_disappears_total [OF this] False show ?thesis by simp
qed

lemma pf_diag_remove_lemma:
  assumes d: "net_device s = d" and pool: "pool d fr L"
  shows "\<exists>r s'. pf_diag_remove src err ext usi s = Some (r, s') \<and>
    refines (if usi_args_ok usi err ext \<and> src_ch src \<le> PNET_CHANNEL_WHOLE_SUBMODULE
        then diag_target d src else None)
      (remove_spec (diag_match src err ext usi)) d fr L (net_device s')"
  (is "\<exists>r s'. _ = Some (r, s') \<and> refines _ (remove_spec ?M) _ _ _ _")
proof (cases "usi_args_ok usi err ext \<and> src_ch src \<le> PNET_CHANNEL_WHOLE_SUBMODULE \<and> diag_target d src \<noteq> None")
  case False
  then show ?thesis
    using pool find_entry_none [of d src err ext usi]
    by (auto simp: pf_diag_remove_def d Let_def refines_none)
next
  case True
  then obtain p where p: "diag_target d src = Some p" by auto
  have u: "used d p" using diag_target_used [OF p] .
  have args: "usi_args_ok usi err ext" "\<not> src_ch src > PNET_CHANNEL_WHOLE_SUBMODULE"
    using True by auto
  show ?thesis
  proof (cases "find_ix ?M (diags d L p)")
    case (Some i)
    from found_item [OF pool p Some] obtain m d1 where
      e: "m = L p ! i" "pf_diag_find_entry src err ext usi d = Some (Some p, of_nat m, d1)"
      and ix: "m < length (diag_items d)" "(of_nat m :: u16) \<noteq> PF_DIAG_IX_NULL" "unat (of_nat m :: u16) = m"
      and d1: "pool d1 fr (L(p := remove_at i (L p)))" "used d1 = used d"
        "detached_item d1 fr (L(p := remove_at i (L p))) m" "manuf_size d1 = manuf_size d"
      and c: "\<forall>k < length (diag_items d). content (diag_items d1 ! k) = content (diag_items d ! k)"
        "content (diag_items d1 ! m) = diags d L p ! i"
      and it: "item_sized (manuf_size d) (diag_items d1 ! m)" "di_in_use (diag_items d1 ! m)" .
    let ?L = "L(p := remove_at i (L p))"
    have m1: "pf_cmdev_get_diag_item d1 (of_nat m) = Some m"
      using d1(3) ix by (simp add: pf_cmdev_get_diag_item_def detached_def)
    define s1 where "s1 = s\<lparr>net_device := d1\<rparr>"
    define p_ar where "p_ar = pf_diag_find_first_ar s1"
    define gone where "gone = (diag_list (case p of (i, j, k) \<Rightarrow> the_subslot d1 i j k) \<noteq> PF_DIAG_IX_NULL)"
    define d2 where "d2 = (if p_ar = None then d1 else upd_item m (diag_gone gone) d1)"
    have gs: "item_sized (manuf_size d1) (diag_gone gone (diag_items d1 ! m))"
      using it(1) d1(4) by (simp add: diag_gone_def diag_set_spec_def item_sized_def)
    have d2: "pool d2 fr ?L" "detached_item d2 fr ?L m" "used d2 = used d"
      "\<And>k. k \<noteq> m \<Longrightarrow> diag_items d2 ! k = diag_items d1 ! k"
      using d1 write_detached [where f = "diag_gone gone", OF d1(1,3) gs] by (auto simp: d2_def)
    let ?send = "case p_ar of None \<Rightarrow> Some (-1, s1)
      | Some a \<Rightarrow> if usi \<ge> PF_USI_CHANNEL_DIAGNOSIS
          then pf_alarm_send_diagnosis a (src_api src) (src_slot src) (src_subslot src)
            (Some (diag_items d2 ! m)) (s1\<lparr>net_device := d2\<rparr>)
          else pf_alarm_send_usi_diagnosis_disappears a (src_api src) (src_slot src) (src_subslot src) usi
            (s1\<lparr>net_device := d2\<rparr>)"
    have sz2: "item_sized (manuf_size d1) (diag_items d2 ! m)"
      using gs it(1) d1(3,4) by (simp add: d2_def detached_def)
    have "\<exists>r s2. ?send = Some (r, s2) \<and> net_device s2 = d2"
    proof (cases p_ar)
      case None
      then show ?thesis by (simp add: d2_def s1_def)
    next
      case (Some a)
      then show ?thesis
        using remove_alarm_total [OF sz2, of usi a "src_api src" "src_slot src" "src_subslot src"
            "s1\<lparr>net_device := d2\<rparr>"] by simp
    qed
    then obtain r s2 where s2: "?send = Some (r, s2)" "net_device s2 = d2" by blast
    obtain d3 where d3: "pf_diag_update_submodule_state p_ar p d2 = Some d3" "diag_items d3 = diag_items d2"
      "diag_items_free d3 = diag_items_free d2" "used d3 = used d2" "head d3 = head d2"
      using update_submodule_state_pool [OF d2(1)] d2(3) u by metis
    have p3: "pool d3 fr ?L" using pool_same_tree [OF d2(1)] d3 by simp
    have det3: "detached_item d3 fr ?L m" using d2(2) d3 by simp
    note fd = free_diag_pool [OF p3 det3 ix(3)]
    let ?d4 = "pf_cmdev_free_diag d3 (of_nat m)"
    define s4 where "s4 = s2\<lparr>net_device := ?d4\<rparr>"
    have "\<exists>s5. (case p_ar of None \<Rightarrow> Some (r, s4)
        | Some a \<Rightarrow> do { s \<leftarrow> pf_diag_update_station_problem_indicator a p s4; Some (r, s) })
        = Some (r, s5) \<and> net_device s5 = ?d4"
    proof (cases p_ar)
      case (Some a)
      have "pool (net_device s4) (m # fr) ?L" "used (net_device s4) p"
        using fd d3 d2(3) u by (auto simp: s4_def)
      then obtain s5 where "pf_diag_update_station_problem_indicator a p s4 = Some s5" "net_device s5 = net_device s4"
        by (rule update_indicator_device)
      then show ?thesis using Some by (simp add: s4_def)
    qed (simp add: s4_def)
    then obtain s5 where s5: "(case p_ar of None \<Rightarrow> Some (r, s4)
        | Some a \<Rightarrow> do { s \<leftarrow> pf_diag_update_station_problem_indicator a p s4; Some (r, s) })
        = Some (r, s5)" "net_device s5 = ?d4" by blast
    have "pf_diag_remove src err ext usi s = do {
        (ret, s) \<leftarrow> do {
          (ret, s) \<leftarrow> ?send;
          d \<leftarrow> pf_diag_update_submodule_state p_ar p (net_device s);
          Some (ret, s\<lparr>net_device := d\<rparr>) };
        let s = s\<lparr>net_device := pf_cmdev_free_diag (net_device s) (of_nat m)\<rparr>;
        case p_ar of None \<Rightarrow> Some (ret, s)
        | Some a \<Rightarrow> do { s \<leftarrow> pf_diag_update_station_problem_indicator a p s; Some (ret, s) } }"
      using e(2) args ix(2) m1
      by (cases p_ar) (simp_all add: pf_diag_remove_def d Let_def p_ar_def [symmetric] s1_def [symmetric]
        gone_def [symmetric] d2_def)
    then have "pf_diag_remove src err ext usi s = Some (r, s5)"
      using s2 d3(1) s5(1) by (cases p_ar) (simp_all add: s4_def Let_def)
    moreover have "refines (Some p) (remove_spec ?M) d fr L ?d4"
    proof -
      have same: "content (diag_items ?d4 ! k) = content (diag_items d ! k)" if "k \<noteq> m" "k < length (diag_items d)" for k
        using that fd(3) d3(2) d2(4) c(1) by simp
      have out: "m \<notin> set (?L q)" if "used d q" for q
        using that det3 unfolding detached_def d3(4) d2(3) by blast
      have "diags ?d4 ?L q = (if p = q then fst (remove_spec ?M (diags d L p, length fr)) else diags d L q)"
        if uq: "used d q" for q
      proof -
        have sub: "set (?L q) \<subseteq> set (L q)" using set_remove_at_subset [of i "L p"] by auto
        have "content (diag_items ?d4 ! k) = content (diag_items d ! k)" if "k \<in> set (?L q)" for k
        proof (rule same)
          show "k \<noteq> m" using that out [OF uq] by metis
          show "k < length (diag_items d)" using that sub lists_target(5) [OF pool uq] by (meson subsetD)
        qed
        then have "diags ?d4 ?L q = diags d ?L q" by (rule diags_same)
        then show ?thesis
          using Some by (cases "p = q") (simp_all add: remove_spec_def diags_def remove_at_map)
      qed
      then show ?thesis
        using fd(1,2) d3(4) d2(3) Some unfolding refines_def
        by (intro exI [of _ "m # fr"] exI [of _ ?L]) (auto simp: remove_spec_def)
    qed
    ultimately show ?thesis using s5(2) p args by auto
  next
    case None
    then have e: "pf_diag_find_entry src err ext usi d = Some (Some p, PF_DIAG_IX_NULL, d)"
      using find_entry_pool [OF pool p, of err ext usi] by simp
    have "refines (Some p) (remove_spec ?M) d fr L d"
      using pool None by (intro refines_unchanged) (simp_all add: remove_spec_def)
    then show ?thesis
      using e args p by (auto simp: pf_diag_remove_def d Let_def)
  qed
qed

end
