(* ===== verification/Pn_Device_Props.thy ===== *)
theory Pn_Device_Props
  imports Pn_Device_Correct
begin

text \<open>
  The properties of the tree of modules: after any history of plugging and pulling it is well
  formed, and plugging a submodule puts it where it is asked to be and nowhere else.
\<close>

section \<open>Histories\<close>

datatype plug_op =
    Plug_module u32 u16 u32
  | Plug_submodule u32 u16 u16 u32 u32 u8 u16 u16 bool
  | Pull_submodule u32 u16 u16
  | Pull_module u32 u16
  | Clear_ar nat

fun run_plug_op :: "plug_op \<Rightarrow> pnet \<Rightarrow> pnet option" where
  "run_plug_op (Plug_module api sl m) s = Some (on_dev (\<lambda>d. snd (pf_cmdev_plug_module d api sl m)) s)"
| "run_plug_op (Plug_submodule api sl su m u dir len_in len_out upd) s =
     map_option snd (pf_cmdev_plug_submodule api sl su m u dir len_in len_out upd s)"
| "run_plug_op (Pull_submodule api sl su) s = map_option snd (pf_cmdev_pull_submodule api sl su s)"
| "run_plug_op (Pull_module api sl) s = map_option snd (pf_cmdev_pull_module api sl s)"
| "run_plug_op (Clear_ar a) s = Some (on_dev (pf_device_clear a) s)"

lemma run_plug_op_keeps: "run_plug_op x s = Some s' \<Longrightarrow> keeps (net_device s) (net_device s')"
  by (cases x) (auto simp: plug_module_keeps device_clear_keeps
      dest: plug_submodule_device pull_submodule_keeps pull_module_keeps)

lemma plug_history_keeps: "fold_m run_plug_op xs s = Some s' \<Longrightarrow> keeps (net_device s) (net_device s')"
  by (induction xs arbitrary: s)
    (auto simp: bind_eq_Some_conv dest!: run_plug_op_keeps intro: keeps_trans)

text \<open>C24. Start from an initialised device and plug and pull modules and submodules in any order,
  with connections going away in between. The arrays of the tree keep their lengths, the
  identifiers of what is in use are unique among siblings, and the search by API, slot and subslot
  number finds exactly the submodule that is in use under these numbers.\<close>

theorem plugged_tree_ok:
  assumes "pf_cmdev_init d = Some (net_device s)"
    and "fold_m run_plug_op xs s = Some s'"
  shows "device_ok (net_device s') \<and> device_shape (net_device s') = device_shape d \<and>
    (\<forall>api sl su i j k. locate_subslot (net_device s') api sl su = Some (i, j, k) \<longleftrightarrow>
      subslot_used (net_device s') i j k \<and> address (net_device s') i j k = (api, sl, su))"
proof -
  have "device_ok (net_device s')" "device_shape (net_device s') = device_shape d"
    using init_keeps [OF assms(1)] plug_history_keeps [OF assms(2)] by (auto simp: keeps_def)
  then show ?thesis by (simp add: locate_iff)
qed

text \<open>C25. Plugging a submodule leaves every submodule at another address as it was, and when it
  reports success the submodule is found at its address, with the identifier that was asked
  for.\<close>

theorem pf_cmdev_plug_submodule_plugs:
  assumes "device_ok (net_device s)"
    and "pf_cmdev_plug_submodule api sl su mod_id sub_id dir len_in len_out update s = Some (r, s')"
  shows "others_kept (api, sl, su) (net_device s) (net_device s') \<and>
    (r = 0 \<longrightarrow> (\<exists>i j k. locate_subslot (net_device s') api sl su = Some (i, j, k) \<and>
      ss_submodule_ident_number (the_subslot (net_device s') i j k) = sub_id))"
proof -
  note p = plug_submodule_device [OF assms(2)]
  then have "device_ok (net_device s')" using assms(1) by (simp add: keeps_def)
  then show ?thesis using p by (auto simp: locate_iff)
qed

section \<open>Examples\<close>

definition demo_dev :: pf_device where
  "demo_dev = \<lparr>dev_apis = [zero_api [2, 2]], diag_items = replicate 3 (zero_diag_item 4),
     diag_items_free = 0\<rparr>"

definition demo_plug_net :: pnet where
  "demo_plug_net = demo_net\<lparr>net_device := the (pf_cmdev_init demo_dev)\<rparr>"

definition demo_ops :: "plug_op list" where
  "demo_ops = [Plug_module 0 1 0x32, Plug_submodule 0 1 1 0x32 0x132 1 1 0 False]"

lemma demo_plug_run:
  "pf_cmdev_init demo_dev = Some (net_device demo_plug_net) \<and>
   (case fold_m run_plug_op demo_ops demo_plug_net of None \<Rightarrow> False
    | Some s \<Rightarrow> locate_subslot (net_device s) 0 1 1 = Some (0, 0, 0))"
  by code_simp

theorem plugged_tree_ok_witness:
  "\<exists>s'. fold_m run_plug_op demo_ops demo_plug_net = Some s' \<and> device_ok (net_device s') \<and>
     subslot_used (net_device s') 0 0 0 \<and> address (net_device s') 0 0 0 = (0, 1, 1)"
  using demo_plug_run plugged_tree_ok [of demo_dev demo_plug_net demo_ops]
  by (auto split: option.splits)

lemma demo_plug_one:
  "(case pf_cmdev_plug_submodule 0 1 1 0x32 0x132 1 1 0 False demo_plug_net of None \<Rightarrow> False
    | Some (r, s) \<Rightarrow> r = 0)"
  by code_simp

theorem pf_cmdev_plug_submodule_plugs_witness:
  "\<exists>s' i j k. pf_cmdev_plug_submodule 0 1 1 0x32 0x132 1 1 0 False demo_plug_net = Some (0, s') \<and>
     locate_subslot (net_device s') 0 1 1 = Some (i, j, k) \<and>
     ss_submodule_ident_number (the_subslot (net_device s') i j k) = 0x132"
  using demo_plug_one conjunct1 [OF demo_plug_run] init_keeps [of demo_dev "net_device demo_plug_net"]
    pf_cmdev_plug_submodule_plugs [of demo_plug_net 0 1 1 "0x32" "0x132" 1 1 0 False 0]
  by (fastforce split: option.splits)

end
