(* ===== verification/Pn_Diag_Props.thy ===== *)
theory Pn_Diag_Props
  imports Pn_Diag_Correct Pn_Device_Props
begin

text \<open>
  The properties of the diagnosis: adding, updating and removing are operations on the list of
  items of one submodule, and any history of them, with modules plugged and pulled in between,
  keeps the lists apart and finite.
\<close>

declare split_paired_All [simp del] split_paired_Ex [simp del]

section \<open>The tree of modules and the lists\<close>

text \<open>A change of the tree: a submodule that is in use afterwards has its old list or an empty one.\<close>

definition heads_kept :: "pf_device \<Rightarrow> pf_device \<Rightarrow> bool" where
  "heads_kept d d' \<longleftrightarrow> diag_items d' = diag_items d \<and> diag_items_free d' = diag_items_free d
     \<and> (\<forall>p. used d' p \<longrightarrow> used d p \<and> head d' p = head d p \<or> head d' p = PF_DIAG_IX_NULL)"

lemma heads_kept_refl [simp]: "heads_kept d d"
  by (simp add: heads_kept_def)

lemma heads_kept_trans: "heads_kept d d' \<Longrightarrow> heads_kept d' d'' \<Longrightarrow> heads_kept d d''"
  unfolding heads_kept_def by metis

lemma heads_kept_pool:
  assumes "pool d fr L" and "heads_kept d d'"
  shows "\<exists>L'. pool d' fr L'"
proof -
  define L' where "L' p = (if used d p \<and> head d' p = head d p then L p else [])" for p
  have i: "diag_items d' = diag_items d" "diag_items_free d' = diag_items_free d"
    and h: "\<And>p. used d' p \<Longrightarrow> used d p \<and> head d' p = head d p \<or> head d' p = PF_DIAG_IX_NULL"
    using assms(2) by (auto simp: heads_kept_def)
  have ok: "lists_ok (diag_items d) (diag_items_free d) (used d) (head d) fr L"
    using assms(1) by (simp add: pool_def)
  have "lists_ok (diag_items d') (diag_items_free d') (used d') (head d') fr L'"
    unfolding lists_ok_def i
  proof (intro conjI allI impI)
    show "pool_size_ok (diag_items d)" "linked (diag_items d) (diag_items_free d) fr"
      using lists_okD(1,2) [OF ok] by auto
    fix p assume u: "used d' p"
    show "linked (diag_items d) (head d' p) (L' p)"
      using h [OF u] lists_okD(4) [OF ok, of p] by (auto simp: L'_def)
    show "set (L' p) \<inter> set fr = {}"
      using lists_okD(7) [OF ok, of p] by (cases "used d p") (auto simp: L'_def)
    show "\<forall>n \<in> set (L' p). di_in_use (diag_items d ! n)"
      using lists_okD(8) [OF ok, of p] by (cases "used d p") (auto simp: L'_def)
  next
    fix p q assume "used d' p \<and> used d' q \<and> p \<noteq> q"
    then have "used d p \<and> used d q \<longrightarrow> set (L p) \<inter> set (L q) = {}"
      using ok unfolding lists_ok_def by blast
    then show "set (L' p) \<inter> set (L' q) = {}" unfolding L'_def by auto
  qed
  then show ?thesis using assms(1) i by (auto simp: pool_def manuf_size_def)
qed

lemma heads_kept_subslot:
  assumes "\<And>u. ss_in_use (f u) \<Longrightarrow> ss_in_use u \<and> diag_list (f u) = diag_list u \<or> diag_list (f u) = PF_DIAG_IX_NULL"
  shows "heads_kept d (upd_subslot i j k f d)"
proof -
  have "used d p \<and> head (upd_subslot i j k f d) p = head d p \<or> head (upd_subslot i j k f d) p = PF_DIAG_IX_NULL"
    if u: "used (upd_subslot i j k f d) p" for p
  proof -
    obtain i' j' k' where p: "p = (i', j', k')" by (cases p)
    show ?thesis
      using u assms [of "the_subslot d i j k"]
      by (cases "i' = i \<and> j' = j \<and> k' = k \<and> i < length (dev_apis d) \<and> j < length (slots (dev_apis d ! i))
          \<and> k < length (subslots (the_slot d i j))")
        (simp_all only: p used_def head_def subslot_used_def slots_upd_subslot the_subslot_upd prod.case
          if_True if_False simp_thms)
  qed
  then show ?thesis by (simp add: heads_kept_def)
qed

lemma upd_slot_parts:
  "length (dev_apis (upd_slot i j f d)) = length (dev_apis d)"
  "api_in_use (dev_apis (upd_slot i j f d) ! i') = api_in_use (dev_apis d ! i')"
  "length (slots (dev_apis (upd_slot i j f d) ! i')) = length (slots (dev_apis d ! i'))"
  "the_slot (upd_slot i j f d) i' j' =
     (if i' = i \<and> j' = j \<and> i < length (dev_apis d) \<and> j < length (slots (dev_apis d ! i))
      then f (the_slot d i j) else the_slot d i' j')"
  "diag_items (upd_slot i j f d) = diag_items d" "diag_items_free (upd_slot i j f d) = diag_items_free d"
  by (cases "i < length (dev_apis d)"; cases "i' = i"; cases "j < length (slots (dev_apis d ! i))"; cases "j' = j";
      simp add: upd_slot_def upd_api_def list_update_beyond)+

text \<open>A changed slot keeps its submodules or has none in use.\<close>

lemma heads_kept_slot:
  assumes "\<And>s. subslots (f s) = subslots s \<and> (sl_in_use (f s) \<longrightarrow> sl_in_use s)
    \<or> (\<forall>u \<in> set (subslots (f s)). \<not> ss_in_use u)"
  shows "heads_kept d (upd_slot i j f d)"
proof -
  have "used d (i', j', k) \<and> head (upd_slot i j f d) (i', j', k) = head d (i', j', k)"
    if u: "used (upd_slot i j f d) (i', j', k)" for i' j' k
  proof (cases "i' = i \<and> j' = j \<and> i < length (dev_apis d) \<and> j < length (slots (dev_apis d ! i))")
    case True
    then show ?thesis
      using u assms [of "the_slot d i j"] by (simp add: used_def head_def subslot_used_def upd_slot_parts) auto
  next
    case False
    then show ?thesis
      using u by (auto simp add: used_def head_def subslot_used_def upd_slot_parts split: if_splits)
  qed
  then have "used (upd_slot i j f d) p \<longrightarrow> used d p \<and> head (upd_slot i j f d) p = head d p" for p
    by (cases p) blast
  then show ?thesis by (simp add: heads_kept_def upd_slot_parts)
qed

lemma heads_kept_new_slot: "heads_kept d (snd (snd (pf_cmdev_new_slot d i slot_nbr)))"
  by (auto simp: pf_cmdev_new_slot_def zero_slot_def zero_subslot_def split: option.splits
      intro!: heads_kept_slot)

lemma heads_kept_plug_module: "heads_kept d (snd (pf_cmdev_plug_module d api slot_nbr ident))"
proof (cases "pf_cmdev_get_api d api")
  case (Some i)
  then show ?thesis
    using heads_kept_new_slot [of d i slot_nbr]
    by (cases "pf_cmdev_new_slot d i slot_nbr")
      (auto simp: pf_cmdev_plug_module_def heads_kept_slot split: option.splits
        intro!: heads_kept_trans [OF _ heads_kept_slot])
qed (simp add: pf_cmdev_plug_module_def)

lemma heads_kept_pull:
  "pf_cmdev_pull_submodule api slot_nbr subslot_nbr s = Some (r, s') \<Longrightarrow> heads_kept (net_device s) (net_device s')"
  by (erule pull_submodule_device) (auto intro!: heads_kept_subslot simp: set_ident_info_def)

lemma heads_kept_pull_module:
  assumes "pf_cmdev_pull_module api slot_nbr s = Some (r, s')"
  shows "heads_kept (net_device s) (net_device s')"
  using assms heads_kept_refl heads_kept_trans heads_kept_pull
  by (rule pull_module_device [where R = heads_kept]) (simp_all add: heads_kept_slot)

lemma heads_kept_clear: "heads_kept d (pf_device_clear a d)"
  by (auto simp: heads_kept_def used_def head_def subslot_used_def pf_device_clear_def)

lemma heads_kept_ident: "heads_kept d (upd_subslot i j k (set_ident_info v) d)"
  by (rule heads_kept_subslot) (simp add: set_ident_info_def)

lemma heads_kept_prepare:
  assumes "plug_prepare i api slot_nbr subslot_nbr mod_id sub_id update s = Some (b, s')"
  shows "heads_kept (net_device s) (net_device s')"
proof (cases "pf_cmdev_get_slot (dev_apis (net_device s) ! i) slot_nbr")
  case None
  then have "s' = on_dev (\<lambda>d. snd (pf_cmdev_plug_module d api slot_nbr mod_id)) s"
    using assms unfolding plug_prepare_def None option.case by (simp only: prod.inject option.inject)
  then show ?thesis by (simp add: heads_kept_plug_module)
next
  case j: (Some j)
  show ?thesis
  proof (cases "pf_cmdev_get_subslot (the_slot (net_device s) i j) subslot_nbr")
    case None
    have "s' = s" using assms unfolding plug_prepare_def j None option.case by (simp only: prod.inject option.inject)
    then show ?thesis by simp
  next
    case (Some k)
    show ?thesis
    proof (cases update)
      case True
      then obtain r s1 where s1: "pf_cmdev_pull_submodule api slot_nbr subslot_nbr s = Some (r, s1)"
        "s' = on_dev (upd_subslot i j k (set_ident_info PF_SUBMOD_PLUG_NO)) s1"
        using assms unfolding plug_prepare_def j Some option.case if_P [OF True] bind_eq_Some_conv
        by (auto simp only: prod.inject option.inject split: prod.splits)
      show ?thesis
        unfolding s1(2) on_dev_device
        by (rule heads_kept_trans [OF heads_kept_pull [OF s1(1)] heads_kept_ident])
    next
      case False
      then have "s' = on_dev (upd_subslot i j k (set_ident_info PF_SUBMOD_PLUG_OK)) s \<or>
          s' = on_dev (upd_subslot i j k (set_ident_info PF_SUBMOD_PLUG_SUBSTITUTE)) s"
        using assms unfolding plug_prepare_def j Some option.case if_not_P [OF False]
        by (auto simp only: prod.inject option.inject split: if_splits)
      then obtain v where s': "s' = on_dev (upd_subslot i j k (set_ident_info v)) s" by blast
      show ?thesis unfolding s' on_dev_device by (rule heads_kept_ident)
    qed
  qed
qed

lemma heads_kept_plug:
  assumes "pf_cmdev_plug_submodule api slot_nbr subslot_nbr mod_id sub_id dir len_in len_out update s
    = Some (r, s')"
  shows "heads_kept (net_device s) (net_device s')"
proof (cases "pf_cmdev_get_api (net_device s) api")
  case (Some i)
  then obtain b s1 where p: "plug_prepare i api slot_nbr subslot_nbr mod_id sub_id update s = Some (b, s1)"
    using assms by (auto simp: pf_cmdev_plug_submodule_def bind_eq_Some_conv)
  note prep = heads_kept_prepare [OF p]
  note i = apis_kept_get [OF plug_prepare_apis [OF p] Some]
  show ?thesis
  proof (cases "b \<or> pf_cmdev_get_slot (dev_apis (net_device s1) ! i) slot_nbr = None")
    case True
    then show ?thesis using assms Some p prep by (auto simp: pf_cmdev_plug_submodule_def split: if_splits)
  next
    case False
    then obtain j where j: "pf_cmdev_get_slot (dev_apis (net_device s1) ! i) slot_nbr = Some j" and "\<not> b"
      by auto
    then have new: "plug_new_subslot i j api slot_nbr subslot_nbr mod_id sub_id dir len_in len_out s1 = Some (r, s')"
      using assms Some p by (simp add: pf_cmdev_plug_submodule_def)
    show ?thesis
      by (rule plug_new_subslot_device [OF new])
        (use prep i slot_found [OF j] in \<open>auto simp: plugged_def intro!: heads_kept_trans [OF prep heads_kept_subslot]\<close>)
  qed
qed (use assms in \<open>simp add: pf_cmdev_plug_submodule_def\<close>)

lemma run_plug_op_heads: "run_plug_op x s = Some s' \<Longrightarrow> heads_kept (net_device s) (net_device s')"
  by (cases x) (auto simp: heads_kept_plug_module heads_kept_clear
      dest: heads_kept_plug heads_kept_pull heads_kept_pull_module)


section \<open>The properties\<close>

definition pool_ok :: "pf_device \<Rightarrow> bool" where
  "pool_ok d \<longleftrightarrow> (\<exists>fr L. pool d fr L)"

lemma refines_pool_ok: "refines t f d fr L d' \<Longrightarrow> pool_ok d'"
  unfolding refines_def pool_ok_def by blast

text \<open>Freshly initialised: every item is free.\<close>

definition items_alike :: "pf_device \<Rightarrow> bool" where
  "items_alike d \<longleftrightarrow> pool_size_ok (diag_items d) \<and>
     (\<forall>it \<in> set (diag_items d). length (manuf_data (fmt_usi it)) = manuf_size d)"

lemma linked_upto:
  assumes "pool_size_ok items"
    and "\<And>i. i < length items \<Longrightarrow>
      di_next (items ! i) = (if i < length items - 1 then of_nat (i + 1) else PF_DIAG_IX_NULL)"
    and "i < length items"
  shows "linked items (of_nat i) [i..<length items]"
  using assms(3)
proof (induction "length items - i" arbitrary: i)
  case (Suc n)
  have u: "unat (of_nat i :: u16) = i" using assms(1) Suc.prems by (rule pool_index)
  show ?case
  proof (cases "Suc i < length items")
    case True
    then have "linked items (of_nat (Suc i)) [Suc i..<length items]"
      using Suc.hyps(2) by (intro Suc.hyps(1)) simp_all
    moreover have "di_next (items ! i) = of_nat (Suc i)"
      using assms(2) [OF Suc.prems] True by (cases "i < length items - 1") (simp, linarith)
    ultimately show ?thesis using Suc.prems u by (simp add: upt_conv_Cons)
  next
    case False
    then have "[i..<length items] = [i]" using Suc.prems by (simp add: upt_conv_Cons)
    moreover have "di_next (items ! i) = PF_DIAG_IX_NULL"
      using assms(2) [OF Suc.prems] False by (cases "i < length items - 1") (linarith, simp)
    ultimately show ?thesis using Suc.prems u by simp
  qed
qed simp

lemma zero_not_in_use [simp]: "\<not> sl_in_use (zero_slot n)" "\<not> api_in_use (zero_api ns)"
  by (simp_all add: zero_slot_def zero_api_def)

lemma new_api_unused:
  assumes "\<forall>a \<in> set (dev_apis d). \<forall>x \<in> set (slots a). \<not> sl_in_use x"
  shows "\<forall>a \<in> set (dev_apis (snd (snd (pf_cmdev_new_api d api)))). \<forall>x \<in> set (slots a). \<not> sl_in_use x"
  using assms
  by (auto simp: pf_cmdev_new_api_def upd_api_def zero_api_def split: option.splits
      dest!: subsetD [OF set_update_subset_insert])

lemma new_api_items:
  "diag_items (snd (snd (pf_cmdev_new_api d api))) = diag_items d"
  "diag_items_free (snd (snd (pf_cmdev_new_api d api))) = diag_items_free d"
  by (auto simp: pf_cmdev_new_api_def upd_api_def split: option.splits)

lemma init_pool:
  assumes "pf_cmdev_init d = Some d'" and "items_alike d"
  shows "pool d' [0..<length (diag_items d)] (\<lambda>_. [])"
proof -
  let ?n = "length (diag_items d)"
  define items where "items = map (\<lambda>ix. (zero_diag_item (length (manuf_data (fmt_usi (diag_items d ! ix)))))
    \<lparr>di_next := (if ix < ?n - 1 then of_nat (ix + 1) else PF_DIAG_IX_NULL)\<rparr>) [0..<?n]"
  define z where "z = d\<lparr>dev_apis := map (\<lambda>a. zero_api (map (length \<circ> subslots) (slots a))) (dev_apis d),
    diag_items_free := 0, diag_items := items\<rparr>"
  have n: "?n \<noteq> 0" and d': "d' = snd (snd (pf_cmdev_new_api z 0))"
    using assms(1) by (auto simp: pf_cmdev_init_def Let_def z_def items_def split: if_splits)
  have i: "diag_items d' = items" "diag_items_free d' = 0"
    by (simp_all add: d' new_api_items z_def)
  have "\<forall>a \<in> set (dev_apis z). \<forall>x \<in> set (slots a). \<not> sl_in_use x"
    by (auto simp: z_def zero_api_def)
  then have "\<forall>a \<in> set (dev_apis d'). \<forall>x \<in> set (slots a). \<not> sl_in_use x"
    unfolding d' by (rule new_api_unused)
  then have "\<not> sl_in_use (the_slot d' i j)" if "i < length (dev_apis d')" "j < length (slots (dev_apis d' ! i))"
    for i j using that by (meson nth_mem)
  then have none: "\<not> used d' p" for p
    by (cases p) (auto simp: used_def subslot_used_def)
  have len: "length items = ?n" by (simp add: items_def)
  have it: "items ! k = (zero_diag_item (manuf_size d))
      \<lparr>di_next := (if k < ?n - 1 then of_nat (k + 1) else PF_DIAG_IX_NULL)\<rparr>" if "k < ?n" for k
    using that assms(2) by (simp add: items_def items_alike_def)
  have "linked items (of_nat 0) [0..<length items]"
    using assms(2) n len it by (intro linked_upto) (auto simp: items_alike_def)
  then have "lists_ok (diag_items d') (diag_items_free d') (used d') (head d') [0..<?n] (\<lambda>_. [])"
    using none assms(2) len by (simp add: lists_ok_def i items_alike_def)
  moreover have "item_sized (manuf_size d') x" if "x \<in> set items" for x
    using that it n len by (auto simp: in_set_conv_nth i manuf_size_def item_sized_def zero_diag_item_def)
  ultimately show ?thesis by (simp add: pool_def i)
qed

datatype diag_op =
    Diag_add pnet_diag_source u16 u16 u16 u16 u32 u32 u16 u16 "u8 list option"
  | Diag_update pnet_diag_source u16 u16 u32 u16 u16 "u8 list option"
  | Diag_remove pnet_diag_source u16 u16 u16
  | Diag_tree plug_op

fun run_diag_op :: "diag_op \<Rightarrow> pnet \<Rightarrow> pnet option" where
  "run_diag_op (Diag_add src b sv err ext av q usi n pm) s =
     map_option snd (pf_diag_add src b sv err ext av q usi n pm s)"
| "run_diag_op (Diag_update src err ext av usi n pm) s =
     map_option snd (pf_diag_update src err ext av usi n pm s)"
| "run_diag_op (Diag_remove src err ext usi) s = map_option snd (pf_diag_remove src err ext usi s)"
| "run_diag_op (Diag_tree x) s = run_plug_op x s"

text \<open>The manufacturer data that an operation is given is as long as it says.\<close>

fun diag_op_ok :: "diag_op \<Rightarrow> bool" where
  "diag_op_ok (Diag_add src b sv err ext av q usi n pm) \<longleftrightarrow> manuf_data_ok n pm"
| "diag_op_ok (Diag_update src err ext av usi n pm) \<longleftrightarrow> manuf_data_ok n pm"
| "diag_op_ok _ \<longleftrightarrow> True"

fun is_tree_op :: "diag_op \<Rightarrow> bool" where
  "is_tree_op (Diag_tree x) \<longleftrightarrow> True"
| "is_tree_op _ \<longleftrightarrow> False"

lemma run_diag_op_pool:
  assumes "pool_ok (net_device s)" and "diag_op_ok x"
  shows "\<not> is_tree_op x \<Longrightarrow> run_diag_op x s \<noteq> None"
    and "run_diag_op x s = Some s' \<Longrightarrow> pool_ok (net_device s')"
proof -
  obtain fr L where pool: "pool (net_device s) fr L" using assms(1) by (auto simp: pool_ok_def)
  have "(\<not> is_tree_op x \<longrightarrow> run_diag_op x s \<noteq> None) \<and>
      (run_diag_op x s = Some s' \<longrightarrow> pool_ok (net_device s'))"
  proof (cases x)
    case (Diag_add src b sv err ext av q usi n pm)
    then show ?thesis
      using pf_diag_add_lemma [OF refl pool, of n pm src b sv err ext av q usi] assms(2)
      by (auto dest: refines_pool_ok)
  next
    case (Diag_update src err ext av usi n pm)
    then show ?thesis
      using pf_diag_update_lemma [OF refl pool, of n pm src err ext av usi] assms(2)
      by (auto dest: refines_pool_ok)
  next
    case (Diag_remove src err ext usi)
    then show ?thesis
      using pf_diag_remove_lemma [OF refl pool, of src err ext usi] by (auto dest: refines_pool_ok)
  next
    case (Diag_tree y)
    then show ?thesis using heads_kept_pool [OF pool run_plug_op_heads, of y s']
      unfolding pool_ok_def by (cases "run_plug_op y s = Some s'") (simp, blast, simp)
  qed
  then show "\<not> is_tree_op x \<Longrightarrow> run_diag_op x s \<noteq> None"
    "run_diag_op x s = Some s' \<Longrightarrow> pool_ok (net_device s')" by auto
qed

lemma diag_history_pool:
  assumes "pool_ok (net_device s)" and "\<forall>x \<in> set xs. diag_op_ok x"
    and "fold_m run_diag_op xs s = Some s'"
  shows "pool_ok (net_device s')"
  using assms
proof (induction xs arbitrary: s)
  case (Cons x xs)
  then obtain s1 where s1: "run_diag_op x s = Some s1" "fold_m run_diag_op xs s1 = Some s'"
    unfolding fold_m.simps bind_eq_Some_conv by blast
  have ok: "diag_op_ok x" "\<forall>x \<in> set xs. diag_op_ok x" using Cons.prems(2) by auto
  show ?case by (rule Cons.IH [OF run_diag_op_pool(2) [OF Cons.prems(1) ok(1) s1(1)] ok(2) s1(2)])
qed simp

text \<open>A rejected call changes nothing at all; only an accepted one goes on to the submodule state and the alarm.\<close>

lemma pf_diag_add_rejected:
  assumes "\<not> (add_args_ok (net_device s) src sv err ext av q usi n pm \<and> diag_target (net_device s) src \<noteq> None)"
    and "pf_diag_add src b sv err ext av q usi n pm s = Some (r, s')"
  shows "r = -1 \<and> s' = s"
  using assms find_entry_none [of "net_device s" src err ext usi]
  by (auto simp: pf_diag_add_def add_args_ok_def Let_def split: if_splits)

text \<open>C26. Adding a diagnosis item returns, and is the list operation it is meant to be: when the
  arguments and the submodule are acceptable, the matching item of that submodule is overwritten
  and moved to the front, or a free item is written and put in front while there is one, and the
  lists of all other submodules stay as they are. A call that is rejected fails and leaves the whole
  state as it was. (The lists and the free items are what is compared; an accepted call also updates
  the state of the submodule and queues an alarm.)\<close>

theorem pf_diag_add_refines:
  assumes "pool (net_device s) fr L" and "manuf_data_ok n pm"
  shows "\<exists>r s'. pf_diag_add src b sv err ext av q usi n pm s = Some (r, s') \<and>
    refines (if add_args_ok (net_device s) src sv err ext av q usi n pm
        then diag_target (net_device s) src else None)
      (add_spec (diag_match src err ext usi) (write_spec src b sv err ext av q usi n pm)
        (fresh_item (net_device s))) (net_device s) fr L (net_device s') \<and>
    (add_args_ok (net_device s) src sv err ext av q usi n pm \<and> diag_target (net_device s) src \<noteq> None \<or>
      r = -1 \<and> s' = s)"
proof -
  obtain r s' where "pf_diag_add src b sv err ext av q usi n pm s = Some (r, s')"
    and "refines (if add_args_ok (net_device s) src sv err ext av q usi n pm
        then diag_target (net_device s) src else None)
      (add_spec (diag_match src err ext usi) (write_spec src b sv err ext av q usi n pm)
        (fresh_item (net_device s))) (net_device s) fr L (net_device s')"
    using pf_diag_add_lemma [OF refl assms, of src b sv err ext av q usi] by blast
  then show ?thesis using pf_diag_add_rejected [of s src sv err ext av q usi n pm b r s'] by blast
qed

text \<open>C27. Removing a diagnosis item returns, takes the first matching item out of the list of its
  submodule and gives it back to the free list; without a match, or with arguments that are not
  acceptable, no list and no number of free items changes.\<close>

theorem pf_diag_remove_refines:
  assumes "pool (net_device s) fr L"
  shows "\<exists>r s'. pf_diag_remove src err ext usi s = Some (r, s') \<and>
    refines (if usi_args_ok usi err ext \<and> src_ch src \<le> PNET_CHANNEL_WHOLE_SUBMODULE
        then diag_target (net_device s) src else None)
      (remove_spec (diag_match src err ext usi)) (net_device s) fr L (net_device s')"
  using assms by (intro pf_diag_remove_lemma) simp_all

text \<open>C28. Start from an initialised device and add, update and remove diagnosis items, with modules
  plugged and pulled and connections going away in between. At every moment the items in use form
  one finite list for each submodule in use, the free items another, and no item is in two of
  them: so every search of \<^verbatim>\<open>pf_diag.c\<close> ends, and the next operation on the diagnosis
  returns.\<close>

theorem diag_history_ok:
  assumes "pf_cmdev_init d = Some (net_device s)" and "items_alike d"
    and "\<forall>x \<in> set xs. diag_op_ok x" and "fold_m run_diag_op xs s = Some s'"
  shows "pool_ok (net_device s') \<and>
    (\<forall>x. diag_op_ok x \<and> \<not> is_tree_op x \<longrightarrow> run_diag_op x s' \<noteq> None)"
proof -
  have "pool_ok (net_device s)" using init_pool [OF assms(1,2)] by (auto simp: pool_ok_def)
  then have "pool_ok (net_device s')" using diag_history_pool assms(3,4) by blast
  then show ?thesis using run_diag_op_pool(1) by blast
qed

section \<open>Examples\<close>

definition demo_src :: pnet_diag_source where
  "demo_src = \<lparr>src_api = 0, src_slot = 1, src_subslot = 1, src_ch = 0, ch_grouping = 0, ch_direction = 1\<rparr>"

definition demo_diag_net :: pnet where
  "demo_diag_net = the (fold_m run_plug_op demo_ops demo_plug_net)"

lemma demo_diag_init: "pf_cmdev_init demo_dev = Some (net_device demo_plug_net) \<and> items_alike demo_dev"
  using demo_plug_run
  by (auto simp: items_alike_def demo_dev_def PF_DIAG_IX_NULL_def manuf_size_def zero_diag_item_def)

lemma demo_diag_run:
  "case fold_m run_plug_op demo_ops demo_plug_net of None \<Rightarrow> False
   | Some s \<Rightarrow> diag_target (net_device s) demo_src = Some (0, 0, 0)"
  by code_simp

lemma demo_diag_size:
  "case fold_m run_plug_op demo_ops demo_plug_net of None \<Rightarrow> False
   | Some s \<Rightarrow> manuf_size (net_device s) = 4"
  by code_simp

lemma run_tree_ops: "fold_m run_diag_op (map Diag_tree xs) s = fold_m run_plug_op xs s"
  by (induction xs arbitrary: s) (simp_all split: bind_split)

lemma demo_tree_run: "fold_m run_diag_op (map Diag_tree demo_ops) demo_plug_net = Some demo_diag_net"
  unfolding run_tree_ops demo_diag_net_def
  using demo_diag_run by (cases "fold_m run_plug_op demo_ops demo_plug_net") simp_all

lemma tree_ops_ok: "\<forall>x \<in> set (map Diag_tree xs). diag_op_ok x"
  by simp

lemma demo_args:
  "usi_args_ok 0x8000 1 0" "qualifier_args_ok 0x8000 0 0"
  "src_ch demo_src \<le> PNET_CHANNEL_WHOLE_SUBMODULE" "PF_USI_CHANNEL_DIAGNOSIS = 0x8000"
  by code_simp+

lemma demo_diag_args:
  "diag_target (net_device demo_diag_net) demo_src = Some (0, 0, 0)"
  "add_args_ok (net_device demo_diag_net) demo_src 0 1 0 0 0 0x8000 0 None"
  "usi_args_ok 0x8000 1 0" "src_ch demo_src \<le> PNET_CHANNEL_WHOLE_SUBMODULE" "manuf_data_ok 0 None"
proof -
  have "diag_target (net_device demo_diag_net) demo_src = Some (0, 0, 0) \<and>
      manuf_size (net_device demo_diag_net) = 4"
    using demo_diag_run demo_diag_size unfolding demo_diag_net_def by (simp split: option.splits)
  then show "diag_target (net_device demo_diag_net) demo_src = Some (0, 0, 0)"
    "add_args_ok (net_device demo_diag_net) demo_src 0 1 0 0 0 0x8000 0 None"
    by (simp_all add: add_args_ok_def manuf_args_ok_def demo_args)
  show "usi_args_ok 0x8000 1 0" "src_ch demo_src \<le> PNET_CHANNEL_WHOLE_SUBMODULE" "manuf_data_ok 0 None"
    by (code_simp, simp add: demo_args, code_simp)
qed

lemma demo_pool: "pool_ok (net_device demo_diag_net)"
proof (rule diag_history_pool [OF _ tree_ops_ok demo_tree_run])
  show "pool_ok (net_device demo_plug_net)"
    using init_pool demo_diag_init unfolding pool_ok_def by blast
qed

theorem pf_diag_add_refines_witness:
  "\<exists>fr L r s'. pf_diag_add demo_src 0 0 1 0 0 0 0x8000 0 None demo_diag_net = Some (r, s') \<and>
     refines (Some (0, 0, 0)) (add_spec (diag_match demo_src 1 0 0x8000)
       (write_spec demo_src 0 0 1 0 0 0 0x8000 0 None) (fresh_item (net_device demo_diag_net)))
       (net_device demo_diag_net) fr L (net_device s')"
proof -
  obtain fr L where "pool (net_device demo_diag_net) fr L" using demo_pool by (auto simp: pool_ok_def)
  from pf_diag_add_refines [OF this demo_diag_args(5), of demo_src 0 0 1 0 0 0 "0x8000"]
  show ?thesis unfolding demo_diag_args(1) if_P [OF demo_diag_args(2)] by blast
qed

theorem pf_diag_remove_refines_witness:
  "\<exists>fr L r s'. pf_diag_remove demo_src 1 0 0x8000 demo_diag_net = Some (r, s') \<and>
     refines (Some (0, 0, 0)) (remove_spec (diag_match demo_src 1 0 0x8000))
       (net_device demo_diag_net) fr L (net_device s')"
proof -
  obtain fr L where "pool (net_device demo_diag_net) fr L" using demo_pool by (auto simp: pool_ok_def)
  from pf_diag_remove_refines [OF this, of demo_src 1 0 "0x8000"]
  show ?thesis using demo_diag_args(1,3,4) by (simp only: simp_thms if_True) blast
qed

theorem diag_history_ok_witness:
  "pool_ok (net_device demo_diag_net) \<and>
     run_diag_op (Diag_remove demo_src 1 0 0x8000) demo_diag_net \<noteq> None"
proof -
  have "diag_op_ok (Diag_remove demo_src 1 0 0x8000)" "\<not> is_tree_op (Diag_remove demo_src 1 0 0x8000)"
    by simp_all
  then show ?thesis
    using diag_history_ok [OF conjunct1 [OF demo_diag_init] conjunct2 [OF demo_diag_init] tree_ops_ok demo_tree_run]
    by blast
qed

end
