(* ===== verification/Pn_Cm.thy ===== *)
theory Pn_Cm
  imports Pn_Alarm_Run
begin

text \<open>
  Context management: the operations by which a connection goes from one state to the next.
  Starting it (\<^verbatim>\<open>pf_cmsu.c\<close>), its timers (\<^verbatim>\<open>pf_cmio.c\<close>, \<^verbatim>\<open>pf_cmsm.c\<close>), the control
  commands of the controller (\<^verbatim>\<open>pf_cmpbe.c\<close> and \<^verbatim>\<open>pf_cmdev.c\<close>), and the allocation of an AR
  (\<^verbatim>\<open>pf_cmrpc.c\<close>). Sending the RPC request that announces the application's readiness is the
  argument \<open>ccontrol\<close>.
\<close>

section \<open>Allocating and finding an AR\<close>

definition pf_cmsu_init :: "nat \<Rightarrow> pnet \<Rightarrow> pnet" where
  "pf_cmsu_init a = upd_ar a (\<lambda>r. r\<lparr>cmsu_state := PF_CMSU_STATE_IDLE\<rparr>)"

definition pf_cmwrr_init :: "nat \<Rightarrow> pnet \<Rightarrow> pnet" where
  "pf_cmwrr_init a = upd_ar a (\<lambda>r. r\<lparr>cmwrr_state := PF_CMWRR_STATE_IDLE\<rparr>)"

definition pf_ar_allocate :: "pnet \<Rightarrow> nat option \<times> pnet" where
  "pf_ar_allocate s =
     (case find_ix (\<lambda>r. \<not> in_use r) (net_ars s) of
        None \<Rightarrow> (None, s)
      | Some a \<Rightarrow> (Some a, upd_ar a (\<lambda>r. r\<lparr>arep := of_nat a + 1\<rparr>)
          (upd_ar a (\<lambda>r. r\<lparr>cmio_timeout := pf_scheduler_init_handle (cmio_timeout r) NAME_CMIO,
              cmio_timer_should_reschedule := False\<rparr>)
            (pf_cmwrr_init a (pf_cmsu_init a
              (upd_ar a (\<lambda>_. (w_ar0 (net_world s))\<lparr>in_use := True\<rparr>) s))))))"

definition pf_cmdev_get_state :: "ar \<Rightarrow> int \<times> pf_cmdev_state_values" where
  "pf_cmdev_get_state r = (0, cmdev_state r)"

definition pf_ar_find_by_uuid :: "pf_uuid \<Rightarrow> pnet \<Rightarrow> nat option" where
  "pf_ar_find_by_uuid u s = find_ix (\<lambda>r. in_use r
     \<and> \<not> (fst (pf_cmdev_get_state r) = 0 \<and> snd (pf_cmdev_get_state r) = PF_CMDEV_STATE_POWER_ON)
     \<and> arp_ar_uuid (ar_param (cfg r)) = u) (net_ars s)"

definition pf_ar_find_by_index :: "u16 \<Rightarrow> pnet \<Rightarrow> nat option" where
  "pf_ar_find_by_index ix s = (if unat ix < length (net_ars s) then Some (unat ix) else None)"

section \<open>CMDEV: states\<close>

definition pf_cmdev_set_state :: "nat \<Rightarrow> pf_cmdev_state_values \<Rightarrow> pnet \<Rightarrow> pnet option" where
  "pf_cmdev_set_state a st s = (let s = upd_ar a (\<lambda>r. r\<lparr>cmdev_state := st\<rparr>) s in
     if st = PF_CMDEV_STATE_ABORT
     then do { s \<leftarrow> pf_cmdev_state_ind a PNET_EVENT_ABORT s; Some (on_dev (pf_device_clear a) s) }
     else Some s)"

definition pf_cmdev_cmio_info_ind :: "nat \<Rightarrow> bool \<Rightarrow> pnet \<Rightarrow> pnet option" where
  "pf_cmdev_cmio_info_ind a data_possible s = (let
     st = cmdev_state (net_ars s ! a);
     ready = upd_ar a (\<lambda>r. r\<lparr>ready_4_data := data_possible\<rparr>) s
   in if st = PF_CMDEV_STATE_W_ARDY \<or> st = PF_CMDEV_STATE_W_ARDYCNF then Some ready
      else if st = PF_CMDEV_STATE_WDATA
      then if data_possible
        then do {
          s \<leftarrow> pf_cmdev_state_ind a PNET_EVENT_DATA ready;
          pf_cmdev_set_state a PF_CMDEV_STATE_DATA s }
        else Some ready
      else Some s)"

definition pf_cmdev_cm_abort :: "nat option \<Rightarrow> pnet \<Rightarrow> (int \<times> pnet) option" where
  "pf_cmdev_cm_abort p_ar s =
     (case p_ar of
        None \<Rightarrow> Some (-1, s)
      | Some a \<Rightarrow>
          if \<not> device_access (ar_properties (ar_param (cfg (net_ars s ! a))))
            \<or> cmdev_state (net_ars s ! a) \<in> {PF_CMDEV_STATE_W_CRES, PF_CMDEV_STATE_DATA}
          then do { s \<leftarrow> pf_cmdev_set_state a PF_CMDEV_STATE_ABORT s; Some (0, s) }
          else Some (-1, s))"

definition pf_cmdev_cm_init_req :: "nat option \<Rightarrow> pnet \<Rightarrow> (int \<times> pnet) option" where
  "pf_cmdev_cm_init_req p_ar s =
     (case p_ar of
        None \<Rightarrow> Some (-1, s)
      | Some a \<Rightarrow>
          if cmdev_state (net_ars s ! a) = PF_CMDEV_STATE_POWER_ON
          then do { s \<leftarrow> pf_cmdev_set_state a PF_CMDEV_STATE_W_CIND s; Some (0, s) }
          else Some (-1, s))"

section \<open>CMSU: starting the communication relations\<close>

definition PNET_ERROR_CODE_1_CMDEV :: u8 where "PNET_ERROR_CODE_1_CMDEV = 0x3D"
definition PNET_ERROR_CODE_2_CMDEV_STATE_CONFLICT :: u8 where "PNET_ERROR_CODE_2_CMDEV_STATE_CONFLICT = 0"
definition PNET_ERROR_CODE_2_CMSU_AR_ADD_PROV_CONS_FAILED :: u8 where
  "PNET_ERROR_CODE_2_CMSU_AR_ADD_PROV_CONS_FAILED = 1"
definition PNET_ERROR_CODE_2_CMSU_AR_ALARM_OPEN_FAILED :: u8 where
  "PNET_ERROR_CODE_2_CMSU_AR_ALARM_OPEN_FAILED = 2"

definition set_code_2 :: "u8 \<Rightarrow> pnet_result \<Rightarrow> pnet_result" where
  "set_code_2 c st = st\<lparr>result_status := (result_status st)\<lparr>error_code_2 := c\<rparr>\<rparr>"

definition pf_cmsm_activate :: "nat \<Rightarrow> pnet \<Rightarrow> int \<times> pnet" where
  "pf_cmsm_activate a s =
     (0, upd_ar a (\<lambda>r. r\<lparr>cmsm_timeout := pf_scheduler_init_handle (cmsm_timeout r) NAME_CMSM\<rparr>) s)"

text \<open>One CR; \<open>ret\<close> of the loop so far comes in, and nothing is done after a failure.\<close>

definition cmsu_start_cr :: "nat \<Rightarrow> nat \<Rightarrow> int \<times> pnet \<Rightarrow> (int \<times> pnet) option" where
  "cmsu_start_cr a c = (\<lambda>(ret, s). do {
     (ret, s) \<leftarrow> (if ret = 0 \<and> iocr_type (the_iocr_param s a c) = PF_IOCR_TYPE_OUTPUT
       then let (r, s) = pf_cpm_create a c s in
         if r \<noteq> 0 then Some (-1, s)
         else do {
           (r, s) \<leftarrow> pf_cpm_activate_req cmsu_error_ind a c s;
           Some (if r \<noteq> 0 then -1 else ret, s) }
       else Some (ret, s));
     if ret = 0 \<and> iocr_type (the_iocr_param s a c) = PF_IOCR_TYPE_INPUT
     then do { (r, s) \<leftarrow> pf_ppm_create a c s; Some (if r \<noteq> 0 then -1 else ret, s) }
     else Some (ret, s) })"

definition pf_cmsu_start_req :: "nat \<Rightarrow> pnet_result \<Rightarrow> pnet \<Rightarrow> (int \<times> pnet_result \<times> pnet) option" where
  "pf_cmsu_start_req a st s =
     (case cmsu_state (net_ars s ! a) of
        PF_CMSU_STATE_IDLE \<Rightarrow> do {
          (ret, s) \<leftarrow> for_iocrs a (cmsu_start_cr a) 0 (0, s);
          let st = (if ret \<noteq> 0 then set_code_2 PNET_ERROR_CODE_2_CMSU_AR_ADD_PROV_CONS_FAILED st else st);
          (ret, st, s) \<leftarrow> (if ret = 0
            then do {
              (r, s) \<leftarrow> pf_alarm_activate a s;
              Some (if r \<noteq> 0 then (-1, set_code_2 PNET_ERROR_CODE_2_CMSU_AR_ALARM_OPEN_FAILED st, s)
                else let (_, s) = pf_cmsm_activate a s in (0, st, s)) }
            else Some (ret, st, s));
          Some (ret, st, pf_cmsu_set_state a PF_CMSU_STATE_STARTUP s) }
      | PF_CMSU_STATE_ABORT \<Rightarrow> Some (-1, st, s)
      | _ \<Rightarrow> Some (-1, set_code_2 PNET_ERROR_CODE_2_CMDEV_STATE_CONFLICT (st\<lparr>result_status :=
          (result_status st)\<lparr>error_code_1 := PNET_ERROR_CODE_1_CMDEV\<rparr>\<rparr>), s))"

section \<open>CMIO: the consumers have data\<close>

definition pf_cmio_timer_expired :: "nat \<Rightarrow> pnet \<Rightarrow> pnet option" where
  "pf_cmio_timer_expired a s =
     (if cmio_state (net_ars s ! a) = PF_CMIO_STATE_WDATA \<and> cmio_timer_should_reschedule (net_ars s ! a)
      then do {
        (data_possible, s) \<leftarrow> for_iocrs a (\<lambda>c (dp, s).
          Some (dp \<and> \<not> (is_consumer_cr (the_iocr_param s a c) \<and> \<not> cmio_start (the_cpm s a c)), s))
          0 (True, s);
        s \<leftarrow> pf_cmdev_cmio_info_ind a data_possible s;
        (_, h, s) \<leftarrow> timer_add PF_CMIO_TIMER_PERIOD CB_CMIO a (cmio_timeout (net_ars s ! a)) s;
        Some (upd_ar a (\<lambda>r. r\<lparr>cmio_timeout := h\<rparr>) s) }
      else Some (upd_ar a (\<lambda>r. r\<lparr>cmio_timer_should_reschedule := False,
        cmio_timeout := pf_scheduler_reset_handle (cmio_timeout r)\<rparr>) s))"

definition pf_cmio_cpm_state_ind :: "nat \<Rightarrow> nat \<Rightarrow> bool \<Rightarrow> pnet \<Rightarrow> (int \<times> pnet) option" where
  "pf_cmio_cpm_state_ind a c start s =
     (case cmio_state (net_ars s ! a) of
        PF_CMIO_STATE_IDLE \<Rightarrow> Some (0, s)
      | PF_CMIO_STATE_STARTUP \<Rightarrow>
          if \<not> startup_mode (ar_properties (ar_param (cfg (net_ars s ! a)))) \<and> \<not> start
          then do { s \<leftarrow> pf_cmdev_state_ind a PNET_EVENT_ABORT s; Some (0, s) }
          else Some (0, s)
      | PF_CMIO_STATE_WDATA \<Rightarrow>
          if c < unat (nbr_iocrs (cfg (net_ars s ! a)))
          then Some (0, upd_cpm a c (\<lambda>p. p\<lparr>cmio_start := start\<rparr>) s) else Some (-1, s)
      | PF_CMIO_STATE_DATA \<Rightarrow>
          if \<not> start
          then do { s \<leftarrow> pf_cmdev_state_ind a PNET_EVENT_ABORT s; Some (0, s) }
          else Some (0, s))"

text \<open>\<^verbatim>\<open>pf_cpm_state_ind\<close> of \<^verbatim>\<open>src/common/pf_cpm.c\<close>; the multicast machine does nothing.\<close>

definition pf_cpm_state_ind :: "nat \<Rightarrow> nat \<Rightarrow> bool \<Rightarrow> pnet \<Rightarrow> pnet option" where
  "pf_cpm_state_ind a c start s = do { (_, s) \<leftarrow> pf_cmio_cpm_state_ind a c start s; Some s }"

section \<open>CMSM: the controller must show activity\<close>

definition pf_cmsm_timeout :: "nat \<Rightarrow> pnet \<Rightarrow> pnet option" where
  "pf_cmsm_timeout a s = (let
     s = upd_ar a (\<lambda>r. r\<lparr>cmsm_timeout := pf_scheduler_reset_handle (cmsm_timeout r)\<rparr>) s
   in case cmsm_state (net_ars s ! a) of
        PF_CMSM_STATE_IDLE \<Rightarrow> Some s
      | PF_CMSM_STATE_RUN \<Rightarrow> do {
          s \<leftarrow> pf_cmdev_state_ind a PNET_EVENT_ABORT
            (set_err a PNET_ERROR_CODE_1_RTA_ERR_CLS_PROTOCOL PNET_ERROR_CODE_2_ABORT_AR_CMI_TIMEOUT s);
          Some (pf_cmsm_set_state a PF_CMSM_STATE_IDLE s) })"

definition PF_IDX_DEV_CONN_MON_TRIGGER :: u16 where "PF_IDX_DEV_CONN_MON_TRIGGER = 0xFBFF"

definition pf_cmsm_rm_read_ind :: "nat option \<Rightarrow> pf_iod_read_request \<Rightarrow> pnet \<Rightarrow> (int \<times> pnet) option" where
  "pf_cmsm_rm_read_ind p_ar req s =
     (case p_ar of
        None \<Rightarrow> Some (0, s)
      | Some a \<Rightarrow>
          if cmsm_state (net_ars s ! a) = PF_CMSM_STATE_RUN \<and> rreq_index req = PF_IDX_DEV_CONN_MON_TRIGGER
          then do { s \<leftarrow> cmsm_restart a s; Some (0, s) }
          else Some (0, s))"

definition cmsm_activity :: "nat option \<Rightarrow> pnet \<Rightarrow> (int \<times> pnet) option" where
  "cmsm_activity p_ar s =
     (case p_ar of
        None \<Rightarrow> Some (0, s)
      | Some a \<Rightarrow>
          if cmsm_state (net_ars s ! a) = PF_CMSM_STATE_RUN
          then do { s \<leftarrow> cmsm_restart a s; Some (0, s) }
          else Some (0, s))"

definition pf_cmsm_cm_read_ind :: "nat option \<Rightarrow> pnet \<Rightarrow> (int \<times> pnet) option" where
  "pf_cmsm_cm_read_ind = cmsm_activity"

definition pf_cmsm_cm_write_ind :: "nat option \<Rightarrow> pnet \<Rightarrow> (int \<times> pnet) option" where
  "pf_cmsm_cm_write_ind = cmsm_activity"

section \<open>The application is asked\<close>

definition PNET_CONTROL_COMMAND_PRM_BEGIN :: u16 where "PNET_CONTROL_COMMAND_PRM_BEGIN = 0"
definition PNET_CONTROL_COMMAND_PRM_END :: u16 where "PNET_CONTROL_COMMAND_PRM_END = 1"

definition pf_fspm_cm_release_ind :: "nat \<Rightarrow> pnet_result \<Rightarrow> pnet \<Rightarrow> int \<times> pnet_result \<times> pnet" where
  "pf_fspm_cm_release_ind a st s = (let
     r = arep (net_ars s ! a);
     (ret, st, s) = app_call (Out_release (unat r)) st s
   in (ret, st, pf_fspm_create_log_book_entry r (result_status st) PF_LOG_BOOK_AR_RELEASE s))"

definition pf_fspm_cm_dcontrol_ind ::
  "nat \<Rightarrow> u16 \<Rightarrow> pnet_result \<Rightarrow> pnet \<Rightarrow> int \<times> pnet_result \<times> pnet" where
  "pf_fspm_cm_dcontrol_ind a cmd st s = (let
     r = arep (net_ars s ! a);
     (ret, st, s) = app_call (Out_dcontrol (unat r) cmd) st s
   in (ret, st, pf_fspm_create_log_book_entry r (result_status st) PF_LOG_BOOK_DCONTROL s))"

definition pf_fspm_ccontrol_cnf :: "nat \<Rightarrow> pnet_result \<Rightarrow> pnet \<Rightarrow> pnet" where
  "pf_fspm_ccontrol_cnf a st s = emit (Out_ccontrol_cnf (unat (arep (net_ars s ! a)))) s"

section \<open>CMPBE: parameterization after the connection is up\<close>

definition CMD_PRM_END :: u16 where "CMD_PRM_END = 1"
definition CMD_DONE :: u16 where "CMD_DONE = 8"
definition CMD_PRM_BEGIN :: u16 where "CMD_PRM_BEGIN = 64"

text \<open>The command in the control block is replaced and put back, which nobody sees.\<close>

definition pf_cmpbe_rm_dcontrol_ind ::
  "nat \<Rightarrow> u16 \<Rightarrow> pnet_result \<Rightarrow> pnet \<Rightarrow> (int \<times> pnet_result \<times> pnet) option" where
  "pf_cmpbe_rm_dcontrol_ind a cmd st s =
     (case cmpbe_state (net_ars s ! a) of
        PF_CMPBE_STATE_IDLE \<Rightarrow> Some (0, st, s)
      | PF_CMPBE_STATE_WFRSP \<Rightarrow> Some (-1, st, s)
      | PF_CMPBE_STATE_WFIND \<Rightarrow>
          if cmpbe_stored_command (net_ars s ! a) \<noteq> 0
          then let
            s = upd_ar a (\<lambda>r. r\<lparr>cmpbe_stored_command := 0\<rparr>) s;
            (r, st, s) = pf_fspm_cm_dcontrol_ind a PNET_CONTROL_COMMAND_PRM_BEGIN st s
          in if r = 0 then Some (0, st, pf_cmpbe_set_state a PF_CMPBE_STATE_WFPEI s)
             else Some (-1, st, s)
          else if cmd = CMD_PRM_BEGIN
          then let
            s = pf_alarm_disable a s;
            (r, st, s) = pf_fspm_cm_dcontrol_ind a PNET_CONTROL_COMMAND_PRM_BEGIN st s
          in Some (r, st, pf_cmpbe_set_state a PF_CMPBE_STATE_WFRSP s)
          else Some (-1, st, s)
      | PF_CMPBE_STATE_WFPEI \<Rightarrow>
          if cmd = CMD_PRM_END
          then let (_, st, s) = pf_fspm_cm_dcontrol_ind a PNET_CONTROL_COMMAND_PRM_END st s
            in Some (0, st, pf_cmpbe_set_state a PF_CMPBE_STATE_WFREQ s)
          else Some (-1, st, s)
      | PF_CMPBE_STATE_WFPER \<Rightarrow>
          if cmd = CMD_PRM_END then Some (0, st, pf_cmpbe_set_state a PF_CMPBE_STATE_WFREQ s)
          else Some (-1, st, s)
      | PF_CMPBE_STATE_WFREQ \<Rightarrow>
          if cmd = CMD_PRM_BEGIN
          then do {
            s \<leftarrow> pf_cmdev_state_ind a PNET_EVENT_ABORT s;
            Some (-1, st, pf_cmpbe_set_state a PF_CMPBE_STATE_IDLE s) }
          else Some (-1, st, s)
      | PF_CMPBE_STATE_WFCNF \<Rightarrow>
          Some (-1, st, if cmd = CMD_PRM_BEGIN
            then upd_ar a (\<lambda>r. r\<lparr>cmpbe_stored_command := cmd\<rparr>) s else s))"

definition pf_cmpbe_rm_ccontrol_cnf :: "nat \<Rightarrow> u16 \<Rightarrow> pnet \<Rightarrow> int \<times> pnet" where
  "pf_cmpbe_rm_ccontrol_cnf a cmd s =
     (if cmpbe_state (net_ars s ! a) = PF_CMPBE_STATE_WFCNF
      then if cmd = CMD_DONE
        then (0, pf_cmpbe_set_state a PF_CMPBE_STATE_WFIND (pf_alarm_enable a s))
        else (-1, s)
      else (0, s))"

definition pf_cmpbe_cm_ccontrol_req ::
  "(nat \<Rightarrow> pnet \<Rightarrow> (int \<times> pnet) option) \<Rightarrow> nat \<Rightarrow> pnet \<Rightarrow> (int \<times> pnet) option" where
  "pf_cmpbe_cm_ccontrol_req ccontrol a s =
     (if cmpbe_state (net_ars s ! a) = PF_CMPBE_STATE_WFREQ \<and> \<not> pf_alarm_pending (net_ars s ! a)
      then do {
        (ret, s) \<leftarrow> ccontrol a s;
        Some (ret, pf_cmpbe_set_state a PF_CMPBE_STATE_WFCNF s) }
      else Some (-1, s))"

end
