(* ===== verification/Pn_Iodata.thy ===== *)
theory Pn_Iodata
  imports Pn_Cpm Pn_Device
begin

text \<open>
  The cyclic data of a subslot, as the application reads and writes them by API, slot and subslot:
  the rest of \<^verbatim>\<open>src/common/pf_ppm.c\<close> and \<^verbatim>\<open>src/common/pf_cpm.c\<close>. A C array that the caller
  passes with its length is a list; reading behind it is \<open>None\<close>.
\<close>

section \<open>Finding the data\<close>

text \<open>The first CR of the right kind with a descriptor in use for the subslot.\<close>

fun desc_search ::
  "(pf_iocr_param \<Rightarrow> bool) \<Rightarrow> (pf_iodata_object \<Rightarrow> bool) \<Rightarrow> ar \<Rightarrow> nat list \<Rightarrow> (nat \<times> nat) option option" where
  "desc_search kind P r [] = Some None"
| "desc_search kind P r (c # cs) =
     (if \<not> c < length (crs r) then None
      else if kind (iocr_param (iocrs (cfg r) ! c))
      then do {
        f \<leftarrow> find_upto (unat (nbr_data_desc (crs r ! c))) P (data_desc (crs r ! c));
        case f of Some k \<Rightarrow> Some (Some (c, k)) | None \<Rightarrow> desc_search kind P r cs }
      else desc_search kind P r cs)"

definition io_at :: "u32 \<Rightarrow> u16 \<Rightarrow> u16 \<Rightarrow> pf_iodata_object \<Rightarrow> bool" where
  "io_at api slot_nbr subslot_nbr io \<longleftrightarrow> io_in_use io \<and> io_api_id io = api
     \<and> io_slot_nbr io = slot_nbr \<and> io_subslot_nbr io = subslot_nbr"

definition get_ar_iocr_desc ::
  "(pf_iocr_param \<Rightarrow> bool) \<Rightarrow> u32 \<Rightarrow> u16 \<Rightarrow> u16 \<Rightarrow> pnet \<Rightarrow> (nat \<times> nat \<times> nat) option option" where
  "get_ar_iocr_desc kind api slot_nbr subslot_nbr s = (let
     p_ar = (case pf_cmdev_get_subslot_full (net_device s) (ucast api) slot_nbr subslot_nbr of
        None \<Rightarrow> None | Some (i, j, k) \<Rightarrow> ss_p_ar (the_subslot (net_device s) i j k))
   in case p_ar of
        None \<Rightarrow> Some None
      | Some a \<Rightarrow> do {
          f \<leftarrow> desc_search kind (io_at api slot_nbr subslot_nbr) (net_ars s ! a)
            [0..<unat (nbr_iocrs (cfg (net_ars s ! a)))];
          Some (map_option (\<lambda>(c, k). (a, c, k)) f) })"

definition pf_ppm_get_ar_iocr_desc :: "u32 \<Rightarrow> u16 \<Rightarrow> u16 \<Rightarrow> pnet \<Rightarrow> (nat \<times> nat \<times> nat) option option" where
  "pf_ppm_get_ar_iocr_desc = get_ar_iocr_desc is_provider_cr"

definition pf_cpm_get_ar_iocr_desc :: "u32 \<Rightarrow> u16 \<Rightarrow> u16 \<Rightarrow> pnet \<Rightarrow> (nat \<times> nat \<times> nat) option option" where
  "pf_cpm_get_ar_iocr_desc = get_ar_iocr_desc is_consumer_cr"

abbreviation the_io :: "pnet \<Rightarrow> nat \<Rightarrow> nat \<Rightarrow> nat \<Rightarrow> pf_iodata_object" where
  "the_io s a c k \<equiv> data_desc (the_cr s a c) ! k"

definition upd_io :: "nat \<Rightarrow> nat \<Rightarrow> nat \<Rightarrow> (pf_iodata_object \<Rightarrow> pf_iodata_object) \<Rightarrow> pnet \<Rightarrow> pnet" where
  "upd_io a c k f = upd_cr a c (\<lambda>r. r\<lparr>data_desc := (data_desc r)[k := f (data_desc r ! k)]\<rparr>)"

section \<open>The provider\<close>

text \<open>The first \<open>n\<close> bytes at a pointer.\<close>

definition read_arg :: "nat \<Rightarrow> u8 list \<Rightarrow> u8 list option" where
  "read_arg n bs = (if n \<le> length bs then Some (take n bs) else None)"

definition pf_ppm_set_data_and_iops ::
  "u32 \<Rightarrow> u16 \<Rightarrow> u16 \<Rightarrow> u8 list option \<Rightarrow> u16 \<Rightarrow> u8 list \<Rightarrow> u8 \<Rightarrow> pnet \<Rightarrow> (int \<times> pnet) option" where
  "pf_ppm_set_data_and_iops api slot_nbr subslot_nbr p_data len p_iops iops_len s = do {
     f \<leftarrow> pf_ppm_get_ar_iocr_desc api slot_nbr subslot_nbr s;
     case f of
       None \<Rightarrow> Some (-1, s)
     | Some (a, c, k) \<Rightarrow> (let io = the_io s a c k in
         if len = data_length io \<and> ucast iops_len = iops_length io
         then do {
           d \<leftarrow> (case p_data of None \<Rightarrow> Some None
                | Some bs \<Rightarrow> map_option Some (read_arg (unat len) bs));
           p \<leftarrow> read_arg (unat iops_len) p_iops;
           s \<leftarrow> pf_ppm_drv_sw_write_data_and_iops a c io d p s;
           Some (0, upd_io a c k (\<lambda>io. io\<lparr>data_avail := True\<rparr>) s) }
         else Some (-1, s)) }"

definition pf_ppm_set_iocs ::
  "u32 \<Rightarrow> u16 \<Rightarrow> u16 \<Rightarrow> u8 list \<Rightarrow> u8 \<Rightarrow> pnet \<Rightarrow> (int \<times> pnet) option" where
  "pf_ppm_set_iocs api slot_nbr subslot_nbr p_iocs iocs_len s = do {
     f \<leftarrow> pf_ppm_get_ar_iocr_desc api slot_nbr subslot_nbr s;
     case f of
       None \<Rightarrow> Some (-1, s)
     | Some (a, c, k) \<Rightarrow> (let io = the_io s a c k in
         if ucast iocs_len = iocs_length io
         then do {
           p \<leftarrow> read_arg (unat iocs_len) p_iocs;
           s \<leftarrow> pf_ppm_drv_sw_write_iocs a c io p s;
           Some (0, s) }
         else if iocs_length io = 0 then Some (0, s)
         else Some (-1, s)) }"

text \<open>
  The sizes of the two buffers of the caller come in and the lengths of the data go out, with the
  data in between.
\<close>

definition pf_ppm_get_data_and_iops ::
  "u32 \<Rightarrow> u16 \<Rightarrow> u16 \<Rightarrow> u16 \<Rightarrow> u8 \<Rightarrow> pnet \<Rightarrow> (int \<times> u8 list \<times> u16 \<times> u8 list \<times> u8 \<times> pnet) option" where
  "pf_ppm_get_data_and_iops api slot_nbr subslot_nbr len iops_len s = do {
     f \<leftarrow> pf_ppm_get_ar_iocr_desc api slot_nbr subslot_nbr s;
     case f of
       None \<Rightarrow> Some (-1, [], len, [], iops_len, s)
     | Some (a, c, k) \<Rightarrow> (let io = the_io s a c k in
         if ppm_state (the_ppm s a c) = PF_PPM_STATE_W_START
         then Some (-1, [], len, [], iops_len,
           set_err a PNET_ERROR_CODE_1_PPM PNET_ERROR_CODE_2_PPM_INVALID_STATE s)
         else if len \<ge> data_length io \<and> ucast iops_len \<ge> iops_length io
         then do {
           (d, p) \<leftarrow> pf_ppm_drv_sw_read_data_and_iops a c io s;
           Some (0, d, data_length io, p, ucast (iops_length io), s) }
         else Some (-1, [], len, [], iops_len, s)) }"

definition pf_ppm_get_iocs ::
  "u32 \<Rightarrow> u16 \<Rightarrow> u16 \<Rightarrow> u8 \<Rightarrow> pnet \<Rightarrow> (int \<times> u8 list \<times> u8 \<times> pnet) option" where
  "pf_ppm_get_iocs api slot_nbr subslot_nbr iocs_len s = do {
     f \<leftarrow> pf_ppm_get_ar_iocr_desc api slot_nbr subslot_nbr s;
     case f of
       None \<Rightarrow> Some (-1, [], iocs_len, s)
     | Some (a, c, k) \<Rightarrow> (let io = the_io s a c k in
         if ppm_state (the_ppm s a c) = PF_PPM_STATE_W_START
         then Some (-1, [], iocs_len,
           set_err a PNET_ERROR_CODE_1_PPM PNET_ERROR_CODE_2_PPM_INVALID_STATE s)
         else if ucast iocs_len \<ge> iocs_length io
         then do {
           d \<leftarrow> pf_ppm_drv_sw_read_iocs a c io s;
           Some (0, d, ucast (iocs_length io), s) }
         else Some (-1, [], iocs_len, s)) }"

section \<open>The consumer\<close>

text \<open>The flag of new data is left out where the source does not set it.\<close>

definition pf_cpm_get_data_and_iops ::
  "u32 \<Rightarrow> u16 \<Rightarrow> u16 \<Rightarrow> u16 \<Rightarrow> u8 \<Rightarrow> pnet
     \<Rightarrow> (int \<times> bool option \<times> u8 list \<times> u16 \<times> u8 list \<times> u8 \<times> pnet) option" where
  "pf_cpm_get_data_and_iops api slot_nbr subslot_nbr len iops_len s = do {
     f \<leftarrow> pf_cpm_get_ar_iocr_desc api slot_nbr subslot_nbr s;
     case f of
       None \<Rightarrow> Some (-1, None, [], len, [], iops_len, s)
     | Some (a, c, k) \<Rightarrow> (let io = the_io s a c k in
         if cpm_state (the_cpm s a c) = PF_CPM_STATE_W_START
         then Some (-1, None, [], len, [], iops_len,
           set_err a PNET_ERROR_CODE_1_CPM PNET_ERROR_CODE_2_CPM_INVALID_STATE s)
         else if len < data_length io \<or> ucast iops_len < iops_length io
         then Some (-1, Some False, [], 0, [], iops_len, s)
         else do {
           (ret, nf, d, p, s) \<leftarrow> pf_cpm_driver_sw_get_data_and_iops a c io s;
           if ret \<noteq> 0 then Some (ret, Some nf, d, 0, p, 0, s)
           else Some (ret, Some nf, d, data_length io, p, ucast (iops_length io), s) }) }"

definition pf_cpm_get_iocs ::
  "u32 \<Rightarrow> u16 \<Rightarrow> u16 \<Rightarrow> u8 \<Rightarrow> pnet \<Rightarrow> (int \<times> u8 list \<times> u8 \<times> pnet) option" where
  "pf_cpm_get_iocs api slot_nbr subslot_nbr iocs_len s = do {
     f \<leftarrow> pf_cpm_get_ar_iocr_desc api slot_nbr subslot_nbr s;
     case f of
       None \<Rightarrow> Some (-1, [], iocs_len, s)
     | Some (a, c, k) \<Rightarrow> (let io = the_io s a c k in
         if cpm_state (the_cpm s a c) = PF_CPM_STATE_W_START
         then Some (-1, [], iocs_len,
           set_err a PNET_ERROR_CODE_1_CPM PNET_ERROR_CODE_2_CPM_INVALID_STATE s)
         else if ucast iocs_len < iocs_length io \<or> iocs_length io = 0
         then Some (-1, [], iocs_len, s)
         else do {
           (ret, d, s) \<leftarrow> pf_cpm_driver_sw_get_iocs a c io s;
           Some (ret, d, ucast (iocs_length io), s) }) }"

end
