(* ===== verification/Pn_Connection.thy ===== *)
theory Pn_Connection
  imports Pn_Cm Pn_Iodata
begin

text \<open>
  What the RPC layer asks of CMDEV once a connect request has been checked
  (\<^verbatim>\<open>src/device/pf_cmdev.c\<close>): the frame IDs of the response, the response itself, release,
  the control requests and their confirmations.
\<close>

section \<open>Frame IDs\<close>

definition PF_RT_CLASS_1 :: u32 where "PF_RT_CLASS_1 = 1"
definition PF_RT_CLASS_2 :: u32 where "PF_RT_CLASS_2 = 2"
definition PF_RT_CLASS_3 :: u32 where "PF_RT_CLASS_3 = 3"
definition PF_RT_CLASS_UDP :: u32 where "PF_RT_CLASS_UDP = 4"

text \<open>\<open>None\<close>: a number of CRs beyond the array.\<close>

definition pf_cmdev_verify_free_frame_id :: "pnet \<Rightarrow> u16 \<Rightarrow> bool option" where
  "pf_cmdev_verify_free_frame_id s i =
     fold_m (\<lambda>r free. if \<not> free \<or> \<not> in_use r then Some free
       else map_option (\<lambda>f. f = None)
         (find_upto (unat (nbr_iocrs (cfg r))) (\<lambda>c. frame_id (iocr_param c) = i) (iocrs (cfg r))))
       (net_ars s) True"

definition frame_id_range :: "u32 \<Rightarrow> u16 \<times> u16" where
  "frame_id_range cl =
     (if cl = PF_RT_CLASS_1 then (0xC000, 0xF7FF)
      else if cl = PF_RT_CLASS_2 then (0x8000, 0xBBFF)
      else if cl = PF_RT_CLASS_3 then (0x0100, 0x7FFF)
      else if cl = PF_RT_CLASS_UDP then (0xC000, 0xF7FF)
      else (0xFFFF, 0xFFFF))"

partial_function (option) frame_id_search :: "pnet \<Rightarrow> u16 \<Rightarrow> u16 \<Rightarrow> u16 option" where
  "frame_id_search s stop i =
     (if i \<le> stop
      then do {
        free \<leftarrow> pf_cmdev_verify_free_frame_id s i;
        if free then Some i else frame_id_search s stop (i + 1) }
      else Some i)"

declare frame_id_search.simps [code]

definition upd_iocr_cfg :: "nat \<Rightarrow> nat \<Rightarrow> (pf_iocr \<Rightarrow> pf_iocr) \<Rightarrow> pnet \<Rightarrow> pnet" where
  "upd_iocr_cfg a c f = upd_ar a (\<lambda>r. r\<lparr>cfg := (cfg r)\<lparr>iocrs :=
     (iocrs (cfg r))[c := f (iocrs (cfg r) ! c)]\<rparr>\<rparr>)"

definition pf_cmdev_fix_frame_id :: "nat \<Rightarrow> pnet \<Rightarrow> pnet option" where
  "pf_cmdev_fix_frame_id a s = do {
     (_, s) \<leftarrow> for_iocrs a (\<lambda>c (u, s). let p = the_iocr_param s a c in
       if iocr_type p = PF_IOCR_TYPE_OUTPUT \<and> frame_id p = 0xFFFF
       then do {
         let (start, stop) = frame_id_range (rt_class (iocr_properties p));
         i \<leftarrow> frame_id_search s stop start;
         Some (u, if i \<le> stop
           then upd_iocr_cfg a c (\<lambda>x. x\<lparr>iocr_param := (iocr_param x)\<lparr>frame_id := i\<rparr>\<rparr>) s else s) }
       else Some (u, s)) 0 ((), s);
     Some s }"

section \<open>The connect response\<close>

definition PNET_ERROR_CODE_CONNECT :: u8 where "PNET_ERROR_CODE_CONNECT = 0xDB"
definition PNET_ERROR_CODE_1_CMRPC :: u8 where "PNET_ERROR_CODE_1_CMRPC = 0x40"
definition PNET_ERROR_CODE_2_CMRPC_PDEV_ALREADY_OWNED :: u8 where
  "PNET_ERROR_CODE_2_CMRPC_PDEV_ALREADY_OWNED = 9"

definition pf_set_error :: "u8 \<Rightarrow> u8 \<Rightarrow> u8 \<Rightarrow> u8 \<Rightarrow> pnet_result \<Rightarrow> pnet_result" where
  "pf_set_error c d c1 c2 st = st\<lparr>result_status :=
     \<lparr>error_code = c, error_decode = d, error_code_1 = c1, error_code_2 = c2\<rparr>\<rparr>"

abbreviation has_device_access :: "pnet \<Rightarrow> nat \<Rightarrow> bool" where
  "has_device_access s a \<equiv> device_access (ar_properties (ar_param (cfg (net_ars s ! a))))"

definition pf_cmdev_cm_connect_rsp_neg :: "nat \<Rightarrow> pnet_result \<Rightarrow> pnet \<Rightarrow> (int \<times> pnet) option" where
  "pf_cmdev_cm_connect_rsp_neg a st s = do {
     let s = (if \<not> has_device_access s a
       then pf_fspm_create_log_book_entry (arep (net_ars s ! a)) (result_status st) (add_data st) s else s);
     s \<leftarrow> pf_cmdev_set_state a PF_CMDEV_STATE_W_CIND s;
     Some (0, s) }"

definition pf_cmdev_cm_connect_rsp_pos ::
  "nat \<Rightarrow> pnet_result \<Rightarrow> pnet \<Rightarrow> (int \<times> pnet_result \<times> pnet) option" where
  "pf_cmdev_cm_connect_rsp_pos a st s =
     (if \<not> has_device_access s a
      then if cmdev_state (net_ars s ! a) = PF_CMDEV_STATE_W_CRES
        then do {
          (ret, st, s) \<leftarrow> pf_cmsu_start_req a st s;
          s \<leftarrow> pf_cmdev_set_state a PF_CMDEV_STATE_W_SUCNF s;
          if ret = 0
          then do {
            s \<leftarrow> pf_cmdev_state_ind a PNET_EVENT_STARTUP s;
            s \<leftarrow> pf_cmdev_set_state a PF_CMDEV_STATE_W_PEIND s;
            Some (ret, st, s) }
          else let st = pf_set_error PNET_ERROR_CODE_CONNECT PNET_ERROR_DECODE_PNIO
                 PNET_ERROR_CODE_1_CMRPC PNET_ERROR_CODE_2_CMRPC_PDEV_ALREADY_OWNED st
            in Some (ret, st,
              pf_fspm_create_log_book_entry (arep (net_ars s ! a)) (result_status st) (add_data st) s) }
        else Some (-1, st, s)
      else if cmdev_state (net_ars s ! a) = PF_CMDEV_STATE_W_CRES
      then do {
        s \<leftarrow> pf_cmdev_state_ind a PNET_EVENT_STARTUP s;
        s \<leftarrow> pf_cmdev_set_state a PF_CMDEV_STATE_DATA s;
        Some (0, st, s) }
      else do {
        s \<leftarrow> pf_cmdev_set_state a PF_CMDEV_STATE_W_CIND s;
        Some (-1, st, s) })"

section \<open>Release and control\<close>

definition PNET_ERROR_CODE_2_ABORT_AR_RELEASE_IND_RECEIVED :: u8 where
  "PNET_ERROR_CODE_2_ABORT_AR_RELEASE_IND_RECEIVED = 0x0F"
definition PNET_ERROR_CODE_2_ABORT_PDEV_CHECK_FAILED :: u8 where
  "PNET_ERROR_CODE_2_ABORT_PDEV_CHECK_FAILED = 0x24"

definition pf_cmdev_rm_release_ind :: "nat \<Rightarrow> pnet_result \<Rightarrow> pnet \<Rightarrow> (int \<times> pnet_result \<times> pnet) option" where
  "pf_cmdev_rm_release_ind a st s = (let
     cs = cmdev_state (net_ars s ! a);
     err = set_err a PNET_ERROR_CODE_1_RTA_ERR_CLS_PROTOCOL
       PNET_ERROR_CODE_2_ABORT_AR_RELEASE_IND_RECEIVED
   in if \<not> has_device_access s a
      then if cs \<in> {PF_CMDEV_STATE_W_PEIND, PF_CMDEV_STATE_W_ARDY, PF_CMDEV_STATE_W_ARDYCNF,
          PF_CMDEV_STATE_WDATA, PF_CMDEV_STATE_DATA}
        then do {
          let (r, st, s) = pf_fspm_cm_release_ind a st (err s);
          let s = (if r \<noteq> 0
            then upd_ar a (\<lambda>x. x\<lparr>err_code := error_code_2 (result_status st)\<rparr>) s else s);
          s \<leftarrow> pf_cmdev_set_state a PF_CMDEV_STATE_ABORT s;
          Some (0, st, s) }
        else Some (0, st, s)
      else if cs = PF_CMDEV_STATE_DATA
      then do { s \<leftarrow> pf_cmdev_state_ind a PNET_EVENT_ABORT (err s); Some (0, st, s) }
      else Some (0, st, s))"

definition pf_cmdev_check_pdev :: "pnet \<Rightarrow> int" where
  "pf_cmdev_check_pdev s = (if pf_pdport_is_a_fast_port_in_use (net_host s) then 0 else -1)"

text \<open>The flag says that the response is to be followed by the event PRMEND.\<close>

definition pf_cmdev_rm_dcontrol_ind ::
  "nat \<Rightarrow> u16 \<Rightarrow> pnet_result \<Rightarrow> bool \<Rightarrow> pnet \<Rightarrow> (int \<times> pnet_result \<times> bool \<times> pnet) option" where
  "pf_cmdev_rm_dcontrol_ind a cmd st prmend s = do {
     (ret, st, prmend, s) \<leftarrow>
       (if has_device_access s a then Some (-1, st, prmend, s)
        else if cmdev_state (net_ars s ! a) \<noteq> PF_CMDEV_STATE_W_PEIND then Some (0, st, prmend, s)
        else if cmd \<noteq> CMD_PRM_END then Some (-1, st, prmend, s)
        else do {
          s \<leftarrow> pf_cmdev_set_state a PF_CMDEV_STATE_W_PERES s;
          let (r, st, s) = pf_fspm_cm_dcontrol_ind a PNET_CONTROL_COMMAND_PRM_END st s;
          if r \<noteq> 0 then Some (-1, st, prmend, s)
          else do {
            s \<leftarrow> pf_cmdev_set_state a PF_CMDEV_STATE_W_ARDY s;
            if pf_cmdev_check_pdev s = 0 then Some (0, st, True, s)
            else Some (-1, st, prmend, set_err a PNET_ERROR_CODE_1_RTA_ERR_CLS_PROTOCOL
              PNET_ERROR_CODE_2_ABORT_PDEV_CHECK_FAILED s) } });
     if ret \<noteq> 0
     then do { s \<leftarrow> pf_cmdev_state_ind a PNET_EVENT_ABORT s; Some (0, st, prmend, s) }
     else Some (ret, st, prmend, s) }"

definition pf_cmdev_rm_ccontrol_cnf :: "nat \<Rightarrow> u16 \<Rightarrow> pnet_result \<Rightarrow> pnet \<Rightarrow> (int \<times> pnet) option" where
  "pf_cmdev_rm_ccontrol_cnf a cmd st s =
     (if cmdev_state (net_ars s ! a) \<noteq> PF_CMDEV_STATE_W_ARDYCNF then Some (-1, s)
      else if result_status st
        = \<lparr>error_code = 0, error_decode = 0, error_code_1 = 0, error_code_2 = 0\<rparr>
      then if cmd \<noteq> CMD_DONE then Some (-1, s)
        else do {
          let s = pf_alarm_enable a s;
          s \<leftarrow> (if ready_4_data (net_ars s ! a)
            then do {
              s \<leftarrow> pf_cmdev_state_ind a PNET_EVENT_DATA s;
              pf_cmdev_set_state a PF_CMDEV_STATE_DATA s }
            else pf_cmdev_set_state a PF_CMDEV_STATE_WDATA s);
          Some (0, pf_fspm_ccontrol_cnf a st s) }
      else do {
        let s = pf_fspm_create_log_book_entry (arep (net_ars s ! a)) (result_status st) (add_data st) s;
        let s = pf_fspm_ccontrol_cnf a st s;
        s \<leftarrow> pf_cmdev_set_state a PF_CMDEV_STATE_ABORT s;
        Some (-1, s) })"

text \<open>
  The application is ready: every input subslot that sends a provider status must have data from
  the CR that owns it. \<open>ccontrol\<close> sends the request to the controller.
\<close>

definition input_data_avail :: "nat \<Rightarrow> pnet \<Rightarrow> bool option" where
  "input_data_avail a s = do {
     (avail, _) \<leftarrow> for_iocrs a (\<lambda>c (avail, s).
       if is_provider_cr (the_iocr_param s a c)
       then fold_m (\<lambda>k (avail, s).
         if \<not> k < length (data_desc (the_cr s a c)) then None
         else do {
           let io = the_io s a c k;
           f \<leftarrow> pf_ppm_get_ar_iocr_desc (io_api_id io) (io_slot_nbr io) (io_subslot_nbr io) s;
           case f of
             None \<Rightarrow> Some (False, s)
           | Some (a', c', k') \<Rightarrow> (let o_io = the_io s a' c' k' in
               Some (avail \<and> \<not> (iops_length o_io > 0 \<and> \<not> data_avail o_io), s)) })
         [0..<unat (nbr_data_desc (the_cr s a c))] (avail, s)
       else Some (avail, s)) 0 (True, s);
     Some avail }"

definition pf_cmdev_cm_ccontrol_req ::
  "(nat \<Rightarrow> pnet \<Rightarrow> (int \<times> pnet) option) \<Rightarrow> nat \<Rightarrow> pnet \<Rightarrow> (int \<times> pnet) option" where
  "pf_cmdev_cm_ccontrol_req ccontrol a s =
     (if has_device_access s a
      then do { s \<leftarrow> pf_cmdev_state_ind a PNET_EVENT_ABORT s; Some (-1, s) }
      else if cmdev_state (net_ars s ! a) \<noteq> PF_CMDEV_STATE_W_ARDY then Some (0, s)
      else do {
        avail \<leftarrow> input_data_avail a s;
        if \<not> avail then Some (-1, s)
        else do {
          s \<leftarrow> pf_cmdev_state_ind a PNET_EVENT_APPLRDY s;
          (r, s) \<leftarrow> ccontrol a s;
          if r \<noteq> 0 then Some (-1, s)
          else do { s \<leftarrow> pf_cmdev_set_state a PF_CMDEV_STATE_W_ARDYCNF s; Some (0, s) } } })"

end
