(* ===== verification/Pn_Check.thy ===== *)
theory Pn_Check
  imports Pn_Connection Pn_Plug
begin

text \<open>
  The checks of a connect request (\<^verbatim>\<open>src/device/pf_cmdev.c\<close>): the parameters of the AR
  and of its CRs, the layout of the cyclic frames that is computed from them, and the final checks
  of that layout. A chain of tests is a list; the first test that applies decides. The results of
  several loops of the source are not reset between two CRs; the pair of result and status is
  passed through.
\<close>

section \<open>Faults\<close>

definition PNET_ERROR_CODE_1_CONN_FAULTY_AR_BLOCK_REQ :: u8 where
  "PNET_ERROR_CODE_1_CONN_FAULTY_AR_BLOCK_REQ = 1"
definition PNET_ERROR_CODE_1_CONN_FAULTY_IOCR_BLOCK_REQ :: u8 where
  "PNET_ERROR_CODE_1_CONN_FAULTY_IOCR_BLOCK_REQ = 2"
definition PNET_ERROR_CODE_1_CONN_FAULTY_EXP_BLOCK_REQ :: u8 where
  "PNET_ERROR_CODE_1_CONN_FAULTY_EXP_BLOCK_REQ = 3"
definition PNET_ERROR_CODE_1_CONN_FAULTY_ALARM_BLOCK_REQ :: u8 where
  "PNET_ERROR_CODE_1_CONN_FAULTY_ALARM_BLOCK_REQ = 4"
definition PNET_ERROR_CODE_1_CONN_FAULTY_AR_RPC_BLOCK_REQ :: u8 where
  "PNET_ERROR_CODE_1_CONN_FAULTY_AR_RPC_BLOCK_REQ = 7"
definition PNET_ERROR_CODE_2_CMRPC_UNKNOWN_BLOCKS :: u8 where
  "PNET_ERROR_CODE_2_CMRPC_UNKNOWN_BLOCKS = 1"
definition PNET_ERROR_CODE_2_CMRPC_IOCR_MISSING :: u8 where
  "PNET_ERROR_CODE_2_CMRPC_IOCR_MISSING = 2"
definition PNET_ERROR_CODE_2_CMRPC_WRONG_BLOCK_COUNT :: u8 where
  "PNET_ERROR_CODE_2_CMRPC_WRONG_BLOCK_COUNT = 3"

fun first_fault :: "(bool \<times> 'e) list \<Rightarrow> 'e option" where
  "first_fault [] = None"
| "first_fault ((b, e) # xs) = (if b then Some e else first_fault xs)"

definition connect_fault :: "u8 \<Rightarrow> u8 \<Rightarrow> pnet_result \<Rightarrow> pnet_result" where
  "connect_fault = pf_set_error PNET_ERROR_CODE_CONNECT PNET_ERROR_DECODE_PNIO"

text \<open>The result so far and the status: a fault sets both.\<close>

type_synonym chk = "int \<times> pnet_result"

definition fault_if :: "bool \<Rightarrow> u8 \<Rightarrow> u8 \<Rightarrow> chk \<Rightarrow> chk" where
  "fault_if b c1 c2 x = (if b then (-1, connect_fault c1 c2 (snd x)) else x)"

abbreviation iocr_fault_if :: "bool \<Rightarrow> u8 \<Rightarrow> chk \<Rightarrow> chk" where
  "iocr_fault_if b \<equiv> fault_if b PNET_ERROR_CODE_1_CONN_FAULTY_IOCR_BLOCK_REQ"
abbreviation exp_fault_if :: "bool \<Rightarrow> u8 \<Rightarrow> chk \<Rightarrow> chk" where
  "exp_fault_if b \<equiv> fault_if b PNET_ERROR_CODE_1_CONN_FAULTY_EXP_BLOCK_REQ"

text \<open>The first \<open>n\<close> elements of an array, all of which a loop visits.\<close>

definition array_upto :: "u16 \<Rightarrow> 'a list \<Rightarrow> 'a list option" where
  "array_upto n xs = (if unat n \<le> length xs then Some (take (unat n) xs) else None)"

section \<open>Parameters of the AR\<close>

definition pf_cmdev_check_zero :: "u8 list \<Rightarrow> u16 \<Rightarrow> int option" where
  "pf_cmdev_check_zero bs len = do {
     f \<leftarrow> find_upto (unat len) (\<lambda>b. b \<noteq> 0) bs;
     Some (if f = None then 0 else -1) }"

text \<open>The bytes of a UUID in the memory of a little-endian host; only used to compare with zero.\<close>

definition uuid_memory :: "pf_uuid \<Rightarrow> u8 list" where
  "uuid_memory u =
     [ucast (data1 u), ucast (drop_bit 8 (data1 u)), ucast (drop_bit 16 (data1 u)),
      ucast (drop_bit 24 (data1 u)), ucast (data2 u), ucast (drop_bit 8 (data2 u)),
      ucast (data3 u), ucast (drop_bit 8 (data3 u))] @ data4 u"

definition pf_cmdev_check_cm_initiator_object_uuid :: "pf_uuid \<Rightarrow> int" where
  "pf_cmdev_check_cm_initiator_object_uuid u =
     (if data1 u = 0xDEA00000 \<and> data2 u = 0x6c97 \<and> data3 u = 0x11D1
        \<and> data4 u ! 0 = 0x82 \<and> data4 u ! 1 = 0x71
      then 0 else -1)"

definition isprint :: "u8 \<Rightarrow> bool" where
  "isprint c \<longleftrightarrow> 0x20 \<le> c \<and> c \<le> 0x7E"

text \<open>\<open>None\<close>: the string is not terminated inside the array.\<close>

definition pf_cmdev_check_visible_string :: "u8 list \<Rightarrow> int option" where
  "pf_cmdev_check_visible_string s =
     (case s of
        [] \<Rightarrow> None
      | c # _ \<Rightarrow>
          if c = 0 then Some (-1)
          else map_option (\<lambda>i. if s ! i = 0 then 0 else -1) (find_ix (\<lambda>c. c = 0 \<or> \<not> isprint c) s))"

definition PF_ART_IOCAR_SINGLE :: u16 where "PF_ART_IOCAR_SINGLE = 1"
definition PF_ART_IOSAR :: u16 where "PF_ART_IOSAR = 6"
definition PF_PS_EXTERNAL_PARAMETER_SERVER :: u8 where "PF_PS_EXTERNAL_PARAMETER_SERVER = 0"

definition pf_cmdev_check_ar_type :: "u16 \<Rightarrow> int" where
  "pf_cmdev_check_ar_type t = (if t = PF_ART_IOCAR_SINGLE then 0 else -1)"

definition ar_param_faults :: "int \<Rightarrow> pf_ar_param \<Rightarrow> (bool \<times> u8) list" where
  "ar_param_faults uuid_zero p = (let props = ar_properties p in
     [(pf_cmdev_check_ar_type (ar_type p) \<noteq> 0, 4),
      (uuid_zero = 0, 5),
      ((cm_initiator_mac_add p ! 0) AND 1 \<noteq> 0, 7),
      (pf_cmdev_check_cm_initiator_object_uuid (cm_initiator_object_uuid p) \<noteq> 0, 8),
      (arp_state props \<noteq> 1, 9),
      (parameterization_server props = PF_PS_EXTERNAL_PARAMETER_SERVER, 9),
      (device_access props \<and> ar_type p \<noteq> PF_ART_IOSAR, 9),
      (companion_ar props = 3, 9),
      (cm_initiator_activity_timeout_factor p < 1
         \<or> cm_initiator_activity_timeout_factor p > 1000, 10),
      (cm_initiator_station_name_len p = 0
         \<or> unat (cm_initiator_station_name_len p) > length (cm_initiator_station_name p) - 1, 12)])"

definition pf_cmdev_check_ar_param :: "pf_ar \<Rightarrow> pnet_result \<Rightarrow> (int \<times> pnet_result \<times> pf_ar) option" where
  "pf_cmdev_check_ar_param r st = do {
     let p = ar_param r;
     z \<leftarrow> pf_cmdev_check_zero (uuid_memory (arp_ar_uuid p)) 16;
     case first_fault (ar_param_faults z p) of
       Some c2 \<Rightarrow> Some (-1, connect_fault PNET_ERROR_CODE_1_CONN_FAULTY_AR_BLOCK_REQ c2 st, r)
     | None \<Rightarrow> do {
         v \<leftarrow> pf_cmdev_check_visible_string (cm_initiator_station_name p);
         if v \<noteq> 0 then Some (-1, connect_fault PNET_ERROR_CODE_1_CONN_FAULTY_AR_BLOCK_REQ 13 st, r)
         else Some (0, st, r\<lparr>ar_param := p\<lparr>arp_valid := True\<rparr>\<rparr>) } }"

section \<open>Parameters of the CRs\<close>

definition PF_RT_CLASS_STREAM :: u32 where "PF_RT_CLASS_STREAM = 5"

definition frame_id_outside :: "u16 \<Rightarrow> u16 \<Rightarrow> u16 \<Rightarrow> bool" where
  "frame_id_outside lo hi i \<longleftrightarrow> i < lo \<or> i > hi"

text \<open>The data hold time in units of 1/32 ms, computed in 32 bits as the source does.\<close>

definition data_hold_time :: "pf_iocr_param \<Rightarrow> u32" where
  "data_hold_time p = ucast (data_hold_factor p) * ucast (reduction_ratio p)
     * ucast (send_clock_factor p) * 1000 div 32"

text \<open>The chain of tests in two parts. \<open>interval\<close> is the minimal device interval, \<open>mac_zero\<close> the comparison of the MAC address with zero.\<close>

definition iocr_kind_faults :: "pf_ar_param \<Rightarrow> pf_iocr_param \<Rightarrow> (bool \<times> u8 \<times> u8) list" where
  "iocr_kind_faults ap p = (let
     props = ar_properties ap;
     rt = rt_class (iocr_properties p);
     ty = iocr_type p;
     i = frame_id p;
     multicast = (ty = PF_IOCR_TYPE_MC_CONSUMER \<or> ty = PF_IOCR_TYPE_MC_PROVIDER);
     faulty = (\<lambda>c2. (PNET_ERROR_CODE_1_CONN_FAULTY_IOCR_BLOCK_REQ, c2))
   in
     [(device_access props, (PNET_ERROR_CODE_1_CMRPC, PNET_ERROR_CODE_2_CMRPC_UNKNOWN_BLOCKS)),
      (ty < PF_IOCR_TYPE_INPUT \<or> ty > PF_IOCR_TYPE_MC_CONSUMER, faulty 4),
      (rt \<noteq> PF_RT_CLASS_UDP \<and> lt_field p \<noteq> 0x8892, faulty 6),
      (rt = PF_RT_CLASS_UDP \<and> lt_field p \<noteq> 0x0800, faulty 6),
      (\<not> startup_mode props \<and> (rt < PF_RT_CLASS_1 \<or> rt > PF_RT_CLASS_STREAM), faulty 7),
      (startup_mode props \<and> (rt < PF_RT_CLASS_2 \<or> rt > PF_RT_CLASS_STREAM), faulty 7),
      (reserved_1 (iocr_properties p) \<noteq> 0 \<or> reserved_3 (iocr_properties p) \<noteq> 0, faulty 7),
      (rt = PF_RT_CLASS_UDP \<and> (c_sdu_length p < 12 \<or> c_sdu_length p > 1440)
         \<or> rt = PF_RT_CLASS_1 \<and> (c_sdu_length p < 40 \<or> c_sdu_length p > 1440), faulty 8),
      (multicast \<and>
         (rt = PF_RT_CLASS_1 \<and> frame_id_outside 0xF800 0xFBFF i
          \<or> rt = PF_RT_CLASS_2 \<and> frame_id_outside 0xBC00 0xBFFF i
          \<or> rt = PF_RT_CLASS_3 \<and> frame_id_outside 0x0100 0x7FFF i
          \<or> rt = PF_RT_CLASS_UDP \<and> frame_id_outside 0xF800 0xFBFF i), faulty 9),
      (ty = PF_IOCR_TYPE_INPUT \<and>
         (rt = PF_RT_CLASS_1 \<and> frame_id_outside 0xC000 0xF7FF i
          \<or> rt = PF_RT_CLASS_2 \<and> frame_id_outside 0x8000 0xBBFF i
          \<or> rt = PF_RT_CLASS_3 \<and> frame_id_outside 0x0100 0x7FFF i
          \<or> rt = PF_RT_CLASS_UDP \<and> frame_id_outside 0xC000 0xF7FF i), faulty 9)])"

definition iocr_time_faults :: "int \<Rightarrow> int \<Rightarrow> pf_ar_param \<Rightarrow> pf_iocr_param \<Rightarrow> (bool \<times> u8 \<times> u8) list" where
  "iocr_time_faults interval mac_zero ap p = (let
     rt = rt_class (iocr_properties p);
     ty = iocr_type p;
     scf = send_clock_factor p;
     rr = reduction_ratio p;
     rt_class_123 = (rt = PF_RT_CLASS_1 \<or> rt = PF_RT_CLASS_2 \<or> rt = PF_RT_CLASS_3);
     multicast = (ty = PF_IOCR_TYPE_MC_CONSUMER \<or> ty = PF_IOCR_TYPE_MC_PROVIDER);
     faulty = (\<lambda>c2. (PNET_ERROR_CODE_1_CONN_FAULTY_IOCR_BLOCK_REQ, c2))
   in
     [(scf \<notin> {1, 2, 4, 8, 16, 32, 64, 128}, faulty 10),
      (rt_class_123 \<and>
         ((rr < 1 \<or> rr > 512) \<or> rr \<ge> 256 \<and> scf > 64 \<or> rr = 512 \<and> scf > 32
          \<or> interval > uint scf * uint rr), faulty 11),
      (rt = PF_RT_CLASS_UDP \<and>
         ((rr < 1 \<or> rr > 16384) \<or> rr \<ge> 8192 \<and> scf > 64 \<or> rr = 16384 \<and> scf > 32), faulty 11),
      (phase p = 0 \<or> phase p > rr, faulty 12),
      (frame_send_offset p \<noteq> 0xFFFFFFFF \<and>
         ((ucast (frame_send_offset p) :: 64 word) \<ge> ucast scf * 31250
          \<or> frame_send_offset p \<ge> 0x003D0900 \<and> frame_send_offset p \<le> 0xFFFFFFFE), faulty 14),
      ((data_hold_factor p < 1 \<or> data_hold_factor p > 0x1E00)
         \<or> rt = PF_RT_CLASS_UDP \<and> data_hold_time p > 61440000
         \<or> rt_class_123 \<and> data_hold_time p > 1920000, faulty 16),
      (iocr_vlan_id (iocr_tag_header p) \<noteq> 0, faulty 17),
      (iocr_user_priority (iocr_tag_header p) \<noteq> 6, faulty 17),
      (multicast \<and> (iocr_multicast_mac_add p ! 0) AND 1 = 0, faulty 18),
      (nbr_apis p = 0, faulty 19),
      (rt = PF_RT_CLASS_UDP \<and> mac_zero \<noteq> 0, (PNET_ERROR_CODE_1_CONN_FAULTY_AR_BLOCK_REQ, 7)),
      (rt = PF_RT_CLASS_UDP \<and> cm_initiator_udp_rt_port ap \<le> 0x03FF,
         (PNET_ERROR_CODE_1_CONN_FAULTY_AR_BLOCK_REQ, 11))])"

definition iocr_param_faults :: "int \<Rightarrow> int \<Rightarrow> pf_ar_param \<Rightarrow> pf_iocr_param \<Rightarrow> (bool \<times> u8 \<times> u8) list" where
  "iocr_param_faults interval mac_zero ap p = iocr_kind_faults ap p @ iocr_time_faults interval mac_zero ap p"

definition upd_param :: "nat \<Rightarrow> (pf_iocr_param \<Rightarrow> pf_iocr_param) \<Rightarrow> pf_ar \<Rightarrow> pf_ar" where
  "upd_param c f r = r\<lparr>iocrs := (iocrs r)[c := (iocrs r ! c)\<lparr>iocr_param := f (iocr_param (iocrs r ! c))\<rparr>]\<rparr>"

definition pf_cmdev_check_iocr_param ::
  "int \<Rightarrow> pf_ar \<Rightarrow> pnet_result \<Rightarrow> (int \<times> pnet_result \<times> pf_ar) option" where
  "pf_cmdev_check_iocr_param interval r st = do {
     mac_zero \<leftarrow> pf_cmdev_check_zero (cm_initiator_mac_add (ar_param r)) 6;
     fold_m (\<lambda>c (ret, st, r).
       if \<not> c < length (iocrs r) then None
       else case first_fault (iocr_param_faults interval mac_zero (ar_param r) (iocr_param (iocrs r ! c))) of
         Some (c1, c2) \<Rightarrow> Some (-1, connect_fault c1 c2 st, r)
       | None \<Rightarrow> Some (ret, st, upd_param c (\<lambda>p. p\<lparr>iocrp_valid := True\<rparr>) r))
       [0..<unat (nbr_iocrs r)] (0, st, r) }"

section \<open>The layout of the cyclic frames\<close>

definition PF_DIRECTION_INPUT :: u16 where "PF_DIRECTION_INPUT = 1"
definition PF_DIRECTION_OUTPUT :: u16 where "PF_DIRECTION_OUTPUT = 2"
definition PNET_DIR_NO_IO :: u8 where "PNET_DIR_NO_IO = 0"
definition PNET_DIR_INPUT :: u8 where "PNET_DIR_INPUT = 1"
definition PNET_DIR_OUTPUT :: u8 where "PNET_DIR_OUTPUT = 2"

datatype pf_dev_status_type = PF_DEV_STATUS_TYPE_IOCS | PF_DEV_STATUS_TYPE_IOPS

text \<open>\<open>None\<close>: an illegal combination.\<close>

definition pf_cmdev_calculate_exp_sub_data_descriptor_direction ::
  "u8 \<Rightarrow> u16 \<Rightarrow> pf_dev_status_type \<Rightarrow> u16 option" where
  "pf_cmdev_calculate_exp_sub_data_descriptor_direction sub_dir dir status =
     (if sub_dir = PNET_DIR_NO_IO \<or> sub_dir = PNET_DIR_INPUT
      then if dir = PF_DIRECTION_INPUT \<and> status = PF_DEV_STATUS_TYPE_IOPS
          \<or> dir = PF_DIRECTION_OUTPUT \<and> status = PF_DEV_STATUS_TYPE_IOCS
        then Some PF_DIRECTION_INPUT else None
      else if sub_dir = PNET_DIR_IO
      then if dir = PF_DIRECTION_INPUT \<and> status = PF_DEV_STATUS_TYPE_IOPS
          \<or> dir = PF_DIRECTION_OUTPUT \<and> status = PF_DEV_STATUS_TYPE_IOCS
        then Some PF_DIRECTION_INPUT else Some PF_DIRECTION_OUTPUT
      else if sub_dir = PNET_DIR_OUTPUT
      then if dir = PF_DIRECTION_INPUT \<and> status = PF_DEV_STATUS_TYPE_IOCS
          \<or> dir = PF_DIRECTION_OUTPUT \<and> status = PF_DEV_STATUS_TYPE_IOPS
        then Some PF_DIRECTION_OUTPUT else None
      else None)"

definition pf_cmdev_get_exp_sub_data_descriptor ::
  "pf_exp_submodule \<Rightarrow> u16 \<Rightarrow> pf_dev_status_type \<Rightarrow> pf_data_descriptor option option" where
  "pf_cmdev_get_exp_sub_data_descriptor sub dir status =
     (case pf_cmdev_calculate_exp_sub_data_descriptor_direction
         (submodule_type (submodule_properties sub)) dir status of
        None \<Rightarrow> Some None
      | Some wanted \<Rightarrow> do {
          f \<leftarrow> find_upto (unat (nbr_data_descriptors sub)) (\<lambda>x. data_direction x = wanted)
            (data_descriptor sub);
          Some (map_option (\<lambda>i. data_descriptor sub ! i) f) })"

definition same_subslot :: "u32 \<Rightarrow> u16 \<Rightarrow> u16 \<Rightarrow> pf_iodata_object \<Rightarrow> bool" where
  "same_subslot api slot_nbr subslot_nbr io \<longleftrightarrow> io_api_id io = api \<and> io_slot_nbr io = slot_nbr
     \<and> io_subslot_nbr io = subslot_nbr"

text \<open>
  The descriptor of a subslot, or a new one that \<open>fresh\<close> initialises; \<open>None\<close> if the array is full.
\<close>

definition data_desc_for ::
  "u32 \<Rightarrow> u16 \<Rightarrow> u16 \<Rightarrow> (pf_iodata_object \<Rightarrow> pf_iodata_object) \<Rightarrow> cr \<Rightarrow> (nat \<times> cr) option" where
  "data_desc_for api slot_nbr subslot_nbr fresh c = do {
     f \<leftarrow> find_upto (unat (nbr_data_desc c)) (same_subslot api slot_nbr subslot_nbr) (data_desc c);
     case f of
       Some i \<Rightarrow> Some (i, c)
     | None \<Rightarrow> let i = unat (nbr_data_desc c) in
         if i < length (data_desc c)
         then Some (i, c\<lparr>nbr_data_desc := nbr_data_desc c + 1,
           data_desc := (data_desc c)[i := fresh ((data_desc c ! i)\<lparr>io_in_use := True,
             io_api_id := api, io_slot_nbr := slot_nbr, io_subslot_nbr := subslot_nbr\<rparr>)]\<rparr>)
         else None }"

definition count_length :: "u16 \<Rightarrow> u16 \<Rightarrow> cr \<Rightarrow> cr" where
  "count_length dir n c =
     (if dir = PF_DIRECTION_INPUT then c\<lparr>in_length := in_length c + n\<rparr>
      else if dir = PF_DIRECTION_OUTPUT then c\<lparr>out_length := out_length c + n\<rparr> else c)"

definition set_data_iops ::
  "u16 \<Rightarrow> u16 \<Rightarrow> pf_submodule_properties \<Rightarrow> pf_data_descriptor \<Rightarrow> pf_iodata_object \<Rightarrow> pf_iodata_object" where
  "set_data_iops dir offset props desc io = (let
     io = (if dir = PF_DIRECTION_INPUT \<and> reduce_input_submodule_data_length props
          \<or> dir = PF_DIRECTION_OUTPUT \<and> reduce_output_submodule_data_length props
       then io\<lparr>data_length := 0, data_offset := 0\<rparr>
       else io\<lparr>data_length := submodule_data_length desc, data_offset := offset\<rparr>)
   in if discard_ioxs props
      then io\<lparr>data_length := 0, data_offset := 0, iops_length := 0, iops_offset := 0\<rparr>
      else io\<lparr>iops_length := ucast (length_iops desc), iops_offset := data_offset io + data_length io\<rparr>)"

definition setup_data_iops_entry ::
  "pf_ar \<Rightarrow> u16 \<Rightarrow> u32 \<Rightarrow> pf_frame_descriptor \<Rightarrow> cr \<Rightarrow> cr option" where
  "setup_data_iops_entry r dir api e c = do {
     p_exp_sub \<leftarrow> pf_cmdev_get_exp_sub r api (fd_slot_number e) (fd_subslot_number e);
     case p_exp_sub of
       None \<Rightarrow> Some c
     | Some sub \<Rightarrow> do {
         p_desc \<leftarrow> pf_cmdev_get_exp_sub_data_descriptor sub dir PF_DEV_STATUS_TYPE_IOPS;
         case p_desc of
           None \<Rightarrow> Some c
         | Some desc \<Rightarrow> do {
             (i, c) \<leftarrow> data_desc_for api (fd_slot_number e) (fd_subslot_number e)
               (\<lambda>io. io\<lparr>iocs_offset := 0, iocs_length := 0\<rparr>) c;
             let io = set_data_iops dir (frame_offset e) (submodule_properties sub) desc (data_desc c ! i);
             Some (count_length dir (data_length io + iops_length io + iocs_length io)
               (c\<lparr>data_desc := (data_desc c)[i := io]\<rparr>)) } } }"

definition set_iocs ::
  "u16 \<Rightarrow> pf_submodule_properties \<Rightarrow> pf_data_descriptor \<Rightarrow> pf_iodata_object \<Rightarrow> pf_iodata_object" where
  "set_iocs offset props desc io =
     (if discard_ioxs props then io\<lparr>iocs_offset := 0, iocs_length := 0\<rparr>
      else io\<lparr>iocs_offset := offset, iocs_length := ucast (length_iocs desc)\<rparr>)"

definition setup_iocs_entry ::
  "pf_ar \<Rightarrow> u16 \<Rightarrow> u32 \<Rightarrow> pf_frame_descriptor \<Rightarrow> int \<times> cr \<Rightarrow> (int \<times> cr) option" where
  "setup_iocs_entry r dir api e = (\<lambda>(ret, c). do {
     p_exp_sub \<leftarrow> pf_cmdev_get_exp_sub r api (fd_slot_number e) (fd_subslot_number e);
     case p_exp_sub of
       None \<Rightarrow> Some (-1, c)
     | Some sub \<Rightarrow> do {
         p_desc \<leftarrow> pf_cmdev_get_exp_sub_data_descriptor sub dir PF_DEV_STATUS_TYPE_IOCS;
         case p_desc of
           None \<Rightarrow> Some (ret, c)
         | Some desc \<Rightarrow> do {
             (i, c) \<leftarrow> data_desc_for api (fd_slot_number e) (fd_subslot_number e)
               (\<lambda>io. io\<lparr>data_length := 0, data_offset := 0, iops_offset := 0, iops_length := 0\<rparr>) c;
             let io = set_iocs (frame_offset e) (submodule_properties sub) desc (data_desc c ! i);
             Some (ret, count_length dir (iocs_length io) (c\<lparr>data_desc := (data_desc c)[i := io]\<rparr>)) } } })"

definition pf_cmdev_iocr_setup_data_iops :: "pf_ar \<Rightarrow> pf_iocr_param \<Rightarrow> u16 \<Rightarrow> cr \<Rightarrow> cr option" where
  "pf_cmdev_iocr_setup_data_iops r p dir c = do {
     as \<leftarrow> array_upto (nbr_apis p) (apis p);
     fold_m (\<lambda>a c. do {
       es \<leftarrow> array_upto (nbr_io_data a) (io_data a);
       fold_m (setup_data_iops_entry r dir (ae_api a)) es c }) as c }"

definition pf_cmdev_iocr_setup_iocs :: "pf_ar \<Rightarrow> pf_iocr_param \<Rightarrow> u16 \<Rightarrow> cr \<Rightarrow> (int \<times> cr) option" where
  "pf_cmdev_iocr_setup_iocs r p dir c = do {
     as \<leftarrow> array_upto (nbr_apis p) (apis p);
     fold_m (\<lambda>a x. do {
       es \<leftarrow> array_upto (nbr_iocs a) (iocs a);
       fold_m (setup_iocs_entry r dir (ae_api a)) es x }) as (0, c) }"

definition pf_cmdev_iocr_setup_desc :: "pf_ar \<Rightarrow> pf_iocr_param \<Rightarrow> cr \<Rightarrow> (int \<times> cr) option" where
  "pf_cmdev_iocr_setup_desc r p c = do {
     let dir = (if iocr_type p = PF_IOCR_TYPE_INPUT \<or> iocr_type p = PF_IOCR_TYPE_MC_PROVIDER
       then PF_DIRECTION_INPUT else PF_DIRECTION_OUTPUT);
     c \<leftarrow> pf_cmdev_iocr_setup_data_iops r p dir (c\<lparr>in_length := 0, out_length := 0, nbr_data_desc := 0\<rparr>);
     pf_cmdev_iocr_setup_iocs r p dir c }"

section \<open>Checks of the layout\<close>

definition pf_cmdev_check_no_straddle :: "u16 \<Rightarrow> u16 \<Rightarrow> u16 \<Rightarrow> u16 \<Rightarrow> int" where
  "pf_cmdev_check_no_straddle start_1 length_1 start_2 length_2 =
     (if length_1 > 0 \<and> length_2 > 0
      then if start_1 \<le> start_2
        then if unat start_1 + unat length_1 > unat start_2 then -1 else 0
        else if unat start_1 < unat start_2 + unat length_2 then -1 else 0
      else 0)"

text \<open>An area against the three areas of a descriptor.\<close>

definition area_straddles :: "u16 \<Rightarrow> u16 \<Rightarrow> pf_iodata_object \<Rightarrow> bool" where
  "area_straddles start len io \<longleftrightarrow> len > 0 \<and>
     (pf_cmdev_check_no_straddle start len (data_offset io) (data_length io) \<noteq> 0
      \<or> pf_cmdev_check_no_straddle start len (iocs_offset io) (iocs_length io) \<noteq> 0
      \<or> pf_cmdev_check_no_straddle start len (iops_offset io) (iops_length io) \<noteq> 0)"

definition pf_cmdev_check_iocr_overlap :: "pf_iodata_object list \<Rightarrow> nat \<Rightarrow> pnet_result \<Rightarrow> chk" where
  "pf_cmdev_check_iocr_overlap ds k st = (let
     io = ds ! k;
     prev = take k ds
   in if list_ex (\<lambda>x. area_straddles (data_offset io) (data_length io) x
          \<or> area_straddles (iops_offset io) (iops_length io) x) prev
      then iocr_fault_if True 24 (0, st)
      else iocr_fault_if (list_ex (area_straddles (iocs_offset io) (iocs_length io)) prev) 28 (0, st))"

text \<open>Every entry of a list occurs once.\<close>

definition check_combos :: "u8 \<Rightarrow> pf_frame_descriptor list \<Rightarrow> chk \<Rightarrow> chk" where
  "check_combos c2 es = fold (\<lambda>e. iocr_fault_if
     ((of_nat (length (filter (\<lambda>e'. fd_slot_number e' = fd_slot_number e
         \<and> fd_subslot_number e' = fd_subslot_number e) es)) :: u16) \<noteq> 1) c2) es"

text \<open>
  The expected submodule of an entry, the last one if the numbers are not unique. The faults
  \<open>no_mod\<close> and \<open>no_sub\<close> say that there is none; \<open>found\<close> checks the submodule that is there.
\<close>

definition check_entry ::
  "u8 \<Rightarrow> u8 \<Rightarrow> (pf_exp_submodule \<Rightarrow> chk \<Rightarrow> chk) \<Rightarrow> pf_exp_api \<Rightarrow> pf_frame_descriptor
     \<Rightarrow> chk \<Rightarrow> chk option" where
  "check_entry no_mod no_sub found p_exp_api e x = do {
     mods \<leftarrow> array_upto (nbr_modules p_exp_api) (modules p_exp_api);
     case find (\<lambda>m. slot_number m = fd_slot_number e) (rev mods) of
       None \<Rightarrow> Some (iocr_fault_if True no_mod x)
     | Some m \<Rightarrow> do {
         subs \<leftarrow> array_upto (nbr_submodules m) (submodules m);
         case find (\<lambda>u. subslot_number u = fd_subslot_number e) (rev subs) of
           None \<Rightarrow> Some (iocr_fault_if True no_sub x)
         | Some sub \<Rightarrow> Some (if fst x = 0 then found sub x else x) } }"

definition check_io_data_sub :: "u16 \<Rightarrow> pf_exp_submodule \<Rightarrow> chk \<Rightarrow> chk" where
  "check_io_data_sub ty sub = (let t = submodule_type (submodule_properties sub) in
     iocr_fault_if
       ((t = PNET_DIR_NO_IO \<or> t = PNET_DIR_INPUT)
          \<and> (ty = PF_IOCR_TYPE_OUTPUT \<or> ty = PF_IOCR_TYPE_MC_CONSUMER)
        \<or> t = PNET_DIR_OUTPUT \<and> (ty = PF_IOCR_TYPE_INPUT \<or> ty = PF_IOCR_TYPE_MC_PROVIDER)) 23)"

definition check_iocs_sub :: "u16 \<Rightarrow> pf_exp_submodule \<Rightarrow> chk \<Rightarrow> chk" where
  "check_iocs_sub ty sub x = (let
     t = submodule_type (submodule_properties sub);
     x = iocr_fault_if
       ((t = PNET_DIR_NO_IO \<or> t = PNET_DIR_INPUT) \<and> ty = PF_IOCR_TYPE_INPUT
        \<or> t = PNET_DIR_OUTPUT \<and> ty = PF_IOCR_TYPE_OUTPUT) 27 x
   in iocr_fault_if (fst x = 0 \<and> t = PNET_DIR_IO \<and> nbr_data_descriptors sub \<noteq> 2) 28 x)"

definition check_iocr_api :: "pf_ar \<Rightarrow> u16 \<Rightarrow> pf_api_entry \<Rightarrow> chk \<Rightarrow> chk option" where
  "check_iocr_api r ty a x = do {
     f \<leftarrow> pf_cmdev_get_exp_api r (ae_api a);
     let x = (if f = None then iocr_fault_if True 20 x
       else iocr_fault_if (nbr_io_data a = 0 \<and> nbr_iocs a = 0) 21 x);
     case f of
       None \<Rightarrow> Some x
     | Some i \<Rightarrow>
         if fst x \<noteq> 0 then Some x
         else do {
           es \<leftarrow> array_upto (nbr_io_data a) (io_data a);
           x \<leftarrow> fold_m (check_entry 22 23 (check_io_data_sub ty) (exp_apis r ! i)) es (check_combos 23 es x);
           if fst x \<noteq> 0 then Some x
           else do {
             cs \<leftarrow> array_upto (nbr_iocs a) (iocs a);
             let x = check_combos 27 cs x;
             if fst x \<noteq> 0 then Some x
             else fold_m (check_entry 27 27 (check_iocs_sub ty) (exp_apis r ! i)) cs x } } }"

text \<open>An area that ends behind the data of the frame.\<close>

definition area_outside :: "u16 \<Rightarrow> u16 \<Rightarrow> u16 \<Rightarrow> bool" where
  "area_outside start len n \<longleftrightarrow> unat start + unat len > unat n"

definition check_data_desc :: "pf_iocr_param \<Rightarrow> pf_iodata_object list \<Rightarrow> nat \<Rightarrow> chk \<Rightarrow> chk option" where
  "check_data_desc p ds k x =
     (if fst x \<noteq> 0 then Some x
      else if \<not> k < length ds then None
      else let io = ds ! k; n = c_sdu_length p in
        case first_fault
            [(area_outside (data_offset io) (data_length io) n, 24),
             (area_outside (iops_offset io) (iops_length io) n, 24),
             (area_outside (iocs_offset io) (iocs_length io) n, 28)] of
          Some c2 \<Rightarrow> Some (iocr_fault_if True c2 x)
        | None \<Rightarrow> Some (pf_cmdev_check_iocr_overlap ds k (snd x)))"

definition check_iocr_layout :: "pf_ar \<Rightarrow> pf_iocr_param \<Rightarrow> cr \<Rightarrow> chk \<Rightarrow> chk option" where
  "check_iocr_layout r p c x = do {
     as \<leftarrow> array_upto (nbr_apis p) (apis p);
     x \<leftarrow> fold_m (check_iocr_api r (iocr_type p)) as x;
     fold_m (check_data_desc p (data_desc c)) [0..<unat (nbr_data_desc c)] x }"

definition pf_cmdev_check_iocr_apis :: "ar \<Rightarrow> pnet_result \<Rightarrow> (int \<times> pnet_result \<times> ar) option" where
  "pf_cmdev_check_iocr_apis y st =
     fold_m (\<lambda>c (ret, st, y).
       if \<not> (c < length (iocrs (cfg y)) \<and> c < length (crs y)) then None
       else do {
         (ret, st) \<leftarrow> check_iocr_layout (cfg y) (iocr_param (iocrs (cfg y) ! c)) (crs y ! c) (ret, st);
         Some (ret, st, if ret \<noteq> 0
           then y\<lparr>cfg := upd_param c (\<lambda>p. p\<lparr>iocrp_valid := False\<rparr>) (cfg y)\<rparr> else y) })
       [0..<unat (nbr_iocrs (cfg y))] (0, st, y)"

section \<open>The expected modules are configured\<close>

text \<open>
  The application is asked to plug the modules that a connection expects; it may plug and pull in
  the call. It is a parameter: what its callbacks make of the device.
\<close>

record pnet_data_cfg =
  data_dir :: u8
  insize :: u16
  outsize :: u16

record app_plug =
  exp_module_cb :: "u32 \<Rightarrow> u16 \<Rightarrow> u32 \<Rightarrow> pnet \<Rightarrow> pnet option"
  exp_submodule_cb :: "u32 \<Rightarrow> u16 \<Rightarrow> u16 \<Rightarrow> u32 \<Rightarrow> u32 \<Rightarrow> pnet_data_cfg \<Rightarrow> pnet \<Rightarrow> pnet option"

definition exp_data_cfg :: "pf_data_descriptor list \<Rightarrow> pnet_data_cfg" where
  "exp_data_cfg ds = fold (\<lambda>d e. let
       e = (if data_direction d = PF_DIRECTION_INPUT
         then e\<lparr>data_dir := data_dir e OR PNET_DIR_INPUT, insize := submodule_data_length d\<rparr> else e)
     in if data_direction d = PF_DIRECTION_OUTPUT
       then e\<lparr>data_dir := data_dir e OR PNET_DIR_OUTPUT, outsize := submodule_data_length d\<rparr> else e)
     ds \<lparr>data_dir = 0, insize = 0, outsize = 0\<rparr>"

text \<open>How often a subslot occurs in the CRs of a connection, in the 16 bits of the counter.\<close>

definition subslot_uses :: "pf_ar \<Rightarrow> u32 \<Rightarrow> u16 \<Rightarrow> u16 \<Rightarrow> u16 option" where
  "subslot_uses r api slot_nbr subslot_nbr = (let
     hits = (\<lambda>es. of_nat (length (filter
       (\<lambda>e. fd_slot_number e = slot_nbr \<and> fd_subslot_number e = subslot_nbr) es)) :: u16)
   in do {
     cs \<leftarrow> array_upto (nbr_iocrs r) (iocrs r);
     fold_m (\<lambda>c n. do {
       as \<leftarrow> array_upto (nbr_apis (iocr_param c)) (apis (iocr_param c));
       fold_m (\<lambda>a n. if ae_api a \<noteq> api then Some n else do {
         es \<leftarrow> array_upto (nbr_io_data a) (io_data a);
         ss \<leftarrow> array_upto (nbr_iocs a) (iocs a);
         Some (n + hits es + hits ss) }) as n }) cs 0 })"

definition exp_sub_faults :: "u32 \<Rightarrow> bool \<Rightarrow> pf_exp_submodule \<Rightarrow> (bool \<times> u8) list" where
  "exp_sub_faults api plugged sub = (let
     props = submodule_properties sub;
     t = submodule_type props;
     n = nbr_data_descriptors sub;
     dir = (\<lambda>i. data_direction (data_descriptor sub ! i))
   in
     [(subslot_number sub > 0x9FFF, 10),
      (\<not> plugged, 10),
      (subslot_number sub \<ge> 0x8000 \<and> api \<noteq> 0, 10),
      ((t = PNET_DIR_NO_IO \<or> t = PNET_DIR_INPUT) \<and> \<not> (n = 1 \<and> dir 0 = PF_DIRECTION_INPUT)
       \<or> t = PNET_DIR_OUTPUT \<and> \<not> (n = 1 \<and> dir 0 = PF_DIRECTION_OUTPUT)
       \<or> t = PNET_DIR_IO \<and> \<not> (n = 2
           \<and> (dir 0 = PF_DIRECTION_INPUT \<or> dir 1 = PF_DIRECTION_INPUT)
           \<and> (dir 0 = PF_DIRECTION_OUTPUT \<or> dir 1 = PF_DIRECTION_OUTPUT)), 12),
      (t = PNET_DIR_OUTPUT \<and> sharedInput props, 12),
      (reduce_input_submodule_data_length props \<and> (t = PNET_DIR_INPUT \<or> t = PNET_DIR_IO), 12),
      (reduce_output_submodule_data_length props \<and> (t = PNET_DIR_OUTPUT \<or> t = PNET_DIR_IO), 12),
      (discard_ioxs props \<and> t \<noteq> PNET_DIR_IO, 12)])"

definition data_descriptor_faults :: "u8 \<Rightarrow> pf_data_descriptor \<Rightarrow> (bool \<times> u8) list" where
  "data_descriptor_faults t d =
     [(data_direction d \<noteq> PF_DIRECTION_INPUT \<and> data_direction d \<noteq> PF_DIRECTION_OUTPUT, 13),
      (data_direction d = PF_DIRECTION_INPUT \<and> t = PNET_DIR_OUTPUT, 13),
      (data_direction d = PF_DIRECTION_OUTPUT \<and> t \<noteq> PNET_DIR_OUTPUT \<and> t \<noteq> PNET_DIR_IO, 13),
      (submodule_data_length d > 1439 \<or> t = PNET_DIR_NO_IO \<and> submodule_data_length d \<noteq> 0, 14),
      (length_iops d \<noteq> 1, 15),
      (length_iocs d \<noteq> 1, 16)]"

text \<open>One expected submodule of the slot \<open>(i, j)\<close>; \<open>before\<close> are those before it.\<close>

definition configure_submodule ::
  "app_plug \<Rightarrow> u32 \<Rightarrow> pf_exp_module \<Rightarrow> nat \<Rightarrow> nat \<Rightarrow> pf_exp_submodule list \<Rightarrow> pf_exp_submodule
     \<Rightarrow> chk \<times> pnet \<Rightarrow> (chk \<times> pnet) option" where
  "configure_submodule app api m i j before sub = (\<lambda>(x, s). do {
     s \<leftarrow> (case pf_cmdev_get_subslot (the_slot (net_device s) i j) (subslot_number sub) of
         None \<Rightarrow> do {
           ds \<leftarrow> array_upto (nbr_data_descriptors sub) (data_descriptor sub);
           exp_submodule_cb app api (slot_number m) (subslot_number sub) (module_ident_number m)
             (submodule_ident_number sub) (exp_data_cfg ds) s }
       | Some k \<Rightarrow> Some (on_dev (upd_subslot i j k (set_ident_info
           (if submodule_ident_number sub
                \<noteq> ss_submodule_ident_number (the_subslot (net_device s) i j k)
            then PF_SUBMOD_PLUG_SUBSTITUTE else PF_SUBMOD_PLUG_OK))) s));
     let x = (if fst x = 0 then exp_fault_if
       ((of_nat (length (filter (\<lambda>u. subslot_number u = subslot_number sub) before)) :: u16) \<noteq> 0) 10 x
       else x);
     x \<leftarrow> (if fst x \<noteq> 0 then Some x else do {
       a \<leftarrow> sl_p_ar (the_slot (net_device s) i j);
       n \<leftarrow> subslot_uses (cfg (net_ars s ! a)) api (slot_number m) (subslot_number sub);
       Some (exp_fault_if (n = 0) 10 x) });
     if fst x \<noteq> 0 then Some (x, s)
     else case pf_cmdev_get_subslot (the_slot (net_device s) i j) (subslot_number sub) of
       None \<Rightarrow> (case first_fault (exp_sub_faults api False sub) of
           None \<Rightarrow> Some (x, s) | Some c2 \<Rightarrow> Some (exp_fault_if True c2 x, s))
     | Some k \<Rightarrow> (case first_fault (exp_sub_faults api True sub) of
           Some c2 \<Rightarrow> Some (exp_fault_if True c2 x, s)
         | None \<Rightarrow> do {
             let s = on_dev (upd_subslot i j k (\<lambda>u. u\<lparr>
               ss_exp_submodule_ident_number := submodule_ident_number sub,
               ss_p_ar := (if ss_p_ar u = None then sl_p_ar (the_slot (net_device s) i j)
                 else ss_p_ar u)\<rparr>)) s;
             ds \<leftarrow> array_upto (nbr_data_descriptors sub) (data_descriptor sub);
             Some (fold (\<lambda>d x. case first_fault
                 (data_descriptor_faults (submodule_type (submodule_properties sub)) d) of
                 None \<Rightarrow> x | Some c2 \<Rightarrow> exp_fault_if True c2 x) ds x, s) }) })"

definition pf_cmdev_exp_submodule_configure ::
  "app_plug \<Rightarrow> u32 \<Rightarrow> pf_exp_module \<Rightarrow> nat \<Rightarrow> nat \<Rightarrow> pnet_result \<Rightarrow> pnet \<Rightarrow> (chk \<times> pnet) option" where
  "pf_cmdev_exp_submodule_configure app api m i j st s = do {
     subs \<leftarrow> array_upto (nbr_submodules m) (submodules m);
     fold_m (\<lambda>n. configure_submodule app api m i j (take n subs) (subs ! n))
       [0..<length subs] ((0, st), s) }"

definition exp_module_faults :: "bool \<Rightarrow> pf_exp_module \<Rightarrow> (bool \<times> u8) list" where
  "exp_module_faults plugged m =
     [(slot_number m > 0x7FFF, 6),
      (\<not> plugged, 6),
      (module_ident_number m = 0, 7),
      (nbr_submodules m = 0, 9)]"

definition configure_module ::
  "app_plug \<Rightarrow> u32 \<Rightarrow> nat \<Rightarrow> pf_exp_module list \<Rightarrow> pf_exp_module \<Rightarrow> chk \<times> pnet \<Rightarrow> (chk \<times> pnet) option" where
  "configure_module app api i before m = (\<lambda>(x, s).
     if fst x \<noteq> 0 then Some (x, s)
     else do {
       let x = exp_fault_if
         ((of_nat (length (filter (\<lambda>m'. slot_number m' = slot_number m) before)) :: u16) \<noteq> 0) 6 x;
       s \<leftarrow> (case pf_cmdev_get_slot (dev_apis (net_device s) ! i) (slot_number m) of
           None \<Rightarrow> exp_module_cb app api (slot_number m) (module_ident_number m) s
         | Some j \<Rightarrow> Some (on_dev (upd_slot i j (\<lambda>z. z\<lparr>plug_state :=
             (if module_ident_number m \<noteq> sl_module_ident_number z then PF_MOD_PLUG_SUBSTITUTE
              else PF_MOD_PLUG_PROPER_MODULE)\<rparr>)) s));
       if fst x \<noteq> 0 then Some (x, s)
       else case pf_cmdev_get_slot (dev_apis (net_device s) ! i) (slot_number m) of
         None \<Rightarrow> (case first_fault (exp_module_faults False m) of
             None \<Rightarrow> Some (x, s) | Some c2 \<Rightarrow> Some (exp_fault_if True c2 x, s))
       | Some j \<Rightarrow> (case first_fault (exp_module_faults True m) of
             Some c2 \<Rightarrow> Some (exp_fault_if True c2 x, s)
           | None \<Rightarrow> pf_cmdev_exp_submodule_configure app api m i j (snd x)
               (on_dev (upd_slot i j (\<lambda>z. z\<lparr>
                 sl_p_ar := (if sl_p_ar z = None then api_p_ar (dev_apis (net_device s) ! i)
                   else sl_p_ar z),
                 sl_exp_module_ident_number := module_ident_number m\<rparr>)) s)) })"

definition pf_cmdev_exp_modules_configure ::
  "app_plug \<Rightarrow> pf_exp_api \<Rightarrow> nat \<Rightarrow> pnet_result \<Rightarrow> pnet \<Rightarrow> (chk \<times> pnet) option" where
  "pf_cmdev_exp_modules_configure app e i st s = do {
     mods \<leftarrow> array_upto (nbr_modules e) (modules e);
     fold_m (\<lambda>n. configure_module app (exp_api e) i (take n mods) (mods ! n))
       [0..<length mods] ((0, st), s) }"

text \<open>The API is created when it is not there; when that fails it is skipped without a fault.\<close>

definition configure_api :: "app_plug \<Rightarrow> nat \<Rightarrow> nat \<Rightarrow> chk \<times> pnet \<Rightarrow> (chk \<times> pnet) option" where
  "configure_api app a n = (\<lambda>(x, s).
     if fst x \<noteq> 0 then Some (x, s)
     else if \<not> n < length (exp_apis (cfg (net_ars s ! a))) then None
     else let
         e = exp_apis (cfg (net_ars s ! a)) ! n;
         (f, d) = (case pf_cmdev_get_api (net_device s) (exp_api e) of
           Some i \<Rightarrow> (Some i, net_device s)
         | None \<Rightarrow> (case pf_cmdev_new_api (net_device s) (exp_api e) of
             (r, i, d) \<Rightarrow> (if r = 0 then i else None, d)))
       in case f of
         None \<Rightarrow> Some (x, s\<lparr>net_device := d\<rparr>)
       | Some i \<Rightarrow> do {
           (x, s) \<leftarrow> pf_cmdev_exp_modules_configure app e i (snd x)
             (s\<lparr>net_device := upd_api i (\<lambda>z. z\<lparr>api_p_ar := Some a\<rparr>) d\<rparr>);
           Some (x, upd_ar a (\<lambda>y. y\<lparr>cfg := (cfg y)\<lparr>exp_apis := (exp_apis (cfg y))
             [n := (exp_apis (cfg y) ! n)\<lparr>exp_valid := (fst x = 0)\<rparr>]\<rparr>\<rparr>) s) })"

definition pf_cmdev_exp_apis_configure ::
  "app_plug \<Rightarrow> nat \<Rightarrow> pnet_result \<Rightarrow> pnet \<Rightarrow> (chk \<times> pnet) option" where
  "pf_cmdev_exp_apis_configure app a st s =
     (if \<not> has_device_access s a \<and> nbr_exp_apis (cfg (net_ars s ! a)) = 0
      then Some (exp_fault_if True 4 (-1, st), s)
      else fold_m (configure_api app a) [0..<unat (nbr_exp_apis (cfg (net_ars s ! a)))] ((0, st), s))"

section \<open>The alarm CR and the RPC server\<close>

definition PF_ALARM_CR :: u32 where "PF_ALARM_CR = 1"

definition alarm_cr_faults :: "pf_alarm_cr_request \<Rightarrow> (bool \<times> u8) list" where
  "alarm_cr_faults q =
     [(alarm_cr_type q \<noteq> PF_ALARM_CR, 4),
      (\<not> transport_udp q \<and> acr_lt_field q \<noteq> 0x8892 \<or> transport_udp q \<and> acr_lt_field q \<noteq> 0x0800, 5),
      (rta_timeout_factor q < 1 \<or> rta_timeout_factor q > 0x0064, 7),
      (rta_retries q < 3 \<or> rta_retries q > 15, 8),
      (max_alarm_data_length q < 200 \<or> max_alarm_data_length q > 1432, 10),
      (acr_vlan_id (alarm_cr_tag_header_high q) \<noteq> 0, 11),
      (alarm_user_priority (alarm_cr_tag_header_high q) \<noteq> 6, 11),
      (acr_vlan_id (alarm_cr_tag_header_low q) \<noteq> 0, 12),
      (alarm_user_priority (alarm_cr_tag_header_low q) \<noteq> 5, 12)]"

definition pf_cmdev_check_alarm_cr :: "pf_ar \<Rightarrow> pnet_result \<Rightarrow> int \<times> pnet_result \<times> pf_ar" where
  "pf_cmdev_check_alarm_cr r st =
     (if device_access (ar_properties (ar_param r))
      then (-1, connect_fault PNET_ERROR_CODE_1_CMRPC PNET_ERROR_CODE_2_CMRPC_UNKNOWN_BLOCKS st, r)
      else case first_fault (alarm_cr_faults (alarm_cr_request r)) of
        Some c2 \<Rightarrow> (-1, connect_fault PNET_ERROR_CODE_1_CONN_FAULTY_ALARM_BLOCK_REQ c2 st, r)
      | None \<Rightarrow> (0, st, r\<lparr>alarm_cr_request := (alarm_cr_request r)\<lparr>acr_valid := True\<rparr>\<rparr>))"

definition pf_cmdev_check_ar_rpc :: "ar \<Rightarrow> pnet_result \<Rightarrow> int \<times> pnet_result \<times> ar" where
  "pf_cmdev_check_ar_rpc y st =
     (if initiator_rpc_server_port (cfg y) < 0x0400
      then (-1, connect_fault PNET_ERROR_CODE_1_CONN_FAULTY_AR_RPC_BLOCK_REQ 4 st, y)
      else (0, st, y\<lparr>counts := (counts y)\<lparr>ar_rpc_valid := True\<rparr>\<rparr>))"

section \<open>The whole check\<close>

definition block_count_faults :: "ar \<Rightarrow> (bool \<times> u8) list" where
  "block_count_faults y = (let
     n = counts y;
     access = device_access (ar_properties (ar_param (cfg y)))
   in
     [(\<not> access \<and> (input_cr_cnt n = 0 \<or> output_cr_cnt n = 0), PNET_ERROR_CODE_2_CMRPC_IOCR_MISSING),
      (\<not> access \<and> nbr_alarm_cr n \<noteq> 1, PNET_ERROR_CODE_2_CMRPC_WRONG_BLOCK_COUNT),
      (nbr_mcr n = 0 \<and> mcr_cons_cnt n > 0, PNET_ERROR_CODE_2_CMRPC_WRONG_BLOCK_COUNT),
      (\<not> ir_info_valid n \<and> rtc3_present n, PNET_ERROR_CODE_2_CMRPC_WRONG_BLOCK_COUNT)])"

definition set_ar :: "nat \<Rightarrow> ar \<Rightarrow> pnet \<Rightarrow> pnet" where
  "set_ar a y = upd_ar a (\<lambda>_. y)"

definition setup_iocrs :: "ar \<Rightarrow> (int \<times> ar) option" where
  "setup_iocrs y = fold_m (\<lambda>c (ret, y).
     if ret \<noteq> 0 then Some (ret, y)
     else if \<not> (c < length (iocrs (cfg y)) \<and> c < length (crs y)) then None
     else do {
       (r, x) \<leftarrow> pf_cmdev_iocr_setup_desc (cfg y) (iocr_param (iocrs (cfg y) ! c)) (crs y ! c);
       Some (if r \<noteq> 0 then -1 else ret, y\<lparr>crs := (crs y)[c := x]\<rparr>) })
     [0..<unat (nbr_iocrs (cfg y))] (0, y)"

text \<open>The parts before and after the application has plugged its modules.\<close>

definition check_params :: "int \<Rightarrow> ar \<Rightarrow> pnet_result \<Rightarrow> (int \<times> pnet_result \<times> ar) option" where
  "check_params interval y st = do {
     (ret, st, r) \<leftarrow> (if nbr_ar_param (counts y) > 0 then pf_cmdev_check_ar_param (cfg y) st
       else Some (-1, st, cfg y));
     (ret, st, r) \<leftarrow> (if ret = 0 then pf_cmdev_check_iocr_param interval r st else Some (ret, st, r));
     Some (ret, st, y\<lparr>cfg := r\<rparr>) }"

definition check_layout :: "ar \<Rightarrow> pnet_result \<Rightarrow> (int \<times> pnet_result \<times> ar) option" where
  "check_layout y st = do {
     (ret, y) \<leftarrow> setup_iocrs y;
     (ret, st, y) \<leftarrow> (if ret = 0 then pf_cmdev_check_iocr_apis y st else Some (ret, st, y));
     let (ret, st) = (if ret = 0 then (case first_fault (block_count_faults y) of
         None \<Rightarrow> (ret, st) | Some c2 \<Rightarrow> (-1, connect_fault PNET_ERROR_CODE_1_CMRPC c2 st))
       else (ret, st));
     let (ret, st, y) = (if ret = 0 \<and> nbr_alarm_cr (counts y) > 0
       then (case pf_cmdev_check_alarm_cr (cfg y) st of (ret, st, r) \<Rightarrow> (ret, st, y\<lparr>cfg := r\<rparr>))
       else (ret, st, y));
     Some (if ret = 0 \<and> nbr_rpc_server (counts y) > 0 then pf_cmdev_check_ar_rpc y st
       else (ret, st, y)) }"

definition pf_cmdev_check_apdu ::
  "app_plug \<Rightarrow> nat option \<Rightarrow> pnet_result \<Rightarrow> pnet \<Rightarrow> (int \<times> pnet_result \<times> pnet) option" where
  "pf_cmdev_check_apdu app p_ar st s =
     (case p_ar of
        None \<Rightarrow> Some (-1, st, s)
      | Some a \<Rightarrow> do {
          (ret, st, y) \<leftarrow> check_params (sint (cfg_min_device_interval (fspm_cfg (net_host s)))) (net_ars s ! a) st;
          let s = set_ar a y s;
          ((ret, st), s) \<leftarrow> (if ret = 0 then pf_cmdev_exp_apis_configure app a st s
            else Some ((ret, st), s));
          if ret \<noteq> 0 then Some (ret, st, s)
          else do {
            (ret, st, y) \<leftarrow> check_layout (net_ars s ! a) st;
            Some (ret, st, set_ar a y s) } })"

end
