(* ===== verification/Pn_Check_Props.thy ===== *)
theory Pn_Check_Props
  imports Pn_Check Pn_Device_Props Pn_Net_Correct
begin

text \<open>
  What the checks of a connect request establish: in every frame of an accepted connection the
  data, IOPS and IOCS of different subslots lie apart and inside the frame, so that the
  application's writes to one subslot never reach another. And what they let through.
\<close>

section \<open>Areas\<close>

definition area :: "u16 \<Rightarrow> u16 \<Rightarrow> nat set" where
  "area start len = {unat start ..< unat start + unat len}"

definition io_areas :: "pf_iodata_object \<Rightarrow> nat set" where
  "io_areas io = area (data_offset io) (data_length io) \<union> area (iops_offset io) (iops_length io)
     \<union> area (iocs_offset io) (iocs_length io)"

definition io_inside :: "nat \<Rightarrow> pf_iodata_object \<Rightarrow> bool" where
  "io_inside n io \<longleftrightarrow> unat (data_offset io) + unat (data_length io) \<le> n \<and>
     unat (iops_offset io) + unat (iops_length io) \<le> n \<and>
     unat (iocs_offset io) + unat (iocs_length io) \<le> n"

definition layout_ok :: "u16 \<Rightarrow> pf_iodata_object list \<Rightarrow> bool" where
  "layout_ok n ds \<longleftrightarrow>
     (\<forall>k < length ds. io_inside (unat n) (ds ! k) \<and>
        area (data_offset (ds ! k)) (data_length (ds ! k))
          \<inter> area (iops_offset (ds ! k)) (iops_length (ds ! k)) = {}) \<and>
     (\<forall>k < length ds. \<forall>j < length ds. j \<noteq> k \<longrightarrow> io_areas (ds ! k) \<inter> io_areas (ds ! j) = {})"

lemma intervals_disjoint:
  "(0::nat) < b \<Longrightarrow> 0 < d \<Longrightarrow> {a..<a + b} \<inter> {c..<c + d} = {} \<longleftrightarrow> a + b \<le> c \<or> c + d \<le> a"
  by (simp only: Int_atLeastLessThan atLeastLessThan_empty_iff) linarith

lemma no_straddle_iff:
  "pf_cmdev_check_no_straddle s1 l1 s2 l2 = 0 \<longleftrightarrow> area s1 l1 \<inter> area s2 l2 = {}"
proof (cases "l1 > 0 \<and> l2 > 0")
  case True
  then have pos: "0 < unat l1" "0 < unat l2" by (simp_all add: unat_gt_0 word_neq_0_conv)
  have "pf_cmdev_check_no_straddle s1 l1 s2 l2 = (if s1 \<le> s2
      then if unat s1 + unat l1 > unat s2 then -1 else 0
      else if unat s1 < unat s2 + unat l2 then -1 else 0)"
    using True by (simp add: pf_cmdev_check_no_straddle_def)
  then show ?thesis
    unfolding area_def intervals_disjoint [OF pos] using pos
    by (simp add: word_le_nat_alt del: unat_gt_0)
next
  case False
  then have "l1 = 0 \<or> l2 = 0" by (metis word_neq_0_conv)
  then show ?thesis by (auto simp: pf_cmdev_check_no_straddle_def area_def)
qed

lemma area_empty: "len = 0 \<Longrightarrow> area s len = {}"
  by (simp add: area_def)

lemma area_straddles_iff: "\<not> area_straddles s len io \<longleftrightarrow> area s len \<inter> io_areas io = {}"
  by (cases "len = 0") (auto simp: area_straddles_def no_straddle_iff io_areas_def area_empty word_neq_0_conv)

section \<open>How a layout is computed\<close>

lemma fold_m_inv:
  assumes "fold_m f xs s = Some s'" and "P s"
    and "\<And>x s s'. x \<in> set xs \<Longrightarrow> P s \<Longrightarrow> f x s = Some s' \<Longrightarrow> P s'"
  shows "P s'"
  using assms by (induction xs arbitrary: s) (auto simp: bind_eq_Some_conv)

text \<open>The IOPS of a descriptor follows its data.\<close>

definition iops_follow :: "pf_iodata_object \<Rightarrow> bool" where
  "iops_follow io \<longleftrightarrow> iops_length io = 0 \<or> iops_offset io = data_offset io + data_length io"

definition desc_inv :: "cr \<Rightarrow> bool" where
  "desc_inv c \<longleftrightarrow> (\<forall>k < unat (nbr_data_desc c). k < length (data_desc c) \<and> iops_follow (data_desc c ! k))"

lemma find_upto_Some: "find_upto n P xs = Some (Some i) \<Longrightarrow> i < n \<and> i < length xs \<and> P (xs ! i)"
  using index_where_le [of P "take n xs"] index_where_sat [of P "take n xs"]
  by (auto simp: find_upto_def Let_def split: if_splits)

lemma less_unat_inc:
  fixes n :: "'a::len word"
  assumes "k < unat (n + 1)"
  shows "k \<le> unat n"
  using assms unatSuc [of n] by (cases "1 + n = 0") (auto simp: add.commute)

lemma data_desc_for_inv:
  assumes "data_desc_for api sl su fresh c = Some (i, c')" and "desc_inv c"
  shows "i < length (data_desc c')"
    and "\<And>k. k < unat (nbr_data_desc c') \<Longrightarrow> k < length (data_desc c') \<and>
      (k \<noteq> i \<longrightarrow> iops_follow (data_desc c' ! k))"
    and "(\<And>io. iops_length (fresh io) = 0) \<Longrightarrow> iops_follow (data_desc c' ! i)"
proof -
  let ?n = "unat (nbr_data_desc c)"
  consider "i < ?n" "c' = c"
    | "i = ?n" "i < length (data_desc c)" "\<exists>x. c' = c\<lparr>nbr_data_desc := nbr_data_desc c + 1,
         data_desc := (data_desc c)[?n := fresh x]\<rparr>"
    using assms(1) by (auto simp: data_desc_for_def bind_eq_Some_conv Let_def
        dest!: find_upto_Some split: option.splits if_splits)
  note cases = this
  show "i < length (data_desc c')"
    by (rule cases) (use assms(2) in \<open>auto simp: desc_inv_def\<close>)
  show "k < length (data_desc c') \<and> (k \<noteq> i \<longrightarrow> iops_follow (data_desc c' ! k))"
    if "k < unat (nbr_data_desc c')" for k
    using that less_unat_inc [of k "nbr_data_desc c"] assms(2)
    by (rule_tac cases) (auto simp: desc_inv_def le_less)
  show "iops_follow (data_desc c' ! i)" if "\<And>io. iops_length (fresh io) = 0"
    by (rule cases) (use that assms(2) in \<open>auto simp: desc_inv_def iops_follow_def\<close>)
qed

lemma set_data_iops_follow: "iops_follow (set_data_iops dir offset props desc io)"
  by (auto simp: iops_follow_def set_data_iops_def Let_def)

lemma set_iocs_follow: "iops_follow io \<Longrightarrow> iops_follow (set_iocs offset props desc io)"
  by (auto simp: iops_follow_def set_iocs_def)

lemma count_length_inv [simp]: "desc_inv (count_length dir n c) = desc_inv c"
  by (simp add: desc_inv_def count_length_def)

lemma desc_inv_upd:
  assumes "data_desc_for api sl su fresh c = Some (i, c')" and "desc_inv c" and "iops_follow io"
  shows "desc_inv (c'\<lparr>data_desc := (data_desc c')[i := io]\<rparr>)"
  using data_desc_for_inv(1,2) [OF assms(1,2)] assms(3) by (auto simp: desc_inv_def nth_list_update_if)

lemma desc_inv_upd_iocs:
  assumes "data_desc_for api sl su fresh c = Some (i, c')" and "desc_inv c"
    and "\<And>io. iops_length (fresh io) = 0"
  shows "desc_inv (c'\<lparr>data_desc := (data_desc c')[i := set_iocs offset props desc (data_desc c' ! i)]\<rparr>)"
  using desc_inv_upd [OF assms(1,2)] set_iocs_follow data_desc_for_inv(3) [OF assms(1,2)] assms(3) by blast

lemma setup_data_iops_entry_inv: "setup_data_iops_entry r dir api e c = Some c' \<Longrightarrow> desc_inv c \<Longrightarrow> desc_inv c'"
  by (auto simp: setup_data_iops_entry_def bind_eq_Some_conv Let_def split: option.splits
      elim!: desc_inv_upd intro!: set_data_iops_follow)

lemma setup_iocs_entry_inv: "setup_iocs_entry r dir api e x = Some x' \<Longrightarrow> desc_inv (snd x) \<Longrightarrow> desc_inv (snd x')"
  by (cases x) (auto simp: setup_iocs_entry_def bind_eq_Some_conv Let_def split: option.splits
      elim!: desc_inv_upd_iocs)

lemma setup_data_iops_inv:
  assumes "pf_cmdev_iocr_setup_data_iops r p dir c = Some c'" and "desc_inv c"
  shows "desc_inv c'"
proof -
  obtain es where "fold_m (\<lambda>(a :: pf_api_entry) c. do {
      es \<leftarrow> array_upto (nbr_io_data a) (io_data a);
      fold_m (setup_data_iops_entry r dir (ae_api a)) es c }) es c = Some c'"
    using assms(1) by (auto simp: pf_cmdev_iocr_setup_data_iops_def bind_eq_Some_conv)
  then show ?thesis
    by (rule fold_m_inv [where P = desc_inv])
      (auto simp: assms(2) bind_eq_Some_conv elim!: fold_m_inv [where P = desc_inv] setup_data_iops_entry_inv)
qed

lemma setup_iocs_inv:
  assumes "pf_cmdev_iocr_setup_iocs r p dir c = Some x" and "desc_inv c"
  shows "desc_inv (snd x)"
proof -
  obtain es where "fold_m (\<lambda>(a :: pf_api_entry) x. do {
      es \<leftarrow> array_upto (nbr_iocs a) (iocs a);
      fold_m (setup_iocs_entry r dir (ae_api a)) es x }) es (0, c) = Some x"
    using assms(1) by (auto simp: pf_cmdev_iocr_setup_iocs_def bind_eq_Some_conv)
  then show ?thesis
    by (rule fold_m_inv [where P = "\<lambda>x. desc_inv (snd x)"])
      (auto simp: assms(2) bind_eq_Some_conv
        elim!: fold_m_inv [where P = "\<lambda>x. desc_inv (snd x)"] setup_iocs_entry_inv)
qed

lemma setup_desc_inv: "pf_cmdev_iocr_setup_desc r p c = Some x \<Longrightarrow> desc_inv (snd x)"
  unfolding pf_cmdev_iocr_setup_desc_def Let_def bind_eq_Some_conv
  by (elim exE conjE, erule setup_iocs_inv, erule setup_data_iops_inv) (simp add: desc_inv_def)

section \<open>What the checks establish\<close>

lemma fault_if_ok: "fst (fault_if b c1 c2 x) = 0 \<longleftrightarrow> \<not> b \<and> fst x = 0"
  by (simp add: fault_if_def)

lemma iops_follow_apart:
  assumes "iops_follow io" and "\<not> area_outside (data_offset io) (data_length io) n"
  shows "area (data_offset io) (data_length io) \<inter> area (iops_offset io) (iops_length io) = {}"
  using assms unat_add_le [of "data_offset io" "data_length io" n]
  by (auto simp: iops_follow_def area_outside_def area_def)

definition desc_ok :: "u16 \<Rightarrow> pf_iodata_object list \<Rightarrow> nat \<Rightarrow> bool" where
  "desc_ok n ds k \<longleftrightarrow>
     \<not> area_outside (data_offset (ds ! k)) (data_length (ds ! k)) n \<and>
     \<not> area_outside (iops_offset (ds ! k)) (iops_length (ds ! k)) n \<and>
     \<not> area_outside (iocs_offset (ds ! k)) (iocs_length (ds ! k)) n \<and>
     (\<forall>j < k. io_areas (ds ! k) \<inter> io_areas (ds ! j) = {})"

lemma overlap_ok:
  assumes "k < length ds"
  shows "fst (pf_cmdev_check_iocr_overlap ds k st) = 0 \<longleftrightarrow>
    (\<forall>j < k. io_areas (ds ! k) \<inter> io_areas (ds ! j) = {})"
proof -
  have "fst (pf_cmdev_check_iocr_overlap ds k st) = 0 \<longleftrightarrow> (\<forall>x \<in> set (take k ds).
      \<not> area_straddles (data_offset (ds ! k)) (data_length (ds ! k)) x \<and>
      \<not> area_straddles (iops_offset (ds ! k)) (iops_length (ds ! k)) x \<and>
      \<not> area_straddles (iocs_offset (ds ! k)) (iocs_length (ds ! k)) x)"
    by (auto simp: pf_cmdev_check_iocr_overlap_def Let_def fault_if_ok list_ex_iff)
  also have "\<dots> \<longleftrightarrow> (\<forall>x \<in> set (take k ds). io_areas (ds ! k) \<inter> io_areas x = {})"
    by (simp add: area_straddles_iff io_areas_def [of "ds ! k"] Int_Un_distrib2)
  finally show ?thesis using assms by (simp add: all_set_conv_all_nth)
qed

lemma check_data_desc_ok:
  assumes "check_data_desc p ds k x = Some x'" and "fst x' = 0"
  shows "fst x = 0 \<and> k < length ds \<and> desc_ok (c_sdu_length p) ds k"
  using assms overlap_ok [of k ds]
  by (auto simp: check_data_desc_def Let_def desc_ok_def fault_if_ok split: if_splits)

lemma check_data_descs_ok:
  "fold_m (check_data_desc p ds) [0..<n] x = Some x' \<Longrightarrow> fst x' = 0 \<Longrightarrow>
   fst x = 0 \<and> n \<le> length ds \<and> (\<forall>k < n. desc_ok (c_sdu_length p) ds k)"
proof (induction n arbitrary: x')
  case (Suc n)
  then obtain y where y: "fold_m (check_data_desc p ds) [0..<n] x = Some y"
    "check_data_desc p ds n y = Some x'"
    by (auto simp: fold_m_append bind_eq_Some_conv)
  note ok = check_data_desc_ok [OF y(2) Suc.prems(2)]
  show ?case using ok Suc.IH [OF y(1)] by (auto simp: less_Suc_eq Suc_le_eq)
qed auto

lemma layout_okI:
  assumes "\<forall>k < length ds. desc_ok n ds k \<and> iops_follow (ds ! k)"
  shows "layout_ok n ds"
  unfolding layout_ok_def
proof (intro conjI allI impI)
  fix k j assume "k < length ds" "j < length ds" "j \<noteq> k"
  then show "io_areas (ds ! k) \<inter> io_areas (ds ! j) = {}"
    using assms by (metis Int_commute desc_ok_def linorder_neqE_nat)
next
  fix k assume k: "k < length ds"
  show "io_inside (unat n) (ds ! k)"
    using assms k by (auto simp: desc_ok_def io_inside_def area_outside_def)
  show "area (data_offset (ds ! k)) (data_length (ds ! k))
      \<inter> area (iops_offset (ds ! k)) (iops_length (ds ! k)) = {}"
    using assms k unfolding desc_ok_def by (blast intro!: iops_follow_apart)
qed

definition cr_layout_ok :: "ar \<Rightarrow> nat \<Rightarrow> bool" where
  "cr_layout_ok y c \<longleftrightarrow> c < length (crs y) \<and>
     unat (nbr_data_desc (crs y ! c)) \<le> length (data_desc (crs y ! c)) \<and>
     layout_ok (c_sdu_length (iocr_param (iocrs (cfg y) ! c)))
       (take (unat (nbr_data_desc (crs y ! c))) (data_desc (crs y ! c)))"

lemma desc_inv_layout:
  assumes "desc_inv x" and "\<forall>k < unat (nbr_data_desc x). desc_ok n (data_desc x) k"
  shows "layout_ok n (take (unat (nbr_data_desc x)) (data_desc x))"
  using assms by (intro layout_okI) (auto simp: desc_inv_def desc_ok_def)

lemma setup_iocrs_ok:
  assumes "setup_iocrs y = Some (0, y')"
  shows "cfg y' = cfg y \<and>
    (\<forall>c < unat (nbr_iocrs (cfg y)). c < length (crs y') \<and> desc_inv (crs y' ! c))"
proof -
  let ?f = "\<lambda>c (ret, y).
     if ret \<noteq> (0::int) then Some (ret, y)
     else if \<not> (c < length (iocrs (cfg y)) \<and> c < length (crs y)) then None
     else do {
       (r, x) \<leftarrow> pf_cmdev_iocr_setup_desc (cfg y) (iocr_param (iocrs (cfg y) ! c)) (crs y ! c);
       Some (if r \<noteq> 0 then -1 else ret, y\<lparr>crs := (crs y)[c := x]\<rparr>) }"
  have "fold_m ?f [0..<n] (0, y) = Some (0, y') \<Longrightarrow> cfg y' = cfg y \<and>
      (\<forall>c < n. c < length (crs y') \<and> desc_inv (crs y' ! c))" for n y'
  proof (induction n arbitrary: y')
    case (Suc n)
    then obtain r z where z: "fold_m ?f [0..<n] (0, y) = Some (r, z)" "?f n (r, z) = Some (0, y')"
      by (auto simp: fold_m_append bind_eq_Some_conv)
    then have [simp]: "r = 0" by (auto split: if_splits)
    from z(2) obtain x where x: "n < length (crs z)" "y' = z\<lparr>crs := (crs z)[n := x]\<rparr>"
      "pf_cmdev_iocr_setup_desc (cfg z) (iocr_param (iocrs (cfg z) ! n)) (crs z ! n) = Some (0, x)"
      by (auto simp: bind_eq_Some_conv split: if_splits)
    show ?case
      using Suc.IH [of z] z(1) x setup_desc_inv [OF x(3)] by (auto simp: nth_list_update_if less_Suc_eq)
  qed auto
  then show ?thesis using assms by (simp add: setup_iocrs_def)
qed

lemma check_iocr_api_fault: "check_iocr_api r ty a x = Some x' \<Longrightarrow> fst x \<noteq> 0 \<Longrightarrow> fst x' \<noteq> 0"
  by (auto simp: check_iocr_api_def bind_eq_Some_conv fault_if_def Let_def split: option.splits if_splits)

lemma check_iocr_layout_ok:
  assumes "check_iocr_layout r p x st = Some st'" and "fst st' = 0"
  shows "fst st = 0 \<and> unat (nbr_data_desc x) \<le> length (data_desc x) \<and>
    (\<forall>k < unat (nbr_data_desc x). desc_ok (c_sdu_length p) (data_desc x) k)"
proof -
  from assms(1) obtain as st1 where
    a: "fold_m (check_iocr_api r (iocr_type p)) as st = Some st1" and
    d: "fold_m (check_data_desc p (data_desc x)) [0..<unat (nbr_data_desc x)] st1 = Some st'"
    unfolding check_iocr_layout_def bind_eq_Some_conv by blast
  note ok = check_data_descs_ok [OF d assms(2)]
  have "fst st1 \<noteq> 0" if "fst st \<noteq> 0"
    using a that by (rule fold_m_inv [where P = "\<lambda>x. fst x \<noteq> 0"]) (auto dest: check_iocr_api_fault)
  then show ?thesis using ok by auto
qed

lemma check_iocr_apis_ok:
  assumes "pf_cmdev_check_iocr_apis y st = Some (0, st', y')"
    and "\<forall>c < unat (nbr_iocrs (cfg y)). desc_inv (crs y ! c)"
  shows "y' = y \<and> (\<forall>c < unat (nbr_iocrs (cfg y)). cr_layout_ok y c)"
proof -
  let ?f = "\<lambda>c (ret, st, y).
       if \<not> (c < length (iocrs (cfg y)) \<and> c < length (crs y)) then None
       else do {
         (ret, st) \<leftarrow> check_iocr_layout (cfg y) (iocr_param (iocrs (cfg y) ! c)) (crs y ! c) (ret, st);
         Some (ret, st, if ret \<noteq> 0
           then y\<lparr>cfg := upd_param c (\<lambda>p. p\<lparr>iocrp_valid := False\<rparr>) (cfg y)\<rparr> else y) }"
  have "fold_m ?f [0..<n] (0, st, y) = Some (0, st', y') \<Longrightarrow> y' = y \<and> (\<forall>c < n. cr_layout_ok y c)"
    if "n \<le> unat (nbr_iocrs (cfg y))" for n st' y'
    using that
  proof (induction n arbitrary: y' st')
    case (Suc n)
    then obtain r st1 z where z: "fold_m ?f [0..<n] (0, st, y) = Some (r, st1, z)"
      "?f n (r, st1, z) = Some (0, st', y')"
      by (auto simp: fold_m_append bind_eq_Some_conv)
    from z(2) have l: "n < length (crs z)" "y' = z"
      "check_iocr_layout (cfg z) (iocr_param (iocrs (cfg z) ! n)) (crs z ! n) (r, st1) = Some (0, st')"
      by (auto simp: bind_eq_Some_conv split: if_splits)
    note ok = check_iocr_layout_ok [OF l(3)]
    show ?case
      using Suc z(1) l ok assms(2) desc_inv_layout by (auto simp: cr_layout_ok_def less_Suc_eq)
  qed auto
  from this [OF order.refl assms(1) [unfolded pf_cmdev_check_iocr_apis_def]] show ?thesis .
qed

lemma check_layout_ok:
  assumes "check_layout y st = Some (0, st', y')" and "c < unat (nbr_iocrs (cfg y'))"
  shows "cr_layout_ok y' c"
proof -
  obtain r y1 where 1: "setup_iocrs y = Some (r, y1)"
    using assms(1) by (auto simp: check_layout_def bind_eq_Some_conv)
  obtain r2 st2 y2 where 2: "(if r = 0 then pf_cmdev_check_iocr_apis y1 st else Some (r, st, y1)) = Some (r2, st2, y2)"
    using assms(1) 1 by (auto simp: check_layout_def bind_eq_Some_conv)
  have [simp]: "r2 = 0" "r = 0"
    using assms(1) 1 2 by (auto simp: check_layout_def Let_def split: if_splits option.splits)
  have same: "nbr_iocrs (cfg y') = nbr_iocrs (cfg y2)" "iocrs (cfg y') = iocrs (cfg y2)" "crs y' = crs y2"
    using assms(1) 1 2 by (auto simp: check_layout_def Let_def pf_cmdev_check_alarm_cr_def
        pf_cmdev_check_ar_rpc_def split: if_splits option.splits)
  have "y2 = y1 \<and> (\<forall>c < unat (nbr_iocrs (cfg y1)). cr_layout_ok y1 c)"
    using check_iocr_apis_ok [of y1 st st2 y2] 2 setup_iocrs_ok [of y y1] 1 by simp
  then show ?thesis using assms(2) same by (simp add: cr_layout_ok_def)
qed

lemma check_apdu_layout:
  assumes "pf_cmdev_check_apdu app (Some a) st s = Some (0, st', s')"
    and "a < length (net_ars s')" and "c < unat (nbr_iocrs (cfg (net_ars s' ! a)))"
  shows "cr_layout_ok (net_ars s' ! a) c"
proof -
  from assms(1) obtain st1 y s1 where y: "check_layout (net_ars s1 ! a) st1 = Some (0, st', y)"
    "s' = set_ar a y s1"
    by (auto simp: pf_cmdev_check_apdu_def bind_eq_Some_conv Let_def split: if_splits)
  then have "net_ars s' ! a = y" using assms(2) by (simp add: set_ar_def upd_ar_def)
  then show ?thesis using check_layout_ok [OF y(1)] assms(3) by simp
qed

text \<open>C29. A connect request that passes the checks has a sound layout: in the frame of every CR,
  data, IOPS and IOCS of each subslot lie inside the frame, they do not meet those of any other
  subslot, and the IOPS of a subslot lies outside its data.\<close>

theorem accepted_layout:
  assumes "pf_cmdev_check_apdu app (Some a) st s = Some (0, st', s')"
    and "a < length (net_ars s')" and "c < unat (nbr_iocrs (cfg (net_ars s' ! a)))"
  shows "cr_layout_ok (net_ars s' ! a) c"
  using assms by (rule check_apdu_layout)

section \<open>The application's writes\<close>

lemma nth_overlay:
  "i + length bs \<le> length xs \<Longrightarrow> m < length xs \<Longrightarrow>
   overlay i bs xs ! m = (if i \<le> m \<and> m < i + length bs then bs ! (m - i) else xs ! m)"
  by (auto simp: overlay_def nth_append)

lemma overlay_apart:
  assumes "i + length bs \<le> length xs" and "j + n \<le> length xs"
    and "{j..<j + n} \<inter> {i..<i + length bs} = {}"
  shows "take n (drop j (overlay i bs xs)) = take n (drop j xs)"
proof (rule nth_equalityI)
  fix m assume "m < length (take n (drop j (overlay i bs xs)))"
  then have "m < n" by simp
  moreover have "\<not> (i \<le> j + m \<and> j + m < i + length bs)" "j + m < length xs"
    using assms(2,3) \<open>m < n\<close> by auto
  ultimately show "take n (drop j (overlay i bs xs)) ! m = take n (drop j xs) ! m"
    using assms(1,2) nth_overlay [of i bs xs "j + m"] by (simp del: not_less de_Morgan_conj)
qed (use assms in simp)

abbreviation cr_data :: "pnet \<Rightarrow> nat \<Rightarrow> nat \<Rightarrow> u8 list" where
  "cr_data s a c \<equiv> buffer_data (the_ppm s a c)"

definition read_area :: "u16 \<Rightarrow> u16 \<Rightarrow> u8 list \<Rightarrow> u8 list" where
  "read_area start len bs = take (unat len) (drop (unat start) bs)"

text \<open>A state that differs in the data of one frame only.\<close>

definition with_data :: "nat \<Rightarrow> nat \<Rightarrow> u8 list \<Rightarrow> pnet \<Rightarrow> pnet" where
  "with_data a c bs = upd_ppm a c (\<lambda>p. p\<lparr>buffer_data := bs\<rparr>)"

lemma with_data_simps [simp]:
  "with_data a c bs (with_data a c bs' s) = with_data a c bs s"
  "has_cr (with_data a c bs s) a c = has_cr s a c"
  "has_cr s a c \<Longrightarrow> cr_data (with_data a c bs s) a c = bs"
  "has_cr s a c \<Longrightarrow> data_desc (the_cr (with_data a c bs s) a c) = data_desc (the_cr s a c)"
  by (simp_all add: with_data_def)

lemma write_frame_buffer:
  "has_cr s a c \<Longrightarrow> i + length d \<le> length (cr_data s a c) \<Longrightarrow>
   pf_ppm_drv_sw_write_frame_buffer a c i d s = Some (with_data a c (overlay i d (cr_data s a c)) s)"
  by (simp add: pf_ppm_drv_sw_write_frame_buffer_def copy_to_def with_data_def)

lemma read_frame_buffer:
  "unat start + unat len \<le> length (cr_data s a c) \<Longrightarrow>
   pf_ppm_drv_sw_read_frame_buffer a c (unat start) (unat len) s = Some (read_area start len (cr_data s a c))"
  by (simp add: pf_ppm_drv_sw_read_frame_buffer_def read_area_def)

lemma read_area_overlay:
  assumes "unat start + unat len \<le> length bs"
  shows "length d = unat len \<Longrightarrow> read_area start len (overlay (unat start) d bs) = d"
    and "unat st + length d \<le> length bs \<Longrightarrow> length d = unat l \<Longrightarrow> area start len \<inter> area st l = {} \<Longrightarrow>
      read_area start len (overlay (unat st) d bs) = read_area start len bs"
  using assms by (simp_all add: read_area_def read_overlay overlay_apart area_def)
   (metis read_overlay)

lemma layout_ok_nth:
  assumes "cr_layout_ok (net_ars s ! a) c" and "k < unat (nbr_data_desc (the_cr s a c))"
  shows "io_inside (unat (c_sdu_length (the_iocr_param s a c))) (the_io s a c k)"
    and "area (data_offset (the_io s a c k)) (data_length (the_io s a c k))
      \<inter> area (iops_offset (the_io s a c k)) (iops_length (the_io s a c k)) = {}"
    and "j < unat (nbr_data_desc (the_cr s a c)) \<Longrightarrow> j \<noteq> k \<Longrightarrow>
      io_areas (the_io s a c j) \<inter> io_areas (the_io s a c k) = {}"
  using assms by (auto simp: cr_layout_ok_def layout_ok_def the_cr_def) 

lemma unat_ucast_8_16: "unat (ucast (x :: u8) :: u16) = unat x"
  by (simp add: unsigned_ucast_eq take_bit_nat_eq_self_iff less_trans [OF unsigned_less])

lemma upd_io_reads:
  assumes "has_cr s a c"
  shows "pf_ppm_drv_sw_read_data_and_iops a c io (upd_io a c k f s) = pf_ppm_drv_sw_read_data_and_iops a c io s"
    and "pf_ppm_drv_sw_read_iocs a c io (upd_io a c k f s) = pf_ppm_drv_sw_read_iocs a c io s"
    and "j \<noteq> k \<Longrightarrow> the_io (upd_io a c k f s) a c j = the_io s a c j"
    and "k < length (data_desc (the_cr s a c)) \<Longrightarrow> the_io (upd_io a c k f s) a c k = f (the_io s a c k)"
  using assms by (simp_all add: pf_ppm_drv_sw_read_data_and_iops_def pf_ppm_drv_sw_read_iocs_def
      pf_ppm_drv_sw_read_frame_buffer_def upd_io_def)

lemma read_ignores_flag:
  "pf_ppm_drv_sw_read_data_and_iops a c (io\<lparr>data_avail := b\<rparr>) s = pf_ppm_drv_sw_read_data_and_iops a c io s"
  by (simp add: pf_ppm_drv_sw_read_data_and_iops_def)

lemma reads_of:
  assumes "io_inside n io" and "n \<le> length (cr_data s a c)"
  shows "pf_ppm_drv_sw_read_data_and_iops a c io s = Some (read_area (data_offset io) (data_length io) (cr_data s a c),
      read_area (iops_offset io) (iops_length io) (cr_data s a c))"
    and "pf_ppm_drv_sw_read_iocs a c io s = Some (read_area (iocs_offset io) (iocs_length io) (cr_data s a c))"
  using assms by (simp_all add: pf_ppm_drv_sw_read_data_and_iops_def pf_ppm_drv_sw_read_iocs_def
      read_frame_buffer io_inside_def)

lemma write_data_and_iops:
  assumes cr: "has_cr s a c" and layout: "cr_layout_ok (net_ars s ! a) c"
    and k: "k < unat (nbr_data_desc (the_cr s a c))"
    and n: "unat (c_sdu_length (the_iocr_param s a c)) \<le> length (cr_data s a c)"
    and d: "length d = unat (data_length (the_io s a c k))"
    and p: "length p = unat (iops_length (the_io s a c k))"
  obtains bs where "pf_ppm_drv_sw_write_data_and_iops a c (the_io s a c k) (Some d) p s = Some (with_data a c bs s)"
    and "length bs = length (cr_data s a c)"
    and "read_area (data_offset (the_io s a c k)) (data_length (the_io s a c k)) bs = d"
    and "read_area (iops_offset (the_io s a c k)) (iops_length (the_io s a c k)) bs = p"
    and "\<And>st l. area st l \<inter> io_areas (the_io s a c k) = {} \<Longrightarrow> unat st + unat l \<le> length (cr_data s a c) \<Longrightarrow>
      read_area st l bs = read_area st l (cr_data s a c)"
proof -
  let ?io = "the_io s a c k" and ?x = "cr_data s a c"
  let ?y = "overlay (unat (data_offset ?io)) d ?x"
  let ?z = "overlay (unat (iops_offset ?io)) p ?y"
  note l = layout_ok_nth [OF layout k]
  have i: "unat (data_offset ?io) + length d \<le> length ?x" "unat (iops_offset ?io) + length p \<le> length ?x"
    using l(1) n d p by (auto simp: io_inside_def)
  show ?thesis
  proof (rule that [of ?z])
    show "pf_ppm_drv_sw_write_data_and_iops a c ?io (Some d) p s = Some (with_data a c ?z s)"
      using cr i by (simp add: pf_ppm_drv_sw_write_data_and_iops_def write_frame_buffer)
    show "length ?z = length ?x" using i by simp
    show "read_area (iops_offset ?io) (iops_length ?io) ?z = p"
      using i p by (simp add: read_area_overlay(1))
    have "read_area (data_offset ?io) (data_length ?io) ?z = read_area (data_offset ?io) (data_length ?io) ?y"
      using i d p l(2) by (intro read_area_overlay(2)) simp_all
    then show "read_area (data_offset ?io) (data_length ?io) ?z = d"
      using i d by (simp add: read_area_overlay(1))
    fix st l :: u16
    assume "area st l \<inter> io_areas ?io = {}" and b: "unat st + unat l \<le> length ?x"
    then have "area st l \<inter> area (data_offset ?io) (data_length ?io) = {}"
      "area st l \<inter> area (iops_offset ?io) (iops_length ?io) = {}" by (auto simp: io_areas_def)
    then show "read_area st l ?z = read_area st l ?x"
      using i d p b read_area_overlay(2) [of st l ?y "iops_offset ?io" p "iops_length ?io"]
        read_area_overlay(2) [of st l ?x "data_offset ?io" d "data_length ?io"] by simp
  qed
qed

text \<open>C30. On a CR whose layout has been accepted, the application sets the data and the IOPS of a
  subslot. They are then what the provider sends for the subslot, and the data, IOPS and IOCS of
  every other subslot of the frame are what they were.\<close>

theorem provider_subslots_independent:
  assumes "pf_ppm_get_ar_iocr_desc api sl su s = Some (Some (a, c, k))"
    and "has_cr s a c" and "cr_layout_ok (net_ars s ! a) c" and "k < unat (nbr_data_desc (the_cr s a c))"
    and "unat (c_sdu_length (the_iocr_param s a c)) \<le> length (buffer_data (the_ppm s a c))"
    and "len = data_length (the_io s a c k)" and "ucast iops_len = iops_length (the_io s a c k)"
    and "unat len \<le> length bs" and "unat iops_len \<le> length ps"
  shows "\<exists>s'. pf_ppm_set_data_and_iops api sl su (Some bs) len ps iops_len s = Some (0, s') \<and>
    pf_ppm_drv_sw_read_data_and_iops a c (the_io s' a c k) s'
      = Some (take (unat len) bs, take (unat iops_len) ps) \<and>
    (\<forall>j < unat (nbr_data_desc (the_cr s a c)). j \<noteq> k \<longrightarrow> the_io s' a c j = the_io s a c j \<and>
      pf_ppm_drv_sw_read_data_and_iops a c (the_io s a c j) s'
        = pf_ppm_drv_sw_read_data_and_iops a c (the_io s a c j) s \<and>
      pf_ppm_drv_sw_read_iocs a c (the_io s a c j) s' = pf_ppm_drv_sw_read_iocs a c (the_io s a c j) s)"
proof -
  let ?io = "the_io s a c"
  let ?d = "take (unat len) bs" and ?p = "take (unat iops_len) ps"
  have u: "unat (iops_length (?io k)) = unat iops_len"
    using unat_ucast_8_16 [of iops_len] assms(7) by metis
  have l: "length ?d = unat (data_length (?io k))" "length ?p = unat (iops_length (?io k))"
    using assms(6,8,9) u by simp_all
  obtain x where x: "pf_ppm_drv_sw_write_data_and_iops a c (?io k) (Some ?d) ?p s = Some (with_data a c x s)"
    "length x = length (cr_data s a c)"
    "read_area (data_offset (?io k)) (data_length (?io k)) x = ?d"
    "read_area (iops_offset (?io k)) (iops_length (?io k)) x = ?p"
    "\<And>st l. area st l \<inter> io_areas (?io k) = {} \<Longrightarrow> unat st + unat l \<le> length (cr_data s a c) \<Longrightarrow>
      read_area st l x = read_area st l (cr_data s a c)"
    by (rule write_data_and_iops [OF assms(2-5) l]) (rule that)
  define s' where "s' = upd_io a c k (\<lambda>io. io\<lparr>data_avail := True\<rparr>) (with_data a c x s)"
  have set: "pf_ppm_set_data_and_iops api sl su (Some bs) len ps iops_len s = Some (0, s')"
    using assms x(1) by (simp add: pf_ppm_set_data_and_iops_def Let_def read_arg_def s'_def)
  have k: "k < length (data_desc (the_cr s a c))"
    using assms(3,4) by (simp add: cr_layout_ok_def the_cr_def)
  note r = reads_of [OF layout_ok_nth(1) [OF assms(3)]]
  show ?thesis
  proof (intro exI conjI allI impI)
    show "pf_ppm_set_data_and_iops api sl su (Some bs) len ps iops_len s = Some (0, s')" by (rule set)
    have "the_io s' a c k = (?io k)\<lparr>data_avail := True\<rparr>"
      using k assms(2) by (simp add: s'_def upd_io_reads(4))
    then show "pf_ppm_drv_sw_read_data_and_iops a c (the_io s' a c k) s' = Some (?d, ?p)"
      using r(1) [OF assms(4), of "with_data a c x s" a c] assms(2,5) x
      by (simp add: s'_def upd_io_reads(1) read_ignores_flag)
    fix j assume j: "j < unat (nbr_data_desc (the_cr s a c))" "j \<noteq> k"
    show "the_io s' a c j = ?io j" using j assms(2) by (simp add: s'_def upd_io_reads)
    have i: "io_inside (length (cr_data s a c)) (?io j)"
      using layout_ok_nth(1) [OF assms(3) j(1)] assms(5) by (auto simp: io_inside_def)
    have "read_area st l x = read_area st l (cr_data s a c)"
      if "area st l \<subseteq> io_areas (?io j)" "unat st + unat l \<le> length (cr_data s a c)" for st l
      using x(5) that layout_ok_nth(3) [OF assms(3,4) j] by blast
    then have same: "read_area (data_offset (?io j)) (data_length (?io j)) x
          = read_area (data_offset (?io j)) (data_length (?io j)) (cr_data s a c)"
      "read_area (iops_offset (?io j)) (iops_length (?io j)) x
          = read_area (iops_offset (?io j)) (iops_length (?io j)) (cr_data s a c)"
      "read_area (iocs_offset (?io j)) (iocs_length (?io j)) x
          = read_area (iocs_offset (?io j)) (iocs_length (?io j)) (cr_data s a c)"
      using i by (simp_all add: io_areas_def io_inside_def le_supI1 le_supI2)
    then show "pf_ppm_drv_sw_read_data_and_iops a c (?io j) s' = pf_ppm_drv_sw_read_data_and_iops a c (?io j) s"
      and "pf_ppm_drv_sw_read_iocs a c (?io j) s' = pf_ppm_drv_sw_read_iocs a c (?io j) s"
      using assms(2) reads_of [OF i] x(2) by (simp_all add: s'_def upd_io_reads)
  qed
qed

section \<open>Examples\<close>

text \<open>
  A connect request for one submodule with inputs and outputs at slot 1, subslot 1. The input CR
  has its data at 0, its IOPS at 1 and its IOCS at \<open>off\<close>.
\<close>

definition demo_exp_api :: pf_exp_api where
  "demo_exp_api = \<lparr>exp_valid = False, exp_api = 0, nbr_modules = 1, modules = [
     \<lparr>slot_number = 1, module_ident_number = 0x32, module_properties = 0, nbr_submodules = 1,
       submodules = [\<lparr>subslot_number = 1, submodule_ident_number = 0x132,
         submodule_properties = \<lparr>submodule_type = PNET_DIR_IO, sharedInput = False,
           reduce_input_submodule_data_length = False, reduce_output_submodule_data_length = False,
           discard_ioxs = False\<rparr>,
         nbr_data_descriptors = 2, data_descriptor = [
           \<lparr>data_direction = 1, submodule_data_length = 1, length_iops = 1, length_iocs = 1\<rparr>,
           \<lparr>data_direction = 2, submodule_data_length = 1, length_iops = 1, length_iocs = 1\<rparr>]\<rparr>]\<rparr>]\<rparr>"

definition demo_descriptor :: "u16 \<Rightarrow> pf_frame_descriptor" where
  "demo_descriptor off = \<lparr>fd_slot_number = 1, fd_subslot_number = 1, frame_offset = off\<rparr>"

definition demo_req_iocr :: "u16 \<Rightarrow> u16 \<Rightarrow> pf_iocr" where
  "demo_req_iocr ty off = demo_iocr\<lparr>iocr_param := (iocr_param demo_iocr)\<lparr>iocr_type := ty,
     frame_id := 0xC000, nbr_apis := 1,
     apis := [\<lparr>ae_api = 0, nbr_io_data = 1, io_data = [demo_descriptor 0], nbr_iocs = 1,
       iocs = [demo_descriptor off]\<rparr>]\<rparr>\<rparr>"

definition demo_req :: "u16 \<Rightarrow> pf_ar" where
  "demo_req off = demo_ar\<lparr>
     ar_param := (ar_param demo_ar)\<lparr>arp_ar_uuid := \<lparr>data1 = 1, data2 = 0, data3 = 0, data4 = replicate 8 0\<rparr>,
       cm_initiator_mac_add := [2, 2, 3, 4, 5, 6],
       cm_initiator_object_uuid :=
         \<lparr>data1 = 0xDEA00000, data2 = 0x6C97, data3 = 0x11D1, data4 = [0x82, 0x71, 0, 0, 0, 0, 0, 0]\<rparr>,
       ar_properties := ar_properties_of_bits 0x11, cm_initiator_activity_timeout_factor := 1,
       cm_initiator_station_name_len := 1, cm_initiator_station_name := [97, 0, 0]\<rparr>,
     alarm_cr_request := (alarm_cr_request demo_ar)\<lparr>alarm_cr_type := 1, acr_lt_field := 0x8892,
       rta_timeout_factor := 1, rta_retries := 3, max_alarm_data_length := 200,
       alarm_cr_tag_header_high := \<lparr>acr_vlan_id = 0, alarm_user_priority = 6\<rparr>,
       alarm_cr_tag_header_low := \<lparr>acr_vlan_id = 0, alarm_user_priority = 5\<rparr>\<rparr>,
     nbr_iocrs := 2, iocrs := [demo_req_iocr 1 off, demo_req_iocr 2 2],
     nbr_exp_apis := 1, exp_apis := [demo_exp_api]\<rparr>"

definition demo_req_net :: "u16 \<Rightarrow> pnet" where
  "demo_req_net off = upd_ar 0 (\<lambda>y. y\<lparr>cfg := demo_req off,
     counts := demo_counts\<lparr>nbr_alarm_cr := 1, output_cr_cnt := 1\<rparr>, crs := [demo_cr, demo_cr]\<rparr>)
     (the (fold_m run_plug_op demo_ops demo_plug_net))"

definition demo_app :: app_plug where
  "demo_app = \<lparr>exp_module_cb = (\<lambda>_ _ _ s. Some s), exp_submodule_cb = (\<lambda>_ _ _ _ _ _ s. Some s)\<rparr>"

definition ok_result :: pnet_result where
  "ok_result = \<lparr>result_status = \<lparr>error_code = 0, error_decode = 0, error_code_1 = 0, error_code_2 = 0\<rparr>,
     result_add_data_1 = 0, result_add_data_2 = 0\<rparr>"

lemma demo_req_accepted:
  "(case pf_cmdev_check_apdu demo_app (Some 0) ok_result (demo_req_net 2) of None \<Rightarrow> False
    | Some (r, st, s) \<Rightarrow> r = 0 \<and> 0 < length (net_ars s) \<and> 1 < unat (nbr_iocrs (cfg (net_ars s ! 0))))"
  by code_simp

theorem accepted_layout_witness:
  "\<exists>st' s'. pf_cmdev_check_apdu demo_app (Some 0) ok_result (demo_req_net 2) = Some (0, st', s') \<and>
     cr_layout_ok (net_ars s' ! 0) 0 \<and> cr_layout_ok (net_ars s' ! 0) 1"
  using demo_req_accepted accepted_layout [of demo_app 0 ok_result "demo_req_net 2"]
  by (fastforce split: option.splits)

definition demo_accepted_net :: "u16 \<Rightarrow> pnet" where
  "demo_accepted_net off = (case pf_cmdev_check_apdu demo_app (Some 0) ok_result (demo_req_net off) of
     None \<Rightarrow> demo_net | Some (r, st, s) \<Rightarrow> s)"

lemma demo_accepted_io:
  "pf_ppm_get_ar_iocr_desc 0 1 1 (demo_accepted_net 2) = Some (Some (0, 0, 0)) \<and>
   has_cr (demo_accepted_net 2) 0 0 \<and> 0 < unat (nbr_data_desc (the_cr (demo_accepted_net 2) 0 0)) \<and>
   unat (c_sdu_length (the_iocr_param (demo_accepted_net 2) 0 0)) \<le> length (cr_data (demo_accepted_net 2) 0 0) \<and>
   data_length (the_io (demo_accepted_net 2) 0 0 0) = 1 \<and> iops_length (the_io (demo_accepted_net 2) 0 0 0) = 1"
  unfolding has_cr_def by code_simp

theorem provider_subslots_independent_witness:
  "\<exists>s'. pf_ppm_set_data_and_iops 0 1 1 (Some [85]) 1 [128] 1 (demo_accepted_net 2) = Some (0, s') \<and>
     pf_ppm_drv_sw_read_data_and_iops 0 0 (the_io s' 0 0 0) s' = Some ([85], [128])"
proof -
  obtain st s where s: "pf_cmdev_check_apdu demo_app (Some 0) ok_result (demo_req_net 2) = Some (0, st, s)"
    "0 < length (net_ars s)" "1 < unat (nbr_iocrs (cfg (net_ars s ! 0)))"
    using demo_req_accepted by (auto split: option.splits)
  then have "cr_layout_ok (net_ars (demo_accepted_net 2) ! 0) 0"
    using check_apdu_layout [OF s(1,2), of 0] by (simp add: demo_accepted_net_def)
  then show ?thesis
    using demo_accepted_io provider_subslots_independent [of 0 1 1 "demo_accepted_net 2" 0 0 0 1 1 "[85]" "[128]"]
    by auto
qed

section \<open>What the checks let through\<close>

lemma overlay_reads:
  assumes "unat i + length cs \<le> length bs" and "unat st + unat l \<le> length bs" and "x \<in> area st l"
  shows "read_area st l (overlay (unat i) cs bs) ! (x - unat st)
    = (if unat i \<le> x \<and> x < unat i + length cs then cs ! (x - unat i) else read_area st l bs ! (x - unat st))"
  using assms nth_overlay [of "unat i" cs bs x] by (auto simp: read_area_def area_def)

lemma set_iocs_run:
  assumes "pf_ppm_get_ar_iocr_desc api sl su s = Some (Some (a, c, k))" and "has_cr s a c"
    and "ucast n = iocs_length (the_io s a c k)" and "unat n \<le> length cs"
    and "io_inside (length (cr_data s a c)) (the_io s a c k)"
  shows "pf_ppm_set_iocs api sl su cs n s = Some (0,
    with_data a c (overlay (unat (iocs_offset (the_io s a c k))) (take (unat n) cs) (cr_data s a c)) s)"
proof -
  have "unat (iocs_length (the_io s a c k)) = unat n" using unat_ucast_8_16 [of n] assms(3) by metis
  then show ?thesis
    using assms by (simp add: pf_ppm_set_iocs_def Let_def read_arg_def pf_ppm_drv_sw_write_iocs_def
        write_frame_buffer io_inside_def)
qed

text \<open>C31. The checks compare the areas of a subslot with those of the subslots before it, but not the
  IOCS of a subslot with the data of the same subslot. On a CR whose layout has been accepted, the
  application sets the IOCS of a subslot: of the data that was to be sent for the subslot, every
  byte whose place is also in the area of the IOCS is then the IOCS, and every other one is kept.
  (The example is a request that is accepted with the IOCS on top of the data.)\<close>

theorem accepted_iocs_on_own_data:
  assumes "pf_ppm_get_ar_iocr_desc api sl su s = Some (Some (a, c, k))"
    and "has_cr s a c" and "cr_layout_ok (net_ars s ! a) c" and "k < unat (nbr_data_desc (the_cr s a c))"
    and "unat (c_sdu_length (the_iocr_param s a c)) \<le> length (buffer_data (the_ppm s a c))"
    and "ucast n = iocs_length (the_io s a c k)" and "unat n \<le> length cs"
  shows "\<exists>s' d d' p p'. pf_ppm_drv_sw_read_data_and_iops a c (the_io s a c k) s = Some (d, p) \<and>
    pf_ppm_set_iocs api sl su cs n s = Some (0, s') \<and> the_io s' a c k = the_io s a c k \<and>
    pf_ppm_drv_sw_read_data_and_iops a c (the_io s' a c k) s' = Some (d', p') \<and>
    (\<forall>x \<in> area (data_offset (the_io s a c k)) (data_length (the_io s a c k)).
      d' ! (x - unat (data_offset (the_io s a c k)))
        = (if x \<in> area (iocs_offset (the_io s a c k)) (iocs_length (the_io s a c k))
           then cs ! (x - unat (iocs_offset (the_io s a c k)))
           else d ! (x - unat (data_offset (the_io s a c k)))))"
proof -
  let ?io = "the_io s a c k" and ?b = "cr_data s a c"
  let ?y = "overlay (unat (iocs_offset ?io)) (take (unat n) cs) ?b"
  have u: "unat (iocs_length ?io) = unat n" using unat_ucast_8_16 [of n] assms(6) by metis
  have i: "io_inside (length ?b) ?io"
    using layout_ok_nth(1) [OF assms(3,4)] assms(5) by (auto simp: io_inside_def)
  then have o: "unat (iocs_offset ?io) + length (take (unat n) cs) \<le> length ?b"
    "unat (data_offset ?io) + unat (data_length ?io) \<le> length ?b"
    using assms(7) u by (simp_all add: io_inside_def)
  have io: "the_io (with_data a c ?y s) a c k = ?io" using assms(2) by simp
  have "length ?y = length ?b" using o(1) by simp
  then have r: "pf_ppm_drv_sw_read_data_and_iops a c ?io (with_data a c ?y s)
      = Some (read_area (data_offset ?io) (data_length ?io) ?y, read_area (iops_offset ?io) (iops_length ?io) ?y)"
    using reads_of(1) [of "length ?b" ?io "with_data a c ?y s" a c] i assms(2) by simp
  have "read_area (data_offset ?io) (data_length ?io) ?y ! (x - unat (data_offset ?io))
      = (if x \<in> area (iocs_offset ?io) (iocs_length ?io) then cs ! (x - unat (iocs_offset ?io))
         else read_area (data_offset ?io) (data_length ?io) ?b ! (x - unat (data_offset ?io)))"
    if "x \<in> area (data_offset ?io) (data_length ?io)" for x
    using overlay_reads [OF o that] assms(7) u by (auto simp: area_def)
  then show ?thesis
    using reads_of(1) [OF i order.refl] set_iocs_run [OF assms(1,2,6,7) i] r io by auto
qed

lemma demo_on_data:
  "(case pf_cmdev_check_apdu demo_app (Some 0) ok_result (demo_req_net 0) of None \<Rightarrow> False
    | Some (r, st, s) \<Rightarrow> r = 0 \<and> 0 < length (net_ars s) \<and> 1 < unat (nbr_iocrs (cfg (net_ars s ! 0))) \<and>
        pf_ppm_get_ar_iocr_desc 0 1 1 s = Some (Some (0, 0, 0)) \<and>
        0 < length (crs (net_ars s ! 0)) \<and> 0 < unat (nbr_data_desc (the_cr s 0 0)) \<and>
        unat (c_sdu_length (the_iocr_param s 0 0)) \<le> length (cr_data s 0 0) \<and>
        data_offset (the_io s 0 0 0) = 0 \<and> data_length (the_io s 0 0 0) = 1 \<and>
        iocs_offset (the_io s 0 0 0) = 0 \<and> iocs_length (the_io s 0 0 0) = 1)"
  by code_simp

theorem accepted_iocs_on_own_data_witness:
  "\<exists>st s s' d p. pf_cmdev_check_apdu demo_app (Some 0) ok_result (demo_req_net 0) = Some (0, st, s) \<and>
     pf_ppm_set_iocs 0 1 1 [128] 1 s = Some (0, s') \<and>
     pf_ppm_drv_sw_read_data_and_iops 0 0 (the_io s' 0 0 0) s' = Some (d, p) \<and> d ! 0 = 128"
proof -
  obtain st s where s: "pf_cmdev_check_apdu demo_app (Some 0) ok_result (demo_req_net 0) = Some (0, st, s)"
    "0 < length (net_ars s)" "1 < unat (nbr_iocrs (cfg (net_ars s ! 0)))"
    "pf_ppm_get_ar_iocr_desc 0 1 1 s = Some (Some (0, 0, 0))" "has_cr s 0 0"
    "0 < unat (nbr_data_desc (the_cr s 0 0))"
    "unat (c_sdu_length (the_iocr_param s 0 0)) \<le> length (cr_data s 0 0)"
    and io: "data_offset (the_io s 0 0 0) = 0" "data_length (the_io s 0 0 0) = 1"
      "iocs_offset (the_io s 0 0 0) = 0" "iocs_length (the_io s 0 0 0) = 1"
    using demo_on_data by (auto simp: has_cr_def split: option.splits)
  have l: "cr_layout_ok (net_ars s ! 0) 0" using check_apdu_layout [OF s(1,2), of 0] s(3) by simp
  have n: "ucast (1 :: u8) = iocs_length (the_io s 0 0 0)" "unat (1 :: u8) \<le> length [128 :: u8]"
    by (simp_all add: io)
  obtain s' d' p' where t: "pf_ppm_set_iocs 0 1 1 [128] 1 s = Some (0, s')"
    "pf_ppm_drv_sw_read_data_and_iops 0 0 (the_io s' 0 0 0) s' = Some (d', p')" "d' ! 0 = 128"
    using accepted_iocs_on_own_data [OF s(4,5) l s(6,7) n] by (auto simp: io area_def)
  then show ?thesis using s(1) by blast
qed

lemma first_fault_None: "first_fault xs = None \<longleftrightarrow> (\<forall>x \<in> set xs. \<not> fst x)"
  by (induction xs rule: first_fault.induct) auto

lemma uint_data_hold_time:
  "uint (data_hold_time p) = uint (data_hold_factor p) * uint (reduction_ratio p)
     * uint (send_clock_factor p) * 1000 mod 2 ^ 32 div 32"
  by (simp add: data_hold_time_def uint_div_distrib uint_word_ariths unsigned_ucast_eq
      mod_mult_left_eq mod_mult_right_eq take_bit_eq_mod)

lemma no_fault_update:
  assumes "\<forall>x \<in> set xs. \<not> fst x" and "n < length xs"
  shows "(\<forall>x \<in> set (xs[n := y]). \<not> fst x) \<longleftrightarrow> \<not> fst y"
  using assms set_update_subset_insert [of xs n y] set_update_memI [OF assms(2), of y] by blast

lemma iocr_kind_faults_hold: "iocr_kind_faults ap (p\<lparr>data_hold_factor := d\<rparr>) = iocr_kind_faults ap p"
  by (simp add: iocr_kind_faults_def)

lemma iocr_time_faults_hold:
  "iocr_time_faults i mz ap (p\<lparr>data_hold_factor := d\<rparr>) = (let
     rt = rt_class (iocr_properties p); t = data_hold_time (p\<lparr>data_hold_factor := d\<rparr>)
   in (iocr_time_faults i mz ap p)[5 := ((d < 1 \<or> d > 0x1E00) \<or> rt = PF_RT_CLASS_UDP \<and> t > 61440000
       \<or> (rt = PF_RT_CLASS_1 \<or> rt = PF_RT_CLASS_2 \<or> rt = PF_RT_CLASS_3) \<and> t > 1920000,
       PNET_ERROR_CODE_1_CONN_FAULTY_IOCR_BLOCK_REQ, 16)])"
  by (simp add: iocr_time_faults_def Let_def numeral_nat)

text \<open>C32. The data hold time of a CR of RT class 1, 2 or 3, in microseconds, must not exceed 1.92 s, but the
  check computes it in 32 bits. For a CR whose parameters are accepted, changing the data hold
  factor to \<open>d\<close> is accepted if and only if \<open>d\<close> is in its range and the remainder of the product at
  \<open>2 ^ 32\<close> is within the limit: the limit holds below the wrap, and above it any hold time passes
  whose remainder is small. (In the example 131 s are refused and 134 s are accepted.)\<close>

theorem data_hold_check_wraps:
  assumes "first_fault (iocr_param_faults i mz ap p) = None"
    and "rt_class (iocr_properties p) \<in> {PF_RT_CLASS_1, PF_RT_CLASS_2, PF_RT_CLASS_3}"
  shows "first_fault (iocr_param_faults i mz ap (p\<lparr>data_hold_factor := d\<rparr>)) = None \<longleftrightarrow>
    1 \<le> d \<and> d \<le> 0x1E00 \<and>
    uint d * uint (reduction_ratio p) * uint (send_clock_factor p) * 1000 mod 2 ^ 32 div 32 \<le> 1920000"
proof -
  let ?q = "p\<lparr>data_hold_factor := d\<rparr>"
  have rt: "rt_class (iocr_properties p) \<noteq> PF_RT_CLASS_UDP" "rt_class (iocr_properties p) = PF_RT_CLASS_1 \<or>
    rt_class (iocr_properties p) = PF_RT_CLASS_2 \<or> rt_class (iocr_properties p) = PF_RT_CLASS_3"
    using assms(2) by (auto simp: PF_RT_CLASS_1_def PF_RT_CLASS_2_def PF_RT_CLASS_3_def PF_RT_CLASS_UDP_def)
  have "\<forall>x \<in> set (iocr_kind_faults ap ?q). \<not> fst x"
    using assms(1) by (simp add: first_fault_None iocr_param_faults_def iocr_kind_faults_hold)
  moreover have "\<forall>x \<in> set (iocr_time_faults i mz ap p). \<not> fst x"
    using assms(1) by (simp add: first_fault_None iocr_param_faults_def)
  moreover have "5 < length (iocr_time_faults i mz ap p)" by (simp add: iocr_time_faults_def Let_def)
  ultimately have "first_fault (iocr_param_faults i mz ap ?q) = None \<longleftrightarrow>
      \<not> (d < 1 \<or> d > 0x1E00 \<or> data_hold_time ?q > 1920000)"
    using rt by (simp add: first_fault_None iocr_param_faults_def ball_Un iocr_time_faults_hold no_fault_update)
  moreover have "\<not> data_hold_time ?q > 1920000 \<longleftrightarrow> uint (data_hold_time ?q) \<le> 1920000"
    by (simp add: not_less word_le_def)
  moreover have "uint (data_hold_time ?q)
      = uint d * uint (reduction_ratio p) * uint (send_clock_factor p) * 1000 mod 2 ^ 32 div 32"
    using uint_data_hold_time [of ?q] by simp
  ultimately show ?thesis by (metis not_less)
qed

definition demo_long_hold :: pf_iocr_param where
  "demo_long_hold = (iocr_param (demo_req_iocr 1 2))\<lparr>reduction_ratio := 512, send_clock_factor := 32\<rparr>"

lemma demo_long_hold_facts:
  "first_fault (iocr_param_faults 32 0 (ar_param (demo_req 2)) demo_long_hold) = None"
  "rt_class (iocr_properties demo_long_hold) = PF_RT_CLASS_1"
  "reduction_ratio demo_long_hold = 512" "send_clock_factor demo_long_hold = 32"
  by code_simp+

theorem data_hold_check_wraps_witness:
  "first_fault (iocr_param_faults 32 0 (ar_param (demo_req 2)) (demo_long_hold\<lparr>data_hold_factor := 0x107\<rparr>)) = None \<and>
   first_fault (iocr_param_faults 32 0 (ar_param (demo_req 2)) (demo_long_hold\<lparr>data_hold_factor := 0x100\<rparr>)) \<noteq> None"
  using data_hold_check_wraps [OF demo_long_hold_facts(1), of "0x107"]
    data_hold_check_wraps [OF demo_long_hold_facts(1), of "0x100"] demo_long_hold_facts(2-4) by simp

end
