(* ===== verification/Pn_Connect.thy ===== *)
theory Pn_Connect
  imports Pn_Check
begin

text \<open>
  The rest of a connect request in CMDEV (\<^verbatim>\<open>src/device/pf_cmdev.c\<close>): the list of
  differences between the expected and the plugged modules that goes into the response, the other
  parts of the response, and the request as a whole.
\<close>

section \<open>The differences\<close>

definition PF_SUBMOD_AR_INFO_LOCKED_BY_IO_CONTROLLER :: u8 where
  "PF_SUBMOD_AR_INFO_LOCKED_BY_IO_CONTROLLER = 3"

text \<open>Change one element of an array; \<open>None\<close> outside the array.\<close>

definition at_elem :: "u16 \<Rightarrow> ('a \<Rightarrow> ('a \<times> 'b) option) \<Rightarrow> 'a list \<Rightarrow> ('a list \<times> 'b) option" where
  "at_elem i f xs = (if unat i < length xs
     then map_option (\<lambda>(x, b). (xs[unat i := x], b)) (f (xs ! unat i)) else None)"

text \<open>
  One expected submodule and the plugged one, if there is one: the entry of the list, in place of
  an unused one, and whether it counts.
\<close>

definition diff_submodule ::
  "nat \<Rightarrow> pf_exp_submodule \<Rightarrow> pf_subslot option \<Rightarrow> pf_submodule_diff \<Rightarrow> pf_submodule_diff \<times> bool" where
  "diff_submodule a sub plugged d = (let
     d = d\<lparr>sdiff_subslot_number := subslot_number sub,
       sdiff_submodule_state := (sdiff_submodule_state d)\<lparr>format_indicator := True\<rparr>\<rparr>
   in case plugged of
      None \<Rightarrow> (d\<lparr>sdiff_submodule_state := (sdiff_submodule_state d)\<lparr>ident_info := PF_SUBMOD_PLUG_NO\<rparr>\<rparr>, True)
    | Some u \<Rightarrow> let
        id = ss_submodule_ident_number u;
        st = submodule_state u;
        wrong = submodule_ident_number sub \<noteq> id;
        diag = sub_fault st \<or> maintenance_demanded st \<or> maintenance_required st;
        owned = ss_p_ar u \<noteq> None \<and> ss_p_ar u \<noteq> Some a;
        d = (if wrong then d\<lparr>sdiff_submodule_ident_number := id, sdiff_submodule_state :=
          (sdiff_submodule_state d)\<lparr>ident_info := PF_SUBMOD_PLUG_WRONG\<rparr>\<rparr> else d);
        d = (if diag then d\<lparr>sdiff_submodule_ident_number := id, sdiff_submodule_state :=
          (sdiff_submodule_state d)\<lparr>sub_fault := sub_fault st,
            maintenance_demanded := maintenance_demanded st,
            maintenance_required := maintenance_required st\<rparr>\<rparr> else d);
        d = (if owned then d\<lparr>sdiff_submodule_ident_number := id, sdiff_submodule_state :=
          (sdiff_submodule_state d)\<lparr>sub_ar_info := PF_SUBMOD_AR_INFO_LOCKED_BY_IO_CONTROLLER\<rparr>\<rparr> else d)
      in (d, wrong \<or> diag \<or> owned))"

definition plugged_subslot :: "pf_slot \<Rightarrow> u16 \<Rightarrow> pf_subslot option" where
  "plugged_subslot z nbr = map_option (\<lambda>k. subslots z ! k) (pf_cmdev_get_subslot z nbr)"

definition diff_submodules ::
  "nat \<Rightarrow> pf_slot \<Rightarrow> pf_exp_submodule list \<Rightarrow> pf_submodule_diff list \<Rightarrow> (pf_submodule_diff list \<times> u16 \<times> bool) option" where
  "diff_submodules a z subs ds = fold_m (\<lambda>sub (ds, n, some_diff). do {
     (ds, more) \<leftarrow> at_elem n (\<lambda>d. Some (diff_submodule a sub (plugged_subslot z (subslot_number sub)) d)) ds;
     Some (ds, if more then n + 1 else n, some_diff \<or> more) }) subs (ds, 0, False)"

definition diff_module ::
  "nat \<Rightarrow> pf_api \<Rightarrow> pf_exp_module \<Rightarrow> pf_module_diff \<Rightarrow> (pf_module_diff \<times> bool) option" where
  "diff_module a p_cfg_api m d = do {
     (ds, _) \<leftarrow> at_elem 0 (\<lambda>d. Some (d\<lparr>sdiff_submodule_state :=
       (sdiff_submodule_state d)\<lparr>format_indicator := True\<rparr>\<rparr>, ())) (submodule_diffs d);
     let d = d\<lparr>mdiff_slot_number := slot_number m, submodule_diffs := ds\<rparr>;
     case pf_cmdev_get_slot p_cfg_api (slot_number m) of
       None \<Rightarrow> Some (d\<lparr>module_state := PF_MOD_PLUG_NO_MODULE\<rparr>, True)
     | Some j \<Rightarrow> (let z = slots p_cfg_api ! j; id = sl_module_ident_number z in
         if module_ident_number m \<noteq> id
         then Some (d\<lparr>module_state := PF_MOD_PLUG_WRONG_MODULE, mdiff_module_ident_number := id\<rparr>, True)
         else do {
           subs \<leftarrow> array_upto (nbr_submodules m) (submodules m);
           (ds, n, some_diff) \<leftarrow> diff_submodules a z subs ds;
           Some (d\<lparr>mdiff_module_ident_number := id, module_state := PF_MOD_PLUG_PROPER_MODULE,
             submodule_diffs := ds, nbr_submodule_diffs := n\<rparr>, some_diff) }) }"

definition diff_api :: "nat \<Rightarrow> pf_device \<Rightarrow> pf_exp_api \<Rightarrow> pf_api_diff \<Rightarrow> (pf_api_diff \<times> bool) option" where
  "diff_api a dev e d = (let d = d\<lparr>adiff_api := exp_api e\<rparr> in
     case pf_cmdev_get_api dev (exp_api e) of
       None \<Rightarrow> Some (d, True)
     | Some i \<Rightarrow> do {
         ms \<leftarrow> array_upto (nbr_modules e) (modules e);
         (ds, n, some_diff) \<leftarrow> fold_m (\<lambda>m (ds, n, some_diff). do {
           (ds, more) \<leftarrow> at_elem n (diff_module a (dev_apis dev ! i) m) ds;
           Some (ds, if more then n + 1 else n, some_diff \<or> more) }) ms (module_diffs d, 0, False);
         Some (d\<lparr>module_diffs := ds, nbr_module_diffs := n\<rparr>, some_diff) })"

definition pf_cmdev_generate_submodule_diff :: "nat option \<Rightarrow> pnet \<Rightarrow> (int \<times> pnet) option" where
  "pf_cmdev_generate_submodule_diff p_ar s =
     (case p_ar of
        None \<Rightarrow> Some (-1, s)
      | Some a \<Rightarrow> do {
          let r = cfg (net_ars s ! a);
          es \<leftarrow> array_upto (nbr_exp_apis r) (exp_apis r);
          (ds, n) \<leftarrow> fold_m (\<lambda>e (ds, n). do {
            (ds, more) \<leftarrow> at_elem n (diff_api a (net_device s) e) ds;
            Some (ds, if more then n + 1 else n) }) es (api_diffs r, 0);
          Some (0, upd_ar a (\<lambda>y. y\<lparr>cfg := (cfg y)\<lparr>api_diffs := ds, nbr_api_diffs := n\<rparr>\<rparr>) s) })"

section \<open>The connect request\<close>

definition PF_UDP_UNICAST_PORT :: u16 where "PF_UDP_UNICAST_PORT = 0x8892"
definition PF_MAX_ALARM_DATA_LEN :: u16 where "PF_MAX_ALARM_DATA_LEN = 200"

text \<open>\<^verbatim>\<open>strncpy\<close> into an array of \<open>n\<close> bytes.\<close>

definition strncpy :: "nat \<Rightarrow> u8 list \<Rightarrow> u8 list" where
  "strncpy n src = take n (takeWhile (\<lambda>c. c \<noteq> 0) src @ replicate n 0)"

definition pf_fspm_cm_connect_ind :: "nat \<Rightarrow> pnet_result \<Rightarrow> pnet \<Rightarrow> int \<times> pnet_result \<times> pnet" where
  "pf_fspm_cm_connect_ind a st s = (let
     r = arep (net_ars s ! a);
     (ret, st, s) = app_call (Out_connect (unat r)) st s
   in (ret, st, pf_fspm_create_log_book_entry r (result_status st) PF_LOG_BOOK_AR_CONNECT s))"

definition copy_iocr_result :: "pf_iocr \<Rightarrow> pf_iocr" where
  "copy_iocr_result x = x\<lparr>iocr_result := (iocr_result x)\<lparr>res_iocr_type := iocr_type (iocr_param x),
     res_iocr_reference := iocr_reference (iocr_param x), res_frame_id := frame_id (iocr_param x)\<rparr>\<rparr>"

text \<open>The response, before and after the frame IDs are chosen.\<close>

definition response_addr :: "u8 list \<Rightarrow> pf_ar \<Rightarrow> pf_ar" where
  "response_addr mac r = r\<lparr>ar_result := (ar_result r)\<lparr>cm_responder_mac_add := mac,
     responder_udp_rt_port := PF_UDP_UNICAST_PORT\<rparr>\<rparr>"

definition response_rest :: "u8 list \<Rightarrow> pf_ar \<Rightarrow> pf_ar option" where
  "response_rest name r =
     (if unat (nbr_iocrs r) > length (iocrs r) then None
      else let n = length (cm_responder_station_name (ar_server r)) in
        Some (r\<lparr>iocrs := map copy_iocr_result (take (unat (nbr_iocrs r)) (iocrs r))
            @ drop (unat (nbr_iocrs r)) (iocrs r),
          alarm_cr_result := (alarm_cr_result r)\<lparr>
            res_alarm_cr_type := ucast (alarm_cr_type (alarm_cr_request r)),
            remote_alarm_reference := local_alarm_reference (alarm_cr_request r),
            res_max_alarm_data_length := PF_MAX_ALARM_DATA_LEN\<rparr>,
          ar_server := (ar_server r)\<lparr>
            cm_responder_station_name := (strncpy n name)[n - 1 := 0],
            length_cm_responder_station_name := of_nat (length (takeWhile (\<lambda>c. c \<noteq> 0) name))\<rparr>\<rparr>))"

text \<open>
  \<open>observers\<close> is what PDPORT makes of a new connection: \<^verbatim>\<open>pf_pdport_reset_all\<close> and
  \<^verbatim>\<open>pf_pdport_ar_connect_ind\<close>.
\<close>

definition pf_cmdev_rm_connect_ind ::
  "app_plug \<Rightarrow> (nat \<Rightarrow> pnet \<Rightarrow> pnet option) \<Rightarrow> nat \<Rightarrow> pnet_result \<Rightarrow> pnet \<Rightarrow> (int \<times> pnet_result \<times> pnet) option" where
  "pf_cmdev_rm_connect_ind app observers a st s = do {
     (ret, st, s) \<leftarrow> pf_cmdev_check_apdu app (Some a) st s;
     (ret, st, s) \<leftarrow> (if ret \<noteq> 0 then Some (-1, st, s)
       else do {
         s \<leftarrow> observers a s;
         (ret, s) \<leftarrow> pf_cmdev_generate_submodule_diff (Some a) s;
         if ret \<noteq> 0 then Some (-1, st, s)
         else do {
           s \<leftarrow> pf_cmdev_fix_frame_id a (upd_ar a (\<lambda>y. y\<lparr>cfg := response_addr (net_mac s) (cfg y)\<rparr>) s);
           r \<leftarrow> response_rest (ase_station_name (cmina_current_dcp_ase (net_host s))) (cfg (net_ars s ! a));
           Some (pf_fspm_cm_connect_ind a st (upd_ar a (\<lambda>y. y\<lparr>cfg := r, ready_4_data := False\<rparr>) s)) } });
     if ret = 0
     then do {
       s \<leftarrow> pf_cmdev_set_state a PF_CMDEV_STATE_W_CRES s;
       pf_cmdev_cm_connect_rsp_pos a st s }
     else do {
       (ret, s) \<leftarrow> pf_cmdev_cm_connect_rsp_neg a st s;
       Some (ret, st, s) } }"

end
