(* ===== verification/Pn_Rpc_Parse.thy ===== *)
theory Pn_Rpc_Parse
  imports Pn_Check Pn_Block_Reader
begin

text \<open>
  How CMRPC takes the requests of a controller apart (\<^verbatim>\<open>src/device/pf_cmrpc.c\<close>): the blocks
  of a connect request, the single blocks of release, control, read and write requests, and the
  answer to a control request of the device. Each function works on the parser state \<open>rd\<close> of the
  session and on the result of the call; the loops over blocks are partial functions, which
  \<open>Pn_Rpc_Props\<close> shows to return.
\<close>

section \<open>The parser state of a session\<close>

definition rd_of :: "pf_get_info \<Rightarrow> u16 \<Rightarrow> rd" where
  "rd_of g pos = pf_get_info.extend g (rd.fields pos False)"

definition get_info_of :: "rd \<Rightarrow> pf_get_info" where
  "get_info_of d = pf_get_info.truncate d"

definition get_pos :: "u16 rdm" where
  "get_pos = State (\<lambda>d. (rd_pos d, d))"

section \<open>Errors\<close>

definition PNET_ERROR_CODE_RELEASE :: u8 where "PNET_ERROR_CODE_RELEASE = 0xDC"
definition PNET_ERROR_CODE_CONTROL :: u8 where "PNET_ERROR_CODE_CONTROL = 0xDD"
definition PNET_ERROR_CODE_READ :: u8 where "PNET_ERROR_CODE_READ = 0xDE"
definition PNET_ERROR_CODE_WRITE :: u8 where "PNET_ERROR_CODE_WRITE = 0xDF"
definition PNET_ERROR_DECODE_PNIORW :: u8 where "PNET_ERROR_DECODE_PNIORW = 0x80"
definition PNET_ERROR_CODE_1_ACC_INVALID_AREA_API :: u8 where
  "PNET_ERROR_CODE_1_ACC_INVALID_AREA_API = 0xB4"
definition PNET_ERROR_CODE_1_CONN_FAULTY_PRM_SERVER_BLOCK_REQ :: u8 where
  "PNET_ERROR_CODE_1_CONN_FAULTY_PRM_SERVER_BLOCK_REQ = 5"
definition PNET_ERROR_CODE_1_CONN_FAULTY_MCR_BLOCK_REQ :: u8 where
  "PNET_ERROR_CODE_1_CONN_FAULTY_MCR_BLOCK_REQ = 6"
definition PNET_ERROR_CODE_1_CONN_FAULTY_FAULTY_RECORD :: u8 where
  "PNET_ERROR_CODE_1_CONN_FAULTY_FAULTY_RECORD = 8"
definition PNET_ERROR_CODE_1_CONN_FAULTY_IR_INFO :: u8 where
  "PNET_ERROR_CODE_1_CONN_FAULTY_IR_INFO = 9"
definition PNET_ERROR_CODE_1_DCTRL_FAULTY_CONNECT :: u8 where
  "PNET_ERROR_CODE_1_DCTRL_FAULTY_CONNECT = 0x14"
definition PNET_ERROR_CODE_2_CMRPC_ARGSLENGTH_INVALID :: u8 where
  "PNET_ERROR_CODE_2_CMRPC_ARGSLENGTH_INVALID = 0"
definition PNET_ERROR_CODE_2_CMRPC_NO_AR_RESOURCES :: u8 where
  "PNET_ERROR_CODE_2_CMRPC_NO_AR_RESOURCES = 4"
definition PNET_ERROR_CODE_2_CMRPC_AR_UUID_UNKNOWN :: u8 where
  "PNET_ERROR_CODE_2_CMRPC_AR_UUID_UNKNOWN = 5"
definition PNET_ERROR_CODE_2_CMRPC_STATE_CONFLICT :: u8 where
  "PNET_ERROR_CODE_2_CMRPC_STATE_CONFLICT = 6"
definition PNET_ERROR_CODE_2_CMRPC_OUT_OF_MEMORY :: u8 where
  "PNET_ERROR_CODE_2_CMRPC_OUT_OF_MEMORY = 8"
definition PNET_ERROR_CODE_2_INVALID_BLOCK_LEN :: u8 where "PNET_ERROR_CODE_2_INVALID_BLOCK_LEN = 1"
definition PNET_ERROR_CODE_2_INVALID_BLOCK_VERSION_HIGH :: u8 where
  "PNET_ERROR_CODE_2_INVALID_BLOCK_VERSION_HIGH = 2"
definition PNET_ERROR_CODE_2_INVALID_BLOCK_VERSION_LOW :: u8 where
  "PNET_ERROR_CODE_2_INVALID_BLOCK_VERSION_LOW = 3"
definition PNET_ERROR_CODE_2_DCTRL_FAULTY_CONNECT_CONTROLCOMMAND :: u8 where
  "PNET_ERROR_CODE_2_DCTRL_FAULTY_CONNECT_CONTROLCOMMAND = 8"

definition has_error :: "pnet_result \<Rightarrow> bool" where
  "has_error st \<longleftrightarrow> error_code (result_status st) \<noteq> 0"

definition pf_set_error_if_not_already_set ::
  "u8 \<Rightarrow> u8 \<Rightarrow> u8 \<Rightarrow> u8 \<Rightarrow> pnet_result \<Rightarrow> pnet_result" where
  "pf_set_error_if_not_already_set c d c1 c2 st =
     (if error_code (result_status st) = 0 \<and> error_decode (result_status st) = 0
      then pf_set_error c d c1 c2 st else st)"

definition pf_check_block_header :: "u16 \<Rightarrow> pf_block_header \<Rightarrow> u8 \<Rightarrow> pnet_result \<Rightarrow> int \<times> pnet_result" where
  "pf_check_block_header len h c1 st =
     (if block_length h \<noteq> len
      then (-1, connect_fault c1 PNET_ERROR_CODE_2_INVALID_BLOCK_LEN st)
      else if block_version_high h \<noteq> PNET_BLOCK_VERSION_HIGH
      then (-1, connect_fault c1 PNET_ERROR_CODE_2_INVALID_BLOCK_VERSION_HIGH st)
      else if block_version_low h \<noteq> PNET_BLOCK_VERSION_LOW
      then (-1, connect_fault c1 PNET_ERROR_CODE_2_INVALID_BLOCK_VERSION_LOW st)
      else (0, st))"

section \<open>A connect request\<close>

definition PF_BT_AR_BLOCK_REQ :: u16 where "PF_BT_AR_BLOCK_REQ = 0x0101"
definition PF_BT_IOCR_BLOCK_REQ :: u16 where "PF_BT_IOCR_BLOCK_REQ = 0x0102"
definition PF_BT_ALARM_CR_BLOCK_REQ :: u16 where "PF_BT_ALARM_CR_BLOCK_REQ = 0x0103"
definition PF_BT_EXPECTED_SUBMODULE_BLOCK :: u16 where "PF_BT_EXPECTED_SUBMODULE_BLOCK = 0x0104"
definition PF_BT_PRM_SERVER_REQ :: u16 where "PF_BT_PRM_SERVER_REQ = 0x0105"
definition PF_BT_MCR_REQ :: u16 where "PF_BT_MCR_REQ = 0x0106"
definition PF_BT_RPC_SERVER_REQ :: u16 where "PF_BT_RPC_SERVER_REQ = 0x0107"
definition PF_BT_AR_VENDOR_BLOCK_REQ :: u16 where "PF_BT_AR_VENDOR_BLOCK_REQ = 0x0108"
definition PF_BT_IR_INFO_BLOCK_REQ :: u16 where "PF_BT_IR_INFO_BLOCK_REQ = 0x0109"

type_synonym connect_result = "int \<times> pnet_result \<times> ar"

abbreviation rpc_fault :: "u8 \<Rightarrow> pnet_result \<Rightarrow> pnet_result" where
  "rpc_fault \<equiv> connect_fault PNET_ERROR_CODE_1_CMRPC"

text \<open>A parser of the block reader on the parameters of the AR.\<close>

definition into_ar :: "(pf_ar \<Rightarrow> pf_ar rdm) \<Rightarrow> ar \<Rightarrow> ar rdm" where
  "into_ar p r = do { x \<leftarrow> p (cfg r); rd_return (r\<lparr>cfg := x\<rparr>) }"

text \<open>
  The end of every block but the first: not allowed in an AR for device access, the lengths and
  the version are checked, then the block counts.
\<close>

definition connect_block_end ::
  "u16 \<Rightarrow> pf_block_header \<Rightarrow> u8 \<Rightarrow> (ar \<Rightarrow> ar) \<Rightarrow> pnet_result \<Rightarrow> ar \<Rightarrow> connect_result rdm" where
  "connect_block_end data_pos h c1 count st r = do {
     pos \<leftarrow> get_pos;
     rd_return (if device_access (ar_properties (ar_param (cfg r)))
       then (-1, rpc_fault PNET_ERROR_CODE_2_CMRPC_UNKNOWN_BLOCKS st, r)
       else let (ret, st) = pf_check_block_header (pos - data_pos + 2) h c1 st
         in (ret, st, if ret = 0 then count r else r)) }"

definition counting :: "(ar_counts \<Rightarrow> ar_counts) \<Rightarrow> ar \<Rightarrow> ar" where
  "counting f r = r\<lparr>counts := f (counts r)\<rparr>"

definition connect_ar_block :: "bool \<Rightarrow> pf_block_header \<Rightarrow> pnet_result \<Rightarrow> ar \<Rightarrow> connect_result rdm" where
  "connect_ar_block first_block h st r = do {
     r \<leftarrow> into_ar pf_get_ar_param r;
     if \<not> first_block
     then rd_return (-1, connect_fault PNET_ERROR_CODE_1_CONN_FAULTY_AR_BLOCK_REQ 0 st, r)
     else case strlen (cm_initiator_station_name (ar_param (cfg r))) of
       None \<Rightarrow> fault (-1, st, r)
     | Some n \<Rightarrow> rd_return (let
         (ret, st) = pf_check_block_header (54 + of_nat n) h PNET_ERROR_CODE_1_CONN_FAULTY_AR_BLOCK_REQ st
         in (ret, st, if ret = 0 then counting (\<lambda>c. c\<lparr>nbr_ar_param := nbr_ar_param c + 1\<rparr>) r else r)) }"

text \<open>What a parsed IOCR adds to the counters, whether or not its block is accepted.\<close>

definition count_iocr :: "pf_iocr_param \<Rightarrow> ar_counts \<Rightarrow> ar_counts" where
  "count_iocr p c = (let
     c = (if iocr_type p = PF_IOCR_TYPE_INPUT then c\<lparr>input_cr_cnt := input_cr_cnt c + 1\<rparr> else c);
     c = (if iocr_type p = PF_IOCR_TYPE_OUTPUT then c\<lparr>output_cr_cnt := output_cr_cnt c + 1\<rparr> else c);
     c = (if iocr_type p = PF_IOCR_TYPE_MC_CONSUMER then c\<lparr>mcr_cons_cnt := mcr_cons_cnt c + 1\<rparr> else c)
   in if rt_class (iocr_properties p) = PF_RT_CLASS_3 then c\<lparr>rtc3_present := True\<rparr> else c)"

definition connect_iocr_block :: "u16 \<Rightarrow> pf_block_header \<Rightarrow> pnet_result \<Rightarrow> ar \<Rightarrow> connect_result rdm" where
  "connect_iocr_block data_pos h st r = (let n = nbr_iocrs (cfg r) in
     if unat n < length (iocrs (cfg r))
     then do {
       r \<leftarrow> into_ar (pf_get_iocr_param n) r;
       connect_block_end data_pos h PNET_ERROR_CODE_1_CONN_FAULTY_IOCR_BLOCK_REQ
         (\<lambda>r. r\<lparr>cfg := (cfg r)\<lparr>nbr_iocrs := n + 1\<rparr>\<rparr>) st
         (counting (count_iocr (iocr_param (iocrs (cfg r) ! unat n))) r) }
     else rd_return (-1, rpc_fault PNET_ERROR_CODE_2_CMRPC_WRONG_BLOCK_COUNT st, r))"

definition connect_exp_block :: "u16 \<Rightarrow> pf_block_header \<Rightarrow> pnet_result \<Rightarrow> ar \<Rightarrow> connect_result rdm" where
  "connect_exp_block data_pos h st r = do {
     r \<leftarrow> into_ar pf_get_exp_api_module r;
     res \<leftarrow> get_result;
     case res of
       PF_PARSE_OK \<Rightarrow> connect_block_end data_pos h PNET_ERROR_CODE_1_CONN_FAULTY_EXP_BLOCK_REQ id st r
     | PF_PARSE_NULL_POINTER \<Rightarrow> rd_return (-1, rpc_fault PNET_ERROR_CODE_2_CMRPC_UNKNOWN_BLOCKS st, r)
     | PF_PARSE_ERROR \<Rightarrow> rd_return (-1, rpc_fault PNET_ERROR_CODE_2_CMRPC_UNKNOWN_BLOCKS st, r)
     | _ \<Rightarrow> rd_return (-1, rpc_fault PNET_ERROR_CODE_2_CMRPC_OUT_OF_MEMORY st, r) }"

text \<open>The blocks that are parsed and counted, and nothing else.\<close>

definition connect_other_block ::
  "u16 \<Rightarrow> pf_block_header \<Rightarrow> u8 \<Rightarrow> (pf_ar \<Rightarrow> pf_ar rdm) \<Rightarrow> (ar_counts \<Rightarrow> ar_counts) \<Rightarrow>
    pnet_result \<Rightarrow> ar \<Rightarrow> connect_result rdm" where
  "connect_other_block data_pos h c1 p count st r = do {
     r \<leftarrow> into_ar p r;
     connect_block_end data_pos h c1 (counting count) st r }"

definition connect_block_body ::
  "bool \<Rightarrow> pf_block_header \<Rightarrow> u16 \<Rightarrow> pnet_result \<Rightarrow> ar \<Rightarrow> connect_result rdm" where
  "connect_block_body first_block h data_pos st r = (let bt = block_type h in
     if bt = PF_BT_AR_BLOCK_REQ then connect_ar_block first_block h st r
     else if bt = PF_BT_IOCR_BLOCK_REQ then connect_iocr_block data_pos h st r
     else if bt = PF_BT_EXPECTED_SUBMODULE_BLOCK then connect_exp_block data_pos h st r
     else if bt = PF_BT_ALARM_CR_BLOCK_REQ
     then connect_other_block data_pos h PNET_ERROR_CODE_1_CONN_FAULTY_ALARM_BLOCK_REQ
       pf_get_alarm_cr_request (\<lambda>c. c\<lparr>nbr_alarm_cr := nbr_alarm_cr c + 1\<rparr>) st r
     else if bt = PF_BT_PRM_SERVER_REQ
     then connect_other_block data_pos h PNET_ERROR_CODE_1_CONN_FAULTY_PRM_SERVER_BLOCK_REQ
       pf_get_ar_prm_server_request (\<lambda>c. c\<lparr>nbr_prm_server := nbr_prm_server c + 1\<rparr>) st r
     else if bt = PF_BT_MCR_REQ
     then connect_other_block data_pos h PNET_ERROR_CODE_1_CONN_FAULTY_MCR_BLOCK_REQ
       (pf_get_mcr_request (nbr_mcr (counts r))) (\<lambda>c. c\<lparr>nbr_mcr := nbr_mcr c + 1\<rparr>) st r
     else if bt = PF_BT_RPC_SERVER_REQ
     then connect_other_block data_pos h PNET_ERROR_CODE_1_CONN_FAULTY_AR_RPC_BLOCK_REQ
       pf_get_ar_rpc_request (\<lambda>c. c\<lparr>nbr_rpc_server := nbr_rpc_server c + 1\<rparr>) st r
     else if bt = PF_BT_AR_VENDOR_BLOCK_REQ
     then connect_other_block data_pos h PNET_ERROR_CODE_1_CONN_FAULTY_FAULTY_RECORD
       (pf_get_ar_vendor_request (nbr_ar_vendor (counts r)))
       (\<lambda>c. c\<lparr>nbr_ar_vendor := nbr_ar_vendor c + 1\<rparr>) st r
     else if bt = PF_BT_IR_INFO_BLOCK_REQ
     then connect_other_block data_pos h PNET_ERROR_CODE_1_CONN_FAULTY_IR_INFO
       pf_get_ir_info_request (\<lambda>c. c\<lparr>nbr_ir_info := nbr_ir_info c + 1\<rparr>) st r
     else rd_return (-1, rpc_fault PNET_ERROR_CODE_2_CMRPC_UNKNOWN_BLOCKS st, r))"

text \<open>Does the block that the header announces end inside the request?\<close>

definition block_fits :: "pf_block_header \<Rightarrow> bool rdm" where
  "block_fits h = State (\<lambda>d.
     (result d = PF_PARSE_OK \<and> unat (rd_pos d) + unat (block_length h) + 4 \<le> unat (buf_len d) + 6, d))"

definition more_blocks :: "rd \<Rightarrow> bool" where
  "more_blocks d \<longleftrightarrow> result d = PF_PARSE_OK \<and> unat (rd_pos d) + 6 \<le> unat (buf_len d)"

definition connect_block :: "bool \<Rightarrow> pnet_result \<Rightarrow> ar \<Rightarrow> connect_result rdm" where
  "connect_block first_block st r = do {
     h \<leftarrow> pf_get_block_header;
     data_pos \<leftarrow> get_pos;
     fits \<leftarrow> block_fits h;
     if fits then connect_block_body first_block h data_pos st r
     else rd_return (-1, rpc_fault PNET_ERROR_CODE_2_CMRPC_UNKNOWN_BLOCKS st, r) }"

partial_function (option) connect_blocks ::
  "bool \<Rightarrow> connect_result \<Rightarrow> rd \<Rightarrow> (connect_result \<times> rd) option" where
  "connect_blocks first_block x d =
     (if fst x = 0 \<and> more_blocks d
      then let (x, d) = run_state (connect_block first_block (fst (snd x)) (snd (snd x))) d
        in connect_blocks False x d
      else Some (x, d))"

declare connect_blocks.simps [code]

text \<open>The whole request must have been used, and the caller must have announced that much.\<close>

definition all_used :: "u16 \<Rightarrow> u32 \<Rightarrow> rd \<Rightarrow> bool" where
  "all_used start_pos args_len d \<longleftrightarrow>
     result d = PF_PARSE_OK \<and> rd_pos d = buf_len d \<and> ucast (rd_pos d) - ucast start_pos = args_len"

definition pf_cmrpc_rm_connect_interpret_ind ::
  "u32 \<Rightarrow> pnet_result \<Rightarrow> ar \<Rightarrow> rd \<Rightarrow> (connect_result \<times> rd) option" where
  "pf_cmrpc_rm_connect_interpret_ind args_len st r d = do {
     ((ret, st, r), e) \<leftarrow> connect_blocks True (0, st, r) d;
     Some (if ret = 0 \<and> \<not> all_used (rd_pos d) args_len e
       then ((-1, rpc_fault PNET_ERROR_CODE_2_CMRPC_ARGSLENGTH_INVALID st, r), e)
       else ((ret, st, r), e)) }"

section \<open>Control blocks\<close>

definition PF_BT_PRMEND_REQ :: u16 where "PF_BT_PRMEND_REQ = 0x0110"
definition PF_BT_RELEASE_BLOCK_REQ :: u16 where "PF_BT_RELEASE_BLOCK_REQ = 0x0114"
definition PF_BT_PRMBEGIN_REQ :: u16 where "PF_BT_PRMBEGIN_REQ = 0x0118"
definition PF_BT_APPRDY_RES :: u16 where "PF_BT_APPRDY_RES = 0x8112"
definition CMD_RELEASE :: u16 where "CMD_RELEASE = 4"

text \<open>
  Release, control and confirmation share their loop: a block of one of the \<open>types\<close> is a control
  block, other types are an error \<open>code\<close>, a block that does not fit is skipped to its data.
\<close>

type_synonym control_result = "int \<times> pnet_result \<times> pf_control_block"

definition control_block :: "u16 list \<Rightarrow> u8 \<Rightarrow> control_result \<Rightarrow> control_result rdm" where
  "control_block types c x = do {
     h \<leftarrow> pf_get_block_header;
     fits \<leftarrow> block_fits h;
     if \<not> fits then rd_return x
     else if block_type h \<in> set types
     then do { cb \<leftarrow> pf_get_control (snd (snd x)); rd_return (fst x, fst (snd x), cb) }
     else rd_return (-1, pf_set_error c PNET_ERROR_DECODE_PNIO PNET_ERROR_CODE_1_CMRPC
       PNET_ERROR_CODE_2_CMRPC_UNKNOWN_BLOCKS (fst (snd x)), snd (snd x)) }"

partial_function (option) control_blocks ::
  "u16 list \<Rightarrow> u8 \<Rightarrow> control_result \<Rightarrow> rd \<Rightarrow> (control_result \<times> rd) option" where
  "control_blocks types c x d =
     (if more_blocks d
      then let (x, d) = run_state (control_block types c x) d in control_blocks types c x d
      else Some (x, d))"

declare control_blocks.simps [code]

text \<open>
  After the loop: everything used, and the command the expected one. \<open>parse_c2\<close> is the second code
  when the parser failed.
\<close>

definition control_end ::
  "u8 \<Rightarrow> u8 \<Rightarrow> u16 \<Rightarrow> u8 \<times> u8 \<Rightarrow> u16 \<Rightarrow> u32 \<Rightarrow> control_result \<Rightarrow> rd \<Rightarrow> control_result" where
  "control_end c parse_c2 cmd cmd_fault start_pos args_len x d = (let
     (ret, st, cb) = x;
     err = (\<lambda>c1 c2. (-1, pf_set_error c PNET_ERROR_DECODE_PNIO c1 c2 st, cb))
   in if ret \<noteq> 0 then x
     else if result d \<noteq> PF_PARSE_OK then err PNET_ERROR_CODE_1_CMRPC parse_c2
     else if \<not> all_used start_pos args_len d
     then err PNET_ERROR_CODE_1_CMRPC PNET_ERROR_CODE_2_CMRPC_ARGSLENGTH_INVALID
     else if control_command cb \<noteq> cmd then err (fst cmd_fault) (snd cmd_fault)
     else x)"

definition pf_cmrpc_rm_release_interpret_req ::
  "u32 \<Rightarrow> pnet_result \<Rightarrow> pf_control_block \<Rightarrow> rd \<Rightarrow> (control_result \<times> rd) option" where
  "pf_cmrpc_rm_release_interpret_req args_len st cb d = do {
     (x, e) \<leftarrow> control_blocks [PF_BT_RELEASE_BLOCK_REQ] PNET_ERROR_CODE_CONNECT (0, st, cb) d;
     Some (control_end PNET_ERROR_CODE_RELEASE PNET_ERROR_CODE_2_CMRPC_ARGSLENGTH_INVALID CMD_RELEASE
       (PNET_ERROR_CODE_1_CMRPC, PNET_ERROR_CODE_2_CMRPC_STATE_CONFLICT) (rd_pos d) args_len x e, e) }"

definition pf_cmrpc_rm_dcontrol_interpret_req ::
  "u32 \<Rightarrow> pnet_result \<Rightarrow> pf_control_block \<Rightarrow> rd \<Rightarrow> (control_result \<times> rd) option" where
  "pf_cmrpc_rm_dcontrol_interpret_req args_len st cb d = do {
     (x, e) \<leftarrow> control_blocks [PF_BT_PRMBEGIN_REQ, PF_BT_PRMEND_REQ] PNET_ERROR_CODE_CONTROL
       (0, st, cb) d;
     Some (control_end PNET_ERROR_CODE_CONTROL PNET_ERROR_CODE_2_CMRPC_ARGSLENGTH_INVALID CMD_PRM_END
       (PNET_ERROR_CODE_1_DCTRL_FAULTY_CONNECT,
        PNET_ERROR_CODE_2_DCTRL_FAULTY_CONNECT_CONTROLCOMMAND) (rd_pos d) args_len x e, e) }"

definition pf_cmrpc_rm_ccontrol_interpret_cnf ::
  "u32 \<Rightarrow> pnet_result \<Rightarrow> pf_control_block \<Rightarrow> rd \<Rightarrow> (control_result \<times> rd) option" where
  "pf_cmrpc_rm_ccontrol_interpret_cnf args_len st cb d = do {
     (x, e) \<leftarrow> control_blocks [PF_BT_APPRDY_RES] PNET_ERROR_CODE_CONTROL (0, st, cb) d;
     Some (control_end PNET_ERROR_CODE_CONTROL PNET_ERROR_CODE_2_CMRPC_STATE_CONFLICT CMD_DONE
       (PNET_ERROR_CODE_1_CMRPC, PNET_ERROR_CODE_2_CMRPC_STATE_CONFLICT) (rd_pos d) args_len x e, e) }"

end
