(* ===== verification/Pn_Rpc_Send.thy ===== *)
theory Pn_Rpc_Send
  imports Pn_Connection Pn_Block_Writer
begin

text \<open>
  The sessions of CMRPC (\<^verbatim>\<open>src/device/pf_cmrpc.c\<close>, \<^verbatim>\<open>pf_cmrpc_helpers.c\<close>) and how
  they send: allocation, one UDP packet, the packet with a resend timer, and the control request by
  which the device tells the controller that the application is ready. A session is its index; its
  buffers are the pair with this index in \<open>net_session_bufs\<close>.
\<close>

section \<open>Sessions\<close>

abbreviation the_session :: "pnet \<Rightarrow> nat \<Rightarrow> pf_session_info" where
  "the_session s i \<equiv> net_sessions s ! i"

abbreviation the_rpc :: "pnet \<Rightarrow> nat \<Rightarrow> rpc_session" where
  "the_rpc s i \<equiv> se_rpc (the_session s i)"

definition upd_session :: "nat \<Rightarrow> (pf_session_info \<Rightarrow> pf_session_info) \<Rightarrow> pnet \<Rightarrow> pnet" where
  "upd_session i f s = s\<lparr>net_sessions := (net_sessions s)[i := f (net_sessions s ! i)]\<rparr>"

definition upd_rpc :: "nat \<Rightarrow> (rpc_session \<Rightarrow> rpc_session) \<Rightarrow> pnet \<Rightarrow> pnet" where
  "upd_rpc i f = upd_session i (\<lambda>x. x\<lparr>se_rpc := f (se_rpc x)\<rparr>)"

definition out_buffer :: "pnet \<Rightarrow> nat \<Rightarrow> u8 list" where
  "out_buffer s i = snd (net_session_bufs s ! i)"

definition set_out_buffer :: "nat \<Rightarrow> u8 list \<Rightarrow> pnet \<Rightarrow> pnet" where
  "set_out_buffer i bs s = s\<lparr>net_session_bufs :=
     (net_session_bufs s)[i := (fst (net_session_bufs s ! i), bs)]\<rparr>"

text \<open>
  A function of the block writer on the output buffer: at a position of its own, or at
  \<^verbatim>\<open>out_buf_len\<close>, which then moves.
\<close>

definition put_out_at :: "nat \<Rightarrow> u16 \<Rightarrow> u16 \<Rightarrow> wrm \<Rightarrow> pnet \<Rightarrow> (u16 \<times> pnet) option" where
  "put_out_at i sz pos f s = do {
     w \<leftarrow> f \<lparr>wr_bytes = out_buffer s i, wr_res_len = sz, wr_pos = pos\<rparr>;
     Some (wr_pos w, set_out_buffer i (wr_bytes w) s) }"

definition put_out :: "nat \<Rightarrow> u16 \<Rightarrow> wrm \<Rightarrow> pnet \<Rightarrow> pnet option" where
  "put_out i sz f s = do {
     (pos, s) \<leftarrow> put_out_at i sz (out_buf_len (the_rpc s i)) f s;
     Some (upd_rpc i (\<lambda>x. x\<lparr>out_buf_len := pos\<rparr>) s) }"

definition pf_generate_uuid :: "u32 \<Rightarrow> u32 \<Rightarrow> u8 list \<Rightarrow> pf_uuid" where
  "pf_generate_uuid timestamp n mac =
     \<lparr>data1 = timestamp, data2 = ucast (drop_bit 16 n),
      data3 = ucast (drop_bit 8 n AND 0xFF) OR 0x1000,
      data4 = [0x80, ucast (n AND 0xFF)] @ take 6 mac\<rparr>"

definition pf_session_allocate :: "pnet \<Rightarrow> nat option \<times> pnet" where
  "pf_session_allocate s =
     (case find_ix (\<lambda>x. \<not> se_in_use x) (net_sessions s) of
        None \<Rightarrow> (None, s)
      | Some i \<Rightarrow> (Some i, s\<lparr>
          net_sessions := (net_sessions s)[i := zero_session\<lparr>se_in_use := True,
            se_resend_timeout := pf_scheduler_init_handle zero_handle NAME_RPC,
            se_rpc := zero_rpc_session\<lparr>dcontrol_sequence_nmb := - 1,
              se_activity_uuid := pf_generate_uuid (net_now s) (net_session_number s) (net_mac s)\<rparr>\<rparr>],
          net_session_bufs := (net_session_bufs s)[i := map_prod (map (\<lambda>_. 0)) (map (\<lambda>_. 0))
            (net_session_bufs s ! i)],
          net_session_number := net_session_number s + 1\<rparr>))"

definition pf_session_locate_by_uuid :: "pf_uuid \<Rightarrow> pnet \<Rightarrow> nat option" where
  "pf_session_locate_by_uuid u s =
     find_ix (\<lambda>x. se_in_use x \<and> se_activity_uuid (se_rpc x) = u) (net_sessions s)"

section \<open>Sending\<close>

definition PF_MAX_UDP_PAYLOAD_SIZE :: u16 where "PF_MAX_UDP_PAYLOAD_SIZE = 1440"
definition PF_CCONTROL_TIMEOUT :: u32 where "PF_CCONTROL_TIMEOUT = 2000"
definition PF_FRAG_TIMEOUT :: u32 where "PF_FRAG_TIMEOUT = 2000"
definition PF_CMRPC_NUMBER_OF_RESENDS :: u32 where "PF_CMRPC_NUMBER_OF_RESENDS = 3"
definition PNET_ERROR_CODE_2_ABORT_AR_RPC_CONTROL_ERROR :: u8 where
  "PNET_ERROR_CODE_2_ABORT_AR_RPC_CONTROL_ERROR = 0x18"

definition pf_udp_open :: "u16 \<Rightarrow> pnet \<Rightarrow> int \<times> pnet" where
  "pf_udp_open port s = (w_udp_open (net_world s) (length (net_out s)), emit (Out_udp_open port) s)"

definition pf_udp_sendto :: "int \<Rightarrow> u32 \<Rightarrow> u16 \<Rightarrow> u8 list \<Rightarrow> pnet \<Rightarrow> int \<times> pnet" where
  "pf_udp_sendto sock addr port bs s =
     (w_udp_send (net_world s) (length (net_out s)) (length bs), emit (Out_udp sock addr port bs) s)"

definition pf_cmrpc_send_once_from_buffer ::
  "nat \<Rightarrow> u8 list \<Rightarrow> u16 \<Rightarrow> pnet \<Rightarrow> (int \<times> pnet) option" where
  "pf_cmrpc_send_once_from_buffer i buf sz s =
     (if sz = 0 then Some (-1, s)
      else if unat sz > length buf then None
      else let x = the_session s i;
        (sent, s) = pf_udp_sendto (se_socket x) (ip_addr (se_rpc x)) (udp_port (se_rpc x))
          (take (unat sz) buf) s
      in Some (if sent = uint sz then 0 else -1, s))"

definition pf_cmrpc_send_once :: "nat \<Rightarrow> pnet \<Rightarrow> (int \<times> pnet) option" where
  "pf_cmrpc_send_once i s =
     pf_cmrpc_send_once_from_buffer i (out_buffer s i) (out_buf_send_len (the_rpc s i)) s"

text \<open>The connection is given up: \<open>None\<close> is the null pointer of a session without AR.\<close>

definition rpc_control_error :: "nat \<Rightarrow> pnet \<Rightarrow> pnet option" where
  "rpc_control_error i s = do {
     a \<leftarrow> se_p_ar (the_session s i);
     (_, s) \<leftarrow> pf_cmdev_cm_abort (Some a) (set_err a PNET_ERROR_CODE_1_RTA_ERR_CLS_PROTOCOL
       PNET_ERROR_CODE_2_ABORT_AR_RPC_CONTROL_ERROR s);
     Some s }"

definition pf_cmrpc_send_with_timeout :: "nat \<Rightarrow> pnet \<Rightarrow> pnet option" where
  "pf_cmrpc_send_with_timeout i s = (let x = the_session s i in
     if se_socket x < 0 then Some s
     else let s = upd_session i (\<lambda>x. x\<lparr>se_resend_timeout :=
         pf_scheduler_reset_handle (se_resend_timeout x)\<rparr>) s
     in if resend_counter_rpc (se_rpc x) > 0
     then do {
       let s = upd_rpc i (\<lambda>x. x\<lparr>resend_counter_rpc := resend_counter_rpc x - 1\<rparr>) s;
       (ret, s) \<leftarrow> pf_cmrpc_send_once i s;
       if ret \<noteq> 0 then Some s
       else do {
         (_, h, s) \<leftarrow> timer_add ((if from_me x then PF_CCONTROL_TIMEOUT else PF_FRAG_TIMEOUT) * 1000)
           CB_RPC i (se_resend_timeout (the_session s i)) s;
         Some (upd_session i (\<lambda>x. x\<lparr>se_resend_timeout := h\<rparr>) s) } }
     else do {
       s \<leftarrow> rpc_control_error i s;
       Some (if from_me x \<and> se_socket (the_session s i) > -1
         then upd_session i (\<lambda>x. x\<lparr>se_socket := -1\<rparr>)
           (emit (Out_udp_close (se_socket (the_session s i))) s)
         else s) })"

section \<open>The application is ready\<close>

definition PF_RPC_SERVER_PORT :: u16 where "PF_RPC_SERVER_PORT = 0x8894"
definition PF_RPC_CCONTROL_EPHEMERAL_PORT :: u16 where "PF_RPC_CCONTROL_EPHEMERAL_PORT = 0xC001"
definition PF_RPC_PT_REQUEST :: u8 where "PF_RPC_PT_REQUEST = 0"
definition PF_RPC_DEV_OPNUM_CONTROL :: u16 where "PF_RPC_DEV_OPNUM_CONTROL = 4"
definition PF_BT_APPRDY_REQ :: u16 where "PF_BT_APPRDY_REQ = 0x0112"
definition CMD_APP_RDY :: u16 where "CMD_APP_RDY = 2"

definition no_flags :: pf_rpc_flags where
  "no_flags = \<lparr>last_fragment = False, fragment = False, no_fack = False, maybe = False,
     idempotent = False, broadcast = False\<rparr>"

definition ccontrol_header :: "pf_ar \<Rightarrow> rpc_session \<Rightarrow> pf_rpc_header" where
  "ccontrol_header r x =
     \<lparr>rpc_version = 4, packet_type = PF_RPC_PT_REQUEST, rpc_flags = no_flags\<lparr>idempotent := True\<rparr>,
      cancel_pending = False, rpc_is_big_endian = se_is_big_endian x, float_repr = 0, reserved = 0,
      serial_high = 0, object_uuid = cm_initiator_object_uuid (ar_param r),
      interface_uuid = \<lparr>data1 = 0xDEA00002, data2 = 0x6C97, data3 = 0x11D1,
        data4 = [0x82, 0x71, 0x00, 0xA0, 0x24, 0x42, 0xDF, 0x7D]\<rparr>,
      activity_uuid = se_activity_uuid x, server_boot_time = 0, interface_version = 1,
      sequence_nmb = sequence_nmb_send x, opnum = PF_RPC_DEV_OPNUM_CONTROL,
      interface_hint = 0xFFFF, activity_hint = 0xFFFF, length_of_body = 0, fragment_nmb = 0,
      auth_protocol = 0, serial_low = 0\<rparr>"

definition app_ready_block :: "pf_ar \<Rightarrow> pf_control_block" where
  "app_ready_block r = \<lparr>cb_ar_uuid = arp_ar_uuid (ar_param r), cb_session_key = session_key (ar_param r),
     control_command = CMD_APP_RDY, control_block_properties = 0, cb_alarm_sequence_number = 0\<rparr>"

text \<open>The header of the arguments of a request; in a response the first field is the status.\<close>

definition put_ndr_tail :: "bool \<Rightarrow> pf_ndr_data \<Rightarrow> wrm" where
  "put_ndr_tail be n = puts [pf_put_uint32 be (args_length n), pf_put_uint32 be (maximum_count n),
     pf_put_uint32 be (array_offset n), pf_put_uint32 be (actual_count n)]"

definition put_ndr :: "bool \<Rightarrow> pf_ndr_data \<Rightarrow> wrm" where
  "put_ndr be n = puts [pf_put_uint32 be (args_maximum n), put_ndr_tail be n]"

text \<open>The RPC header, and the position of the body length in it.\<close>

definition put_header_at ::
  "nat \<Rightarrow> u16 \<Rightarrow> u16 \<Rightarrow> pf_rpc_header \<Rightarrow> pnet \<Rightarrow> (u16 \<times> u16 \<times> pnet) option" where
  "put_header_at i sz pos h s = do {
     (w, len_pos) \<leftarrow> pf_put_dce_rpc_header h
       \<lparr>wr_bytes = out_buffer s i, wr_res_len = sz, wr_pos = pos\<rparr>;
     Some (wr_pos w, len_pos, set_out_buffer i (wr_bytes w) s) }"

definition reset_out :: "rpc_session \<Rightarrow> rpc_session" where
  "reset_out x = x\<lparr>out_buf_len := 0, out_buf_sent_pos := 0, out_fragment_nbr := 0\<rparr>"

text \<open>The session of the request, ready to be filled.\<close>

definition ccontrol_session :: "nat \<Rightarrow> nat \<Rightarrow> u32 \<Rightarrow> pnet \<Rightarrow> pnet" where
  "ccontrol_session i a addr s =
     set_out_buffer i (map (\<lambda>_. 0) (out_buffer s i))
       (upd_session i (\<lambda>x. x\<lparr>se_p_ar := Some a, from_me := True,
         se_rpc := reset_out ((se_rpc x)\<lparr>ip_addr := addr, udp_port := PF_RPC_SERVER_PORT,
           se_is_big_endian := True, sequence_nmb_send := sequence_nmb_send (se_rpc x) + 1\<rparr>)\<rparr>) s)"

definition ccontrol_packet :: "nat \<Rightarrow> pf_rpc_header \<Rightarrow> pf_ar \<Rightarrow> pnet \<Rightarrow> pnet option" where
  "ccontrol_packet i h r s = (let be = rpc_is_big_endian h; sz = of_nat (length (out_buffer s i));
       lim = PF_MAX_UDP_PAYLOAD_SIZE
     in do {
       (pos, len_pos, s) \<leftarrow> put_header_at i sz (out_buf_len (the_rpc s i)) h s;
       let s = upd_rpc i (\<lambda>x. x\<lparr>out_buf_len := pos\<rparr>) s;
       let start_pos = pos;
       s \<leftarrow> put_out i sz (put_ndr be zero_ndr) s;
       let args_max = (ucast lim - ucast (out_buf_len (the_rpc s i)) :: u32);
       let control_pos = out_buf_len (the_rpc s i);
       s \<leftarrow> put_out i sz (pf_put_control True PF_BT_APPRDY_REQ (app_ready_block r)) s;
       s \<leftarrow> put_out i sz (pf_put_ar_diff be (Some r)) s;
       let len = out_buf_len (the_rpc s i);
       let args_len = (ucast len - ucast control_pos :: u32);
       (len_pos, s) \<leftarrow> (if len < lim
         then Some (len_pos, upd_rpc i (\<lambda>x. x\<lparr>out_buf_send_len := len\<rparr>) s)
         else do {
           (_, len_pos, s) \<leftarrow> put_header_at i lim 0
             (h\<lparr>rpc_flags := (rpc_flags h)\<lparr>fragment := True, no_fack := False\<rparr>\<rparr>) s;
           Some (len_pos, upd_rpc i (\<lambda>x. x\<lparr>out_buf_send_len := lim\<rparr>) s) });
       (_, s) \<leftarrow> put_out_at i lim len_pos
         (pf_put_uint16 be (out_buf_send_len (the_rpc s i) - start_pos)) s;
       (_, s) \<leftarrow> put_out_at i lim start_pos (put_ndr be \<lparr>args_maximum = args_max,
         args_length = args_len, maximum_count = args_max, array_offset = 0,
         actual_count = args_len\<rparr>) s;
       Some s })"

definition pf_cmrpc_rm_ccontrol_req :: "nat \<Rightarrow> pnet \<Rightarrow> (int \<times> pnet) option" where
  "pf_cmrpc_rm_ccontrol_req a s =
     (case pf_session_allocate s of
        (None, s) \<Rightarrow> Some (-1, s)
      | (Some i, s) \<Rightarrow> do {
          let h = ccontrol_header (cfg (net_ars s ! a)) ((the_rpc s i)\<lparr>se_is_big_endian := True\<rparr>);
          j \<leftarrow> p_sess (net_ars s ! a);
          s \<leftarrow> ccontrol_packet i h (cfg (net_ars s ! a))
            (ccontrol_session i a (ip_addr (the_rpc s j)) s);
          let (sock, s) = pf_udp_open PF_RPC_CCONTROL_EPHEMERAL_PORT s;
          s \<leftarrow> pf_cmrpc_send_with_timeout i (upd_session i (\<lambda>x. x\<lparr>se_socket := sock,
            se_rpc := (se_rpc x)\<lparr>resend_counter_rpc := PF_CMRPC_NUMBER_OF_RESENDS\<rparr>\<rparr>) s);
          Some (0, s) })"

end
