(* ===== verification/Pn_Rpc.thy ===== *)
theory Pn_Rpc
  imports Pn_Connect Pn_Rpc_Parse Pn_Rpc_Send
begin

text \<open>
  What CMRPC does with a request of the controller (\<^verbatim>\<open>src/device/pf_cmrpc.c\<close>): connect,
  release, control and read, each with its response, and the confirmation of the device's own
  control request. A handler gets the session \<open>i\<close>, the position \<open>req_pos\<close> after the arguments' header
  and the size of the response; it appends the response to the output buffer. \<open>None\<close> is a null
  pointer, an index outside an array, or a loop that does not end.
\<close>

section \<open>Parsing and answering in a session\<close>

abbreviation rpc_status :: "pnet \<Rightarrow> nat \<Rightarrow> pnet_result" where
  "rpc_status s i \<equiv> rpc_result (the_rpc s i)"

abbreviation session_big_endian :: "pnet \<Rightarrow> nat \<Rightarrow> bool" where
  "session_big_endian s i \<equiv> is_big_endian (rpc_get_info (the_rpc s i))"

abbreviation session_args_length :: "pnet \<Rightarrow> nat \<Rightarrow> u32" where
  "session_args_length s i \<equiv> args_length (ndr_data (the_rpc s i))"

definition set_rpc_result :: "nat \<Rightarrow> pnet_result \<Rightarrow> pnet \<Rightarrow> pnet" where
  "set_rpc_result i st = upd_rpc i (\<lambda>x. x\<lparr>rpc_result := st\<rparr>)"

definition kill :: "nat \<Rightarrow> pnet \<Rightarrow> pnet" where
  "kill i = upd_session i (\<lambda>x. x\<lparr>kill_session := True\<rparr>)"

text \<open>The session keeps what the parser left; a read or write outside an array is \<open>None\<close>.\<close>

definition keep_reader :: "nat \<Rightarrow> rd \<Rightarrow> pnet \<Rightarrow> pnet option" where
  "keep_reader i d s = (if rd_fault d then None
     else Some (upd_rpc i (\<lambda>x. x\<lparr>rpc_get_info := get_info_of d\<rparr>) s))"

definition session_reader :: "nat \<Rightarrow> u16 \<Rightarrow> pnet \<Rightarrow> rd" where
  "session_reader i pos s = rd_of (rpc_get_info (the_rpc s i)) pos"

text \<open>
  A response: the status and the header of the arguments, then the contents, then the header
  again, now that the length is known. The positions of the status, of the header and of the
  contents are kept for that.
\<close>

definition response_start :: "nat \<Rightarrow> u16 \<Rightarrow> u16 \<Rightarrow> pnet \<Rightarrow> (u16 \<times> u16 \<times> pnet) option" where
  "response_start i sz pos s = (let be = session_big_endian s i in do {
     (hdr_pos, s) \<leftarrow> put_out_at i sz pos (pf_put_pnet_status be (result_status (rpc_status s i))) s;
     (start_pos, s) \<leftarrow> put_out_at i sz hdr_pos (put_ndr_tail be (ndr_data (the_rpc s i))) s;
     Some (hdr_pos, start_pos, s) })"

definition response_end :: "nat \<Rightarrow> u16 \<Rightarrow> u16 \<Rightarrow> u16 \<Rightarrow> u16 \<Rightarrow> pnet \<Rightarrow> pnet option" where
  "response_end i sz hdr_pos start_pos pos s = (let
     n = ucast pos - ucast start_pos;
     s = upd_rpc i (\<lambda>x. x\<lparr>ndr_data := (ndr_data x)\<lparr>args_length := n, actual_count := n\<rparr>\<rparr>) s
   in do {
     (_, s) \<leftarrow> put_out_at i sz hdr_pos
       (put_ndr_tail (session_big_endian s i) (ndr_data (the_rpc s i))) s;
     Some s })"

definition put_status :: "nat \<Rightarrow> u16 \<Rightarrow> u16 \<Rightarrow> bool \<Rightarrow> pnet_result \<Rightarrow> pnet \<Rightarrow> pnet option" where
  "put_status i sz pos be st s =
     map_option snd (put_out_at i sz pos (pf_put_pnet_status be (result_status st)) s)"

definition at_out_pos :: "nat \<Rightarrow> (u16 \<Rightarrow> pnet \<Rightarrow> (u16 \<times> pnet) option) \<Rightarrow> pnet \<Rightarrow> pnet option" where
  "at_out_pos i f s = do {
     (pos, s) \<leftarrow> f (out_buf_len (the_rpc s i)) s;
     Some (upd_rpc i (\<lambda>x. x\<lparr>out_buf_len := pos\<rparr>) s) }"

section \<open>Connect\<close>

text \<open>
  The flag \<^verbatim>\<open>ar_rpc_request.valid\<close> is never set, so that the block of the RPC server is never
  part of a response.
\<close>

definition put_indexed :: "u16 \<Rightarrow> (u16 \<Rightarrow> wrm) \<Rightarrow> wrm" where
  "put_indexed n f = puts (map (\<lambda>ix. f (of_nat ix)) [0..<unat n])"

definition put_connect_blocks :: "bool \<Rightarrow> ar \<Rightarrow> wrm" where
  "put_connect_blocks be x = (let r = cfg x in puts ([
     pf_put_ar_result be r,
     put_indexed (nbr_iocrs r) (pf_put_iocr_result be r),
     pf_put_alarm_cr_result be r] @
     (if nbr_api_diffs r > 0 then [pf_put_ar_diff be (Some r)] else []) @
     (if ar_rpc_valid (counts x) then [pf_put_ar_rpc_result be r] else []) @
     (if startup_mode (ar_properties (ar_param r))
      then [pf_put_ar_server_result be r,
            put_indexed (nbr_ar_vendor (counts x)) (pf_put_ar_vendor_result be r)]
      else [])))"

definition pf_cmrpc_rm_connect_rsp :: "nat \<Rightarrow> int \<Rightarrow> nat option \<Rightarrow> u16 \<Rightarrow> pnet \<Rightarrow> pnet option" where
  "pf_cmrpc_rm_connect_rsp i ret p_ar sz = at_out_pos i (\<lambda>pos s. do {
     (hdr_pos, start_pos, s) \<leftarrow> response_start i sz pos s;
     (pos, s) \<leftarrow> (case p_ar of
        Some a \<Rightarrow> if ret = 0
          then put_out_at i sz start_pos
            (put_connect_blocks (session_big_endian s i) (net_ars s ! a)) s
          else Some (start_pos, s)
      | None \<Rightarrow> Some (start_pos, s));
     s \<leftarrow> response_end i sz hdr_pos start_pos pos s;
     Some (pos, s) })"

definition PF_AR_STATE_PRIMARY :: u16 where "PF_AR_STATE_PRIMARY = 0"
definition PF_AR_STATE_BACKUP :: u16 where "PF_AR_STATE_BACKUP = 2"

text \<open>
  The request is parsed into the new AR \<open>a\<close>; the AR UUID must be new, and only the first AR of the
  table is served. \<open>restart_lldp\<close> is \<^verbatim>\<open>pf_pdport_lldp_restart_transmission\<close>.
\<close>

definition connect_in_ar ::
  "app_plug \<Rightarrow> (nat \<Rightarrow> pnet \<Rightarrow> pnet option) \<Rightarrow> nat \<Rightarrow> nat \<Rightarrow> u16 \<Rightarrow> pnet \<Rightarrow> (int \<times> pnet) option" where
  "connect_in_ar app observers i a req_pos s = do {
     ((ret, st, r), d) \<leftarrow> pf_cmrpc_rm_connect_interpret_ind (session_args_length s i)
       (rpc_status s i) (net_ars s ! a) (session_reader i req_pos s);
     s \<leftarrow> keep_reader i d (set_rpc_result i st (upd_ar a (\<lambda>_. r) s));
     if ret \<noteq> 0 then Some (-1, s)
     else case pf_ar_find_by_uuid (arp_ar_uuid (ar_param (cfg r))) s of
       Some a2 \<Rightarrow> do {
         (_, s) \<leftarrow> pf_cmdev_cm_abort (Some a2) (set_rpc_result i (connect_fault
           PNET_ERROR_CODE_1_CMDEV PNET_ERROR_CODE_2_CMDEV_STATE_CONFLICT (rpc_status s i)) s);
         Some (-1, s) }
     | None \<Rightarrow>
         if arep (net_ars s ! a) > 1
         then Some (-1, set_rpc_result i (rpc_fault PNET_ERROR_CODE_2_CMRPC_NO_AR_RESOURCES
           (rpc_status s i)) s)
         else do {
           (ret, st, s) \<leftarrow> pf_cmdev_rm_connect_ind app observers a (rpc_status s i)
             (upd_ar a (\<lambda>x. x\<lparr>ar_state := PF_AR_STATE_PRIMARY\<rparr>) s);
           Some (ret, set_rpc_result i st s) } }"

definition pf_cmrpc_rm_connect_ind ::
  "app_plug \<Rightarrow> (nat \<Rightarrow> pnet \<Rightarrow> pnet option) \<Rightarrow> (pnet \<Rightarrow> pnet) \<Rightarrow> nat \<Rightarrow> u16 \<Rightarrow> u16 \<Rightarrow> pnet \<Rightarrow>
    (int \<times> pnet) option" where
  "pf_cmrpc_rm_connect_ind app observers restart_lldp i req_pos sz s = do {
     (ret, p_ar, s) \<leftarrow>
       (if has_error (rpc_status s i)
        then Some (-1, None, set_rpc_result i
          (rpc_fault PNET_ERROR_CODE_2_CMRPC_STATE_CONFLICT (rpc_status s i)) s)
        else case pf_ar_allocate s of
          (None, s) \<Rightarrow> Some (-1, None, set_rpc_result i
            (rpc_fault PNET_ERROR_CODE_2_CMRPC_NO_AR_RESOURCES (rpc_status s i)) s)
        | (Some a, s) \<Rightarrow> do {
            (ret, s) \<leftarrow> connect_in_ar app observers i a req_pos
              (upd_session i (\<lambda>x. x\<lparr>se_p_ar := Some a\<rparr>) (upd_ar a (\<lambda>x. x\<lparr>p_sess := Some i\<rparr>) s));
            Some (ret, Some a, s) });
     s \<leftarrow> pf_cmrpc_rm_connect_rsp i ret p_ar sz s;
     Some (ret, if ret \<noteq> 0 \<or> has_error (rpc_status s i)
       then kill i (upd_session i (\<lambda>x. x\<lparr>se_p_ar := None\<rparr>)
         (case p_ar of None \<Rightarrow> s | Some a \<Rightarrow> pf_ar_release a s))
       else restart_lldp s) }"

section \<open>Release\<close>

definition PF_BT_RELEASE_BLOCK_RES :: u16 where "PF_BT_RELEASE_BLOCK_RES = 0x8114"
definition PF_BT_PRMEND_RES :: u16 where "PF_BT_PRMEND_RES = 0x8110"

definition zero_control :: pf_control_block where
  "zero_control = \<lparr>cb_ar_uuid = nil_uuid, cb_session_key = 0, control_command = 0,
     control_block_properties = 0, cb_alarm_sequence_number = 0\<rparr>"

text \<open>The response to a control block: the block itself, with the command \<open>Done\<close>, unless there is an error.\<close>

definition control_rsp ::
  "u16 \<Rightarrow> nat \<Rightarrow> pf_control_block \<Rightarrow> u16 \<Rightarrow> u16 \<Rightarrow> pnet \<Rightarrow> (u16 \<times> pf_control_block \<times> pnet) option" where
  "control_rsp bt i cb sz pos s = do {
     (hdr_pos, start_pos, s) \<leftarrow> response_start i sz pos s;
     let ok = \<not> has_error (rpc_status s i);
     let cb = (if ok then cb\<lparr>control_command := CMD_DONE\<rparr> else cb);
     (pos, s) \<leftarrow> (if ok
       then put_out_at i sz start_pos (pf_put_control (session_big_endian s i) bt cb) s
       else Some (start_pos, s));
     s \<leftarrow> response_end i sz hdr_pos start_pos pos s;
     Some (pos, cb, s) }"

definition pf_cmrpc_rm_release_rsp ::
  "nat \<Rightarrow> pf_control_block \<Rightarrow> u16 \<Rightarrow> u16 \<Rightarrow> pnet \<Rightarrow> (u16 \<times> pf_control_block \<times> pnet) option" where
  "pf_cmrpc_rm_release_rsp = control_rsp PF_BT_RELEASE_BLOCK_RES"

text \<open>
  The response is written first, since the AR and the session may be gone afterwards. The second
  response goes to the same place, and does not move \<^verbatim>\<open>out_buf_len\<close>.
\<close>

definition pf_cmrpc_rm_release_ind :: "nat \<Rightarrow> u16 \<Rightarrow> u16 \<Rightarrow> pnet \<Rightarrow> (int \<times> pnet) option" where
  "pf_cmrpc_rm_release_ind i req_pos sz s = (let
     be = session_big_endian s i;
     start_pos = out_buf_len (the_rpc s i)
   in do {
     (pos, cb, s) \<leftarrow> pf_cmrpc_rm_release_rsp i zero_control sz start_pos s;
     let s = upd_rpc i (\<lambda>x. x\<lparr>out_buf_len := pos\<rparr>) s;
     (ret, cb, s) \<leftarrow> (if has_error (rpc_status s i)
       then Some (-1, cb, set_rpc_result i (pf_set_error PNET_ERROR_CODE_RELEASE
         PNET_ERROR_DECODE_PNIO PNET_ERROR_CODE_1_CMRPC PNET_ERROR_CODE_2_CMRPC_STATE_CONFLICT
         (rpc_status s i)) s)
       else do {
         ((ret, st, cb), d) \<leftarrow> pf_cmrpc_rm_release_interpret_req (session_args_length s i)
           (rpc_status s i) cb (session_reader i req_pos s);
         s \<leftarrow> keep_reader i d (set_rpc_result i st s);
         Some (ret, cb, s) });
     let st = rpc_status s i;
     (st, s) \<leftarrow> (if ret \<noteq> 0 then Some (st, s)
       else case pf_ar_find_by_uuid (cb_ar_uuid cb) s of
         Some a \<Rightarrow> do {
           (_, cb, s) \<leftarrow> pf_cmrpc_rm_release_rsp i cb sz start_pos s;
           (_, st, s) \<leftarrow> pf_cmdev_rm_release_ind a st s;
           Some (st, s) }
       | None \<Rightarrow> Some (pf_set_error PNET_ERROR_CODE_RELEASE PNET_ERROR_DECODE_PNIO
           PNET_ERROR_CODE_1_CMRPC PNET_ERROR_CODE_2_CMRPC_AR_UUID_UNKNOWN st, kill i s));
     s \<leftarrow> put_status i sz start_pos be st s;
     Some (ret, s) })"

section \<open>Control\<close>

definition pf_cmrpc_rm_dcontrol_rsp ::
  "nat \<Rightarrow> pf_control_block \<Rightarrow> u16 \<Rightarrow> pnet \<Rightarrow> pnet option" where
  "pf_cmrpc_rm_dcontrol_rsp i cb sz = at_out_pos i (\<lambda>pos s. do {
     (pos, _, s) \<leftarrow> control_rsp PF_BT_PRMEND_RES i cb sz pos s;
     Some (pos, s) })"

text \<open>A control request that has been answered before gets the same result again.\<close>

definition dcontrol_once ::
  "nat \<Rightarrow> pf_control_block \<Rightarrow> bool \<Rightarrow> pnet \<Rightarrow> (int \<times> bool \<times> pnet) option" where
  "dcontrol_once i cb prmend s =
     (case pf_ar_find_by_uuid (cb_ar_uuid cb) s of
        Some a \<Rightarrow> do {
          (ret, st, prmend, s) \<leftarrow>
            pf_cmdev_rm_dcontrol_ind a (control_command cb) (rpc_status s i) prmend s;
          if ret \<noteq> 0 then Some (-1, prmend, set_rpc_result i st s)
          else do {
            (ret, st, s) \<leftarrow> pf_cmpbe_rm_dcontrol_ind a (control_command cb) st s;
            Some (ret, prmend, set_rpc_result i st s) } }
      | None \<Rightarrow> Some (-1, prmend, kill i (set_rpc_result i (pf_set_error PNET_ERROR_CODE_CONTROL
          PNET_ERROR_DECODE_PNIO PNET_ERROR_CODE_1_CMRPC PNET_ERROR_CODE_2_CMRPC_AR_UUID_UNKNOWN
          (rpc_status s i)) s)))"

definition pf_cmrpc_rm_dcontrol_ind ::
  "nat \<Rightarrow> u32 \<Rightarrow> u16 \<Rightarrow> u16 \<Rightarrow> bool \<Rightarrow> pnet \<Rightarrow> (int \<times> bool \<times> pnet) option" where
  "pf_cmrpc_rm_dcontrol_ind i seq req_pos sz prmend s = do {
     ((ret, st, cb), d) \<leftarrow> pf_cmrpc_rm_dcontrol_interpret_req (session_args_length s i)
       (rpc_status s i) zero_control (session_reader i req_pos s);
     s \<leftarrow> keep_reader i d (set_rpc_result i st s);
     (ret, prmend, s) \<leftarrow>
       (if ret \<noteq> 0 then Some (-1, prmend, s)
        else if dcontrol_sequence_nmb (the_rpc s i) = seq
        then Some (-1, prmend, set_rpc_result i (dcontrol_result (the_rpc s i)) s)
        else do {
          (ret, prmend, s) \<leftarrow> dcontrol_once i cb prmend s;
          Some (ret, prmend, upd_rpc i (\<lambda>x. x\<lparr>dcontrol_result := rpc_result x,
            dcontrol_sequence_nmb := seq\<rparr>) s) });
     s \<leftarrow> pf_cmrpc_rm_dcontrol_rsp i cb sz s;
     Some (ret, prmend, s) }"

text \<open>The controller has confirmed that the application is ready.\<close>

definition pf_cmrpc_rm_ccontrol_cnf :: "nat \<Rightarrow> u16 \<Rightarrow> pnet \<Rightarrow> (int \<times> pnet) option" where
  "pf_cmrpc_rm_ccontrol_cnf i req_pos s = do {
     a \<leftarrow> se_p_ar (the_session s i);
     ((ret, st, cb), d) \<leftarrow> pf_cmrpc_rm_ccontrol_interpret_cnf (session_args_length s i)
       (rpc_status s i) zero_control (session_reader i req_pos s);
     s \<leftarrow> keep_reader i d (set_rpc_result i st s);
     if ret \<noteq> 0 \<or> control_command cb \<noteq> CMD_DONE then Some (-1, s)
     else do {
       (ret, s) \<leftarrow> pf_cmdev_rm_ccontrol_cnf a (control_command cb) (rpc_status s i) s;
       if ret \<noteq> 0 then Some (-1, s)
       else let (ret, s) = pf_cmpbe_rm_ccontrol_cnf a (control_command cb) s
         in Some (if ret = 0 then (0, kill i s) else (-1, s)) } }"

definition pf_cmrpc_rpc_response :: "nat \<Rightarrow> u16 \<Rightarrow> pf_rpc_header \<Rightarrow> pnet \<Rightarrow> (int \<times> pnet) option" where
  "pf_cmrpc_rpc_response i req_pos h s =
     (if opnum h = PF_RPC_DEV_OPNUM_CONTROL then pf_cmrpc_rm_ccontrol_cnf i req_pos s
      else Some (-1, s))"

section \<open>Read\<close>

definition PF_BT_IOD_READ_REQ_HEADER :: u16 where "PF_BT_IOD_READ_REQ_HEADER = 9"
definition PF_RPC_DEV_OPNUM_READ :: u16 where "PF_RPC_DEV_OPNUM_READ = 2"
definition PF_RPC_DEV_OPNUM_READ_IMPLICIT :: u16 where "PF_RPC_DEV_OPNUM_READ_IMPLICIT = 5"

definition zero_read_request :: pf_iod_read_request where
  "zero_read_request = \<lparr>rreq_sequence_number = 0, rreq_ar_uuid = nil_uuid, rreq_api = 0,
     rreq_slot_number = 0, rreq_subslot_number = 0, rreq_padding = replicate 2 0, rreq_index = 0,
     rreq_record_data_length = 0, target_ar_uuid = nil_uuid, rreq_rw_padding = replicate 8 0\<rparr>"

definition read_fault :: "u8 \<Rightarrow> u8 \<Rightarrow> u8 \<Rightarrow> pnet_result \<Rightarrow> pnet_result" where
  "read_fault = pf_set_error PNET_ERROR_CODE_READ"

definition read_interpret ::
  "pnet_result \<Rightarrow> pf_iod_read_request \<Rightarrow> (int \<times> pnet_result \<times> pf_iod_read_request) rdm" where
  "read_interpret st rq = do {
     more \<leftarrow> State (\<lambda>d. (more_blocks d, d));
     if \<not> more then rd_return (-1, st, rq)
     else do {
       h \<leftarrow> pf_get_block_header;
       fits \<leftarrow> block_fits h;
       if \<not> fits then rd_return (-1, st, rq)
       else if block_type h = PF_BT_IOD_READ_REQ_HEADER
       then do { rq \<leftarrow> pf_get_read_request rq; rd_return (0, st, rq) }
       else rd_return (-1, read_fault PNET_ERROR_DECODE_PNIO
         PNET_ERROR_CODE_1_CONN_FAULTY_FAULTY_RECORD PNET_ERROR_CODE_2_CMRPC_UNKNOWN_BLOCKS st, rq) } }"

definition pf_cmrpc_rm_read_interpret_ind ::
  "u32 \<Rightarrow> pnet_result \<Rightarrow> pf_iod_read_request \<Rightarrow> rd \<Rightarrow> (int \<times> pnet_result \<times> pf_iod_read_request) \<times> rd" where
  "pf_cmrpc_rm_read_interpret_ind args_len st rq d = (let
     ((ret, st, rq), e) = run_state (read_interpret st rq) d
   in if ret = 0 \<and> \<not> all_used (rd_pos d) args_len e
      then ((-1, read_fault PNET_ERROR_DECODE_PNIO PNET_ERROR_CODE_1_CMRPC
        PNET_ERROR_CODE_2_CMRPC_ARGSLENGTH_INVALID st, rq), e)
      else ((ret, st, rq), e))"

text \<open>
  \<open>read_record\<close> is \<^verbatim>\<open>pf_cmrdr_rm_read_ind\<close>: it gets the session, whose result it may set, the
  AR, the request, the size and the position in the output buffer.
\<close>

type_synonym read_record =
  "nat \<Rightarrow> nat option \<Rightarrow> pf_iod_read_request \<Rightarrow> u16 \<Rightarrow> u16 \<Rightarrow> pnet \<Rightarrow> (int \<times> u16 \<times> pnet) option"

definition read_answer ::
  "read_record \<Rightarrow> nat \<Rightarrow> nat option \<Rightarrow> pf_iod_read_request \<Rightarrow> u16 \<Rightarrow> pnet \<Rightarrow> (int \<times> pnet) option" where
  "read_answer read_record i p_ar rq sz s = (let status_pos = out_buf_len (the_rpc s i) in do {
     (hdr_pos, start_pos, s) \<leftarrow> response_start i sz status_pos s;
     (ret, pos, s) \<leftarrow> read_record i p_ar rq sz start_pos s;
     (ret, s) \<leftarrow> (if ret = 0 then pf_cmsm_rm_read_ind p_ar rq s else Some (-1, s));
     s \<leftarrow> put_status i sz status_pos (session_big_endian s i) (rpc_status s i) s;
     s \<leftarrow> response_end i sz hdr_pos start_pos pos s;
     Some (ret, upd_rpc i (\<lambda>x. x\<lparr>out_buf_len := pos\<rparr>) s) })"

definition pf_cmrpc_rm_read_ind ::
  "read_record \<Rightarrow> nat \<Rightarrow> u16 \<Rightarrow> u16 \<Rightarrow> u16 \<Rightarrow> pnet \<Rightarrow> (int \<times> pnet) option" where
  "pf_cmrpc_rm_read_ind read_record i op req_pos sz s = (let fail = (\<lambda>dec c1 c2 s.
       set_rpc_result i (read_fault dec c1 c2 (rpc_status s i)) s)
   in if has_error (rpc_status s i)
     then Some (-1, fail PNET_ERROR_DECODE_PNIO PNET_ERROR_CODE_1_CMRPC
       PNET_ERROR_CODE_2_CMRPC_STATE_CONFLICT s)
     else do {
       let ((ret, st, rq), d) = pf_cmrpc_rm_read_interpret_ind (session_args_length s i)
         (rpc_status s i) zero_read_request (session_reader i req_pos s);
       s \<leftarrow> keep_reader i d (set_rpc_result i st s);
       let p_ar = pf_ar_find_by_uuid (rreq_ar_uuid rq) s;
       if ret \<noteq> 0 then Some (-1, s)
       else if rreq_ar_uuid rq = nil_uuid \<and> op \<noteq> PF_RPC_DEV_OPNUM_READ_IMPLICIT
       then Some (-1, kill i (fail PNET_ERROR_DECODE_PNIO
         PNET_ERROR_CODE_1_CONN_FAULTY_FAULTY_RECORD PNET_ERROR_CODE_2_CMRPC_AR_UUID_UNKNOWN s))
       else if p_ar \<noteq> None \<and> op \<noteq> PF_RPC_DEV_OPNUM_READ
       then Some (-1, kill i (fail PNET_ERROR_DECODE_PNIO PNET_ERROR_CODE_1_CMRPC
         PNET_ERROR_CODE_2_CMRPC_AR_UUID_UNKNOWN s))
       else if rreq_api rq \<noteq> 0 \<and> pf_cmdev_get_api (net_device s) (rreq_api rq) = None
       then Some (-1, fail PNET_ERROR_DECODE_PNIORW PNET_ERROR_CODE_1_ACC_INVALID_AREA_API 6 s)
       else read_answer read_record i
         (if p_ar = None \<and> op \<noteq> PF_RPC_DEV_OPNUM_READ_IMPLICIT
          then pf_ar_find_by_uuid (target_ar_uuid rq) s else p_ar) rq sz s })"

section \<open>Write\<close>

definition PF_BT_IOD_WRITE_REQ_HEADER :: u16 where "PF_BT_IOD_WRITE_REQ_HEADER = 8"
definition PF_BT_INTERFACE_ADJUST :: u16 where "PF_BT_INTERFACE_ADJUST = 0x0250"
definition PF_IDX_USER_MAX :: u16 where "PF_IDX_USER_MAX = 0x7FFF"
definition PF_IDX_AR_WRITE_MULTIPLE :: u16 where "PF_IDX_AR_WRITE_MULTIPLE = 0xE040"
definition PF_IDX_SUB_IM_0 :: u16 where "PF_IDX_SUB_IM_0 = 0xAFF0"
definition PF_IDX_SUB_IM_15 :: u16 where "PF_IDX_SUB_IM_15 = 0xAFFF"
definition PF_IDX_SUB_PDPORT_DATA_CHECK :: u16 where "PF_IDX_SUB_PDPORT_DATA_CHECK = 0x802B"
definition PF_IDX_SUB_PDPORT_DATA_ADJ :: u16 where "PF_IDX_SUB_PDPORT_DATA_ADJ = 0x802F"
definition PF_IDX_SUB_PDINTF_ADJUST :: u16 where "PF_IDX_SUB_PDINTF_ADJUST = 0x8071"
definition PNET_ERROR_CODE_1_ACC_STATE_CONFLICT :: u8 where
  "PNET_ERROR_CODE_1_ACC_STATE_CONFLICT = 0xB5"
definition PNET_ERROR_CODE_1_ACC_BACKUP :: u8 where "PNET_ERROR_CODE_1_ACC_BACKUP = 0xBA"

text \<open>
  \<^verbatim>\<open>pf_fspm_cm_write_ind\<close> and \<^verbatim>\<open>pf_pdport_write_req\<close>: they get the AR, the request, the
  frame from the record on, the length of the record and the result structure.
\<close>

type_synonym write_record =
  "nat \<Rightarrow> pf_iod_write_request \<Rightarrow> u8 list \<Rightarrow> u16 \<Rightarrow> pnet_result \<Rightarrow> pnet \<Rightarrow>
    (int \<times> pnet_result \<times> pnet) option"

record record_writers =
  fspm_write :: write_record
  pdport_write :: write_record

definition pf_cmwrr_write ::
  "record_writers \<Rightarrow> nat \<Rightarrow> pf_iod_write_request \<Rightarrow> u8 list \<Rightarrow> u16 \<Rightarrow> u16 \<Rightarrow> pnet_result \<Rightarrow> pnet \<Rightarrow>
    (int \<times> u16 \<times> pnet_result \<times> pnet) option" where
  "pf_cmwrr_write w a rq buf len pos st s = (let
     ix = wreq_index rq;
     data = drop (unat pos) buf
   in do {
     (ret, st, s) \<leftarrow>
       (if ix \<le> PF_IDX_USER_MAX \<or> PF_IDX_SUB_IM_0 \<le> ix \<and> ix \<le> PF_IDX_SUB_IM_15
        then fspm_write w a rq data len st s
        else if ix \<in> {PF_IDX_SUB_PDPORT_DATA_CHECK, PF_IDX_SUB_PDPORT_DATA_ADJ, PF_IDX_SUB_PDINTF_ADJUST}
        then pdport_write w a rq data len st s
        else Some (-1, st, s));
     Some (ret, pos + len, st, s) })"

definition rw_fault :: "u8 \<Rightarrow> pnet_result \<Rightarrow> pnet_result" where
  "rw_fault c1 st = st\<lparr>result_status := (result_status st)\<lparr>error_code := PNET_ERROR_CODE_PNIO,
     error_decode := PNET_ERROR_DECODE_PNIORW, error_code_1 := c1\<rparr>\<rparr>"

definition result_of_write :: "pf_iod_write_request \<Rightarrow> pf_iod_result \<Rightarrow> pf_iod_result" where
  "result_of_write rq x = x\<lparr>rres_sequence_number := wreq_sequence_number rq,
     rres_ar_uuid := wreq_ar_uuid rq, rres_api := wreq_api rq,
     rres_slot_number := wreq_slot_number rq, rres_subslot_number := wreq_subslot_number rq,
     rres_index := wreq_index rq, rres_record_data_length := 0\<rparr>"

definition pf_cmwrr_rm_write_ind ::
  "record_writers \<Rightarrow> nat \<Rightarrow> pf_iod_write_request \<Rightarrow> pf_iod_result \<Rightarrow> pnet_result \<Rightarrow> u8 list \<Rightarrow> u16 \<Rightarrow>
    u16 \<Rightarrow> pnet \<Rightarrow> (int \<times> pf_iod_result \<times> pnet_result \<times> u16 \<times> pnet) option" where
  "pf_cmwrr_rm_write_ind w a rq x st buf len pos s = (let r = net_ars s ! a; ws = cmwrr_state r in do {
     (ret, pos, st, s) \<leftarrow>
       (if ws \<in> {PF_CMWRR_STATE_IDLE, PF_CMWRR_STATE_PRMEND}
        then Some (-1, pos, rw_fault PNET_ERROR_CODE_1_ACC_STATE_CONFLICT st, s)
        else if ar_state r = PF_AR_STATE_BACKUP
        then Some (-1, pos, rw_fault PNET_ERROR_CODE_1_ACC_BACKUP st, s)
        else pf_cmwrr_write w a rq buf len pos st s);
     (r, s) \<leftarrow> pf_cmsm_cm_write_ind (Some a) s;
     Some (if r \<noteq> 0 then -1 else ret,
       (result_of_write rq x)\<lparr>add_data_1 := result_add_data_1 st, add_data_2 := result_add_data_2 st\<rparr>,
       st, pos, s) })"

definition write_fault :: "u8 \<Rightarrow> u8 \<Rightarrow> u8 \<Rightarrow> pnet_result \<Rightarrow> pnet_result" where
  "write_fault = pf_set_error PNET_ERROR_CODE_WRITE"

definition pf_cmrpc_rm_write_interpret_ind ::
  "pnet_result \<Rightarrow> pf_iod_write_request \<Rightarrow> (int \<times> pnet_result \<times> pf_iod_write_request) rdm" where
  "pf_cmrpc_rm_write_interpret_ind st rq = do {
     more \<leftarrow> State (\<lambda>d. (unat (rd_pos d) + 6 \<le> unat (buf_len d), d));
     if \<not> more then rd_return (-1, st, rq)
     else do {
       h \<leftarrow> pf_get_block_header;
       fits \<leftarrow> block_fits h;
       if \<not> fits then rd_return (-1, st, rq)
       else if block_type h = PF_BT_IOD_WRITE_REQ_HEADER
       then do { rq \<leftarrow> pf_get_write_request rq; rd_return (0, st, rq) }
       else if block_type h = PF_BT_INTERFACE_ADJUST then rd_return (0, st, rq)
       else rd_return (-1, write_fault PNET_ERROR_DECODE_PNIO
         PNET_ERROR_CODE_1_CONN_FAULTY_FAULTY_RECORD PNET_ERROR_CODE_2_CMRPC_UNKNOWN_BLOCKS st, rq) } }"

text \<open>
  One record. The end of the record is computed with 32 bits, its length is handed on with 16 bits.
  The status of the result structure is only set after an error.
\<close>

type_synonym write_state = "pf_iod_result \<times> pnet_pnio_status \<times> pnet_result \<times> rd \<times> pnet"

definition record_fits :: "pf_iod_write_request \<Rightarrow> rd \<Rightarrow> bool" where
  "record_fits rq d \<longleftrightarrow> ucast (rd_pos d) + wreq_record_data_length rq \<le> ucast (buf_len d)"

definition write_fitting ::
  "record_writers \<Rightarrow> nat \<Rightarrow> pf_iod_write_request \<Rightarrow> pf_iod_result \<Rightarrow> pnet_result \<Rightarrow> rd \<Rightarrow> pnet \<Rightarrow>
    (int \<times> pf_iod_result \<times> pnet_result \<times> rd \<times> pnet) option" where
  "write_fitting w a rq x st d s = do {
     let user = wreq_index rq \<le> PF_IDX_USER_MAX;
     let d = (if user then d else snd (run_state pf_get_block_header d));
     let len = (if user then ucast (wreq_record_data_length rq)
       else ucast (wreq_record_data_length rq - 6));
     buf \<leftarrow> p_buf d;
     (ret, x, st, pos, s) \<leftarrow> pf_cmwrr_rm_write_ind w a rq x st buf len (rd_pos d) s;
     let d = d\<lparr>rd_pos := pos\<rparr>;
     if ret = 0 then Some (0, x, st, d, s)
     else Some (-1, x, pf_set_error_if_not_already_set PNET_ERROR_CODE_WRITE
       PNET_ERROR_DECODE_PNIORW PNET_ERROR_CODE_1_ACC_INVALID_AREA_API 2 st, d, s) }"

definition pf_cmrpc_perform_one_write ::
  "record_writers \<Rightarrow> nat \<Rightarrow> pf_iod_write_request \<Rightarrow> write_state \<Rightarrow> (int \<times> write_state) option" where
  "pf_cmrpc_perform_one_write w i rq z = (let (x, status, st, d, s) = z in do {
     (ret, x, st, d, s) \<leftarrow>
       (case pf_ar_find_by_uuid (wreq_ar_uuid rq) s of
          None \<Rightarrow> Some (-1, x, write_fault PNET_ERROR_DECODE_PNIO PNET_ERROR_CODE_1_CMRPC
            PNET_ERROR_CODE_2_CMRPC_AR_UUID_UNKNOWN st, d, kill i s)
        | Some a \<Rightarrow>
            if wreq_api rq \<noteq> 0 \<and> pf_cmdev_get_api (net_device s) (wreq_api rq) = None
            then Some (-1, x, write_fault PNET_ERROR_DECODE_PNIORW
              PNET_ERROR_CODE_1_ACC_INVALID_AREA_API 1 st, d, s)
            else if record_fits rq d then write_fitting w a rq x st d s
            else Some (-1, x, write_fault PNET_ERROR_DECODE_PNIORW
              PNET_ERROR_CODE_1_ACC_INVALID_AREA_API 4 st, d, s));
     Some (ret, x, if ret \<noteq> 0 then result_status st else status, st, d, s) })"

text \<open>
  Several records in one request: each has a header of its own and is followed by padding to a
  multiple of four bytes. The loop stops at the first record that fails.
\<close>

partial_function (option) pad_position :: "u16 \<Rightarrow> u16 option" where
  "pad_position pos = (if pos mod 4 \<noteq> 0 then pad_position (pos + 1) else Some pos)"

declare pad_position.simps [code]

definition zero_iod_result :: pf_iod_result where
  "zero_iod_result = \<lparr>rres_sequence_number = 0, rres_ar_uuid = nil_uuid, rres_api = 0,
     rres_slot_number = 0, rres_subslot_number = 0, rres_index = 0, rres_record_data_length = 0,
     add_data_1 = 0, add_data_2 = 0\<rparr>"

definition zero_write_request :: pf_iod_write_request where
  "zero_write_request = \<lparr>wreq_sequence_number = 0, wreq_ar_uuid = nil_uuid, wreq_api = 0,
     wreq_slot_number = 0, wreq_subslot_number = 0, wreq_padding = replicate 2 0, wreq_index = 0,
     wreq_record_data_length = 0, wreq_rw_padding = replicate 24 0\<rparr>"

partial_function (option) write_multiple ::
  "record_writers \<Rightarrow> nat \<Rightarrow> u16 \<Rightarrow> pf_iod_write_request \<Rightarrow> int \<Rightarrow> u16 \<Rightarrow> write_state \<Rightarrow>
    (int \<times> u16 \<times> rd \<times> pnet) option" where
  "write_multiple w i sz rq ret pos z = (let (x, status, st, d, s) = z in
     if \<not> (unat (rd_pos d) + 58 < unat (buf_len d) \<and> error_code status = 0)
     then Some (ret, pos, d, s)
     else let ((r, st, rq), d) = run_state (pf_cmrpc_rm_write_interpret_ind st rq) d
     in if r \<noteq> 0 then Some (ret, pos, d, s)
     else do {
       (ret, x, status, st, d, s) \<leftarrow> pf_cmrpc_perform_one_write w i rq (x, status, st, d, s);
       (pos, s) \<leftarrow> put_out_at i sz pos (pf_put_write_result (session_big_endian s i) x status) s;
       p \<leftarrow> pad_position (rd_pos d);
       write_multiple w i sz rq ret pos (x, status, zero_result, d\<lparr>rd_pos := p\<rparr>, s) })"

declare write_multiple.simps [code]

text \<open>One record, or several: the result of the writes, and the records that were used.\<close>

definition write_records ::
  "record_writers \<Rightarrow> nat \<Rightarrow> u16 \<Rightarrow> pf_iod_write_request \<Rightarrow> u16 \<Rightarrow> rd \<Rightarrow> pnet \<Rightarrow>
    (int \<times> u16 \<times> rd \<times> pnet) option" where
  "write_records w i sz rq pos d s = (let
     be = session_big_endian s i;
     st = rpc_status s i;
     x = result_of_write rq zero_iod_result
   in if wreq_index rq = PF_IDX_AR_WRITE_MULTIPLE
     then do {
       (pos, s) \<leftarrow> put_out_at i sz pos (pf_put_write_result be x (result_status st)) s;
       (ret, pos, d, s) \<leftarrow> write_multiple w i sz zero_write_request 0 pos
         (zero_iod_result, zero_status, zero_result, d, s);
       Some (if rd_pos d \<noteq> buf_len d then -1 else ret, pos, d, s) }
     else do {
       (ret, x, status, st, d, s) \<leftarrow>
         pf_cmrpc_perform_one_write w i rq (x, result_status st, st, d, s);
       let s = set_rpc_result i st s;
       (pos, s) \<leftarrow> put_out_at i sz pos (pf_put_write_result be x status) s;
       Some (ret, pos, d, s) })"

definition pf_cmrpc_rm_write_ind ::
  "record_writers \<Rightarrow> nat \<Rightarrow> u16 \<Rightarrow> u16 \<Rightarrow> pnet \<Rightarrow> (int \<times> pnet) option" where
  "pf_cmrpc_rm_write_ind w i req_pos sz s = (let
     status_pos = out_buf_len (the_rpc s i);
     ((ret, st, rq), d) = run_state
       (pf_cmrpc_rm_write_interpret_ind (rpc_status s i) zero_write_request) (session_reader i req_pos s);
     s = set_rpc_result i st s
   in do {
     (hdr_pos, start_pos, s) \<leftarrow> response_start i sz status_pos s;
     if result d \<noteq> PF_PARSE_OK
     then do {
       s \<leftarrow> keep_reader i d s;
       Some (ret, upd_rpc i (\<lambda>x. x\<lparr>out_buf_len := start_pos\<rparr>) s) }
     else do {
       (ret, pos, d, s) \<leftarrow> (if ret = 0 then write_records w i sz rq start_pos d s
         else Some (ret, start_pos, d, s));
       s \<leftarrow> keep_reader i d s;
       let bad = ret = 0 \<and> \<not> (result d = PF_PARSE_OK
         \<and> ucast (rd_pos d) - ucast req_pos = session_args_length s i);
       let s = (if bad then set_rpc_result i (write_fault PNET_ERROR_DECODE_PNIO
           PNET_ERROR_CODE_1_CMRPC PNET_ERROR_CODE_2_CMRPC_ARGSLENGTH_INVALID (rpc_status s i)) s
         else s);
       s \<leftarrow> response_end i sz hdr_pos start_pos pos s;
       s \<leftarrow> put_status i sz status_pos (session_big_endian s i) (rpc_status s i) s;
       Some (if bad then -1 else ret, upd_rpc i (\<lambda>x. x\<lparr>out_buf_len := pos\<rparr>) s) } })"

end
