(* ===== verification/Pn_Epm.thy ===== *)
theory Pn_Epm
  imports Pn_Block_Writer
begin

text \<open>
  The endpoint mapper (\<^verbatim>\<open>src/device/pf_cmrpc_epm.c\<close>): which entry a lookup request gets, and
  the response, whose parts are the last functions of \<^verbatim>\<open>src/device/pf_block_writer.c\<close>. The
  machine is little-endian, which matters for \<^verbatim>\<open>htons\<close> only.
\<close>

section \<open>The response\<close>

record pf_floor_uuid =
  fl_protocol_id :: u8
  fl_uuid :: pf_rpc_uuid_type
  version_major :: u16
  version_minor :: u16

record pf_floor_3 =
  fl3_protocol_id :: u8
  fl3_version_minor :: u16

record pf_floor_4 =
  fl4_protocol_id :: u8
  fl4_port :: u16

record pf_floor_5 =
  fl5_protocol_id :: u8
  fl5_ip_address :: u32

record pf_rpc_tower =
  floor_1 :: pf_floor_uuid
  floor_2 :: pf_floor_uuid
  floor_3 :: pf_floor_3
  floor_4 :: pf_floor_4
  floor_5 :: pf_floor_5

record pf_rpc_entry =
  re_max_count :: u32
  re_offset :: u32
  re_actual_count :: u32
  re_object_uuid :: pf_rpc_uuid_type
  tower_entry :: pf_rpc_tower

record pf_rpc_lookup_rsp =
  rsp_rpc_handle :: pf_rpc_handle
  num_entry :: u32
  rpc_entry :: pf_rpc_entry
  return_code :: u32

text \<open>What the endpoint mapper takes from the configuration of the application.\<close>

record epm_cfg =
  product_name :: "u8 list"
  im_0_data :: pnet_im_0
  device_id_hi :: u8
  device_id_lo :: u8
  vendor_id_hi :: u8
  vendor_id_lo :: u8

definition PF_RPC_TOWER_REFERENTID :: u32 where "PF_RPC_TOWER_REFERENTID = 3"
definition PF_RPC_TOWER_FLOOR_COUNT :: u16 where "PF_RPC_TOWER_FLOOR_COUNT = 5"
definition PF_RPC_EPM_ANNOTATION_LENGTH :: nat where "PF_RPC_EPM_ANNOTATION_LENGTH = 64"
definition PF_RPC_EPM_FLOOR_LENGTH :: u32 where "PF_RPC_EPM_FLOOR_LENGTH = 75"
definition PNET_PRODUCT_NAME_MAX_LEN :: nat where "PNET_PRODUCT_NAME_MAX_LEN = 25"
definition PNET_ORDER_ID_MAX_LEN :: nat where "PNET_ORDER_ID_MAX_LEN = 20"

definition pf_put_rpc_floor_count :: "bool \<Rightarrow> u16 \<Rightarrow> wrm" where
  "pf_put_rpc_floor_count = pf_put_uint16"

definition pf_put_rpc_floor_1_uuid :: "bool \<Rightarrow> pf_floor_uuid \<Rightarrow> wrm" where
  "pf_put_rpc_floor_1_uuid be f = puts [
     pf_put_uint16 be 19,
     pf_put_byte (fl_protocol_id f),
     pf_put_rpc_uuid be (fl_uuid f),
     pf_put_uint16 be (version_major f),
     pf_put_uint16 be 2,
     pf_put_uint16 be (version_minor f)]"

definition pf_put_rpc_floor_2_uuid :: "bool \<Rightarrow> pf_floor_uuid \<Rightarrow> wrm" where
  "pf_put_rpc_floor_2_uuid = pf_put_rpc_floor_1_uuid"

definition pf_put_rpc_floor_3_rpc :: "bool \<Rightarrow> pf_floor_3 \<Rightarrow> wrm" where
  "pf_put_rpc_floor_3_rpc be f = puts [
     pf_put_uint16 be 1,
     pf_put_byte (fl3_protocol_id f),
     pf_put_uint16 be 2,
     pf_put_uint16 be (fl3_version_minor f)]"

definition pf_put_rpc_floor_4_udp :: "bool \<Rightarrow> pf_floor_4 \<Rightarrow> wrm" where
  "pf_put_rpc_floor_4_udp be f = puts [
     pf_put_uint16 be 1,
     pf_put_byte (fl4_protocol_id f),
     pf_put_uint16 be 2,
     pf_put_uint16 be (fl4_port f)]"

definition pf_put_rpc_floor_5_ip :: "bool \<Rightarrow> pf_floor_5 \<Rightarrow> wrm" where
  "pf_put_rpc_floor_5_ip be f = puts [
     pf_put_uint16 be 1,
     pf_put_byte (fl5_protocol_id f),
     pf_put_uint16 be 4,
     pf_put_uint32 be (fl5_ip_address f)]"

text \<open>
  The annotation is a formatted string: the product name and the order ID padded on the right, the
  revisions padded on the left. The character codes are those of ASCII, 32 is the space.
\<close>

fun dec_digits :: "nat \<Rightarrow> u8 list" where
  "dec_digits n = (if n < 10 then [48 + of_nat n] else dec_digits (n div 10) @ [48 + of_nat (n mod 10)])"

declare dec_digits.simps [simp del]

definition pad_left :: "nat \<Rightarrow> u8 list \<Rightarrow> u8 list" where
  "pad_left n s = replicate (n - length s) 32 @ s"

definition pad_right :: "nat \<Rightarrow> u8 list \<Rightarrow> u8 list" where
  "pad_right n s = s @ replicate (n - length s) 32"

definition c_string :: "u8 list \<Rightarrow> u8 list" where
  "c_string = takeWhile (\<lambda>c. c \<noteq> 0)"

definition annotation_text :: "epm_cfg \<Rightarrow> u8 list" where
  "annotation_text c = (let im = im_0_data c in
     pad_right PNET_PRODUCT_NAME_MAX_LEN (c_string (product_name c)) @ [32] @
     pad_right PNET_ORDER_ID_MAX_LEN (c_string (im_order_id im)) @ [32] @
     pad_left 5 (dec_digits (unat (im_hardware_revision im))) @ [32] @
     [im_sw_revision_prefix im] @
     pad_left 3 (dec_digits (unat (im_sw_revision_functional_enhancement im))) @
     pad_left 3 (dec_digits (unat (im_sw_revision_bug_fix im))) @
     pad_left 3 (dec_digits (unat (im_sw_revision_internal_change im))))"

text \<open>
  \<^verbatim>\<open>snprintf\<close> writes at most the size of the array less one, and the zero; what is behind it in
  the array \<open>stack\<close> stays, and is sent too.
\<close>

definition snprintf_into :: "u8 list \<Rightarrow> u8 list \<Rightarrow> u8 list" where
  "snprintf_into s stack = (let t = take (length stack - 1) s @ [0] in t @ drop (length t) stack)"

definition pf_put_rpc_epm_annotation :: "epm_cfg \<Rightarrow> wrm" where
  "pf_put_rpc_epm_annotation c =
     pf_put_mem (snprintf_into (annotation_text c) (replicate PF_RPC_EPM_ANNOTATION_LENGTH 0))
       (of_nat PF_RPC_EPM_ANNOTATION_LENGTH)"

definition pf_put_tower_entry :: "epm_cfg \<Rightarrow> bool \<Rightarrow> pf_rpc_tower \<Rightarrow> wrm" where
  "pf_put_tower_entry c be t = puts [
     pf_put_uint32 be PF_RPC_TOWER_REFERENTID,
     pf_put_uint32 be 0,
     pf_put_uint32 be (of_nat PF_RPC_EPM_ANNOTATION_LENGTH),
     pf_put_rpc_epm_annotation c,
     pf_put_uint32 be PF_RPC_EPM_FLOOR_LENGTH,
     pf_put_uint32 be PF_RPC_EPM_FLOOR_LENGTH,
     pf_put_rpc_floor_count be PF_RPC_TOWER_FLOOR_COUNT,
     pf_put_rpc_floor_1_uuid be (floor_1 t),
     pf_put_rpc_floor_2_uuid be (floor_2 t),
     pf_put_rpc_floor_3_rpc be (floor_3 t),
     pf_put_rpc_floor_4_udp be (floor_4 t),
     pf_put_rpc_floor_5_ip be (floor_5 t)]"

definition pf_put_rpc_handle :: "bool \<Rightarrow> pf_rpc_handle \<Rightarrow> wrm" where
  "pf_put_rpc_handle be h = puts [
     pf_put_uint32 be (rpc_entry_handle h),
     pf_put_rpc_uuid be (handle_uuid h)]"

definition pf_put_rpc_epm_entry :: "epm_cfg \<Rightarrow> bool \<Rightarrow> pf_rpc_entry \<Rightarrow> wrm" where
  "pf_put_rpc_epm_entry c be e = puts ([
     pf_put_uint32 be (re_max_count e),
     pf_put_uint32 be (re_offset e),
     pf_put_uint32 be (re_actual_count e)] @
     (if re_actual_count e > 0
      then [pf_put_rpc_uuid be (re_object_uuid e), pf_put_tower_entry c be (tower_entry e)]
      else []))"

definition pf_put_lookup_response_data :: "epm_cfg \<Rightarrow> bool \<Rightarrow> pf_rpc_lookup_rsp \<Rightarrow> wrm" where
  "pf_put_lookup_response_data c be r w = puts [
     pf_put_rpc_handle be (rsp_rpc_handle r),
     pf_put_uint32 be (num_entry r),
     pf_put_rpc_epm_entry c be (rpc_entry r),
     pf_put_padding_align (wr_pos w) 2,
     pf_put_uint32 be (return_code r)] w"

section \<open>The lookup\<close>

datatype pf_rpc_epm_type = PF_EPM_TYPE_EPMV4 | PF_EPM_TYPE_PNIO

definition PF_RPC_PROTOCOL_DOD_UDP :: u8 where "PF_RPC_PROTOCOL_DOD_UDP = 8"
definition PF_RPC_PROTOCOL_DOD_IP :: u8 where "PF_RPC_PROTOCOL_DOD_IP = 9"
definition PF_RPC_PROTOCOL_CONNECTIONLESS :: u8 where "PF_RPC_PROTOCOL_CONNECTIONLESS = 10"
definition PF_RPC_PROTOCOL_UUID :: u8 where "PF_RPC_PROTOCOL_UUID = 13"
definition PF_RPC_FLOOR_VERSION_EPMv4 :: u16 where "PF_RPC_FLOOR_VERSION_EPMv4 = 3"
definition PF_RPC_FLOOR_VERSION_NPR :: u16 where "PF_RPC_FLOOR_VERSION_NPR = 2"
definition PF_RPC_FLOOR_VERSION_PNIO :: u16 where "PF_RPC_FLOOR_VERSION_PNIO = 1"
definition PF_RPC_FLOOR_VERSION_MINOR :: u16 where "PF_RPC_FLOOR_VERSION_MINOR = 0"
definition PF_RPC_OK :: u32 where "PF_RPC_OK = 0"
definition PF_RPC_NOT_REGISTERED :: u32 where "PF_RPC_NOT_REGISTERED = 0x16C9A0D6"
definition PF_RPC_INQUIRY_READ_ALL_REGISTERED_INTERFACES :: u32 where
  "PF_RPC_INQUIRY_READ_ALL_REGISTERED_INTERFACES = 0"
definition PF_EPM_SERVER_PORT :: u16 where "PF_EPM_SERVER_PORT = 0x8894"

definition rpc_uuid :: "u32 \<Rightarrow> u16 \<Rightarrow> u16 \<Rightarrow> u8 \<Rightarrow> u8 \<Rightarrow> u8 list \<Rightarrow> pf_rpc_uuid_type" where
  "rpc_uuid a b c d e n = \<lparr>time_low = a, time_mid = b, time_hi_and_version = c,
     clock_hi_and_reserved = d, clock_low = e, node = n\<rparr>"

definition uuid_object :: pf_rpc_uuid_type where
  "uuid_object = rpc_uuid 0 0 0 0 0 [0, 0, 0, 0, 0, 0]"
definition uuid_epmap_interface :: pf_rpc_uuid_type where
  "uuid_epmap_interface = rpc_uuid 0xE1AF8308 0x5D1F 0x11C9 0x91 0xA4 [0x08, 0x00, 0x2B, 0x14, 0xA0, 0xFA]"
definition uuid_io_device_interface :: pf_rpc_uuid_type where
  "uuid_io_device_interface = rpc_uuid 0xDEA00001 0x6C97 0x11D1 0x82 0x71 [0x00, 0xA0, 0x24, 0x42, 0xDF, 0x7D]"
definition uuid_io_object_instance :: pf_rpc_uuid_type where
  "uuid_io_object_instance = rpc_uuid 0xDEA00000 0x6C97 0x11D1 0x82 0x71 [0, 0, 0, 0, 0, 0]"
definition uuid_ndr :: pf_rpc_uuid_type where
  "uuid_ndr = rpc_uuid 0x8A885D04 0x1CEB 0x11C9 0x9F 0xE8 [0x08, 0x00, 0x2B, 0x10, 0x48, 0x60]"

text \<open>The high parts of the time do not fit into the 16-bit fields that they are assigned to.\<close>

definition pf_generate_epm_handle :: "u32 \<Rightarrow> u8 list \<Rightarrow> pf_rpc_handle" where
  "pf_generate_epm_handle timestamp mac = \<lparr>rpc_entry_handle = 0, handle_uuid =
     rpc_uuid (timestamp AND 0x0000FFFF) (ucast (timestamp AND 0x00FF0000))
       (ucast ((timestamp AND 0xFF000000) OR 0x1000)) 0x80 0x0C (take 6 mac)\<rparr>"

definition htons :: "u16 \<Rightarrow> u16" where
  "htons p = push_bit 8 p OR drop_bit 8 p"

definition pf_init_rpc_tower_entry :: "pf_rpc_epm_type \<Rightarrow> u16 \<Rightarrow> pf_rpc_tower" where
  "pf_init_rpc_tower_entry ty port =
     \<lparr>floor_1 = (case ty of
        PF_EPM_TYPE_EPMV4 \<Rightarrow> \<lparr>fl_protocol_id = PF_RPC_PROTOCOL_UUID, fl_uuid = uuid_epmap_interface,
          version_major = PF_RPC_FLOOR_VERSION_EPMv4, version_minor = PF_RPC_FLOOR_VERSION_MINOR\<rparr>
      | PF_EPM_TYPE_PNIO \<Rightarrow> \<lparr>fl_protocol_id = PF_RPC_PROTOCOL_UUID, fl_uuid = uuid_io_device_interface,
          version_major = PF_RPC_FLOOR_VERSION_PNIO, version_minor = PF_RPC_FLOOR_VERSION_MINOR\<rparr>),
      floor_2 = \<lparr>fl_protocol_id = PF_RPC_PROTOCOL_UUID, fl_uuid = uuid_ndr,
        version_major = PF_RPC_FLOOR_VERSION_NPR, version_minor = PF_RPC_FLOOR_VERSION_MINOR\<rparr>,
      floor_3 = \<lparr>fl3_protocol_id = PF_RPC_PROTOCOL_CONNECTIONLESS,
        fl3_version_minor = PF_RPC_FLOOR_VERSION_MINOR\<rparr>,
      floor_4 = \<lparr>fl4_protocol_id = PF_RPC_PROTOCOL_DOD_UDP, fl4_port = htons port\<rparr>,
      floor_5 = \<lparr>fl5_protocol_id = PF_RPC_PROTOCOL_DOD_IP, fl5_ip_address = 0\<rparr>\<rparr>"

definition epm_entry :: "u32 \<Rightarrow> u8 list \<Rightarrow> pf_rpc_uuid_type \<Rightarrow> pf_rpc_tower \<Rightarrow> pf_rpc_lookup_rsp \<Rightarrow> pf_rpc_lookup_rsp" where
  "epm_entry now mac u t r = (let n = re_actual_count (rpc_entry r) + 1 in
     r\<lparr>rsp_rpc_handle := pf_generate_epm_handle now mac, num_entry := num_entry r + 1,
       rpc_entry := (rpc_entry r)\<lparr>re_offset := 0, re_actual_count := n, re_object_uuid := u,
         tower_entry := t\<rparr>, return_code := PF_RPC_OK\<rparr>)"

definition pf_cmrdr_add_epmv4_entry :: "u32 \<Rightarrow> u8 list \<Rightarrow> pf_rpc_lookup_rsp \<Rightarrow> pf_rpc_lookup_rsp" where
  "pf_cmrdr_add_epmv4_entry now mac r = (let
     r = epm_entry now mac uuid_object (pf_init_rpc_tower_entry PF_EPM_TYPE_EPMV4 PF_EPM_SERVER_PORT) r
   in r\<lparr>rpc_entry := (rpc_entry r)\<lparr>re_max_count := re_actual_count (rpc_entry r)\<rparr>\<rparr>)"

definition pf_cmrdr_add_pnio_entry :: "epm_cfg \<Rightarrow> u32 \<Rightarrow> u8 list \<Rightarrow> u16 \<Rightarrow> pf_rpc_lookup_rsp \<Rightarrow> pf_rpc_lookup_rsp" where
  "pf_cmrdr_add_pnio_entry c now mac port = epm_entry now mac
     (uuid_io_object_instance\<lparr>node := [0, 1, device_id_hi c, device_id_lo c, vendor_id_hi c, vendor_id_lo c]\<rparr>)
     (pf_init_rpc_tower_entry PF_EPM_TYPE_PNIO port)"

text \<open>
  \<^verbatim>\<open>null_rpc_handle\<close> has the type of a UUID, so that the comparison covers the first 16 of the
  20 bytes of the handle.
\<close>

definition is_null_handle :: "pf_rpc_handle \<Rightarrow> bool" where
  "is_null_handle h \<longleftrightarrow> (let u = handle_uuid h in
     rpc_entry_handle h = 0 \<and> time_low u = 0 \<and> time_mid u = 0 \<and> time_hi_and_version u = 0 \<and>
     clock_hi_and_reserved u = 0 \<and> clock_low u = 0 \<and> take 2 (node u) = [0, 0])"

definition pf_cmrdr_inquiry_read_all_reg_ind ::
  "epm_cfg \<Rightarrow> u32 \<Rightarrow> u8 list \<Rightarrow> u32 \<Rightarrow> u16 \<Rightarrow> pf_rpc_lookup_req \<Rightarrow> pf_rpc_lookup_rsp \<Rightarrow>
    int \<times> pf_rpc_lookup_rsp" where
  "pf_cmrdr_inquiry_read_all_reg_ind c now mac seq port q r =
     (if seq = 0 \<and> is_null_handle (lreq_rpc_handle q) then (0, pf_cmrdr_add_epmv4_entry now mac r)
      else if seq = 1 \<and> \<not> is_null_handle (lreq_rpc_handle q)
      then (0, pf_cmrdr_add_pnio_entry c now mac port r)
      else (-1, r))"

definition zero_rpc_uuid :: pf_rpc_uuid_type where
  "zero_rpc_uuid = rpc_uuid 0 0 0 0 0 (replicate 6 0)"

definition zero_floor :: pf_floor_uuid where
  "zero_floor = \<lparr>fl_protocol_id = 0, fl_uuid = zero_rpc_uuid, version_major = 0, version_minor = 0\<rparr>"

definition empty_lookup_rsp :: pf_rpc_lookup_rsp where
  "empty_lookup_rsp = \<lparr>rsp_rpc_handle = \<lparr>rpc_entry_handle = 0, handle_uuid = zero_rpc_uuid\<rparr>,
     num_entry = 0, rpc_entry = \<lparr>re_max_count = 1, re_offset = 0, re_actual_count = 0,
       re_object_uuid = zero_rpc_uuid, tower_entry = \<lparr>floor_1 = zero_floor, floor_2 = zero_floor,
         floor_3 = \<lparr>fl3_protocol_id = 0, fl3_version_minor = 0\<rparr>,
         floor_4 = \<lparr>fl4_protocol_id = 0, fl4_port = 0\<rparr>,
         floor_5 = \<lparr>fl5_protocol_id = 0, fl5_ip_address = 0\<rparr>\<rparr>\<rparr>,
     return_code = PF_RPC_NOT_REGISTERED\<rparr>"

definition epm_lookup ::
  "epm_cfg \<Rightarrow> u32 \<Rightarrow> u8 list \<Rightarrow> u32 \<Rightarrow> u16 \<Rightarrow> pf_rpc_lookup_req \<Rightarrow> pf_rpc_lookup_rsp" where
  "epm_lookup c now mac seq port q =
     (if max_entries q > 0 \<and> inquiry_type q = PF_RPC_INQUIRY_READ_ALL_REGISTERED_INTERFACES
      then snd (pf_cmrdr_inquiry_read_all_reg_ind c now mac seq port q empty_lookup_rsp)
      else empty_lookup_rsp)"

definition pf_cmrpc_lookup_request ::
  "epm_cfg \<Rightarrow> u32 \<Rightarrow> u8 list \<Rightarrow> u32 \<Rightarrow> u16 \<Rightarrow> pf_rpc_lookup_req \<Rightarrow> wrm" where
  "pf_cmrpc_lookup_request c now mac seq port q =
     pf_put_lookup_response_data c False (epm_lookup c now mac seq port q)"

end
