(* ===== verification/Pn_Rpc_Dce.thy ===== *)
theory Pn_Rpc_Dce
  imports Pn_Rpc Pn_Epm
begin

text \<open>
  The DCE RPC layer of CMRPC (\<^verbatim>\<open>src/device/pf_cmrpc.c\<close>): a received UDP packet finds or
  creates its session, the fragments of a request are put together, the request is dispatched, and
  the response is sent in fragments, one for each acknowledgement.
\<close>

section \<open>Dispatch\<close>

text \<open>What other parts of the stack do for the handlers of requests.\<close>

record rpc_services =
  sv_app :: app_plug
  sv_observers :: "nat \<Rightarrow> pnet \<Rightarrow> pnet option"
  sv_restart_lldp :: "pnet \<Rightarrow> pnet"
  sv_read :: read_record
  sv_writers :: record_writers
  sv_epm_cfg :: epm_cfg

definition PF_RPC_DEV_OPNUM_CONNECT :: u16 where "PF_RPC_DEV_OPNUM_CONNECT = 0"
definition PF_RPC_DEV_OPNUM_RELEASE :: u16 where "PF_RPC_DEV_OPNUM_RELEASE = 1"
definition PF_RPC_DEV_OPNUM_WRITE :: u16 where "PF_RPC_DEV_OPNUM_WRITE = 3"

definition pf_cmrpc_rpc_request ::
  "rpc_services \<Rightarrow> nat \<Rightarrow> u16 \<Rightarrow> pf_rpc_header \<Rightarrow> u16 \<Rightarrow> bool \<Rightarrow> pnet \<Rightarrow> (int \<times> bool \<times> pnet) option" where
  "pf_cmrpc_rpc_request v i req_pos h sz prmend s = (let
     op = opnum h;
     keep = map_option (\<lambda>(ret, s). (ret, prmend, s));
     killed = map_option (\<lambda>(ret, s). (ret, prmend, kill i s))
   in if op = PF_RPC_DEV_OPNUM_CONNECT
      then keep (pf_cmrpc_rm_connect_ind (sv_app v) (sv_observers v) (sv_restart_lldp v) i req_pos sz s)
      else if op = PF_RPC_DEV_OPNUM_RELEASE then killed (pf_cmrpc_rm_release_ind i req_pos sz s)
      else if op = PF_RPC_DEV_OPNUM_READ then keep (pf_cmrpc_rm_read_ind (sv_read v) i op req_pos sz s)
      else if op = PF_RPC_DEV_OPNUM_WRITE then keep (pf_cmrpc_rm_write_ind (sv_writers v) i req_pos sz s)
      else if op = PF_RPC_DEV_OPNUM_CONTROL
      then pf_cmrpc_rm_dcontrol_ind i (sequence_nmb h) req_pos sz prmend s
      else if op = PF_RPC_DEV_OPNUM_READ_IMPLICIT
      then killed (pf_cmrpc_rm_read_ind (sv_read v) i op req_pos sz s)
      else Some (-1, prmend, s))"

definition zero_lookup_request :: pf_rpc_lookup_req where
  "zero_lookup_request = \<lparr>inquiry_type = 0, object_id = 0, lreq_object_uuid = nil_uuid,
     interface_id = 0, lreq_interface_uuid = nil_uuid, interface_ver_major = 0,
     interface_ver_minor = 0, version_option = 0,
     lreq_rpc_handle = \<lparr>rpc_entry_handle = 0, handle_uuid = zero_rpc_uuid\<rparr>, max_entries = 0\<rparr>"

definition pf_cmrpc_lookup_ind ::
  "epm_cfg \<Rightarrow> nat \<Rightarrow> pf_rpc_header \<Rightarrow> u16 \<Rightarrow> u16 \<Rightarrow> pnet \<Rightarrow> (int \<times> pnet) option" where
  "pf_cmrpc_lookup_ind c i h req_pos sz s =
     (if has_error (rpc_status s i)
      then Some (-1, set_rpc_result i (read_fault PNET_ERROR_DECODE_PNIO PNET_ERROR_CODE_1_CMRPC
        PNET_ERROR_CODE_2_CMRPC_STATE_CONFLICT (rpc_status s i)) s)
      else do {
        let (q, d) = run_state (pf_get_epm_lookup_request zero_lookup_request) (session_reader i req_pos s);
        s \<leftarrow> keep_reader i d s;
        s \<leftarrow> put_out i sz (pf_cmrpc_lookup_request c (net_now s) (net_mac s) (sequence_nmb h)
          (udp_port (the_rpc s i)) q) s;
        Some (0, s) })"

section \<open>Packets\<close>

definition PF_RPC_PT_PING :: u8 where "PF_RPC_PT_PING = 1"
definition PF_RPC_PT_RESPONSE :: u8 where "PF_RPC_PT_RESPONSE = 2"
definition PF_RPC_PT_FAULT :: u8 where "PF_RPC_PT_FAULT = 3"
definition PF_RPC_PT_RESP_PING :: u8 where "PF_RPC_PT_RESP_PING = 5"
definition PF_RPC_PT_REJECT :: u8 where "PF_RPC_PT_REJECT = 6"
definition PF_RPC_PT_CL_CANCEL :: u8 where "PF_RPC_PT_CL_CANCEL = 8"
definition PF_RPC_PT_FRAG_ACK :: u8 where "PF_RPC_PT_FRAG_ACK = 9"

definition epmap_interface :: pf_uuid where
  "epmap_interface = \<lparr>data1 = 0xE1AF8308, data2 = 0x5D1F, data3 = 0x11C9,
     data4 = [0x91, 0xA4, 0x08, 0x00, 0x2B, 0x14, 0xA0, 0xFA]\<rparr>"
definition io_device_interface :: pf_uuid where
  "io_device_interface = \<lparr>data1 = 0xDEA00001, data2 = 0x6C97, data3 = 0x11D1,
     data4 = [0x82, 0x71, 0x00, 0xA0, 0x24, 0x42, 0xDF, 0x7D]\<rparr>"

text \<open>The header of an answer: that of the request with another type and other flags.\<close>

definition answer_header :: "u8 \<Rightarrow> bool \<Rightarrow> bool \<Rightarrow> bool \<Rightarrow> bool \<Rightarrow> pf_rpc_header \<Rightarrow> pf_rpc_header" where
  "answer_header ty frag nofack idem be h = h\<lparr>packet_type := ty,
     rpc_flags := no_flags\<lparr>fragment := frag, no_fack := nofack, idempotent := idem\<rparr>,
     cancel_pending := False, rpc_is_big_endian := be\<rparr>"

definition with_fragment_nmb :: "u16 \<Rightarrow> pf_rpc_header \<Rightarrow> pf_rpc_header" where
  "with_fragment_nmb n h = h\<lparr>fragment_nmb := n, serial_high := ucast (drop_bit 8 n),
     serial_low := ucast (n AND 0xFF)\<rparr>"

text \<open>A packet that is a header and nothing else, built in the output frame.\<close>

definition send_header :: "nat \<Rightarrow> pf_rpc_header \<Rightarrow> pnet \<Rightarrow> pnet option" where
  "send_header i h s = do {
     (w, _) \<leftarrow> pf_put_dce_rpc_header h \<lparr>wr_bytes = replicate (unat PF_MAX_UDP_PAYLOAD_SIZE) 0,
       wr_res_len = PF_MAX_UDP_PAYLOAD_SIZE, wr_pos = 0\<rparr>;
     (_, s) \<leftarrow> pf_cmrpc_send_once_from_buffer i (wr_bytes w) (wr_pos w) s;
     Some s }"

definition clear_out :: "rpc_session \<Rightarrow> rpc_session" where
  "clear_out x = (reset_out x)\<lparr>out_buf_send_len := 0\<rparr>"

section \<open>Sessions and the fragments of a request\<close>

definition find_session :: "pf_uuid \<Rightarrow> u32 \<Rightarrow> u16 \<Rightarrow> pnet \<Rightarrow> (nat \<times> bool) option \<times> pnet" where
  "find_session u addr port s =
     (case pf_session_locate_by_uuid u s of
        Some i \<Rightarrow> (Some (i, False), s)
      | None \<Rightarrow> (case pf_session_allocate s of
          (None, s) \<Rightarrow> (None, s)
        | (Some i, s) \<Rightarrow> (Some (i, True),
            upd_session i (\<lambda>x. x\<lparr>from_me := False, se_socket := net_rpcreq_socket s,
              se_rpc := (se_rpc x)\<lparr>ip_addr := addr, udp_port := port\<rparr>\<rparr>) s)))"

text \<open>The first packet of a request sets up the session again.\<close>

definition first_packet :: "pf_rpc_header \<Rightarrow> u32 \<Rightarrow> u16 \<Rightarrow> pf_session_info \<Rightarrow> pf_session_info" where
  "first_packet h addr port x = x\<lparr>kill_session := False, se_rpc := (se_rpc x)\<lparr>in_buf_len := 0,
     ip_addr := addr, udp_port := port, se_activity_uuid := activity_uuid h,
     se_is_big_endian := is_big_endian (rpc_get_info (se_rpc x)), in_fragment_nbr := 0\<rparr>\<rparr>"

text \<open>
  The body of a fragment is appended to the input buffer; the last one makes the input buffer the
  request. The length comes from the header, and may exceed what was received: \<open>req\<close> is the whole
  receive buffer.
\<close>

definition append_fragment :: "nat \<Rightarrow> pf_rpc_header \<Rightarrow> u8 list \<Rightarrow> u16 \<Rightarrow> pnet \<Rightarrow> (u16 \<times> pnet) option" where
  "append_fragment i h req req_pos s = (let
     x = the_rpc s i;
     n = length_of_body h;
     inb = fst (net_session_bufs s ! i);
     conflict = set_rpc_result i (rpc_fault PNET_ERROR_CODE_2_CMRPC_STATE_CONFLICT (rpc_status s i)) s
   in if in_fragment_nbr x \<noteq> fragment_nmb h then Some (req_pos, conflict)
      else if unat (in_buf_len x) + unat n > length inb then Some (req_pos, conflict)
      else if unat req_pos + unat n > length req then None
      else let
        inb = overlay (unat (in_buf_len x)) (take (unat n) (drop (unat req_pos) req)) inb;
        s = upd_rpc i (\<lambda>x. x\<lparr>in_buf_len := in_buf_len x + n, in_fragment_nbr := in_fragment_nbr x + 1\<rparr>)
          (s\<lparr>net_session_bufs := (net_session_bufs s)[i := (inb, snd (net_session_bufs s ! i))]\<rparr>)
      in Some (if last_fragment (rpc_flags h)
        then (0, upd_rpc i (\<lambda>x. x\<lparr>rpc_get_info := (rpc_get_info x)\<lparr>p_buf := Some inb,
          buf_len := in_buf_len x\<rparr>\<rparr>) s)
        else (req_pos, s)))"

definition take_packet ::
  "nat \<Rightarrow> pf_rpc_header \<Rightarrow> u32 \<Rightarrow> u16 \<Rightarrow> u8 list \<Rightarrow> pf_get_info \<Rightarrow> u16 \<Rightarrow> pnet \<Rightarrow> (u16 \<times> pnet) option" where
  "take_packet i h addr port req g req_pos s = (let
     s = upd_rpc i (\<lambda>x. x\<lparr>rpc_get_info := g, rpc_result := zero_result\<rparr>) s
   in if \<not> fragment (rpc_flags h) then Some (req_pos, upd_session i (first_packet h addr port) s)
      else let
        s = (if fragment_nmb h = 0 then upd_session i (first_packet h addr port) s
          else if se_is_big_endian (the_rpc s i) \<noteq> rpc_is_big_endian h
          then set_rpc_result i (rpc_fault PNET_ERROR_CODE_2_CMRPC_STATE_CONFLICT (rpc_status s i)) s
          else s)
      in append_fragment i h req req_pos s)"

section \<open>Requests\<close>

text \<open>
  The arguments' header of a request limits the response, with 32-bit arithmetic; the endpoint
  mapper has no such header and works in little-endian.
\<close>

definition request_args :: "nat \<Rightarrow> bool \<Rightarrow> u16 \<Rightarrow> pnet \<Rightarrow> (u16 \<times> u16 \<times> pnet) option" where
  "request_args i epm req_pos s = (let cap = length (out_buffer s i) in
     if epm then Some (req_pos, of_nat cap,
       upd_rpc i (\<lambda>x. x\<lparr>rpc_get_info := (rpc_get_info x)\<lparr>is_big_endian := False\<rparr>\<rparr>) s)
     else do {
       let (n, d) = run_state pf_get_ndr_data (session_reader i req_pos s);
       s \<leftarrow> keep_reader i d s;
       let remote = ucast (rd_pos d) + args_maximum n;
       Some (rd_pos d, if unat remote > cap then of_nat cap else ucast remote,
         upd_rpc i (\<lambda>x. x\<lparr>ndr_data := n, rpc_get_info := (rpc_get_info x)\<lparr>is_big_endian := True\<rparr>\<rparr>) s) })"

text \<open>The length of the packet, and the flags of its header when it is the first of several.\<close>

definition response_packet ::
  "nat \<Rightarrow> pf_rpc_header \<Rightarrow> u16 \<Rightarrow> u16 \<Rightarrow> u16 \<Rightarrow> pnet \<Rightarrow> (bool \<times> pnet) option" where
  "response_packet i h sz start_pos len_pos s = (let lim = PF_MAX_UDP_PAYLOAD_SIZE in do {
     (frag, len_pos, s) \<leftarrow> (if out_buf_len (the_rpc s i) < lim
       then Some (False, len_pos, upd_rpc i (\<lambda>x. x\<lparr>out_buf_send_len := out_buf_len x\<rparr>) s)
       else do {
         (_, len_pos, s) \<leftarrow> put_header_at i sz 0
           (h\<lparr>rpc_flags := (rpc_flags h)\<lparr>fragment := True, no_fack := False\<rparr>\<rparr>)
           (upd_rpc i (\<lambda>x. x\<lparr>out_buf_send_len := lim\<rparr>) s);
         Some (True, len_pos, s) });
     let n = out_buf_send_len (the_rpc s i);
     (_, s) \<leftarrow> put_out_at i n len_pos (pf_put_uint16 (rpc_is_big_endian h) (n - start_pos)) s;
     Some (frag, s) })"

definition start_resending :: "nat \<Rightarrow> pnet \<Rightarrow> pnet option" where
  "start_resending i s = pf_cmrpc_send_with_timeout i
     (upd_rpc i (\<lambda>x. x\<lparr>resend_counter_rpc := PF_CMRPC_NUMBER_OF_RESENDS\<rparr>) s)"

definition send_response :: "nat \<Rightarrow> int \<Rightarrow> bool \<Rightarrow> pnet \<Rightarrow> (int \<times> pnet) option" where
  "send_response i ret frag s =
     (if frag then map_option (\<lambda>s. (ret, s)) (start_resending i s) else pf_cmrpc_send_once i s)"

definition dispatch_request ::
  "rpc_services \<Rightarrow> nat \<Rightarrow> pf_rpc_header \<Rightarrow> u16 \<Rightarrow> u16 \<Rightarrow> pnet \<Rightarrow> (int \<times> bool \<times> bool \<times> pnet) option" where
  "dispatch_request v i h req_pos sz s =
     (if interface_uuid h = io_device_interface
      then do {
        (ret, prmend, s) \<leftarrow> pf_cmrpc_rpc_request v i req_pos h sz False s;
        Some (ret, prmend, False, s) }
      else if interface_uuid h = epmap_interface
      then do {
        (ret, s) \<leftarrow> pf_cmrpc_lookup_ind (sv_epm_cfg v) i h req_pos sz s;
        Some (ret, False, from_me (the_session s i), kill i s) }
      else Some (-1, False, False, s))"

text \<open>Also tells whether the socket is to be closed.\<close>

definition rpc_request_packet ::
  "rpc_services \<Rightarrow> nat \<Rightarrow> pf_rpc_header \<Rightarrow> u16 \<Rightarrow> bool \<Rightarrow> pnet \<Rightarrow> (int \<times> bool \<times> pnet) option" where
  "rpc_request_packet v i h req_pos close s = (let
     s = upd_rpc i clear_out s;
     epm = interface_uuid h = epmap_interface
   in do {
     (req_pos, sz, s) \<leftarrow> request_args i epm req_pos s;
     let res = with_fragment_nmb 0 (answer_header PF_RPC_PT_RESPONSE False True True
       (session_big_endian s i) h);
     (pos, len_pos, s) \<leftarrow> put_header_at i sz (out_buf_len (the_rpc s i)) res s;
     let s = upd_rpc i (\<lambda>x. x\<lparr>out_buf_len := pos\<rparr>) s;
     let release = opnum h = PF_RPC_DEV_OPNUM_RELEASE;
     let close = (if release then from_me (the_session s i) else close);
     let s = (if release then upd_session i (\<lambda>x. x\<lparr>release_in_progress := True\<rparr>) s else s);
     (ret, prmend, close_epm, s) \<leftarrow> dispatch_request v i h req_pos sz s;
     let res = (if epm then res\<lparr>rpc_flags := (rpc_flags res)\<lparr>idempotent := False\<rparr>\<rparr> else res);
     (frag, s) \<leftarrow> response_packet i res sz pos len_pos s;
     (ret, s) \<leftarrow> send_response i ret frag s;
     s \<leftarrow> (case se_p_ar (the_session s i) of
        Some a \<Rightarrow> if prmend then pf_cmdev_state_ind a PNET_EVENT_PRMEND s else Some s
      | None \<Rightarrow> Some s);
     Some (ret, if epm then close_epm else close, s) })"

section \<open>The next fragment of a response\<close>

text \<open>The next fragment is moved to the front of the buffer, behind its header.\<close>

definition fragment_packet :: "nat \<Rightarrow> pf_rpc_header \<Rightarrow> pnet \<Rightarrow> pnet option" where
  "fragment_packet i h s = (let
     lim = PF_MAX_UDP_PAYLOAD_SIZE;
     x = the_rpc s i;
     rest = out_buf_len x - out_buf_sent_pos x
   in do {
     (start_pos, len_pos, s) \<leftarrow> put_header_at i lim 0 h s;
     (n, len_pos, s) \<leftarrow> (if uint rest < uint lim - uint start_pos
       then do {
         (_, len_pos, s) \<leftarrow> put_header_at i lim 0
           (h\<lparr>rpc_flags := (rpc_flags h)\<lparr>last_fragment := True\<rparr>\<rparr>) s;
         Some (rest, len_pos, s) }
       else Some (lim - start_pos, len_pos, s));
     (_, s) \<leftarrow> put_out_at i lim start_pos
       (pf_put_mem_overlapping (unat (out_buf_sent_pos x)) n) s;
     (_, s) \<leftarrow> put_out_at i lim len_pos (pf_put_uint16 (rpc_is_big_endian h) n) s;
     Some (upd_rpc i (\<lambda>x. x\<lparr>out_buf_send_len := n + start_pos\<rparr>) s) })"

definition rpc_fragment_ack :: "nat \<Rightarrow> pf_rpc_header \<Rightarrow> pnet \<Rightarrow> pnet option" where
  "rpc_fragment_ack i h s = (let
     s = upd_rpc i (\<lambda>x. x\<lparr>out_buf_sent_pos := out_buf_sent_pos x + out_buf_send_len x,
       out_fragment_nbr := out_fragment_nbr x + 1\<rparr>) s;
     x = the_rpc s i;
     mine = from_me (the_session s i)
   in if out_buf_len x > out_buf_sent_pos x
      then do {
        s \<leftarrow> fragment_packet i (with_fragment_nmb (out_fragment_nbr x)
          (answer_header (if mine then PF_RPC_PT_REQUEST else PF_RPC_PT_RESPONSE) True False True
            (if mine then True else session_big_endian s i) h)) s;
        start_resending i s }
      else Some (upd_rpc i clear_out s))"

section \<open>A received packet\<close>

definition zero_rpc_header :: pf_rpc_header where
  "zero_rpc_header = \<lparr>rpc_version = 0, packet_type = 0, rpc_flags = no_flags, cancel_pending = False,
     rpc_is_big_endian = False, float_repr = 0, reserved = 0, serial_high = 0,
     object_uuid = nil_uuid, interface_uuid = nil_uuid, activity_uuid = nil_uuid,
     server_boot_time = 0, interface_version = 0, sequence_nmb = 0, opnum = 0, interface_hint = 0,
     activity_hint = 0, length_of_body = 0, fragment_nmb = 0, auth_protocol = 0, serial_low = 0\<rparr>"

definition rpc_response_packet ::
  "nat \<Rightarrow> pf_rpc_header \<Rightarrow> u16 \<Rightarrow> pnet \<Rightarrow> (int \<times> pnet) option" where
  "rpc_response_packet i h req_pos s = do {
     let (n, d) = run_state pf_get_ndr_data (session_reader i req_pos s);
     s \<leftarrow> keep_reader i d s;
     pf_cmrpc_rpc_response i (rd_pos d) h (upd_rpc i (\<lambda>x. x\<lparr>ndr_data := n,
       rpc_get_info := (rpc_get_info x)\<lparr>is_big_endian := True\<rparr>\<rparr>) s) }"

text \<open>Cancel, fault and reject end the connection; the code that a fault or reject carries is only logged.\<close>

definition rpc_abort_packet :: "nat \<Rightarrow> pnet \<Rightarrow> (int \<times> bool \<times> pnet) option" where
  "rpc_abort_packet i s = do {
     (_, s) \<leftarrow> pf_cmdev_cm_abort (se_p_ar (the_session s i)) s;
     Some (0, from_me (the_session s i), kill i s) }"

definition complete_packet ::
  "rpc_services \<Rightarrow> nat \<Rightarrow> bool \<Rightarrow> pf_rpc_header \<Rightarrow> u16 \<Rightarrow> bool \<Rightarrow> pnet \<Rightarrow> (int \<times> bool \<times> pnet) option" where
  "complete_packet v i is_new h req_pos close s = (let ty = packet_type h in
     if ty = PF_RPC_PT_PING
     then do {
       let s = upd_rpc i clear_out s;
       s \<leftarrow> send_header i ((answer_header PF_RPC_PT_RESP_PING False True True
         (se_is_big_endian (the_rpc s i)) h)\<lparr>fragment_nmb := 0\<rparr>) s;
       Some (-1, close, upd_session i (\<lambda>x. x\<lparr>kill_session := is_new\<rparr>) s) }
     else if ty = PF_RPC_PT_REQUEST then rpc_request_packet v i h req_pos close s
     else if ty = PF_RPC_PT_FRAG_ACK
     then map_option (\<lambda>s. (-1, close, s)) (rpc_fragment_ack i h s)
     else if ty = PF_RPC_PT_RESPONSE
     then if is_new then Some (0, from_me (the_session s i), kill i s)
       else map_option (\<lambda>(ret, s). (ret, close, s)) (rpc_response_packet i h req_pos s)
     else if ty \<in> {PF_RPC_PT_CL_CANCEL, PF_RPC_PT_FAULT, PF_RPC_PT_REJECT}
     then rpc_abort_packet i s
     else Some (-1, close, s))"

text \<open>A fragment that is not the last one is acknowledged when the controller wants that.\<close>

definition partial_packet :: "nat \<Rightarrow> pf_rpc_header \<Rightarrow> pnet \<Rightarrow> pnet option" where
  "partial_packet i h s =
     (if no_fack (rpc_flags h) then Some s
      else send_header i ((answer_header PF_RPC_PT_FRAG_ACK False False False
        (se_is_big_endian (the_rpc s i)) h)\<lparr>length_of_body := 0\<rparr>) s)"

text \<open>
  \<open>req\<close> is the receive buffer and \<open>req_len\<close> the number of received bytes; the fields of the header
  behind the end of a short packet are read as zero.
\<close>

definition pf_cmrpc_dce_packet ::
  "rpc_services \<Rightarrow> u32 \<Rightarrow> u16 \<Rightarrow> u8 list \<Rightarrow> u32 \<Rightarrow> bool \<Rightarrow> pnet \<Rightarrow> (int \<times> bool \<times> pnet) option" where
  "pf_cmrpc_dce_packet v addr port req req_len close s = (let
     g = \<lparr>result = PF_PARSE_OK, is_big_endian = False, p_buf = Some req, buf_len = ucast req_len\<rparr>;
     (h, d) = run_state (pf_get_dce_rpc_header zero_rpc_header) (rd_of g 0);
     (found, s) = find_session (activity_uuid h) addr port s
   in case found of
        None \<Rightarrow> Some (-1, close, s)
      | Some (i, is_new) \<Rightarrow> do {
          (req_pos, s) \<leftarrow> take_packet i h addr port req (get_info_of d) (rd_pos d) s;
          (hd, s) \<leftarrow> timer_remove_if_running (se_resend_timeout (the_session s i)) s;
          let s = upd_session i (\<lambda>x. x\<lparr>se_resend_timeout := hd\<rparr>) s;
          (ret, close, s) \<leftarrow> (if \<not> fragment (rpc_flags h) \<or> last_fragment (rpc_flags h)
            then complete_packet v i is_new h req_pos close s
            else map_option (\<lambda>s. (0, close, s)) (partial_packet i h s));
          s \<leftarrow> (if kill_session (the_session s i) then pf_session_release i s else Some s);
          Some (ret, close, s) })"

text \<open>
  One turn of the receive loop: first the sockets of the sessions that the device has opened, then
  the server's socket. \<open>recv\<close> is what \<^verbatim>\<open>pnal_udp_recvfrom\<close> finds on a socket, after so many
  outputs: the sender and the bytes.
\<close>

type_synonym udp_source = "int \<Rightarrow> nat \<Rightarrow> (u32 \<times> u16 \<times> u8 list) option"


definition receive_buffer :: "u8 list \<Rightarrow> u8 list" where
  "receive_buffer bs = take PF_FRAME_BUFFER_SIZE (bs @ replicate PF_FRAME_BUFFER_SIZE 0)"

definition poll_socket ::
  "rpc_services \<Rightarrow> udp_source \<Rightarrow> int \<Rightarrow> pnet \<Rightarrow> (bool \<times> pnet) option" where
  "poll_socket v recv sock s =
     (case recv sock (length (net_out s)) of
        None \<Rightarrow> Some (False, s)
      | Some (addr, port, bs) \<Rightarrow>
          if bs = [] then Some (False, s)
          else do {
            (_, close, s) \<leftarrow> pf_cmrpc_dce_packet v addr port (receive_buffer bs)
              (of_nat (min (length bs) PF_FRAME_BUFFER_SIZE)) False s;
            Some (close, s) })"

definition pf_cmrpc_periodic :: "rpc_services \<Rightarrow> udp_source \<Rightarrow> pnet \<Rightarrow> pnet option" where
  "pf_cmrpc_periodic v recv s = do {
     s \<leftarrow> fold_m (\<lambda>i s.
       if se_in_use (the_session s i) \<and> from_me (the_session s i)
       then do {
         (close, s) \<leftarrow> poll_socket v recv (se_socket (the_session s i)) s;
         Some (if close then upd_session i (\<lambda>x. x\<lparr>se_socket := -1\<rparr>)
           (emit (Out_udp_close (se_socket (the_session s i))) s) else s) }
       else Some s) [0..<length (net_sessions s)] s;
     (_, s) \<leftarrow> poll_socket v recv (net_rpcreq_socket s) s;
     Some s }"

definition pf_cmrpc_init :: "bool \<Rightarrow> pnet \<Rightarrow> pnet" where
  "pf_cmrpc_init has_mutex s = (let
     s = (if has_mutex then s else let
       s = s\<lparr>net_ars := map (\<lambda>_. w_ar0 (net_world s)) (net_ars s),
         net_sessions := map (\<lambda>_. zero_session) (net_sessions s)\<rparr>;
       (sock, s) = pf_udp_open PF_RPC_SERVER_PORT s
     in s\<lparr>net_rpcreq_socket := sock\<rparr>)
   in s\<lparr>net_session_number := 0x12345678\<rparr>)"

definition pf_cmrpc_exit :: "bool \<Rightarrow> pnet \<Rightarrow> pnet" where
  "pf_cmrpc_exit has_mutex s = (if has_mutex
     then s\<lparr>net_ars := map (\<lambda>_. w_ar0 (net_world s)) (net_ars s),
       net_sessions := map (\<lambda>_. zero_session\<lparr>se_socket := 0\<rparr>) (net_sessions s)\<rparr>
     else s)"

end
