(* ===== verification/Pn_Rpc_Props.thy ===== *)
theory Pn_Rpc_Props
  imports Pn_Rpc_Dce Pn_Block_Reader_Correct Pn_Demo
begin

text \<open>
  What holds of the requests that CMRPC takes apart: the loops over the blocks return for every
  frame, and an accepted connect request has used all of its bytes and has counted what it contains.
\<close>

section \<open>The loops over the blocks return\<close>

lemma frame_keeps_look: "frame.keeps (State (\<lambda>d. (f d, d)))"
  by (simp add: frame.keeps_def reader_frame_def)

lemma frame_keeps_session:
  "frame.keeps get_pos" "frame.keeps (block_fits h)"
  unfolding get_pos_def block_fits_def by (rule frame_keeps_look)+

lemma frame_keeps_into_ar: "(\<And>x. frame.keeps (p x)) \<Longrightarrow> frame.keeps (into_ar p r)"
  unfolding into_ar_def by (intro frame.keeps_rules) simp

lemmas frame_rules = frame.keeps_rules frame_keeps_session frame_keeps_into_ar frame.keeps_all
  frame.keeps_exp_api_module

lemma frame_keeps_block_end: "frame.keeps (connect_block_end p h c f st r)"
  unfolding connect_block_end_def by (intro frame_rules)

lemma frame_keeps_ar_block: "frame.keeps (connect_ar_block b h st r)"
  unfolding connect_ar_block_def
  by (intro frame_rules) (auto split: option.split intro!: frame_rules)

lemma frame_keeps_iocr_block: "frame.keeps (connect_iocr_block p h st r)"
  unfolding connect_iocr_block_def by (intro frame_rules frame_keeps_block_end)

lemma frame_keeps_exp_block: "frame.keeps (connect_exp_block p h st r)"
  unfolding connect_exp_block_def
  by (intro frame_rules) (auto split: pf_get_result.split intro!: frame_rules frame_keeps_block_end)

lemma frame_keeps_other_block:
  "(\<And>x. frame.keeps (q x)) \<Longrightarrow> frame.keeps (connect_other_block p h c q f st r)"
  unfolding connect_other_block_def by (intro frame_rules frame_keeps_block_end) simp

lemma frame_keeps_block_body: "frame.keeps (connect_block_body b h p st r)"
  unfolding connect_block_body_def
  by (intro frame_rules frame_keeps_ar_block frame_keeps_iocr_block frame_keeps_exp_block
      frame_keeps_other_block)

text \<open>A step reads a header and goes on from there.\<close>

lemma honest_frame: "honest d \<Longrightarrow> reader_frame d e \<Longrightarrow> honest e"
  by (auto simp: honest_def reader_frame_def)

lemma header_then:
  assumes "honest d" and "more_blocks d" and "\<And>h. frame.keeps (m h)"
  shows "honest (snd (run_state (do { h \<leftarrow> pf_get_block_header; m h }) d)) \<and>
    buf_len (snd (run_state (do { h \<leftarrow> pf_get_block_header; m h }) d)) = buf_len d \<and>
    unat (rd_pos d) + 6 \<le> unat (rd_pos (snd (run_state (do { h \<leftarrow> pf_get_block_header; m h }) d)))"
proof -
  obtain h e where h: "run_state pf_get_block_header d = (h, e)" by fastforce
  have e: "honest e" "buf_len e = buf_len d" "unat (rd_pos e) = unat (rd_pos d) + 6"
    using takes_block_header assms(1,2) h
    by (auto simp: takes_def took_def more_blocks_def dest!: spec [of _ d])
  have f: "reader_frame e (snd (run_state (m h) e))" by (rule frame.keeps_run [OF assms(3)])
  show ?thesis
    using e f honest_frame [OF e(1) f] h by (auto simp: reader_frame_def word_le_nat_alt)
qed

lemma connect_block_progress:
  assumes "honest d" and "more_blocks d"
    and e: "run_state (connect_block b st r) d = (x, e)"
  shows "honest e \<and> buf_len e = buf_len d \<and> unat (rd_pos d) + 6 \<le> unat (rd_pos e)"
  using header_then [OF assms(1,2), of "\<lambda>h. do {
     data_pos \<leftarrow> get_pos;
     fits \<leftarrow> block_fits h;
     if fits then connect_block_body b h data_pos st r
     else rd_return (-1, rpc_fault PNET_ERROR_CODE_2_CMRPC_UNKNOWN_BLOCKS st, r) }"] e
  unfolding connect_block_def [symmetric]
  by (simp add: frame_rules frame_keeps_block_body)

lemma control_block_progress:
  assumes "honest d" and "more_blocks d"
    and e: "run_state (control_block ts c x) d = (y, e)"
  shows "honest e \<and> buf_len e = buf_len d \<and> unat (rd_pos d) + 6 \<le> unat (rd_pos e)"
  using header_then [OF assms(1,2), of "\<lambda>h. do {
     fits \<leftarrow> block_fits h;
     if \<not> fits then rd_return x
     else if block_type h \<in> set ts
     then do { cb \<leftarrow> pf_get_control (snd (snd x)); rd_return (fst x, fst (snd x), cb) }
     else rd_return (-1, pf_set_error c PNET_ERROR_DECODE_PNIO PNET_ERROR_CODE_1_CMRPC
       PNET_ERROR_CODE_2_CMRPC_UNKNOWN_BLOCKS (fst (snd x)), snd (snd x)) }"] e
  unfolding control_block_def [symmetric]
  by (simp add: frame_rules)

text \<open>A loop that moves the position forward returns.\<close>

lemma connect_blocks_returns:
  "honest d \<Longrightarrow> \<exists>y e. connect_blocks b x d = Some (y, e) \<and> honest e \<and> buf_len e = buf_len d
     \<and> rd_pos d \<le> rd_pos e \<and> (fst y = 0 \<longrightarrow> \<not> more_blocks e)"
proof (induction "unat (buf_len d) - unat (rd_pos d)" arbitrary: b x d rule: less_induct)
  case less
  show ?case
  proof (cases "fst x = 0 \<and> more_blocks d")
    case False
    then show ?thesis using less.prems by (subst connect_blocks.simps, cases x) auto
  next
    case True
    obtain z e where z: "run_state (connect_block b (fst (snd x)) (snd (snd x))) d = (z, e)"
      by fastforce
    note p = connect_block_progress [OF less.prems _ z]
    have e: "honest e" "buf_len e = buf_len d" "unat (rd_pos d) + 6 \<le> unat (rd_pos e)"
      using p True by auto
    have "unat (rd_pos e) \<le> unat (buf_len d)"
      using e(1,2) by (simp add: honest_def word_le_nat_alt)
    then have "unat (buf_len e) - unat (rd_pos e) < unat (buf_len d) - unat (rd_pos d)"
      using e by simp
    from less.hyps [OF this e(1), of False z] obtain y g where
      "connect_blocks False z e = Some (y, g)" "honest g" "buf_len g = buf_len e"
      "rd_pos e \<le> rd_pos g" "fst y = 0 \<longrightarrow> \<not> more_blocks g" by blast
    then show ?thesis using True z e
      by (subst connect_blocks.simps) (auto simp: word_le_nat_alt)
  qed
qed

lemma control_blocks_returns:
  "honest d \<Longrightarrow> \<exists>y e. control_blocks ts c x d = Some (y, e) \<and> honest e \<and> buf_len e = buf_len d
     \<and> rd_pos d \<le> rd_pos e"
proof (induction "unat (buf_len d) - unat (rd_pos d)" arbitrary: x d rule: less_induct)
  case less
  show ?case
  proof (cases "more_blocks d")
    case False
    then show ?thesis using less.prems by (subst control_blocks.simps, cases x) auto
  next
    case True
    obtain z e where z: "run_state (control_block ts c x) d = (z, e)" by fastforce
    note e = control_block_progress [OF less.prems True z]
    have "unat (rd_pos e) \<le> unat (buf_len d)"
      using e by (auto simp: honest_def word_le_nat_alt)
    then have "unat (buf_len e) - unat (rd_pos e) < unat (buf_len d) - unat (rd_pos d)"
      using e by auto
    from less.hyps [OF this, of z] e obtain y g where
      "control_blocks ts c z e = Some (y, g)" "honest g" "buf_len g = buf_len e"
      "rd_pos e \<le> rd_pos g" by blast
    then show ?thesis using True z e
      by (subst control_blocks.simps, cases y) (auto simp: word_le_nat_alt)
  qed
qed

section \<open>What an accepted connect request has counted\<close>

abbreviation device_access_ar :: "ar \<Rightarrow> bool" where
  "device_access_ar r \<equiv> device_access (ar_properties (ar_param (cfg r)))"

text \<open>The parsers of single blocks leave the number of CRs and the parameters of the AR alone.\<close>

definition same_crs :: "pf_ar \<Rightarrow> pf_ar \<Rightarrow> bool" where
  "same_crs x y \<longleftrightarrow> nbr_iocrs y = nbr_iocrs x \<and> iocrs y = iocrs x \<and> ar_param y = ar_param x"

definition one_cr_parsed :: "nat \<Rightarrow> pf_ar \<Rightarrow> pf_ar \<Rightarrow> bool" where
  "one_cr_parsed n x y \<longleftrightarrow> nbr_iocrs y = nbr_iocrs x \<and> length (iocrs y) = length (iocrs x) \<and>
     (\<forall>j. j \<noteq> n \<longrightarrow> iocrs y ! j = iocrs x ! j) \<and> ar_param y = ar_param x"

lemma yields_then: "(\<And>x. yields (f x) Q) \<Longrightarrow> yields (State_Monad.bind m f) Q"
  by (rule yields_bind [OF yields_any])

lemma yields_on_elem_nth: "yields (on_elem xs i f) (\<lambda>ys. length ys = length xs \<and> (\<forall>j. j \<noteq> i \<longrightarrow> ys ! j = xs ! j))"
proof (cases "i < length xs")
  case True
  then show ?thesis unfolding on_elem_def if_P [OF True] by (intro yields_then yields_return) simp
next
  case False
  then show ?thesis by (simp add: on_elem_def yields_def fault_def)
qed

lemma one_cr_iocr: "yields (pf_get_iocr_param n r) (one_cr_parsed (unat n) r)"
  unfolding pf_get_iocr_param_def
  by (rule yields_bind [OF yields_on_elem_nth]) (simp add: yields_return one_cr_parsed_def)

lemma same_crs_exp_step:
  "same_crs r (snd z) \<Longrightarrow> yields (pf_get_exp_api_step z) (\<lambda>z. same_crs r (snd z))"
  unfolding pf_get_exp_api_step_def
  by (cases z) (auto simp: Let_def same_crs_def intro!: yields_then yields_return split: option.split)

lemma same_crs_exp: "yields (pf_get_exp_api_module r) (same_crs r)"
  unfolding pf_get_exp_api_module_def
proof (rule yields_then)
  fix n
  have "yields (for_rdm (unat n) 0 (\<lambda>_. pf_get_exp_api_step) (None, r)) (\<lambda>z. same_crs r (snd z))"
    by (rule yields_for [OF same_crs_exp_step]) (simp_all add: same_crs_def)
  then show "yields (State_Monad.bind (for_rdm (unat n) 0 (\<lambda>_. pf_get_exp_api_step) (None, r))
      (\<lambda>(_, p_ar). rd_return p_ar)) (same_crs r)"
    by (rule yields_bind) (auto intro: yields_return)
qed

lemma same_crs_others:
  "yields (pf_get_alarm_cr_request r) (same_crs r)" "yields (pf_get_ar_prm_server_request r) (same_crs r)"
  "yields (pf_get_mcr_request n r) (same_crs r)" "yields (pf_get_ar_rpc_request r) (same_crs r)"
  "yields (pf_get_ar_vendor_request n r) (same_crs r)" "yields (pf_get_ir_info_request r) (same_crs r)"
  unfolding pf_get_alarm_cr_request_def pf_get_ar_prm_server_request_def pf_get_mcr_request_def
    pf_get_ar_rpc_request_def pf_get_ar_vendor_request_def pf_get_ir_info_request_def Let_def
  by (intro yields_then yields_return; simp add: same_crs_def)+

lemma ar_param_crs: "yields (pf_get_ar_param r) (\<lambda>r'. nbr_iocrs r' = nbr_iocrs r \<and> iocrs r' = iocrs r)"
  unfolding pf_get_ar_param_def Let_def by (intro yields_then yields_return) simp

definition cr_sum :: "ar \<Rightarrow> nat" where
  "cr_sum r = unat (input_cr_cnt (counts r)) + unat (output_cr_cnt (counts r)) + unat (mcr_cons_cnt (counts r))"

text \<open>The CRs of one type among those of the AR, and the counter that is kept for the type.\<close>

definition crs_of_type :: "u16 \<Rightarrow> pf_ar \<Rightarrow> nat" where
  "crs_of_type ty x = length (filter (\<lambda>c. iocr_type (iocr_param c) = ty) (take (unat (nbr_iocrs x)) (iocrs x)))"

abbreviation type_of_cr :: "nat \<Rightarrow> ar \<Rightarrow> u16" where
  "type_of_cr i r \<equiv> iocr_type (iocr_param (iocrs (cfg r) ! i))"

text \<open>What one accepted block may change: it is an IOCR, which has room and is counted once, or it is not.\<close>

definition same_counts :: "ar \<Rightarrow> ar \<Rightarrow> bool" where
  "same_counts r r' \<longleftrightarrow> iocrs (cfg r') = iocrs (cfg r) \<and> nbr_iocrs (cfg r') = nbr_iocrs (cfg r) \<and>
     input_cr_cnt (counts r') = input_cr_cnt (counts r) \<and> output_cr_cnt (counts r') = output_cr_cnt (counts r) \<and>
     mcr_cons_cnt (counts r') = mcr_cons_cnt (counts r)"

definition one_more_cr :: "ar \<Rightarrow> ar \<Rightarrow> bool" where
  "one_more_cr r r' \<longleftrightarrow> (let n = unat (nbr_iocrs (cfg r)); x = iocrs (cfg r); ty = type_of_cr n r' in
     length (iocrs (cfg r')) = length x \<and> (\<forall>j. j \<noteq> n \<longrightarrow> iocrs (cfg r') ! j = x ! j) \<and>
     n < length x \<and> nbr_iocrs (cfg r') = nbr_iocrs (cfg r) + 1 \<and>
     input_cr_cnt (counts r') = input_cr_cnt (counts r) + of_bool (ty = PF_IOCR_TYPE_INPUT) \<and>
     output_cr_cnt (counts r') = output_cr_cnt (counts r) + of_bool (ty = PF_IOCR_TYPE_OUTPUT) \<and>
     mcr_cons_cnt (counts r') = mcr_cons_cnt (counts r) + of_bool (ty = PF_IOCR_TYPE_MC_CONSUMER))"

definition block_accepted :: "ar \<Rightarrow> ar \<Rightarrow> bool" where
  "block_accepted r r' \<longleftrightarrow> \<not> device_access_ar r' \<and> device_access_ar r = device_access_ar r' \<and>
     nbr_ar_param (counts r') = nbr_ar_param (counts r) \<and> (same_counts r r' \<or> one_more_cr r r')"

abbreviation when_ok :: "(ar \<Rightarrow> bool) \<Rightarrow> connect_result \<Rightarrow> bool" where
  "when_ok Q y \<equiv> fst y = 0 \<longrightarrow> Q (snd (snd y))"

lemma yields_block_end:
  assumes "\<not> device_access_ar r \<Longrightarrow> Q (count r)"
  shows "yields (connect_block_end p h c count st r) (when_ok Q)"
  unfolding connect_block_end_def
  by (rule yields_then, rule yields_return) (auto simp: assms split: prod.split)

lemma yields_into_ar: "yields (p (cfg r)) Q \<Longrightarrow> yields (into_ar p r) (\<lambda>r'. \<exists>x. r' = r\<lparr>cfg := x\<rparr> \<and> Q x)"
  unfolding into_ar_def by (erule yields_bind) (auto intro: yields_return)

lemma count_iocr_counts:
  "input_cr_cnt (count_iocr q c) = input_cr_cnt c + of_bool (iocr_type q = PF_IOCR_TYPE_INPUT)"
  "output_cr_cnt (count_iocr q c) = output_cr_cnt c + of_bool (iocr_type q = PF_IOCR_TYPE_OUTPUT)"
  "mcr_cons_cnt (count_iocr q c) = mcr_cons_cnt c + of_bool (iocr_type q = PF_IOCR_TYPE_MC_CONSUMER)"
  "nbr_ar_param (count_iocr q c) = nbr_ar_param c"
  by (simp_all add: count_iocr_def Let_def PF_IOCR_TYPE_INPUT_def PF_IOCR_TYPE_OUTPUT_def
      PF_IOCR_TYPE_MC_CONSUMER_def)

lemma iocr_block_ok: "yields (connect_iocr_block p h st r) (when_ok (block_accepted r))"
proof (cases "unat (nbr_iocrs (cfg r)) < length (iocrs (cfg r))")
  case True
  show ?thesis
    unfolding connect_iocr_block_def Let_def if_P [OF True]
  proof (rule yields_bind, rule yields_into_ar, rule one_cr_iocr)
    fix r' assume "\<exists>x. r' = r\<lparr>cfg := x\<rparr> \<and> one_cr_parsed (unat (nbr_iocrs (cfg r))) (cfg r) x"
    then obtain x where r': "r' = r\<lparr>cfg := x\<rparr>" "one_cr_parsed (unat (nbr_iocrs (cfg r))) (cfg r) x" by blast
    then show "yields (connect_block_end p h PNET_ERROR_CODE_1_CONN_FAULTY_IOCR_BLOCK_REQ
        (\<lambda>y. y\<lparr>cfg := (cfg y)\<lparr>nbr_iocrs := nbr_iocrs (cfg r) + 1\<rparr>\<rparr>) st
        (counting (count_iocr (iocr_param (iocrs (cfg r') ! unat (nbr_iocrs (cfg r))))) r'))
      (when_ok (block_accepted r))"
      using True
      by (intro yields_block_end)
         (auto simp: block_accepted_def one_more_cr_def one_cr_parsed_def counting_def count_iocr_counts Let_def)
  qed
next
  case False
  then show ?thesis by (simp add: connect_iocr_block_def Let_def yields_return)
qed


lemma other_block_ok:
  assumes "yields (q (cfg r)) (same_crs (cfg r))"
    and "\<And>c. input_cr_cnt (f c) = input_cr_cnt c" "\<And>c. output_cr_cnt (f c) = output_cr_cnt c"
      "\<And>c. mcr_cons_cnt (f c) = mcr_cons_cnt c" "\<And>c. nbr_ar_param (f c) = nbr_ar_param c"
  shows "yields (connect_other_block p h c1 q f st r) (when_ok (block_accepted r))"
  unfolding connect_other_block_def
proof (rule yields_bind, rule yields_into_ar, rule assms(1))
  fix r' assume "\<exists>x. r' = r\<lparr>cfg := x\<rparr> \<and> same_crs (cfg r) x"
  then show "yields (connect_block_end p h c1 (counting f) st r') (when_ok (block_accepted r))"
    by (intro yields_block_end)
       (auto simp: block_accepted_def same_counts_def same_crs_def counting_def assms(2-5))
qed

lemma exp_block_ok: "yields (connect_exp_block p h st r) (when_ok (block_accepted r))"
  unfolding connect_exp_block_def
proof (rule yields_bind, rule yields_into_ar, rule same_crs_exp)
  fix r' assume r': "\<exists>x. r' = r\<lparr>cfg := x\<rparr> \<and> same_crs (cfg r) x"
  have e: "yields (connect_block_end p h c1 id st r') (when_ok (block_accepted r))" for c1
    using r' by (intro yields_block_end)
       (auto simp: block_accepted_def same_counts_def same_crs_def)
  show "yields (do {
      res \<leftarrow> get_result;
      case res of
        PF_PARSE_OK \<Rightarrow> connect_block_end p h PNET_ERROR_CODE_1_CONN_FAULTY_EXP_BLOCK_REQ id st r'
      | PF_PARSE_NULL_POINTER \<Rightarrow> rd_return (-1, rpc_fault PNET_ERROR_CODE_2_CMRPC_UNKNOWN_BLOCKS st, r')
      | PF_PARSE_ERROR \<Rightarrow> rd_return (-1, rpc_fault PNET_ERROR_CODE_2_CMRPC_UNKNOWN_BLOCKS st, r')
      | _ \<Rightarrow> rd_return (-1, rpc_fault PNET_ERROR_CODE_2_CMRPC_OUT_OF_MEMORY st, r') })
     (when_ok (block_accepted r))"
    by (rule yields_then) (auto split: pf_get_result.split intro: e yields_return)
qed

text \<open>The block of the AR itself counts only as the first one.\<close>

definition ar_block_accepted :: "ar \<Rightarrow> ar \<Rightarrow> bool" where
  "ar_block_accepted r r' \<longleftrightarrow> same_counts r r' \<and> nbr_ar_param (counts r') = nbr_ar_param (counts r) + 1"

lemma ar_block_ok:
  "yields (connect_ar_block b h st r) (when_ok (\<lambda>r'. b \<and> ar_block_accepted r r'))"
  unfolding connect_ar_block_def
  by (rule yields_bind, rule yields_into_ar, rule ar_param_crs)
     (auto intro!: yields_return split: option.split prod.split
       simp: ar_block_accepted_def same_counts_def counting_def)


lemma block_body_ok:
  "yields (connect_block_body b h p st r)
     (when_ok (\<lambda>r'. block_accepted r r' \<or> b \<and> ar_block_accepted r r'))"
proof -
  have w: "yields m (when_ok (block_accepted r)) \<Longrightarrow>
      yields m (when_ok (\<lambda>r'. block_accepted r r' \<or> b \<and> ar_block_accepted r r'))" for m
    by (auto simp: yields_def)
  have a: "yields (connect_ar_block b h st r)
      (when_ok (\<lambda>r'. block_accepted r r' \<or> b \<and> ar_block_accepted r r'))"
    using ar_block_ok [of b h st r] by (auto simp: yields_def)
  show ?thesis
    unfolding connect_block_body_def Let_def
    by (auto intro!: a w [OF iocr_block_ok] w [OF exp_block_ok] w [OF other_block_ok] same_crs_others
        intro: yields_return)
qed

lemma connect_block_ok:
  assumes "run_state (connect_block b st r) d = ((0, st', r'), e)"
  shows "block_accepted r r' \<or> b \<and> ar_block_accepted r r'"
proof -
  have "yields (connect_block b st r) (when_ok (\<lambda>r'. block_accepted r r' \<or> b \<and> ar_block_accepted r r'))"
    unfolding connect_block_def
  proof (intro yields_then)
    fix h p fits
    show "yields (if fits then connect_block_body b h p st r
        else rd_return (-1, rpc_fault PNET_ERROR_CODE_2_CMRPC_UNKNOWN_BLOCKS st, r))
      (when_ok (\<lambda>r'. block_accepted r r' \<or> b \<and> ar_block_accepted r r'))"
      using block_body_ok [of b h p st r] by (auto intro: yields_return)
  qed
  then show ?thesis using assms by (auto simp: yields_def dest!: spec [of _ d])
qed

text \<open>What holds between two blocks.\<close>

definition crs_counted :: "ar \<Rightarrow> bool" where
  "crs_counted r \<longleftrightarrow> unat (nbr_iocrs (cfg r)) \<le> length (iocrs (cfg r)) \<and>
     (device_access_ar r \<longrightarrow> nbr_iocrs (cfg r) = 0) \<and>
     unat (input_cr_cnt (counts r)) = crs_of_type PF_IOCR_TYPE_INPUT (cfg r) \<and>
     unat (output_cr_cnt (counts r)) = crs_of_type PF_IOCR_TYPE_OUTPUT (cfg r) \<and>
     unat (mcr_cons_cnt (counts r)) = crs_of_type PF_IOCR_TYPE_MC_CONSUMER (cfg r)"

lemma crs_of_type_le: "crs_of_type ty x \<le> unat (nbr_iocrs x)"
  unfolding crs_of_type_def by (rule order.trans [OF length_filter_le]) simp

lemma unat_add_flag: "unat n + 1 < 65536 \<Longrightarrow> unat ((n :: u16) + of_bool b) = unat n + of_bool b"
  by (cases b) (simp_all add: unat_word_ariths(1))

lemma one_more_of_type:
  assumes "one_more_cr r r'" and "length (iocrs (cfg r)) < 65536"
  shows "crs_of_type ty (cfg r') = crs_of_type ty (cfg r) + of_bool (type_of_cr (unat (nbr_iocrs (cfg r))) r' = ty)"
proof -
  let ?n = "unat (nbr_iocrs (cfg r))"
  have n: "?n < length (iocrs (cfg r))" "length (iocrs (cfg r')) = length (iocrs (cfg r))"
    "\<And>j. j \<noteq> ?n \<Longrightarrow> iocrs (cfg r') ! j = iocrs (cfg r) ! j" "nbr_iocrs (cfg r') = nbr_iocrs (cfg r) + 1"
    using assms(1) by (simp_all add: one_more_cr_def Let_def)
  have "unat (nbr_iocrs (cfg r')) = Suc ?n" using n assms(2) by (simp add: unat_word_ariths(1))
  moreover have "take ?n (iocrs (cfg r')) = take ?n (iocrs (cfg r))"
    using n by (intro nth_take_lemma) simp_all
  ultimately show ?thesis using n by (simp add: crs_of_type_def take_Suc_conv_app_nth)
qed

lemma crs_counted_step:
  assumes c: "crs_counted r" and len: "length (iocrs (cfg r)) < 65536" and ok: "block_accepted r r'"
  shows "crs_counted r' \<and> length (iocrs (cfg r')) = length (iocrs (cfg r)) \<and>
    nbr_ar_param (counts r') = nbr_ar_param (counts r)"
proof (cases "same_counts r r'")
  case True
  then show ?thesis
    using c ok by (simp add: crs_counted_def block_accepted_def same_counts_def crs_of_type_def)
next
  case False
  then have m: "one_more_cr r r'" using ok by (simp add: block_accepted_def)
  then have n: "unat (nbr_iocrs (cfg r)) < length (iocrs (cfg r))" by (simp add: one_more_cr_def Let_def)
  have up: "unat (k + of_bool b) = unat k + of_bool b" if "unat k = crs_of_type ty (cfg r)" for k :: u16 and b ty
    using that n len crs_of_type_le [of ty "cfg r"] by (intro unat_add_flag) simp
  have "unat (nbr_iocrs (cfg r')) \<le> length (iocrs (cfg r'))"
    using m n len by (simp add: one_more_cr_def Let_def unat_word_ariths(1))
  moreover have "unat (input_cr_cnt (counts r')) = crs_of_type PF_IOCR_TYPE_INPUT (cfg r')"
    "unat (output_cr_cnt (counts r')) = crs_of_type PF_IOCR_TYPE_OUTPUT (cfg r')"
    "unat (mcr_cons_cnt (counts r')) = crs_of_type PF_IOCR_TYPE_MC_CONSUMER (cfg r')"
    using m c by (simp_all add: one_more_of_type [OF m len] one_more_cr_def Let_def crs_counted_def up)
  ultimately show ?thesis
    using m ok by (simp add: crs_counted_def block_accepted_def one_more_cr_def Let_def)
qed

lemma crs_counted_sum:
  assumes "crs_counted r"
  shows "cr_sum r \<le> unat (nbr_iocrs (cfg r))"
proof -
  have "length (filter (\<lambda>c. iocr_type (iocr_param c) = PF_IOCR_TYPE_INPUT) xs)
      + length (filter (\<lambda>c. iocr_type (iocr_param c) = PF_IOCR_TYPE_OUTPUT) xs)
      + length (filter (\<lambda>c. iocr_type (iocr_param c) = PF_IOCR_TYPE_MC_CONSUMER) xs) \<le> length xs" for xs :: "pf_iocr list"
    by (induction xs) (auto simp: PF_IOCR_TYPE_INPUT_def PF_IOCR_TYPE_OUTPUT_def PF_IOCR_TYPE_MC_CONSUMER_def)
  from this [of "take (unat (nbr_iocrs (cfg r))) (iocrs (cfg r))"] show ?thesis
    using assms by (simp add: crs_counted_def cr_sum_def crs_of_type_def)
qed

lemma crs_counted_none: "nbr_iocrs (cfg r) = 0 \<Longrightarrow> cr_sum r = 0 \<Longrightarrow> crs_counted r"
  by (simp add: crs_counted_def cr_sum_def crs_of_type_def)

lemma connect_blocks_counted:
  "honest d \<Longrightarrow> connect_blocks False (ret, st, r) d = Some ((0, st', r'), e) \<Longrightarrow> crs_counted r \<Longrightarrow>
    length (iocrs (cfg r)) < 65536 \<Longrightarrow>
    crs_counted r' \<and> length (iocrs (cfg r')) = length (iocrs (cfg r)) \<and>
    nbr_ar_param (counts r') = nbr_ar_param (counts r)"
proof (induction "unat (buf_len d) - unat (rd_pos d)" arbitrary: ret st r d rule: less_induct)
  case less
  show ?case
  proof (cases "ret = 0 \<and> more_blocks d")
    case False
    then have "(ret, st, r) = (0, st', r')"
      using less.prems(2) by (subst (asm) connect_blocks.simps) (auto split: if_splits)
    then show ?thesis using less.prems(3) by simp
  next
    case True
    obtain ret1 st1 r1 d1 where z: "run_state (connect_block False st r) d = ((ret1, st1, r1), d1)"
      by (metis prod.exhaust)
    have rest: "connect_blocks False (ret1, st1, r1) d1 = Some ((0, st', r'), e)"
      using less.prems(2) True z by (subst (asm) connect_blocks.simps) simp
    have "ret1 = 0"
    proof (rule ccontr)
      assume "ret1 \<noteq> 0"
      then show False using rest by (subst (asm) connect_blocks.simps) simp
    qed
    then have ok: "block_accepted r r1" using connect_block_ok [of False st r d st1 r1 d1] z by simp
    have p: "honest d1" "buf_len d1 = buf_len d" "unat (rd_pos d) + 6 \<le> unat (rd_pos d1)"
      using connect_block_progress [OF less.prems(1) _ z] True by auto
    then have "unat (buf_len d1) - unat (rd_pos d1) < unat (buf_len d) - unat (rd_pos d)"
      by (auto simp: honest_def word_le_nat_alt)
    from less.hyps [OF this p(1) rest] crs_counted_step [OF less.prems(3,4) ok] less.prems(4)
    show ?thesis by simp
  qed
qed

section \<open>The properties\<close>

lemma unat_u32: "unat (ucast (x :: u16) :: u32) = unat x"
proof -
  have "unat x < 2 ^ 16" using unsigned_less [of x, where ?'a = nat] by simp
  then show ?thesis by (simp add: unsigned_ucast_eq take_bit_nat_eq_self)
qed

lemma unat_difference: "b \<le> a \<Longrightarrow> unat (ucast (a :: u16) - ucast b :: u32) = unat a - unat b"
  by (subst unat_sub) (simp_all add: unat_u32 word_le_nat_alt)

lemma control_end_returns:
  assumes "honest d"
  shows "\<exists>x e. (do { (x, e) \<leftarrow> control_blocks ts c y d; Some (control_end a1 a2 a3 a4 (rd_pos d) n x e, e) }) = Some (x, e) \<and> honest e"
  using control_blocks_returns [OF assms, of ts c y] by fastforce

text \<open>C33. For every received frame, malformed or not, taking apart a connect, release, control or
  confirmation request ends, and leaves the position inside the frame.
\<close>

theorem interpreters_return:
  assumes "honest d"
  shows "(\<exists>x e. pf_cmrpc_rm_connect_interpret_ind n st r d = Some (x, e) \<and> honest e)
    \<and> (\<exists>x e. pf_cmrpc_rm_release_interpret_req n st cb d = Some (x, e) \<and> honest e)
    \<and> (\<exists>x e. pf_cmrpc_rm_dcontrol_interpret_req n st cb d = Some (x, e) \<and> honest e)
    \<and> (\<exists>x e. pf_cmrpc_rm_ccontrol_interpret_cnf n st cb d = Some (x, e) \<and> honest e)"
proof -
  have "\<exists>x e. pf_cmrpc_rm_connect_interpret_ind n st r d = Some (x, e) \<and> honest e"
    using connect_blocks_returns [OF assms, of True "(0, st, r)"]
    by (fastforce simp: pf_cmrpc_rm_connect_interpret_ind_def)
  then show ?thesis
    unfolding pf_cmrpc_rm_release_interpret_req_def pf_cmrpc_rm_dcontrol_interpret_req_def
      pf_cmrpc_rm_ccontrol_interpret_cnf_def
    using control_end_returns [OF assms] by blast
qed

lemma connect_counted_from_start:
  assumes "honest d" and b: "connect_blocks True (0, st, r) d = Some ((0, st', r'), e)"
    and r: "nbr_iocrs (cfg r) = 0" "cr_sum r = 0" "nbr_ar_param (counts r) = 0"
    and len: "length (iocrs (cfg r)) < 65536"
  shows "crs_counted r' \<and> length (iocrs (cfg r')) = length (iocrs (cfg r)) \<and> nbr_ar_param (counts r') \<le> 1"
proof (cases "more_blocks d")
  case False
  then have "r' = r" using b by (subst (asm) connect_blocks.simps) auto
  then show ?thesis using r crs_counted_none by simp
next
  case True
  obtain ret1 st1 r1 d1 where z: "run_state (connect_block True st r) d = ((ret1, st1, r1), d1)"
    by (metis prod.exhaust)
  have rest: "connect_blocks False (ret1, st1, r1) d1 = Some ((0, st', r'), e)"
    using b True z by (subst (asm) connect_blocks.simps) simp
  have "ret1 = 0"
  proof (rule ccontr)
    assume "ret1 \<noteq> 0"
    then show False using rest by (subst (asm) connect_blocks.simps) simp
  qed
  then have ok: "block_accepted r r1 \<or> ar_block_accepted r r1"
    using connect_block_ok [of True st r d st1 r1 d1] z by simp
  have r1: "crs_counted r1" "length (iocrs (cfg r1)) = length (iocrs (cfg r))" "nbr_ar_param (counts r1) \<le> 1"
    using ok crs_counted_step [OF crs_counted_none [OF r(1,2)] len, of r1] crs_counted_none [of r1] r
    by (auto simp: ar_block_accepted_def same_counts_def cr_sum_def)
  have "honest d1" using connect_block_progress [OF assms(1) True z] by blast
  from connect_blocks_counted [OF this rest r1(1)] r1(2,3) len show ?thesis by simp
qed

definition demo_frame :: "u8 list" where
  "demo_frame = [1, 1, 0, 54, 1, 0] @ replicate 52 0"

definition demo_reader :: rd where
  "demo_reader = \<lparr>result = PF_PARSE_OK, is_big_endian = True, p_buf = Some demo_frame, buf_len = 58,
     rd_pos = 0, rd_fault = False\<rparr>"

lemma demo_honest: "honest demo_reader"
  by (simp add: honest_def demo_reader_def demo_frame_def)

theorem interpreters_return_witness:
  "\<exists>x e. pf_cmrpc_rm_release_interpret_req 58 zero_result zero_control demo_reader = Some (x, e)"
  using interpreters_return [OF demo_honest, of 58 zero_result undefined zero_control] by blast

text \<open>C34. A connect request that is accepted has been used to its last byte, which is where the
  announced length of the arguments ends; it has one AR block at most; it has no more IOCRs than there
  is room for, and the counters of input CRs, output CRs and multicast consumers are the numbers of
  IOCRs of these types in the AR; and an AR for device access has none.
\<close>

theorem accepted_connect:
  assumes "honest d"
    and "pf_cmrpc_rm_connect_interpret_ind n st r d = Some ((0, st', r'), e)"
    and "nbr_iocrs (cfg r) = 0" and "cr_sum r = 0" and "nbr_ar_param (counts r) = 0"
    and "length (iocrs (cfg r)) < 65536"
  shows "result e = PF_PARSE_OK \<and> rd_pos e = buf_len d \<and> unat (rd_pos e) = unat (rd_pos d) + unat n
    \<and> nbr_ar_param (counts r') \<le> 1
    \<and> unat (nbr_iocrs (cfg r')) \<le> length (iocrs (cfg r'))
    \<and> length (iocrs (cfg r')) = length (iocrs (cfg r))
    \<and> cr_sum r' \<le> unat (nbr_iocrs (cfg r'))
    \<and> unat (input_cr_cnt (counts r')) = crs_of_type PF_IOCR_TYPE_INPUT (cfg r')
    \<and> unat (output_cr_cnt (counts r')) = crs_of_type PF_IOCR_TYPE_OUTPUT (cfg r')
    \<and> unat (mcr_cons_cnt (counts r')) = crs_of_type PF_IOCR_TYPE_MC_CONSUMER (cfg r')
    \<and> (device_access_ar r' \<longrightarrow> nbr_iocrs (cfg r') = 0)"
proof -
  have b: "connect_blocks True (0, st, r) d = Some ((0, st', r'), e)" and u: "all_used (rd_pos d) n e"
    using assms(2) by (auto simp: pf_cmrpc_rm_connect_interpret_ind_def bind_eq_Some_conv split: if_splits)
  obtain y f where "connect_blocks True (0, st, r) d = Some (y, f)" "buf_len f = buf_len d" "rd_pos d \<le> rd_pos f"
    using connect_blocks_returns [OF assms(1), of True "(0, st, r)"] by blast
  then have pos: "buf_len e = buf_len d" "rd_pos d \<le> rd_pos e" using b by simp_all
  have "unat (rd_pos e) = unat (rd_pos d) + unat n"
    using u pos(2) by (auto simp: all_used_def unat_difference word_le_nat_alt)
  moreover have c: "crs_counted r' \<and> length (iocrs (cfg r')) = length (iocrs (cfg r)) \<and> nbr_ar_param (counts r') \<le> 1"
    by (rule connect_counted_from_start [OF assms(1) b assms(3-6)])
  moreover have "cr_sum r' \<le> unat (nbr_iocrs (cfg r'))" using c crs_counted_sum by blast
  ultimately show ?thesis using u pos(1) by (simp add: all_used_def crs_counted_def)
qed

definition fresh_ar :: ar where
  "fresh_ar = demo_conn\<lparr>cfg := demo_ar\<lparr>nbr_iocrs := 0\<rparr>, counts := \<lparr>nbr_ar_param = 0, nbr_alarm_cr = 0,
     nbr_prm_server = 0, nbr_rpc_server = 0, nbr_ir_info = 0, nbr_mcr = 0, nbr_ar_vendor = 0,
     input_cr_cnt = 0, output_cr_cnt = 0, mcr_cons_cnt = 0, rtc3_present = False,
     ir_info_valid = False, ar_rpc_valid = False\<rparr>\<rparr>"

text \<open>An AR block and an IOCR block of an input CR without subslots.\<close>

definition demo_connect_reader :: rd where
  "demo_connect_reader = demo_reader\<lparr>p_buf := Some (demo_frame @ [1, 2, 0, 42, 1, 0, 0, 1] @ replicate 38 0), buf_len := 104\<rparr>"

lemma demo_blocks:
  "more_blocks demo_connect_reader \<and>
   (case run_state (connect_block True zero_result fresh_ar) demo_connect_reader of
     ((ret, st, r), d) \<Rightarrow> ret = 0 \<and> more_blocks d \<and>
       (case run_state (connect_block False st r) d of
         ((ret', st', r'), d') \<Rightarrow> ret' = 0 \<and> result d' = PF_PARSE_OK \<and> rd_pos d' = 104 \<and> buf_len d' = 104 \<and>
           nbr_iocrs (cfg r') = 1 \<and> 0 < length (iocrs (cfg r')) \<and> type_of_cr 0 r' = PF_IOCR_TYPE_INPUT))"
  by code_simp

lemma demo_connect:
  obtains st r e where
    "pf_cmrpc_rm_connect_interpret_ind 104 zero_result fresh_ar demo_connect_reader = Some ((0, st, r), e)"
    and "nbr_iocrs (cfg r) = 1" and "0 < length (iocrs (cfg r))" and "type_of_cr 0 r = PF_IOCR_TYPE_INPUT"
proof -
  obtain st1 r1 d1 st r e where
    b1: "run_state (connect_block True zero_result fresh_ar) demo_connect_reader = ((0, st1, r1), d1)" "more_blocks d1"
    and b2: "run_state (connect_block False st1 r1) d1 = ((0, st, r), e)"
      "result e = PF_PARSE_OK" "rd_pos e = 104" "buf_len e = 104"
    and r: "nbr_iocrs (cfg r) = 1" "0 < length (iocrs (cfg r))" "type_of_cr 0 r = PF_IOCR_TYPE_INPUT"
    using demo_blocks by (auto split: prod.splits)
  have "connect_blocks False (0, st, r) e = Some ((0, st, r), e)"
    using b2 by (subst connect_blocks.simps) (simp add: more_blocks_def)
  then have "connect_blocks False (0, st1, r1) d1 = Some ((0, st, r), e)"
    using b1(2) b2(1) by (subst connect_blocks.simps) simp
  then have "connect_blocks True (0, zero_result, fresh_ar) demo_connect_reader = Some ((0, st, r), e)"
    using b1(1) demo_blocks by (subst connect_blocks.simps) simp
  moreover have "all_used (rd_pos demo_connect_reader) 104 e"
    using b2 by (simp add: all_used_def demo_connect_reader_def demo_reader_def)
  ultimately show ?thesis
    using that [of st r e] r by (simp add: pf_cmrpc_rm_connect_interpret_ind_def)
qed

lemma fresh_ar_facts:
  "nbr_iocrs (cfg fresh_ar) = 0" "cr_sum fresh_ar = 0" "nbr_ar_param (counts fresh_ar) = 0"
  "length (iocrs (cfg fresh_ar)) < 65536"
  by (simp_all add: fresh_ar_def cr_sum_def demo_conn_def demo_ar_def)

theorem accepted_connect_witness:
  "\<exists>st r e. pf_cmrpc_rm_connect_interpret_ind 104 zero_result fresh_ar demo_connect_reader = Some ((0, st, r), e)
    \<and> rd_pos e = 104 \<and> nbr_iocrs (cfg r) = 1 \<and> unat (input_cr_cnt (counts r)) = 1"
proof -
  obtain st r e where c: "pf_cmrpc_rm_connect_interpret_ind 104 zero_result fresh_ar demo_connect_reader = Some ((0, st, r), e)"
    "nbr_iocrs (cfg r) = 1" "0 < length (iocrs (cfg r))" "type_of_cr 0 r = PF_IOCR_TYPE_INPUT"
    by (rule demo_connect)
  have "honest demo_connect_reader"
    by (simp add: honest_def demo_connect_reader_def demo_reader_def demo_frame_def)
  from accepted_connect [OF this c(1) fresh_ar_facts]
  have "rd_pos e = 104" "unat (input_cr_cnt (counts r)) = crs_of_type PF_IOCR_TYPE_INPUT (cfg r)"
    by (simp_all add: demo_connect_reader_def)
  moreover have "crs_of_type PF_IOCR_TYPE_INPUT (cfg r) = 1"
    using c(2-4) by (simp add: crs_of_type_def take_Suc_conv_app_nth)
  ultimately show ?thesis using c by simp
qed

section \<open>The endpoint mapper\<close>

definition null_handle :: pf_rpc_handle where
  "null_handle = \<lparr>rpc_entry_handle = 0, handle_uuid = zero_rpc_uuid\<rparr>"

text \<open>C35. The controller enumerates the endpoints in two calls: the first, with a null handle, is
  answered with the entry of the endpoint mapper and a handle; the second, with that handle, with the
  entry of the Profinet device and the port of the caller; a third call gets no entry.
\<close>

theorem epm_enumeration:
  "let ask = \<lambda>h. q\<lparr>inquiry_type := PF_RPC_INQUIRY_READ_ALL_REGISTERED_INTERFACES, max_entries := 1,
       lreq_rpc_handle := h\<rparr>;
     r1 = epm_lookup c now mac 0 port (ask null_handle);
     r2 = epm_lookup c now' mac 1 port (ask (rsp_rpc_handle r1));
     r3 = epm_lookup c now'' mac 2 port (ask (rsp_rpc_handle r2))
   in return_code r1 = PF_RPC_OK \<and> num_entry r1 = 1
    \<and> fl_uuid (floor_1 (tower_entry (rpc_entry r1))) = uuid_epmap_interface
    \<and> return_code r2 = PF_RPC_OK \<and> num_entry r2 = 1
    \<and> fl_uuid (floor_1 (tower_entry (rpc_entry r2))) = uuid_io_device_interface
    \<and> fl4_port (floor_4 (tower_entry (rpc_entry r2))) = htons port
    \<and> take 2 (node (re_object_uuid (rpc_entry r2))) = [0, 1]
    \<and> return_code r3 = PF_RPC_NOT_REGISTERED \<and> num_entry r3 = 0"
proof -
  have null: "is_null_handle null_handle"
    by (simp add: is_null_handle_def null_handle_def zero_rpc_uuid_def rpc_uuid_def numeral_2_eq_2)
  have handle: "\<not> is_null_handle (pf_generate_epm_handle t m)" for t m
    by (simp add: is_null_handle_def pf_generate_epm_handle_def rpc_uuid_def)
  have first: "epm_lookup c now mac 0 port (q\<lparr>inquiry_type := PF_RPC_INQUIRY_READ_ALL_REGISTERED_INTERFACES,
      max_entries := 1, lreq_rpc_handle := null_handle\<rparr>) = pf_cmrdr_add_epmv4_entry now mac empty_lookup_rsp"
    by (simp add: epm_lookup_def pf_cmrdr_inquiry_read_all_reg_ind_def null)
  have "rsp_rpc_handle (pf_cmrdr_add_epmv4_entry now mac empty_lookup_rsp) = pf_generate_epm_handle now mac"
    by (simp add: pf_cmrdr_add_epmv4_entry_def epm_entry_def Let_def)
  then have second: "epm_lookup c now' mac 1 port
      (q\<lparr>inquiry_type := PF_RPC_INQUIRY_READ_ALL_REGISTERED_INTERFACES, max_entries := 1,
        lreq_rpc_handle := rsp_rpc_handle (pf_cmrdr_add_epmv4_entry now mac empty_lookup_rsp)\<rparr>)
      = pf_cmrdr_add_pnio_entry c now' mac port empty_lookup_rsp"
    by (simp add: epm_lookup_def pf_cmrdr_inquiry_read_all_reg_ind_def handle)
  have third: "epm_lookup c now'' mac 2 port
      (q\<lparr>inquiry_type := PF_RPC_INQUIRY_READ_ALL_REGISTERED_INTERFACES, max_entries := 1,
        lreq_rpc_handle := h\<rparr>) = empty_lookup_rsp" for h
    by (simp add: epm_lookup_def pf_cmrdr_inquiry_read_all_reg_ind_def)
  show ?thesis
    unfolding Let_def first second third
    by (simp add: pf_cmrdr_add_epmv4_entry_def pf_cmrdr_add_pnio_entry_def epm_entry_def Let_def
        pf_init_rpc_tower_entry_def empty_lookup_rsp_def)
qed

end
