(* ===== verification/Pn_Rpc_Frag.thy ===== *)
theory Pn_Rpc_Frag
  imports Pn_Rpc_Dce Pn_Block_Codec Pn_Demo
begin

text \<open>
  Requests and responses in several packets: the fragments of a request are put together in the
  input buffer, and a response that is longer than a packet is sent from the output buffer one
  fragment after the other.
\<close>

lemma the_rpc_upd [simp]:
  "i < length (net_sessions s) \<Longrightarrow> the_rpc (upd_rpc i f s) i = f (the_rpc s i)"
  "i < length (net_sessions s) \<Longrightarrow> the_session (upd_session i g s) i = g (the_session s i)"
  "length (net_sessions (upd_rpc i f s)) = length (net_sessions s)"
  "net_session_bufs (upd_rpc i f s) = net_session_bufs s"
  by (simp_all add: upd_rpc_def upd_session_def)

lemma the_rpc_bufs [simp]: "the_rpc (s\<lparr>net_session_bufs := b\<rparr>) i = the_rpc s i"
  by simp

lemma unat_of_nat_u16: "k < 65536 \<Longrightarrow> unat (of_nat k :: u16) = k"
  by (simp add: unat_of_nat take_bit_nat_eq_self)

section \<open>The fragments of a request\<close>

text \<open>The packets of a request in fragments: a header of 80 bytes and the body each.\<close>

fun fragments :: "pf_rpc_header \<Rightarrow> u8 list \<Rightarrow> nat \<Rightarrow> u8 list list \<Rightarrow> (pf_rpc_header \<times> u8 list) list" where
  "fragments h pre k [] = []"
| "fragments h pre k (b # bs) =
     (h\<lparr>rpc_flags := (rpc_flags h)\<lparr>last_fragment := (bs = [])\<rparr>, fragment_nmb := of_nat k,
       length_of_body := of_nat (length b)\<rparr>, pre @ b) # fragments h pre (Suc k) bs"

definition feed :: "nat \<Rightarrow> (pf_rpc_header \<times> u8 list) list \<Rightarrow> pnet \<Rightarrow> pnet option" where
  "feed i ps s = fold_m (\<lambda>(h, req) s. map_option snd (append_fragment i h req 80 s)) ps s"

definition in_buffer :: "pnet \<Rightarrow> nat \<Rightarrow> u8 list" where
  "in_buffer s i = fst (net_session_bufs s ! i)"

text \<open>So many fragments with these bytes have been received.\<close>

definition received :: "nat \<Rightarrow> nat \<Rightarrow> nat \<Rightarrow> u8 list \<Rightarrow> pnet \<Rightarrow> bool" where
  "received i n k done s \<longleftrightarrow> i < length (net_sessions s) \<and> i < length (net_session_bufs s) \<and>
     in_fragment_nbr (the_rpc s i) = of_nat k \<and> in_buf_len (the_rpc s i) = of_nat (length done) \<and>
     length (in_buffer s i) = n \<and> length done \<le> n \<and> take (length done) (in_buffer s i) = done"

lemma append_fragment_received:
  assumes r: "received i n k done s" and n: "n < 65536" "length done + length b \<le> n"
    and h: "fragment_nmb h = of_nat k" "length_of_body h = of_nat (length b)" and pre: "length pre = 80"
  obtains pos s' where "append_fragment i h (pre @ b) 80 s = Some (pos, s')"
    and "received i n (Suc k) (done @ b) s'"
    and "rpc_status s' i = rpc_status s i"
    and "last_fragment (rpc_flags h) \<Longrightarrow> p_buf (rpc_get_info (the_rpc s' i)) = Some (in_buffer s' i)
      \<and> buf_len (rpc_get_info (the_rpc s' i)) = of_nat (length (done @ b))"
proof -
  define inb where "inb = overlay (length done) b (in_buffer s i)"
  have len: "unat (of_nat (length done) :: u16) = length done" "unat (of_nat (length b) :: u16) = length b"
    using n by (simp_all add: unat_of_nat_u16)
  have i: "i < length (net_sessions s)" "i < length (net_session_bufs s)"
    using r by (simp_all add: received_def)
  have inb: "length inb = n" "take (length done + length b) inb = done @ b"
    using r n(2) by (auto simp: inb_def overlay_def received_def min_def)
  define s1 where "s1 = upd_rpc i (\<lambda>x. x\<lparr>in_buf_len := in_buf_len x + length_of_body h,
      in_fragment_nbr := in_fragment_nbr x + 1\<rparr>)
    (s\<lparr>net_session_bufs := (net_session_bufs s)[i := (inb, snd (net_session_bufs s ! i))]\<rparr>)"
  define s2 where "s2 = (if last_fragment (rpc_flags h)
    then upd_rpc i (\<lambda>x. x\<lparr>rpc_get_info := (rpc_get_info x)\<lparr>p_buf := Some inb, buf_len := in_buf_len x\<rparr>\<rparr>) s1
    else s1)"
  have a: "append_fragment i h (pre @ b) 80 s = Some (if last_fragment (rpc_flags h) then 0 else 80, s2)"
    using r n h pre len
    by (simp add: append_fragment_def Let_def received_def in_buffer_def s1_def s2_def inb_def)
  have s2: "length (net_sessions s2) = length (net_sessions s)"
    "length (net_session_bufs s2) = length (net_session_bufs s)" "in_buffer s2 i = inb"
    "in_fragment_nbr (the_rpc s2 i) = in_fragment_nbr (the_rpc s i) + 1"
    "in_buf_len (the_rpc s2 i) = in_buf_len (the_rpc s i) + length_of_body h"
    "rpc_status s2 i = rpc_status s i"
    "last_fragment (rpc_flags h) \<Longrightarrow> p_buf (rpc_get_info (the_rpc s2 i)) = Some inb
      \<and> buf_len (rpc_get_info (the_rpc s2 i)) = in_buf_len (the_rpc s i) + length_of_body h"
    using i by (simp_all add: s2_def s1_def in_buffer_def)
  have "received i n (Suc k) (done @ b) s2"
    using r s2 inb n h by (simp add: received_def)
  then show ?thesis using that [OF a] s2 r h by (simp add: received_def)
qed

lemma feed_fragments:
  assumes "received i n k done s" and "n < 65536" and "length done + length (concat bs) \<le> n"
    and "length pre = 80" and "bs \<noteq> []"
  shows "\<exists>s'. feed i (fragments h pre k bs) s = Some s' \<and> received i n (k + length bs) (done @ concat bs) s'
    \<and> rpc_status s' i = rpc_status s i \<and> p_buf (rpc_get_info (the_rpc s' i)) = Some (in_buffer s' i)
    \<and> buf_len (rpc_get_info (the_rpc s' i)) = of_nat (length (done @ concat bs))"
  using assms
proof (induction bs arbitrary: k "done" s)
  case (Cons b bs)
  define h' where "h' = h\<lparr>rpc_flags := (rpc_flags h)\<lparr>last_fragment := (bs = [])\<rparr>, fragment_nmb := of_nat k,
       length_of_body := of_nat (length b)\<rparr>"
  obtain pos s1 where a: "append_fragment i h' (pre @ b) 80 s = Some (pos, s1)"
    and r1: "received i n (Suc k) (done @ b) s1" "rpc_status s1 i = rpc_status s i"
    and l: "last_fragment (rpc_flags h') \<Longrightarrow> p_buf (rpc_get_info (the_rpc s1 i)) = Some (in_buffer s1 i)
      \<and> buf_len (rpc_get_info (the_rpc s1 i)) = of_nat (length (done @ b))"
    by (rule append_fragment_received [OF Cons.prems(1,2), of b h' pre])
       (use Cons.prems in \<open>simp_all add: h'_def\<close>)
  have f: "feed i (fragments h pre k (b # bs)) s = feed i (fragments h pre (Suc k) bs) s1"
    using a by (simp add: feed_def h'_def)
  show ?case
  proof (cases "bs = []")
    case True
    then show ?thesis using f r1 l by (simp add: feed_def h'_def)
  next
    case False
    have "length (done @ b) + length (concat bs) \<le> n" using Cons.prems(3) by simp
    from Cons.IH [OF r1(1) Cons.prems(2) this Cons.prems(4) False] f r1(2) show ?thesis by simp
  qed
qed simp

text \<open>C36. The fragments of a request, received in order, give the request: the input that is parsed
  after the last one is the concatenation of their bodies, and no error has been set.
\<close>

theorem fragments_reassembled:
  assumes "received i n 0 [] s" and "n < 65536" and "length (concat bs) \<le> n"
    and "length pre = 80" and "bs \<noteq> []"
  shows "\<exists>s' inb. feed i (fragments h pre 0 bs) s = Some s' \<and> rpc_status s' i = rpc_status s i
    \<and> p_buf (rpc_get_info (the_rpc s' i)) = Some inb
    \<and> take (unat (buf_len (rpc_get_info (the_rpc s' i)))) inb = concat bs"
proof -
  obtain s' where s': "feed i (fragments h pre 0 bs) s = Some s'" "received i n (length bs) (concat bs) s'"
    "rpc_status s' i = rpc_status s i" "p_buf (rpc_get_info (the_rpc s' i)) = Some (in_buffer s' i)"
    "buf_len (rpc_get_info (the_rpc s' i)) = of_nat (length (concat bs))"
    using feed_fragments [OF assms(1,2), of bs pre h] assms(3-5) by auto
  have "unat (of_nat (length (concat bs)) :: u16) = length (concat bs)"
    using assms(2,3) by (simp add: unat_of_nat_u16)
  then show ?thesis using s' by (auto simp: received_def)
qed

definition frag_net :: pnet where
  "frag_net = demo_net\<lparr>net_sessions := [zero_session\<lparr>se_in_use := True\<rparr>],
     net_session_bufs := [(replicate 12 0, replicate 12 0)]\<rparr>"

lemma received_frag_net: "received 0 12 0 [] frag_net"
  by (simp add: received_def frag_net_def in_buffer_def zero_session_def zero_rpc_session_def)

theorem fragments_reassembled_witness:
  "\<exists>s' inb. feed 0 (fragments zero_rpc_header (replicate 80 0) 0 [[1, 2, 3, 4], [5, 6]]) frag_net = Some s'
    \<and> p_buf (rpc_get_info (the_rpc s' 0)) = Some inb
    \<and> take (unat (buf_len (rpc_get_info (the_rpc s' 0)))) inb = [1, 2, 3, 4, 5, 6]"
  using fragments_reassembled [OF received_frag_net, of "[[1, 2, 3, 4], [5, 6]]" "replicate 80 0" zero_rpc_header]
  by auto

section \<open>The fragments of a response\<close>

lemma out_buffer_set [simp]:
  "i < length (net_session_bufs s) \<Longrightarrow> out_buffer (set_out_buffer i b s) i = b"
  "the_rpc (set_out_buffer i b s) i = the_rpc s i"
  "length (net_session_bufs (set_out_buffer i b s)) = length (net_session_bufs s)"
  "net_sessions (set_out_buffer i b s) = net_sessions s"
  by (simp_all add: out_buffer_def set_out_buffer_def)

lemma out_buffer_upd [simp]: "out_buffer (upd_rpc i f s) i = out_buffer s i"
  by (simp add: out_buffer_def)

lemma put_out_at_emits:
  assumes "emits_at pos f bs" and "unat pos + length bs \<le> unat sz" and "unat sz \<le> length (out_buffer s i)"
  shows "put_out_at i sz pos f s =
    Some (pos + of_nat (length bs), set_out_buffer i (overlay (unat pos) bs (out_buffer s i)) s)"
proof -
  have "f \<lparr>wr_bytes = out_buffer s i, wr_res_len = sz, wr_pos = pos\<rparr> =
    Some (append_bytes bs \<lparr>wr_bytes = out_buffer s i, wr_res_len = sz, wr_pos = pos\<rparr>)"
    using assms by (simp add: emits_at_def fits_def)
  then show ?thesis by (simp add: put_out_at_def append_bytes_def)
qed

lemma put_out_overlapping:
  "put_out_at i sz pos (pf_put_mem_overlapping p n) s = put_out_at i sz pos (pf_put_mem (drop p (out_buffer s i)) n) s"
  by (simp add: put_out_at_def pf_put_mem_overlapping_def pf_put_mem_def)

lemma set_out_buffer_again [simp]: "set_out_buffer i b (set_out_buffer i b' s) = set_out_buffer i b s"
  by (cases "i < length (net_session_bufs s)") (simp_all add: set_out_buffer_def list_update_beyond)

lemma put_header_at_front:
  assumes h: "rpc_header_ok h" and i: "i < length (net_session_bufs u)" and len: "1440 \<le> length (out_buffer u i)"
  obtains b where "put_header_at i 1440 0 h u = Some (80, 74, set_out_buffer i b u)"
    and "length b = length (out_buffer u i)" and "\<forall>k\<ge>80. drop k b = drop k (out_buffer u i)"
proof -
  let ?o = "out_buffer u i" and ?hb = "rpc_header_start_bytes h @ rpc_header_end_bytes h"
  have hl: "length (rpc_header_start_bytes h) = 74" "length (rpc_header_end_bytes h) = 6"
    using rpc_header_lengths [OF h] .
  have "put_header_at i 1440 0 h u = Some (80, 74, set_out_buffer i (overlay 0 ?hb ?o) u)"
    using put_rpc_header_run [OF h, of "\<lparr>wr_bytes = ?o, wr_res_len = 1440, wr_pos = 0\<rparr>"] len hl
    by (simp add: put_header_at_def fits_def append_bytes_def)
  moreover have "drop k (overlay 0 ?hb ?o) = drop k ?o" if "80 \<le> k" for k
    using hl len that by (cases "k \<le> length ?o") (simp_all add: drop_overlay)
  ultimately show thesis using that hl len by simp
qed

text \<open>
  One fragment: \<open>m\<close> bytes from the position already sent on are moved behind the header; nothing
  behind them changes.
\<close>

lemma fragment_packet_run:
  fixes s i
  defines "x \<equiv> the_rpc s i"
  defines "m \<equiv> min 1360 (unat (out_buf_len x) - unat (out_buf_sent_pos x))"
  assumes h: "rpc_header_ok h" and i: "i < length (net_session_bufs s)"
    and lens: "1440 \<le> length (out_buffer s i)" "unat (out_buf_len x) \<le> length (out_buffer s i)"
    and sent: "80 \<le> unat (out_buf_sent_pos x)" "unat (out_buf_sent_pos x) < unat (out_buf_len x)"
  obtains b where "fragment_packet i h s = Some (upd_rpc i (\<lambda>x. x\<lparr>out_buf_send_len := of_nat m + 80\<rparr>) (set_out_buffer i b s))"
    and "length b = length (out_buffer s i)"
    and "take m (drop 80 b) = take m (drop (unat (out_buf_sent_pos x)) (out_buffer s i))"
    and "drop (80 + m) b = drop (80 + m) (out_buffer s i)"
proof -
  let ?o = "out_buffer s i" and ?p = "unat (out_buf_sent_pos x)"
  define r where "r = out_buf_len x - out_buf_sent_pos x"
  have ur: "unat r = unat (out_buf_len x) - ?p"
    unfolding r_def using sent(2) by (intro unat_sub) (simp add: word_le_nat_alt)
  have um: "unat (of_nat m :: u16) = m" by (simp add: m_def unat_of_nat_u16)
  have n: "(if uint r < 1360 then r else 1360) = of_nat m" (is "?n = _")
  proof (rule word_unat_eq_iff [THEN iffD2])
    have "int (unat r) = uint r" by simp
    then have "unat ?n = m" using ur by (auto simp: m_def)
    then show "unat ?n = unat (of_nat m :: u16)" by (simp only: um)
  qed
  obtain b0 where b0: "put_header_at i 1440 0 h s = Some (80, 74, set_out_buffer i b0 s)"
    "length b0 = length ?o" "\<forall>k\<ge>80. drop k b0 = drop k ?o"
    by (rule put_header_at_front [OF h i lens(1)])
  let ?h1 = "h\<lparr>rpc_flags := (rpc_flags h)\<lparr>last_fragment := True\<rparr>\<rparr>"
  have "rpc_header_ok ?h1" using h by simp
  then obtain b0' where b0': "put_header_at i 1440 0 ?h1 (set_out_buffer i b0 s) = Some (80, 74, set_out_buffer i b0' s)"
    "length b0' = length ?o" "\<forall>k\<ge>80. drop k b0' = drop k ?o"
    using put_header_at_front [of ?h1 i "set_out_buffer i b0 s"] i b0 lens(1) by (metis out_buffer_set(1,3) set_out_buffer_again)
  define b1 where "b1 = (if uint r < 1360 then b0' else b0)"
  have b1: "length b1 = length ?o" "drop ?p b1 = drop ?p ?o" "\<And>k. 80 \<le> k \<Longrightarrow> drop k b1 = drop k ?o"
    using b0 b0' sent(1) by (simp_all add: b1_def)
  define body where "body = take m (drop ?p ?o)"
  define nb where "nb = enc16 (rpc_is_big_endian h) (of_nat m :: u16)"
  define b2 where "b2 = overlay 80 body b1"
  define b3 where "b3 = overlay 74 nb b2"
  have pm: "?p + m \<le> length ?o" using sent lens by (auto simp: m_def)
  have body: "length body = m" "m \<le> 1360" using pm by (auto simp: body_def m_def)
  have b2: "length b2 = length ?o" using b1(1) body lens(1) by (simp add: b2_def)
  have nb: "length nb = 2" by (simp add: nb_def)
  have "emits_at 80 (pf_put_mem (drop ?p b1) (of_nat m)) body"
    using emits_mem [of "of_nat m" "drop ?p b1" 80] b1(1,2) pm um by (simp add: body_def)
  from put_out_at_emits [OF this, of 1440 "set_out_buffer i b1 s" i]
  have c: "put_out_at i 1440 80 (pf_put_mem_overlapping ?p (of_nat m)) (set_out_buffer i b1 s)
      = Some (80 + of_nat m, set_out_buffer i b2 s)"
    using b1(1) lens(1) body i by (simp add: put_out_overlapping b2_def)
  have d: "put_out_at i 1440 74 (pf_put_uint16 (rpc_is_big_endian h) (of_nat m)) (set_out_buffer i b2 s)
      = Some (76, set_out_buffer i b3 s)"
    using put_out_at_emits [OF emits_uint16, of 74 "rpc_is_big_endian h" "of_nat m" 1440 "set_out_buffer i b2 s" i] i b2 lens(1)
    by (simp add: nb_def b3_def)
  have "fragment_packet i h s = Some (upd_rpc i (\<lambda>x. x\<lparr>out_buf_send_len := of_nat m + 80\<rparr>) (set_out_buffer i b3 s))"
  proof (cases "uint r < 1360")
    case True
    then show ?thesis
      using c d n unfolding fragment_packet_def PF_MAX_UDP_PAYLOAD_SIZE_def Let_def x_def [symmetric] r_def [symmetric]
      by (simp add: b0(1) b0'(1) b1_def)
  next
    case False
    then show ?thesis
      using c d n unfolding fragment_packet_def PF_MAX_UDP_PAYLOAD_SIZE_def Let_def x_def [symmetric] r_def [symmetric]
      by (simp add: b0(1) b1_def)
  qed
  moreover have "length b3 = length ?o" using b2 nb lens(1) by (simp add: b3_def)
  moreover have "take m (drop 80 b3) = body"
    using nb b2 lens(1) read_overlay [of 80 body b1] body b1(1) by (simp add: b3_def drop_overlay b2_def)
  moreover have "drop (80 + m) b3 = drop (80 + m) ?o"
    using nb b2 b1 body lens(1) by (simp add: b3_def b2_def drop_overlay)
  ultimately show thesis using that by (simp add: body_def)
qed

text \<open>C37. The gap between the fragments of a response. A fragment with more than 1440 bytes of the
  response left has the 1360 bytes from the position already sent on, behind a header of 80. When it
  is acknowledged, the position moves by the length of the packet, header included: the packet that
  is then built, and handed to the sending function, has the bytes from 1440 behind the old position
  on. So the 80 bytes of the response from 1360 to 1440 are in neither of the two packets.
\<close>

theorem fragment_gap:
  fixes s i
  defines "p \<equiv> unat (out_buf_sent_pos (the_rpc s i))"
  defines "m \<equiv> min 1360 (unat (out_buf_len (the_rpc s i)) - (p + 1440))"
  assumes "rpc_header_ok h" and "rpc_header_ok h'" and i: "i < length (net_sessions s)" "i < length (net_session_bufs s)"
    and lens: "1440 \<le> length (out_buffer s i)" "unat (out_buf_len (the_rpc s i)) \<le> length (out_buffer s i)"
    and sent: "80 \<le> p" and rest: "p + 1440 < unat (out_buf_len (the_rpc s i))"
  shows "\<exists>s1 s2. fragment_packet i h s = Some s1
    \<and> take 1360 (drop 80 (out_buffer s1 i)) = take 1360 (drop p (out_buffer s i))
    \<and> out_buf_send_len (the_rpc s1 i) = 1440
    \<and> rpc_fragment_ack i h' s1 = start_resending i s2
    \<and> take m (drop 80 (out_buffer s2 i)) = take m (drop (p + 1440) (out_buffer s i))
    \<and> out_buf_send_len (the_rpc s2 i) = of_nat m + 80 \<and> 0 < m
    \<and> unat (out_buf_sent_pos (the_rpc s2 i)) = p + 1440"
proof -
  let ?x = "the_rpc s i"
  obtain b where b: "fragment_packet i h s = Some (upd_rpc i (\<lambda>x. x\<lparr>out_buf_send_len := 1440\<rparr>) (set_out_buffer i b s))"
    "length b = length (out_buffer s i)" "take 1360 (drop 80 b) = take 1360 (drop p (out_buffer s i))"
    "drop 1440 b = drop 1440 (out_buffer s i)"
    using fragment_packet_run [OF assms(3) i(2) lens, of thesis] sent rest by (auto simp: p_def)
  let ?s1 = "upd_rpc i (\<lambda>x. x\<lparr>out_buf_send_len := 1440\<rparr>) (set_out_buffer i b s)"
  have s1: "the_rpc ?s1 i = ?x\<lparr>out_buf_send_len := 1440\<rparr>" "out_buffer ?s1 i = b"
    "length (net_session_bufs ?s1) = length (net_session_bufs s)" "length (net_sessions ?s1) = length (net_sessions s)"
    using i by simp_all
  define s1' where "s1' = upd_rpc i (\<lambda>x. x\<lparr>out_buf_sent_pos := out_buf_sent_pos x + out_buf_send_len x,
       out_fragment_nbr := out_fragment_nbr x + 1\<rparr>) ?s1"
  have "unat (out_buf_len ?x) < 65536" using unsigned_less [of "out_buf_len ?x", where ?'a = nat] by simp
  then have u: "unat (out_buf_sent_pos ?x + 1440) = p + 1440"
    using rest by (simp add: unat_word_ariths(1) p_def)
  have s1': "the_rpc s1' i = ?x\<lparr>out_buf_send_len := 1440, out_buf_sent_pos := out_buf_sent_pos ?x + 1440,
      out_fragment_nbr := out_fragment_nbr ?x + 1\<rparr>"
    "out_buffer s1' i = b" "i < length (net_session_bufs s1')" "i < length (net_sessions s1')"
    using s1 i by (simp_all add: s1'_def)
  define h2 where "h2 = with_fragment_nmb (out_fragment_nbr (the_rpc s1' i))
    (answer_header (if from_me (the_session s1' i) then PF_RPC_PT_REQUEST else PF_RPC_PT_RESPONSE) True False True
      (if from_me (the_session s1' i) then True else session_big_endian s1' i) h')"
  have h2: "rpc_header_ok h2" using assms(4) by (simp add: h2_def with_fragment_nmb_def answer_header_def)
  obtain b' where b': "fragment_packet i h2 s1' = Some (upd_rpc i (\<lambda>x. x\<lparr>out_buf_send_len := of_nat m + 80\<rparr>)
      (set_out_buffer i b' s1'))" "take m (drop 80 b') = take m (drop (p + 1440) b)"
    using fragment_packet_run [OF h2 s1'(3), of thesis] b(2) lens rest u by (auto simp: s1' m_def)
  let ?s2 = "upd_rpc i (\<lambda>x. x\<lparr>out_buf_send_len := of_nat m + 80\<rparr>) (set_out_buffer i b' s1')"
  have "out_buf_sent_pos (the_rpc s1' i) < out_buf_len (the_rpc s1' i)" using u rest by (simp add: s1' word_less_nat_alt)
  then have "rpc_fragment_ack i h' ?s1 = start_resending i ?s2"
    using b'(1) by (simp add: rpc_fragment_ack_def s1'_def [symmetric] h2_def Let_def)
  moreover have "drop (p + 1440) b = drop (p + 1440) (out_buffer s i)"
    using b(4) by (metis add.commute drop_drop)
  ultimately show ?thesis
    using b(1,3) b'(2) s1 s1' i u rest by (intro exI [of _ ?s1] exI [of _ ?s2]) (simp add: m_def)
qed

definition gap_net :: pnet where
  "gap_net = demo_net\<lparr>net_sessions := [zero_session\<lparr>se_in_use := True,
       se_rpc := zero_rpc_session\<lparr>out_buf_len := 3000, out_buf_sent_pos := 1440\<rparr>\<rparr>],
     net_session_bufs := [([], replicate 3000 0)]\<rparr>"

lemma gap_net_rpc:
  "the_rpc gap_net 0 = zero_rpc_session\<lparr>out_buf_len := 3000, out_buf_sent_pos := 1440\<rparr>"
  "out_buffer gap_net 0 = replicate 3000 0"
  by (simp_all add: gap_net_def out_buffer_def zero_session_def)

lemma gap_net_lengths: "length (net_sessions gap_net) = 1" "length (net_session_bufs gap_net) = 1"
  by (simp_all add: gap_net_def)

lemma zero_rpc_header_ok: "rpc_header_ok zero_rpc_header"
  by (simp add: zero_rpc_header_def nil_uuid_def)

theorem fragment_gap_witness:
  "\<exists>s1 s2. fragment_packet 0 zero_rpc_header gap_net = Some s1
    \<and> rpc_fragment_ack 0 zero_rpc_header s1 = start_resending 0 s2
    \<and> take 120 (drop 80 (out_buffer s2 0)) = take 120 (drop 2880 (out_buffer gap_net 0))
    \<and> unat (out_buf_sent_pos (the_rpc s2 0)) = 2880"
  using fragment_gap [OF zero_rpc_header_ok zero_rpc_header_ok, of 0 gap_net]
  by (auto simp: gap_net_rpc gap_net_lengths zero_rpc_session_def)

end
