(* ===== verification/Pn_Stack.thy ===== *)
theory Pn_Stack
  imports Pn_Rpc_Dce
begin

text \<open>
  The stack as a whole: how an expired timer and a received frame reach their machine, and the
  functions of the application interface (\<^verbatim>\<open>src/device/pnet_api.c\<close>) that do more than call
  one of the functions of the other theories.
\<close>

section \<open>Timers and frames\<close>

text \<open>The call of a timer's function through its pointer.\<close>

definition run_timer :: "ptr \<Rightarrow> ptr \<Rightarrow> u32 \<Rightarrow> pnet \<Rightarrow> pnet option" where
  "run_timer cb arg now s = (let a = arg div 256; c = arg mod 256 in
     if cb = CB_CPM then pf_cpm_control_interval_expired pf_cpm_state_ind cmsu_error_ind a c s
     else if cb = CB_PPM then pf_ppm_drv_sw_send cmsu_error_ind a c now s
     else if cb = CB_APMS then pf_alarm_apms_timeout a c s
     else if cb = CB_CMIO then pf_cmio_timer_expired arg s
     else if cb = CB_CMSM then pf_cmsm_timeout arg s
     else if cb = CB_RPC then pf_cmrpc_send_with_timeout arg s
     else None)"

text \<open>All timers that are due at the time \<open>now\<close>; the state of the stack is the environment.\<close>

definition stack_tick :: "u32 \<Rightarrow> pnet \<Rightarrow> pnet option" where
  "stack_tick now s = do {
     (sc, s) \<leftarrow> pf_scheduler_tick
       (\<lambda>cb arg now (sc, s). do {
          s \<leftarrow> run_timer cb arg now (s\<lparr>net_sched := sc\<rparr>);
          Some (net_sched s, s) })
       now (net_sched s) (s\<lparr>net_now := now\<rparr>);
     Some (s\<lparr>net_sched := sc\<rparr>) }"

text \<open>The handler of a frame that the map of frame IDs has selected; 1 says it keeps the buffer.\<close>

definition run_frame :: "frame_fn \<Rightarrow> nat \<Rightarrow> u16 \<Rightarrow> pnet \<Rightarrow> (int \<times> pnet) option" where
  "run_frame f b fpos s =
     (case f of
        Rx_cpm a c \<Rightarrow> pf_cpm_c_data_ind pf_cpm_state_ind a c b fpos s
      | Rx_alarm a p \<Rightarrow> Some (pf_alarm_apmr_frame_handler a p (Some b) fpos s)
      | Rx_other _ \<Rightarrow> None)"

section \<open>The application interface\<close>

text \<open>
  Data and status of one submodule; a status is one byte. The length that
  \<^verbatim>\<open>pnet_output_get_data_and_iops\<close> gets is the size of the buffer of the application.
\<close>

definition pnet_input_set_data_and_iops ::
  "u32 \<Rightarrow> u16 \<Rightarrow> u16 \<Rightarrow> u8 list option \<Rightarrow> u16 \<Rightarrow> u8 \<Rightarrow> pnet \<Rightarrow> (int \<times> pnet) option" where
  "pnet_input_set_data_and_iops api slot_nbr subslot_nbr p_data n iops =
     pf_ppm_set_data_and_iops api slot_nbr subslot_nbr p_data n [iops] 1"

definition pnet_output_set_iocs :: "u32 \<Rightarrow> u16 \<Rightarrow> u16 \<Rightarrow> u8 \<Rightarrow> pnet \<Rightarrow> (int \<times> pnet) option" where
  "pnet_output_set_iocs api slot_nbr subslot_nbr status = pf_ppm_set_iocs api slot_nbr subslot_nbr [status] 1"

definition pnet_input_get_iocs ::
  "u32 \<Rightarrow> u16 \<Rightarrow> u16 \<Rightarrow> pnet \<Rightarrow> (int \<times> u8 list \<times> u8 \<times> pnet) option" where
  "pnet_input_get_iocs api slot_nbr subslot_nbr = pf_cpm_get_iocs api slot_nbr subslot_nbr 1"

definition pnet_output_get_data_and_iops ::
  "u32 \<Rightarrow> u16 \<Rightarrow> u16 \<Rightarrow> u16 \<Rightarrow> pnet
     \<Rightarrow> (int \<times> bool option \<times> u8 list \<times> u16 \<times> u8 list \<times> u8 \<times> pnet) option" where
  "pnet_output_get_data_and_iops api slot_nbr subslot_nbr len =
     pf_cpm_get_data_and_iops api slot_nbr subslot_nbr len 1"

text \<open>The data status of all CRs of all ARs in use.\<close>

definition for_all_crs ::
  "(nat \<Rightarrow> nat \<Rightarrow> bool \<Rightarrow> pnet \<Rightarrow> int \<times> pnet) \<Rightarrow> bool \<Rightarrow> pnet \<Rightarrow> int \<times> pnet" where
  "for_all_crs f b s = fold (\<lambda>a (ret, s).
     case pf_ar_find_by_index (of_nat a) s of
       None \<Rightarrow> (ret, s)
     | Some a \<Rightarrow> if in_use (net_ars s ! a)
         then fold (\<lambda>c (ret, s). let (r, s) = f a c b s in (if r \<noteq> 0 then -1 else ret, s))
           [0..<unat (nbr_iocrs (cfg (net_ars s ! a)))] (ret, s)
         else (ret, s)) [0..<length (net_ars s)] (0, s)"

definition pnet_set_primary_state :: "bool \<Rightarrow> pnet \<Rightarrow> int \<times> pnet" where
  "pnet_set_primary_state = for_all_crs pf_ppm_set_data_status_state"

definition pnet_set_redundancy_state :: "bool \<Rightarrow> pnet \<Rightarrow> int \<times> pnet" where
  "pnet_set_redundancy_state = for_all_crs pf_ppm_set_data_status_redundancy"

definition pnet_set_provider_state :: "bool \<Rightarrow> pnet \<Rightarrow> int \<times> pnet" where
  "pnet_set_provider_state = for_all_crs pf_ppm_set_data_status_provider"

text \<open>The functions of an AR, which the application knows by its AREP.\<close>

definition with_arep :: "u32 \<Rightarrow> (nat \<Rightarrow> pnet \<Rightarrow> (int \<times> pnet) option) \<Rightarrow> pnet \<Rightarrow> (int \<times> pnet) option" where
  "with_arep r f s = (case pf_ar_find_by_arep r s of None \<Rightarrow> Some (-1, s) | Some a \<Rightarrow> f a s)"

definition pnet_application_ready :: "u32 \<Rightarrow> pnet \<Rightarrow> (int \<times> pnet) option" where
  "pnet_application_ready r = with_arep r (pf_cmdev_cm_ccontrol_req pf_cmrpc_rm_ccontrol_req)"

definition pnet_ar_abort :: "u32 \<Rightarrow> pnet \<Rightarrow> (int \<times> pnet) option" where
  "pnet_ar_abort r = with_arep r (\<lambda>a. pf_cmdev_cm_abort (Some a))"

definition pnet_alarm_send_process_alarm ::
  "u32 \<Rightarrow> u32 \<Rightarrow> u16 \<Rightarrow> u16 \<Rightarrow> u16 \<Rightarrow> u16 \<Rightarrow> payload option \<Rightarrow> pnet \<Rightarrow> (int \<times> pnet) option" where
  "pnet_alarm_send_process_alarm r api slot_nbr subslot_nbr usi n p =
     with_arep r (\<lambda>a. pf_alarm_send_process a api slot_nbr subslot_nbr usi n p)"

definition pnet_alarm_send_ack ::
  "u32 \<Rightarrow> pf_alarm_data \<Rightarrow> pnet_pnio_status \<Rightarrow> pnet \<Rightarrow> (int \<times> pnet) option" where
  "pnet_alarm_send_ack r d st = with_arep r (\<lambda>a. pf_alarm_alpmr_alarm_ack a d st)"

definition pnet_get_ar_error_codes :: "u32 \<Rightarrow> pnet \<Rightarrow> (u16 \<times> u16) option" where
  "pnet_get_ar_error_codes r s = map_option (\<lambda>a.
     (ucast (err_cls (net_ars s ! a)), ucast (err_code (net_ars s ! a)))) (pf_ar_find_by_arep r s)"

text \<open>\<open>default_cfg\<close> is what CMINA does: the default configuration, and its use.\<close>

definition pnet_factory_reset :: "(pnet \<Rightarrow> pnet option) \<Rightarrow> pnet \<Rightarrow> (int \<times> pnet) option" where
  "pnet_factory_reset default_cfg s = do {
     s \<leftarrow> fold_m (\<lambda>a s.
       if in_use (net_ars s ! a) then map_option snd (pf_cmdev_cm_abort (Some a) s) else Some s)
       [0..<length (net_ars s)] s;
     s \<leftarrow> default_cfg s;
     Some (0, s) }"

text \<open>
  One turn of the main loop, at the time \<open>now\<close>: the received RPC packets, the alarms, the timers,
  and the ports (\<open>ports\<close> is \<^verbatim>\<open>pf_pdport_periodic\<close>).
\<close>

definition pnet_handle_periodic ::
  "rpc_services \<Rightarrow> (pnet \<Rightarrow> pnet option) \<Rightarrow> udp_source \<Rightarrow> u32 \<Rightarrow> pnet \<Rightarrow> pnet option" where
  "pnet_handle_periodic v ports recv now s = do {
     s \<leftarrow> pf_cmrpc_periodic v recv (s\<lparr>net_now := now\<rparr>);
     s \<leftarrow> pf_alarm_periodic s;
     s \<leftarrow> stack_tick now s;
     ports s }"

end
