(* ===== verification/Pn_Watchdog.thy ===== *)
theory Pn_Watchdog
  imports Pn_Stack Pn_Net_Correct Pn_Demo
begin

text \<open>
  The data hold timer of a consumer: without an accepted frame it gives the connection up after a
  fixed number of control intervals, in any run in which the rest of the stack leaves the timer, the
  watchdog fields of the consumer and the state of the connection as they are.
\<close>

section \<open>One control interval\<close>

abbreviation expired :: "nat \<Rightarrow> nat \<Rightarrow> pnet \<Rightarrow> pnet option" where
  "expired \<equiv> pf_cpm_control_interval_expired pf_cpm_state_ind cmsu_error_ind"

text \<open>A running consumer with data hold factor \<open>f\<close> of a connection that exchanges data.\<close>

definition watched :: "nat \<Rightarrow> nat \<Rightarrow> u16 \<Rightarrow> pnet \<Rightarrow> bool" where
  "watched a c f s \<longleftrightarrow> has_cr s a c \<and> cpm_state (the_cpm s a c) = PF_CPM_STATE_RUN \<and>
     cpm_ci_running (the_cpm s a c) \<and> cpm_data_hold_factor (the_cpm s a c) = f \<and>
     cmio_state (net_ars s ! a) = PF_CMIO_STATE_DATA \<and> sched_wf (net_sched s)"

text \<open>The error of an expired data hold time is in the AR and the consumer has stopped.\<close>

definition hold_time_over :: "nat \<Rightarrow> nat \<Rightarrow> pnet \<Rightarrow> bool" where
  "hold_time_over a c s \<longleftrightarrow> err_cls (net_ars s ! a) = PNET_ERROR_CODE_1_RTA_ERR_CLS_PROTOCOL \<and>
     err_code (net_ars s ! a) = PNET_ERROR_CODE_2_ABORT_AR_CONSUMER_DHT_EXPIRED \<and>
     \<not> cpm_ci_running (the_cpm s a c)"

lemma cmio_upd_cr [simp]: "cmio_state (net_ars (upd_cr a c f s) ! a') = cmio_state (net_ars s ! a')"
  by (auto simp: upd_cr_def upd_ar_def nth_list_update_if)

lemma set_err_simps [simp]:
  "has_cr (set_err a c1 c2 s) a' c' = has_cr s a' c'" "the_cr (set_err a c1 c2 s) a' c' = the_cr s a' c'"
  "cmio_state (net_ars (set_err a c1 c2 s) ! a') = cmio_state (net_ars s ! a')"
  "a < length (net_ars s) \<Longrightarrow> err_cls (net_ars (set_err a c1 c2 s) ! a) = c1"
  "a < length (net_ars s) \<Longrightarrow> err_code (net_ars (set_err a c1 c2 s) ! a) = c2"
  by (auto simp: set_err_def upd_ar_def has_cr_def the_cr_def nth_list_update_if)

lemma err_upd_cr [simp]:
  "err_cls (net_ars (upd_cr a c f s) ! a') = err_cls (net_ars s ! a')"
  "err_code (net_ars (upd_cr a c f s) ! a') = err_code (net_ars s ! a')"
  "length (net_ars (upd_cr a c f s)) = length (net_ars s)"
  by (auto simp: upd_cr_def upd_ar_def nth_list_update_if)

text \<open>
  The timeout of the consumer: the entry of the scheduler that the handle in the consumer names and
  that calls the control interval of this consumer. It is pending while it is in the busy queue.
\<close>

definition own_entry :: "nat \<Rightarrow> nat \<Rightarrow> pnet \<Rightarrow> nat \<Rightarrow> bool" where
  "own_entry a c s ix = (let h = cpm_ci_timeout (the_cpm s a c); t = sc_timeouts (net_sched s) ! ix
     in h_index h = of_nat ix + 1 \<and> h_name h = to_name t \<and> to_cb t = CB_CPM \<and> to_arg t = pair_ptr a c)"

definition pending :: "nat \<Rightarrow> nat \<Rightarrow> pnet \<Rightarrow> bool" where
  "pending a c s \<longleftrightarrow> (\<exists>ix\<in>set (busy (net_sched s)). own_entry a c s ix)"

lemma timer_add_entry:
  assumes wf: "sched_wf (net_sched s)" and room: "0 < length (free (net_sched s))"
  obtains sc ix where "timer_add delay cb arg h s = Some (0, h\<lparr>h_index := of_nat ix + 1\<rparr>, s\<lparr>net_sched := sc\<rparr>)"
    and "sched_wf sc" and "ix \<in> set (busy sc)" and "to_name (sc_timeouts sc ! ix) = h_name h"
    and "to_cb (sc_timeouts sc ! ix) = cb" and "to_arg (sc_timeouts sc ! ix) = arg"
    and "busy (net_sched s) = [] \<Longrightarrow> busy sc = [ix]"
proof -
  have ok: "sched_ok (net_sched s)" and tick: "uint (sc_tick (net_sched s)) \<le> 2 ^ 31"
    using wf by (simp_all add: sched_wf_def)
  obtain d where d: "pf_scheduler_sanitize_delay delay (sc_tick (net_sched s)) True = Some d"
    using sanitize_total [OF sched_okD(6) [OF ok] tick] by metis
  obtain ix fs where fr: "free (net_sched s) = ix # fs" using room by (cases "free (net_sched s)") auto
  obtain sc where sc: "pf_scheduler_add (net_sched s) (net_now s) delay cb arg h = Some (sc, h\<lparr>h_index := of_nat ix + 1\<rparr>, 0)"
    "sched_ok sc" "sc_tick sc = sc_tick (net_sched s)"
    and ins: "busy sc = sched_insert (net_sched s) (net_now s + d) ix (busy (net_sched s))"
    and new: "contents_of (sc_timeouts sc ! ix) = \<lparr>to_name = h_name h, to_in_use = True,
      to_when = net_now s + d, to_next = 0, to_prev = 0, to_cb = cb, to_arg = arg\<rparr>"
    using add_spec [OF ok fr d, of "net_now s" cb arg h] by metis
  have "to_name (sc_timeouts sc ! ix) = h_name h" "to_cb (sc_timeouts sc ! ix) = cb"
    "to_arg (sc_timeouts sc ! ix) = arg"
    using new by (metis payload_sel timeout.select_convs)+
  moreover have "timer_add delay cb arg h s = Some (0, h\<lparr>h_index := of_nat ix + 1\<rparr>, s\<lparr>net_sched := sc\<rparr>)"
    using sc(1) by (simp add: timer_add_def)
  moreover have "busy sc = [ix]" if "busy (net_sched s) = []" using that by (simp add: ins sched_insert_def)
  ultimately show thesis using that [of ix sc] sc(2,3) tick by (simp add: sched_wf_def ins)
qed

lemma expired_counts:
  assumes w: "watched a c f s" and room: "0 < length (free (net_sched s))" and d: "dht (the_cpm s a c) < f"
  obtains s' where "expired a c s = Some s'" and "watched a c f s'"
    and "dht (the_cpm s' a c) = dht (the_cpm s a c) + 1" and "pending a c s'"
    and "busy (net_sched s) = [] \<Longrightarrow> \<exists>ix. busy (net_sched s') = [ix]"
proof -
  have cr: "has_cr s a c" and wf: "sched_wf (net_sched s)" using w by (simp_all add: watched_def)
  define s1 where "s1 = upd_cpm a c (\<lambda>p. p\<lparr>cpm_ci_timeout := pf_scheduler_reset_handle (cpm_ci_timeout p),
    dht := dht p + 1\<rparr>) s"
  have s1: "sched_wf (net_sched s1)" "0 < length (free (net_sched s1))" using wf room by (simp_all add: s1_def)
  obtain sc ix where t: "timer_add (cpm_control_interval (the_cpm s1 a c)) CB_CPM (pair_ptr a c)
      (cpm_ci_timeout (the_cpm s1 a c)) s1
      = Some (0, (cpm_ci_timeout (the_cpm s1 a c))\<lparr>h_index := of_nat ix + 1\<rparr>, s1\<lparr>net_sched := sc\<rparr>)"
    and sc: "sched_wf sc" "ix \<in> set (busy sc)" "to_name (sc_timeouts sc ! ix) = h_name (cpm_ci_timeout (the_cpm s1 a c))"
      "to_cb (sc_timeouts sc ! ix) = CB_CPM" "to_arg (sc_timeouts sc ! ix) = pair_ptr a c"
    and one: "busy (net_sched s1) = [] \<Longrightarrow> busy sc = [ix]"
    using timer_add_entry [OF s1, of "cpm_control_interval (the_cpm s1 a c)" CB_CPM "pair_ptr a c"
      "cpm_ci_timeout (the_cpm s1 a c)"] by metis
  let ?h = "(cpm_ci_timeout (the_cpm s1 a c))\<lparr>h_index := of_nat ix + 1\<rparr>"
  let ?s2 = "upd_cpm a c (\<lambda>p. p\<lparr>cpm_ci_timeout := ?h\<rparr>) (s1\<lparr>net_sched := sc\<rparr>)"
  have "expired a c s = Some ?s2"
    using w cr t linorder_not_le [THEN iffD2, OF d]
    by (simp add: pf_cpm_control_interval_expired_def watched_def s1_def Let_def)
  moreover have "watched a c f ?s2" using w cr sc(1) by (simp add: watched_def s1_def)
  moreover have "pending a c ?s2"
    using cr sc(2-5) by (auto simp: pending_def own_entry_def s1_def intro!: bexI [of _ ix])
  moreover have "\<exists>ix. busy (net_sched ?s2) = [ix]" if "busy (net_sched s) = []" using one that by (simp add: s1_def)
  ultimately show ?thesis using that cr by (simp add: s1_def)
qed

text \<open>What follows the abort: the timer starts again if the consumer has been started meanwhile.\<close>

definition rearm :: "nat \<Rightarrow> nat \<Rightarrow> pnet \<Rightarrow> pnet option" where
  "rearm a c s = (if cpm_ci_running (the_cpm s a c)
     then do {
       (r, h, s) \<leftarrow> timer_add (cpm_control_interval (the_cpm s a c)) CB_CPM (pair_ptr a c)
                     (cpm_ci_timeout (the_cpm s a c)) s;
       let s = upd_cpm a c (\<lambda>p. p\<lparr>cpm_ci_timeout := h\<rparr>) s;
       if r \<noteq> 0
       then cmsu_error_ind a (set_err a PNET_ERROR_CODE_1_CPM PNET_ERROR_CODE_2_CPM_INVALID s)
       else Some s }
     else Some s)"

lemma expired_trips:
  assumes w: "watched a c f s" and d: "f \<le> dht (the_cpm s a c)"
  obtains s1 where "hold_time_over a c s1"
    and "expired a c s = do { s2 \<leftarrow> pf_cmdev_abort a s1; rearm a c (pf_cpm_set_state a c PF_CPM_STATE_W_START s2) }"
proof -
  have cr: "has_cr s a c" and a: "a < length (net_ars s)" using w by (simp_all add: watched_def has_cr_def)
  define s0 where "s0 = upd_cpm a c (\<lambda>p. p\<lparr>cpm_ci_timeout := pf_scheduler_reset_handle (cpm_ci_timeout p)\<rparr>) s"
  define s1 where "s1 = upd_cpm a c (\<lambda>p. p\<lparr>dht := 0, cpm_ci_running := False\<rparr>)
    (set_err a PNET_ERROR_CODE_1_RTA_ERR_CLS_PROTOCOL PNET_ERROR_CODE_2_ABORT_AR_CONSUMER_DHT_EXPIRED s0)"
  have s0: "has_cr s0 a c" "cpm_ci_running (the_cpm s0 a c)" "cpm_state (the_cpm s0 a c) = PF_CPM_STATE_RUN"
    "cpm_data_hold_factor (the_cpm s0 a c) \<le> dht (the_cpm s0 a c)" "a < length (net_ars s0)"
    "cmio_state (net_ars s0 ! a) = PF_CMIO_STATE_DATA"
    using w d cr a by (simp_all add: s0_def watched_def)
  have cm: "cmio_state (net_ars s1 ! a) = PF_CMIO_STATE_DATA" using s0 by (simp add: s1_def)
  have "hold_time_over a c s1" using s0 by (simp add: hold_time_over_def s1_def)
  moreover have "expired a c s = do { s2 \<leftarrow> pf_cpm_state_ind a c False s1;
      rearm a c (pf_cpm_set_state a c PF_CPM_STATE_W_START s2) }"
    using s0 unfolding pf_cpm_control_interval_expired_def Let_def s0_def [symmetric]
    by (simp add: s1_def [symmetric] rearm_def Let_def cong: if_cong)
  moreover have "pf_cpm_state_ind a c False s1 = pf_cmdev_abort a s1"
    using cm by (cases "pf_cmdev_abort a s1")
      (simp_all add: pf_cpm_state_ind_def pf_cmio_cpm_state_ind_def pf_cmdev_state_ind_abort)
  ultimately show ?thesis using that by simp
qed

section \<open>A silent controller\<close>

text \<open>
  The first half of an iteration of \<^verbatim>\<open>pf_scheduler_tick\<close>: the first entry leaves the busy queue for
  the free one; its callback runs next.
\<close>

definition take_first :: "sched \<Rightarrow> sched option" where
  "take_first s = do {
     let ix = sc_first s;
     s \<leftarrow> pf_scheduler_unlink s QBusy ix;
     let s = upd_to ix (\<lambda>t. t\<lparr>to_in_use := False\<rparr>) s;
     pf_scheduler_link_before s QFree ix (sc_free s) }"

lemma take_first_busy:
  assumes ok: "sched_ok s" and bs: "busy s = ix # bs"
  obtains s1 sc where "sc_first s = ix" and "ix < tmax s" and "pf_scheduler_unlink s QBusy ix = Some s1"
    and "sc_timeouts s1 ! ix = sc_timeouts s ! ix"
    and "pf_scheduler_link_before (upd_to ix (\<lambda>t. t\<lparr>to_in_use := False\<rparr>) s1) QFree ix (sc_free s1) = Some sc"
    and "take_first s = Some sc" and "sched_ok sc" and "free sc = ix # free s" and "busy sc = bs"
    and "sc_tick sc = sc_tick s"
proof -
  have first: "sc_first s = ix" "ix < tmax s"
    using sched_okD(2) [OF ok] bs queue_bound [of s QBusy "ix # bs"] by (auto simp: queue_def q_head_def)
  obtain s1 s3 where s1: "pf_scheduler_unlink s QBusy ix = Some s1" "sc_timeouts s1 ! ix = sc_timeouts s ! ix"
    "pf_scheduler_link_before (upd_to ix (\<lambda>t. t\<lparr>to_in_use := False\<rparr>) s1) QFree ix (sc_free s1) = Some s3"
    and s3: "sched_ok s3" "free s3 = ix # free s" "busy s3 = bs" "sc_tick s3 = sc_tick s"
    using release [OF ok, of "[]" ix bs] bs by (metis append_Nil)
  have "sc_free (upd_to ix (\<lambda>t. t\<lparr>to_in_use := False\<rparr>) s1) = sc_free s1" by (simp add: upd_to_def)
  then have "take_first s = Some s3" using s1(1,3) first by (simp add: take_first_def Let_def)
  then show thesis by (rule that [OF first s1 _ s3])
qed

lemma tick_takes_first:
  assumes ok: "sched_ok s" and bs: "busy s = ix # bs" and now: "Pn_Scheduler_Correct.expired now s ix"
    and sc: "take_first s = Some sc"
  shows "pf_scheduler_tick run now s e = do {
    (s', e) \<leftarrow> run (to_cb (sc_timeouts s ! ix)) (to_arg (sc_timeouts s ! ix)) now (sc, e);
    pf_scheduler_tick run now s' e }"
proof (rule take_first_busy [OF ok bs])
  fix s1 s3
  assume "sc_first s = ix" "ix < tmax s" "pf_scheduler_unlink s QBusy ix = Some s1"
    "sc_timeouts s1 ! ix = sc_timeouts s ! ix"
    "pf_scheduler_link_before (upd_to ix (\<lambda>t. t\<lparr>to_in_use := False\<rparr>) s1) QFree ix (sc_free s1) = Some s3"
    "take_first s = Some s3"
  then show ?thesis
    using now sc by (subst pf_scheduler_tick.simps) (simp add: Pn_Scheduler_Correct.expired_def Let_def)
qed

text \<open>What the rest of the stack does to a consumer whose controller is silent: nothing.\<close>

definition leaves_watchdog :: "nat \<Rightarrow> nat \<Rightarrow> pnet \<Rightarrow> pnet \<Rightarrow> bool" where
  "leaves_watchdog a c s t \<longleftrightarrow> has_cr t a c \<and> sched_wf (net_sched t) \<and> pending a c t \<and>
     cmio_state (net_ars t ! a) = cmio_state (net_ars s ! a) \<and>
     (let p = the_cpm s a c; q = the_cpm t a c in cpm_state q = cpm_state p \<and>
        cpm_ci_running q = cpm_ci_running p \<and> cpm_data_hold_factor q = cpm_data_hold_factor p \<and> dht q = dht p)"

text \<open>
  The runs in which the watchdog has expired \<open>k\<close> times since \<open>s0\<close>: the consumer's timeout is taken
  from the scheduler when it is the first, and its callback runs; before, between and after that the
  rest of the stack takes any number of steps that leave the watchdog as it is.
\<close>

inductive silence :: "nat \<Rightarrow> nat \<Rightarrow> pnet \<Rightarrow> nat \<Rightarrow> pnet \<Rightarrow> bool" for a c s0 where
  start: "silence a c s0 0 s0"
| other: "silence a c s0 k s \<Longrightarrow> leaves_watchdog a c s t \<Longrightarrow> silence a c s0 k t"
| fires: "silence a c s0 k s \<Longrightarrow> busy (net_sched s) = ix # rest \<Longrightarrow> own_entry a c s ix \<Longrightarrow>
    take_first (net_sched s) = Some sc \<Longrightarrow> expired a c (s\<lparr>net_sched := sc\<rparr>) = Some t \<Longrightarrow> silence a c s0 (Suc k) t"

lemma watched_other:
  assumes "watched a c f s" and "leaves_watchdog a c s t"
  shows "watched a c f t" and "dht (the_cpm t a c) = dht (the_cpm s a c)" and "pending a c t"
  using assms by (simp_all add: watched_def leaves_watchdog_def Let_def)

lemma watched_take:
  assumes w: "watched a c f s" and bs: "busy (net_sched s) = ix # rest"
  obtains sc where "take_first (net_sched s) = Some sc" and "watched a c f (s\<lparr>net_sched := sc\<rparr>)"
    and "0 < length (free sc)" and "busy sc = rest"
proof -
  have ok: "sched_ok (net_sched s)" using w by (simp add: watched_def sched_wf_def)
  obtain sc where "take_first (net_sched s) = Some sc" "sched_ok sc" "free sc = ix # free (net_sched s)"
    "sc_tick sc = sc_tick (net_sched s)" "busy sc = rest"
    using take_first_busy [OF ok bs] by metis
  then show thesis using that [of sc] w by (simp add: watched_def sched_wf_def)
qed

lemma of_nat_less_factor: "of_nat k < f" if "k < unat (f :: u16)"
proof -
  have "k < 65536" using that unsigned_less [of f, where ?'a = nat] by simp
  then show ?thesis using that by (simp add: word_less_nat_alt unat_of_nat take_bit_nat_eq_self)
qed

lemma silence_counts:
  assumes "silence a c s0 k t" and "watched a c f s0" and "dht (the_cpm s0 a c) = 0" and "pending a c s0"
    and "k \<le> unat f"
  shows "watched a c f t \<and> dht (the_cpm t a c) = of_nat k \<and> pending a c t"
  using assms
proof (induction rule: silence.induct)
  case start
  then show ?case by simp
next
  case (other k s t)
  then show ?case using watched_other [of a c f s t] by simp
next
  case (fires k s ix rest sc t)
  have s: "watched a c f s" "dht (the_cpm s a c) = of_nat k" using fires by simp_all
  have sc: "watched a c f (s\<lparr>net_sched := sc\<rparr>)" "0 < length (free (net_sched (s\<lparr>net_sched := sc\<rparr>)))"
    using watched_take [OF s(1) fires(2)] fires(4) by auto
  have "dht (the_cpm (s\<lparr>net_sched := sc\<rparr>) a c) < f" using s(2) fires.prems of_nat_less_factor [of k f] by simp
  then obtain t' where "expired a c (s\<lparr>net_sched := sc\<rparr>) = Some t'" "watched a c f t'"
    "dht (the_cpm t' a c) = dht (the_cpm (s\<lparr>net_sched := sc\<rparr>) a c) + 1" "pending a c t'"
    using expired_counts [OF sc] by blast
  then show ?case using fires(5) s(2) by (simp add: add.commute)
qed

text \<open>C38. The watchdog of a consumer with data hold factor \<open>f\<close>. Take any run in which its timer has
  expired \<open>k \<le> f\<close> times without an accepted frame, while the rest of the stack did what it liked with
  everything but the timer, the watchdog fields and the state of the connection. When the timer
  expires again, taking it from the scheduler succeeds, and: for \<open>k < f\<close> the control interval is
  counted, the consumer keeps running and its timer is pending again; for \<open>k = f\<close> the error of the
  expired data hold time is put into the AR, the consumer stops and the connection is aborted.
\<close>

theorem watchdog_aborts:
  assumes "watched a c f s0" and "dht (the_cpm s0 a c) = 0" and "pending a c s0"
    and "silence a c s0 k t" and "k \<le> unat f"
    and "busy (net_sched t) = ix # rest" and "own_entry a c t ix"
  shows "\<exists>sc. take_first (net_sched t) = Some sc \<and>
    (if k < unat f
     then \<exists>t'. expired a c (t\<lparr>net_sched := sc\<rparr>) = Some t' \<and> dht (the_cpm t' a c) = of_nat (k + 1) \<and>
            watched a c f t' \<and> pending a c t'
     else \<exists>t'. hold_time_over a c t' \<and> expired a c (t\<lparr>net_sched := sc\<rparr>) = do {
            t2 \<leftarrow> pf_cmdev_abort a t';
            rearm a c (pf_cpm_set_state a c PF_CPM_STATE_W_START t2) })"
proof -
  have t: "watched a c f t" "dht (the_cpm t a c) = of_nat k" using silence_counts assms(1-5) by simp_all
  obtain sc where sc: "take_first (net_sched t) = Some sc" "watched a c f (t\<lparr>net_sched := sc\<rparr>)"
    "0 < length (free (net_sched (t\<lparr>net_sched := sc\<rparr>)))"
    using watched_take [OF t(1) assms(6)] by auto
  show ?thesis
  proof (cases "k < unat f")
    case True
    then have "dht (the_cpm (t\<lparr>net_sched := sc\<rparr>) a c) < f" using t(2) of_nat_less_factor by simp
    then show ?thesis using expired_counts [OF sc(2,3)] sc(1) t(2) True by (simp add: add.commute) metis
  next
    case False
    then have "f = of_nat k" using assms(5) by simp
    then have "f \<le> dht (the_cpm (t\<lparr>net_sched := sc\<rparr>) a c)" using t(2) by simp
    then show ?thesis using expired_trips [OF sc(2)] sc(1) False by simp metis
  qed
qed

text \<open>A consumer alone with its timeout, and a controller that stays silent while the time goes on.\<close>

lemma silence_alone:
  assumes "watched a c f s0" and "dht (the_cpm s0 a c) = 0" and "pending a c s0" and "busy (net_sched s0) = [ix]"
    and "k \<le> unat f"
  shows "\<exists>t jx. silence a c s0 k t \<and> busy (net_sched t) = [jx] \<and> own_entry a c t jx"
  using assms(5)
proof (induction k)
  case 0
  then show ?case using assms silence.start [of a c s0] by (auto simp: pending_def)
next
  case (Suc k)
  then obtain t jx where t: "silence a c s0 k t" "busy (net_sched t) = [jx]" "own_entry a c t jx" by auto
  have w: "watched a c f t" "dht (the_cpm t a c) = of_nat k" "pending a c t"
    using silence_counts [OF t(1) assms(1-3)] Suc.prems by simp_all
  obtain sc where sc: "take_first (net_sched t) = Some sc" "watched a c f (t\<lparr>net_sched := sc\<rparr>)"
    "0 < length (free (net_sched (t\<lparr>net_sched := sc\<rparr>)))" "busy (net_sched (t\<lparr>net_sched := sc\<rparr>)) = []"
    using watched_take [OF w(1) t(2)] by auto
  have "dht (the_cpm (t\<lparr>net_sched := sc\<rparr>) a c) < f" using w(2) Suc.prems of_nat_less_factor [of k f] by simp
  then obtain u ux where u: "expired a c (t\<lparr>net_sched := sc\<rparr>) = Some u" "watched a c f u" "pending a c u"
    "busy (net_sched u) = [ux]"
    using expired_counts [OF sc(2,3)] sc(4) by metis
  have "silence a c s0 (Suc k) u" by (rule silence.fires [OF t sc(1) u(1)])
  moreover have "leaves_watchdog a c u (u\<lparr>net_now := net_now u + 32000\<rparr>)"
    using u by (simp add: leaves_watchdog_def watched_def pending_def own_entry_def Let_def the_cr_def has_cr_def)
  ultimately have "silence a c s0 (Suc k) (u\<lparr>net_now := net_now u + 32000\<rparr>)" by (rule silence.other)
  then show ?case using u(3,4) by (auto simp: pending_def own_entry_def Let_def the_cr_def)
qed

definition quiet_net :: pnet where
  "quiet_net = upd_cpm 0 0 (\<lambda>p. p\<lparr>dht := 0, cpm_ci_timeout := demo_timer\<lparr>h_index := 1\<rparr>\<rparr>)
     (demo_net\<lparr>net_sched := fst (the (pf_scheduler_add (net_sched demo_net) 0 32000 CB_CPM (pair_ptr 0 0) demo_timer))\<rparr>)"

lemma quiet_sched: "sched_wf (net_sched quiet_net)" "busy (net_sched quiet_net) = [0]"
  "own_entry 0 0 quiet_net 0"
  by code_simp+

lemma quiet_watched: "watched 0 0 3 quiet_net" "dht (the_cpm quiet_net 0 0) = 0" "pending 0 0 quiet_net"
proof -
  have cr: "has_cr demo_net 0 0" "the_cpm demo_net 0 0 = demo_cpm"
    "cmio_state (net_ars demo_net ! 0) = PF_CMIO_STATE_DATA"
    by (simp_all add: has_cr_def demo_net_def demo_conn_def the_cr_def demo_cr_def)
  then show "watched 0 0 3 quiet_net" "dht (the_cpm quiet_net 0 0) = 0"
    using quiet_sched by (simp_all add: watched_def) (simp_all add: quiet_net_def demo_cpm_def)
  show "pending 0 0 quiet_net" using quiet_sched by (simp add: pending_def)
qed

theorem watchdog_aborts_witness:
  "\<exists>t sc. silence 0 0 quiet_net 3 t \<and> take_first (net_sched t) = Some sc \<and>
    (\<exists>t'. hold_time_over 0 0 t' \<and> expired 0 0 (t\<lparr>net_sched := sc\<rparr>) = do {
       t2 \<leftarrow> pf_cmdev_abort 0 t';
       rearm 0 0 (pf_cpm_set_state 0 0 PF_CPM_STATE_W_START t2) })"
proof -
  obtain t ix where t: "silence 0 0 quiet_net 3 t" "busy (net_sched t) = [ix]" "own_entry 0 0 t ix"
    using silence_alone [OF quiet_watched quiet_sched(2), of 3] by auto
  then show ?thesis using watchdog_aborts [OF quiet_watched t(1) _ t(2,3)] by auto
qed

end
