(* ===== verification/Pn_Lldp_Frame.thy ===== *)
theory Pn_Lldp_Frame
  imports Pn_Host Pn_Block_Reader Pn_Epm Pn_Eth
begin

text \<open>
  The frames of LLDP (\<^verbatim>\<open>src/common/pf_lldp.c\<close>): what the device says of itself, the frame that
  carries it, and the parser of the frames of the neighbours.
\<close>

declare split_paired_All [simp del] split_paired_Ex [simp del]

definition LLDP_TYPE_END :: u8 where "LLDP_TYPE_END = 0"
definition LLDP_TYPE_CHASSIS_ID :: u8 where "LLDP_TYPE_CHASSIS_ID = 1"
definition LLDP_TYPE_PORT_ID :: u8 where "LLDP_TYPE_PORT_ID = 2"
definition LLDP_TYPE_TTL :: u8 where "LLDP_TYPE_TTL = 3"
definition LLDP_TYPE_PORT_DESCRIPTION :: u8 where "LLDP_TYPE_PORT_DESCRIPTION = 4"
definition LLDP_TYPE_MANAGEMENT_ADDRESS :: u8 where "LLDP_TYPE_MANAGEMENT_ADDRESS = 8"
definition LLDP_TYPE_ORG_SPEC :: u8 where "LLDP_TYPE_ORG_SPEC = 127"

definition LLDP_IEEE_SUBTYPE_MAC_PHY :: u8 where "LLDP_IEEE_SUBTYPE_MAC_PHY = 1"
definition LLDP_PNIO_SUBTYPE_MEAS_DELAY_VALUES :: u8 where "LLDP_PNIO_SUBTYPE_MEAS_DELAY_VALUES = 1"
definition LLDP_PNIO_SUBTYPE_PORT_STATUS :: u8 where "LLDP_PNIO_SUBTYPE_PORT_STATUS = 2"
definition LLDP_PNIO_SUBTYPE_CHASSIS_MAC :: u8 where "LLDP_PNIO_SUBTYPE_CHASSIS_MAC = 5"

lemmas lldp_type_defs = LLDP_TYPE_END_def LLDP_TYPE_CHASSIS_ID_def LLDP_TYPE_PORT_ID_def
  LLDP_TYPE_TTL_def LLDP_TYPE_PORT_DESCRIPTION_def LLDP_TYPE_MANAGEMENT_ADDRESS_def
  LLDP_TYPE_ORG_SPEC_def LLDP_IEEE_SUBTYPE_MAC_PHY_def LLDP_PNIO_SUBTYPE_MEAS_DELAY_VALUES_def
  LLDP_PNIO_SUBTYPE_PORT_STATUS_def LLDP_PNIO_SUBTYPE_CHASSIS_MAC_def

definition LLDP_AUTONEG_SUPPORTED :: u8 where "LLDP_AUTONEG_SUPPORTED = 1"
definition LLDP_AUTONEG_ENABLED :: u8 where "LLDP_AUTONEG_ENABLED = 2"

definition PF_LLDP_SUBTYPE_MAC :: u8 where "PF_LLDP_SUBTYPE_MAC = 4"
definition PF_LLDP_SUBTYPE_LOCALLY_ASSIGNED :: u8 where "PF_LLDP_SUBTYPE_LOCALLY_ASSIGNED = 7"
definition PF_LLDP_TTL :: u16 where "PF_LLDP_TTL = 20"

definition lldp_dst_addr :: "u8 list" where
  "lldp_dst_addr = [0x01, 0x80, 0xC2, 0x00, 0x00, 0x0E]"

definition org_id_pnio :: "u8 list" where "org_id_pnio = [0x00, 0x0E, 0xCF]"
definition org_id_ieee_8023 :: "u8 list" where "org_id_ieee_8023 = [0x00, 0x12, 0x0F]"

section \<open>Putting the parts of a frame\<close>

text \<open>The length is a byte; a longer one is cut.\<close>

definition pf_lldp_add_tlv_header :: "u8 \<Rightarrow> u8 \<Rightarrow> wrm" where
  "pf_lldp_add_tlv_header typ len =
     pf_put_uint16 True (push_bit 9 (ucast typ) + (ucast len AND 0x1FF))"

definition pf_lldp_add_ethernet_header :: "u8 list \<Rightarrow> u8 list \<Rightarrow> wrm" where
  "pf_lldp_add_ethernet_header dst_addr src_addr = puts [
     pf_put_mem dst_addr 6, pf_put_mem src_addr 6, pf_put_uint16 True PNAL_ETHTYPE_LLDP]"

definition pf_lldp_add_pnio_header :: "u8 \<Rightarrow> wrm" where
  "pf_lldp_add_pnio_header len = puts [pf_lldp_add_tlv_header LLDP_TYPE_ORG_SPEC (len + 3),
     pf_put_byte 0x00, pf_put_byte 0x0E, pf_put_byte 0xCF]"

definition pf_lldp_add_ieee_header :: "u8 \<Rightarrow> wrm" where
  "pf_lldp_add_ieee_header len = puts [pf_lldp_add_tlv_header LLDP_TYPE_ORG_SPEC (len + 3),
     pf_put_byte 0x00, pf_put_byte 0x12, pf_put_byte 0x0F]"

definition pf_lldp_add_chassis_id_tlv :: "pf_lldp_chassis_id \<Rightarrow> wrm" where
  "pf_lldp_add_chassis_id_tlv c = puts [
     pf_lldp_add_tlv_header LLDP_TYPE_CHASSIS_ID (1 + ucast (lid_len c)),
     pf_put_byte (lid_subtype c),
     pf_put_mem (lid_string c) (ucast (lid_len c))]"

definition pf_lldp_add_port_id_tlv :: "pf_lldp_port_id \<Rightarrow> wrm" where
  "pf_lldp_add_port_id_tlv p = puts [
     pf_lldp_add_tlv_header LLDP_TYPE_PORT_ID (1 + ucast (lid_len p)),
     pf_put_byte (lid_subtype p),
     pf_put_mem (lid_string p) (ucast (lid_len p))]"

definition pf_lldp_add_ttl_tlv :: wrm where
  "pf_lldp_add_ttl_tlv = puts [pf_lldp_add_tlv_header LLDP_TYPE_TTL 2, pf_put_uint16 True PF_LLDP_TTL]"

definition pf_lldp_add_port_status :: "u16 \<Rightarrow> u16 \<Rightarrow> wrm" where
  "pf_lldp_add_port_status rtclass_2_status rtclass_3_status = puts [
     pf_lldp_add_pnio_header 5,
     pf_put_byte LLDP_PNIO_SUBTYPE_PORT_STATUS,
     pf_put_uint16 True rtclass_2_status,
     pf_put_uint16 True rtclass_3_status]"

text \<open>\<^verbatim>\<open>memcpy\<close>, with no check of the size.\<close>

definition lldp_copy :: "u8 list \<Rightarrow> wrm" where
  "lldp_copy bs w =
     (if unat (wr_pos w) + length bs \<le> length (wr_bytes w)
      then Some (w\<lparr>wr_bytes := overlay (unat (wr_pos w)) bs (wr_bytes w),
                   wr_pos := wr_pos w + of_nat (length bs)\<rparr>)
      else None)"

definition pf_lldp_add_chassis_mac :: "u8 list \<Rightarrow> wrm" where
  "pf_lldp_add_chassis_mac mac_address = puts [
     pf_lldp_add_pnio_header (1 + 6),
     pf_put_byte LLDP_PNIO_SUBTYPE_CHASSIS_MAC,
     lldp_copy mac_address]"

definition pf_lldp_add_ieee_mac_phy :: "pf_lldp_link_status \<Rightarrow> wrm" where
  "pf_lldp_add_ieee_mac_phy st = (let
     a = (if is_autonegotiation_supported st then LLDP_AUTONEG_SUPPORTED else 0);
     a = (if is_autonegotiation_enabled st then a OR LLDP_AUTONEG_ENABLED else a)
   in puts [
     pf_lldp_add_ieee_header 6,
     pf_put_byte LLDP_IEEE_SUBTYPE_MAC_PHY,
     pf_put_byte a,
     pf_put_uint16 True (autonegotiation_advertised_capabilities st),
     pf_put_uint16 True (operational_mau_type st)])"

definition pf_lldp_add_management :: "pf_lldp_management_address \<Rightarrow> wrm" where
  "pf_lldp_add_management m = puts [
     pf_lldp_add_tlv_header LLDP_TYPE_MANAGEMENT_ADDRESS 12,
     pf_put_byte (1 + ucast (man_len m)),
     pf_put_byte (man_subtype m),
     pf_put_mem (man_value m) (ucast (man_len m)),
     pf_put_byte (ifn_subtype (man_interface_number m)),
     pf_put_uint32 True (ifn_value (man_interface_number m)),
     pf_put_byte 0]"

section \<open>What the device says of itself\<close>

text \<open>
  A structure that a function fills in is an argument and the result. The arguments \<open>len\<close> of
  \<^verbatim>\<open>snprintf\<close> are the sizes of the arrays.
\<close>

definition PNET_SERIAL_NUMBER_MAX_LEN :: nat where "PNET_SERIAL_NUMBER_MAX_LEN = 16"

definition system_description_text :: "pnet_cfg \<Rightarrow> u8 list" where
  "system_description_text c = (let im = cfg_im_0 c in
     pad_right PNET_PRODUCT_NAME_MAX_LEN (c_string (cfg_product_name c)) @ [32] @
     pad_right PNET_ORDER_ID_MAX_LEN (c_string (im_order_id im)) @ [32] @
     pad_right PNET_SERIAL_NUMBER_MAX_LEN (c_string (im_serial_number im)) @ [32] @
     pad_left 5 (dec_digits (unat (im_hardware_revision im))) @ [32] @
     [im_sw_revision_prefix im] @
     pad_left 3 (dec_digits (unat (im_sw_revision_functional_enhancement im))) @
     pad_left 3 (dec_digits (unat (im_sw_revision_bug_fix im))) @
     pad_left 3 (dec_digits (unat (im_sw_revision_internal_change im))))"

text \<open>The result is the length of the text, also when the array is too short for it.\<close>

definition pf_lldp_get_system_description :: "host \<Rightarrow> u8 list \<Rightarrow> u64 \<times> u8 list" where
  "pf_lldp_get_system_description h str = (let t = system_description_text (fspm_cfg h)
     in (of_nat (length t), snprintf_into t str))"

definition hex_digit :: "u8 \<Rightarrow> u8" where
  "hex_digit d = (if d < 10 then 48 + d else 55 + d)"

definition hex2 :: "u8 \<Rightarrow> u8 list" where
  "hex2 b = [hex_digit (drop_bit 4 b), hex_digit (b AND 15)]"

definition mac_text :: "u8 list \<Rightarrow> u8 list" where
  "mac_text mac = hex2 (mac ! 0) @ [45] @ hex2 (mac ! 1) @ [45] @ hex2 (mac ! 2) @ [45] @
     hex2 (mac ! 3) @ [45] @ hex2 (mac ! 4) @ [45] @ hex2 (mac ! 5)"

definition pf_lldp_mac_address_to_string :: "u8 list \<Rightarrow> u8 list \<Rightarrow> u8 list" where
  "pf_lldp_mac_address_to_string mac mac_str = snprintf_into (mac_text mac) mac_str"

definition pf_lldp_get_chassis_id :: "host \<Rightarrow> u8 list \<Rightarrow> pf_lldp_chassis_id \<Rightarrow> pf_lldp_chassis_id" where
  "pf_lldp_get_chassis_id h device_mac_address c = (let
     c = (if name_of_device_legacy h
       then (let station_name = c_string (ase_station_name (cmina_current_dcp_ase h));
                 n = length station_name in
         if n = 0 \<or> n \<ge> length (lid_string c)
         then c\<lparr>lid_subtype := PF_LLDP_SUBTYPE_MAC, lid_len := 6,
                lid_string := overlay 0 device_mac_address (lid_string c)\<rparr>
         else c\<lparr>lid_subtype := PF_LLDP_SUBTYPE_LOCALLY_ASSIGNED, lid_len := of_nat n,
                lid_string := overlay 0 station_name (lid_string c)\<rparr>)
       else (let (n, str) = pf_lldp_get_system_description h (lid_string c) in
         c\<lparr>lid_subtype := PF_LLDP_SUBTYPE_LOCALLY_ASSIGNED, lid_len := n, lid_string := str\<rparr>))
   in c\<lparr>lid_string := (lid_string c)[unat (lid_len c) := 0], lid_is_valid := True\<rparr>)"

definition pf_lldp_get_port_id :: "host \<Rightarrow> u8 list \<Rightarrow> nat \<Rightarrow> pf_lldp_port_id \<Rightarrow> pf_lldp_port_id" where
  "pf_lldp_get_port_id h device_mac_address i p = (let
     name = c_string (port_name (the_port h i));
     station_name = c_string (ase_station_name (cmina_current_dcp_ase h));
     text = (if name_of_device_legacy h then name
       else name @ [46] @ (if station_name = [] then mac_text device_mac_address else station_name));
     str = snprintf_into text (lid_string p)
   in p\<lparr>lid_string := str, lid_subtype := PF_LLDP_SUBTYPE_LOCALLY_ASSIGNED,
        lid_len := of_nat (length (c_string str)), lid_is_valid := True\<rparr>)"

definition pf_lldp_get_port_description ::
  "host \<Rightarrow> nat \<Rightarrow> pf_lldp_port_description \<Rightarrow> pf_lldp_port_description" where
  "pf_lldp_get_port_description h i d = (let
     str = snprintf_into (c_string (netif_name (the_port h i))) (descr_string d)
   in d\<lparr>descr_string := str, descr_len := of_nat (length (c_string str)), descr_is_valid := True\<rparr>)"

text \<open>An address in memory, most significant byte first.\<close>

definition bytes_be32 :: "u32 \<Rightarrow> u8 list" where
  "bytes_be32 v = [ucast (drop_bit 24 v), ucast (drop_bit 16 v), ucast (drop_bit 8 v), ucast v]"

definition pf_lldp_get_management_address ::
  "host \<Rightarrow> u32 \<Rightarrow> pf_lldp_management_address \<Rightarrow> pf_lldp_management_address" where
  "pf_lldp_get_management_address h if_index m = m\<lparr>man_subtype := 1,
     man_value := overlay 0
       (bytes_be32 (su_ip_addr (ip_suite (full_ip_suite (cmina_current_dcp_ase h))))) (man_value m),
     man_len := 4,
     man_interface_number := \<lparr>ifn_value = if_index, ifn_subtype = 2\<rparr>, man_is_valid := True\<rparr>"

definition pf_lldp_get_signal_delays :: pf_lldp_signal_delay where
  "pf_lldp_get_signal_delays = \<lparr>rx_delay_local = 0, rx_delay_remote = 0, tx_delay_local = 0,
     tx_delay_remote = 0, cable_delay_local = 0, delay_is_valid = True\<rparr>"

text \<open>
  The type of the medium that LLDP announces: unknown and the link down is the default of the
  configuration (\<^verbatim>\<open>pf_pdport.c\<close>).
\<close>

definition PNAL_ETH_MAU_UNKNOWN :: u16 where "PNAL_ETH_MAU_UNKNOWN = 0"

definition pf_pdport_filter_mau_type :: "u16 \<Rightarrow> bool \<Rightarrow> u16 \<Rightarrow> u16" where
  "pf_pdport_filter_mau_type mau_type running default_mau_type =
     (if mau_type = PNAL_ETH_MAU_UNKNOWN \<and> \<not> running then default_mau_type else mau_type)"

definition pf_pdport_get_eth_status_filtered_mau :: "host \<Rightarrow> nat \<Rightarrow> pnal_eth_status" where
  "pf_pdport_get_eth_status_filtered_mau h i = (let e = eth_status (the_port h i) in
     e\<lparr>eth_operational_mau_type := pf_pdport_filter_mau_type (eth_operational_mau_type e)
       (eth_running e) (default_mau_types (fspm_cfg h) ! i)\<rparr>)"

definition pf_lldp_get_link_status :: "host \<Rightarrow> nat \<Rightarrow> pf_lldp_link_status" where
  "pf_lldp_get_link_status h i = (let e = pf_pdport_get_eth_status_filtered_mau h i in
     \<lparr>is_autonegotiation_supported = eth_is_autonegotiation_supported e,
      is_autonegotiation_enabled = eth_is_autonegotiation_enabled e,
      autonegotiation_advertised_capabilities = eth_advertised_capabilities e,
      operational_mau_type = eth_operational_mau_type e,
      link_is_valid = True\<rparr>)"

section \<open>The frame\<close>

text \<open>
  The frame from its parts, and the frame of a port; \<open>stack\<close> is what the local variables hold
  before they are filled in.
\<close>

definition lldp_frame :: "u8 list \<Rightarrow> pf_lldp_chassis_id \<Rightarrow> pf_lldp_port_id \<Rightarrow> u8 list
    \<Rightarrow> pf_lldp_link_status \<Rightarrow> pf_lldp_management_address \<Rightarrow> wrm" where
  "lldp_frame src_addr c p device_mac_address link_status man_address = puts [
     pf_lldp_add_ethernet_header lldp_dst_addr src_addr,
     pf_lldp_add_chassis_id_tlv c,
     pf_lldp_add_port_id_tlv p,
     pf_lldp_add_ttl_tlv,
     pf_lldp_add_port_status 0 0,
     pf_lldp_add_chassis_mac device_mac_address,
     pf_lldp_add_ieee_mac_phy link_status,
     pf_lldp_add_management man_address,
     pf_lldp_add_tlv_header LLDP_TYPE_END 0]"

definition pf_lldp_construct_frame ::
  "host \<Rightarrow> u8 list \<Rightarrow> u32 \<Rightarrow> pf_lldp_peer_info \<Rightarrow> nat \<Rightarrow> wrm" where
  "pf_lldp_construct_frame h device_mac_address if_index stack i = lldp_frame
     (netif_mac_address (the_port h i))
     (pf_lldp_get_chassis_id h device_mac_address (chassis_id stack))
     (pf_lldp_get_port_id h device_mac_address i (port_id stack))
     device_mac_address
     (pf_lldp_get_link_status h i)
     (pf_lldp_get_management_address h if_index (management_address stack))"

section \<open>Parsing\<close>

text \<open>
  The offset is moved without a look at the size of the frame. A read that fails leaves the
  result, and all later reads fail too, so what is in \<^verbatim>\<open>org\<close> then does not matter.
\<close>

definition skip_offset :: "u16 \<Rightarrow> unit rdm" where
  "skip_offset n = State (\<lambda>s. ((), s\<lparr>rd_pos := rd_pos s + n\<rparr>))"

definition pf_lldp_get_tlv_from_packet :: "(u8 \<times> u16) rdm" where
  "pf_lldp_get_tlv_from_packet = do {
     tlv_head \<leftarrow> pf_get_uint16;
     r \<leftarrow> get_result;
     rd_return (if r = PF_PARSE_OK
       then (ucast (drop_bit 9 (tlv_head AND 0xFE00)), tlv_head AND 0x1FF)
       else (LLDP_TYPE_END, 0)) }"

definition pf_lldp_get_org_header_from_packet :: "(u8 list \<times> u8) rdm" where
  "pf_lldp_get_org_header_from_packet = do {
     i \<leftarrow> pf_get_mem 3 [0, 0, 0];
     t \<leftarrow> pf_get_byte;
     rd_return (i, t) }"

definition get_id_from_packet :: "u16 \<Rightarrow> pf_lldp_chassis_id \<Rightarrow> pf_lldp_chassis_id rdm" where
  "get_id_from_packet tlv_len c =
     (if tlv_len = 0 then rd_return c
      else let n = tlv_len - 1; c = c\<lparr>lid_len := ucast n\<rparr> in
        if unat n > length (lid_string c) - 1
        then do { skip_offset tlv_len; rd_return c }
        else do {
          t \<leftarrow> pf_get_byte;
          str \<leftarrow> pf_get_mem n (lid_string c);
          str \<leftarrow> terminate_at str (unat n);
          rd_return (c\<lparr>lid_subtype := t, lid_string := str, lid_is_valid := True\<rparr>) })"

definition pf_lldp_get_chassis_id_from_packet ::
  "u16 \<Rightarrow> pf_lldp_chassis_id \<Rightarrow> pf_lldp_chassis_id rdm" where
  "pf_lldp_get_chassis_id_from_packet = get_id_from_packet"

definition pf_lldp_get_port_id_from_packet :: "u16 \<Rightarrow> pf_lldp_port_id \<Rightarrow> pf_lldp_port_id rdm" where
  "pf_lldp_get_port_id_from_packet = get_id_from_packet"

definition pf_lldp_get_ttl_from_packet :: "u16 \<Rightarrow> u16 \<Rightarrow> u16 rdm" where
  "pf_lldp_get_ttl_from_packet tlv_len t =
     (if tlv_len \<noteq> 2 then do { set_result PF_PARSE_ERROR; rd_return t } else pf_get_uint16)"

definition pf_lldp_get_port_description_from_packet ::
  "u16 \<Rightarrow> pf_lldp_port_description \<Rightarrow> pf_lldp_port_description rdm" where
  "pf_lldp_get_port_description_from_packet tlv_len d =
     (if unat tlv_len > length (descr_string d) - 1
      then do { skip_offset tlv_len; rd_return d }
      else do {
        str \<leftarrow> pf_get_mem tlv_len (descr_string d);
        str \<leftarrow> terminate_at str (unat tlv_len);
        rd_return (d\<lparr>descr_len := ucast tlv_len, descr_string := str, descr_is_valid := True\<rparr>) })"

definition clear_man_address :: "pf_lldp_management_address \<Rightarrow> pf_lldp_management_address" where
  "clear_man_address m = \<lparr>man_value = replicate (length (man_value m)) 0, man_subtype = 0, man_len = 0,
     man_interface_number = \<lparr>ifn_value = 0, ifn_subtype = 0\<rparr>, man_is_valid = False\<rparr>"

definition pf_lldp_get_management_address_from_packet ::
  "u16 \<Rightarrow> pf_lldp_management_address \<Rightarrow> pf_lldp_management_address rdm" where
  "pf_lldp_get_management_address_from_packet tlv_len m = do {
     let m = clear_man_address m;
     n \<leftarrow> pf_get_byte;
     let m = m\<lparr>man_len := ucast n - 1\<rparr>;
     if man_len m < 1 \<or> man_len m > 31
     then do { skip_offset (tlv_len - 1); rd_return m }
     else do {
       t \<leftarrow> pf_get_byte;
       v \<leftarrow> pf_get_mem (ucast (man_len m)) (man_value m);
       it \<leftarrow> pf_get_byte;
       iv \<leftarrow> pf_get_uint32;
       oid_len \<leftarrow> pf_get_byte;
       skip_offset (ucast oid_len);
       rd_return (m\<lparr>man_subtype := t, man_value := v,
         man_interface_number := \<lparr>ifn_value = iv, ifn_subtype = it\<rparr>, man_is_valid := True\<rparr>) } }"

definition pf_lldp_management_address_is_ipv4 :: "pf_lldp_management_address \<Rightarrow> bool" where
  "pf_lldp_management_address_is_ipv4 m \<longleftrightarrow> man_is_valid m \<and> man_subtype m = 1 \<and> man_len m = 4"

definition pf_lldp_get_signal_delay_from_packet ::
  "u16 \<Rightarrow> pf_lldp_signal_delay \<Rightarrow> pf_lldp_signal_delay rdm" where
  "pf_lldp_get_signal_delay_from_packet tlv_len d =
     (if tlv_len \<noteq> 24 then do { set_result PF_PARSE_ERROR; rd_return d }
      else do {
        a \<leftarrow> pf_get_uint32; b \<leftarrow> pf_get_uint32; e \<leftarrow> pf_get_uint32; f \<leftarrow> pf_get_uint32; g \<leftarrow> pf_get_uint32;
        rd_return \<lparr>rx_delay_local = a, rx_delay_remote = b, tx_delay_local = e, tx_delay_remote = f,
          cable_delay_local = g, delay_is_valid = True\<rparr> })"

definition pf_lldp_get_port_status_from_packet :: "u16 \<Rightarrow> u8 list \<Rightarrow> u8 list rdm" where
  "pf_lldp_get_port_status_from_packet tlv_len st =
     (if tlv_len \<noteq> 8 then do { set_result PF_PARSE_ERROR; rd_return st } else pf_get_mem 4 st)"

definition pf_lldp_get_chassis_mac_from_packet :: "u16 \<Rightarrow> u8 list \<Rightarrow> u8 list rdm" where
  "pf_lldp_get_chassis_mac_from_packet tlv_len mac =
     (if tlv_len \<noteq> 10 then do { set_result PF_PARSE_ERROR; rd_return mac } else pf_get_mem 6 mac)"

definition cleared_link_status :: pf_lldp_link_status where
  "cleared_link_status = \<lparr>is_autonegotiation_supported = False, is_autonegotiation_enabled = False,
     autonegotiation_advertised_capabilities = 0, operational_mau_type = 0, link_is_valid = False\<rparr>"

definition pf_lldp_get_link_status_from_packet :: "u16 \<Rightarrow> pf_lldp_link_status rdm" where
  "pf_lldp_get_link_status_from_packet tlv_len =
     (if tlv_len \<noteq> 9 then do { set_result PF_PARSE_ERROR; rd_return cleared_link_status }
      else do {
        a \<leftarrow> pf_get_byte; caps \<leftarrow> pf_get_uint16; mau \<leftarrow> pf_get_uint16;
        rd_return \<lparr>is_autonegotiation_supported = a AND LLDP_AUTONEG_SUPPORTED \<noteq> 0,
          is_autonegotiation_enabled = a AND LLDP_AUTONEG_ENABLED \<noteq> 0,
          autonegotiation_advertised_capabilities = caps, operational_mau_type = mau,
          link_is_valid = True\<rparr> })"

text \<open>The element of an organisation: that of Profinet, of IEEE 802.3, or one that is skipped.\<close>

definition lldp_org_tlv :: "u16 \<Rightarrow> pf_lldp_peer_info \<Rightarrow> pf_lldp_peer_info rdm" where
  "lldp_org_tlv tlv_len p = do {
     (org, subtype) \<leftarrow> pf_lldp_get_org_header_from_packet;
     if org = org_id_pnio \<and> subtype = LLDP_PNIO_SUBTYPE_MEAS_DELAY_VALUES then do {
       d \<leftarrow> pf_lldp_get_signal_delay_from_packet tlv_len (port_delay p);
       rd_return (p\<lparr>port_delay := d\<rparr>) }
     else if org = org_id_pnio \<and> subtype = LLDP_PNIO_SUBTYPE_PORT_STATUS then do {
       st \<leftarrow> pf_lldp_get_port_status_from_packet tlv_len (port_status p);
       rd_return (p\<lparr>port_status := st\<rparr>) }
     else if org = org_id_pnio \<and> subtype = LLDP_PNIO_SUBTYPE_CHASSIS_MAC then do {
       mac \<leftarrow> pf_lldp_get_chassis_mac_from_packet tlv_len (peer_mac_address p);
       rd_return (p\<lparr>peer_mac_address := mac\<rparr>) }
     else if org = org_id_ieee_8023 \<and> subtype = LLDP_IEEE_SUBTYPE_MAC_PHY then do {
       l \<leftarrow> pf_lldp_get_link_status_from_packet tlv_len;
       rd_return (p\<lparr>phy_config := l\<rparr>) }
     else do { skip_offset (tlv_len - 4); rd_return p } }"

definition lldp_tlv :: "u8 \<Rightarrow> u16 \<Rightarrow> pf_lldp_peer_info \<Rightarrow> pf_lldp_peer_info rdm" where
  "lldp_tlv ty tlv_len p =
     (if ty = LLDP_TYPE_CHASSIS_ID then do {
        c \<leftarrow> pf_lldp_get_chassis_id_from_packet tlv_len (chassis_id p);
        rd_return (p\<lparr>chassis_id := c\<rparr>) }
      else if ty = LLDP_TYPE_PORT_ID then do {
        c \<leftarrow> pf_lldp_get_port_id_from_packet tlv_len (port_id p);
        rd_return (p\<lparr>port_id := c\<rparr>) }
      else if ty = LLDP_TYPE_TTL then do {
        t \<leftarrow> pf_lldp_get_ttl_from_packet tlv_len (peer_ttl p);
        rd_return (p\<lparr>peer_ttl := t\<rparr>) }
      else if ty = LLDP_TYPE_PORT_DESCRIPTION then do {
        d \<leftarrow> pf_lldp_get_port_description_from_packet tlv_len (port_description p);
        rd_return (p\<lparr>port_description := d\<rparr>) }
      else if ty = LLDP_TYPE_MANAGEMENT_ADDRESS then do {
        m \<leftarrow> pf_lldp_get_management_address_from_packet tlv_len (management_address p);
        rd_return (if pf_lldp_management_address_is_ipv4 m then p\<lparr>management_address := m\<rparr> else p) }
      else if ty = LLDP_TYPE_ORG_SPEC then lldp_org_tlv tlv_len p
      else do { skip_offset tlv_len; rd_return p })"

text \<open>
  The loop over the elements of a frame; \<open>None\<close> is that it never ends. It starts with the position
  behind the head of the first element.
\<close>

partial_function (option) lldp_tlvs ::
  "u8 \<times> u16 \<Rightarrow> pf_lldp_peer_info \<Rightarrow> rd \<Rightarrow> (pf_lldp_peer_info \<times> rd) option" where
  "lldp_tlvs tlv p s =
     (if fst tlv = LLDP_TYPE_END then Some (p, s)
      else let (p, s) = run_state (lldp_tlv (fst tlv) (snd tlv) p) s;
               (tlv, s) = run_state pf_lldp_get_tlv_from_packet s
        in lldp_tlvs tlv p s)"

definition clear_id :: "pf_lldp_chassis_id \<Rightarrow> pf_lldp_chassis_id" where
  "clear_id c = \<lparr>lid_string = replicate (length (lid_string c)) 0, lid_subtype = 0,
     lid_is_valid = False, lid_len = 0\<rparr>"

definition clear_peer_info :: "pf_lldp_peer_info \<Rightarrow> pf_lldp_peer_info" where
  "clear_peer_info p = \<lparr>chassis_id = clear_id (chassis_id p), port_id = clear_id (port_id p),
     peer_ttl = 0,
     port_description = \<lparr>descr_string = replicate (length (descr_string (port_description p))) 0,
       descr_is_valid = False, descr_len = 0\<rparr>,
     management_address = clear_man_address (management_address p),
     port_delay = \<lparr>rx_delay_local = 0, rx_delay_remote = 0, tx_delay_local = 0, tx_delay_remote = 0,
       cable_delay_local = 0, delay_is_valid = False\<rparr>,
     port_status = replicate (length (port_status p)) 0,
     peer_mac_address = replicate (length (peer_mac_address p)) 0, line_delay = 0,
     phy_config = cleared_link_status\<rparr>"

definition pf_lldp_parse_packet ::
  "u8 list \<Rightarrow> u16 \<Rightarrow> pf_lldp_peer_info \<Rightarrow> (int \<times> pf_lldp_peer_info) option" where
  "pf_lldp_parse_packet buf n p = (let
     s = \<lparr>result = PF_PARSE_OK, is_big_endian = True, p_buf = Some buf, buf_len = n, rd_pos = 0,
          rd_fault = False\<rparr>;
     (tlv, s) = run_state pf_lldp_get_tlv_from_packet s
   in do {
     (p, s) \<leftarrow> lldp_tlvs tlv (clear_peer_info p) s;
     if rd_fault s then None else Some (if result s \<noteq> PF_PARSE_OK then -1 else 0, p) })"

end
