(* ===== verification/Pn_Lldp_Props.thy ===== *)
theory Pn_Lldp_Props
  imports Pn_Lldp_Frame Pn_Block_Reader_Correct Pn_Demo
begin

text \<open>
  The parser of LLDP frames returns for every frame and stays inside the arrays. \<open>ends k m Q\<close>: the
  parser \<open>m\<close> of one element, which starts when \<open>k\<close> bytes of the element have been read, reports
  no success after a failure, moves the offset back by at most these \<open>k\<close> bytes, and its result
  satisfies \<open>Q\<close>. So the offset is higher at each head of an element, as long as it does not wrap:
  the size of the frame is at most 64000, and no buffer of the stack has more than 1522.
\<close>

declare split_paired_All [simp del] split_paired_Ex [simp del]

section \<open>Parsers of elements\<close>

text \<open>The arrays have the sizes of the C structure.\<close>

definition peer_ok :: "pf_lldp_peer_info \<Rightarrow> bool" where
  "peer_ok p \<longleftrightarrow> lid_string (chassis_id p) \<noteq> [] \<and> lid_string (port_id p) \<noteq> [] \<and>
     descr_string (port_description p) \<noteq> [] \<and> length (man_value (management_address p)) = 31 \<and>
     length (port_status p) = 4 \<and> length (peer_mac_address p) = 6"

definition buffered :: "rd \<Rightarrow> bool" where
  "buffered s \<longleftrightarrow> (\<exists>b. p_buf s = Some b \<and> unat (buf_len s) \<le> length b) \<and> unat (buf_len s) \<le> 64000"

definition ends :: "nat \<Rightarrow> 'a rdm \<Rightarrow> ('a \<Rightarrow> bool) \<Rightarrow> bool" where
  "ends k m Q \<longleftrightarrow> (\<forall>s. honest s \<longrightarrow> buffered s \<longrightarrow> (result s = PF_PARSE_OK \<longrightarrow> k \<le> unat (rd_pos s)) \<longrightarrow>
     (let t = snd (run_state m s) in
       Q (fst (run_state m s)) \<and> buffered t \<and> rd_fault t = rd_fault s \<and> buf_len t = buf_len s \<and>
       (result t = PF_PARSE_OK \<longrightarrow> result s = PF_PARSE_OK \<and> unat (rd_pos s) \<le> unat (rd_pos t) + k)))"

lemma took_ok: "took n s t \<Longrightarrow> result t = PF_PARSE_OK \<Longrightarrow>
    result s = PF_PARSE_OK \<and> unat (rd_pos t) = unat (rd_pos s) + n"
  by (auto simp: took_def split: if_splits)

lemma took_buffered: "took n s t \<Longrightarrow> buffered s \<Longrightarrow> buffered t"
  by (auto simp: took_def buffered_def)

lemma takes_ends: "takes n m Q \<Longrightarrow> ends k m Q"
  unfolding ends_def Let_def takes_def
  using took_ok took_buffered by (metis (no_types, lifting) took_def trans_le_add1 le_add1 )

lemma ends_bind:
  assumes m: "takes a m P" and f: "\<And>x. P x \<Longrightarrow> ends (k + a) (f x) Q"
  shows "ends k (State_Monad.bind m f) Q"
  unfolding ends_def Let_def
proof (intro allI impI)
  fix s assume h: "honest s" "buffered s" "result s = PF_PARSE_OK \<longrightarrow> k \<le> unat (rd_pos s)"
  obtain x t where xt: "run_state m s = (x, t)" by fastforce
  with m h have p: "P x" and st: "took a s t" by (auto simp: takes_def)
  have b: "buffered t" "honest t" "rd_fault t = rd_fault s" "buf_len t = buf_len s"
    using st took_buffered h(2) by (auto simp: took_def)
  have k: "result t = PF_PARSE_OK \<longrightarrow> k + a \<le> unat (rd_pos t)"
    using took_ok [OF st] h(3) by auto
  have e: "let u = snd (run_state (f x) t) in
       Q (fst (run_state (f x) t)) \<and> buffered u \<and> rd_fault u = rd_fault t \<and> buf_len u = buf_len t \<and>
       (result u = PF_PARSE_OK \<longrightarrow> result t = PF_PARSE_OK \<and> unat (rd_pos t) \<le> unat (rd_pos u) + (k + a))"
    using f [OF p] b k unfolding ends_def by blast
  have r: "run_state (State_Monad.bind m f) s = run_state (f x) t" by (simp add: xt)
  show "Q (fst (run_state (State_Monad.bind m f) s)) \<and>
      buffered (snd (run_state (State_Monad.bind m f) s)) \<and>
      rd_fault (snd (run_state (State_Monad.bind m f) s)) = rd_fault s \<and>
      buf_len (snd (run_state (State_Monad.bind m f) s)) = buf_len s \<and>
      (result (snd (run_state (State_Monad.bind m f) s)) = PF_PARSE_OK \<longrightarrow>
        result s = PF_PARSE_OK \<and>
        unat (rd_pos s) \<le> unat (rd_pos (snd (run_state (State_Monad.bind m f) s))) + k)"
    unfolding r using e b took_ok [OF st] by (auto simp: Let_def)
qed

lemma ends_error: "r \<noteq> PF_PARSE_OK \<Longrightarrow> Q x \<Longrightarrow> ends k (do { set_result r; rd_return x }) Q"
  by (simp add: ends_def set_result_def rd_return_def buffered_def)

lemma pos_skip:
  fixes p n :: u16
  assumes "unat p \<le> 64000" and "unat n \<le> 511" and "k \<le> 511" and "k \<le> unat p"
  shows "unat p \<le> unat (p + (n - of_nat k)) + k"
proof -
  have "p + (n - of_nat k) = of_nat (unat p - k + unat n)"
    using assms(4) by (simp add: of_nat_diff)
  moreover have "unat (of_nat (unat p - k + unat n) :: u16) = unat p - k + unat n"
    using assms by (simp only: unsigned_of_nat) (simp add: take_bit_nat_eq_self)
  ultimately have "unat (p + (n - of_nat k)) = unat p - k + unat n" by metis
  then show ?thesis using assms(4) by simp
qed

lemma ends_skip:
  assumes "unat n \<le> 511" and "k \<le> 511" and "Q x"
  shows "ends k (do { skip_offset (n - of_nat k); rd_return x }) Q"
  unfolding ends_def Let_def
proof (intro allI impI)
  fix s assume h: "honest s" "buffered s" "result s = PF_PARSE_OK \<longrightarrow> k \<le> unat (rd_pos s)"
  have "unat (rd_pos s) \<le> unat (buf_len s)" using h(1) by (simp add: honest_def word_le_nat_alt)
  then have "unat (rd_pos s) \<le> 64000" using h(2) by (simp add: buffered_def)
  then show "Q (fst (run_state (do { skip_offset (n - of_nat k); rd_return x }) s)) \<and>
      buffered (snd (run_state (do { skip_offset (n - of_nat k); rd_return x }) s)) \<and>
      rd_fault (snd (run_state (do { skip_offset (n - of_nat k); rd_return x }) s)) = rd_fault s \<and>
      buf_len (snd (run_state (do { skip_offset (n - of_nat k); rd_return x }) s)) = buf_len s \<and>
      (result (snd (run_state (do { skip_offset (n - of_nat k); rd_return x }) s)) = PF_PARSE_OK \<longrightarrow>
        result s = PF_PARSE_OK \<and> unat (rd_pos s) \<le>
        unat (rd_pos (snd (run_state (do { skip_offset (n - of_nat k); rd_return x }) s))) + k)"
    using assms h(2,3) pos_skip [of "rd_pos s" n k]
    by (simp add: skip_offset_def rd_return_def buffered_def)
qed

lemma ends_weaken: "ends 0 m Q \<Longrightarrow> ends k m Q"
  unfolding ends_def Let_def by (intro allI impI) (drule spec, auto)

lemma ends_return: "Q x \<Longrightarrow> ends k (rd_return x) Q"
  by (rule takes_ends [OF takes_return])

lemmas ends_fields = ends_bind [OF takes_byte] ends_bind [OF takes_uint16] ends_bind [OF takes_uint32] ends_return

lemma ends_then:
  assumes m: "ends k m P" and f: "\<And>x. P x \<Longrightarrow> Q (f x)"
  shows "ends k (do { x \<leftarrow> m; rd_return (f x) }) Q"
proof -
  have r: "run_state (do { x \<leftarrow> m; rd_return (f x) }) s = (f (fst (run_state m s)), snd (run_state m s))" for s
    by (cases "run_state m s") (simp add: rd_return_def)
  show ?thesis unfolding ends_def Let_def r fst_conv snd_conv
  proof (intro allI impI conjI)
    fix s assume "honest s" "buffered s" "result s = PF_PARSE_OK \<longrightarrow> k \<le> unat (rd_pos s)"
    note e = m [unfolded ends_def Let_def, rule_format, OF this(1,2)] this(3)
    show "Q (f (fst (run_state m s)))" using e f by simp
    show "buffered (snd (run_state m s))" "rd_fault (snd (run_state m s)) = rd_fault s"
      "buf_len (snd (run_state m s)) = buf_len s" using e by simp_all
    assume "result (snd (run_state m s)) = PF_PARSE_OK"
    then show "result s = PF_PARSE_OK" "unat (rd_pos s) \<le> unat (rd_pos (snd (run_state m s))) + k"
      using e by simp_all
  qed
qed

lemma tlv_len_le: "unat (v AND 0x1FF :: u16) \<le> 511"
proof -
  have "v AND 0x1FF \<le> 0x1FF" by (rule word_and_le1)
  then show ?thesis by (simp add: word_le_nat_alt)
qed

lemma get_tlv:
  assumes "buffered s" and "run_state pf_lldp_get_tlv_from_packet s = (tlv, t)"
  shows "unat (snd tlv) \<le> 511" and "buffered t" and "rd_fault t = rd_fault s" and "buf_len t = buf_len s"
    and "fst tlv = LLDP_TYPE_END \<or> honest t \<and> result t = PF_PARSE_OK \<and> result s = PF_PARSE_OK \<and> 
      unat (rd_pos t) = unat (rd_pos s) + 2"
proof -
  obtain v u where vu: "run_state pf_get_uint16 s = (v, u)" by fastforce
  have t: "t = u" and tlv: "tlv = (if result u = PF_PARSE_OK
       then (ucast (drop_bit 9 (v AND 0xFE00)), v AND 0x1FF) else (LLDP_TYPE_END, 0))"
    using assms(2) vu by (auto simp: pf_lldp_get_tlv_from_packet_def get_result_def rd_return_def)
  show "unat (snd tlv) \<le> 511" using tlv_len_le by (simp add: tlv)
  have "buffered t \<and> rd_fault t = rd_fault s \<and> buf_len t = buf_len s \<and> (fst tlv = LLDP_TYPE_END \<or> honest t \<and> result t = PF_PARSE_OK \<and> result s = PF_PARSE_OK \<and> 
      unat (rd_pos t) = unat (rd_pos s) + 2)"
  proof (cases "honest s")
    case True
    then have k: "took 2 s u" using takes_uint16 vu by (auto simp: takes_def dest: spec [of _ s])
    show ?thesis
      using k took_buffered [OF k assms(1)] took_ok [OF k]
      by (cases "result u = PF_PARSE_OK") (simp_all add: t tlv, auto simp: took_def)
  next
    case False
    then have "rd_pos s \<ge> buf_len s" using assms(1) by (auto simp: honest_def buffered_def)
    then have "result u \<noteq> PF_PARSE_OK \<and> buffered u \<and> rd_fault u = rd_fault s \<and> buf_len u = buf_len s"
      using vu assms(1)
      by (auto simp: pf_get_uint16_def pf_get_byte_def get_result_def get_endian_def rd_return_def buffered_def split: if_splits)
    then show ?thesis by (simp add: t tlv)
  qed
  then show "buffered t" and "rd_fault t = rd_fault s" and "buf_len t = buf_len s"
    and "fst tlv = LLDP_TYPE_END \<or> honest t \<and> result t = PF_PARSE_OK \<and> result s = PF_PARSE_OK \<and> 
      unat (rd_pos t) = unat (rd_pos s) + 2" by auto
qed

lemma ends_id:
  assumes "unat n \<le> 511" and "lid_string c \<noteq> []"
  shows "ends 0 (get_id_from_packet n c) (\<lambda>c'. length (lid_string c') = length (lid_string c))"
proof (cases "n = 0 \<or> unat (n - 1) > length (lid_string c) - 1")
  case True
  then show ?thesis
    using ends_skip [OF assms(1), of 0 "\<lambda>c'. length (lid_string c') = length (lid_string c)" "c\<lparr>lid_len := ucast (n - 1)\<rparr>"]
    by (auto simp: get_id_from_packet_def Let_def ends_return)
next
  case False
  with assms(2) have "unat (n - 1) < length (lid_string c)" by (cases "lid_string c") simp_all
  with False show ?thesis
    by (simp add: get_id_from_packet_def Let_def)
      (intro ends_bind [OF takes_byte] ends_bind [OF takes_mem] ends_bind [OF takes_terminate]
        ends_return; simp)
qed

lemma ends_description:
  assumes "unat n \<le> 511" and "descr_string d \<noteq> []"
  shows "ends 0 (pf_lldp_get_port_description_from_packet n d)
    (\<lambda>d'. length (descr_string d') = length (descr_string d))"
proof (cases "unat n > length (descr_string d) - 1")
  case True
  then show ?thesis
    using ends_skip [OF assms(1), of 0 "\<lambda>d'. length (descr_string d') = length (descr_string d)" d]
    by (simp add: pf_lldp_get_port_description_from_packet_def)
next
  case False
  with assms(2) have "unat n < length (descr_string d)" by (cases "descr_string d") simp_all
  with False show ?thesis
    by (simp add: pf_lldp_get_port_description_from_packet_def)
      (intro ends_bind [OF takes_mem] ends_bind [OF takes_terminate] ends_return; simp)
qed

lemma ends_management:
  assumes "unat n \<le> 511" and "length (man_value m) = 31"
  shows "ends 0 (pf_lldp_get_management_address_from_packet n m) (\<lambda>m'. length (man_value m') = 31)"
proof -
  have len: "unat (ucast v :: u16) \<le> 31" if "\<not> 31 < (v :: u64)" for v
  proof -
    have "unat v \<le> 31" using that by (simp add: word_less_nat_alt)
    moreover have "unat (ucast v :: u16) \<le> unat v"
      by (simp add: unsigned_ucast_eq take_bit_nat_less_eq_self)
    ultimately show ?thesis by simp
  qed
  have s1: "ends (Suc 0) (do { skip_offset (n - 1); rd_return y }) Q" if "Q y" for y Q
    using ends_skip [OF assms(1), of 1 Q y] that by simp
  have s2: "ends k (do { skip_offset (ucast (b :: u8)); rd_return y }) Q" if "Q y" for y Q k b
  proof -
    have "unat (ucast b :: u16) \<le> 511"
      unfolding unsigned_ucast_eq using unsigned_less [of b, where ?'a = nat]
      by (intro order.trans [OF take_bit_nat_less_eq_self]) simp
    from ends_weaken [OF ends_skip [OF this, of 0 Q y]] that show ?thesis by simp
  qed
  show ?thesis
    using assms len
    by (auto simp: pf_lldp_get_management_address_from_packet_def Let_def clear_man_address_def
      intro!: ends_bind [OF takes_byte] ends_bind [OF takes_mem] ends_bind [OF takes_uint32] s1 s2)
qed

lemma ends_fixed:
  "ends k (pf_lldp_get_ttl_from_packet n t) (\<lambda>_. True)"
  "ends k (pf_lldp_get_signal_delay_from_packet n d) (\<lambda>_. True)"
  "ends k (pf_lldp_get_link_status_from_packet n) (\<lambda>_. True)"
  "length st = 4 \<Longrightarrow> ends k (pf_lldp_get_port_status_from_packet n st) (\<lambda>x. length x = 4)"
  "length mac = 6 \<Longrightarrow> ends k (pf_lldp_get_chassis_mac_from_packet n mac) (\<lambda>x. length x = 6)"
  using takes_mem [of 4 st] takes_mem [of 6 mac]
  by (auto simp: pf_lldp_get_ttl_from_packet_def pf_lldp_get_signal_delay_from_packet_def
      pf_lldp_get_link_status_from_packet_def pf_lldp_get_port_status_from_packet_def
      pf_lldp_get_chassis_mac_from_packet_def intro!: ends_fields ends_error
      takes_ends [OF takes_uint16] intro: takes_ends)

lemma ends_if:
  "(b \<Longrightarrow> ends k m Q) \<Longrightarrow> (\<not> b \<Longrightarrow> ends k m' Q) \<Longrightarrow> ends k (if b then m else m') Q"
  by simp

lemma ends_org:
  assumes n: "unat n \<le> 511" and p: "peer_ok p"
  shows "ends 0 (lldp_org_tlv n p) peer_ok"
  unfolding lldp_org_tlv_def
proof (rule ends_bind)
  show "takes 4 pf_lldp_get_org_header_from_packet (\<lambda>_. True)"
    unfolding pf_lldp_get_org_header_from_packet_def
    by (intro takes_seq [OF takes_mem] takes_prims) simp_all
  have skip: "ends 4 (do { skip_offset (n - 4); rd_return p }) peer_ok"
    using ends_skip [OF n, of 4 peer_ok p] p by simp
  have len: "length (port_status p) = 4" "length (peer_mac_address p) = 6"
    using p by (auto simp: peer_ok_def)
  show "ends (0 + 4) (case x of (org, subtype) \<Rightarrow>
     if org = org_id_pnio \<and> subtype = LLDP_PNIO_SUBTYPE_MEAS_DELAY_VALUES then do {
       d \<leftarrow> pf_lldp_get_signal_delay_from_packet n (port_delay p);
       rd_return (p\<lparr>port_delay := d\<rparr>) }
     else if org = org_id_pnio \<and> subtype = LLDP_PNIO_SUBTYPE_PORT_STATUS then do {
       st \<leftarrow> pf_lldp_get_port_status_from_packet n (port_status p);
       rd_return (p\<lparr>port_status := st\<rparr>) }
     else if org = org_id_pnio \<and> subtype = LLDP_PNIO_SUBTYPE_CHASSIS_MAC then do {
       mac \<leftarrow> pf_lldp_get_chassis_mac_from_packet n (peer_mac_address p);
       rd_return (p\<lparr>peer_mac_address := mac\<rparr>) }
     else if org = org_id_ieee_8023 \<and> subtype = LLDP_IEEE_SUBTYPE_MAC_PHY then do {
       l \<leftarrow> pf_lldp_get_link_status_from_packet n;
       rd_return (p\<lparr>phy_config := l\<rparr>) }
     else do { skip_offset (n - 4); rd_return p }) peer_ok" for x
    unfolding add_0
    by (cases x) (simp only: prod.case, intro ends_if ends_then [OF ends_fixed(2)] skip
        ends_then [OF ends_fixed(3)] ends_then [OF ends_fixed(4)] ends_then [OF ends_fixed(5)];
        use p len in \<open>simp add: peer_ok_def\<close>)
qed

lemma ends_tlv:
  assumes n: "unat n \<le> 511" and p: "peer_ok p"
  shows "ends 0 (lldp_tlv ty n p) peer_ok"
proof -
  have [simp]: "lid_string (chassis_id p) \<noteq> []" "lid_string (port_id p) \<noteq> []"
    "descr_string (port_description p) \<noteq> []" "length (man_value (management_address p)) = 31"
    using p by (auto simp: peer_ok_def)
  have "ends 0 (do { skip_offset n; rd_return p }) peer_ok"
    using ends_skip [OF n, of 0 peer_ok p] p by simp
  then show ?thesis
    unfolding lldp_tlv_def pf_lldp_get_chassis_id_from_packet_def pf_lldp_get_port_id_from_packet_def
    using p n
    by (auto intro!: ends_then [OF ends_id] ends_then [OF ends_fixed(1)] ends_then [OF ends_description]
        ends_then [OF ends_management] ends_org simp: peer_ok_def)
qed

section \<open>The loop\<close>

lemma lldp_tlvs_returns:
  assumes "buffered s" and "unat (snd tlv) \<le> 511" and "peer_ok p"
    and "fst tlv = LLDP_TYPE_END \<or> honest s"
  shows "\<exists>p' s'. lldp_tlvs tlv p s = Some (p', s') \<and> peer_ok p' \<and> rd_fault s' = rd_fault s"
  using assms
proof (induction "unat (buf_len s) - unat (rd_pos s)" arbitrary: s tlv p rule: less_induct)
  case less
  show ?case
  proof (cases "fst tlv = LLDP_TYPE_END")
    case True
    with less show ?thesis by (subst lldp_tlvs.simps) simp
  next
    case False
    with less.prems have h: "honest s" by simp
    obtain q t where qt: "run_state (lldp_tlv (fst tlv) (snd tlv) p) s = (q, t)" by fastforce
    have e: "peer_ok q" "buffered t" "rd_fault t = rd_fault s" "buf_len t = buf_len s"
      "result t = PF_PARSE_OK \<Longrightarrow> unat (rd_pos s) \<le> unat (rd_pos t)"
      using ends_tlv [OF less.prems(2,3), of "fst tlv"] h less.prems(1) qt
      by (auto simp: ends_def Let_def dest: spec [of _ s])
    obtain l u where lu: "run_state pf_lldp_get_tlv_from_packet t = (l, u)" by fastforce
    note g = get_tlv [OF e(2) lu]
    have r: "lldp_tlvs tlv p s = lldp_tlvs l q u"
      using False qt lu by (subst lldp_tlvs.simps) simp
    show ?thesis
    proof (cases "fst l = LLDP_TYPE_END")
      case True
      then have "lldp_tlvs l q u = Some (q, u)" by (subst lldp_tlvs.simps) simp
      then show ?thesis using r e g by simp
    next
      case False
      with g(5) have u: "honest u" "result t = PF_PARSE_OK" "unat (rd_pos u) = unat (rd_pos t) + 2"
        by auto
      then have "unat (rd_pos u) \<le> unat (buf_len u)" by (simp add: honest_def word_le_nat_alt)
      then have "unat (buf_len u) - unat (rd_pos u) < unat (buf_len s) - unat (rd_pos s)"
        using u e(4,5) g(4) by simp
      from less.hyps [OF this g(2,1) e(1)] u(1) show ?thesis using r e(3) g(3) by auto
    qed
  qed
qed

text \<open>C39. \<^verbatim>\<open>pf_lldp_parse_packet\<close> returns for every sequence of bytes of at most 64000, also one that
  ends inside an element or whose lengths lie: the loop over the elements ends, nothing outside the
  frame is read, nothing outside the arrays of the peer information is written, and the arrays keep
  their sizes.
\<close>

theorem lldp_parse_returns:
  assumes "unat n \<le> length buf" and "n \<le> 64000" and "peer_ok p"
  shows "\<exists>r q. pf_lldp_parse_packet buf n p = Some (r, q) \<and> peer_ok q"
proof -
  let ?s = "\<lparr>result = PF_PARSE_OK, is_big_endian = True, p_buf = Some buf, buf_len = n, rd_pos = 0,
    rd_fault = False\<rparr>"
  have b: "buffered ?s" using assms by (simp add: buffered_def word_le_nat_alt)
  obtain l u where lu: "run_state pf_lldp_get_tlv_from_packet ?s = (l, u)" by fastforce
  note g = get_tlv [OF b lu]
  have "peer_ok (clear_peer_info p)"
    using assms(3) by (simp add: peer_ok_def clear_peer_info_def clear_id_def clear_man_address_def)
  from lldp_tlvs_returns [OF g(2,1) this] g(3,5) lu show ?thesis
    by (auto simp: pf_lldp_parse_packet_def)
qed


lemma demo_peer_info_ok: "peer_ok demo_peer_info"
  by (simp add: peer_ok_def demo_peer_info_def demo_lldp_id_def)

theorem lldp_parse_returns_witness:
  "\<exists>r q. pf_lldp_parse_packet [0xFE, 0x00, 0x00, 0x0E, 0xCF, 9, 0x02, 0x05] 8 demo_peer_info = Some (r, q) \<and>
     peer_ok q"
  by (rule lldp_parse_returns) (simp_all add: demo_peer_info_ok)

section \<open>An identifier that is too long\<close>

text \<open>
  An identifier that does not fit is skipped, but its length is stored; after an earlier one that
  did fit it is valid, and longer than its array.
\<close>

lemma too_long_identifier:
  assumes "n \<noteq> 0" and "unat (n - 1) \<ge> length (lid_string c)" and "lid_string c \<noteq> []"
  shows "run_state (pf_lldp_get_chassis_id_from_packet n c) s =
    (c\<lparr>lid_len := ucast (n - 1)\<rparr>, s\<lparr>rd_pos := rd_pos s + n\<rparr>)"
proof -
  have "unat (n - 1) > length (lid_string c) - 1"
    using assms(2,3) by (cases "lid_string c") simp_all
  then show ?thesis
    using assms(1)
    by (simp add: pf_lldp_get_chassis_id_from_packet_def get_id_from_packet_def skip_offset_def
        rd_return_def)
qed

end
