(* ===== verification/Pn_Lldp_Codec.thy ===== *)
theory Pn_Lldp_Codec
  imports Pn_Lldp_Props Pn_Block_Codec
begin

text \<open>
  The frame that \<^verbatim>\<open>pf_lldp_construct_frame\<close> makes is what \<^verbatim>\<open>pf_lldp_parse_packet\<close> understands:
  the bytes of its elements, and what the parser makes of each.
\<close>

declare split_paired_All [simp del] split_paired_Ex [simp del]

section \<open>Elements\<close>

definition tlv_head :: "u8 \<Rightarrow> u8 \<Rightarrow> u16" where
  "tlv_head ty n = push_bit 9 (ucast ty) + (ucast n AND 0x1FF)"

lemma tlv_head_or: "tlv_head ty n = push_bit 9 (ucast ty) OR ucast n"
proof -
  have m: "(0x1FF :: u16) = mask 9" by (simp add: mask_eq_exp_minus_1)
  have "tlv_head ty n = push_bit 9 (ucast ty) OR (ucast n AND 0x1FF)"
    unfolding tlv_head_def m by (rule disjunctive_add) (auto simp: bit_simps)
  moreover have "(ucast n :: u16) AND 0x1FF = ucast n"
    unfolding m by (rule bit_word_eqI) (auto simp: bit_simps dest: bit_imp_le_length)
  ultimately show ?thesis by simp
qed

lemma tlv_head_fields:
  assumes "ty < 128"
  shows "ucast (drop_bit 9 (tlv_head ty n AND 0xFE00)) = ty" and "tlv_head ty n AND 0x1FF = ucast n"
proof -
  have m: "(0x1FF :: u16) = mask 9" "(0xFE00 :: u16) = push_bit 9 (mask 7)"
    by (simp_all add: mask_eq_exp_minus_1)
  have "take_bit 7 (unat ty) = unat ty"
    using assms by (intro take_bit_nat_eq_self) (simp add: word_less_nat_alt)
  then have b: "k < 7" if "bit ty k" for k
    using that bit_take_bit_iff [of 7 "unat ty" k] by (simp add: bit_unsigned_iff)
  show "ucast (drop_bit 9 (tlv_head ty n AND 0xFE00)) = ty"
    unfolding tlv_head_or m
    by (rule bit_word_eqI) (auto simp: bit_simps dest: b bit_imp_le_length)
  show "tlv_head ty n AND 0x1FF = ucast n"
    unfolding tlv_head_or m
    by (rule bit_word_eqI) (auto simp: bit_simps dest: bit_imp_le_length)
qed

lemma reads_tlv_head:
  assumes "ty < 128"
  shows "reads True pf_lldp_get_tlv_from_packet (enc16 True (tlv_head ty n)) (ty, ucast n)"
proof -
  have "reads True pf_lldp_get_tlv_from_packet (enc16 True (tlv_head ty n) @ []) (ty, ucast n)"
    unfolding pf_lldp_get_tlv_from_packet_def
    by (intro reads_uint16_then reads_ok reads_return) (simp_all only: tlv_head_fields [OF assms] if_True refl)
  then show ?thesis by simp
qed

fun element_bytes :: "(u8 \<times> u8 \<times> u8 list) list \<Rightarrow> u8 list" where
  "element_bytes [] = enc16 True (tlv_head 0 0)"
| "element_bytes ((ty, n, bs) # es) = enc16 True (tlv_head ty n) @ bs @ element_bytes es"

fun parsed :: "pf_lldp_peer_info \<Rightarrow> (u8 \<times> u8 \<times> u8 list) list \<Rightarrow> pf_lldp_peer_info \<Rightarrow> bool" where
  "parsed p [] q \<longleftrightarrow> p = q"
| "parsed p ((ty, n, bs) # es) q \<longleftrightarrow> 0 < ty \<and> ty < 128 \<and>
     (\<exists>r. reads True (lldp_tlv ty (ucast n) p) bs r \<and> parsed r es q)"

lemma skip_more [simp]: "is_big_endian (skip n s) = is_big_endian s" "rd_fault (skip n s) = rd_fault s"
  "result (skip n s) = result s"
  by (simp_all add: skip_def)

lemma run_reads: "reads True m bs v \<Longrightarrow> is_big_endian s \<Longrightarrow> avail s bs \<Longrightarrow> run_state m s = (v, skip (length bs) s)"
  by (simp add: decodes_def skip_def)

lemma lldp_tlvs_elements:
  assumes "parsed p es q" and "avail s (element_bytes es)" and "is_big_endian s"
  shows "\<exists>t. (let (tlv, s) = run_state pf_lldp_get_tlv_from_packet s in lldp_tlvs tlv p s) = Some (q, t) \<and>
    result t = PF_PARSE_OK \<and> rd_fault t = rd_fault s"
  using assms
proof (induction es arbitrary: p s)
  case Nil
  have h: "run_state pf_lldp_get_tlv_from_packet s = ((0, 0), skip 2 s)"
    using run_reads [OF reads_tlv_head [of 0 0]] Nil by simp
  show ?case
    unfolding h Let_def prod.case
    using Nil by (subst lldp_tlvs.simps) (simp add: LLDP_TYPE_END_def avail_def)
next
  case (Cons e es)
  obtain ty n bs where e: "e = (ty, n, bs)" by (cases e)
  from Cons.prems(1) obtain r where ty: "0 < ty" "ty < 128"
    and r: "reads True (lldp_tlv ty (ucast n) p) bs r" and es: "parsed r es q"
    by (auto simp: e)
  note a = avail_append [OF Cons.prems(2) [unfolded e element_bytes.simps]]
  have h: "run_state pf_lldp_get_tlv_from_packet s = ((ty, ucast n), skip 2 s)"
    using run_reads [OF reads_tlv_head [OF ty(2), of n] Cons.prems(3) a(1)] by simp
  note b = avail_append [OF a(2)]
  have l: "run_state (lldp_tlv ty (ucast n) p) (skip 2 s) = (r, skip (length bs) (skip 2 s))"
    using run_reads [OF r _ b(1)] Cons.prems(3) by simp
  have c: "avail (skip (length bs) (skip 2 s)) (element_bytes es)" using b(2) by simp
  have "lldp_tlvs (ty, ucast n) p (skip 2 s) = (let (tlv, s) = run_state pf_lldp_get_tlv_from_packet
      (skip (length bs) (skip 2 s)) in lldp_tlvs tlv r s)"
    using ty by (subst lldp_tlvs.simps) (auto simp: LLDP_TYPE_END_def l)
  then show ?case
    using Cons.IH [OF es c] Cons.prems(3) by (simp add: h)
qed

lemma parse_elements:
  assumes "parsed (clear_peer_info p) es q" and "take (length (element_bytes es)) buf = element_bytes es"
    and "length (element_bytes es) \<le> unat n" and "unat n \<le> length buf"
  shows "pf_lldp_parse_packet buf n p = Some (0, q)"
proof -
  let ?s = "\<lparr>result = PF_PARSE_OK, is_big_endian = True, p_buf = Some buf, buf_len = n, rd_pos = 0,
    rd_fault = False\<rparr>"
  have "avail ?s (element_bytes es)" using assms(2-4) by (simp add: avail_def)
  from lldp_tlvs_elements [OF assms(1) this] obtain t where
    "(let (tlv, s) = run_state pf_lldp_get_tlv_from_packet ?s in lldp_tlvs tlv (clear_peer_info p) s) = Some (q, t)"
    "result t = PF_PARSE_OK" "\<not> rd_fault t" by auto
  then show ?thesis by (simp add: pf_lldp_parse_packet_def split: prod.splits)
qed


section \<open>The elements of the frame\<close>

definition id_bytes :: "pf_lldp_chassis_id \<Rightarrow> u8 list" where
  "id_bytes c = lid_subtype c # take (unat (lid_len c)) (lid_string c)"

definition mac_phy_byte :: "pf_lldp_link_status \<Rightarrow> u8" where
  "mac_phy_byte st = (if is_autonegotiation_supported st then 1 else 0) OR
     (if is_autonegotiation_enabled st then 2 else 0)"

definition frame_elements :: "pf_lldp_chassis_id \<Rightarrow> pf_lldp_port_id \<Rightarrow> u8 list
    \<Rightarrow> pf_lldp_link_status \<Rightarrow> pf_lldp_management_address \<Rightarrow> (u8 \<times> u8 \<times> u8 list) list" where
  "frame_elements c p mac st m = [
     (1, 1 + ucast (lid_len c), id_bytes c),
     (2, 1 + ucast (lid_len p), id_bytes p),
     (3, 2, enc16 True PF_LLDP_TTL),
     (127, 8, [0x00, 0x0E, 0xCF, 2, 0, 0, 0, 0]),
     (127, 10, [0x00, 0x0E, 0xCF, 5] @ mac),
     (127, 9, [0x00, 0x12, 0x0F, 1, mac_phy_byte st] @
        enc16 True (autonegotiation_advertised_capabilities st) @ enc16 True (operational_mau_type st)),
     (8, 12, [5, man_subtype m] @ take 4 (man_value m) @ [ifn_subtype (man_interface_number m)] @
        enc32 True (ifn_value (man_interface_number m)) @ [0])]"

lemma emits_tlv_header [emits]: "emits_at p (pf_lldp_add_tlv_header ty n) (enc16 True (tlv_head ty n))"
  unfolding pf_lldp_add_tlv_header_def tlv_head_def by (rule emits)

lemma emits_copy [emits]: "emits_at p (lldp_copy bs) bs"
  by (auto simp: emits_at_def lldp_copy_def fits_def append_bytes_def)

lemma ucast_len:
  fixes l :: u64
  assumes "unat l < 2 ^ LENGTH('a::len)"
  shows "unat (ucast l :: 'a word) = unat l"
  using assms by (simp add: unsigned_ucast_eq take_bit_nat_eq_self)

lemma emits_id:
  assumes "unat (lid_len c) \<le> length (lid_string c)" and "unat (lid_len c) < 256"
  shows "emits_at p (pf_lldp_add_chassis_id_tlv c)
      (enc16 True (tlv_head 1 (1 + ucast (lid_len c))) @ id_bytes c)"
    and "emits_at p (pf_lldp_add_port_id_tlv c)
      (enc16 True (tlv_head 2 (1 + ucast (lid_len c))) @ id_bytes c)"
proof -
  have l: "unat (ucast (lid_len c) :: u16) = unat (lid_len c)"
    using assms(2) by (intro ucast_len) simp
  then have m: "emits_at q (pf_put_mem (lid_string c) (ucast (lid_len c)))
      (take (unat (lid_len c)) (lid_string c))" for q
    using emits_mem [of "ucast (lid_len c)" "lid_string c" q] assms(1) by simp
  have "emits_at p (pf_lldp_add_chassis_id_tlv c) (concat [enc16 True (tlv_head 1 (1 + ucast (lid_len c))),
      [lid_subtype c], take (unat (lid_len c)) (lid_string c)])"
    unfolding pf_lldp_add_chassis_id_tlv_def LLDP_TYPE_CHASSIS_ID_def
    by (rule emits_concat) (simp add: emits m)
  then show "emits_at p (pf_lldp_add_chassis_id_tlv c)
      (enc16 True (tlv_head 1 (1 + ucast (lid_len c))) @ id_bytes c)"
    by (simp add: id_bytes_def)
  have "emits_at p (pf_lldp_add_port_id_tlv c) (concat [enc16 True (tlv_head 2 (1 + ucast (lid_len c))),
      [lid_subtype c], take (unat (lid_len c)) (lid_string c)])"
    unfolding pf_lldp_add_port_id_tlv_def LLDP_TYPE_PORT_ID_def
    by (rule emits_concat) (simp add: emits m)
  then show "emits_at p (pf_lldp_add_port_id_tlv c)
      (enc16 True (tlv_head 2 (1 + ucast (lid_len c))) @ id_bytes c)"
    by (simp add: id_bytes_def)
qed

lemma emits_pnio_header: "emits_at p (pf_lldp_add_pnio_header n)
    (enc16 True (tlv_head 127 (n + 3)) @ [0x00, 0x0E, 0xCF])"
proof -
  have "emits_at p (pf_lldp_add_pnio_header n) (concat [enc16 True (tlv_head 127 (n + 3)), [0x00], [0x0E], [0xCF]])"
    unfolding pf_lldp_add_pnio_header_def LLDP_TYPE_ORG_SPEC_def by (rule emits_concat) (simp add: emits)
  then show ?thesis by simp
qed

lemma emits_ieee_header: "emits_at p (pf_lldp_add_ieee_header n)
    (enc16 True (tlv_head 127 (n + 3)) @ [0x00, 0x12, 0x0F])"
proof -
  have "emits_at p (pf_lldp_add_ieee_header n) (concat [enc16 True (tlv_head 127 (n + 3)), [0x00], [0x12], [0x0F]])"
    unfolding pf_lldp_add_ieee_header_def LLDP_TYPE_ORG_SPEC_def by (rule emits_concat) (simp add: emits)
  then show ?thesis by simp
qed

lemma emits_fixed_elements:
  "emits_at p pf_lldp_add_ttl_tlv (enc16 True (tlv_head 3 2) @ enc16 True PF_LLDP_TTL)"
  "emits_at p (pf_lldp_add_port_status 0 0)
    (enc16 True (tlv_head 127 8) @ [0x00, 0x0E, 0xCF, 2, 0, 0, 0, 0])"
  "emits_at p (pf_lldp_add_chassis_mac mac) (enc16 True (tlv_head 127 10) @ [0x00, 0x0E, 0xCF, 5] @ mac)"
  "emits_at p (pf_lldp_add_ieee_mac_phy st) (enc16 True (tlv_head 127 9) @ [0x00, 0x12, 0x0F, 1, mac_phy_byte st] @
     enc16 True (autonegotiation_advertised_capabilities st) @ enc16 True (operational_mau_type st))"
proof -
  have "emits_at p pf_lldp_add_ttl_tlv (concat [enc16 True (tlv_head 3 2), enc16 True PF_LLDP_TTL])"
    unfolding pf_lldp_add_ttl_tlv_def LLDP_TYPE_TTL_def by (rule emits_concat) (simp add: emits)
  then show "emits_at p pf_lldp_add_ttl_tlv (enc16 True (tlv_head 3 2) @ enc16 True PF_LLDP_TTL)" by simp
  have "emits_at p (pf_lldp_add_port_status 0 0)
      (concat [enc16 True (tlv_head 127 (5 + 3)) @ [0x00, 0x0E, 0xCF], [2], enc16 True 0, enc16 True 0])"
    unfolding pf_lldp_add_port_status_def LLDP_PNIO_SUBTYPE_PORT_STATUS_def
    by (rule emits_concat) (simp only: list_all2_Cons list_all2_Nil emits emits_pnio_header, simp)
  then show "emits_at p (pf_lldp_add_port_status 0 0)
    (enc16 True (tlv_head 127 8) @ [0x00, 0x0E, 0xCF, 2, 0, 0, 0, 0])" by (simp add: enc16_zero)
  have "emits_at p (pf_lldp_add_chassis_mac mac)
      (concat [enc16 True (tlv_head 127 (1 + 6 + 3)) @ [0x00, 0x0E, 0xCF], [5], mac])"
    unfolding pf_lldp_add_chassis_mac_def LLDP_PNIO_SUBTYPE_CHASSIS_MAC_def
    by (rule emits_concat) (simp only: list_all2_Cons list_all2_Nil emits emits_pnio_header, simp)
  then show "emits_at p (pf_lldp_add_chassis_mac mac) (enc16 True (tlv_head 127 10) @ [0x00, 0x0E, 0xCF, 5] @ mac)"
    by simp
  have "emits_at p (pf_lldp_add_ieee_mac_phy st)
      (concat [enc16 True (tlv_head 127 (6 + 3)) @ [0x00, 0x12, 0x0F], [1], [mac_phy_byte st],
        enc16 True (autonegotiation_advertised_capabilities st), enc16 True (operational_mau_type st)])"
    unfolding pf_lldp_add_ieee_mac_phy_def LLDP_IEEE_SUBTYPE_MAC_PHY_def Let_def
    by (rule emits_concat) (simp add: emits emits_ieee_header [of _ 6, simplified] mac_phy_byte_def LLDP_AUTONEG_SUPPORTED_def
        LLDP_AUTONEG_ENABLED_def)
  then show "emits_at p (pf_lldp_add_ieee_mac_phy st) (enc16 True (tlv_head 127 9) @ [0x00, 0x12, 0x0F, 1, mac_phy_byte st] @
     enc16 True (autonegotiation_advertised_capabilities st) @ enc16 True (operational_mau_type st))" by simp
qed


lemma emits_management:
  assumes "length (man_value m) \<ge> 4" and "man_len m = 4"
  shows "emits_at p (pf_lldp_add_management m) (enc16 True (tlv_head 8 12) @ [5, man_subtype m] @
     take 4 (man_value m) @ [ifn_subtype (man_interface_number m)] @
     enc32 True (ifn_value (man_interface_number m)) @ [0])"
proof -
  have "emits_at q (pf_put_mem (man_value m) 4) (take 4 (man_value m))" for q
    using emits_mem [of 4 "man_value m" q] assms(1) by simp
  then have "emits_at p (pf_lldp_add_management m) (concat [enc16 True (tlv_head 8 12), [5], [man_subtype m],
      take 4 (man_value m), [ifn_subtype (man_interface_number m)],
      enc32 True (ifn_value (man_interface_number m)), [0]])"
    unfolding pf_lldp_add_management_def LLDP_TYPE_MANAGEMENT_ADDRESS_def
    by (intro emits_concat) (simp add: emits assms(2))
  then show ?thesis by simp
qed

lemma emits_ethernet_header:
  "length src = 6 \<Longrightarrow> emits_at p (pf_lldp_add_ethernet_header lldp_dst_addr src)
    (lldp_dst_addr @ src @ enc16 True PNAL_ETHTYPE_LLDP)"
proof -
  assume l: "length src = 6"
  have m: "emits_at q (pf_put_mem src 6) src" "emits_at q (pf_put_mem lldp_dst_addr 6) lldp_dst_addr" for q
    using emits_mem [of 6 src q] emits_mem [of 6 lldp_dst_addr q] l by (simp_all add: lldp_dst_addr_def)
  have "emits_at p (pf_lldp_add_ethernet_header lldp_dst_addr src)
      (concat [lldp_dst_addr, src, enc16 True PNAL_ETHTYPE_LLDP])"
    unfolding pf_lldp_add_ethernet_header_def by (rule emits_concat) (simp add: emits m)
  then show ?thesis by simp
qed

text \<open>The length of an identifier has room in its element.\<close>

definition id_announced :: "pf_lldp_chassis_id \<Rightarrow> bool" where
  "id_announced c \<longleftrightarrow> unat (lid_len c) \<le> length (lid_string c) \<and> unat (lid_len c) < 255"

lemma emits_frame:
  assumes "id_announced c" and "id_announced p" and "length src = 6"
    and "length (man_value m) \<ge> 4" and "man_len m = 4"
  shows "emits_at q (lldp_frame src c p mac st m)
    (lldp_dst_addr @ src @ enc16 True PNAL_ETHTYPE_LLDP @ element_bytes (frame_elements c p mac st m))"
proof -
  have "emits_at q (lldp_frame src c p mac st m) (concat [
     lldp_dst_addr @ src @ enc16 True PNAL_ETHTYPE_LLDP,
     enc16 True (tlv_head 1 (1 + ucast (lid_len c))) @ id_bytes c,
     enc16 True (tlv_head 2 (1 + ucast (lid_len p))) @ id_bytes p,
     enc16 True (tlv_head 3 2) @ enc16 True PF_LLDP_TTL,
     enc16 True (tlv_head 127 8) @ [0x00, 0x0E, 0xCF, 2, 0, 0, 0, 0],
     enc16 True (tlv_head 127 10) @ [0x00, 0x0E, 0xCF, 5] @ mac,
     enc16 True (tlv_head 127 9) @ [0x00, 0x12, 0x0F, 1, mac_phy_byte st] @
       enc16 True (autonegotiation_advertised_capabilities st) @ enc16 True (operational_mau_type st),
     enc16 True (tlv_head 8 12) @ [5, man_subtype m] @ take 4 (man_value m) @
       [ifn_subtype (man_interface_number m)] @ enc32 True (ifn_value (man_interface_number m)) @ [0],
     enc16 True (tlv_head 0 0)])"
    unfolding lldp_frame_def LLDP_TYPE_END_def
    using assms emits_ethernet_header [OF assms(3)] emits_id [of c] emits_id [of p]
      emits_fixed_elements emits_management [OF assms(4,5)] emits_tlv_header
    by (intro emits_concat) (auto simp: id_announced_def simp del: append.simps append_assoc)
  then show ?thesis by (simp add: frame_elements_def)
qed

section \<open>The parser on these elements\<close>

text \<open>What the peer stores of an identifier in the array of \<open>d\<close>.\<close>

definition id_received :: "pf_lldp_chassis_id \<Rightarrow> pf_lldp_chassis_id \<Rightarrow> pf_lldp_chassis_id" where
  "id_received c d = (let n = unat (lid_len c) in
     \<lparr>lid_string = take n (lid_string c) @ replicate (length (lid_string d) - n) 0,
      lid_subtype = lid_subtype c, lid_is_valid = True, lid_len = lid_len c\<rparr>)"

lemma reads_then: "reads True m bs x \<Longrightarrow> v = f x \<Longrightarrow> reads True (do { x \<leftarrow> m; rd_return (f x) }) bs v"
  using reads_bind [of True True m bs x True "\<lambda>x. rd_return (f x)" "[]" v] reads_return [of "[]" "f x" v True]
  by simp

lemma reads_terminate: "i < length xs \<Longrightarrow> reads True (terminate_at xs i) [] (xs[i := 0])"
  by (simp add: decodes_def terminate_at_def on_elem_def rd_return_def skip_def)

lemma reads_id:
  assumes c: "id_announced c" and d: "unat (lid_len c) < length (lid_string d)"
  shows "reads True (get_id_from_packet (ucast (1 + ucast (lid_len c) :: u8)) (clear_id d)) (id_bytes c)
    (id_received c d)"
proof -
  let ?n = "unat (lid_len c)" and ?w = "ucast (1 + ucast (lid_len c) :: u8) :: u16"
  have n: "?n < 255" "?n \<le> length (lid_string c)" using c by (auto simp: id_announced_def)
  have u8: "unat (ucast (lid_len c) :: u8) = ?n" using n by (intro ucast_len) simp
  then have "unat (1 + ucast (lid_len c) :: u8) = ?n + 1"
    using n unat_add_lem [of "1 :: u8" "ucast (lid_len c)"] by simp
  then have w: "unat ?w = ?n + 1"
    unfolding unsigned_ucast_eq using n by (subst take_bit_nat_eq_self) simp_all
  then have w0: "?w \<noteq> 0" by auto
  then have w1: "unat (?w - 1) = ?n" using w by (simp add: unat_minus_one)
  have len: "ucast (?w - 1) = lid_len c"
    using w1 n by (intro word_unat_eq_iff [THEN iffD2]) (simp add: unsigned_ucast_eq take_bit_nat_eq_self)
  let ?z = "replicate (length (lid_string d)) (0 :: u8)" and ?t = "take ?n (lid_string c)"
  have z: "(?t @ replicate (length (lid_string d) - ?n) 0)[?n := 0] = ?t @ replicate (length (lid_string d) - ?n) 0"
    using n d by (intro nth_equalityI) (auto simp: nth_list_update nth_append)
  have "reads True (do { t \<leftarrow> pf_get_byte; str \<leftarrow> pf_get_mem (?w - 1) ?z; str \<leftarrow> terminate_at str (unat (?w - 1));
      rd_return (\<lparr>lid_string = str, lid_subtype = t, lid_is_valid = True, lid_len = lid_len c\<rparr>) })
    (lid_subtype c # ?t @ [] @ []) (id_received c d)"
    using n d w1
    by (intro reads_byte_then reads_bind [OF reads_mem] reads_bind [OF reads_terminate] reads_return)
      (simp_all add: id_received_def Let_def z)
  moreover have "\<not> length (lid_string d) - Suc 0 < ?n" using d by linarith
  ultimately show ?thesis
    using w0 w1 by (simp add: get_id_from_packet_def Let_def clear_id_def id_bytes_def len)
qed


lemma reads_org:
  "reads True pf_lldp_get_org_header_from_packet [a, b, d, t] ([a, b, d], t)"
proof -
  have "reads True pf_lldp_get_org_header_from_packet ([a, b, d] @ [t]) ([a, b, d], t)"
    unfolding pf_lldp_get_org_header_from_packet_def
    by (intro reads_mem_then reads_byte_then reads_return) simp_all
  then show ?thesis by simp
qed

lemma reads_org_element:
  assumes "reads True (case ([a, b, d], t) of (org, subtype) \<Rightarrow>
     if org = org_id_pnio \<and> subtype = LLDP_PNIO_SUBTYPE_MEAS_DELAY_VALUES then do {
       d \<leftarrow> pf_lldp_get_signal_delay_from_packet n (port_delay p);
       rd_return (p\<lparr>port_delay := d\<rparr>) }
     else if org = org_id_pnio \<and> subtype = LLDP_PNIO_SUBTYPE_PORT_STATUS then do {
       st \<leftarrow> pf_lldp_get_port_status_from_packet n (port_status p);
       rd_return (p\<lparr>port_status := st\<rparr>) }
     else if org = org_id_pnio \<and> subtype = LLDP_PNIO_SUBTYPE_CHASSIS_MAC then do {
       mac \<leftarrow> pf_lldp_get_chassis_mac_from_packet n (peer_mac_address p);
       rd_return (p\<lparr>peer_mac_address := mac\<rparr>) }
     else if org = org_id_ieee_8023 \<and> subtype = LLDP_IEEE_SUBTYPE_MAC_PHY then do {
       l \<leftarrow> pf_lldp_get_link_status_from_packet n;
       rd_return (p\<lparr>phy_config := l\<rparr>) }
     else do { skip_offset (n - 4); rd_return p }) bs q"
  shows "reads True (lldp_tlv 127 n p) ([a, b, d, t] @ bs) q"
proof -
  have "reads True (lldp_org_tlv n p) ([a, b, d, t] @ bs) q"
    unfolding lldp_org_tlv_def by (rule reads_bind, rule reads_org, rule assms)
  then show ?thesis by (simp add: lldp_tlv_def lldp_type_defs)
qed

lemma reads_port_status:
  assumes "length (port_status p) = 4"
  shows "reads True (lldp_tlv 127 8 p) [0x00, 0x0E, 0xCF, 2, a, b, d, e] (p\<lparr>port_status := [a, b, d, e]\<rparr>)"
proof -
  have "reads True (pf_lldp_get_port_status_from_packet 8 (port_status p)) [a, b, d, e] [a, b, d, e]"
    using assms reads_mem [of "[a, b, d, e]" 4 "port_status p"] by (simp add: pf_lldp_get_port_status_from_packet_def)
  note r = reads_then [OF this refl, of "\<lambda>x. p\<lparr>port_status := x\<rparr>"]
  have "reads True (lldp_tlv 127 8 p) ([0x00, 0x0E, 0xCF, 2] @ [a, b, d, e]) (p\<lparr>port_status := [a, b, d, e]\<rparr>)"
    by (rule reads_org_element) (use r in \<open>simp add: lldp_type_defs org_id_pnio_def\<close>)
  then show ?thesis by simp
qed

lemma reads_chassis_mac:
  assumes "length (peer_mac_address p) = 6" and "length mac = 6"
  shows "reads True (lldp_tlv 127 10 p) ([0x00, 0x0E, 0xCF, 5] @ mac) (p\<lparr>peer_mac_address := mac\<rparr>)"
proof -
  have "reads True (pf_lldp_get_chassis_mac_from_packet 10 (peer_mac_address p)) mac mac"
    using assms reads_mem [of mac 6 "peer_mac_address p"] by (simp add: pf_lldp_get_chassis_mac_from_packet_def)
  note r = reads_then [OF this refl, of "\<lambda>x. p\<lparr>peer_mac_address := x\<rparr>"]
  show ?thesis by (rule reads_org_element) (use r in \<open>simp add: lldp_type_defs org_id_pnio_def\<close>)
qed

lemma mac_phy_bits: "(mac_phy_byte st AND LLDP_AUTONEG_SUPPORTED \<noteq> 0) = is_autonegotiation_supported st"
  "(mac_phy_byte st AND LLDP_AUTONEG_ENABLED \<noteq> 0) = is_autonegotiation_enabled st"
  by (simp_all add: mac_phy_byte_def LLDP_AUTONEG_SUPPORTED_def LLDP_AUTONEG_ENABLED_def)

lemma reads_mac_phy:
  assumes "link_is_valid st"
  shows "reads True (lldp_tlv 127 9 p) ([0x00, 0x12, 0x0F, 1] @ [mac_phy_byte st] @
      enc16 True (autonegotiation_advertised_capabilities st) @ enc16 True (operational_mau_type st))
    (p\<lparr>phy_config := st\<rparr>)"
proof -
  have "reads True (pf_lldp_get_link_status_from_packet 9) (mac_phy_byte st #
      enc16 True (autonegotiation_advertised_capabilities st) @ enc16 True (operational_mau_type st) @ []) st"
    unfolding pf_lldp_get_link_status_from_packet_def simp_thms if_False
    by (intro reads_byte_then reads_uint16_then reads_return) (use assms in \<open>simp_all add: mac_phy_bits\<close>)
  note r = reads_then [OF this refl, of "\<lambda>x. p\<lparr>phy_config := x\<rparr>"]
  show ?thesis
    by (rule reads_org_element)
      (use r in \<open>simp add: lldp_type_defs org_id_pnio_def org_id_ieee_8023_def\<close>)
qed

lemma reads_ttl: "reads True (lldp_tlv 3 2 p) (enc16 True v) (p\<lparr>peer_ttl := v\<rparr>)"
  using reads_then [OF reads_uint16 refl, of "\<lambda>x. p\<lparr>peer_ttl := x\<rparr>"]
  by (simp add: lldp_tlv_def pf_lldp_get_ttl_from_packet_def lldp_type_defs)


lemma reads_skip_zero: "reads True (do { skip_offset 0; rd_return v }) [] v"
  by (simp add: decodes_def skip_offset_def rd_return_def skip_def)

text \<open>What the peer stores of a management address in the array of \<open>d\<close>.\<close>

definition man_received :: "pf_lldp_management_address \<Rightarrow> pf_lldp_management_address \<Rightarrow> pf_lldp_management_address" where
  "man_received m d = \<lparr>man_value = take 4 (man_value m) @ replicate (length (man_value d) - 4) 0,
     man_subtype = 1, man_len = 4, man_interface_number = man_interface_number m, man_is_valid = True\<rparr>"

lemma reads_management:
  assumes "length (man_value m) \<ge> 4" and "length (man_value d) = 31"
  shows "reads True (pf_lldp_get_management_address_from_packet 12 d)
    ([5, 1] @ take 4 (man_value m) @ [ifn_subtype (man_interface_number m)] @
     enc32 True (ifn_value (man_interface_number m)) @ [0]) (man_received m d)"
proof -
  let ?z = "replicate 31 (0 :: u8)" and ?i = "man_interface_number m"
  have i: "\<lparr>ifn_value = ifn_value ?i, ifn_subtype = ifn_subtype ?i\<rparr> = ?i" by simp
  have "reads True (do { n \<leftarrow> pf_get_byte;
     if ucast n - 1 < (1 :: u64) \<or> ucast n - 1 > (31 :: u64) then f n else do {
      t \<leftarrow> pf_get_byte;
      v \<leftarrow> pf_get_mem (ucast (ucast n - 1 :: u64)) ?z;
      it \<leftarrow> pf_get_byte;
      iv \<leftarrow> pf_get_uint32;
      oid_len \<leftarrow> pf_get_byte;
      skip_offset (ucast oid_len);
      rd_return \<lparr>man_value = v, man_subtype = t, man_len = ucast n - 1,
        man_interface_number = \<lparr>ifn_value = iv, ifn_subtype = it\<rparr>, man_is_valid = True\<rparr> } })
    (5 # 1 # take 4 (man_value m) @ ifn_subtype ?i # enc32 True (ifn_value ?i) @ 0 # []) (man_received m d)" for f
    using assms
    by (intro reads_byte_then; simp)
      (intro reads_byte_then reads_bind [OF reads_mem] reads_uint32_then reads_bind [OF reads_skip_zero];
        simp add: man_received_def i reads_skip_zero [simplified])
  then show ?thesis
    using assms by (simp add: pf_lldp_get_management_address_from_packet_def Let_def clear_man_address_def cong: if_cong)
qed


text \<open>What the neighbour knows after the frame, in a structure of the shape of \<open>d\<close>.\<close>

definition peer_announced :: "pf_lldp_chassis_id \<Rightarrow> pf_lldp_port_id \<Rightarrow> u8 list \<Rightarrow> pf_lldp_link_status
    \<Rightarrow> pf_lldp_management_address \<Rightarrow> pf_lldp_peer_info \<Rightarrow> pf_lldp_peer_info" where
  "peer_announced c p mac st m d = (clear_peer_info d)
     \<lparr>chassis_id := id_received c (chassis_id d), port_id := id_received p (port_id d),
      peer_ttl := PF_LLDP_TTL, port_status := [0, 0, 0, 0], peer_mac_address := mac,
      phy_config := st, management_address := man_received m (management_address d)\<rparr>"

lemma man_received_ipv4: "pf_lldp_management_address_is_ipv4 (man_received m d)"
  by (simp add: pf_lldp_management_address_is_ipv4_def man_received_def)

lemma reads_management_element:
  assumes "length (man_value m) \<ge> 4" and "man_subtype m = 1" and "length (man_value (management_address p)) = 31"
  shows "reads True (lldp_tlv 8 12 p) ([5, man_subtype m] @ take 4 (man_value m) @
      [ifn_subtype (man_interface_number m)] @ enc32 True (ifn_value (man_interface_number m)) @ [0])
    (p\<lparr>management_address := man_received m (management_address p)\<rparr>)"
  using reads_then [OF reads_management [OF assms(1,3)], of
      "p\<lparr>management_address := man_received m (management_address p)\<rparr>"
      "\<lambda>x. if pf_lldp_management_address_is_ipv4 x then p\<lparr>management_address := x\<rparr> else p"]
  by (simp add: lldp_tlv_def lldp_type_defs man_received_ipv4 assms(2))

lemma frame_elements_parsed:
  assumes c: "id_announced c" "unat (lid_len c) < length (lid_string (chassis_id d))"
    and p: "id_announced p" "unat (lid_len p) < length (lid_string (port_id d))"
    and m: "length (man_value m) \<ge> 4" "man_subtype m = 1"
    and mac: "length mac = 6" and st: "link_is_valid st" and d: "peer_ok d"
  shows "parsed (clear_peer_info d) (frame_elements c p mac st m) (peer_announced c p mac st m d)"
proof -
  let ?d = "clear_peer_info d"
  have len: "length (port_status d) = 4" "length (peer_mac_address d) = 6"
    "length (man_value (management_address d)) = 31"
    using d by (auto simp: peer_ok_def)
  let ?p1 = "?d\<lparr>chassis_id := id_received c (chassis_id d)\<rparr>"
  let ?p2 = "?p1\<lparr>port_id := id_received p (port_id d)\<rparr>"
  let ?p3 = "?p2\<lparr>peer_ttl := PF_LLDP_TTL\<rparr>"
  let ?p4 = "?p3\<lparr>port_status := [0, 0, 0, 0]\<rparr>"
  let ?p5 = "?p4\<lparr>peer_mac_address := mac\<rparr>"
  let ?p6 = "?p5\<lparr>phy_config := st\<rparr>"
  have "reads True (lldp_tlv 1 (ucast (1 + ucast (lid_len c) :: u8)) ?d) (id_bytes c) ?p1"
    using reads_then [OF reads_id [OF c] refl, of "\<lambda>x. ?d\<lparr>chassis_id := x\<rparr>"]
    by (simp add: lldp_tlv_def lldp_type_defs pf_lldp_get_chassis_id_from_packet_def clear_peer_info_def)
  moreover have "reads True (lldp_tlv 2 (ucast (1 + ucast (lid_len p) :: u8)) ?p1) (id_bytes p) ?p2"
    using reads_then [OF reads_id [OF p] refl, of "\<lambda>x. ?p1\<lparr>port_id := x\<rparr>"]
    by (simp add: lldp_tlv_def lldp_type_defs pf_lldp_get_port_id_from_packet_def clear_peer_info_def)
  moreover have "reads True (lldp_tlv 3 (ucast (2 :: u8)) ?p2) (enc16 True PF_LLDP_TTL) ?p3"
    using reads_ttl [of ?p2 PF_LLDP_TTL] by simp
  moreover have "reads True (lldp_tlv 127 (ucast (8 :: u8)) ?p3) [0x00, 0x0E, 0xCF, 2, 0, 0, 0, 0] ?p4"
    using reads_port_status [of ?p3 0 0 0 0] len by (simp add: clear_peer_info_def)
  moreover have "reads True (lldp_tlv 127 (ucast (10 :: u8)) ?p4) ([0x00, 0x0E, 0xCF, 5] @ mac) ?p5"
    using reads_chassis_mac [of ?p4 mac] len mac by (simp add: clear_peer_info_def)
  moreover have "reads True (lldp_tlv 127 (ucast (9 :: u8)) ?p5) ([0x00, 0x12, 0x0F, 1, mac_phy_byte st] @
      enc16 True (autonegotiation_advertised_capabilities st) @ enc16 True (operational_mau_type st)) ?p6"
    using reads_mac_phy [OF st, of ?p5] by simp
  moreover have "reads True (lldp_tlv 8 (ucast (12 :: u8)) ?p6) ([5, man_subtype m] @ take 4 (man_value m) @
      [ifn_subtype (man_interface_number m)] @ enc32 True (ifn_value (man_interface_number m)) @ [0])
      (peer_announced c p mac st m d)"
    using reads_management_element [OF m, of ?p6] len(3)
    by (simp add: peer_announced_def man_received_def clear_peer_info_def clear_man_address_def)
  ultimately show ?thesis
    unfolding frame_elements_def parsed.simps by (intro conjI exI) (assumption | simp)+
qed


section \<open>The frame of a port\<close>

text \<open>C40. What \<^verbatim>\<open>pf_lldp_construct_frame\<close> puts into an empty frame buffer for a port goes to the
  multicast address of LLDP, and \<^verbatim>\<open>pf_lldp_parse_packet\<close> of the neighbour takes exactly what the
  device says of itself out of it, in both modes of naming: the chassis ID, the port ID, the time to
  live, the status of the port, the MAC address, the state of the link and the management address.
  The identifiers have to fit into the array of the neighbour and, with their subtype, into the byte
  that holds the length of an element.
\<close>

theorem lldp_frame_roundtrip:
  assumes "length (wr_bytes w) = PF_FRAME_BUFFER_SIZE" and "wr_res_len w = of_nat PF_FRAME_BUFFER_SIZE"
    and "wr_pos w = 0"
    and "length mac = 6" and "length (netif_mac_address (the_port h i)) = 6"
    and "c = pf_lldp_get_chassis_id h mac (chassis_id stack)"
    and "p = pf_lldp_get_port_id h mac i (port_id stack)"
    and "id_announced c" and "id_announced p" and "length (man_value (management_address stack)) = 31"
    and "peer_ok d" and "unat (lid_len c) < length (lid_string (chassis_id d))"
    and "unat (lid_len p) < length (lid_string (port_id d))"
  shows "\<exists>w'. pf_lldp_construct_frame h mac if_index stack i w = Some w' \<and>
    take 6 (wr_bytes w') = lldp_dst_addr \<and>
    pf_lldp_parse_packet (drop 14 (wr_bytes w')) (wr_pos w' - 14) d = Some (0,
      peer_announced c p mac (pf_lldp_get_link_status h i)
        (pf_lldp_get_management_address h if_index (management_address stack)) d)"
proof -
  let ?st = "pf_lldp_get_link_status h i"
    and ?m = "pf_lldp_get_management_address h if_index (management_address stack)"
    and ?src = "netif_mac_address (the_port h i)"
  let ?es = "frame_elements c p mac ?st ?m"
  let ?e = "element_bytes ?es"
  let ?head = "lldp_dst_addr @ ?src @ enc16 True PNAL_ETHTYPE_LLDP"
  have m: "length (man_value ?m) \<ge> 4" "man_len ?m = 4" "man_subtype ?m = 1"
    using assms(10) by (simp_all add: pf_lldp_get_management_address_def bytes_be32_def)
  have e: "length ?e = 59 + unat (lid_len c) + unat (lid_len p)" and h: "length ?head = 14"
    using assms(4,5,8,9) m(1)
    by (simp_all add: frame_elements_def id_bytes_def id_announced_def lldp_dst_addr_def min_absorb2)
  have n: "length ?e \<le> 600" using e assms(8,9) by (simp add: id_announced_def)
  have fit: "fits w (length (?head @ ?e))"
    using assms(1-3) h n by (simp add: fits_def PF_FRAME_BUFFER_SIZE_def)
  let ?w = "append_bytes (?head @ ?e) w"
  have "pf_lldp_construct_frame h mac if_index stack i w = Some ?w"
    using emits_frame [OF assms(8,9,5) m(1,2), of 0 mac ?st] fit assms(3,6,7)
    by (simp add: emits_at_def pf_lldp_construct_frame_def)
  moreover have b: "wr_bytes ?w = (?head @ ?e) @ drop (length (?head @ ?e)) (wr_bytes w)"
    using assms(3) by (simp add: append_bytes_def overlay_def)
  moreover have "take 6 (wr_bytes ?w) = lldp_dst_addr"
    unfolding b by (simp add: lldp_dst_addr_def)
  moreover have "pf_lldp_parse_packet (drop 14 (wr_bytes ?w)) (wr_pos ?w - 14) d =
      Some (0, peer_announced c p mac ?st ?m d)"
  proof (rule parse_elements [OF frame_elements_parsed])
    have d: "drop 14 (wr_bytes ?w) = ?e @ drop (length (?head @ ?e)) (wr_bytes w)"
      unfolding b using h by simp
    show "take (length ?e) (drop 14 (wr_bytes ?w)) = ?e" unfolding d by simp
    have "unat (of_nat (length ?e) :: u16) = length ?e"
      using n by (simp only: unsigned_of_nat) (simp add: take_bit_nat_eq_self)
    moreover have l: "length (?head @ ?e) = 14 + length ?e" using h by simp
    have "wr_pos ?w = of_nat (length (?head @ ?e))" using assms(3) by (simp add: append_bytes_def)
    then have "wr_pos ?w - 14 = of_nat (length ?e)" unfolding l by simp
    ultimately have u: "unat (wr_pos ?w - 14) = length ?e" by simp
    then show "length ?e \<le> unat (wr_pos ?w - 14)" by simp
    show "unat (wr_pos ?w - 14) \<le> length (drop 14 (wr_bytes ?w))" unfolding u d by simp
  qed (use assms m in \<open>simp_all add: pf_lldp_get_link_status_def Let_def\<close>)
  ultimately show ?thesis by blast
qed


lemma demo_chassis_id:
  "id_announced (pf_lldp_get_chassis_id demo_host [1, 2, 3, 4, 5, 7] (chassis_id demo_peer_info))"
  "unat (lid_len (pf_lldp_get_chassis_id demo_host [1, 2, 3, 4, 5, 7] (chassis_id demo_peer_info))) = 80"
  by code_simp+

lemma demo_port_id:
  "id_announced (pf_lldp_get_port_id demo_host [1, 2, 3, 4, 5, 7] 0 (port_id demo_peer_info))"
  "unat (lid_len (pf_lldp_get_port_id demo_host [1, 2, 3, 4, 5, 7] 0 (port_id demo_peer_info))) = 12"
  by code_simp+

theorem lldp_frame_roundtrip_witness:
  "\<exists>w'. pf_lldp_construct_frame demo_host [1, 2, 3, 4, 5, 7] 1 demo_peer_info 0
      \<lparr>wr_bytes = replicate PF_FRAME_BUFFER_SIZE 0, wr_res_len = of_nat PF_FRAME_BUFFER_SIZE, wr_pos = 0\<rparr> = Some w' \<and>
    take 6 (wr_bytes w') = lldp_dst_addr \<and>
    pf_lldp_parse_packet (drop 14 (wr_bytes w')) (wr_pos w' - 14) demo_peer_info = Some (0, peer_announced
      (pf_lldp_get_chassis_id demo_host [1, 2, 3, 4, 5, 7] (chassis_id demo_peer_info))
      (pf_lldp_get_port_id demo_host [1, 2, 3, 4, 5, 7] 0 (port_id demo_peer_info)) [1, 2, 3, 4, 5, 7]
      (pf_lldp_get_link_status demo_host 0)
      (pf_lldp_get_management_address demo_host 1 (management_address demo_peer_info)) demo_peer_info)"
proof (rule lldp_frame_roundtrip [OF _ _ _ _ _ refl refl demo_chassis_id(1) demo_port_id(1) _ demo_peer_info_ok])
qed (simp_all add: demo_chassis_id(2) demo_port_id(2), simp_all add: demo_host_def demo_port_def
    demo_peer_info_def demo_lldp_id_def)

end
