(* ===== verification/Spec2Isabelle.thy ===== *)
theory Spec2Isabelle
  imports Pn_Scheduler_Props Pn_Block_Props Pn_Alarm_Queue Pn_Eth Pn_Cpm_Correct
    Pn_Diag_Props Pn_Connection Pn_Check_Props Pn_Connect Pn_Rpc_Props Pn_Rpc_Frag Pn_Stack Pn_Watchdog Pn_Lldp_Codec
begin

text \<open>
  p-net, a Profinet IO device stack in C: a model of its protocol machines and what has been proved
  of it.

  \<^bold>\<open>The program.\<close> A controller sets up a connection (an AR, application relation) with DCE/RPC
  requests over UDP. CMRPC takes the packets apart (\<^verbatim>\<open>pf_cmrpc.c\<close>, with the block reader and the
  block writer for the fields), CMDEV checks the request against the modules that are plugged and
  keeps the state of the connection (\<^verbatim>\<open>pf_cmdev.c\<close>), and the small machines CMSU, CMIO, CMSM,
  CMWRR, CMPBE of context management follow its events. The AR has CRs (communication relations):
  a PPM sends input data in cyclic frames (\<^verbatim>\<open>pf_ppm.c\<close>), a CPM receives output data and watches
  that they arrive (\<^verbatim>\<open>pf_cpm.c\<close>); both run on the timers of the scheduler (\<^verbatim>\<open>pf_scheduler.c\<close>) and
  on the dispatch of received frames by frame ID (\<^verbatim>\<open>pf_eth.c\<close>). Alarms have four machines with
  queues in front of them (\<^verbatim>\<open>pf_alarm.c\<close>); diagnosis keeps linked lists of items and sends alarms
  about them (\<^verbatim>\<open>pf_diag.c\<close>). The application plugs modules, reads and writes data and answers
  requests through \<^verbatim>\<open>pnet_api.c\<close>.

  \<^bold>\<open>Theories and code\<close> (files under \<^verbatim>\<open>src/src\<close>; definitions have the names of the functions
  and types of the source, helpers for a part of a function have names of their own):
  \<^item> \<open>Pn_Prelude\<close>: lemmas on lists, options and words; \<open>Pn_Types\<close>: the structs of \<^verbatim>\<open>pf_types.h\<close> and
    \<^verbatim>\<open>pnet_api.h\<close> that the components exchange; \<open>Pn_Interfaces\<close>: the contracts of a timer service
    and of a bounded queue as locales, interpreted in the theories of the scheduler and of the alarm
    queues. The contracts of parsers and of pairs of a parser and a writer are locales of
    \<open>Pn_Block_Reader_Correct\<close> and \<open>Pn_Block_Codec\<close>.
  \<^item> \<open>Pn_Scheduler\<close>, \<open>_Correct\<close>, \<open>_Props\<close>: \<^verbatim>\<open>common/pf_scheduler.c\<close>.
  \<^item> \<open>Pn_Block_Reader\<close>, \<open>Pn_Block_Writer\<close>, their \<open>_Correct\<close> theories, \<open>Pn_Block_Codec\<close> (both
    together) and \<open>Pn_Block_Props\<close>: \<^verbatim>\<open>device/pf_block_reader.c\<close>, \<^verbatim>\<open>device/pf_block_writer.c\<close>.
  \<^item> \<open>Pn_Net\<close>, \<open>Pn_Net_Correct\<close>: the state of the whole stack (the record \<open>pnet\<close>) with access to it;
    \<open>Pn_Demo\<close>: concrete values for the witnesses.
  \<^item> \<open>Pn_Eth\<close>: \<^verbatim>\<open>common/pf_eth.c\<close>; \<open>Pn_Ppm\<close>, \<open>Pn_Cpm\<close>, \<open>Pn_Iodata\<close> with \<open>_Correct\<close>:
    \<^verbatim>\<open>common/pf_ppm.c\<close>, \<^verbatim>\<open>common/pf_cpm.c\<close> and their software drivers; \<open>Pn_Watchdog\<close>: the data
    hold timer.
  \<^item> \<open>Pn_Alarm_Queue\<close>, \<open>_Wire\<close>, \<open>_Send\<close>, \<open>Pn_Alarm\<close>, \<open>Pn_Alarm_Summary\<close>, \<open>Pn_Alarm_Run\<close>:
    \<^verbatim>\<open>common/pf_alarm.c\<close>.
  \<^item> \<open>Pn_Device\<close>, \<open>Pn_Plug\<close>, \<open>Pn_Check\<close>, \<open>Pn_Connect\<close>, \<open>Pn_Connection\<close> with \<open>Pn_Device_Correct\<close>,
    \<open>Pn_Device_Props\<close>, \<open>Pn_Check_Props\<close>: \<^verbatim>\<open>device/pf_cmdev.c\<close>; \<open>Pn_Diag\<close>, \<open>_Correct\<close>, \<open>_Props\<close>:
    \<^verbatim>\<open>device/pf_diag.c\<close>.
  \<^item> \<open>Pn_Abort\<close>, \<open>Pn_Cm\<close>: \<^verbatim>\<open>pf_cmsu.c\<close>, \<^verbatim>\<open>pf_cmio.c\<close>, \<^verbatim>\<open>pf_cmsm.c\<close>, \<^verbatim>\<open>pf_cmpbe.c\<close>, the states of
    \<^verbatim>\<open>pf_cmwrr.c\<close> and the calls of the application in \<^verbatim>\<open>pf_fspm.c\<close>.
  \<^item> \<open>Pn_Rpc_Parse\<close> (taking requests apart), \<open>Pn_Rpc_Send\<close> (sessions, sending, resending),
    \<open>Pn_Rpc\<close> (the requests and their responses, with the dispatch of \<^verbatim>\<open>pf_cmwrr.c\<close>), \<open>Pn_Rpc_Dce\<close>
    (packets, fragments, polling of the sockets): \<^verbatim>\<open>device/pf_cmrpc.c\<close>, \<^verbatim>\<open>pf_cmrpc_helpers.c\<close>,
    \<^verbatim>\<open>common/pf_udp.c\<close>; \<open>Pn_Epm\<close>: \<^verbatim>\<open>device/pf_cmrpc_epm.c\<close>; \<open>Pn_Rpc_Props\<close>, \<open>Pn_Rpc_Frag\<close>: their
    properties.
  \<^item> \<open>Pn_Host\<close>: the configuration, the names and addresses, the ports with their neighbours, and the
    log book; \<open>Pn_Lldp_Frame\<close>, \<open>Pn_Lldp_Props\<close>, \<open>Pn_Lldp_Codec\<close>: the frames of
    \<^verbatim>\<open>common/pf_lldp.c\<close> and their parser.
  \<^item> \<open>Pn_Stack\<close>: timers and frames reach their machines; \<^verbatim>\<open>device/pnet_api.c\<close>.

  \<^bold>\<open>How the code is modelled.\<close> The stack is one record \<open>pnet\<close>, passed and returned; ARs, CRs,
  sessions, modules and timers are elements of its lists, and a pointer to one of them is its index
  (a pointer that may be null, an option). Frame buffers live in a heap of the record, so that leaks
  and double frees show. What the code does to the outside (a frame, a datagram, a call of the
  application) is appended to \<open>net_out\<close>; what comes back from there (does an
  allocation or a transmission succeed, what does the application answer, configuration) is the
  component \<open>net_world\<close>, over which every theorem is quantified. Machine integers are words of the
  width of the source and wrap; where the source computes in a wider type, the model does too.
  \<open>None\<close> is what has no meaning in the source: an access outside an array or through a null pointer,
  a failing \<^verbatim>\<open>CC_ASSERT\<close>, a loop that does not end. Error codes of the source are values. Parsers
  are state monads over \<open>rd\<close>, with a ghost flag for accesses outside an array; writers are partial
  functions on the output buffer. A result passed by pointer is returned.

  \<^bold>\<open>Loops.\<close> Loops over arrays are folds or structural recursions. Where an end is not obvious
  (lists linked by indices, blocks of a request, padding, restarting of timers in a tick) the loop
  is a \<open>partial_function\<close> without bound, and that it returns is a theorem of its own: for the
  scheduler (\<open>pf_scheduler_tick_reload_returns\<close>), for diagnosis (\<open>diag_history_ok\<close>), for the
  requests (\<open>interpreters_return\<close>), for LLDP frames (\<open>lldp_parse_returns\<close>); one does not (\<open>pf_put_padding_align_hangs\<close>).

  \<^bold>\<open>What is proved.\<close> For the scheduler, the invariant of its two linked lists over any history of
  calls, the order of expiry across the wrap of the clock, and what a tick fires. For reader and
  writer, that errors stay, how many bytes are taken, that arrays and buffers are not left
  (with two exceptions, which are stated), layouts and round trips. For cyclic data, that a consumer
  reads what the provider wrote, that no buffer leaks, which counters are accepted, and that a silent
  controller (a run \<open>silence\<close> of expiries and steps that leave the watchdog alone) leads to an abort
  after the data hold time. For alarms, that the queues are FIFO. For the module
  tree and diagnosis, invariants over any history, refinement of lists linked by indices to lists.
  For connect requests, that the checks give every subslot its own area of the frame, so that
  writes of the application do not reach other subslots, and what the checks overlook. For CMRPC,
  that the parsers return, what an accepted connect request has and has counted, what the endpoint mapper answers,
  that fragments of requests are put together, and that those of responses leave gaps. For LLDP, that
  the parser returns inside its arrays and takes out of a frame what the device has put into it. Theorems about
  defects of the code say so in their text.

  \<^bold>\<open>Not modelled.\<close> Printing and logging text, and mutexes (the model runs one operation at a time).
  Services that are called but not modelled are parameters of the definitions that call them:
  reading a record (\<^verbatim>\<open>pf_cmrdr.c\<close>) and storing one (\<open>record_writers\<close>), what PDPORT makes of a new
  connection (\<open>observers\<close>), restarting LLDP, the default configuration of the module tree. Of LLDP,
  the timers, the sending and the storing of what is known of a neighbour are not modelled; the
  state that they use is in \<open>Pn_Host\<close>. DCP, the records of the ports (PDPORT), PTCP, CMINA, files and
  background worker, SNMP, the validation of the configuration and the storage of I\&M data in FSPM
  are not modelled; nor are the operating system ports, the driver of the LAN9662 (it programs a
  chip through a library that is not in the repository), samples and tests. The options of the build
  are those of the default configuration with the optional blocks of a connect request switched on.
\<close>

end
